(* ===== verification/Wayland_Prelude.thy ===== *)
theory Wayland_Prelude
  imports Main "HOL-Library.Word"
begin

text \<open>
  Shared types and automation of the sysc-wayland development: Go's machine types, panics, and
  the world-passing type of a Go function that may panic. A Go function with effects is a HOL
  function from the world to its outcome and the world it leaves behind; a panic keeps the world
  as it was when the panic was raised, because a deferred \<open>recover\<close> in \<open>Context.Dispatch\<close> goes
  on with it. The predicate \<open>keeps\<close> and its introduction rules are the invariant calculus that
  every component uses.
\<close>

type_synonym byte = "8 word"
type_synonym bytes = "byte list"
type_synonym u32 = "32 word"

text \<open>An address of a heap object (a Go pointer to a proxy struct).\<close>

type_synonym ref = nat

text \<open>
  The panics of the code: Go's run-time panics for slice bounds and nil pointers, the explicit
  \<open>panic\<close> calls with their message (and the number it formats), and a panic raised by an application handler.
\<close>

datatype panic =
    IndexOutOfRange
  | NilDereference
  | PanicMsg string
  | PanicFmt string u32
  | HandlerPanic nat

type_synonym ('w, 'a) go = "'w \<Rightarrow> (panic + 'a) \<times> 'w"

definition ret :: "'a \<Rightarrow> ('w, 'a) go" where
  "ret a w = (Inr a, w)"

definition raise :: "panic \<Rightarrow> ('w, 'a) go" where
  "raise p w = (Inl p, w)"

definition bnd :: "('w, 'a) go \<Rightarrow> ('a \<Rightarrow> ('w, 'b) go) \<Rightarrow> ('w, 'b) go" where
  "bnd m f w = (case m w of (Inl p, w') \<Rightarrow> (Inl p, w') | (Inr a, w') \<Rightarrow> f a w')"

text \<open>Sequencing of two statements.\<close>

definition andthen :: "('w, 'a) go \<Rightarrow> ('w, 'b) go \<Rightarrow> ('w, 'b) go" where
  "andthen m n = bnd m (\<lambda>_. n)"

text \<open>Reading and writing the world.\<close>

definition gets :: "('w \<Rightarrow> 'a) \<Rightarrow> ('w, 'a) go" where
  "gets f w = (Inr (f w), w)"

definition modify :: "('w \<Rightarrow> 'w) \<Rightarrow> ('w, unit) go" where
  "modify f w = (Inr (), f w)"

text \<open>A pure computation that may panic, used as a statement.\<close>

definition lift :: "panic + 'a \<Rightarrow> ('w, 'a) go" where
  "lift r w = (r, w)"

text \<open>
  Go's \<open>defer\<close>: the deferred call \<open>c\<close> runs after the body returned or panicked; the outcome is
  the body's unless the deferred call itself panics.
\<close>

definition with_defer :: "('w, unit) go \<Rightarrow> ('w, 'a) go \<Rightarrow> ('w, 'a) go" where
  "with_defer c m w =
     (case m w of (r, w') \<Rightarrow>
        (case c w' of (Inl p, w'') \<Rightarrow> (Inl p, w'') | (Inr _, w'') \<Rightarrow> (r, w'')))"

text \<open>The pure panic computations, without a world.\<close>

definition pbind :: "panic + 'a \<Rightarrow> ('a \<Rightarrow> panic + 'b) \<Rightarrow> panic + 'b" where
  "pbind m f = (case m of Inl p \<Rightarrow> Inl p | Inr a \<Rightarrow> f a)"

lemma pbind_simps [simp]:
  "pbind (Inl p) f = Inl p"
  "pbind (Inr a) f = f a"
  by (simp_all add: pbind_def)

lemma pbind_Inr_iff: "pbind m f = Inr b \<longleftrightarrow> (\<exists>a. m = Inr a \<and> f a = Inr b)"
  by (cases m) auto

named_theorems go_run \<open>running the statements of the world-passing monad\<close>

lemma ret_run [simp, go_run]: "ret a w = (Inr a, w)"
  by (simp add: ret_def)

lemma raise_run [simp, go_run]: "raise p w = (Inl p, w)"
  by (simp add: raise_def)

lemma gets_run [simp, go_run]: "gets f w = (Inr (f w), w)"
  by (simp add: gets_def)

lemma modify_run [simp, go_run]: "modify f w = (Inr (), f w)"
  by (simp add: modify_def)

lemma lift_run [simp, go_run]: "lift r w = (r, w)"
  by (simp add: lift_def)

lemma bnd_run_Inr [go_run]: "m w = (Inr a, w') \<Longrightarrow> bnd m f w = f a w'"
  by (simp add: bnd_def)

lemma bnd_run_Inl [go_run]: "m w = (Inl p, w') \<Longrightarrow> bnd m f w = (Inl p, w')"
  by (simp add: bnd_def)

lemma bnd_simps [simp]:
  "bnd (ret a) f w = f a w"
  "bnd (raise p) g1 w = (Inl p, w)"
  "bnd (gets g) g2 w = g2 (g w) w"
  "bnd (modify h) g3 w = g3 () (h w)"
  by (simp_all add: bnd_def)

lemma bnd_lift_simps [simp]:
  "bnd (lift (Inl p)) f w = (Inl p, w)"
  "bnd (lift (Inr a)) g1 w = g1 a w"
  by (simp_all add: bnd_def)

lemma bnd_assoc: "bnd (bnd m f) g = bnd m (\<lambda>a. bnd (f a) g)"
  by (rule ext) (auto simp: bnd_def split: prod.splits sum.splits)

lemma andthen_simps [simp]:
  "andthen (ret a) n w = n w"
  "andthen (raise p) n1 w = (Inl p, w)"
  "andthen (gets g) n2 w = n2 w"
  "andthen (modify h) n3 w = n3 (h w)"
  by (simp_all add: andthen_def)

lemma andthen_run_Inr [go_run]: "m w = (Inr a, w') \<Longrightarrow> andthen m n w = n w'"
  by (simp add: andthen_def bnd_def)

lemma andthen_run_Inl [go_run]: "m w = (Inl p, w') \<Longrightarrow> andthen m n w = (Inl p, w')"
  by (simp add: andthen_def bnd_def)

subsection \<open>Invariants of effectful functions\<close>

text \<open>
  \<open>keeps I m\<close>: whatever \<open>m\<close> does, returning or panicking, a world that satisfies \<open>I\<close> is left in
  a world that satisfies \<open>I\<close>. \<open>yields I m Q\<close> adds what the returned value satisfies.
\<close>

definition keeps :: "('w \<Rightarrow> bool) \<Rightarrow> ('w, 'a) go \<Rightarrow> bool" where
  "keeps I m \<longleftrightarrow> (\<forall>w. I w \<longrightarrow> I (snd (m w)))"

named_theorems keeps_intro \<open>rules that decompose keeps goals\<close>

lemma keepsI: "(\<And>w. I w \<Longrightarrow> I (snd (m w))) \<Longrightarrow> keeps I m"
  by (simp add: keeps_def)

lemma keepsD: "keeps I m \<Longrightarrow> I w \<Longrightarrow> I (snd (m w))"
  by (simp add: keeps_def)

lemma keepsD': "keeps I m \<Longrightarrow> m w = (r, w') \<Longrightarrow> I w \<Longrightarrow> I w'"
  by (metis keeps_def snd_conv)

lemma keeps_ret [keeps_intro]: "keeps I (ret a)"
  by (rule keepsI) simp

lemma keeps_raise [keeps_intro]: "keeps I (raise p)"
  by (rule keepsI) simp

lemma keeps_gets [keeps_intro]: "keeps I (gets f)"
  by (rule keepsI) simp

lemma keeps_lift [keeps_intro]: "keeps I (lift r)"
  by (rule keepsI) simp

lemma keeps_modify: "(\<And>w. I w \<Longrightarrow> I (f w)) \<Longrightarrow> keeps I (modify f)"
  by (rule keepsI) simp

lemma keeps_bnd [keeps_intro]: "keeps I m \<Longrightarrow> (\<And>a. keeps I (f a)) \<Longrightarrow> keeps I (bnd m f)"
  by (auto simp: keeps_def bnd_def split: prod.splits sum.splits)

lemma keeps_andthen [keeps_intro]: "keeps I m \<Longrightarrow> keeps I n \<Longrightarrow> keeps I (andthen m n)"
  by (simp add: andthen_def keeps_bnd)

lemma keeps_with_defer [keeps_intro]: "keeps I m \<Longrightarrow> keeps I c \<Longrightarrow> keeps I (with_defer c m)"
  by (auto simp: keeps_def with_defer_def split: prod.splits sum.splits)

lemma keeps_if [keeps_intro]:
  "(b \<Longrightarrow> keeps I m) \<Longrightarrow> (\<not> b \<Longrightarrow> keeps I n) \<Longrightarrow> keeps I (if b then m else n)"
  by simp

lemma keeps_option [keeps_intro]:
  "(x = None \<Longrightarrow> keeps I m) \<Longrightarrow> (\<And>a. x = Some a \<Longrightarrow> keeps I (f a)) \<Longrightarrow>
   keeps I (case x of None \<Rightarrow> m | Some a \<Rightarrow> f a)"
  by (cases x) auto

lemma keeps_prod [keeps_intro]:
  "(\<And>a b. x = (a, b) \<Longrightarrow> keeps I (f a b)) \<Longrightarrow> keeps I (case x of (a, b) \<Rightarrow> f a b)"
  by (cases x) auto

lemma keeps_let [keeps_intro]: "keeps I (f x) \<Longrightarrow> keeps I (let a = x in f a)"
  by simp

lemma keeps_conj: "keeps I m \<Longrightarrow> keeps J m \<Longrightarrow> keeps (\<lambda>w. I w \<and> J w) m"
  by (simp add: keeps_def)

subsection \<open>Lists\<close>

lemma butlast_snoc_last: "xs \<noteq> [] \<Longrightarrow> butlast xs @ [last xs] = xs"
  by simp

lemma distinct_butlast_last: "distinct xs \<Longrightarrow> xs \<noteq> [] \<Longrightarrow> last xs \<notin> set (butlast xs)"
  by (metis append_butlast_last_id distinct_append disjoint_iff list.set_intros(1))

end
