(* ===== verification/Go_Errors.thy ===== *)
theory Go_Errors
  imports Wayland_Prelude
begin

text \<open>
  Go error values as the client builds them: the exported sentinels, errors that the operating
  system returns, errors built by \<open>fmt.Errorf\<close> with the errors wrapped by \<open>%w\<close>, and
  \<open>errors.Join\<close>. \<open>errors_is\<close> is \<open>errors.Is\<close> on these values: a walk over the wrapping tree.
\<close>

datatype sentinel =
    ErrReadTimeout
  | ErrDispatchUnableToReadMsg
  | ErrDispatchSenderNotFound
  | ErrDispatchSenderUnsupported
  | ErrPartialFrame
  | ErrFrameSize
  | ErrNilControlCallback
  | ErrUnexpectedEOF
  | ErrNoProgress
  | EOF

text \<open>The formatted arguments of an error message.\<close>

datatype farg = FNum int | FBytes bytes | FPanic panic

text \<open>
  \<open>OsError code timeout\<close> is an error of the net or unix packages; \<open>timeout\<close> is the answer of its
  \<open>net.Error.Timeout\<close> method. \<open>Errorf format args wrapped\<close> is \<open>fmt.Errorf\<close>; \<open>Joined\<close> is a
  non-empty \<open>errors.Join\<close>.
\<close>

datatype gerr =
    Sentinel sentinel
  | OsError int bool
  | Errorf string "farg list" "gerr list"
  | Joined "gerr list"

fun errors_is :: "gerr \<Rightarrow> sentinel \<Rightarrow> bool" where
  "errors_is (Sentinel s) t = (s = t)"
| "errors_is (OsError c b) t = False"
| "errors_is (Errorf f as es) t = (\<exists>e\<in>set es. errors_is e t)"
| "errors_is (Joined es) t = (\<exists>e\<in>set es. errors_is e t)"

text \<open>
  \<open>errors.As\<close> to a \<open>net.Error\<close> finds the first network error of the tree in depth-first order;
  \<open>isDeadline\<close> then asks for its \<open>Timeout\<close>.
\<close>

fun as_net_error :: "gerr \<Rightarrow> bool option"
and as_net_errors :: "gerr list \<Rightarrow> bool option" where
  "as_net_error (Sentinel s) = None"
| "as_net_error (OsError c b) = Some b"
| "as_net_error (Errorf f as es) = as_net_errors es"
| "as_net_error (Joined es) = as_net_errors es"
| "as_net_errors [] = None"
| "as_net_errors (e # es) = (case as_net_error e of None \<Rightarrow> as_net_errors es | Some b \<Rightarrow> Some b)"

definition isDeadline :: "gerr \<Rightarrow> bool" where
  "isDeadline e \<longleftrightarrow> as_net_error e = Some True"

text \<open>\<open>errors.Join\<close> drops nil errors and is nil when nothing is left.\<close>

definition errors_join :: "gerr option list \<Rightarrow> gerr option" where
  "errors_join es = (let ks = List.map_filter (\<lambda>e. e) es in if ks = [] then None else Some (Joined ks))"

lemma errors_join_simps [simp]:
  "errors_join [None, None] = None"
  "errors_join [Some a, None] = Some (Joined [a])"
  "errors_join [None, Some b] = Some (Joined [b])"
  "errors_join [Some a, Some b] = Some (Joined [a, b])"
  by (simp_all add: errors_join_def List.map_filter_def)

lemma errors_is_joined [simp]: "errors_is (Joined [a, b]) s \<longleftrightarrow> errors_is a s \<or> errors_is b s"
  by simp

end
