(* ===== verification/Wire.thy ===== *)
theory Wire
  imports Go_Errors
begin

unbundle bit_operations_syntax

text \<open>
  The wire codec of the client: \<open>Uint32\<close> and \<open>String\<close> (client/event.go), \<open>PutUint32\<close>,
  \<open>PutString\<close> and \<open>PutArray\<close> (client/request.go) and \<open>PaddedLen\<close> (client/util.go), on byte
  lists. The code reads and writes words in the host's byte order through \<open>unsafe\<close>; the model is
  the little-endian host (every platform the module's CI builds). A Go slice is a byte list whose
  capacity is its length: the event loop allocates each body with \<open>make([]byte, n)\<close>.
\<close>

section \<open>Slices and words\<close>

text \<open>Go's \<open>s[lo:hi]\<close> and \<open>s[lo:]\<close>, with the run-time bounds check.\<close>

definition slice :: "'a list \<Rightarrow> nat \<Rightarrow> nat \<Rightarrow> panic + 'a list" where
  "slice s lo hi = (if lo \<le> hi \<and> hi \<le> length s then Inr (take (hi - lo) (drop lo s)) else Inl IndexOutOfRange)"

definition copy_into :: "'a list \<Rightarrow> 'a list \<Rightarrow> 'a list" where
  "copy_into dst src = take (length dst) src @ drop (length src) dst"

definition le_bytes :: "u32 \<Rightarrow> bytes" where
  "le_bytes v = [ucast v, ucast (drop_bit 8 v), ucast (drop_bit 16 v), ucast (drop_bit 24 v)]"

definition le_word :: "byte \<Rightarrow> byte \<Rightarrow> byte \<Rightarrow> byte \<Rightarrow> u32" where
  "le_word a b c d =
     ucast a OR push_bit 8 (ucast b) OR push_bit 16 (ucast c) OR push_bit 24 (ucast d)"

definition Uint32 :: "bytes \<Rightarrow> panic + u32" where
  "Uint32 src = (case src of a # b # c # d # _ \<Rightarrow> Inr (le_word a b c d) | _ \<Rightarrow> Inl IndexOutOfRange)"

definition PutUint32 :: "bytes \<Rightarrow> u32 \<Rightarrow> panic + bytes" where
  "PutUint32 dst v = (if length dst < 4 then Inl IndexOutOfRange else Inr (le_bytes v @ drop 4 dst))"

definition PaddedLen :: "nat \<Rightarrow> nat" where
  "PaddedLen l = (if l AND 3 \<noteq> 0 then l + (4 - (l AND 3)) else l)"

text \<open>\<open>String\<close> cuts the source at its first NUL byte and panics when there is none.\<close>

definition String :: "bytes \<Rightarrow> panic + bytes" where
  "String src =
     (if 0 \<in> set src then Inr (takeWhile (\<lambda>b. b \<noteq> 0) src)
      else Inl (PanicMsg ''client: string is missing a NUL terminator''))"

definition PutString :: "bytes \<Rightarrow> bytes \<Rightarrow> panic + bytes" where
  "PutString dst v =
     pbind (slice dst 0 4) (\<lambda>hd4.
     pbind (PutUint32 hd4 (of_nat (length v + 1))) (\<lambda>hd4'.
     let dst1 = copy_into dst hd4' in
     pbind (slice dst1 4 (length dst1)) (\<lambda>body.
     let dst2 = take 4 dst1 @ copy_into body v in
     if 4 + length v < length dst2 then Inr (dst2[4 + length v := 0]) else Inl IndexOutOfRange)))"

definition PutArray :: "bytes \<Rightarrow> bytes \<Rightarrow> panic + bytes" where
  "PutArray dst a =
     pbind (slice dst 0 4) (\<lambda>hd4.
     pbind (PutUint32 hd4 (of_nat (length a))) (\<lambda>hd4'.
     let dst1 = copy_into dst hd4' in
     pbind (slice dst1 4 (length dst1)) (\<lambda>body.
     Inr (take 4 dst1 @ copy_into body a))))"

section \<open>Decoding event arguments\<close>

text \<open>
  The generated dispatchers walk the body with a cursor \<open>l\<close>. \<open>get_u32 data l\<close> is
  \<open>Uint32(data[l:l+4])\<close>; \<open>get_string\<close>, \<open>get_opt_string\<close> and \<open>get_array\<close> are the inlined blocks for
  strings, nullable strings and arrays (cmd/sysc-wayland-scanner/main.go, lines 913 to 943); they
  also return the advanced cursor.
\<close>

definition get_u32 :: "bytes \<Rightarrow> nat \<Rightarrow> panic + u32" where
  "get_u32 data l = pbind (slice data l (l + 4)) Uint32"

definition counted :: "string \<Rightarrow> bytes \<Rightarrow> nat \<Rightarrow> panic + (nat \<times> nat \<times> nat)" where
  "counted what data l =
     (if length data < l + 4 then Inl (PanicMsg (''client: truncated event '' @ what @ '' length''))
      else pbind (get_u32 data l) (\<lambda>wireLen.
        let l = l + 4 in
        if unat wireLen > length data - l then Inl (PanicMsg (''client: truncated event '' @ what))
        else let n = unat wireLen; padded = PaddedLen n in
          if padded > length data - l then Inl (PanicMsg (''client: truncated event '' @ what @ '' padding''))
          else Inr (l, n, padded)))"

definition get_string :: "bytes \<Rightarrow> nat \<Rightarrow> panic + (bytes \<times> nat)" where
  "get_string data l =
     pbind (counted ''string'' data l) (\<lambda>(l, n, padded).
     pbind (slice data l (l + n)) (\<lambda>s.
     pbind (String s) (\<lambda>v. Inr (v, l + padded))))"

definition get_opt_string :: "bytes \<Rightarrow> nat \<Rightarrow> panic + (bytes option \<times> nat)" where
  "get_opt_string data l =
     pbind (counted ''string'' data l) (\<lambda>(l, n, padded).
     if n = 0 then Inr (None, l + padded)
     else pbind (slice data l (l + n)) (\<lambda>s.
          pbind (String s) (\<lambda>v. Inr (Some v, l + padded))))"

definition get_array :: "bytes \<Rightarrow> nat \<Rightarrow> panic + (bytes \<times> nat)" where
  "get_array data l =
     pbind (counted ''array'' data l) (\<lambda>(l, n, padded).
     pbind (slice data l (l + n)) (\<lambda>s. Inr (copy_into (replicate n 0) s, l + padded)))"

section \<open>Lemmas\<close>

subsection \<open>Slices\<close>

lemma slice_Inr_iff: "slice s lo hi = Inr t \<longleftrightarrow> lo \<le> hi \<and> hi \<le> length s \<and> t = take (hi - lo) (drop lo s)"
  by (auto simp: slice_def)

lemma slice_append [simp]: "slice (xs @ ys @ zs) (length xs) (length xs + length ys) = Inr ys"
  by (simp add: slice_def)

lemma length_copy_into [simp]: "length (copy_into dst src) = length dst"
  by (simp add: copy_into_def)

lemma copy_into_eq_Nil [simp]: "copy_into dst src = [] \<longleftrightarrow> dst = []"
  using length_copy_into [of dst src] by (metis length_0_conv)

lemma copy_into_same [simp]: "length src = length dst \<Longrightarrow> copy_into dst src = src"
  by (simp add: copy_into_def)

lemma copy_into_short: "length src \<le> length dst \<Longrightarrow> copy_into dst src = src @ drop (length src) dst"
  by (simp add: copy_into_def)

subsection \<open>Words\<close>

lemma length_le_bytes [simp]: "length (le_bytes v) = 4"
  by (simp add: le_bytes_def)

lemma le_word_le_bytes [simp]:
  "le_word (ucast v) (ucast (drop_bit 8 v)) (ucast (drop_bit 16 v)) (ucast (drop_bit 24 v)) = v"
proof (rule bit_word_eqI)
  fix n assume "n < LENGTH(32)"
  then have n: "n < 32" by simp
  then consider "n < 8" | "8 \<le> n" "n < 16" | "16 \<le> n" "n < 24" | "24 \<le> n" by linarith
  then show "bit (le_word (ucast v) (ucast (drop_bit 8 v)) (ucast (drop_bit 16 v)) (ucast (drop_bit 24 v))) n = bit v n"
    using n by cases (auto simp: le_word_def bit_or_iff bit_push_bit_iff bit_ucast_iff bit_drop_bit_eq)
qed

lemma Uint32_le_bytes [simp]: "Uint32 (le_bytes v @ rest) = Inr v"
  by (simp add: Uint32_def le_bytes_def)

lemma le_bytes_nonempty [simp]: "le_bytes v \<noteq> []"
  by (simp add: le_bytes_def)

lemma Uint32_le_bytes' [simp]: "Uint32 (le_bytes v) = Inr v"
  using Uint32_le_bytes [of v "[]"] by simp

lemma Uint32_total: "4 \<le> length src \<Longrightarrow> \<exists>v. Uint32 src = Inr v"
  by (auto simp: Uint32_def split: list.splits)

lemma Uint32_Inr_iff: "(\<exists>v. Uint32 src = Inr v) \<longleftrightarrow> 4 \<le> length src"
  by (auto simp: Uint32_def split: list.splits)

lemma le_bytes_inj: "le_bytes v = le_bytes w \<longleftrightarrow> v = w"
  by (metis Uint32_le_bytes' sum.inject(2))

lemma le_bytes_le_word: "le_bytes (le_word a b c d) = [a, b, c, d]"
proof -
  have *: "ucast (le_word a b c d) = a" "ucast (drop_bit 8 (le_word a b c d)) = b"
    "ucast (drop_bit 16 (le_word a b c d)) = c" "ucast (drop_bit 24 (le_word a b c d)) = d"
    by (rule bit_word_eqI,
        auto simp: le_word_def bit_or_iff bit_push_bit_iff bit_ucast_iff bit_drop_bit_eq
             dest: bit_imp_le_length)+
  show ?thesis by (simp add: le_bytes_def *)
qed

lemma PutUint32_Inr: "4 \<le> length dst \<Longrightarrow> PutUint32 dst v = Inr (le_bytes v @ drop 4 dst)"
  by (simp add: PutUint32_def)

subsection \<open>Padding\<close>

lemma and_3_mod: "(l::nat) AND 3 = l mod 4"
  using take_bit_eq_mask [of 2 l] by (simp add: take_bit_eq_mod mask_eq_exp_minus_1)

lemma PaddedLen_alt: "PaddedLen l = 4 * ((l + 3) div 4)"
  unfolding PaddedLen_def and_3_mod by presburger

lemma PaddedLen_ge: "l \<le> PaddedLen l"
  unfolding PaddedLen_alt by presburger

lemma PaddedLen_lt: "PaddedLen l < l + 4"
  unfolding PaddedLen_alt by presburger

lemma PaddedLen_dvd [simp]: "4 dvd PaddedLen l"
  by (simp add: PaddedLen_alt)

lemma PaddedLen_mod [simp]: "PaddedLen l mod 4 = 0"
  by (simp add: PaddedLen_alt)

lemma PaddedLen_0 [simp]: "PaddedLen 0 = 0"
  by (simp add: PaddedLen_alt)

lemma PaddedLen_least: "l \<le> m \<Longrightarrow> 4 dvd m \<Longrightarrow> PaddedLen l \<le> m"
  unfolding PaddedLen_alt by (auto elim!: dvdE)


subsection \<open>What the put operations write\<close>

lemma PutString_value:
  assumes "4 + length v < length dst"
  shows "PutString dst v = Inr (le_bytes (of_nat (length v + 1)) @ v @ 0 # drop (5 + length v) dst)"
proof -
  let ?w = "le_bytes (of_nat (length v + 1))"
  have d1: "copy_into dst (?w @ drop 4 (take 4 dst)) = ?w @ drop 4 dst"
    using assms by (simp add: copy_into_short)
  have d2: "(?w @ v @ drop (length v) (drop 4 dst))[4 + length v := 0] =
      ?w @ v @ 0 # drop (5 + length v) dst"
  proof -
    have "drop (4 + length v) dst = dst ! (4 + length v) # drop (Suc (4 + length v)) dst"
      using assms by (simp only: Cons_nth_drop_Suc)
    then obtain x where "drop (length v) (drop 4 dst) = x # drop (5 + length v) dst"
      by (simp add: add.commute)
    then show ?thesis
      by (simp add: list_update_append)
  qed
  have "PutString dst v = Inr ((?w @ v @ drop (length v) (drop 4 dst))[4 + length v := 0])"
    using assms d1 by (simp add: PutString_def slice_def PutUint32_Inr Let_def copy_into_short)
  then show ?thesis by (simp only: d2)
qed

lemma PutString_panics: "length dst \<le> 4 + length v \<Longrightarrow> \<exists>p. PutString dst v = Inl p"
  by (auto simp: PutString_def slice_def PutUint32_def Let_def pbind_def copy_into_def)

lemma PutArray_value:
  assumes "4 + length a \<le> length dst"
  shows "PutArray dst a = Inr (le_bytes (of_nat (length a)) @ a @ drop (4 + length a) dst)"
proof -
  have d1: "copy_into dst (le_bytes (of_nat (length a)) @ drop 4 (take 4 dst)) =
      le_bytes (of_nat (length a)) @ drop 4 dst"
    using assms by (simp add: copy_into_short)
  show ?thesis
    using assms by (simp add: PutArray_def slice_def PutUint32_Inr Let_def copy_into_short add.commute d1)
qed

subsection \<open>Reading what was written\<close>

lemma get_u32_at [simp]: "get_u32 (pre @ le_bytes v @ post) (length pre) = Inr v"
  using slice_append [of pre "le_bytes v" post] by (simp add: get_u32_def)

lemma get_u32_at': "l = length pre \<Longrightarrow> get_u32 (pre @ le_bytes v @ post) l = Inr v"
  by simp

lemma get_u32_Inr_iff: "(\<exists>v. get_u32 data l = Inr v) \<longleftrightarrow> l + 4 \<le> length data"
  by (auto simp: get_u32_def slice_def Uint32_Inr_iff pbind_Inr_iff split: if_splits)

lemma counted_at:
  assumes "length body < 2 ^ 32" "length pad = PaddedLen (length body) - length body"
  shows "counted what (pre @ le_bytes (of_nat (length body)) @ body @ pad @ post) (length pre) =
    Inr (length pre + 4, length body, PaddedLen (length body))"
proof -
  have "unat (of_nat (length body) :: u32) = length body"
    using assms(1) by (simp add: unat_of_nat)
  moreover have "PaddedLen (length body) = length body + length pad"
    using assms(2) PaddedLen_ge [of "length body"] by simp
  ultimately show ?thesis
    by (simp add: counted_def Let_def)
qed

lemma slice_mid: "slice (pre @ w @ body @ rest) (length pre + length w) (length pre + length w + length body) = Inr body"
  by (simp add: slice_def)

lemma get_string_at:
  assumes "0 \<notin> set v" "length v + 1 < 2 ^ 32" "length pad = PaddedLen (length v + 1) - (length v + 1)"
  shows "get_string (pre @ le_bytes (of_nat (length v + 1)) @ v @ 0 # pad @ post) (length pre) =
    Inr (v, length pre + 4 + PaddedLen (length v + 1))"
proof -
  let ?b = "v @ [0]"
  have c: "counted ''string'' (pre @ le_bytes (of_nat (length ?b)) @ ?b @ pad @ post) (length pre) =
      Inr (length pre + 4, length ?b, PaddedLen (length ?b))"
    by (rule counted_at) (use assms in simp_all)
  have s: "slice (pre @ le_bytes (of_nat (length ?b)) @ ?b @ pad @ post) (length pre + 4) (length pre + 4 + length ?b) = Inr ?b"
    using slice_mid [of pre "le_bytes (of_nat (length ?b))" ?b "pad @ post"] by simp
  have t: "String ?b = Inr v"
    using assms(1) by (simp add: String_def takeWhile_append)
  show ?thesis
    using c s t by (simp add: get_string_def)
qed

lemma get_opt_string_at:
  assumes "0 \<notin> set v" "length v + 1 < 2 ^ 32" "length pad = PaddedLen (length v + 1) - (length v + 1)"
  shows "get_opt_string (pre @ le_bytes (of_nat (length v + 1)) @ v @ 0 # pad @ post) (length pre) =
    Inr (Some v, length pre + 4 + PaddedLen (length v + 1))"
proof -
  let ?b = "v @ [0]"
  have c: "counted ''string'' (pre @ le_bytes (of_nat (length ?b)) @ ?b @ pad @ post) (length pre) =
      Inr (length pre + 4, length ?b, PaddedLen (length ?b))"
    by (rule counted_at) (use assms in simp_all)
  have s: "slice (pre @ le_bytes (of_nat (length ?b)) @ ?b @ pad @ post) (length pre + 4) (length pre + 4 + length ?b) = Inr ?b"
    using slice_mid [of pre "le_bytes (of_nat (length ?b))" ?b "pad @ post"] by simp
  have t: "String ?b = Inr v"
    using assms(1) by (simp add: String_def takeWhile_append)
  show ?thesis
    using c s t by (simp add: get_opt_string_def)
qed

lemma get_opt_string_null: "get_opt_string (pre @ le_bytes 0 @ post) (length pre) = Inr (None, length pre + 4)"
proof -
  have "counted ''string'' (pre @ le_bytes (of_nat (length ([] :: bytes))) @ [] @ [] @ post) (length pre) =
      Inr (length pre + 4, length ([] :: bytes), PaddedLen (length ([] :: bytes)))"
    by (rule counted_at) simp_all
  then show ?thesis by (simp add: get_opt_string_def)
qed

lemma get_array_at:
  assumes "length a < 2 ^ 32" "length pad = PaddedLen (length a) - length a"
  shows "get_array (pre @ le_bytes (of_nat (length a)) @ a @ pad @ post) (length pre) =
    Inr (a, length pre + 4 + PaddedLen (length a))"
  using counted_at [OF assms, of "''array''" pre post]
    slice_mid [of pre "le_bytes (of_nat (length a))" a "pad @ post"]
  by (simp add: get_array_def)

subsection \<open>Decoders stay inside the body\<close>

lemma counted_bounds: "counted what data l = Inr (l', n, padded) \<Longrightarrow>
    l' = l + 4 \<and> padded = PaddedLen n \<and> l' + padded \<le> length data \<and> n \<le> padded"
  by (auto simp: counted_def Let_def pbind_Inr_iff PaddedLen_ge split: if_splits)

lemma String_Inr: "String s = Inr v \<Longrightarrow> 0 \<notin> set v \<and> length v < length s \<and> take (length v) s = v"
proof -
  assume "String s = Inr v"
  then have z: "0 \<in> set s" and v: "v = takeWhile (\<lambda>b. b \<noteq> 0) s"
    by (auto simp: String_def split: if_splits)
  from z have "v \<noteq> s" unfolding v by (metis set_takeWhileD)
  then have "length v \<noteq> length s" using takeWhile_eq_take [of "\<lambda>b. b \<noteq> 0" s] v by force
  moreover have "length v \<le> length s" unfolding v by (rule length_takeWhile_le)
  moreover have "0 \<notin> set v" unfolding v by (auto dest: set_takeWhileD)
  moreover have "take (length v) s = v" unfolding v by (metis takeWhile_eq_take)
  ultimately show ?thesis by simp
qed

lemma get_string_bounds: "get_string data l = Inr (v, l') \<Longrightarrow>
    0 \<notin> set v \<and> l + 4 + length v < l' \<and> l' \<le> length data \<and> take (length v) (drop (l + 4) data) = v"
  by (auto simp: get_string_def pbind_Inr_iff slice_Inr_iff dest!: counted_bounds String_Inr
      split: prod.splits)

section \<open>The second header word\<close>

text \<open>\<open>uint32(_reqBufLen<<16|opcode&0x0000ffff)\<close> of every request, and the frame header it belongs to.\<close>

definition opcode_word :: "u32 \<Rightarrow> u32 \<Rightarrow> u32" where
  "opcode_word sz opcode = push_bit 16 sz OR (opcode AND 0xffff)"

definition frame_header :: "u32 \<Rightarrow> u32 \<Rightarrow> u32 \<Rightarrow> bytes" where
  "frame_header sender opcode sz = le_bytes sender @ le_bytes (opcode_word sz opcode)"

lemma mask16: "(0xffff :: u32) = mask 16"
  by (simp add: mask_eq_exp_minus_1)

lemma take_bit16 [simp]: "v \<le> 0xffff \<Longrightarrow> take_bit 16 v = (v :: u32)"
  by (simp add: word_le_nat_alt word_unat_eq_iff unsigned_take_bit_eq take_bit_nat_eq_self_iff)

lemma and_ffff: "v \<le> 0xffff \<Longrightarrow> v AND 0xffff = (v :: u32)"
  using take_bit16 [of v] unfolding mask16 take_bit_eq_mask by simp

lemma opcode_word_opcode [simp]: "opcode_word sz opcode AND 0xffff = opcode AND 0xffff"
  by (rule bit_word_eqI) (auto simp: opcode_word_def mask16 bit_simps)

lemma opcode_word_size [simp]:
  assumes "sz \<le> 0xffff" shows "drop_bit 16 (opcode_word sz opcode) = sz"
proof -
  have h: "n < 16" if "bit sz n" for n
    using that take_bit16 [OF assms] by (metis bit_take_bit_iff)
  show ?thesis
    by (rule bit_word_eqI) (auto simp: opcode_word_def mask16 bit_simps dest: h)
qed

lemma length_frame_header [simp]: "length (frame_header sender opcode sz) = 8"
  by (simp add: frame_header_def)

lemma frame_header_get [simp]:
  "get_u32 (frame_header sender opcode sz) 0 = Inr sender"
  "get_u32 (frame_header sender opcode sz) 4 = Inr (opcode_word sz opcode)"
  using get_u32_at' [of 0 "[]" sender "le_bytes (opcode_word sz opcode)"]
    get_u32_at' [of 4 "le_bytes sender" "opcode_word sz opcode" "[]"]
  by (simp_all add: frame_header_def)

end
