(* ===== verification/Fixed_Point.thy ===== *)
theory Fixed_Point
  imports Wire "HOL-Library.Log_Nat"
begin

text \<open>
  The 24.8 fixed-point conversions of client/util.go and their wire forms \<open>Fixed\<close>
  (client/event.go) and \<open>PutFixed\<close> (client/request.go). A finite \<open>float64\<close> is the rational number
  it stands for; \<open>rnd64\<close> is IEEE rounding to a 53-bit significand, ties to even (without the
  subnormal and overflow ranges, which these conversions do not reach), and \<open>Float64bits\<close> and
  \<open>Float64frombits\<close> are the binary64 layout of the normal numbers. NaN and the infinities are
  outside the model.
\<close>

definition ilog2 :: "rat \<Rightarrow> int" where
  "ilog2 x = (let (n, d) = quotient_of x; e = bitlen n - bitlen d in if 2 powi e \<le> x then e else e - 1)"

definition round_he :: "rat \<Rightarrow> int" where
  "round_he x =
     (let f = \<lfloor>x\<rfloor>; r = x - of_int f in
      if r < 1 / 2 then f else if r > 1 / 2 then f + 1 else if even f then f else f + 1)"

definition rnd64 :: "rat \<Rightarrow> rat" where
  "rnd64 x = (if x = 0 then 0 else
     (let u = 2 powi (ilog2 \<bar>x\<bar> - 52) in of_int (round_he (x / u)) * u))"

definition Float64bits :: "rat \<Rightarrow> 64 word" where
  "Float64bits x = (if x = 0 then 0 else
     (let e = ilog2 \<bar>x\<bar>; m = \<lfloor>\<bar>x\<bar> / 2 powi (e - 52)\<rfloor> in
      (if x < 0 then push_bit 63 1 else 0) + word_of_int ((e + 1023) * 2 ^ 52 + (m - 2 ^ 52))))"

definition Float64frombits :: "64 word \<Rightarrow> rat" where
  "Float64frombits b =
     (let s = (if bit b 63 then -1 else 1); e = uint (drop_bit 52 b AND 2047); m = uint (take_bit 52 b) in
      if e = 0 then s * of_int m * 2 powi (-1074) else s * of_int (2 ^ 52 + m) * 2 powi (e - 1075))"

text \<open>An \<open>int32\<close> is a 32-bit word read with \<open>sint\<close>; the \<open>int64\<close> sum wraps at 64 bits.\<close>

definition fixedToFloat64 :: "32 word \<Rightarrow> rat" where
  "fixedToFloat64 f =
     (let u_i = push_bit 52 (1023 + 44) + push_bit 51 1 + (scast f :: 64 word);
          u_d = Float64frombits u_i
      in rnd64 (u_d - 3 * 2 ^ 43))"

definition fixedFromfloat64 :: "rat \<Rightarrow> 32 word" where
  "fixedFromfloat64 d =
     (let u_d = rnd64 (d + 3 * 2 ^ (51 - 8));
          u_i = Float64bits u_d
      in ucast u_i)"

definition Fixed :: "bytes \<Rightarrow> panic + rat" where
  "Fixed src = pbind (Uint32 src) (\<lambda>fx. Inr (fixedToFloat64 fx))"

definition PutFixed :: "bytes \<Rightarrow> rat \<Rightarrow> panic + bytes" where
  "PutFixed dst f = PutUint32 dst (fixedFromfloat64 f)"

definition get_fixed :: "bytes \<Rightarrow> nat \<Rightarrow> panic + rat" where
  "get_fixed data l = pbind (slice data l (l + 4)) Fixed"

section \<open>Rounding\<close>

lemma round_he_of_int [simp]: "round_he (of_int k) = k"
  by (simp add: round_he_def)

lemma round_he_add_even: "even k \<Longrightarrow> round_he (x + of_int k) = round_he x + k"
  by (simp add: round_he_def Let_def)

lemma round_he_near: "\<bar>of_int (round_he x) - x\<bar> \<le> 1 / 2"
  using floor_correct [of x] unfolding round_he_def Let_def by (auto split: if_splits)

lemma round_he_bounds: "of_int a \<le> x \<Longrightarrow> x \<le> of_int b \<Longrightarrow> a \<le> round_he x \<and> round_he x \<le> b"
proof -
  assume a: "of_int a \<le> x" and b: "x \<le> of_int b"
  have "a \<le> \<lfloor>x\<rfloor>" using a by (simp add: le_floor_iff)
  moreover have "\<lfloor>x\<rfloor> \<le> b" using b by linarith
  moreover have "\<lfloor>x\<rfloor> + 1 \<le> b" if "x - of_int \<lfloor>x\<rfloor> \<noteq> 0"
    using that b by linarith
  ultimately show ?thesis
    unfolding round_he_def Let_def by auto
qed

lemma bitlen_powi:
  assumes "0 < n"
  shows "2 powi (bitlen n - 1) \<le> (of_int n :: rat)" and "(of_int n :: rat) < 2 powi bitlen n"
proof -
  have b: "2 ^ nat (bitlen n - 1) \<le> n" "n < 2 ^ nat (bitlen n)"
    using bitlen_bounds [OF assms] by auto
  have "bitlen n \<noteq> 0" using b(2) assms by (metis less_one nat_0 not_less power_0 zero_less_iff_neq_zero
        int_one_le_iff_zero_less linorder_not_less)
  then have pos: "0 \<le> bitlen n - 1" using bitlen_nonneg [of n] by linarith
  have "(of_int (2 ^ nat (bitlen n - 1)) :: rat) \<le> of_int n" using b(1) by (simp only: of_int_le_iff)
  then show "2 powi (bitlen n - 1) \<le> (of_int n :: rat)" using pos by (simp add: power_int_def)
  have "(of_int n :: rat) < of_int (2 ^ nat (bitlen n))" using b(2) by (simp only: of_int_less_iff)
  then show "(of_int n :: rat) < 2 powi bitlen n" using pos by (simp add: power_int_def)
qed

lemma powi_less_imp: "(2 :: rat) powi a \<le> x \<Longrightarrow> x < 2 powi b \<Longrightarrow> a < b"
  by (metis dual_order.strict_trans1 not_less_iff_gr_or_eq power_int_strict_increasing less_irrefl
      numeral_One numeral_less_iff semiring_norm(76) order_less_trans)

lemma ilog2_bounds:
  assumes "0 < x"
  shows "2 powi ilog2 x \<le> x" and "x < 2 powi (ilog2 x + 1)"
proof -
  obtain n d where q: "quotient_of x = (n, d)" by (cases "quotient_of x")
  have d: "0 < d" and x: "x = of_int n / of_int d"
    using q quotient_of_denom_pos quotient_of_div by auto
  have n: "0 < n" using assms d x by (simp add: zero_less_divide_iff)
  let ?e = "bitlen n - bitlen d"
  have dp: "0 < (of_int d :: rat)" using d by simp
  have "2 powi (?e - 1) * of_int d < 2 powi (?e - 1) * (2 :: rat) powi bitlen d"
    using bitlen_powi(2) [OF d] by simp
  also have "\<dots> = 2 powi (bitlen n - 1)" by (simp flip: power_int_add)
  also have "\<dots> \<le> of_int n" by (rule bitlen_powi(1) [OF n])
  finally have lo: "2 powi (?e - 1) < x" using dp by (simp add: x less_divide_eq)
  have "(of_int n :: rat) < 2 powi bitlen n" by (rule bitlen_powi(2) [OF n])
  also have "\<dots> = 2 powi (?e + 1) * 2 powi (bitlen d - 1)" by (simp flip: power_int_add)
  also have "\<dots> \<le> 2 powi (?e + 1) * of_int d"
    using bitlen_powi(1) [OF d] by simp
  finally have hi: "x < 2 powi (?e + 1)" using dp by (simp add: x divide_less_eq)
  show "2 powi ilog2 x \<le> x" and "x < 2 powi (ilog2 x + 1)"
    using lo hi by (auto simp: ilog2_def q Let_def)
qed

lemma ilog2_unique: "2 powi k \<le> x \<Longrightarrow> x < 2 powi (k + 1) \<Longrightarrow> ilog2 x = k"
proof -
  assume lo: "2 powi k \<le> x" and hi: "x < 2 powi (k + 1)"
  have pos: "0 < x" using lo by (rule less_le_trans [rotated]) simp
  have "k < ilog2 x + 1" "ilog2 x < k + 1"
    using powi_less_imp [OF lo ilog2_bounds(2) [OF pos]] powi_less_imp [OF ilog2_bounds(1) [OF pos] hi] .
  then show ?thesis by simp
qed

section \<open>The window of the conversions\<close>

text \<open>
  Adding \<open>3 \<cdot> 2^43\<close> moves a value of magnitude below \<open>2^43\<close> into \<open>[2^44, 2^45)\<close>, where one unit in
  the last place is 1/256.
\<close>

lemma ilog2_window: "2 ^ 44 \<le> x \<Longrightarrow> x < 2 ^ 45 \<Longrightarrow> ilog2 x = 44"
  by (rule ilog2_unique) simp_all

lemma ulp_window: "(2 :: rat) powi (44 - 52) = 1 / 256" "(2 :: rat) powi - 8 = 1 / 256"
  by (simp_all add: power_int_def eval_nat_numeral)

lemma rnd64_window:
  assumes "2 ^ 44 \<le> x" "x < 2 ^ 45"
  shows "rnd64 x = of_int (round_he (256 * x)) / 256"
proof -
  show ?thesis
    using assms ilog2_window [OF assms] by (simp add: rnd64_def Let_def mult.commute ulp_window)
qed

lemma Float64bits_window:
  assumes "2 ^ 52 \<le> k" "k < 2 ^ 53"
  shows "Float64bits (of_int k / 256) = word_of_int (1067 * 2 ^ 52 + (k - 2 ^ 52))"
proof -
  have lo: "(2 :: rat) ^ 44 \<le> of_int k / 256"
    using assms(1) of_int_le_iff [of "2 ^ 52" k, where 'a = rat] by simp
  have hi: "of_int k / 256 < (2 :: rat) ^ 45"
    using assms(2) of_int_less_iff [of k "2 ^ 53", where 'a = rat] by simp
  show ?thesis
    using assms ilog2_window [OF lo hi] by (simp add: Float64bits_def Let_def abs_if ulp_window)
qed


text \<open>A multiple of 1/256 of up to 53 bits is a \<open>float64\<close>, so rounding leaves it alone.\<close>

lemma rnd64_256:
  assumes "\<bar>k\<bar> < 2 ^ 53"
  shows "rnd64 (of_int k / 256) = of_int k / 256"
proof (cases "k = 0")
  case False
  let ?x = "\<bar>of_int k / 256 :: rat\<bar>"
  define e where "e = ilog2 ?x"
  have pos: "0 < ?x" using False by simp
  have "?x < 2 powi 45" using assms of_int_less_iff [of "\<bar>k\<bar>" "2 ^ 53", where 'a = rat] by simp
  from powi_less_imp [OF ilog2_bounds(1) [OF pos] this] have e: "e \<le> 44"
    unfolding e_def by linarith
  have "of_int k / 256 / 2 powi (e - 52) = of_int k * (2 :: rat) powi (44 - e)"
    by (simp add: power_int_diff field_simps)
  also have "\<dots> = of_int (k * 2 ^ nat (44 - e))" using e by (simp add: power_int_def)
  finally have q: "of_int k / 256 / (2 :: rat) powi (e - 52) = of_int (k * 2 ^ nat (44 - e))" .
  have "rnd64 (of_int k / 256) = of_int (round_he (of_int k / 256 / 2 powi (e - 52))) * 2 powi (e - 52)"
    using False by (simp add: rnd64_def Let_def e_def)
  also have "\<dots> = of_int k / 256 / 2 powi (e - 52) * 2 powi (e - 52)"
    unfolding q by (simp only: round_he_of_int)
  finally show ?thesis by simp
qed (simp add: rnd64_def)

section \<open>The conversions\<close>

lemma ucast_word_of_int: "(ucast (word_of_int k :: 64 word) :: 32 word) = word_of_int k"
  by (rule bit_word_eqI) (simp add: bit_ucast_iff bit_word_of_int_iff)

lemma fixedFromfloat64_round:
  assumes "\<bar>d\<bar> \<le> 2 ^ 42"
  shows "fixedFromfloat64 d = word_of_int (round_he (256 * d))"
proof -
  let ?r = "round_he (256 * d)" and ?x = "d + 3 * 2 ^ (51 - 8)"
  let ?k = "?r + 3 * 2 ^ 51"
  have "of_int (- (2 ^ 50)) \<le> 256 * d" "256 * d \<le> of_int (2 ^ 50)"
    using assms by (simp_all add: abs_le_iff)
  then have r: "- (2 ^ 50) \<le> ?r" "?r \<le> 2 ^ 50"
    using round_he_bounds by blast+
  have x: "2 ^ 44 \<le> ?x" "?x < 2 ^ 45" using assms by (simp_all add: abs_le_iff)
  have "256 * ?x = 256 * d + of_int (3 * 2 ^ 51)" by simp
  moreover have "round_he (256 * d + of_int (3 * 2 ^ 51)) = ?k" by (rule round_he_add_even) simp
  ultimately have "round_he (256 * ?x) = ?k" by (simp only:)
  then have u: "rnd64 ?x = of_int ?k / 256" using rnd64_window [OF x] by simp
  have "Float64bits (rnd64 ?x) = word_of_int (1067 * 2 ^ 52 + (?k - 2 ^ 52))"
    unfolding u by (rule Float64bits_window) (use r in simp_all)
  then have "fixedFromfloat64 d = ucast (word_of_int (1067 * 2 ^ 52 + (?k - 2 ^ 52)) :: 64 word)"
    by (simp only: fixedFromfloat64_def Let_def)
  also have "\<dots> = word_of_int (1067 * 2 ^ 52 + (?k - 2 ^ 52))"
    by (rule ucast_word_of_int)
  also have "\<dots> = word_of_int ?r" by simp
  finally show ?thesis .
qed

lemma uint_1067: "uint (1067 :: 64 word) = 1067"
  by simp

lemma Float64frombits_window:
  assumes "0 \<le> m" "m < 2 ^ 52"
  shows "Float64frombits (word_of_int (1067 * 2 ^ 52 + m)) = of_int (2 ^ 52 + m) / 256"
proof -
  define U where "U = 1067 * 2 ^ 52 + m"
  let ?w = "word_of_int U :: 64 word"
  have bounds: "0 \<le> U" "U < 2 ^ 63" using assms by (simp_all add: U_def)
  then have U: "uint ?w = U" by (simp add: unsigned_of_int take_bit_eq_mod)
  have "U div 2 ^ 63 = 0" using bounds by simp
  then have s: "\<not> bit ?w 63"
    by (simp only: bit_word_of_int_iff) (simp add: bit_iff_odd)
  have "U div 2 ^ 52 = 1067" using assms unfolding U_def by simp
  then have "uint (drop_bit 52 ?w) = 1067" by (simp only: unsigned_drop_bit_eq) (simp add: U drop_bit_eq_div bounds take_bit_eq_mod)
  then have "drop_bit 52 ?w = 1067" by (metis uint_1067 word_eq_iff_unsigned)
  then have e: "uint (drop_bit 52 ?w AND 2047) = 1067" by simp
  have "U mod 2 ^ 52 = m mod 2 ^ 52" unfolding U_def by (metis add.commute mod_mult_self1 mult.commute)
  then have "U mod 2 ^ 52 = m" using assms by simp
  then have m: "uint (take_bit 52 ?w) = m" by (simp only: unsigned_take_bit_eq) (simp add: U take_bit_eq_mod)
  have "Float64frombits ?w = of_int (2 ^ 52 + m) / 256"
    using s e m by (simp add: Float64frombits_def Let_def ulp_window)
  then show ?thesis by (simp only: U_def)
qed

lemma sint_range: "- (2 ^ 31) \<le> sint (f :: 32 word)" "sint (f :: 32 word) < 2 ^ 31"
  using sint_ge [of f] sint_lt [of f] by simp_all

lemma fixedToFloat64_value: "fixedToFloat64 f = of_int (sint f) / 256"
proof -
  define k where "k = sint f"
  have k: "- (2 ^ 31) \<le> k" "k < 2 ^ 31" using sint_range [of f] by (simp_all only: k_def)
  have "(scast f :: 64 word) = word_of_int k" by (simp only: k_def of_int_sint)
  then have "push_bit 52 (1023 + 44) + push_bit 51 1 + (scast f :: 64 word) =
      word_of_int (1067 * 2 ^ 52 + (2 ^ 51 + k))"
    by (simp add: push_bit_eq_mult)
  moreover have "Float64frombits (word_of_int (1067 * 2 ^ 52 + (2 ^ 51 + k))) = of_int (2 ^ 52 + (2 ^ 51 + k)) / 256"
    by (rule Float64frombits_window) (use k in simp_all)
  ultimately have "fixedToFloat64 f = rnd64 (of_int (2 ^ 52 + (2 ^ 51 + k)) / 256 - 3 * 2 ^ 43)"
    by (simp only: fixedToFloat64_def Let_def)
  also have "of_int (2 ^ 52 + (2 ^ 51 + k)) / 256 - 3 * 2 ^ 43 = (of_int k / 256 :: rat)"
    by (simp add: field_simps)
  also have "rnd64 (of_int k / 256) = of_int k / 256"
    by (rule rnd64_256) (use k in simp)
  finally show ?thesis by (simp only: k_def)
qed

lemma fixed_round_trip: "fixedFromfloat64 (fixedToFloat64 f) = f"
proof -
  define k where "k = sint f"
  have "- (2 ^ 31) \<le> k" "k < 2 ^ 31" using sint_range [of f] by (simp_all only: k_def)
  then have "of_int (- (2 ^ 31)) \<le> (of_int k :: rat)" "(of_int k :: rat) \<le> of_int (2 ^ 31)"
    by (simp_all only: of_int_le_iff)
  then have "\<bar>of_int k / 256 :: rat\<bar> \<le> 2 ^ 42" by (simp add: abs_le_iff)
  then have "fixedFromfloat64 (of_int k / 256) = word_of_int (round_he (of_int k))"
    by (simp add: fixedFromfloat64_round)
  then have "fixedFromfloat64 (of_int k / 256) = word_of_int k" by (simp only: round_he_of_int)
  then show ?thesis by (simp add: fixedToFloat64_value k_def flip: k_def) (simp add: k_def)
qed

end
