(* ===== verification/World.thy ===== *)
theory World
  imports Fixed_Point
begin

text \<open>
  The state of one connection and its surroundings. The record \<open>world\<close> holds the fields of
  \<open>Context\<close> (client/context.go), the heap of proxy structs that Go pointers refer to, the boolean
  variables captured by closures, the kernel side of the socket (a type parameter: its operations
  are the fields of \<open>env\<close>) and a trace of the effects that leave the program. One goroutine owns
  a connection, so the world is passed along sequentially. \<open>BaseProxy\<close> is client/common.go.
\<close>

section \<open>Proxies\<close>

text \<open>The dynamic Go types of proxies: the generated interfaces, and the application's own types.\<close>

datatype iface =
    Display | Registry | Callback | Compositor | ShmPool | Shm | Buffer
  | DataOffer | DataSource | DataDevice | DataDeviceManager
  | Shell | ShellSurface | Surface | Seat | Pointer | Keyboard | Touch | Output
  | Region | Subcompositor | Subsurface | Fixes
  | ExtIdleNotifierV1 | ExtIdleNotificationV1
  | ExtSessionLockManagerV1 | ExtSessionLockV1 | ExtSessionLockSurfaceV1
  | WpCursorShapeManagerV1 | WpCursorShapeDeviceV1
  | ZwpTextInputV3 | ZwpTextInputManagerV3
  | ZwpTabletManagerV2 | ZwpTabletSeatV2 | ZwpTabletToolV2 | ZwpTabletV2
  | ZwpTabletPadRingV2 | ZwpTabletPadStripV2 | ZwpTabletPadGroupV2 | ZwpTabletPadV2
  | Custom nat

text \<open>
  A function value stored in a handler field: a closure of the application, or the closure of
  \<open>Display.Roundtrip\<close> that sets its captured variable.
\<close>

datatype hid = UserHandler nat | SetFlag nat

text \<open>
  \<open>BaseProxy\<close> embedded in a generated struct: \<open>ctx\<close> (nil or the one context of the world), \<open>id\<close>,
  \<open>zombie\<close>, and the handler fields of the struct by their Go name.
\<close>

record proxy =
  px_type :: iface
  px_ctx :: bool
  px_id :: u32
  px_zombie :: bool
  px_handlers :: "string \<Rightarrow> hid option"

definition new_proxy :: "iface \<Rightarrow> proxy" where
  "new_proxy t = \<lparr>px_type = t, px_ctx = False, px_id = 0, px_zombie = False, px_handlers = (\<lambda>_. None)\<rparr>"

section \<open>Events\<close>

text \<open>
  The value of an event struct: its Go type name and its fields in order. An \<open>int32\<close> is the word
  that \<open>sint\<close> reads; a pointer or interface field is \<open>None\<close> for nil.
\<close>

datatype gval =
    VUint u32
  | VInt "32 word"
  | VFixed rat
  | VString bytes
  | VOptString "bytes option"
  | VArray bytes
  | VFd int
  | VObj "ref option"

datatype ev = Ev string "(string \<times> gval) list"

datatype effect =
    Received "int list"
  | Closed int
  | Handled hid ev

section \<open>The world\<close>

record 'k world =
  objects :: "u32 \<Rightarrow> ref option"
  freeIDs :: "u32 list"
  currentID :: u32
  fatalErr :: "gerr option"
  pendingFDs :: "int list"
  conn :: 'k
  heap :: "ref \<Rightarrow> proxy option"
  next_ref :: ref
  flags :: "nat \<Rightarrow> bool"
  next_flag :: nat
  trace :: "effect list"

text \<open>
  The scratch buffers \<open>oob\<close> and \<open>header\<close> have no field of their own: the kernel overwrites the part
  of \<open>oob\<close> that a receive reports and only that part is read, and \<open>header\<close> is read only after all of
  it has been filled, so nothing of an earlier frame is ever seen. A context as \<open>Connect\<close> builds it, over a
  connection in kernel state \<open>k\<close>:
\<close>

definition empty_world :: "'k \<Rightarrow> 'k world" where
  "empty_world k = \<lparr>objects = (\<lambda>_. None), freeIDs = [], currentID = 0, fatalErr = None,
     pendingFDs = [], conn = k, heap = (\<lambda>_. None), next_ref = 0, flags = (\<lambda>_. False),
     next_flag = 0, trace = []\<rparr>"

text \<open>
  What the program is given: the socket operations of the net and unix packages, the parsers of
  control messages of golang.org/x/sys/unix, and the application's event handlers. One receive
  reports the byte count \<open>n\<close> (a failed call's negative count is 0, which the code treats alike),
  the bytes written to the buffer, the size and content of the ancillary data, the message flags
  and the error.
\<close>

record recv =
  rc_n :: nat
  rc_data :: bytes
  rc_oobn :: nat
  rc_oob :: bytes
  rc_flags :: u32
  rc_err :: "gerr option"

type_synonym scm = "int \<times> int \<times> bytes"

record 'k env =
  recvmsg :: "'k \<Rightarrow> nat \<Rightarrow> recv \<times> 'k"
  oob_space :: nat
  parse_scm :: "bytes \<Rightarrow> gerr + scm list"
  parse_rights :: "scm \<Rightarrow> int list \<times> gerr option"
  unix_rights :: "int \<Rightarrow> bytes"
  sendmsg :: "'k \<Rightarrow> bytes \<Rightarrow> bytes \<Rightarrow> (int \<times> int \<times> gerr option) \<times> 'k"
  sendplain :: "'k \<Rightarrow> bytes \<Rightarrow> (int \<times> gerr option) \<times> 'k"
  close_conn :: "'k \<Rightarrow> gerr option \<times> 'k"
  handler :: "nat \<Rightarrow> ev \<Rightarrow> ('k world, unit) go"

section \<open>Heap access\<close>

definition deref :: "ref \<Rightarrow> ('k world, proxy) go" where
  "deref r w = (case heap w r of None \<Rightarrow> (Inl NilDereference, w) | Some p \<Rightarrow> (Inr p, w))"

definition put_proxy :: "ref \<Rightarrow> proxy \<Rightarrow> ('k world, unit) go" where
  "put_proxy r p = modify (\<lambda>w. w\<lparr>heap := (heap w)(r := Some p)\<rparr>)"

definition alloc :: "proxy \<Rightarrow> ('k world, ref) go" where
  "alloc p w = (Inr (next_ref w), w\<lparr>heap := (heap w)(next_ref w := Some p), next_ref := Suc (next_ref w)\<rparr>)"

text \<open>Calling a method on a pointer that may be nil.\<close>

definition nonnil :: "ref option \<Rightarrow> ('k world, ref) go" where
  "nonnil x = (case x of None \<Rightarrow> raise NilDereference | Some r \<Rightarrow> ret r)"

section \<open>BaseProxy\<close>

definition ID :: "ref \<Rightarrow> ('k world, u32) go" where
  "ID r = bnd (deref r) (\<lambda>p. ret (px_id p))"

definition SetID :: "ref \<Rightarrow> u32 \<Rightarrow> ('k world, unit) go" where
  "SetID r n = bnd (deref r) (\<lambda>p. put_proxy r (p\<lparr>px_id := n\<rparr>))"

text \<open>\<open>p.Context()\<close> as the receiver of a method call: a nil context panics there.\<close>

definition Context_of :: "ref \<Rightarrow> ('k world, unit) go" where
  "Context_of r = bnd (deref r) (\<lambda>p. if px_ctx p then ret () else raise NilDereference)"

definition SetContext :: "ref \<Rightarrow> ('k world, unit) go" where
  "SetContext r = bnd (deref r) (\<lambda>p. put_proxy r (p\<lparr>px_ctx := True\<rparr>))"

definition IsZombie :: "ref \<Rightarrow> ('k world, bool) go" where
  "IsZombie r = bnd (deref r) (\<lambda>p. ret (px_zombie p))"

definition MarkZombie :: "ref \<Rightarrow> ('k world, unit) go" where
  "MarkZombie r = bnd (deref r) (\<lambda>p. put_proxy r (p\<lparr>px_zombie := True\<rparr>))"

text \<open>The argument \<open>x.ID()\<close> of a request, for an object argument that may be nil.\<close>

definition ID_arg :: "ref option \<Rightarrow> ('k world, u32) go" where
  "ID_arg x = bnd (nonnil x) ID"

section \<open>Handler fields\<close>

definition SetHandler :: "ref \<Rightarrow> string \<Rightarrow> hid option \<Rightarrow> ('k world, unit) go" where
  "SetHandler r name h =
     bnd (deref r) (\<lambda>p. put_proxy r (p\<lparr>px_handlers := (px_handlers p)(name := h)\<rparr>))"

definition handler_of :: "ref \<Rightarrow> string \<Rightarrow> ('k world, hid option) go" where
  "handler_of r name = bnd (deref r) (\<lambda>p. ret (px_handlers p name))"

definition log_effect :: "effect \<Rightarrow> ('k world, unit) go" where
  "log_effect x = modify (\<lambda>w. w\<lparr>trace := trace w @ [x]\<rparr>)"

definition run_handler :: "'k env \<Rightarrow> hid \<Rightarrow> ev \<Rightarrow> ('k world, unit) go" where
  "run_handler E h e =
     (case h of UserHandler n \<Rightarrow> handler E n e
      | SetFlag c \<Rightarrow> modify (\<lambda>w. w\<lparr>flags := (flags w)(c := True)\<rparr>))"

text \<open>\<open>i.<name>(e)\<close>: calling a handler field.\<close>

definition call_handler :: "'k env \<Rightarrow> ref \<Rightarrow> string \<Rightarrow> ev \<Rightarrow> ('k world, unit) go" where
  "call_handler E r name e =
     bnd (handler_of r name) (\<lambda>h.
       case h of None \<Rightarrow> raise NilDereference
       | Some h \<Rightarrow> andthen (log_effect (Handled h e)) (run_handler E h e))"

section \<open>Running heap operations\<close>

lemma deref_run: "heap w r = Some p \<Longrightarrow> deref r w = (Inr p, w)"
  by (simp add: deref_def)

lemma deref_nil: "heap w r = None \<Longrightarrow> deref r w = (Inl NilDereference, w)"
  by (simp add: deref_def)

lemma bnd_deref: "heap w r = Some p \<Longrightarrow> bnd (deref r) f w = f p w"
  by (simp add: bnd_def deref_def)

lemma bnd_deref_nil: "heap w r = None \<Longrightarrow> bnd (deref r) f w = (Inl NilDereference, w)"
  by (simp add: bnd_def deref_def)

lemma bnd_alloc [simp]:
  "bnd (alloc p) f w =
     f (next_ref w) (w\<lparr>heap := (heap w)(next_ref w := Some p), next_ref := Suc (next_ref w)\<rparr>)"
  by (simp add: bnd_def alloc_def)

lemma bnd_put_proxy [simp]: "bnd (put_proxy r p) f w = f () (w\<lparr>heap := (heap w)(r := Some p)\<rparr>)"
  by (simp add: put_proxy_def)

lemma put_proxy_run [simp]: "put_proxy r p w = (Inr (), w\<lparr>heap := (heap w)(r := Some p)\<rparr>)"
  by (simp add: put_proxy_def)

lemma andthen_put_proxy [simp]: "andthen (put_proxy r p) n w = n (w\<lparr>heap := (heap w)(r := Some p)\<rparr>)"
  by (simp add: andthen_def)

lemma log_effect_run [simp]: "log_effect x w = (Inr (), w\<lparr>trace := trace w @ [x]\<rparr>)"
  by (simp add: log_effect_def)

lemma andthen_log_effect [simp]: "andthen (log_effect x) n w = n (w\<lparr>trace := trace w @ [x]\<rparr>)"
  by (simp add: log_effect_def)

lemma ID_run: "heap w r = Some p \<Longrightarrow> ID r w = (Inr (px_id p), w)"
  by (simp add: ID_def bnd_deref)

lemma IsZombie_run: "heap w r = Some p \<Longrightarrow> IsZombie r w = (Inr (px_zombie p), w)"
  by (simp add: IsZombie_def bnd_deref)

lemma MarkZombie_run:
  "heap w r = Some p \<Longrightarrow> MarkZombie r w = (Inr (), w\<lparr>heap := (heap w)(r := Some (p\<lparr>px_zombie := True\<rparr>))\<rparr>)"
  by (simp add: MarkZombie_def bnd_deref)

lemma Context_of_run: "heap w r = Some p \<Longrightarrow> px_ctx p \<Longrightarrow> Context_of r w = (Inr (), w)"
  by (simp add: Context_of_def bnd_deref)

lemmas proxy_run = ID_run IsZombie_run MarkZombie_run Context_of_run deref_run

section \<open>Invariants of the heap operations\<close>

text \<open>
  Operations that only read never change the world; the others change one heap cell. The rules
  below reduce an invariant to the two facts \<open>heap_closed\<close>: it survives an update of one cell
  that keeps the cell's type and ID, and allocation of a cell.
\<close>

lemma keeps_deref [keeps_intro]: "keeps I (deref r)"
  by (rule keepsI) (auto simp: deref_def split: option.splits)

lemma keeps_nonnil [keeps_intro]: "keeps I (nonnil x)"
  by (cases x) (simp_all add: nonnil_def keeps_intro)

lemma keeps_ID [keeps_intro]: "keeps I (ID r)"
  by (simp add: ID_def keeps_intro)

lemma keeps_ID_arg [keeps_intro]: "keeps I (ID_arg x)"
  by (simp add: ID_arg_def keeps_intro)

lemma keeps_IsZombie [keeps_intro]: "keeps I (IsZombie r)"
  by (simp add: IsZombie_def keeps_intro)

lemma keeps_Context_of [keeps_intro]: "keeps I (Context_of r)"
  by (simp add: Context_of_def keeps_intro)

lemma keeps_handler_of [keeps_intro]: "keeps I (handler_of r name)"
  by (simp add: handler_of_def keeps_intro)

end
