(* ===== verification/Id_Allocator.thy ===== *)
theory Id_Allocator
  imports World
begin

text \<open>
  The object map of a context: \<open>Register\<close>, \<open>RegisterWithID\<close>, \<open>Unregister\<close>, \<open>DeleteID\<close>, \<open>GetProxy\<close>
  and \<open>lookupProxy\<close> (client/context.go, lines 16 to 102), and the constructors of generated types.
  The free list is a stack at the end of the slice. The theory shows that object IDs are unique,
  that the client range and the server range stay apart, that recycled IDs are never live, and
  that the ID counter is exactly the peak number of simultaneously allocated client IDs.
\<close>

section \<open>Operations\<close>

definition firstServerID :: u32 where
  "firstServerID = 0xff000000"

text \<open>
  The first loop of \<open>Register\<close>: pop candidates off the end of \<open>freeIDs\<close> until one is not live;
  \<open>id\<close> stays 0 when none is left.
\<close>

function pop_free :: "(u32 \<Rightarrow> ref option) \<Rightarrow> u32 list \<Rightarrow> u32 \<times> u32 list" where
  "pop_free objs fs =
     (if fs = [] then (0, [])
      else let cand = last fs; fs' = butlast fs in
        if objs cand = None then (cand, fs') else pop_free objs fs')"
  by pat_completeness auto
termination
  by (relation "measure (\<lambda>(objs, fs). length fs)") auto

declare pop_free.simps [simp del]

text \<open>
  The second loop: advance the counter until an ID is free. It returns the ID, or \<open>None\<close> for the
  panic, and the counter, which keeps what it advanced when the loop panics.
\<close>

function next_id :: "(u32 \<Rightarrow> ref option) \<Rightarrow> u32 \<Rightarrow> u32 option \<times> u32" where
  "next_id objs cur =
     (if cur \<ge> firstServerID - 1 then (None, cur)
      else let cur' = cur + 1 in
        if objs cur' = None then (Some cur', cur') else next_id objs cur')"
  by pat_completeness auto
termination
  by (relation "measure (\<lambda>(objs, cur). unat (0xfeffffff :: u32) - unat cur)")
    (auto simp: firstServerID_def word_le_nat_alt unat_word_ariths)

declare next_id.simps [simp del]

text \<open>The shared tail of the two registrations.\<close>

definition install :: "ref \<Rightarrow> u32 \<Rightarrow> ('k world, unit) go" where
  "install r n =
     andthen (SetID r n) (andthen (SetContext r)
       (modify (\<lambda>w. w\<lparr>objects := (objects w)(n := Some r)\<rparr>)))"

definition Register :: "ref \<Rightarrow> ('k world, unit) go" where
  "Register r w =
     (let (n, fs) = pop_free (objects w) (freeIDs w); w1 = w\<lparr>freeIDs := fs\<rparr> in
      if n \<noteq> 0 then install r n w1
      else (case next_id (objects w1) (currentID w1) of
          (None, cur) \<Rightarrow> raise (PanicMsg ''client: Wayland object ID space exhausted'') (w1\<lparr>currentID := cur\<rparr>)
        | (Some m, cur) \<Rightarrow> install r m (w1\<lparr>currentID := cur\<rparr>)))"

definition RegisterWithID :: "ref \<Rightarrow> u32 \<Rightarrow> ('k world, unit) go" where
  "RegisterWithID r n =
     (if n < firstServerID then raise (PanicFmt ''client: invalid server object ID '' n)
      else bnd (gets (\<lambda>w. objects w n)) (\<lambda>old.
        bnd (case old of None \<Rightarrow> ret False | Some q \<Rightarrow> bnd (IsZombie q) (\<lambda>z. ret (\<not> z))) (\<lambda>dup.
        if dup then raise (PanicFmt ''client: duplicate Wayland object ID '' n)
        else install r n)))"

definition Unregister :: "ref \<Rightarrow> ('k world, unit) go" where
  "Unregister r = bnd (ID r) (\<lambda>n. modify (\<lambda>w. w\<lparr>objects := (objects w)(n := None)\<rparr>))"

definition DeleteID :: "u32 \<Rightarrow> ('k world, unit) go" where
  "DeleteID n = modify (\<lambda>w.
     if objects w n = None then w
     else let w1 = w\<lparr>objects := (objects w)(n := None)\<rparr> in
       if n > 1 \<and> n < firstServerID then w1\<lparr>freeIDs := freeIDs w1 @ [n]\<rparr> else w1)"

definition lookupProxy :: "u32 \<Rightarrow> ('k world, ref option) go" where
  "lookupProxy n = gets (\<lambda>w. objects w n)"

definition GetProxy :: "u32 \<Rightarrow> ('k world, ref option) go" where
  "GetProxy n = lookupProxy n"

text \<open>The constructor pattern \<open>x := &T{}; ctx.Register(x); return x\<close> of every generated type.\<close>

definition New :: "iface \<Rightarrow> ('k world, ref) go" where
  "New t = bnd (alloc (new_proxy t)) (\<lambda>r. andthen (Register r) (ret r))"

text \<open>The pattern \<open>x := &T{}; ctx.RegisterWithID(x, id)\<close> of a \<open>new_id\<close> event argument.\<close>

definition NewWithID :: "iface \<Rightarrow> u32 \<Rightarrow> ('k world, ref) go" where
  "NewWithID t n = bnd (alloc (new_proxy t)) (\<lambda>r. andthen (RegisterWithID r n) (ret r))"

section \<open>Well-formed contexts\<close>

text \<open>
  \<open>ids_ok\<close>: the counter stays in the client range, every object ID is either allocated by the
  counter or a server ID, and the free list holds distinct, allocated, dead IDs (never the
  display's). \<open>heap_ok\<close>: every registered proxy exists and carries the ID it is registered under.
\<close>

definition ids_ok :: "'k world \<Rightarrow> bool" where
  "ids_ok w \<longleftrightarrow>
     currentID w < firstServerID \<and>
     (\<forall>n. objects w n \<noteq> None \<longrightarrow> n \<noteq> 0 \<and> (n \<le> currentID w \<or> firstServerID \<le> n)) \<and>
     distinct (freeIDs w) \<and>
     (\<forall>n\<in>set (freeIDs w). 1 < n \<and> n \<le> currentID w \<and> objects w n = None)"

definition heap_ok :: "'k world \<Rightarrow> bool" where
  "heap_ok w \<longleftrightarrow>
     (\<forall>n r. objects w n = Some r \<longrightarrow> (\<exists>p. heap w r = Some p \<and> px_id p = n \<and> px_ctx p)) \<and>
     (\<forall>r. heap w r \<noteq> None \<longrightarrow> r < next_ref w)"

definition wf_world :: "'k world \<Rightarrow> bool" where
  "wf_world w \<longleftrightarrow> ids_ok w \<and> heap_ok w"

definition registered :: "'k world \<Rightarrow> ref \<Rightarrow> bool" where
  "registered w r \<longleftrightarrow> (\<exists>n. objects w n = Some r)"

lemma wf_world_empty: "wf_world (empty_world k)"
  by (simp add: wf_world_def ids_ok_def heap_ok_def empty_world_def firstServerID_def)

lemma heap_ok_inj: "heap_ok w \<Longrightarrow> objects w n = Some r \<Longrightarrow> objects w m = Some r \<Longrightarrow> n = m"
  unfolding heap_ok_def by (metis option.inject)

lemma heap_ok_lookup: "heap_ok w \<Longrightarrow> objects w n = Some r \<Longrightarrow> \<exists>p. heap w r = Some p \<and> px_id p = n \<and> px_ctx p"
  by (simp add: heap_ok_def)

lemma heap_ok_fresh: "heap_ok w \<Longrightarrow> heap w (next_ref w) = None"
  by (auto simp: heap_ok_def)

lemma heap_ok_unregistered: "heap_ok w \<Longrightarrow> \<not> registered w (next_ref w)"
  using heap_ok_fresh heap_ok_lookup by (fastforce simp: registered_def)

section \<open>The two loops\<close>

lemma pop_free_nil [simp]: "pop_free objs [] = (0, [])"
  by (simp add: pop_free.simps)

lemma pop_free_dead_last: "fs \<noteq> [] \<Longrightarrow> objs (last fs) = None \<Longrightarrow> pop_free objs fs = (last fs, butlast fs)"
  by (simp add: pop_free.simps [of objs fs])

lemma pop_free_snoc [simp]:
  "pop_free objs (fs @ [n]) = (if objs n = None then (n, fs) else pop_free objs fs)"
  by (simp add: pop_free.simps [of objs "fs @ [n]"])

text \<open>Without any assumption on the free list: what is popped is dead, what is left is a prefix.\<close>

lemma pop_free_sound:
  "pop_free objs fs = (n, fs') \<Longrightarrow> (n = 0 \<and> fs' = []) \<or> (objs n = None \<and> (\<exists>rest. fs = fs' @ n # rest))"
proof (induction fs arbitrary: n fs' rule: rev_induct)
  case (snoc x xs)
  show ?case
  proof (cases "objs x = None")
    case True
    then show ?thesis using snoc.prems by auto
  next
    case False
    then obtain y where "objs x = Some y" by auto
    then have "pop_free objs xs = (n, fs')" using snoc.prems by simp
    from snoc.IH [OF this] show ?thesis by auto
  qed
qed auto

lemma next_id_dead_next:
  "cur < firstServerID - 1 \<Longrightarrow> objs (cur + 1) = None \<Longrightarrow> next_id objs cur = (Some (cur + 1), cur + 1)"
  by (subst next_id.simps) (auto simp: Let_def)

lemma next_id_exhausted: "firstServerID - 1 \<le> cur \<Longrightarrow> next_id objs cur = (None, cur)"
  by (subst next_id.simps) simp

lemma unat_Suc_below: "(cur :: u32) < firstServerID - 1 \<Longrightarrow> unat (cur + 1) = unat cur + 1"
  by (simp add: word_less_nat_alt firstServerID_def unat_word_ariths)

lemma next_id_Some:
  "next_id objs cur = (Some n, cur') \<Longrightarrow> n = cur' \<and> cur < n \<and> n < firstServerID \<and> objs n = None"
proof (induction objs cur rule: next_id.induct)
  case (1 objs cur)
  have less: "cur < cur + 1" "cur + 1 < firstServerID" if "cur < firstServerID - 1"
    using that unat_Suc_below [OF that] by (simp_all add: word_less_nat_alt firstServerID_def)
  show ?case
  proof (cases "firstServerID - 1 \<le> cur")
    case True
    then show ?thesis using 1 next_id_exhausted by simp
  next
    case F: False
    then have lt: "cur < firstServerID - 1" by simp
    show ?thesis
    proof (cases "objs (cur + 1) = None")
      case True
      then have "(Some n, cur') = (Some (cur + 1), cur + 1)"
        using 1(2) next_id_dead_next [OF lt, of objs] by metis
      then show ?thesis using True less [OF lt] by simp
    next
      case False
      then obtain y where "objs (cur + 1) = Some y" by auto
      then have "next_id objs cur = next_id objs (cur + 1)"
        using F by (subst next_id.simps) (simp add: Let_def)
      then have r: "next_id objs (cur + 1) = (Some n, cur')" using 1(2) by simp
      from 1(1) [OF F refl False r] less [OF lt] show ?thesis by auto
    qed
  qed
qed


section \<open>Registration\<close>

lemma install_run:
  assumes "heap w r = Some p"
  shows "install r n w = (Inr (), w\<lparr>heap := (heap w)(r := Some (p\<lparr>px_id := n, px_ctx := True\<rparr>)),
    objects := (objects w)(n := Some r)\<rparr>)"
  using assms by (simp add: install_def SetID_def SetContext_def andthen_def bnd_deref bnd_assoc)

text \<open>
  What a registration of a proxy under \<open>n\<close> makes of a world, next to its allocation state. The
  rest of the world is unchanged.
\<close>

definition registered_as :: "ref \<Rightarrow> proxy \<Rightarrow> u32 \<Rightarrow> 'k world \<Rightarrow> 'k world \<Rightarrow> bool" where
  "registered_as r p n w w' \<longleftrightarrow>
     objects w' = (objects w)(n := Some r) \<and>
     heap w' = (heap w)(r := Some (p\<lparr>px_id := n, px_ctx := True\<rparr>)) \<and>
     w\<lparr>objects := objects w', heap := heap w', freeIDs := freeIDs w', currentID := currentID w'\<rparr> = w'"

lemma registered_as_next_ref: "registered_as r p n w w' \<Longrightarrow> next_ref w' = next_ref w"
  unfolding registered_as_def by (drule conjunct2, drule conjunct2, drule arg_cong [of _ _ next_ref]) simp

lemma registered_as_frame:
  assumes "registered_as r p n w w'"
  shows "fatalErr w' = fatalErr w" "pendingFDs w' = pendingFDs w" "conn w' = conn w"
    "flags w' = flags w" "next_flag w' = next_flag w" "trace w' = trace w"
proof -
  have e: "w' = w\<lparr>objects := objects w', heap := heap w', freeIDs := freeIDs w', currentID := currentID w'\<rparr>"
    using assms unfolding registered_as_def by (elim conjE) (erule sym)
  show "fatalErr w' = fatalErr w" "pendingFDs w' = pendingFDs w" "conn w' = conn w"
    "flags w' = flags w" "next_flag w' = next_flag w" "trace w' = trace w"
    by (subst e, simp)+
qed

lemma Register_recycles:
  assumes ok: "ids_ok w" and free: "freeIDs w \<noteq> []" and p: "heap w r = Some p"
  shows "\<exists>w'. Register r w = (Inr (), w') \<and> registered_as r p (last (freeIDs w)) w w' \<and>
    freeIDs w' = butlast (freeIDs w) \<and> currentID w' = currentID w"
proof -
  let ?n = "last (freeIDs w)"
  have n: "1 < ?n" "objects w ?n = None"
    using ok free last_in_set [OF free] by (auto simp: ids_ok_def)
  then have "?n \<noteq> 0" by auto
  then show ?thesis
    using n p free by (simp add: Register_def pop_free_dead_last install_run registered_as_def)
qed

lemma next_id_dead:
  assumes ok: "ids_ok w" and room: "currentID w < firstServerID - 1"
  shows "objects w (currentID w + 1) = None"
proof -
  have suc: "unat (currentID w + 1) = unat (currentID w) + 1" by (rule unat_Suc_below [OF room])
  have "\<not> (currentID w + 1 \<le> currentID w \<or> firstServerID \<le> currentID w + 1)"
    using suc room by (auto simp: word_le_nat_alt word_less_nat_alt firstServerID_def)
  then show ?thesis using ok by (auto simp: ids_ok_def)
qed

lemma Register_grows:
  assumes ok: "ids_ok w" and free: "freeIDs w = []" and room: "currentID w < firstServerID - 1"
    and p: "heap w r = Some p"
  shows "\<exists>w'. Register r w = (Inr (), w') \<and> registered_as r p (currentID w + 1) w w' \<and>
    freeIDs w' = [] \<and> currentID w' = currentID w + 1"
proof -
  show ?thesis
    using next_id_dead [OF ok room] p free room by (simp add: Register_def next_id_dead_next install_run registered_as_def)
qed

lemma Register_exhausted:
  assumes "freeIDs w = []" and "firstServerID - 1 \<le> currentID w"
  shows "Register r w = (Inl (PanicMsg ''client: Wayland object ID space exhausted''), w)"
  using assms by (simp add: Register_def next_id_exhausted)

lemma ids_ok_recycle:
  assumes ok: "ids_ok w" and free: "freeIDs w \<noteq> []"
    and w': "objects w' = (objects w)(last (freeIDs w) := Some r)" "freeIDs w' = butlast (freeIDs w)"
      "currentID w' = currentID w"
  shows "ids_ok w'"
proof -
  have l: "last (freeIDs w) \<in> set (freeIDs w)" using free by simp
  have b: "set (butlast (freeIDs w)) \<subseteq> set (freeIDs w)" by (auto dest: in_set_butlastD)
  have "last (freeIDs w) \<notin> set (butlast (freeIDs w))" "distinct (butlast (freeIDs w))"
    using ok free by (auto simp: ids_ok_def distinct_butlast_last distinct_butlast)
  then show ?thesis
    using ok l b w' unfolding ids_ok_def by auto
qed

lemma ids_ok_grow:
  assumes ok: "ids_ok w" and free: "freeIDs w = []" and room: "currentID w < firstServerID - 1"
    and w': "objects w' = (objects w)(currentID w + 1 := Some r)" "freeIDs w' = []"
      "currentID w' = currentID w + 1"
  shows "ids_ok w'"
proof -
  have suc: "unat (currentID w + 1) = unat (currentID w) + 1" by (rule unat_Suc_below [OF room])
  have mono: "n \<le> currentID w \<Longrightarrow> n \<le> currentID w + 1" for n
    using suc by (simp add: word_le_nat_alt)
  have "currentID w + 1 < firstServerID" "currentID w + 1 \<noteq> 0"
    using suc room by (auto simp: word_less_nat_alt firstServerID_def)
  then show ?thesis
    using ok w' mono unfolding ids_ok_def by auto
qed

lemma heap_ok_registered_as:
  assumes ok: "heap_ok w" and p: "heap w r = Some p" and un: "\<not> registered w r"
    and reg: "registered_as r p n w w'"
  shows "heap_ok w'"
proof -
  have o: "objects w' = (objects w)(n := Some r)"
    and h: "heap w' = (heap w)(r := Some (p\<lparr>px_id := n, px_ctx := True\<rparr>))"
    using reg unfolding registered_as_def by blast+
  have x: "next_ref w' = next_ref w" by (rule registered_as_next_ref [OF reg])
  show ?thesis
    using ok p un unfolding heap_ok_def o h x registered_def by auto
qed


lemma Register_outcome:
  assumes wf: "wf_world w" and p: "heap w r = Some p" and un: "\<not> registered w r"
  obtains (exhausted) "freeIDs w = []" "firstServerID - 1 \<le> currentID w"
      "Register r w = (Inl (PanicMsg ''client: Wayland object ID space exhausted''), w)"
  | (registered) n w' where "Register r w = (Inr (), w')" "registered_as r p n w w'"
      "n \<noteq> 0" "n < firstServerID" "objects w n = None" "wf_world w'"
      "freeIDs w \<noteq> [] \<Longrightarrow> n = last (freeIDs w) \<and> freeIDs w' = butlast (freeIDs w) \<and> currentID w' = currentID w"
      "freeIDs w = [] \<Longrightarrow> n = currentID w + 1 \<and> freeIDs w' = [] \<and> currentID w' = currentID w + 1 \<and>
         unat (currentID w') = unat (currentID w) + 1"
proof (cases "freeIDs w = []")
  case nil: True
  have ok: "ids_ok w" "heap_ok w" using wf by (simp_all add: wf_world_def)
  show thesis
  proof (cases "firstServerID - 1 \<le> currentID w")
    case True
    then show thesis using exhausted Register_exhausted nil by blast
  next
    case False
    then have room: "currentID w < firstServerID - 1" by simp
    have suc: "unat (currentID w + 1) = unat (currentID w) + 1" by (rule unat_Suc_below [OF room])
    obtain w' where w': "Register r w = (Inr (), w')" "registered_as r p (currentID w + 1) w w'"
      "freeIDs w' = []" "currentID w' = currentID w + 1"
      using Register_grows [OF ok(1) nil room p] by auto
    have "ids_ok w'" by (rule ids_ok_grow [OF ok(1) nil room]) (use w' in \<open>simp_all add: registered_as_def\<close>)
    then have "wf_world w'" using heap_ok_registered_as [OF ok(2) p un w'(2)] by (simp add: wf_world_def)
    moreover have b: "currentID w + 1 \<noteq> 0" "currentID w + 1 < firstServerID"
      using suc room by (auto simp: word_less_nat_alt firstServerID_def)
    ultimately show thesis using next_id_dead [OF ok(1) room] registered [OF w'(1,2)] nil w'(3,4) suc by simp
  qed
next
  case False
  have ok: "ids_ok w" "heap_ok w" using wf by (simp_all add: wf_world_def)
  let ?n = "last (freeIDs w)"
  obtain w' where w': "Register r w = (Inr (), w')" "registered_as r p ?n w w'"
    "freeIDs w' = butlast (freeIDs w)" "currentID w' = currentID w"
    using Register_recycles [OF ok(1) False p] by auto
  have n: "1 < ?n" "?n \<le> currentID w" "objects w ?n = None" "currentID w < firstServerID"
    using ok(1) last_in_set [OF False] by (auto simp: ids_ok_def)
  have "ids_ok w'" by (rule ids_ok_recycle [OF ok(1) False]) (use w' in \<open>simp_all add: registered_as_def\<close>)
  then have "wf_world w'" using heap_ok_registered_as [OF ok(2) p un w'(2)] by (simp add: wf_world_def)
  moreover have "?n \<noteq> 0" "?n < firstServerID" using n by auto
  ultimately show thesis using registered [OF w'(1,2)] w'(3,4) n(3) False by simp
qed

lemma alloc_wf:
  assumes "wf_world w"
  shows "wf_world (w\<lparr>heap := (heap w)(next_ref w := Some p), next_ref := Suc (next_ref w)\<rparr>)"
  using assms by (force simp: wf_world_def ids_ok_def heap_ok_def less_Suc_eq)

text \<open>The world after \<open>x := &T{}\<close>, before it is registered.\<close>

definition after_alloc :: "iface \<Rightarrow> 'k world \<Rightarrow> 'k world" where
  "after_alloc t w = w\<lparr>heap := (heap w)(next_ref w := Some (new_proxy t)), next_ref := Suc (next_ref w)\<rparr>"

lemma after_alloc_simps [simp]:
  "objects (after_alloc t w) = objects w" "freeIDs (after_alloc t w) = freeIDs w"
  "currentID (after_alloc t w) = currentID w" "fatalErr (after_alloc t w) = fatalErr w"
  "pendingFDs (after_alloc t w) = pendingFDs w" "conn (after_alloc t w) = conn w"
  "trace (after_alloc t w) = trace w" "flags (after_alloc t w) = flags w"
  "next_flag (after_alloc t w) = next_flag w"
  "heap (after_alloc t w) (next_ref w) = Some (new_proxy t)"
  "r \<noteq> next_ref w \<Longrightarrow> heap (after_alloc t w) r = heap w r"
  by (simp_all add: after_alloc_def)

lemma after_alloc_cell: "heap (after_alloc t w) (next_ref w) = Some (new_proxy t)"
  by simp

lemma after_alloc_wf: "wf_world w \<Longrightarrow> wf_world (after_alloc t w)"
  by (simp add: after_alloc_def alloc_wf)

lemma after_alloc_unregistered: "wf_world w \<Longrightarrow> \<not> registered (after_alloc t w) (next_ref w)"
  using heap_ok_unregistered [of w] by (simp add: registered_def wf_world_def)

lemma New_alt: "New t w = andthen (Register (next_ref w)) (ret (next_ref w)) (after_alloc t w)"
  by (simp add: New_def after_alloc_def)

lemma NewWithID_alt: "NewWithID t n w = andthen (RegisterWithID (next_ref w) n) (ret (next_ref w)) (after_alloc t w)"
  by (simp add: NewWithID_def after_alloc_def)

lemma New_outcome:
  assumes wf: "wf_world w"
  obtains (exhausted) "freeIDs w = []" "firstServerID - 1 \<le> currentID w"
      "New t w = (Inl (PanicMsg ''client: Wayland object ID space exhausted''), after_alloc t w)"
  | (created) n w' where "New t w = (Inr (next_ref w), w')"
      "registered_as (next_ref w) (new_proxy t) n (after_alloc t w) w'"
      "n \<noteq> 0" "n < firstServerID" "objects w n = None" "wf_world w'"
      "freeIDs w \<noteq> [] \<Longrightarrow> n = last (freeIDs w) \<and> freeIDs w' = butlast (freeIDs w) \<and> currentID w' = currentID w"
      "freeIDs w = [] \<Longrightarrow> n = currentID w + 1 \<and> freeIDs w' = [] \<and> currentID w' = currentID w + 1 \<and>
         unat (currentID w') = unat (currentID w) + 1"
proof (rule Register_outcome [OF after_alloc_wf [OF wf, of t] after_alloc_cell after_alloc_unregistered [OF wf]])
  assume "freeIDs (after_alloc t w) = []" "firstServerID - 1 \<le> currentID (after_alloc t w)"
    and "Register (next_ref w) (after_alloc t w) =
      (Inl (PanicMsg ''client: Wayland object ID space exhausted''), after_alloc t w)"
  then show thesis using exhausted by (simp add: New_alt andthen_run_Inl)
next
  fix n w'
  assume r: "Register (next_ref w) (after_alloc t w) = (Inr (), w')"
    and s: "registered_as (next_ref w) (new_proxy t) n (after_alloc t w) w'"
      "n \<noteq> 0" "n < firstServerID" "objects (after_alloc t w) n = None" "wf_world w'"
    and f: "freeIDs (after_alloc t w) \<noteq> [] \<Longrightarrow> n = last (freeIDs (after_alloc t w)) \<and>
        freeIDs w' = butlast (freeIDs (after_alloc t w)) \<and> currentID w' = currentID (after_alloc t w)"
      "freeIDs (after_alloc t w) = [] \<Longrightarrow> n = currentID (after_alloc t w) + 1 \<and> freeIDs w' = [] \<and>
        currentID w' = currentID (after_alloc t w) + 1 \<and>
        unat (currentID w') = unat (currentID (after_alloc t w)) + 1"
  have "New t w = (Inr (next_ref w), w')" using r by (simp add: New_alt andthen_run_Inr)
  then show thesis
    by (rule created) (insert s, (insert f, unfold after_alloc_simps, blast)+)
qed


section \<open>Server objects and deletion\<close>

text \<open>Whether the object registered at an ID, if any, is a zombie.\<close>

definition live_at :: "'k world \<Rightarrow> u32 \<Rightarrow> bool" where
  "live_at w n = (case objects w n of None \<Rightarrow> False
     | Some r \<Rightarrow> (case heap w r of None \<Rightarrow> False | Some p \<Rightarrow> \<not> px_zombie p))"

lemma RegisterWithID_client_range:
  "n < firstServerID \<Longrightarrow> RegisterWithID r n w = (Inl (PanicFmt ''client: invalid server object ID '' n), w)"
  by (simp add: RegisterWithID_def)

lemma RegisterWithID_duplicate:
  "\<not> n < firstServerID \<Longrightarrow> live_at w n \<Longrightarrow>
   RegisterWithID r n w = (Inl (PanicFmt ''client: duplicate Wayland object ID '' n), w)"
  by (auto simp: RegisterWithID_def live_at_def IsZombie_def bnd_def deref_def split: option.splits)

lemma RegisterWithID_ok:
  assumes "heap_ok w" "\<not> n < firstServerID" "\<not> live_at w n" "heap w r = Some p"
  shows "RegisterWithID r n w = install r n w"
  using assms heap_ok_lookup [OF assms(1), of n]
  by (auto simp: RegisterWithID_def live_at_def IsZombie_def bnd_deref bnd_assoc split: option.splits)

lemma RegisterWithID_outcome:
  assumes wf: "wf_world w" and p: "heap w r = Some p" and un: "\<not> registered w r"
  obtains (client_range) "n < firstServerID"
      "RegisterWithID r n w = (Inl (PanicFmt ''client: invalid server object ID '' n), w)"
  | (duplicate) "\<not> n < firstServerID" "live_at w n"
      "RegisterWithID r n w = (Inl (PanicFmt ''client: duplicate Wayland object ID '' n), w)"
  | (registered) w' where "\<not> n < firstServerID" "\<not> live_at w n" "RegisterWithID r n w = (Inr (), w')"
      "registered_as r p n w w'" "freeIDs w' = freeIDs w" "currentID w' = currentID w" "wf_world w'"
proof (cases "n < firstServerID")
  case True
  then show thesis using client_range RegisterWithID_client_range by blast
next
  case F: False
  show thesis
  proof (cases "live_at w n")
    case True
    then show thesis using duplicate RegisterWithID_duplicate F by blast
  next
    case False
    have ok: "ids_ok w" "heap_ok w" using wf by (simp_all add: wf_world_def)
    obtain w' where w': "RegisterWithID r n w = (Inr (), w')" "registered_as r p n w w'"
      "freeIDs w' = freeIDs w" "currentID w' = currentID w"
      using RegisterWithID_ok [OF ok(2) F False p] by (simp add: install_run [where p = p] p registered_as_def)
    have "n \<noteq> 0" "firstServerID \<le> n" using F by (auto simp: firstServerID_def)
    moreover have "n \<notin> set (freeIDs w)" using ok(1) F by (auto simp: ids_ok_def)
    moreover have o: "objects w' = (objects w)(n := Some r)"
      using w'(2) by (simp add: registered_as_def)
    ultimately have "ids_ok w'"
      using ok(1) unfolding ids_ok_def o w'(3,4) by auto
    then have "wf_world w'" using heap_ok_registered_as [OF ok(2) p un w'(2)] by (simp add: wf_world_def)
    then show thesis using registered F False w' by blast
  qed
qed

lemma DeleteID_unknown: "objects w n = None \<Longrightarrow> DeleteID n w = (Inr (), w)"
  by (simp add: DeleteID_def)

lemma DeleteID_known:
  "objects w n \<noteq> None \<Longrightarrow> DeleteID n w = (Inr (), w\<lparr>objects := (objects w)(n := None),
     freeIDs := freeIDs w @ (if n > 1 \<and> n < firstServerID then [n] else [])\<rparr>)"
  by (auto simp: DeleteID_def Let_def)

lemma keeps_New [keeps_intro]: "keeps wf_world (New t)"
proof (rule keepsI)
  fix w :: "'k world" assume wf: "wf_world w"
  show "wf_world (snd (New t w))"
    by (rule New_outcome [OF wf, of t]) (use wf in \<open>simp_all add: after_alloc_wf\<close>)
qed

lemma keeps_NewWithID [keeps_intro]: "keeps wf_world (NewWithID t n)"
proof (rule keepsI)
  fix w :: "'k world" assume wf: "wf_world w"
  show "wf_world (snd (NewWithID t n w))"
    by (rule RegisterWithID_outcome [OF after_alloc_wf [OF wf] after_alloc_cell
          after_alloc_unregistered [OF wf], of n t])
      (use wf in \<open>auto simp: NewWithID_alt andthen_run_Inl andthen_run_Inr after_alloc_wf\<close>)
qed

lemma keeps_DeleteID [keeps_intro]: "keeps wf_world (DeleteID n)"
proof (rule keepsI)
  fix w :: "'k world" assume wf: "wf_world w"
  show "wf_world (snd (DeleteID n w))"
  proof (cases "objects w n = None")
    case True
    then show ?thesis using wf by (simp add: DeleteID_unknown)
  next
    case False
    define w' where "w' = snd (DeleteID n w)"
    have w': "objects w' = (objects w)(n := None)"
      "freeIDs w' = freeIDs w @ (if n > 1 \<and> n < firstServerID then [n] else [])"
      "currentID w' = currentID w" "heap w' = heap w" "next_ref w' = next_ref w"
      using DeleteID_known [OF False] by (simp_all add: w'_def)
    have n: "1 < n \<and> n < firstServerID \<longrightarrow> n \<le> currentID w" "n \<notin> set (freeIDs w)"
      using False wf by (auto simp: wf_world_def ids_ok_def)
    have ok: "ids_ok w" "heap_ok w" using wf by (simp_all add: wf_world_def)
    have "heap_ok w'" using ok(2) unfolding heap_ok_def w' by auto
    moreover have "ids_ok w'"
      using ok(1) n unfolding ids_ok_def w' by (cases "n > 1 \<and> n < firstServerID") auto
    ultimately show ?thesis by (simp add: wf_world_def w'_def)
  qed
qed

lemma keeps_Unregister [keeps_intro]: "keeps wf_world (Unregister r)"
  unfolding Unregister_def
  by (intro keeps_intro keeps_modify) (auto simp: wf_world_def ids_ok_def heap_ok_def)

lemma wf_world_put:
  assumes "wf_world w" and p: "heap w r = Some p" and q: "px_id q = px_id p" "px_ctx q = px_ctx p"
  shows "wf_world (w\<lparr>heap := (heap w)(r := Some q)\<rparr>)"
proof -
  have ok: "ids_ok w" "heap_ok w" using assms(1) by (simp_all add: wf_world_def)
  have "\<exists>p'. ((heap w)(r := Some q)) r' = Some p' \<and> px_id p' = n \<and> px_ctx p'"
    if "objects w n = Some r'" for n r'
    using heap_ok_lookup [OF ok(2) that] p q by (cases "r' = r") auto
  moreover have "r < next_ref w" using ok(2) p by (simp add: heap_ok_def)
  ultimately have "heap_ok (w\<lparr>heap := (heap w)(r := Some q)\<rparr>)"
    using ok(2) by (auto simp: heap_ok_def)
  then show ?thesis using ok(1) by (simp add: wf_world_def ids_ok_def)
qed

lemma keeps_MarkZombie [keeps_intro]: "keeps wf_world (MarkZombie r)"
  by (rule keepsI) (auto simp: MarkZombie_def bnd_def deref_def wf_world_put split: option.splits)

lemma keeps_SetHandler [keeps_intro]: "keeps wf_world (SetHandler r name h)"
  by (rule keepsI) (auto simp: SetHandler_def bnd_def deref_def wf_world_put split: option.splits)

lemma keeps_lookupProxy [keeps_intro]: "keeps I (lookupProxy n)"
  by (simp add: lookupProxy_def keeps_intro)

lemma keeps_GetProxy [keeps_intro]: "keeps I (GetProxy n)"
  by (simp add: GetProxy_def keeps_intro)

end
