(* ===== verification/Fd_Queue.thy ===== *)
theory Fd_Queue
  imports Id_Allocator "HOL-Library.Multiset"
begin

text \<open>
  Received file descriptors: the queue \<open>pendingFDs\<close> with \<open>takeFD\<close> (client/event.go) and
  \<open>putBackFD\<close> (client/context.go), closing descriptors, the sticky fatal error \<open>setFatal\<close>, which
  drains the queue, \<open>recordDisplayError\<close> and \<open>Close\<close>. The locale \<open>fd_queue\<close> is the FIFO contract
  and shows how descriptors are routed to the events that carry one. The balance \<open>fd_bal\<close> says
  that every received descriptor is queued, closed, handed to a handler or in flight, once.
\<close>

section \<open>Operations\<close>

text \<open>\<open>_ = unix.Close(fd)\<close>: the result is ignored, the effect is logged.\<close>

definition unix_Close :: "int \<Rightarrow> ('k world, unit) go" where
  "unix_Close fd = log_effect (Closed fd)"

primrec closeFDs :: "int list \<Rightarrow> ('k world, unit) go" where
  "closeFDs [] = ret ()"
| "closeFDs (fd # fds) = andthen (unix_Close fd) (closeFDs fds)"

definition closeReceivedFD :: "int \<Rightarrow> ('k world, unit) go" where
  "closeReceivedFD fd = (if fd \<ge> 0 then unix_Close fd else ret ())"

definition takeFD :: "('k world, int) go" where
  "takeFD w =
     (case pendingFDs w of [] \<Rightarrow> (Inr (-1), w)
      | fd # fds \<Rightarrow> (Inr fd, w\<lparr>pendingFDs := fds\<rparr>))"

definition putBackFD :: "int \<Rightarrow> ('k world, unit) go" where
  "putBackFD fd = (if fd < 0 then ret () else modify (\<lambda>w. w\<lparr>pendingFDs := fd # pendingFDs w\<rparr>))"

definition drain :: "('k world, unit) go" where
  "drain = bnd (gets pendingFDs) (\<lambda>fds. andthen (closeFDs fds) (modify (\<lambda>w. w\<lparr>pendingFDs := []\<rparr>)))"

text \<open>\<open>setFatal\<close> keeps the first error and returns the sticky one.\<close>

definition setFatal :: "gerr \<Rightarrow> ('k world, gerr option) go" where
  "setFatal err =
     bnd (gets fatalErr) (\<lambda>f.
     andthen (if f = None then andthen (modify (\<lambda>w. w\<lparr>fatalErr := Some err\<rparr>)) drain else ret ())
       (gets fatalErr))"

definition recordDisplayError :: "ref option \<Rightarrow> u32 \<Rightarrow> bytes \<Rightarrow> ('k world, unit) go" where
  "recordDisplayError obj code message =
     bnd (case obj of None \<Rightarrow> ret 0 | Some r \<Rightarrow> ID r) (\<lambda>objectID.
     andthen (setFatal (Errorf ''wl_display.error: object=%d code=%d: %s''
         [FNum (uint objectID), FNum (uint code), FBytes message] []))
       (ret ()))"

definition Close :: "'k env \<Rightarrow> ('k world, gerr option) go" where
  "Close E = andthen drain (\<lambda>w. let (e, k) = close_conn E (conn w) in (Inr e, w\<lparr>conn := k\<rparr>))"

section \<open>The FIFO contract\<close>

locale fd_queue =
  fixes contents :: "'s \<Rightarrow> int list"
    and take_fd :: "'s \<Rightarrow> int \<times> 's"
    and put_back :: "int \<Rightarrow> 's \<Rightarrow> 's"
  assumes take_empty: "contents s = [] \<Longrightarrow> fst (take_fd s) = -1 \<and> contents (snd (take_fd s)) = []"
    and take_first: "contents s = fd # fds \<Longrightarrow> fst (take_fd s) = fd \<and> contents (snd (take_fd s)) = fds"
    and put_back_none: "fd < 0 \<Longrightarrow> contents (put_back fd s) = contents s"
    and put_back_first: "0 \<le> fd \<Longrightarrow> contents (put_back fd s) = fd # contents s"
begin

text \<open>
  The protocol-aware routing: each event takes a descriptor and puts it back when its opcode
  carries none. \<open>route bs s\<close> lists what the fd-bearing events of \<open>bs\<close> get.
\<close>

fun route :: "bool list \<Rightarrow> 's \<Rightarrow> int list \<times> 's" where
  "route [] s = ([], s)"
| "route (b # bs) s =
     (let (fd, s1) = take_fd s in
      if b then (let (fds, s2) = route bs s1 in (fd # fds, s2))
      else route bs (put_back fd s1))"

lemma take_put_back:
  assumes "\<forall>fd\<in>set (contents s). 0 \<le> fd"
  shows "contents (put_back (fst (take_fd s)) (snd (take_fd s))) = contents s"
proof (cases "contents s")
  case Nil
  then show ?thesis using take_empty [of s] put_back_none [of "-1"] by simp
next
  case (Cons fd fds)
  then show ?thesis using take_first [of s] put_back_first [of fd] assms by simp
qed

text \<open>Descriptors reach the fd-bearing events in arrival order, whatever lies between them.\<close>

lemma route_in_order:
  assumes "\<forall>fd\<in>set (contents s). 0 \<le> fd"
  shows "fst (route bs s) =
      take (length (filter id bs)) (contents s) @
      replicate (length (filter id bs) - length (contents s)) (-1) \<and>
    contents (snd (route bs s)) = drop (length (filter id bs)) (contents s)"
  using assms
proof (induction bs arbitrary: s)
  case (Cons b bs)
  obtain fd s1 where t: "take_fd s = (fd, s1)" by (cases "take_fd s")
  show ?case
  proof (cases b)
    case True
    show ?thesis
    proof (cases "contents s")
      case Nil
      then have "fd = -1" "contents s1 = []" using take_empty [of s] t by simp_all
      then show ?thesis using Cons.IH [of s1] True t Nil
        by (simp add: Let_def split_beta replicate_append_same flip: replicate_Suc)
    next
      case (Cons x xs)
      then have "fd = x" "contents s1 = xs" using take_first [of s] t by simp_all
      then show ?thesis using Cons.IH [of s1] Cons.prems True t Cons
        by (simp add: Let_def split_beta)
    qed
  next
    case False
    have "contents (put_back fd s1) = contents s"
      using take_put_back [of s] Cons.prems t by simp
    then show ?thesis using Cons.IH [of "put_back fd s1"] Cons.prems False t
      by (simp add: Let_def)
  qed
qed simp

end

text \<open>The operations of the client satisfy the contract.\<close>

definition take_step :: "'k world \<Rightarrow> int \<times> 'k world" where
  "take_step w = (case takeFD w of (Inl p, w') \<Rightarrow> (-1, w') | (Inr fd, w') \<Rightarrow> (fd, w'))"

definition put_back_step :: "int \<Rightarrow> 'k world \<Rightarrow> 'k world" where
  "put_back_step fd w = snd (putBackFD fd w)"

interpretation fdq: fd_queue pendingFDs take_step put_back_step
  by unfold_locales (simp_all add: take_step_def takeFD_def put_back_step_def putBackFD_def)


section \<open>What the operations do\<close>

lemma closeFDs_run: "closeFDs fds w = (Inr (), w\<lparr>trace := trace w @ map Closed fds\<rparr>)"
  by (induction fds arbitrary: w) (simp_all add: unix_Close_def)

lemma drain_run: "drain w = (Inr (), w\<lparr>trace := trace w @ map Closed (pendingFDs w), pendingFDs := []\<rparr>)"
  by (simp add: drain_def andthen_def bnd_def closeFDs_run)

lemma setFatal_first:
  "fatalErr w = None \<Longrightarrow> setFatal err w =
     (Inr (Some err), w\<lparr>fatalErr := Some err, trace := trace w @ map Closed (pendingFDs w), pendingFDs := []\<rparr>)"
  by (simp add: setFatal_def andthen_def bnd_def drain_run)

lemma setFatal_sticky: "fatalErr w = Some f \<Longrightarrow> setFatal err w = (Inr (Some f), w)"
  by (simp add: setFatal_def andthen_def bnd_def)

lemma setFatal_returns: "\<exists>f w'. setFatal err w = (Inr (Some f), w') \<and> fatalErr w' = Some f \<and>
    (fatalErr w = None \<longrightarrow> f = err \<and> pendingFDs w' = []) \<and> (\<forall>g. fatalErr w = Some g \<longrightarrow> f = g \<and> w' = w)"
  by (cases "fatalErr w") (simp_all add: setFatal_first setFatal_sticky)

lemma takeFD_run:
  "takeFD w = (case pendingFDs w of [] \<Rightarrow> (Inr (-1), w) | fd # fds \<Rightarrow> (Inr fd, w\<lparr>pendingFDs := fds\<rparr>))"
  by (rule takeFD_def)

lemma putBackFD_run: "putBackFD fd w = (Inr (), if fd < 0 then w else w\<lparr>pendingFDs := fd # pendingFDs w\<rparr>)"
  by (simp add: putBackFD_def)

lemma closeReceivedFD_run:
  "closeReceivedFD fd w = (Inr (), if fd < 0 then w else w\<lparr>trace := trace w @ [Closed fd]\<rparr>)"
  by (simp add: closeReceivedFD_def unix_Close_def)

lemma setFatal_wf [keeps_intro]: "keeps wf_world (setFatal err)"
proof (rule keepsI)
  fix w :: "'k world" assume "wf_world w"
  then show "wf_world (snd (setFatal err w))"
    by (cases "fatalErr w") (simp_all add: setFatal_first setFatal_sticky wf_world_def ids_ok_def heap_ok_def)
qed

lemma wf_world_queue [simp]:
  "wf_world (w\<lparr>pendingFDs := fds\<rparr>) = wf_world w"
  "wf_world (w\<lparr>trace := tr\<rparr>) = wf_world w"
  "wf_world (w\<lparr>conn := k\<rparr>) = wf_world w"
  "wf_world (w\<lparr>fatalErr := f\<rparr>) = wf_world w"
  "wf_world (w\<lparr>flags := fl\<rparr>) = wf_world w"
  "wf_world (w\<lparr>next_flag := nf\<rparr>) = wf_world w"
  by (simp_all add: wf_world_def ids_ok_def heap_ok_def)

lemma takeFD_wf [keeps_intro]: "keeps wf_world takeFD"
  by (rule keepsI) (simp add: takeFD_run split: list.splits)

lemma putBackFD_wf [keeps_intro]: "keeps wf_world (putBackFD fd)"
  by (rule keepsI) (simp add: putBackFD_run)

lemma closeReceivedFD_wf [keeps_intro]: "keeps wf_world (closeReceivedFD fd)"
  by (rule keepsI) (simp add: closeReceivedFD_run)

lemma recordDisplayError_wf [keeps_intro]: "keeps wf_world (recordDisplayError obj code msg)"
  unfolding recordDisplayError_def by (intro keeps_intro)

section \<open>The balance of descriptors\<close>

text \<open>The descriptors an event hands over, and the totals of a trace.\<close>

primrec gval_fds :: "gval \<Rightarrow> int multiset" where
  "gval_fds (VUint _) = {#}"
| "gval_fds (VInt _) = {#}"
| "gval_fds (VFixed _) = {#}"
| "gval_fds (VString _) = {#}"
| "gval_fds (VOptString _) = {#}"
| "gval_fds (VArray _) = {#}"
| "gval_fds (VFd fd) = (if fd < 0 then {#} else {#fd#})"
| "gval_fds (VObj _) = {#}"

primrec ev_fds :: "ev \<Rightarrow> int multiset" where
  "ev_fds (Ev name fs) = sum_list (map (\<lambda>(n, v). gval_fds v) fs)"

primrec received_of :: "effect \<Rightarrow> int multiset" where
  "received_of (Received fds) = mset fds"
| "received_of (Closed fd) = {#}"
| "received_of (Handled h e) = {#}"

primrec released_of :: "effect \<Rightarrow> int multiset" where
  "released_of (Received fds) = {#}"
| "released_of (Closed fd) = {#fd#}"
| "released_of (Handled h e) = ev_fds e"

definition received :: "effect list \<Rightarrow> int multiset" where
  "received tr = sum_list (map received_of tr)"

text \<open>Closed by the client or handed to a handler.\<close>

definition released :: "effect list \<Rightarrow> int multiset" where
  "released tr = sum_list (map released_of tr)"

text \<open>\<open>X\<close> are the descriptors in flight: taken from the queue and not yet disposed of.\<close>

definition fd_bal :: "int multiset \<Rightarrow> 'k world \<Rightarrow> bool" where
  "fd_bal X w \<longleftrightarrow>
     received (trace w) = mset (pendingFDs w) + released (trace w) + X \<and> (\<forall>fd\<in>set (pendingFDs w). 0 \<le> fd)"

lemma received_simps [simp]:
  "received [] = {#}" "received (tr @ tr') = received tr + received tr'"
  "received (x # tr) = received_of x + received tr" "received (map Closed fds) = {#}"
  by (simp_all add: received_def) (induction fds; simp)

lemma released_simps [simp]:
  "released [] = {#}" "released (tr @ tr') = released tr + released tr'"
  "released (x # tr) = released_of x + released tr" "released (map Closed fds) = mset fds"
  by (simp_all add: released_def) (induction fds; simp)

lemma fd_bal_empty: "fd_bal {#} (empty_world k)"
  by (simp add: fd_bal_def empty_world_def)

lemma fd_bal_frame:
  "trace w' = trace w \<Longrightarrow> pendingFDs w' = pendingFDs w \<Longrightarrow> fd_bal X w' = fd_bal X w"
  by (simp add: fd_bal_def)

lemma fd_bal_upd [simp]:
  "fd_bal X (w\<lparr>conn := k\<rparr>) = fd_bal X w" "fd_bal X (w\<lparr>fatalErr := f\<rparr>) = fd_bal X w"
  "fd_bal X (w\<lparr>objects := ob\<rparr>) = fd_bal X w" "fd_bal X (w\<lparr>freeIDs := fs\<rparr>) = fd_bal X w"
  "fd_bal X (w\<lparr>currentID := c\<rparr>) = fd_bal X w" "fd_bal X (w\<lparr>heap := h\<rparr>) = fd_bal X w"
  "fd_bal X (w\<lparr>next_ref := nr\<rparr>) = fd_bal X w" "fd_bal X (w\<lparr>flags := fl\<rparr>) = fd_bal X w"
  "fd_bal X (w\<lparr>next_flag := nf\<rparr>) = fd_bal X w"
  by (simp_all add: fd_bal_def)

lemma fd_bal_takeFD:
  "fd_bal X w \<Longrightarrow> takeFD w = (Inr fd, w') \<Longrightarrow> fd_bal (X + (if fd < 0 then {#} else {#fd#})) w'"
  by (auto simp: fd_bal_def takeFD_run split: list.splits)

lemma fd_bal_putBackFD:
  "fd_bal (X + (if fd < 0 then {#} else {#fd#})) w \<Longrightarrow> fd_bal X (snd (putBackFD fd w))"
  by (auto simp: fd_bal_def putBackFD_run)

lemma fd_bal_closeReceivedFD:
  "fd_bal (X + (if fd < 0 then {#} else {#fd#})) w \<Longrightarrow> fd_bal X (snd (closeReceivedFD fd w))"
  by (auto simp: fd_bal_def closeReceivedFD_run)

lemma fd_bal_setFatal: "fd_bal X w \<Longrightarrow> fd_bal X (snd (setFatal err w))"
  by (cases "fatalErr w") (auto simp: fd_bal_def setFatal_first setFatal_sticky)

lemma fd_bal_drain: "fd_bal X w \<Longrightarrow> fd_bal X (snd (drain w))"
  by (auto simp: fd_bal_def drain_run)

end
