(* ===== verification/Socket_Read.thy ===== *)
theory Socket_Read
  imports Fd_Queue
begin

unbundle bit_operations_syntax

text \<open>
  Reading events off the socket (client/event.go): \<open>getFdsFromOob\<close> extracts descriptors from
  ancillary data, \<open>readExactWith\<close> fills a buffer from as many receives as it takes, and \<open>ReadMsg\<close>
  reads and validates one frame. The theory shows that a frame is read the same however the
  stream is fragmented, that an idle deadline at a frame boundary leaves the connection usable
  while every other failure is sticky, and that no received descriptor is lost on any path.
\<close>

section \<open>Ancillary data\<close>

definition MSG_CTRUNC :: u32 where "MSG_CTRUNC = 0x8"
definition MSG_TRUNC :: u32 where "MSG_TRUNC = 0x20"

text \<open>
  The loop over control messages, with the descriptors collected so far. A descriptor enters the
  program when its rights are parsed; on a parse error all of them are closed.
\<close>

primrec collect_rights ::
  "'k env \<Rightarrow> string \<Rightarrow> scm list \<Rightarrow> int list \<Rightarrow> 'k world \<Rightarrow> (gerr + int list) \<times> 'k world" where
  "collect_rights E source [] fdsRet w = (Inr fdsRet, w)"
| "collect_rights E source (scm # scms) fdsRet w =
     (let (fds, err) = parse_rights E scm;
          w1 = snd (log_effect (Received fds) w) in
      case err of
        Some e \<Rightarrow> (Inl (Errorf (''getFdsFromOob: unable to parse unix rights from '' @ source @ '': %w'') [] [e]),
                  snd (closeFDs fds (snd (closeFDs fdsRet w1))))
      | None \<Rightarrow> collect_rights E source scms (fdsRet @ fds) w1)"

definition getFdsFromOob ::
  "'k env \<Rightarrow> bytes \<Rightarrow> nat \<Rightarrow> string \<Rightarrow> 'k world \<Rightarrow> (gerr + int list) \<times> 'k world" where
  "getFdsFromOob E oob oobn source w =
     (if oobn > oob_space E
      then (Inl (Errorf (''getFdsFromOob: incorrect number of bytes read from '' @ source @ '' for oob (oobn=%d)'')
                  [FNum (int oobn)] []), w)
      else case parse_scm E (take oobn oob) of
          Inl e \<Rightarrow> (Inl (Errorf (''getFdsFromOob: unable to parse control message from '' @ source @ '': %w'') [] [e]), w)
        | Inr scms \<Rightarrow> collect_rights E source scms [] w)"

section \<open>Filling a buffer\<close>

text \<open>The descriptors of one receive join the queue.\<close>

definition receive_fds :: "'k env \<Rightarrow> recv \<Rightarrow> 'k world \<Rightarrow> gerr option \<times> 'k world" where
  "receive_fds E rc w =
     (if rc_oobn rc > 0 then
        (case getFdsFromOob E (rc_oob rc) (rc_oobn rc) ''frame'' w of
           (Inl e, w') \<Rightarrow> (Some e, w')
         | (Inr fds, w') \<Rightarrow> (None, w'\<lparr>pendingFDs := pendingFDs w' @ fds\<rparr>))
      else (None, w))"

text \<open>
  The loop of \<open>readExactWith\<close>: \<open>done\<close> is the filled part of the buffer, \<open>dst\<close> the rest. It returns
  the buffer, how many bytes were consumed, and the error. \<open>fds\<close> is the context's queue.
\<close>

function read_loop :: "'k env \<Rightarrow> bytes \<Rightarrow> bytes \<Rightarrow> 'k world \<Rightarrow> (bytes \<times> nat \<times> gerr option) \<times> 'k world" where
  "read_loop E dn dst w =
     (if dst = [] then ((dn, length dn, None), w)
      else
        let (rc, k) = recvmsg E (conn w) (length dst);
            n = rc_n rc;
            buf = copy_into dst (rc_data rc);
            (fderr, w1) = receive_fds E rc (w\<lparr>conn := k\<rparr>)
        in
        case fderr of
          Some e \<Rightarrow> ((dn @ buf, length dn, Some e), w1)
        | None \<Rightarrow>
          if rc_flags rc AND (MSG_CTRUNC OR MSG_TRUNC) \<noteq> 0
          then ((dn @ buf, length dn,
                Some (Errorf ''truncated socket message flags %#x'' [FNum (uint (rc_flags rc))] [])), w1)
          else if n > length dst
          then ((dn @ buf, length dn,
                Some (Errorf ''socket returned %d bytes for %d-byte buffer''
                        [FNum (int n), FNum (int (length dst))] [])), w1)
          else
            let dn' = dn @ take n buf; dst' = drop n buf in
            case rc_err rc of
              Some e \<Rightarrow>
                if dst' = [] then ((dn', length dn', None), w1)
                else if errors_is e EOF then ((dn' @ dst', length dn', Some (Sentinel ErrUnexpectedEOF)), w1)
                else ((dn' @ dst', length dn', Some e), w1)
            | None \<Rightarrow>
                if n = 0 then ((dn' @ dst', length dn', Some (Sentinel ErrUnexpectedEOF)), w1)
                else read_loop E dn' dst' w1)"
  by pat_completeness auto
termination
  by (relation "measure (\<lambda>(E, dn, dst, w). length dst)") auto

declare read_loop.simps [simp del]

definition readExact :: "'k env \<Rightarrow> bytes \<Rightarrow> 'k world \<Rightarrow> (bytes \<times> nat \<times> gerr option) \<times> 'k world" where
  "readExact E dst w = read_loop E [] dst w"

section \<open>One frame\<close>

type_synonym msg = "u32 \<times> u32 \<times> int \<times> bytes \<times> gerr option"

text \<open>The closure \<open>fail\<close> of \<open>ReadMsg\<close>.\<close>

definition read_fail :: "gerr \<Rightarrow> ('k world, msg) go" where
  "read_fail err = bnd (setFatal err) (\<lambda>f. ret (0, 0, -1, [], f))"

text \<open>\<open>ReadMsg\<close> from the first byte of the body on, and from the header on.\<close>

definition read_body :: "'k env \<Rightarrow> u32 \<Rightarrow> u32 \<Rightarrow> nat \<Rightarrow> ('k world, msg) go" where
  "read_body E senderID opcode msgSize w =
     (let ((body, n, err), w1) =
        (if msgSize > 0 then readExact E (replicate msgSize 0) w else (([], 0, None), w))
      in
      case err of
        Some e \<Rightarrow> read_fail (Errorf ''ctx.ReadMsg: body: %w'' [] [e]) w1
      | None \<Rightarrow> bnd takeFD (\<lambda>fd. ret (senderID, opcode, fd, body, None)) w1)"

definition read_frame_of :: "'k env \<Rightarrow> bytes \<Rightarrow> ('k world, msg) go" where
  "read_frame_of E hdr =
     bnd (lift (get_u32 hdr 0)) (\<lambda>senderID.
     bnd (lift (get_u32 hdr 4)) (\<lambda>opcodeAndSize.
     let opcode = opcodeAndSize AND 0xffff; size = drop_bit 16 opcodeAndSize in
     if senderID = 0 then read_fail (Errorf ''ctx.ReadMsg: sender ID is zero'' [] [])
     else if size < 8 \<or> size > 65535
     then read_fail (Errorf ''ctx.ReadMsg: invalid frame size %d'' [FNum (uint size)] [])
     else if size mod 4 \<noteq> 0
     then read_fail (Errorf ''ctx.ReadMsg: unaligned frame size %d'' [FNum (uint size)] [])
     else read_body E senderID opcode (unat (size - 8))))"

definition ReadMsg :: "'k env \<Rightarrow> ('k world, msg) go" where
  "ReadMsg E w =
     (case fatalErr w of
        Some f \<Rightarrow> (Inr (0, 0, -1, [], Some f), w)
      | None \<Rightarrow>
        let ((hdr, n, herr), w1) = readExact E (replicate 8 0) w in
        case herr of
          Some e \<Rightarrow>
            if n = 0 \<and> isDeadline e
            then (Inr (0, 0, -1, [], Some (Errorf ''%w: %w'' [] [Sentinel ErrReadTimeout, e])), w1)
            else read_fail (Errorf ''ctx.ReadMsg: header: %w'' [] [e]) w1
        | None \<Rightarrow> read_frame_of E hdr w1)"

section \<open>What is preserved\<close>

lemma read_loop_unfold:
  assumes "dst \<noteq> []" "recvmsg E (conn w) (length dst) = (rc, k)"
    "receive_fds E rc (w\<lparr>conn := k\<rparr>) = (fe, w1)"
  shows "read_loop E dn dst w =
    (let buf = copy_into dst (rc_data rc); dn' = dn @ take (rc_n rc) buf; dst' = drop (rc_n rc) buf in
     case fe of Some e \<Rightarrow> ((dn @ buf, length dn, Some e), w1)
     | None \<Rightarrow>
       if rc_flags rc AND (MSG_CTRUNC OR MSG_TRUNC) \<noteq> 0
       then ((dn @ buf, length dn,
             Some (Errorf ''truncated socket message flags %#x'' [FNum (uint (rc_flags rc))] [])), w1)
       else if rc_n rc > length dst
       then ((dn @ buf, length dn,
             Some (Errorf ''socket returned %d bytes for %d-byte buffer''
                     [FNum (int (rc_n rc)), FNum (int (length dst))] [])), w1)
       else case rc_err rc of
           Some e \<Rightarrow>
             if dst' = [] then ((dn', length dn', None), w1)
             else if errors_is e EOF then ((dn' @ dst', length dn', Some (Sentinel ErrUnexpectedEOF)), w1)
             else ((dn' @ dst', length dn', Some e), w1)
         | None \<Rightarrow>
             if rc_n rc = 0 then ((dn' @ dst', length dn', Some (Sentinel ErrUnexpectedEOF)), w1)
             else read_loop E dn' dst' w1)"
  by (subst read_loop.simps) (simp only: Let_def assms if_False prod.case split: option.splits)

lemma receive_step:
  assumes a: "dst \<noteq> []" "recvmsg E (conn w) (length dst) = (rc, k)"
    "receive_fds E rc (w\<lparr>conn := k\<rparr>) = (fe, w1)"
  obtains (fail) b c e where "read_loop E dn dst w = ((b, length dn + c, Some e), w1)"
      "length b = length dn + length dst" "c < length dst"
  | (filled) b where "read_loop E dn dst w = ((b, length b, None), w1)" "length b = length dn + length dst"
  | (more) dn' dst' where "read_loop E dn dst w = read_loop E dn' dst' w1"
      "length dn' + length dst' = length dn + length dst" "length dst' < length dst"
proof -
  define buf where "buf = copy_into dst (rc_data rc)"
  have l: "length buf = length dst" by (simp add: buf_def)
  note u = read_loop_unfold [OF a, of dn, folded buf_def, unfolded Let_def]
  show thesis
  proof (cases "(\<exists>e. fe = Some e) \<or> rc_flags rc AND (MSG_CTRUNC OR MSG_TRUNC) \<noteq> 0 \<or> rc_n rc > length dst")
    case True
    then have "\<exists>e. read_loop E dn dst w = ((dn @ buf, length dn + 0, Some e), w1)"
      unfolding u by (cases fe) (auto simp del: de_Morgan_disj)
    then show thesis using fail [of "dn @ buf" 0] l a(1) by auto
  next
    case ok: False
    then have fe: "fe = None" and n: "rc_n rc \<le> length dst" by auto
    show thesis
    proof (cases "drop (rc_n rc) buf = []")
      case True
      then have "rc_n rc = length dst" using n l by simp
      then show thesis using filled [of "dn @ take (rc_n rc) buf"] more ok fe u l a(1)
        by (cases "rc_err rc") (auto simp: read_loop.simps [of _ _ "[]"])
    next
      case False
      then have c: "rc_n rc < length dst" using n l by auto
      show thesis
      proof (cases "rc_err rc = None \<and> rc_n rc \<noteq> 0")
        case True
        then show thesis using more [of "dn @ take (rc_n rc) buf" "drop (rc_n rc) buf"] ok fe u l c by force
      next
        case F: False
        then have "\<exists>e. read_loop E dn dst w = ((dn @ buf, length dn + rc_n rc, Some e), w1)"
          using ok fe u l c False by (cases "rc_err rc") auto
        then show thesis using fail [of "dn @ buf" "rc_n rc"] l c by auto
      qed
    qed
  qed
qed

text \<open>
  A fact about worlds survives the loop when it survives a change of the kernel state and the
  collection of descriptors.
\<close>

lemma read_loop_inv:
  assumes conn: "\<And>w k. P w \<Longrightarrow> P (w\<lparr>conn := k\<rparr>)"
    and oob: "\<And>rc w. P w \<Longrightarrow> P (snd (receive_fds E rc w))"
    and P: "P w"
  shows "P (snd (read_loop E dn dst w))"
  using P
proof (induction dst arbitrary: dn w rule: length_induct)
  case (1 dst)
  show ?case
  proof (cases "dst = []")
    case True
    then show ?thesis using 1(2) by (simp add: read_loop.simps)
  next
    case False
    obtain rc k where r: "recvmsg E (conn w) (length dst) = (rc, k)" by fastforce
    obtain fe w1 where f: "receive_fds E rc (w\<lparr>conn := k\<rparr>) = (fe, w1)" by fastforce
    have P1: "P w1" using oob [OF conn [OF 1(2)], of rc k] f by simp
    show ?thesis
      by (rule receive_step [OF False r f, of dn]) (use P1 1(1) in auto)
  qed
qed

text \<open>Reading changes the kernel state, the queue and the trace only.\<close>

definition read_frame :: "'k world \<Rightarrow> 'k world \<Rightarrow> bool" where
  "read_frame w w' \<longleftrightarrow> objects w' = objects w \<and> freeIDs w' = freeIDs w \<and> currentID w' = currentID w \<and>
     fatalErr w' = fatalErr w \<and> heap w' = heap w \<and> next_ref w' = next_ref w \<and>
     flags w' = flags w \<and> next_flag w' = next_flag w"

lemma read_frame_refl [simp]: "read_frame w w" "read_frame w (w\<lparr>conn := k\<rparr>)"
  "read_frame w (w\<lparr>pendingFDs := fds\<rparr>)" "read_frame w (w\<lparr>trace := tr\<rparr>)"
  by (simp_all add: read_frame_def)

lemma read_frame_trans [trans]: "read_frame w w1 \<Longrightarrow> read_frame w1 w2 \<Longrightarrow> read_frame w w2"
  by (simp add: read_frame_def)

lemma read_frame_fields:
  assumes "read_frame w w'"
  shows "objects w' = objects w" "freeIDs w' = freeIDs w" "currentID w' = currentID w"
    "fatalErr w' = fatalErr w" "heap w' = heap w" "next_ref w' = next_ref w"
    "flags w' = flags w" "next_flag w' = next_flag w"
  using assms by (simp_all add: read_frame_def)

lemma read_frame_wf: "read_frame w w' \<Longrightarrow> wf_world w' = wf_world w"
  by (simp add: read_frame_fields wf_world_def ids_ok_def heap_ok_def)

lemma collect_rights_frame: "read_frame w (snd (collect_rights E src scms fds w))"
proof (induction scms arbitrary: fds w)
  case (Cons scm scms)
  show ?case
    using read_frame_trans [OF read_frame_refl(4) Cons.IH]
    by (simp add: Let_def split_beta closeFDs_run split: option.splits)
qed simp

lemma receive_fds_frame: "read_frame w (snd (receive_fds E rc w))"
proof -
  have "read_frame w (snd (getFdsFromOob E (rc_oob rc) (rc_oobn rc) ''frame'' w))"
    by (simp add: getFdsFromOob_def collect_rights_frame split: sum.splits)
  then show ?thesis
    by (auto simp: receive_fds_def split_beta read_frame_def split: sum.splits)
qed

lemma read_loop_frame: "read_frame w (snd (read_loop E dn dst w))"
  by (rule read_loop_inv [where P = "read_frame w"])
    (auto intro: read_frame_trans receive_fds_frame)

lemma read_loop_consumed:
  assumes "read_loop E dn dst w = ((b, c, e), w')"
  shows "length b = length dn + length dst \<and> (e = None \<longrightarrow> c = length b) \<and> (e \<noteq> None \<longrightarrow> c < length b)"
  using assms
proof (induction dst arbitrary: dn w rule: length_induct)
  case (1 dst)
  show ?case
  proof (cases "dst = []")
    case True
    then show ?thesis using 1(2) by (auto simp: read_loop.simps)
  next
    case False
    obtain rc k where r: "recvmsg E (conn w) (length dst) = (rc, k)" by fastforce
    obtain fe w1 where f: "receive_fds E rc (w\<lparr>conn := k\<rparr>) = (fe, w1)" by fastforce
    show ?thesis
    proof (rule receive_step [OF False r f, of dn])
      fix dn' dst' assume "read_loop E dn dst w = read_loop E dn' dst' w1"
        and l: "length dn' + length dst' = length dn + length dst" "length dst' < length dst"
      then show ?thesis using 1(1) [rule_format, OF l(2), of dn' w1] 1(2) by auto
    qed (use 1(2) in auto)
  qed
qed

section \<open>Descriptors\<close>

text \<open>
  \<open>ParseUnixRights\<close> reads descriptors the kernel has installed, which are not negative, and a
  receive gives at least one for every message it counts as parsed.
\<close>

definition rights_nonneg :: "'k env \<Rightarrow> bool" where
  "rights_nonneg E \<longleftrightarrow> (\<forall>scm. \<forall>fd\<in>set (fst (parse_rights E scm)). 0 \<le> fd)"

lemma collect_rights_bal:
  assumes "rights_nonneg E" "fd_bal (X + mset fds) w" "\<forall>fd\<in>set fds. 0 \<le> fd"
    "collect_rights E src scms fds w = (r, w')"
  shows "case r of Inl e \<Rightarrow> fd_bal X w' | Inr fds' \<Rightarrow> fd_bal (X + mset fds') w' \<and> (\<forall>fd\<in>set fds'. 0 \<le> fd)"
  using assms(2-4)
proof (induction scms arbitrary: fds w)
  case (Cons scm scms)
  obtain new err where p: "parse_rights E scm = (new, err)" by fastforce
  have nn: "\<forall>fd\<in>set new. 0 \<le> fd" using assms(1) p by (metis rights_nonneg_def fst_conv)
  show ?case
  proof (cases err)
    case None
    have "fd_bal (X + mset (fds @ new)) (w\<lparr>trace := trace w @ [Received new]\<rparr>)"
      using Cons.prems(1) by (simp add: fd_bal_def ac_simps)
    then show ?thesis using Cons.IH [of "fds @ new"] Cons.prems nn None p by (auto simp: Let_def)
  next
    case (Some e)
    then show ?thesis using Cons.prems p by (auto simp: Let_def closeFDs_run fd_bal_def ac_simps)
  qed
qed auto

lemma getFdsFromOob_bal:
  assumes "rights_nonneg E" "fd_bal X w" "getFdsFromOob E oob n src w = (r, w')"
  shows "case r of Inl e \<Rightarrow> fd_bal X w' | Inr fds \<Rightarrow> fd_bal (X + mset fds) w' \<and> (\<forall>fd\<in>set fds. 0 \<le> fd)"
proof (cases "oob_space E < n")
  case False
  show ?thesis
  proof (cases "parse_scm E (take n oob)")
    case (Inr scms)
    then show ?thesis
      using False assms collect_rights_bal [OF assms(1), of X "[]" w src scms] by (simp add: getFdsFromOob_def)
  qed (use False assms in \<open>auto simp: getFdsFromOob_def\<close>)
qed (use assms in \<open>auto simp: getFdsFromOob_def\<close>)

lemma receive_fds_bal:
  assumes "rights_nonneg E" "fd_bal X w"
  shows "fd_bal X (snd (receive_fds E rc w))"
proof -
  obtain r w' where g: "getFdsFromOob E (rc_oob rc) (rc_oobn rc) ''frame'' w = (r, w')" by fastforce
  show ?thesis
    using getFdsFromOob_bal [OF assms g] assms(2) g
    by (cases r) (auto simp: receive_fds_def fd_bal_def ac_simps)
qed

lemma read_loop_bal: "rights_nonneg E \<Longrightarrow> fd_bal X w \<Longrightarrow> fd_bal X (snd (read_loop E dn dst w))"
  by (rule read_loop_inv [where P = "fd_bal X"]) (auto intro: receive_fds_bal)

section \<open>A stream and its fragments\<close>

text \<open>The descriptors a receive carries, when its ancillary data parses.\<close>

definition rights_of :: "'k env \<Rightarrow> recv \<Rightarrow> int list option" where
  "rights_of E rc =
     (if rc_oobn rc = 0 then Some []
      else if oob_space E < rc_oobn rc then None
      else case parse_scm E (take (rc_oobn rc) (rc_oob rc)) of
          Inl e \<Rightarrow> None
        | Inr scms \<Rightarrow> if \<forall>scm\<in>set scms. snd (parse_rights E scm) = None
            then Some (concat (map (\<lambda>scm. fst (parse_rights E scm)) scms)) else None)"

text \<open>
  \<open>delivers E k bs fds k'\<close>: asked for \<open>bs\<close>, the kernel hands it over in some number of receives,
  each at least one byte and at most what is still wanted, with descriptors \<open>fds\<close> on the way.
\<close>

inductive delivers :: "'k env \<Rightarrow> 'k \<Rightarrow> bytes \<Rightarrow> int list \<Rightarrow> 'k \<Rightarrow> bool" for E where
  delivers_done: "delivers E k [] [] k"
| delivers_chunk: "delivers E k bs (fds @ fds') k2"
    if "recvmsg E k (length bs) = (rc, k1)" "0 < rc_n rc" "rc_n rc \<le> length bs"
      "rc_data rc = take (rc_n rc) bs" "rc_flags rc AND (MSG_CTRUNC OR MSG_TRUNC) = 0"
      "rc_err rc = None" "rights_of E rc = Some fds" "delivers E k1 (drop (rc_n rc) bs) fds' k2"

lemma collect_rights_ok:
  assumes "\<forall>scm\<in>set scms. snd (parse_rights E scm) = None"
  shows "\<exists>w'. collect_rights E src scms fds w = (Inr (fds @ concat (map (\<lambda>scm. fst (parse_rights E scm)) scms)), w') \<and>
    pendingFDs w' = pendingFDs w \<and> conn w' = conn w"
  using assms
proof (induction scms arbitrary: fds w)
  case (Cons scm scms)
  then show ?case
    using Cons.IH [of "fds @ fst (parse_rights E scm)" "w\<lparr>trace := trace w @ [Received (fst (parse_rights E scm))]\<rparr>"]
    by (auto simp: Let_def split_beta)
qed simp

lemma receive_fds_ok:
  assumes "rights_of E rc = Some fds"
  shows "\<exists>w'. receive_fds E rc w = (None, w') \<and> pendingFDs w' = pendingFDs w @ fds \<and> conn w' = conn w"
proof (cases "rc_oobn rc = 0")
  case True
  then show ?thesis using assms by (simp add: receive_fds_def rights_of_def)
next
  case False
  then obtain scms where s: "parse_scm E (take (rc_oobn rc) (rc_oob rc)) = Inr scms" "\<not> oob_space E < rc_oobn rc"
    "\<forall>scm\<in>set scms. snd (parse_rights E scm) = None" "fds = concat (map (\<lambda>scm. fst (parse_rights E scm)) scms)"
    using assms by (auto simp: rights_of_def split: if_splits sum.splits)
  show ?thesis
    using collect_rights_ok [OF s(3), of "''frame''" "[]" w] False s
    by (auto simp: receive_fds_def getFdsFromOob_def)
qed

lemma read_loop_delivers:
  assumes "delivers E k bs fds k'" "conn w = k" "length dst = length bs"
  shows "\<exists>w'. read_loop E dn dst w = ((dn @ bs, length dn + length bs, None), w') \<and>
    conn w' = k' \<and> pendingFDs w' = pendingFDs w @ fds"
  using assms
proof (induction arbitrary: dn dst w)
  case (delivers_done k)
  then show ?case by (simp add: read_loop.simps)
next
  case (delivers_chunk k bs rc k1 fds fds' k2)
  have ne: "dst \<noteq> []" using delivers_chunk by auto
  have r: "recvmsg E (conn w) (length dst) = (rc, k1)" using delivers_chunk by simp
  obtain w1 where w1: "receive_fds E rc (w\<lparr>conn := k1\<rparr>) = (None, w1)" "pendingFDs w1 = pendingFDs w @ fds" "conn w1 = k1"
    using receive_fds_ok [OF delivers_chunk(7), of "w\<lparr>conn := k1\<rparr>"] by auto
  let ?n = "rc_n rc" let ?buf = "copy_into dst (rc_data rc)"
  have d: "take ?n ?buf = take ?n bs" "length (drop ?n ?buf) = length (drop ?n bs)"
    using delivers_chunk by (simp_all add: copy_into_def)
  have "read_loop E dn dst w = read_loop E (dn @ take ?n bs) (drop ?n ?buf) w1"
    using read_loop_unfold [OF ne r w1(1), of dn] delivers_chunk d(1) by (simp add: Let_def)
  then show ?case
    using delivers_chunk.IH [OF w1(3) d(2), of "dn @ take ?n bs"] w1(2) delivers_chunk(3) by auto
qed

section \<open>ReadMsg\<close>

lemma read_fail_run: "fatalErr w = None \<Longrightarrow> read_fail e w = (Inr (0, 0, -1, [], Some e),
    w\<lparr>fatalErr := Some e, trace := trace w @ map Closed (pendingFDs w), pendingFDs := []\<rparr>)"
  by (simp add: read_fail_def bnd_def setFatal_first)

definition read_header_ok :: "u32 \<Rightarrow> u32 \<Rightarrow> bool" where
  "read_header_ok sender sz \<longleftrightarrow> sender \<noteq> 0 \<and> 8 \<le> sz \<and> sz \<le> 65535 \<and> sz mod 4 = 0"

lemma read_frame_of_header:
  assumes "read_header_ok sender sz"
  shows "read_frame_of E (frame_header sender opcode sz) w =
    read_body E sender (opcode AND 0xffff) (unat (sz - 8)) w"
proof -
  have "\<not> (sz < 8 \<or> sz > 65535)" "sz \<le> 0xffff" "sender \<noteq> 0" "sz mod 4 = 0"
    using assms by (auto simp: read_header_ok_def)
  then show ?thesis by (simp add: read_frame_of_def Let_def)
qed

text \<open>The queue after one more frame, and what the frame gets.\<close>

definition head_fd :: "int list \<Rightarrow> int" where
  "head_fd fds = (case fds of [] \<Rightarrow> -1 | fd # _ \<Rightarrow> fd)"

lemma ReadMsg_delivers:
  assumes ok: "fatalErr w = None" "read_header_ok sender sz" "unat sz = 8 + length body"
    and hd: "delivers E (conn w) (frame_header sender opcode sz) fds k1" and bd: "delivers E k1 body fds' k2"
  shows "\<exists>w'. ReadMsg E w = (Inr (sender, opcode AND 0xffff, head_fd (pendingFDs w @ fds @ fds'), body, None), w') \<and>
    conn w' = k2 \<and> pendingFDs w' = tl (pendingFDs w @ fds @ fds') \<and> read_frame w w'"
proof -
  have bl: "unat (sz - 8) = length body"
    using ok(2,3) by (simp add: read_header_ok_def unat_sub)
  obtain w1 where w1: "read_loop E [] (replicate 8 0) w = ((frame_header sender opcode sz, 8, None), w1)"
    "conn w1 = k1" "pendingFDs w1 = pendingFDs w @ fds"
    using read_loop_delivers [OF hd refl, of "replicate 8 0" "[]"] by auto
  have f1: "read_frame w w1" using read_loop_frame [of w E "[]" "replicate 8 0"] w1(1) by simp
  obtain w2 where w2: "(if length body > 0 then readExact E (replicate (length body) 0) w1 else (([], 0, None), w1)) =
      ((body, length body, None), w2)" "conn w2 = k2" "pendingFDs w2 = pendingFDs w @ fds @ fds'" "read_frame w1 w2"
  proof (cases "body = []")
    case True
    then have "fds' = []" "k2 = k1" using bd by (auto elim: delivers.cases)
    then show thesis using that [of w1] True w1 by simp
  next
    case False
    obtain w2 where l: "read_loop E [] (replicate (length body) 0) w1 = ((body, length body, None), w2)"
      and r: "conn w2 = k2" "pendingFDs w2 = pendingFDs w1 @ fds'"
      using read_loop_delivers [OF bd w1(2), of "replicate (length body) 0" "[]"] by auto
    have "read_frame w1 w2" using read_loop_frame [of w1 E "[]" "replicate (length body) 0"] l by simp
    then show thesis using that [of w2] False l r w1(3) by (simp add: readExact_def)
  qed
  have "ReadMsg E w = read_body E sender (opcode AND 0xffff) (length body) w1"
    using ok w1(1) read_frame_of_header [OF ok(2), of E opcode w1] bl by (simp add: ReadMsg_def readExact_def)
  also have "\<dots> = bnd takeFD (\<lambda>fd. ret (sender, opcode AND 0xffff, fd, body, None)) w2"
    unfolding read_body_def w2(1) by simp
  finally show ?thesis
    using w2(2,3) read_frame_trans [OF f1 w2(4)]
    by (auto simp: bnd_def takeFD_run head_fd_def read_frame_def split: list.splits)
qed

text \<open>Reading changes nothing but the kernel state, the queue, the trace and the sticky error.\<close>

definition msg_frame :: "'k world \<Rightarrow> 'k world \<Rightarrow> bool" where
  "msg_frame w w' \<longleftrightarrow> read_frame (w\<lparr>fatalErr := fatalErr w'\<rparr>) w'"

lemma msg_frame_of_read: "read_frame w w' \<Longrightarrow> msg_frame w w'"
  by (simp add: msg_frame_def read_frame_def)

lemma msg_frame_fatal: "read_frame w w' \<Longrightarrow>
    msg_frame w (w'\<lparr>fatalErr := f, trace := tr, pendingFDs := fds\<rparr>)"
  by (simp add: msg_frame_def read_frame_def)

lemma msg_frame_wf: "msg_frame w w' \<Longrightarrow> wf_world w' = wf_world w"
  unfolding msg_frame_def by (drule read_frame_wf) simp

lemma read_frame_of_outcome:
  assumes n: "fatalErr w = None" and l: "length hdr = 8"
  obtains (fatal) e w' where "read_frame_of E hdr w = (Inr (0, 0, -1, [], Some e), w')" "fatalErr w' = Some e"
      "pendingFDs w' = []" "msg_frame w w'"
  | (frame) sender opcode fd body w1 w' where
      "read_frame_of E hdr w = (Inr (sender, opcode, fd, body, None), w')" "takeFD w1 = (Inr fd, w')"
      "read_frame w w'" "sender \<noteq> 0" "opcode \<le> 0xffff" "length body \<le> 65527" "4 dvd length body"
proof -
  have fail: thesis if "read_frame_of E hdr w = read_fail e w1" "read_frame w w1" for e w1
    by (rule fatal) (use that n in \<open>auto simp: read_fail_run read_frame_fields intro: msg_frame_fatal\<close>)
  obtain sender where s: "get_u32 hdr 0 = Inr sender" using get_u32_Inr_iff [of hdr 0] l by auto
  obtain ow where o: "get_u32 hdr 4 = Inr ow" using get_u32_Inr_iff [of hdr 4] l by auto
  define sz where "sz = drop_bit 16 ow"
  have u: "read_frame_of E hdr w =
    (if sender = 0 then read_fail (Errorf ''ctx.ReadMsg: sender ID is zero'' [] []) w
     else if sz < 8 \<or> sz > 65535 then read_fail (Errorf ''ctx.ReadMsg: invalid frame size %d'' [FNum (uint sz)] []) w
     else if sz mod 4 \<noteq> 0 then read_fail (Errorf ''ctx.ReadMsg: unaligned frame size %d'' [FNum (uint sz)] []) w
     else read_body E sender (ow AND 0xffff) (unat (sz - 8)) w)"
    by (simp add: read_frame_of_def s o sz_def Let_def)
  show thesis
  proof (cases "read_header_ok sender sz")
    case False
    then consider "sender = 0" | "sender \<noteq> 0" "sz < 8 \<or> sz > 65535"
      | "sender \<noteq> 0" "\<not> (sz < 8 \<or> sz > 65535)" "sz mod 4 \<noteq> 0"
      unfolding read_header_ok_def by (meson not_le)
    then show thesis using fail [OF _ read_frame_refl(1)] by cases (simp_all only: u if_True if_False refl not_False_eq_True)
  next
    case True
    define m where "m = unat (sz - 8)"
    have m: "m = unat sz - 8" "unat sz \<le> 65535" "8 \<le> unat sz"
      using True by (auto simp: m_def read_header_ok_def unat_sub word_le_nat_alt)
    have d: "4 dvd unat sz" using True by (simp add: read_header_ok_def word_unat_eq_iff unat_mod mod_eq_0_iff_dvd)
    have body: "read_frame_of E hdr w = read_body E sender (ow AND 0xffff) m w"
      using True unfolding u m_def read_header_ok_def by (meson not_le)
    obtain b c e w1 where r: "(if m > 0 then readExact E (replicate m 0) w else (([], 0, None), w)) = ((b, c, e), w1)"
      by (metis prod_cases3 prod.collapse)
    have f1: "read_frame w w1"
      using r read_loop_frame [of w E "[]" "replicate m 0"] by (auto simp: readExact_def split: if_splits)
    have lb: "length b = m"
      using r read_loop_consumed [of E "[]" "replicate m 0" w b c e w1] by (auto simp: readExact_def split: if_splits)
    show thesis
    proof (cases e)
      case (Some e)
      then show thesis using fail [OF _ f1] body r by (simp add: read_body_def)
    next
      case None
      obtain fd w' where t: "takeFD w1 = (Inr fd, w')" by (cases "pendingFDs w1") (simp_all add: takeFD_run)
      have fr: "read_frame w w'"
        using f1 t by (auto simp: takeFD_run read_frame_def split: list.splits)
      have "read_frame_of E hdr w = (Inr (sender, ow AND 0xffff, fd, b, None), w')"
        using body r t None by (simp add: read_body_def bnd_def)
      moreover have "ow AND 0xffff \<le> 0xffff" by (rule word_and_le1)
      moreover have "4 dvd m" using d m(1,3) by (simp add: dvd_diff_nat)
      ultimately show thesis using frame [OF _ t fr] True m lb by (auto simp: read_header_ok_def)
    qed
  qed
qed

lemma ReadMsg_outcome:
  obtains (sticky) f where "fatalErr w = Some f" "ReadMsg E w = (Inr (0, 0, -1, [], Some f), w)"
  | (idle) e w' where "fatalErr w = None" "ReadMsg E w = (Inr (0, 0, -1, [], Some e), w')" "read_frame w w'"
      "errors_is e ErrReadTimeout"
  | (fatal) e w' where "fatalErr w = None" "ReadMsg E w = (Inr (0, 0, -1, [], Some e), w')" "fatalErr w' = Some e"
      "pendingFDs w' = []" "msg_frame w w'"
  | (frame) sender opcode fd body w1 w' where "fatalErr w = None"
      "ReadMsg E w = (Inr (sender, opcode, fd, body, None), w')" "takeFD w1 = (Inr fd, w')"
      "read_frame w w'" "sender \<noteq> 0" "opcode \<le> 0xffff" "length body \<le> 65527" "4 dvd length body"
proof (cases "fatalErr w")
  case (Some f)
  then show thesis using sticky by (simp add: ReadMsg_def)
next
  case None
  obtain hdr n e w1 where r: "read_loop E [] (replicate 8 0) w = ((hdr, n, e), w1)" by (metis prod_cases3 prod.collapse)
  have f: "read_frame w w1" using read_loop_frame [of w E "[]" "replicate 8 0"] r by simp
  have n1: "fatalErr w1 = None" using f None by (simp add: read_frame_fields)
  show thesis
  proof (cases e)
    case (Some e)
    show thesis
    proof (cases "n = 0 \<and> isDeadline e")
      case True
      then show thesis using idle [OF None _ f] None r Some by (simp add: ReadMsg_def readExact_def)
    next
      case False
      then have "ReadMsg E w = read_fail (Errorf ''ctx.ReadMsg: header: %w'' [] [e]) w1"
        using None r Some by (auto simp: ReadMsg_def readExact_def)
      then show thesis by (intro fatal [OF None]) (auto simp: read_fail_run n1 intro: msg_frame_fatal [OF f])
    qed
  next
    case en: None
    have l: "length hdr = 8" using read_loop_consumed [OF r] by simp
    have u: "ReadMsg E w = read_frame_of E hdr w1" using None r en by (simp add: ReadMsg_def readExact_def)
    show thesis
    proof (rule read_frame_of_outcome [OF n1 l, of E])
      fix e w' assume "read_frame_of E hdr w1 = (Inr (0, 0, -1, [], Some e), w')" "fatalErr w' = Some e"
        "pendingFDs w' = []" and m: "msg_frame w1 w'"
      moreover have "msg_frame w w'" using m f by (simp add: msg_frame_def read_frame_def)
      ultimately show thesis using fatal [OF None] u by simp
    next
      fix sender opcode fd body w2 w'
      assume "read_frame_of E hdr w1 = (Inr (sender, opcode, fd, body, None), w')" "takeFD w2 = (Inr fd, w')"
        "read_frame w1 w'" "sender \<noteq> 0" "opcode \<le> 0xffff" "length body \<le> 65527" "4 dvd length body"
      then show thesis using frame [OF None] u read_frame_trans [OF f] by metis
    qed
  qed
qed

lemma ReadMsg_wf [keeps_intro]: "keeps wf_world (ReadMsg E)"
proof (rule keepsI)
  fix w :: "'a world" assume "wf_world w"
  then show "wf_world (snd (ReadMsg E w))"
    by (rule_tac ReadMsg_outcome [of w E]) (auto simp: msg_frame_wf read_frame_wf)
qed

definition in_flight :: "int \<Rightarrow> int multiset" where
  "in_flight fd = (if fd < 0 then {#} else {#fd#})"

lemma read_fail_bal: "fd_bal X w \<Longrightarrow> read_fail e w = (Inr (s, opc, fd, b, err), w') \<Longrightarrow> fd_bal (X + in_flight fd) w' \<and> -1 \<le> fd"
  using fd_bal_setFatal [of X w e] by (auto simp: read_fail_def bnd_def in_flight_def split: prod.splits sum.splits)

lemma read_body_bal:
  assumes "rights_nonneg E" "fd_bal X w" "read_body E sender opcode n w = (Inr (s, opc, fd, b, err), w')"
  shows "fd_bal (X + in_flight fd) w' \<and> -1 \<le> fd"
proof -
  obtain bd c e w1 where r: "(if n > 0 then readExact E (replicate n 0) w else (([], 0, None), w)) = ((bd, c, e), w1)"
    by (metis prod_cases3 prod.collapse)
  have b1: "fd_bal X w1"
    using r assms(2) read_loop_bal [OF assms(1,2), of "[]" "replicate n 0"] by (auto simp: readExact_def split: if_splits)
  show ?thesis
  proof (cases e)
    case (Some e)
    then show ?thesis using assms(3) read_fail_bal [OF b1] r by (simp add: read_body_def)
  next
    case None
    obtain fd1 w2 where t: "takeFD w1 = (Inr fd1, w2)" by (cases "pendingFDs w1") (simp_all add: takeFD_run)
    have "-1 \<le> fd1" using t b1 by (auto simp: takeFD_run fd_bal_def split: list.splits)
    then show ?thesis
      using assms(3) r None t fd_bal_takeFD [OF b1 t] by (auto simp: read_body_def bnd_def in_flight_def)
  qed
qed

lemma ReadMsg_bal:
  assumes "rights_nonneg E" "fd_bal X w" "ReadMsg E w = (Inr (s, opc, fd, b, err), w')"
  shows "fd_bal (X + in_flight fd) w' \<and> -1 \<le> fd"
proof (cases "fatalErr w")
  case (Some f)
  then show ?thesis using assms(2,3) by (auto simp: ReadMsg_def in_flight_def)
next
  case None
  obtain hdr n e w1 where r: "read_loop E [] (replicate 8 0) w = ((hdr, n, e), w1)" by (metis prod_cases3 prod.collapse)
  have b1: "fd_bal X w1" using read_loop_bal [OF assms(1,2), of "[]" "replicate 8 0"] r by simp
  show ?thesis
  proof (cases e)
    case (Some e)
    show ?thesis
    proof (cases "n = 0 \<and> isDeadline e")
      case True
      then show ?thesis using assms(3) None r b1 Some by (auto simp: ReadMsg_def readExact_def in_flight_def)
    next
      case False
      then have "read_fail (Errorf ''ctx.ReadMsg: header: %w'' [] [e]) w1 = (Inr (s, opc, fd, b, err), w')"
        using assms(3) None r Some by (auto simp: ReadMsg_def readExact_def)
      then show ?thesis by (rule read_fail_bal [OF b1])
    qed
  next
    case en: None
    have l: "length hdr = 8" using read_loop_consumed [OF r] by simp
    then obtain sd where s: "get_u32 hdr 0 = Inr sd" using get_u32_Inr_iff [of hdr 0] by auto
    obtain ow where o: "get_u32 hdr 4 = Inr ow" using get_u32_Inr_iff [of hdr 4] l by auto
    have "read_frame_of E hdr w1 = (Inr (s, opc, fd, b, err), w')"
      using assms(3) None r en by (simp add: ReadMsg_def readExact_def)
    then show ?thesis
      using s o by (auto simp: read_frame_of_def Let_def split: if_splits
          dest: read_fail_bal [OF b1] read_body_bal [OF assms(1) b1])
  qed
qed

end
