(* ===== verification/Socket_Write.thy ===== *)
theory Socket_Write
  imports Socket_Read
begin

unbundle bit_operations_syntax

text \<open>
  Sending requests (client/request.go): \<open>WriteMsg\<close> refuses anything that is not one valid frame
  and \<open>writeFrame\<close> sends the frame, ancillary data with the first write and the rest with plain
  writes. The theory shows that a request that succeeds is on the wire once and in full, that one
  that fails left a prefix and sticks the error, and that a refusal touches nothing.
\<close>

section \<open>Operations\<close>

text \<open>The loop of plain writes; a count outside the buffer ends it.\<close>

function write_rest :: "'k env \<Rightarrow> bytes \<Rightarrow> 'k world \<Rightarrow> gerr option \<times> 'k world" where
  "write_rest E data w =
     (if data = [] then (None, w)
      else
        let ((written, writeErr), k) = sendplain E (conn w) data; w1 = w\<lparr>conn := k\<rparr> in
        if written < 0 \<or> written > int (length data)
        then (Some (Errorf ''%w: plain write returned invalid byte count %d''
                [FNum written] [Sentinel ErrPartialFrame]), w1)
        else case writeErr of
            Some e \<Rightarrow> (errors_join [Some (Sentinel ErrPartialFrame), Some e], w1)
          | None \<Rightarrow>
              if written = 0 then (errors_join [Some (Sentinel ErrPartialFrame), Some (Sentinel ErrNoProgress)], w1)
              else write_rest E (drop (nat written) data) w1)"
  by pat_completeness auto
termination
  by (relation "measure (\<lambda>(E, data, w). length data)") auto

declare write_rest.simps [simp del]

definition writeFrame :: "'k env \<Rightarrow> bytes \<Rightarrow> bytes \<Rightarrow> 'k world \<Rightarrow> gerr option \<times> 'k world" where
  "writeFrame E data oob w =
     (let ((n, oobn, err), k) = sendmsg E (conn w) data oob; w1 = w\<lparr>conn := k\<rparr>;
          accepted = (n > 0 \<or> oobn > 0) in
      if n < 0 \<or> n > int (length data)
      then (Some (Errorf ''%w: first write returned invalid byte count %d'' [FNum n] [Sentinel ErrPartialFrame]), w1)
      else if oobn < 0 \<or> oobn > int (length oob)
      then (Some (Errorf ''%w: first write returned invalid ancillary count %d''
              [FNum oobn] [Sentinel ErrPartialFrame]), w1)
      else if oobn \<noteq> int (length oob)
      then (Some (Errorf ''%w: ancillary write accepted %d of %d bytes''
              [FNum oobn, FNum (int (length oob))] [Sentinel ErrPartialFrame]), w1)
      else case err of
          Some e \<Rightarrow> (if accepted then errors_join [Some (Sentinel ErrPartialFrame), Some e] else Some e, w1)
        | None \<Rightarrow>
            if n = 0
            then (if accepted then errors_join [Some (Sentinel ErrPartialFrame), Some (Sentinel ErrNoProgress)]
                  else Some (Sentinel ErrNoProgress), w1)
            else write_rest E (drop (nat n) data) w1)"

definition WriteMsg :: "'k env \<Rightarrow> bytes \<Rightarrow> bytes \<Rightarrow> ('k world, gerr option) go" where
  "WriteMsg E b oob =
     bnd (gets fatalErr) (\<lambda>f.
     case f of Some f \<Rightarrow> ret (Some f)
     | None \<Rightarrow>
       bnd (if length b < 8 \<or> length b > 0xffff \<or> length b mod 4 \<noteq> 0 then ret True
            else bnd (lift (get_u32 b 4)) (\<lambda>v. ret (drop_bit 16 v \<noteq> of_nat (length b)))) (\<lambda>bad.
       if bad then ret (Some (Errorf ''%w: %d bytes'' [FNum (int (length b))] [Sentinel ErrFrameSize]))
       else (\<lambda>w. case writeFrame E b oob w of
               (Some e, w1) \<Rightarrow> setFatal e w1
             | (None, w1) \<Rightarrow> (Inr None, w1))))"

section \<open>What is preserved\<close>

lemma write_rest_frame: "\<exists>k. snd (write_rest E data w) = w\<lparr>conn := k\<rparr>"
proof (induction data arbitrary: w rule: length_induct)
  case (1 data)
  show ?case
  proof (cases "data = []")
    case True
    then show ?thesis by (simp add: write_rest.simps) (metis world.surjective world.update_convs(6))
  next
    case False
    obtain n err k where s: "sendplain E (conn w) data = ((n, err), k)" by (metis prod.collapse)
    show ?thesis
    proof (cases "0 < n \<and> n \<le> int (length data) \<and> err = None")
      case True
      then obtain k' where "snd (write_rest E (drop (nat n) data) (w\<lparr>conn := k\<rparr>)) = w\<lparr>conn := k'\<rparr>"
        using 1 [rule_format, of "drop (nat n) data" "w\<lparr>conn := k\<rparr>"] False by auto
      then show ?thesis using True False s by (subst write_rest.simps) (auto simp: Let_def)
    next
      case F: False
      then have "snd (write_rest E data w) = w\<lparr>conn := k\<rparr>"
        using False s by (subst write_rest.simps) (auto simp: Let_def split: option.splits)
      then show ?thesis by blast
    qed
  qed
qed

lemma writeFrame_frame: "\<exists>k. snd (writeFrame E data oob w) = w\<lparr>conn := k\<rparr>"
proof -
  obtain n oobn err k where s: "sendmsg E (conn w) data oob = ((n, oobn, err), k)" by (metis prod.collapse)
  have "\<exists>k'. snd (write_rest E (drop (nat n) data) (w\<lparr>conn := k\<rparr>)) = w\<lparr>conn := k'\<rparr>"
    using write_rest_frame [of E "drop (nat n) data" "w\<lparr>conn := k\<rparr>"] by auto
  then show ?thesis
    using s by (auto simp: writeFrame_def Let_def split: option.splits)
qed

section \<open>What reaches the wire\<close>

text \<open>
  \<open>sink E sent anc\<close>: the socket is a byte stream. A write appends the bytes it counts, and counts
  no more than it was given; \<open>sent\<close> and \<open>anc\<close> read the stream and the ancillary bytes so far.
\<close>

definition sink :: "'k env \<Rightarrow> ('k \<Rightarrow> bytes) \<Rightarrow> ('k \<Rightarrow> bytes) \<Rightarrow> bool" where
  "sink E sent anc \<longleftrightarrow>
     (\<forall>k data oob n oobn err k'. sendmsg E k data oob = ((n, oobn, err), k') \<longrightarrow>
        0 \<le> n \<and> n \<le> int (length data) \<and> 0 \<le> oobn \<and> oobn \<le> int (length oob) \<and>
        sent k' = sent k @ take (nat n) data \<and> anc k' = anc k @ take (nat oobn) oob) \<and>
     (\<forall>k data n err k'. sendplain E k data = ((n, err), k') \<longrightarrow>
        0 \<le> n \<and> n \<le> int (length data) \<and> sent k' = sent k @ take (nat n) data \<and> anc k' = anc k)"

lemma write_rest_sent:
  assumes "sink E sent anc" "write_rest E data w = (e, w')"
  shows "\<exists>m \<le> length data. sent (conn w') = sent (conn w) @ take m data \<and> anc (conn w') = anc (conn w) \<and>
    (e = None \<longrightarrow> m = length data) \<and> (\<forall>x. e = Some x \<longrightarrow> errors_is x ErrPartialFrame)"
  using assms(2)
proof (induction data arbitrary: w rule: length_induct)
  case (1 data)
  show ?case
  proof (cases "data = []")
    case True
    then show ?thesis using 1(2) by (auto simp: write_rest.simps)
  next
    case False
    obtain n err k where s: "sendplain E (conn w) data = ((n, err), k)" by (metis prod.collapse)
    have b: "0 \<le> n" "n \<le> int (length data)" "sent k = sent (conn w) @ take (nat n) data" "anc k = anc (conn w)"
      using assms(1) s unfolding sink_def by blast+
    show ?thesis
    proof (cases "n \<noteq> 0 \<and> err = None")
      case True
      then have r: "write_rest E (drop (nat n) data) (w\<lparr>conn := k\<rparr>) = (e, w')"
        using 1(2) b(1,2) s False by (subst (asm) write_rest.simps) (auto simp: Let_def)
      have "length (drop (nat n) data) < length data" using True b False by auto
      with 1(1) r obtain m where m: "m \<le> length (drop (nat n) data)"
        "sent (conn w') = sent k @ take m (drop (nat n) data)" "anc (conn w') = anc k"
        "e = None \<longrightarrow> m = length (drop (nat n) data)" "\<forall>x. e = Some x \<longrightarrow> errors_is x ErrPartialFrame"
        by fastforce
      have "take (nat n) data @ take m (drop (nat n) data) = take (nat n + m) data" by (simp add: take_add)
      then show ?thesis using m b by (intro exI [of _ "nat n + m"]) auto
    next
      case F: False
      then have "w' = w\<lparr>conn := k\<rparr> \<and> (\<exists>x. e = Some x \<and> errors_is x ErrPartialFrame)"
        using 1(2) b(1,2) s False by (subst (asm) write_rest.simps) (auto simp: Let_def split: option.splits)
      then show ?thesis using b by (intro exI [of _ "nat n"]) auto
    qed
  qed
qed

lemma writeFrame_sent:
  assumes "sink E sent anc" "writeFrame E data oob w = (e, w')"
  shows "\<exists>m m'. m \<le> length data \<and> m' \<le> length oob \<and>
    sent (conn w') = sent (conn w) @ take m data \<and> anc (conn w') = anc (conn w) @ take m' oob \<and>
    (e = None \<longrightarrow> m = length data \<and> m' = length oob) \<and>
    (\<forall>x. e = Some x \<longrightarrow> errors_is x ErrPartialFrame \<or> m = 0 \<and> m' = 0)"
proof -
  obtain n oobn err k where s: "sendmsg E (conn w) data oob = ((n, oobn, err), k)" by (metis prod.collapse)
  have b: "0 \<le> n" "n \<le> int (length data)" "0 \<le> oobn" "oobn \<le> int (length oob)"
    "sent k = sent (conn w) @ take (nat n) data" "anc k = anc (conn w) @ take (nat oobn) oob"
    using assms(1) s unfolding sink_def by blast+
  show ?thesis
  proof (cases "oobn = int (length oob) \<and> err = None \<and> n \<noteq> 0")
    case True
    then have r: "write_rest E (drop (nat n) data) (w\<lparr>conn := k\<rparr>) = (e, w')"
      using assms(2) s b by (simp add: writeFrame_def Let_def)
    obtain m where m: "m \<le> length (drop (nat n) data)"
      "sent (conn w') = sent k @ take m (drop (nat n) data)" "anc (conn w') = anc k"
      "e = None \<longrightarrow> m = length (drop (nat n) data)" "\<forall>x. e = Some x \<longrightarrow> errors_is x ErrPartialFrame"
      using write_rest_sent [OF assms(1) r] by auto
    have "take (nat n) data @ take m (drop (nat n) data) = take (nat n + m) data" by (simp add: take_add)
    then show ?thesis using m b True by (intro exI [of _ "nat n + m"] exI [of _ "length oob"]) auto
  next
    case False
    then have "w' = w\<lparr>conn := k\<rparr> \<and> (\<exists>x. e = Some x \<and> (errors_is x ErrPartialFrame \<or> n = 0 \<and> oobn = 0))"
      using assms(2) s b by (auto simp: writeFrame_def Let_def split: option.splits if_splits)
    then show ?thesis using b by (intro exI [of _ "nat n"] exI [of _ "nat oobn"]) auto
  qed
qed

section \<open>WriteMsg\<close>

text \<open>One frame: a header, a size the header declares, aligned and within the size field.\<close>

definition valid_frame :: "bytes \<Rightarrow> bool" where
  "valid_frame b \<longleftrightarrow> 8 \<le> length b \<and> length b \<le> 0xffff \<and> length b mod 4 = 0 \<and>
     (case get_u32 b 4 of Inl e \<Rightarrow> False | Inr v \<Rightarrow> drop_bit 16 v = of_nat (length b))"

lemma WriteMsg_sticky: "fatalErr w = Some f \<Longrightarrow> WriteMsg E b oob w = (Inr (Some f), w)"
  by (simp add: WriteMsg_def)

lemma WriteMsg_refuses:
  assumes "fatalErr w = None" "\<not> valid_frame b"
  shows "WriteMsg E b oob w =
    (Inr (Some (Errorf ''%w: %d bytes'' [FNum (int (length b))] [Sentinel ErrFrameSize])), w)"
proof (cases "length b < 8 \<or> length b > 0xffff \<or> length b mod 4 \<noteq> 0")
  case True
  then show ?thesis using assms(1) by (auto simp: WriteMsg_def)
next
  case False
  then obtain v where "get_u32 b 4 = Inr v" using get_u32_Inr_iff [of b 4] by auto
  then show ?thesis using False assms by (simp add: WriteMsg_def valid_frame_def bnd_assoc)
qed

lemma WriteMsg_valid:
  assumes "fatalErr w = None" "valid_frame b"
  shows "WriteMsg E b oob w = (case writeFrame E b oob w of (Some e, w1) \<Rightarrow> setFatal e w1 | (None, w1) \<Rightarrow> (Inr None, w1))"
  using assms by (auto simp: WriteMsg_def valid_frame_def bnd_assoc split: sum.splits)

lemma WriteMsg_outcome:
  obtains (sticky) f where "fatalErr w = Some f" "WriteMsg E b oob w = (Inr (Some f), w)"
  | (refused) e where "fatalErr w = None" "\<not> valid_frame b" "WriteMsg E b oob w = (Inr (Some e), w)"
      "errors_is e ErrFrameSize"
  | (failed) e k where "fatalErr w = None" "valid_frame b" "writeFrame E b oob w = (Some e, w\<lparr>conn := k\<rparr>)"
      "WriteMsg E b oob w = (Inr (Some e), w\<lparr>conn := k, fatalErr := Some e,
         trace := trace w @ map Closed (pendingFDs w), pendingFDs := []\<rparr>)"
  | (sent) k where "fatalErr w = None" "valid_frame b" "writeFrame E b oob w = (None, w\<lparr>conn := k\<rparr>)"
      "WriteMsg E b oob w = (Inr None, w\<lparr>conn := k\<rparr>)"
proof (cases "fatalErr w")
  case (Some f)
  then show thesis using sticky WriteMsg_sticky by blast
next
  case n: None
  show thesis
  proof (cases "valid_frame b")
    case False
    then show thesis using refused [OF n False WriteMsg_refuses [OF n False]] by simp
  next
    case True
    obtain e k where f: "writeFrame E b oob w = (e, w\<lparr>conn := k\<rparr>)" using writeFrame_frame by (metis prod.collapse)
    show thesis
      by (cases e) (use failed sent f n True in \<open>simp_all add: WriteMsg_valid setFatal_first\<close>)
  qed
qed

lemma WriteMsg_wf [keeps_intro]: "keeps wf_world (WriteMsg E b oob)"
proof (rule keepsI)
  fix w :: "'a world" assume "wf_world w"
  then show "wf_world (snd (WriteMsg E b oob w))"
    by (rule_tac WriteMsg_outcome [of w E b oob]) auto
qed

lemma WriteMsg_bal: "fd_bal X w \<Longrightarrow> fd_bal X (snd (WriteMsg E b oob w))"
  by (rule WriteMsg_outcome [of w E b oob]) (auto simp: fd_bal_def)

text \<open>The socket accepts some bytes at every write, all ancillary data, and reports no error.\<close>

definition accepting :: "'k env \<Rightarrow> bool" where
  "accepting E \<longleftrightarrow>
     (\<forall>k data oob. data \<noteq> [] \<longrightarrow> (case sendmsg E k data oob of ((n, oobn, err), k') \<Rightarrow>
        0 < n \<and> n \<le> int (length data) \<and> oobn = int (length oob) \<and> err = None)) \<and>
     (\<forall>k data. data \<noteq> [] \<longrightarrow> (case sendplain E k data of ((n, err), k') \<Rightarrow>
        0 < n \<and> n \<le> int (length data) \<and> err = None))"

lemma write_rest_accepting: "accepting E \<Longrightarrow> fst (write_rest E data w) = None"
proof (induction data arbitrary: w rule: length_induct)
  case (1 data)
  show ?case
  proof (cases "data = []")
    case False
    obtain n err k where s: "sendplain E (conn w) data = ((n, err), k)" by (metis prod.collapse)
    have "0 < n \<and> n \<le> int (length data) \<and> err = None"
      using 1(2) s False unfolding accepting_def by (metis (mono_tags, lifting) case_prod_conv)
    then show ?thesis using 1 s False by (subst write_rest.simps) (auto simp: Let_def)
  qed (simp add: write_rest.simps)
qed

lemma WriteMsg_accepting:
  assumes "accepting E" "fatalErr w = None" "valid_frame b"
  shows "\<exists>k. WriteMsg E b oob w = (Inr None, w\<lparr>conn := k\<rparr>)"
proof -
  obtain n oobn err k where s: "sendmsg E (conn w) b oob = ((n, oobn, err), k)" by (metis prod.collapse)
  have "b \<noteq> []" using assms(3) by (auto simp: valid_frame_def)
  then have "0 < n \<and> n \<le> int (length b) \<and> oobn = int (length oob) \<and> err = None"
    using assms(1) s unfolding accepting_def by (metis (mono_tags, lifting) case_prod_conv)
  then have "fst (writeFrame E b oob w) = None"
    using s write_rest_accepting [OF assms(1)] by (simp add: writeFrame_def Let_def)
  then show ?thesis
    by (rule_tac WriteMsg_outcome [of w E b oob]) (use assms in auto)
qed

end
