(* ===== verification/Request_Build.thy ===== *)
theory Request_Build
  imports Socket_Write
begin

unbundle bit_operations_syntax

text \<open>
  How every generated request builds its frame: a zeroed buffer \<open>_reqBuf\<close> of \<open>_reqBufLen\<close> bytes,
  the sender's ID and the opcode word, then one block per argument at a cursor \<open>l\<close>, and one
  \<open>WriteMsg\<close> (written by \<open>writeRequest\<close> of cmd/sysc-wayland-scanner/main.go). The theory shows that the arguments fill
  the buffer exactly, what the bytes are, that the frame is accepted unless it is longer than the
  size field can say, and that a reader of the wire gets the arguments back.
\<close>

section \<open>Arguments\<close>

text \<open>
  The blocks: \<open>PutUint32(.., uint32(v))\<close> for the integer kinds, \<open>PutUint32(.., x.ID())\<close> for an object,
  the same with the nil test for a nullable object, \<open>PutString\<close> into a slot of \<open>4 + n\<close> bytes, plain and
  with the nil test, and \<open>PutArray\<close> into such a slot.
\<close>

datatype put =
    PWord u32
  | PId "ref option"
  | PNullId "ref option"
  | PString bytes nat
  | PNullString "bytes option" nat
  | PArray bytes nat

text \<open>Overwriting \<open>b[lo:hi]\<close> through one of the put functions.\<close>

definition put_at :: "bytes \<Rightarrow> nat \<Rightarrow> nat \<Rightarrow> (bytes \<Rightarrow> panic + bytes) \<Rightarrow> panic + bytes" where
  "put_at b lo hi f = pbind (slice b lo hi) (\<lambda>s. pbind (f s) (\<lambda>s'. Inr (take lo b @ s' @ drop hi b)))"

definition put_word :: "bytes \<Rightarrow> nat \<Rightarrow> u32 \<Rightarrow> ('k world, bytes \<times> nat) go" where
  "put_word b l v = bnd (lift (put_at b l (l + 4) (\<lambda>s. PutUint32 s v))) (\<lambda>b. ret (b, l + 4))"

definition put_string :: "bytes \<Rightarrow> nat \<Rightarrow> bytes \<Rightarrow> nat \<Rightarrow> ('k world, bytes \<times> nat) go" where
  "put_string b l s n = bnd (lift (put_at b l (l + (4 + n)) (\<lambda>d. PutString d s))) (\<lambda>b. ret (b, l + (4 + n)))"

definition put_array :: "bytes \<Rightarrow> nat \<Rightarrow> bytes \<Rightarrow> nat \<Rightarrow> ('k world, bytes \<times> nat) go" where
  "put_array b l a n = bnd (lift (put_at b l (l + (4 + n)) (\<lambda>d. PutArray d a))) (\<lambda>b. ret (b, l + (4 + n)))"

primrec put_arg :: "put \<Rightarrow> bytes \<Rightarrow> nat \<Rightarrow> ('k world, bytes \<times> nat) go" where
  "put_arg (PWord v) b l = put_word b l v"
| "put_arg (PId x) b l = bnd (ID_arg x) (put_word b l)"
| "put_arg (PNullId x) b l = (case x of None \<Rightarrow> put_word b l 0 | Some r \<Rightarrow> bnd (ID r) (put_word b l))"
| "put_arg (PString s n) b l = put_string b l s n"
| "put_arg (PNullString x n) b l = (case x of None \<Rightarrow> put_word b l 0 | Some s \<Rightarrow> put_string b l s n)"
| "put_arg (PArray a n) b l = put_array b l a n"

primrec put_args :: "put list \<Rightarrow> bytes \<Rightarrow> nat \<Rightarrow> ('k world, bytes \<times> nat) go" where
  "put_args [] b l = ret (b, l)"
| "put_args (p # ps) b l = bnd (put_arg p b l) (\<lambda>(b, l). put_args ps b l)"

text \<open>The part that all requests share; \<open>len\<close> is \<open>_reqBufLen\<close>.\<close>

definition request :: "'k env \<Rightarrow> ref \<Rightarrow> u32 \<Rightarrow> nat \<Rightarrow> put list \<Rightarrow> bytes \<Rightarrow> ('k world, gerr option) go" where
  "request E i opcode len ps oob =
     bnd (ID i) (\<lambda>self.
     bnd (lift (put_at (replicate len 0) 0 4 (\<lambda>s. PutUint32 s self))) (\<lambda>b.
     bnd (put_word b 4 (opcode_word (of_nat len) opcode)) (\<lambda>(b, l).
     bnd (put_args ps b l) (\<lambda>(b, l).
     andthen (Context_of i) (WriteMsg E b oob)))))"

text \<open>\<open>PaddedLen(len(s) + 1)\<close>, and its nullable variant that stays 0 for nil.\<close>

definition str_len :: "bytes \<Rightarrow> nat" where
  "str_len s = PaddedLen (length s + 1)"

definition opt_str_len :: "bytes option \<Rightarrow> nat" where
  "opt_str_len x = (case x of None \<Rightarrow> 0 | Some s \<Rightarrow> str_len s)"

section \<open>The bytes of a request\<close>

text \<open>The reference encoding of an argument, given the IDs of objects, and when it is defined.\<close>

primrec put_bytes :: "(ref \<Rightarrow> u32) \<Rightarrow> put \<Rightarrow> bytes" where
  "put_bytes f (PWord v) = le_bytes v"
| "put_bytes f (PId x) = le_bytes (case x of None \<Rightarrow> 0 | Some r \<Rightarrow> f r)"
| "put_bytes f (PNullId x) = le_bytes (case x of None \<Rightarrow> 0 | Some r \<Rightarrow> f r)"
| "put_bytes f (PString s n) = le_bytes (of_nat (length s + 1)) @ s @ 0 # replicate (n - (length s + 1)) 0"
| "put_bytes f (PNullString x n) = (case x of None \<Rightarrow> le_bytes 0
     | Some s \<Rightarrow> le_bytes (of_nat (length s + 1)) @ s @ 0 # replicate (n - (length s + 1)) 0)"
| "put_bytes f (PArray a n) = le_bytes (of_nat (length a)) @ a @ replicate (n - length a) 0"

primrec put_ok :: "'k world \<Rightarrow> put \<Rightarrow> bool" where
  "put_ok w (PWord v) = True"
| "put_ok w (PId x) = (case x of None \<Rightarrow> False | Some r \<Rightarrow> heap w r \<noteq> None)"
| "put_ok w (PNullId x) = (case x of None \<Rightarrow> True | Some r \<Rightarrow> heap w r \<noteq> None)"
| "put_ok w (PString s n) = (n = str_len s)"
| "put_ok w (PNullString x n) = (n = opt_str_len x)"
| "put_ok w (PArray a n) = (n = PaddedLen (length a))"

definition id_of :: "'k world \<Rightarrow> ref \<Rightarrow> u32" where
  "id_of w r = (case heap w r of None \<Rightarrow> 0 | Some p \<Rightarrow> px_id p)"

lemma id_of_Some [simp]: "heap w r = Some p \<Longrightarrow> id_of w r = px_id p"
  by (simp add: id_of_def)

lemma str_len_ge: "length s + 1 \<le> str_len s"
  unfolding str_len_def by (rule PaddedLen_ge)

lemma length_put_bytes:
  assumes "put_ok w p"
  shows "length (put_bytes f p) = (case p of PWord _ \<Rightarrow> 4 | PId _ \<Rightarrow> 4 | PNullId _ \<Rightarrow> 4
     | PString s n \<Rightarrow> 4 + n | PNullString x n \<Rightarrow> 4 + n | PArray a n \<Rightarrow> 4 + n)"
proof -
  have "Suc (str_len s - Suc 0) = str_len s" for s using str_len_ge [of s] by simp
  then show ?thesis
    using str_len_ge PaddedLen_ge assms by (cases p) (auto simp: opt_str_len_def split: option.splits)
qed

lemma put_at_word:
  assumes "l = length pre"
  shows "put_at (pre @ replicate (4 + k) 0) l (l + 4) (\<lambda>s. PutUint32 s v) = Inr (pre @ le_bytes v @ replicate k 0)"
  using assms by (simp add: put_at_def slice_def PutUint32_Inr replicate_add)

lemma put_at_string:
  assumes "l = length pre" "n = str_len s"
  shows "put_at (pre @ replicate (4 + n + k) 0) l (l + (4 + n)) (\<lambda>d. PutString d s) =
    Inr (pre @ put_bytes f (PString s n) @ replicate k 0)"
proof -
  have n: "length s + 1 \<le> n" using assms(2) str_len_ge by simp
  have sl: "slice (pre @ replicate (4 + n + k) 0) l (l + (4 + n)) = Inr (replicate (4 + n) 0)"
    using assms(1) by (simp add: slice_def)
  have ps: "PutString (replicate (4 + n) 0) s = Inr (put_bytes f (PString s n))"
    using PutString_value [of s "replicate (4 + n) 0"] n by simp
  show ?thesis unfolding put_at_def sl pbind_simps ps using assms(1) by simp
qed

lemma put_at_array:
  assumes "l = length pre" "n = PaddedLen (length a)"
  shows "put_at (pre @ replicate (4 + n + k) 0) l (l + (4 + n)) (\<lambda>d. PutArray d a) =
    Inr (pre @ put_bytes f (PArray a n) @ replicate k 0)"
proof -
  have n: "length a \<le> n" using assms(2) PaddedLen_ge by simp
  have sl: "slice (pre @ replicate (4 + n + k) 0) l (l + (4 + n)) = Inr (replicate (4 + n) 0)"
    using assms(1) by (simp add: slice_def)
  have ps: "PutArray (replicate (4 + n) 0) a = Inr (put_bytes f (PArray a n))"
    using PutArray_value [of a "replicate (4 + n) 0"] n by simp
  show ?thesis unfolding put_at_def sl pbind_simps ps using assms(1) by simp
qed

lemma put_arg_run:
  assumes ok: "put_ok w p" and l: "l = length pre"
  shows "put_arg p (pre @ replicate (length (put_bytes (id_of w) p) + k) 0) l w =
    (Inr (pre @ put_bytes (id_of w) p @ replicate k 0, l + length (put_bytes (id_of w) p)), w)"
proof -
  have word: "put_word (pre @ replicate (4 + k) 0) l v w = (Inr (pre @ le_bytes v @ replicate k 0, l + 4), w)" for v
    using put_at_word [OF l, of k v] by (simp add: put_word_def)
  have str: "put_string (pre @ replicate (4 + n + k) 0) l s n w =
      (Inr (pre @ put_bytes (id_of w) (PString s n) @ replicate k 0, l + (4 + n)), w)" if "n = str_len s" for s n
    using put_at_string [OF l that, of k "id_of w"] by (simp add: put_string_def del: put_bytes.simps)
  have arr: "put_array (pre @ replicate (4 + n + k) 0) l a n w =
      (Inr (pre @ put_bytes (id_of w) (PArray a n) @ replicate k 0, l + (4 + n)), w)" if "n = PaddedLen (length a)" for a n
    using put_at_array [OF l that, of k "id_of w"] by (simp add: put_array_def del: put_bytes.simps)
  note len = length_put_bytes [OF ok, of "id_of w"]
  show ?thesis
  proof (cases p)
    case (PWord v)
    then show ?thesis using word by simp
  next
    case (PId x)
    then obtain r q where "x = Some r" "heap w r = Some q" using ok by (auto split: option.splits)
    then show ?thesis using word PId by (simp add: ID_arg_def nonnil_def ID_def bnd_deref bnd_assoc)
  next
    case (PNullId x)
    then show ?thesis
    proof (cases x)
      case (Some r)
      then obtain q where "heap w r = Some q" using ok PNullId by auto
      then show ?thesis using word PNullId Some by (simp add: ID_def bnd_deref bnd_assoc)
    qed (use word PNullId in simp)
  next
    case (PString s n)
    then show ?thesis using str [of n s] ok len by (simp add: ac_simps)
  next
    case (PNullString x n)
    then show ?thesis
      using str [of n] ok len word by (cases x) (simp_all add: ac_simps opt_str_len_def)
  next
    case (PArray a n)
    then show ?thesis using arr [of n a] ok len by (simp add: ac_simps)
  qed
qed

definition args_bytes :: "(ref \<Rightarrow> u32) \<Rightarrow> put list \<Rightarrow> bytes" where
  "args_bytes f ps = concat (map (put_bytes f) ps)"

lemma args_bytes_simps [simp]: "args_bytes f [] = []" "args_bytes f (p # ps) = put_bytes f p @ args_bytes f ps"
  by (simp_all add: args_bytes_def)

lemma put_args_run:
  "\<forall>p\<in>set ps. put_ok w p \<Longrightarrow> l = length pre \<Longrightarrow>
   put_args ps (pre @ replicate (length (args_bytes (id_of w) ps)) 0) l w =
     (Inr (pre @ args_bytes (id_of w) ps, l + length (args_bytes (id_of w) ps)), w)"
proof (induction ps arbitrary: pre l)
  case (Cons p ps)
  have "put_arg p (pre @ replicate (length (args_bytes (id_of w) (p # ps))) 0) l w =
     (Inr ((pre @ put_bytes (id_of w) p) @ replicate (length (args_bytes (id_of w) ps)) 0,
        l + length (put_bytes (id_of w) p)), w)"
    using put_arg_run [of w p l pre "length (args_bytes (id_of w) ps)"] Cons.prems by simp
  then show ?case
    using Cons.IH [of "l + length (put_bytes (id_of w) p)" "pre @ put_bytes (id_of w) p"] Cons.prems
    by (simp add: bnd_run_Inr)
qed simp

text \<open>The frame a request sends.\<close>

definition request_frame :: "'k world \<Rightarrow> u32 \<Rightarrow> u32 \<Rightarrow> put list \<Rightarrow> bytes" where
  "request_frame w sender opcode ps =
     frame_header sender opcode (of_nat (8 + length (args_bytes (id_of w) ps))) @ args_bytes (id_of w) ps"

lemma request_run:
  assumes i: "heap w i = Some p" "px_ctx p" and ok: "\<forall>p\<in>set ps. put_ok w p"
    and len: "len = 8 + length (args_bytes (id_of w) ps)"
  shows "request E i opcode len ps oob w = WriteMsg E (request_frame w (px_id p) opcode ps) oob w"
proof -
  let ?n = "length (args_bytes (id_of w) ps)" let ?o = "opcode_word (of_nat len) opcode"
  have b1: "put_at (replicate len 0) 0 4 (\<lambda>s. PutUint32 s (px_id p)) = Inr (le_bytes (px_id p) @ replicate (4 + ?n) 0)"
    using put_at_word [of 0 "[]" "4 + ?n" "px_id p"] len by (simp add: add.assoc [symmetric])
  have b2: "put_word (le_bytes (px_id p) @ replicate (4 + ?n) 0) 4 ?o w =
      (Inr ((le_bytes (px_id p) @ le_bytes ?o) @ replicate ?n 0, 8), w)"
    using put_at_word [of 4 "le_bytes (px_id p)" ?n ?o] by (simp add: put_word_def)
  have b3: "put_args ps ((le_bytes (px_id p) @ le_bytes ?o) @ replicate ?n 0) 8 w =
      (Inr ((le_bytes (px_id p) @ le_bytes ?o) @ args_bytes (id_of w) ps, 8 + ?n), w)"
    by (rule put_args_run [OF ok]) simp
  have b4: "andthen (Context_of i) m w = m w" for m
    using Context_of_run [OF i] by (simp add: andthen_def bnd_def)
  have "request E i opcode len ps oob w =
      WriteMsg E ((le_bytes (px_id p) @ le_bytes ?o) @ args_bytes (id_of w) ps) oob w"
    unfolding request_def
    by (simp add: bnd_def ID_run [of w i p] i b1 b2 [unfolded append_assoc] b3 [unfolded append_assoc] b4)
  then show ?thesis by (simp add: request_frame_def frame_header_def len)
qed

lemma put_bytes_dvd: "put_ok w p \<Longrightarrow> 4 dvd length (put_bytes f p)"
  by (cases p) (auto simp: length_put_bytes str_len_def opt_str_len_def simp del: put_bytes.simps split: option.splits)

lemma args_bytes_dvd: "\<forall>p\<in>set ps. put_ok w p \<Longrightarrow> 4 dvd length (args_bytes f ps)"
  by (induction ps) (auto simp: put_bytes_dvd)

lemma request_frame_length [simp]:
  "length (request_frame w sender opcode ps) = 8 + length (args_bytes (id_of w) ps)"
  by (simp add: request_frame_def)

lemma request_frame_header:
  "get_u32 (request_frame w sender opcode ps) 0 = Inr sender"
  "get_u32 (request_frame w sender opcode ps) 4 =
     Inr (opcode_word (of_nat (length (request_frame w sender opcode ps))) opcode)"
  using get_u32_at' [of 0 "[]" sender] get_u32_at' [of 4 "le_bytes sender"]
  by (simp_all add: request_frame_def frame_header_def)

lemma request_frame_valid:
  assumes "\<forall>p\<in>set ps. put_ok w p"
  shows "valid_frame (request_frame w sender opcode ps) \<longleftrightarrow> 8 + length (args_bytes (id_of w) ps) \<le> 0xffff"
proof -
  have "(8 + length (args_bytes (id_of w) ps)) mod 4 = 0"
    using args_bytes_dvd [OF assms, of "id_of w"] by (simp add: mod_eq_0_iff_dvd)
  moreover have "(of_nat n :: u32) \<le> 0xffff" if "n \<le> 0xffff" for n
    using that by (simp add: word_le_nat_alt unat_of_nat)
  ultimately show ?thesis
    unfolding valid_frame_def request_frame_header request_frame_length sum.case by (auto simp del: of_nat_add)
qed

section \<open>What requests preserve\<close>

lemma keeps_put_word [keeps_intro]: "keeps I (put_word b l v)"
  unfolding put_word_def by (intro keeps_intro)

lemma keeps_put_string [keeps_intro]: "keeps I (put_string b l s n)"
  unfolding put_string_def by (intro keeps_intro)

lemma keeps_put_array [keeps_intro]: "keeps I (put_array b l a n)"
  unfolding put_array_def by (intro keeps_intro)

lemma keeps_put_arg [keeps_intro]: "keeps I (put_arg p b l)"
  by (cases p) (simp_all add: keeps_intro split: option.splits)

lemma keeps_put_args [keeps_intro]: "keeps I (put_args ps b l)"
proof (induction ps arbitrary: b l)
  case (Cons p ps)
  then show ?case by (auto intro!: keeps_intro)
qed (simp add: keeps_intro)

lemma keeps_request: "(\<And>b. keeps I (WriteMsg E b oob)) \<Longrightarrow> keeps I (request E i opcode len ps oob)"
  unfolding request_def by (auto intro!: keeps_intro)

lemma request_wf [keeps_intro]: "keeps wf_world (request E i opcode len ps oob)"
  by (intro keeps_request WriteMsg_wf)

lemma WriteMsg_keeps_bal [keeps_intro]: "keeps (fd_bal X) (WriteMsg E b oob)"
  by (rule keepsI, rule WriteMsg_bal)

lemma request_bal [keeps_intro]: "keeps (fd_bal X) (request E i opcode len ps oob)"
  by (intro keeps_request WriteMsg_keeps_bal)

end
