(* ===== verification/Event_Decode.thy ===== *)
theory Event_Decode
  imports Request_Build
begin

text \<open>
  How the generated \<open>Dispatch\<close> methods decode an event and call its handler (written by
  \<open>writeEventDispatcher\<close> of cmd/sysc-wayland-scanner/main.go). A reader is one argument block: it advances the
  cursor \<open>l\<close> and yields the value of the event struct's field. The theory shows that decoding
  never loses a descriptor and keeps the object map well formed, and it states the ownership
  contract of a dispatcher: after a normal return the descriptor is a handler's or closed.
\<close>

section \<open>Argument readers\<close>

type_synonym 'k reader = "nat \<Rightarrow> ('k world, gval \<times> nat) go"

definition r_uint :: "bytes \<Rightarrow> 'k reader" where
  "r_uint data l = bnd (lift (get_u32 data l)) (\<lambda>v. ret (VUint v, l + 4))"

definition r_int :: "bytes \<Rightarrow> 'k reader" where
  "r_int data l = bnd (lift (get_u32 data l)) (\<lambda>v. ret (VInt v, l + 4))"

definition r_fixed :: "bytes \<Rightarrow> 'k reader" where
  "r_fixed data l = bnd (lift (get_fixed data l)) (\<lambda>v. ret (VFixed v, l + 4))"

definition r_string :: "bytes \<Rightarrow> 'k reader" where
  "r_string data l = bnd (lift (get_string data l)) (\<lambda>(v, l). ret (VString v, l))"

definition r_opt_string :: "bytes \<Rightarrow> 'k reader" where
  "r_opt_string data l = bnd (lift (get_opt_string data l)) (\<lambda>(v, l). ret (VOptString v, l))"

definition r_array :: "bytes \<Rightarrow> 'k reader" where
  "r_array data l = bnd (lift (get_array data l)) (\<lambda>(v, l). ret (VArray v, l))"

definition r_fd :: "int \<Rightarrow> 'k reader" where
  "r_fd fd l = ret (VFd fd, l)"

text \<open>\<open>i.Context().GetProxy(Uint32(..))\<close> as a field of type \<open>Proxy\<close>.\<close>

text \<open>\<open>p, ok := i.Context().GetProxy(n).(*T); ok && !p.IsZombie()\<close>.\<close>

definition live_proxy :: "ref \<Rightarrow> iface \<Rightarrow> u32 \<Rightarrow> ('k world, ref option) go" where
  "live_proxy i t n =
     andthen (Context_of i) (bnd (GetProxy n) (\<lambda>x.
       case x of None \<Rightarrow> ret None
       | Some r \<Rightarrow> bnd (deref r) (\<lambda>p.
           if px_type p = t then bnd (IsZombie r) (\<lambda>z. ret (if z then None else Some r))
           else ret None)))"

definition r_obj :: "ref \<Rightarrow> bytes \<Rightarrow> iface \<Rightarrow> 'k reader" where
  "r_obj i data t l =
     bnd (lift (get_u32 data l)) (\<lambda>n. bnd (live_proxy i t n) (\<lambda>p. ret (VObj p, l + 4)))"

text \<open>A \<open>new_id\<close> argument: an object that is already live is reused, else one is registered.\<close>

definition r_new :: "ref \<Rightarrow> bytes \<Rightarrow> iface \<Rightarrow> 'k reader" where
  "r_new i data t l =
     bnd (lift (get_u32 data l)) (\<lambda>n.
     bnd (live_proxy i t n) (\<lambda>x.
     bnd (case x of Some r \<Rightarrow> ret (Some r)
          | None \<Rightarrow> if n \<noteq> 0 then andthen (Context_of i) (bnd (NewWithID t n) (\<lambda>r. ret (Some r))) else ret None)
       (\<lambda>p. ret (VObj p, l + 4))))"

text \<open>The block of \<open>AbsorbNewIDs\<close> for a \<open>new_id\<close> argument; earlier arguments are skipped over.\<close>

definition absorb_new :: "ref \<Rightarrow> bytes \<Rightarrow> iface \<Rightarrow> nat \<Rightarrow> ('k world, nat) go" where
  "absorb_new i data t l =
     bnd (lift (get_u32 data l)) (\<lambda>n.
     andthen (if n \<noteq> 0 then andthen (Context_of i) (bnd (NewWithID t n) MarkZombie) else ret ()) (ret (l + 4)))"

primrec decode :: "(string \<times> 'k reader) list \<Rightarrow> nat \<Rightarrow> ('k world, (string \<times> gval) list) go" where
  "decode [] l = ret []"
| "decode (a # as) l = bnd (snd a l) (\<lambda>(v, l). bnd (decode as l) (\<lambda>vs. ret ((fst a, v) # vs)))"

section \<open>Cases of a dispatcher\<close>

text \<open>A plain event: nothing is decoded without a handler.\<close>

definition event :: "'k env \<Rightarrow> ref \<Rightarrow> string \<Rightarrow> string \<Rightarrow> (string \<times> 'k reader) list \<Rightarrow> ('k world, unit) go" where
  "event E i h name as =
     bnd (handler_of i h) (\<lambda>f. case f of None \<Rightarrow> ret ()
       | Some _ \<Rightarrow> bnd (decode as 0) (\<lambda>vs. call_handler E i h (Ev name vs)))"

text \<open>An event with a descriptor: without a handler the descriptor is closed.\<close>

definition fd_event :: "'k env \<Rightarrow> ref \<Rightarrow> int \<Rightarrow> string \<Rightarrow> string \<Rightarrow> (string \<times> 'k reader) list \<Rightarrow> ('k world, unit) go" where
  "fd_event E i fd h name as =
     bnd (handler_of i h) (\<lambda>f. case f of None \<Rightarrow> if fd \<noteq> -1 then unix_Close fd else ret ()
       | Some _ \<Rightarrow> bnd (decode as 0) (\<lambda>vs. call_handler E i h (Ev name vs)))"

text \<open>An event with a \<open>new_id\<close>: the object is registered whether or not there is a handler.\<close>

definition new_event :: "'k env \<Rightarrow> ref \<Rightarrow> string \<Rightarrow> string \<Rightarrow> (string \<times> 'k reader) list \<Rightarrow> ('k world, unit) go" where
  "new_event E i h name as =
     bnd (decode as 0) (\<lambda>vs.
     bnd (handler_of i h) (\<lambda>f. case f of None \<Rightarrow> ret () | Some _ \<Rightarrow> call_handler E i h (Ev name vs)))"

definition unsupported :: "('k world, unit) go" where
  "unsupported = raise (PanicMsg ''client: unsupported opcode'')"

section \<open>Plain readers\<close>

text \<open>A reader without a descriptor: it keeps both invariants and its value carries no descriptor.\<close>

definition plain :: "'k reader \<Rightarrow> bool" where
  "plain r \<longleftrightarrow> (\<forall>l w X. (wf_world w \<longrightarrow> wf_world (snd (r l w))) \<and> (fd_bal X w \<longrightarrow> fd_bal X (snd (r l w))) \<and>
     (\<forall>v l' w'. r l w = (Inr (v, l'), w') \<longrightarrow> gval_fds v = {#}))"

named_theorems plain_intro \<open>the readers of the generated code\<close>

lemma plainI:
  assumes "\<And>l. keeps wf_world (r l)" "\<And>l X. keeps (fd_bal X) (r l)"
    "\<And>l w v l' w'. r l w = (Inr (v, l'), w') \<Longrightarrow> gval_fds v = {#}"
  shows "plain r"
  using assms unfolding plain_def keeps_def by blast

lemma bnd_Inr: "bnd m f w = (Inr b, w') \<longleftrightarrow> (\<exists>a w1. m w = (Inr a, w1) \<and> f a w1 = (Inr b, w'))"
  by (auto simp: bnd_def split: prod.splits sum.splits)

lemma andthen_Inr: "andthen m n w = (Inr b, w') \<longleftrightarrow> (\<exists>a w1. m w = (Inr a, w1) \<and> n w1 = (Inr b, w'))"
  by (auto simp: andthen_def bnd_Inr)

lemma keeps_live_proxy [keeps_intro]: "keeps I (live_proxy i t n)"
  unfolding live_proxy_def by (intro keeps_intro)

text \<open>Heap and object map operations do not touch descriptors.\<close>

lemma fd_bal_heap_ops [keeps_intro]:
  "keeps (fd_bal X) (alloc p)" "keeps (fd_bal X) (put_proxy r q)"
  by (simp_all add: keeps_def alloc_def)

lemma fd_bal_install [keeps_intro]: "keeps (fd_bal X) (install r n)"
  unfolding install_def SetID_def SetContext_def by (auto intro!: keeps_intro keeps_modify)

lemma fd_bal_Register [keeps_intro]: "keeps (fd_bal X) (Register r)"
proof (rule keepsI)
  fix w :: "'a world" assume "fd_bal X w"
  then show "fd_bal X (snd (Register r w))"
    by (auto simp: Register_def Let_def split: prod.splits option.splits intro!: keepsD [OF fd_bal_install])
qed

lemma fd_bal_RegisterWithID [keeps_intro]: "keeps (fd_bal X) (RegisterWithID r n)"
  unfolding RegisterWithID_def by (auto intro!: keeps_intro)

lemma fd_bal_New [keeps_intro]: "keeps (fd_bal X) (New t)"
  unfolding New_def by (auto intro!: keeps_intro)

lemma fd_bal_NewWithID [keeps_intro]: "keeps (fd_bal X) (NewWithID t n)"
  unfolding NewWithID_def by (auto intro!: keeps_intro)

lemma fd_bal_MarkZombie [keeps_intro]: "keeps (fd_bal X) (MarkZombie r)"
  unfolding MarkZombie_def by (auto intro!: keeps_intro)

lemma fd_bal_DeleteID [keeps_intro]: "keeps (fd_bal X) (DeleteID n)"
  unfolding DeleteID_def by (rule keeps_modify) (auto simp: Let_def)

lemma fd_bal_setFatal_keeps [keeps_intro]: "keeps (fd_bal X) (setFatal err)"
  by (rule keepsI) (rule fd_bal_setFatal)

lemma fd_bal_recordDisplayError [keeps_intro]: "keeps (fd_bal X) (recordDisplayError ob code msg)"
  unfolding recordDisplayError_def by (intro keeps_intro)

lemma plain_uint [plain_intro]: "plain (r_uint data)"
  by (rule plainI) (auto simp: r_uint_def bnd_Inr intro!: keeps_intro)

lemma plain_int [plain_intro]: "plain (r_int data)"
  by (rule plainI) (auto simp: r_int_def bnd_Inr intro!: keeps_intro)

lemma plain_fixed [plain_intro]: "plain (r_fixed data)"
  by (rule plainI) (auto simp: r_fixed_def bnd_Inr intro!: keeps_intro)

lemma plain_string [plain_intro]: "plain (r_string data)"
  by (rule plainI) (auto simp: r_string_def bnd_Inr intro!: keeps_intro)

lemma plain_opt_string [plain_intro]: "plain (r_opt_string data)"
  by (rule plainI) (auto simp: r_opt_string_def bnd_Inr intro!: keeps_intro)

lemma plain_array [plain_intro]: "plain (r_array data)"
  by (rule plainI) (auto simp: r_array_def bnd_Inr intro!: keeps_intro)

lemma plain_obj [plain_intro]: "plain (r_obj i data t)"
  by (rule plainI) (auto simp: r_obj_def bnd_Inr intro!: keeps_intro)

lemma plain_new [plain_intro]: "plain (r_new i data t)"
  by (rule plainI) (auto simp: r_new_def bnd_Inr intro!: keeps_intro)

section \<open>Ownership\<close>

text \<open>
  What the application promises: its handlers keep the context well formed (they only use the
  client's operations), and, for the balance of descriptors, they return and leave the queue alone.
\<close>

definition handlers_wf :: "'k env \<Rightarrow> bool" where
  "handlers_wf E \<longleftrightarrow> (\<forall>n e. keeps wf_world (handler E n e))"

definition handlers_return :: "'k env \<Rightarrow> bool" where
  "handlers_return E \<longleftrightarrow> (\<forall>n e w. fst (handler E n e w) = Inr () \<and>
     (\<forall>X. fd_bal X w \<longrightarrow> fd_bal X (snd (handler E n e w))))"

text \<open>
  \<open>settles F m\<close>: with the descriptors \<open>F\<close> in flight, a normal return of \<open>m\<close> has disposed of them, and
  a panic left them to the caller. \<open>owns fd m\<close> is the contract of a dispatcher for \<open>fd\<close>.
\<close>

definition settles :: "int multiset \<Rightarrow> ('k world, unit) go \<Rightarrow> bool" where
  "settles F m \<longleftrightarrow> (\<forall>X w. fd_bal (X + F) w \<longrightarrow>
     (case m w of (Inl p, w') \<Rightarrow> fd_bal (X + F) w' | (Inr _, w') \<Rightarrow> fd_bal X w'))"

definition owns :: "int \<Rightarrow> ('k world, unit) go \<Rightarrow> bool" where
  "owns fd m \<longleftrightarrow> settles (in_flight fd) m"

named_theorems owns_intro \<open>decomposition of the ownership contract\<close>

definition vals_fds :: "(string \<times> gval) list \<Rightarrow> int multiset" where
  "vals_fds vs = sum_list (map (\<lambda>(n, v). gval_fds v) vs)"

lemma vals_fds_simps [simp]: "vals_fds [] = {#}" "vals_fds ((n, v) # vs) = gval_fds v + vals_fds vs"
  by (simp_all add: vals_fds_def)

lemma ev_fds_vals: "ev_fds (Ev name vs) = vals_fds vs"
  by (simp add: vals_fds_def)

definition decode_ok :: "int multiset \<Rightarrow> (string \<times> 'k reader) list \<Rightarrow> bool" where
  "decode_ok F as \<longleftrightarrow> (\<forall>l w. (\<forall>X. fd_bal X w \<longrightarrow> fd_bal X (snd (decode as l w))) \<and>
     (\<forall>vs w'. decode as l w = (Inr vs, w') \<longrightarrow> vals_fds vs = F))"

lemma decode_ok_Nil [owns_intro]: "decode_ok {#} []"
  by (simp add: decode_ok_def)

lemma decode_okI:
  assumes "\<And>l X. keeps (fd_bal X) (decode as l)"
    "\<And>l w vs w'. decode as l w = (Inr vs, w') \<Longrightarrow> vals_fds vs = F"
  shows "decode_ok F as"
  using assms unfolding decode_ok_def keeps_def by blast

lemma decode_okD:
  assumes "decode_ok F as"
  shows decode_ok_keeps: "keeps (fd_bal X) (decode as l)"
    and decode_ok_vals: "decode as l w = (Inr vs, w') \<Longrightarrow> vals_fds vs = F"
  using assms unfolding decode_ok_def keeps_def by blast+

lemma decode_ok_plain [owns_intro]:
  assumes r: "plain r" and as: "decode_ok F as"
  shows "decode_ok F ((n, r) # as)"
proof (rule decode_okI)
  have "keeps (fd_bal X) (r l)" for X l using r unfolding plain_def keeps_def by blast
  then show "keeps (fd_bal X) (decode ((n, r) # as) l)" for X l
    by (auto intro!: keeps_intro decode_ok_keeps [OF as])
next
  fix l w vs w' assume d: "decode ((n, r) # as) l w = (Inr vs, w')"
  then obtain v l' w1 vs' where v: "r l w = (Inr (v, l'), w1)" "decode as l' w1 = (Inr vs', w')" "vs = (n, v) # vs'"
    by (auto simp: bnd_Inr split: prod.splits)
  have "gval_fds v = {#}" using r v(1) unfolding plain_def by blast
  then show "vals_fds vs = F" using decode_ok_vals [OF as v(2)] v(3) by simp
qed

lemma decode_ok_fd [owns_intro]:
  assumes as: "decode_ok {#} as"
  shows "decode_ok (in_flight fd) ((n, r_fd fd) # as)"
proof (rule decode_okI)
  show "keeps (fd_bal X) (decode ((n, r_fd fd) # as) l)" for X l
    by (auto simp: r_fd_def intro!: keeps_intro decode_ok_keeps [OF as])
next
  fix l w vs w' assume "decode ((n, r_fd fd) # as) l w = (Inr vs, w')"
  then obtain vs' w1 where "decode as l w = (Inr vs', w1)" "vs = (n, VFd fd) # vs'"
    by (auto simp: bnd_Inr r_fd_def)
  then show "vals_fds vs = in_flight fd" using decode_ok_vals [OF as] by (auto simp: in_flight_def)
qed

lemma settlesI:
  assumes panic: "\<And>X w p w'. fd_bal (X + F) w \<Longrightarrow> m w = (Inl p, w') \<Longrightarrow> fd_bal (X + F) w'"
    and return: "\<And>X w u w'. fd_bal (X + F) w \<Longrightarrow> m w = (Inr u, w') \<Longrightarrow> fd_bal X w'"
  shows "settles F m"
  unfolding settles_def
proof (intro allI impI)
  fix X and w :: "'a world" assume b: "fd_bal (X + F) w"
  obtain r w' where "m w = (r, w')" by fastforce
  then show "case m w of (Inl p, w') \<Rightarrow> fd_bal (X + F) w' | (Inr _, w') \<Rightarrow> fd_bal X w'"
    using panic [OF b] return [OF b] by (cases r) auto
qed

lemma settlesD:
  assumes "settles F m" "fd_bal (X + F) w"
  shows settlesD_panic: "m w = (Inl p, w') \<Longrightarrow> fd_bal (X + F) w'"
    and settlesD_return: "m w = (Inr u, w') \<Longrightarrow> fd_bal X w'"
proof -
  have c: "case m w of (Inl p, w') \<Rightarrow> fd_bal (X + F) w' | (Inr _, w') \<Rightarrow> fd_bal X w'"
    by (rule assms(1) [unfolded settles_def, rule_format, OF assms(2)])
  show "m w = (Inl p, w') \<Longrightarrow> fd_bal (X + F) w'" "m w = (Inr u, w') \<Longrightarrow> fd_bal X w'"
    using c by simp_all
qed

lemma settles_raise: "settles F (raise p)"
  by (simp add: settles_def)

lemma settles_keeps: "(\<And>X. keeps (fd_bal X) m) \<Longrightarrow> settles {#} m"
  by (rule settlesI) (auto dest: keepsD')

lemma settles_ret: "settles {#} (ret u)"
  by (simp add: settles_def)

lemma settles_bnd:
  assumes "\<And>X. keeps (fd_bal X) m" "\<And>a w w'. m w = (Inr a, w') \<Longrightarrow> settles F (f a)"
  shows "settles F (bnd m f)"
proof (rule settlesI)
  fix X w and p :: panic and w' assume b: "fd_bal (X + F) w" and r: "bnd m f w = (Inl p, w')"
  show "fd_bal (X + F) w'"
  proof (cases "m w")
    case (Pair res w1)
    then have "fd_bal (X + F) w1" using keepsD [OF assms(1) b] by simp
    then show ?thesis
      using Pair r assms(2) settlesD(1) [of F _ X w1 p w'] by (cases res) (auto simp: bnd_def)
  qed
next
  fix X w and u :: unit and w' assume b: "fd_bal (X + F) w" and r: "bnd m f w = (Inr u, w')"
  then obtain a w1 where m: "m w = (Inr a, w1)" "f a w1 = (Inr u, w')" by (auto simp: bnd_Inr)
  then have "fd_bal (X + F) w1" using keepsD [OF assms(1) b] by simp
  then show "fd_bal X w'" using settlesD(2) [OF assms(2) [OF m(1)]] m(2) by blast
qed

lemma settles_call:
  assumes H: "handlers_return E"
  shows "settles (ev_fds e) (call_handler E i h e)"
proof -
  have run: "fst (run_handler E f e w) = Inr ()" "fd_bal X w \<Longrightarrow> fd_bal X (snd (run_handler E f e w))" for f w X
    using H by (cases f; simp add: run_handler_def handlers_return_def)+
  have one: "settles (ev_fds e) (andthen (log_effect (Handled f e)) (run_handler E f e))" for f
    unfolding settles_def
  proof (intro allI impI)
    fix X and w :: "'a world" assume "fd_bal (X + ev_fds e) w"
    then have "fd_bal X (w\<lparr>trace := trace w @ [Handled f e]\<rparr>)" by (simp add: fd_bal_def ac_simps)
    from run(2) [OF this, of f] run(1) [of f "w\<lparr>trace := trace w @ [Handled f e]\<rparr>"]
    show "case andthen (log_effect (Handled f e)) (run_handler E f e) w of
        (Inl p, w') \<Rightarrow> fd_bal (X + ev_fds e) w' | (Inr _, w') \<Rightarrow> fd_bal X w'"
      by (auto split: prod.splits sum.splits)
  qed
  show ?thesis
    unfolding call_handler_def
    by (rule settles_bnd) (auto intro!: keeps_intro settles_raise one split: option.splits)
qed

lemma settles_decode:
  assumes H: "handlers_return E" and d: "decode_ok F as"
  shows "settles F (bnd (decode as l) (\<lambda>vs. call_handler E i h (Ev name vs)))"
proof (rule settles_bnd)
  show "keeps (fd_bal X) (decode as l)" for X by (rule decode_ok_keeps [OF d])
next
  fix vs w w' assume "decode as l w = (Inr vs, w')"
  then have "F = ev_fds (Ev name vs)" using decode_ok_vals [OF d] unfolding ev_fds_vals by simp
  then show "settles F (call_handler E i h (Ev name vs))" using settles_call [OF H, of "Ev name vs" i h] by (simp only:)
qed

lemma owns_if [owns_intro]: "(c \<Longrightarrow> owns fd m) \<Longrightarrow> (\<not> c \<Longrightarrow> owns fd n) \<Longrightarrow> owns fd (if c then m else n)"
  by simp

lemma owns_unsupported [owns_intro]: "owns fd unsupported"
  by (simp add: owns_def unsupported_def settles_raise)

lemma in_flight_none: "fd < 0 \<Longrightarrow> in_flight fd = {#}"
  by (simp add: in_flight_def)

lemma owns_event [owns_intro]:
  assumes "handlers_return E" "decode_ok {#} as" "fd < 0"
  shows "owns fd (event E i h name as)"
  unfolding owns_def event_def in_flight_none [OF assms(3)]
  by (rule settles_bnd)
    (auto intro!: keeps_intro settles_decode [OF assms(1,2)] settles_keeps split: option.splits)

lemma owns_fd_event [owns_intro]:
  assumes "handlers_return E" "decode_ok (in_flight fd) as" "-1 \<le> fd"
  shows "owns fd (fd_event E i fd h name as)"
proof -
  have "settles (in_flight fd) (unix_Close fd :: ('a world, unit) go)" if "fd \<noteq> -1"
    using that assms(3) by (auto simp: settles_def unix_Close_def in_flight_def fd_bal_def)
  moreover have "settles (in_flight fd) (ret () :: ('a world, unit) go)" if "fd = -1"
    using that by (simp add: settles_def in_flight_def)
  ultimately have "settles (in_flight fd) (case f of None \<Rightarrow> if fd \<noteq> -1 then unix_Close fd else ret ()
      | Some _ \<Rightarrow> bnd (decode as 0) (\<lambda>vs. call_handler E i h (Ev name vs)))" for f
    using settles_decode [OF assms(1,2), of 0 i h name] by (cases f) (simp_all split: if_splits)
  then show ?thesis
    unfolding owns_def fd_event_def by (intro settles_bnd keeps_intro)
qed

lemma owns_new_event [owns_intro]:
  assumes "handlers_return E" "decode_ok {#} as" "fd < 0"
  shows "owns fd (new_event E i h name as)"
  unfolding owns_def new_event_def in_flight_none [OF assms(3)]
proof (rule settles_bnd)
  show "keeps (fd_bal X) (decode as 0)" for X by (rule decode_ok_keeps [OF assms(2)])
next
  fix vs w w' assume "decode as 0 w = (Inr vs, w')"
  then have z: "{#} = ev_fds (Ev name vs)" using decode_ok_vals [OF assms(2)] unfolding ev_fds_vals by simp
  show "settles {#} (bnd (handler_of i h) (\<lambda>f. case f of None \<Rightarrow> ret () | Some _ \<Rightarrow> call_handler E i h (Ev name vs)))"
    by (rule settles_bnd)
      (auto intro!: keeps_intro settles_keeps settles_call [OF assms(1), of "Ev name vs", folded z] split: option.splits)
qed

section \<open>Well-formedness\<close>

lemma decode_wf_Nil [keeps_intro]: "keeps wf_world (decode [] l)"
  by (simp add: keeps_intro)

lemma decode_wf_plain [keeps_intro]: "plain r \<Longrightarrow> (\<And>l. keeps wf_world (decode as l)) \<Longrightarrow> keeps wf_world (decode ((n, r) # as) l)"
proof -
  assume "plain r" and as: "\<And>l. keeps wf_world (decode as l)"
  then have "keeps wf_world (r l)" for l unfolding plain_def keeps_def by blast
  then show ?thesis by (auto intro!: keeps_intro as)
qed

lemma decode_wf_fd [keeps_intro]: "(\<And>l. keeps wf_world (decode as l)) \<Longrightarrow> keeps wf_world (decode ((n, r_fd fd) # as) l)"
  by (auto simp: r_fd_def intro!: keeps_intro)

lemma run_handler_wf [keeps_intro]: "handlers_wf E \<Longrightarrow> keeps wf_world (run_handler E h e)"
  by (cases h) (auto simp: run_handler_def handlers_wf_def intro!: keeps_modify)

lemma log_effect_wf [keeps_intro]: "keeps wf_world (log_effect x)"
  unfolding log_effect_def by (rule keeps_modify) simp

lemma unix_Close_wf [keeps_intro]: "keeps wf_world (unix_Close fd)"
  unfolding unix_Close_def by (intro keeps_intro)

lemma call_handler_wf [keeps_intro]: "handlers_wf E \<Longrightarrow> keeps wf_world (call_handler E i h e)"
  unfolding call_handler_def by (auto intro!: keeps_intro)

lemma event_wf [keeps_intro]:
  "handlers_wf E \<Longrightarrow> (\<And>l. keeps wf_world (decode as l)) \<Longrightarrow> keeps wf_world (event E i h name as)"
  "handlers_wf E \<Longrightarrow> (\<And>l. keeps wf_world (decode as l)) \<Longrightarrow> keeps wf_world (fd_event E i fd h name as)"
  "handlers_wf E \<Longrightarrow> (\<And>l. keeps wf_world (decode as l)) \<Longrightarrow> keeps wf_world (new_event E i h name as)"
  unfolding event_def fd_event_def new_event_def by (auto intro!: keeps_intro split: option.splits)

lemma unsupported_keeps [keeps_intro]: "keeps I unsupported"
  unfolding unsupported_def by (intro keeps_intro)

lemma absorb_new_wf [keeps_intro]: "keeps wf_world (absorb_new i data t l)"
  unfolding absorb_new_def by (auto intro!: keeps_intro)

lemma absorb_new_bal [keeps_intro]: "keeps (fd_bal X) (absorb_new i data t l)"
  unfolding absorb_new_def by (auto intro!: keeps_intro)

end
