(* ===== verification/Client_Inv.thy ===== *)
theory Client_Inv
  imports Event_Decode
begin

text \<open>
  The invariants every generated method keeps. The locale \<open>client_inv\<close> asks an invariant to survive
  the five effects a generated request is made of; the theories of the bindings prove, once inside
  it, that every request, constructor and handler setter keeps the invariant. It is interpreted for the object
  map, for the balance of descriptors and for the sticky error.
\<close>

text \<open>Calling an operation for its effect.\<close>

definition discard :: "('w, 'a) go \<Rightarrow> ('w, unit) go" where
  "discard m = andthen m (ret ())"

lemma keeps_discard [keeps_intro]: "keeps I m \<Longrightarrow> keeps I (discard m)"
  unfolding discard_def by (intro keeps_intro)

locale client_inv =
  fixes E :: "'k env" and I :: "'k world \<Rightarrow> bool"
  assumes write_inv: "keeps I (WriteMsg E b oob)"
    and new_inv: "keeps I (New t)"
    and zombie_inv: "keeps I (MarkZombie r)"
    and set_inv: "keeps I (SetHandler r name h)"
begin

lemma request_inv: "keeps I (request E i opcode len ps oob)"
  by (rule keeps_request) (rule write_inv)

lemma destructor_inv: "keeps I (with_defer (MarkZombie i) (request E i opcode len ps oob))"
  by (intro keeps_with_defer request_inv zombie_inv)

lemmas parts_inv = request_inv destructor_inv new_inv zombie_inv set_inv write_inv

end

lemma fd_bal_SetHandler [keeps_intro]: "keeps (fd_bal X) (SetHandler r name h)"
  unfolding SetHandler_def by (auto intro!: keeps_intro)

lemma sticky_ops [keeps_intro]:
  "keeps (\<lambda>w. fatalErr w = Some f) (alloc p)" "keeps (\<lambda>w. fatalErr w = Some f) (put_proxy r q)"
  "keeps (\<lambda>w. fatalErr w = Some f) (modify (\<lambda>w. w\<lparr>objects := (objects w)(n := x)\<rparr>))"
  by (simp_all add: keeps_def alloc_def)

lemma sticky_install [keeps_intro]: "keeps (\<lambda>w. fatalErr w = Some f) (install r n)"
  unfolding install_def SetID_def SetContext_def by (auto intro!: keeps_intro)

lemma sticky_New [keeps_intro]: "keeps (\<lambda>w. fatalErr w = Some f) (New t)"
proof -
  have "keeps (\<lambda>w. fatalErr w = Some f) (Register r)" for r
    by (rule keepsI)
      (auto simp: Register_def Let_def split: prod.splits option.splits intro!: keepsD [OF sticky_install])
  then show ?thesis unfolding New_def by (auto intro!: keeps_intro)
qed

lemma sticky_WriteMsg [keeps_intro]: "keeps (\<lambda>w. fatalErr w = Some f) (WriteMsg E b oob)"
  by (rule keepsI) (simp add: WriteMsg_sticky)

interpretation wf_inv: client_inv E wf_world for E :: "'k env"
  by unfold_locales (intro keeps_intro)+

interpretation fd_inv: client_inv E "fd_bal X" for E :: "'k env" and X
  by unfold_locales (intro keeps_intro)+

interpretation fatal_inv: client_inv E "\<lambda>w. fatalErr w = Some f" for E :: "'k env" and f
  by unfold_locales (auto simp: MarkZombie_def SetHandler_def intro!: keeps_intro)

end
