(* ===== verification/Dispatch_Loop.thy ===== *)
theory Dispatch_Loop
  imports Client_Inv
begin

text \<open>
  \<open>Context.Dispatch\<close> (client/context.go, lines 140 to 202): read one frame, find the sender, route its
  descriptor, and hand the event to the sender's dispatcher, with every panic turned into a sticky
  error. A proxy's optional Go interfaces (\<open>FDDispatcher\<close>, \<open>Dispatcher\<close>, \<open>NewIDAbsorber\<close> of client/common.go)
  are a method table indexed by its type. The locale \<open>dispatcher\<close> is what the loop relies on; inside it
  the theory shows that the loop never panics, keeps the context well formed, loses and duplicates no descriptor, and
  reports exactly the sticky error.
\<close>

section \<open>Method tables\<close>

record 'k methods =
  m_HasFD :: "(u32 \<Rightarrow> bool) option"
  m_Dispatch :: "('k env \<Rightarrow> ref \<Rightarrow> u32 \<Rightarrow> int \<Rightarrow> bytes \<Rightarrow> ('k world, unit) go) option"
  m_Absorb :: "(ref \<Rightarrow> u32 \<Rightarrow> bytes \<Rightarrow> ('k world, unit) go) option"

definition no_methods :: "'k methods" where
  "no_methods = \<lparr>m_HasFD = None, m_Dispatch = None, m_Absorb = None\<rparr>"

section \<open>The loop body\<close>

text \<open>The deferred \<open>recover\<close>: \<open>fd\<close> is the value of the variable when the panic arrives.\<close>

definition recovering :: "int \<Rightarrow> u32 \<Rightarrow> u32 \<Rightarrow> ('k world, gerr option) go \<Rightarrow> ('k world, gerr option) go" where
  "recovering fd opcode senderID m w =
     (case m w of
        (Inr e, w') \<Rightarrow> (Inr e, w')
      | (Inl p, w') \<Rightarrow>
          andthen (closeReceivedFD fd)
            (setFatal (Errorf ''dispatch: panic handling opcode=%d senderID=%d: %v''
               [FNum (uint opcode), FNum (uint senderID), FPanic p] [])) w')"

text \<open>\<open>if fdDispatcher, ok := proxy.(FDDispatcher); ok && !fdDispatcher.HasFD(opcode)\<close>.\<close>

definition route_fd :: "(u32 \<Rightarrow> bool) option \<Rightarrow> u32 \<Rightarrow> int \<Rightarrow> ('k world, int) go" where
  "route_fd hasFD opcode fd =
     (case hasFD of
        Some h \<Rightarrow> if \<not> h opcode then andthen (putBackFD fd) (ret (-1)) else ret fd
      | None \<Rightarrow> ret fd)"

text \<open>From the deferred function on; \<open>fd\<close> is -1 once the zombie branch has closed it.\<close>

definition deliver :: "(iface \<Rightarrow> 'k methods) \<Rightarrow> 'k env \<Rightarrow> ref \<Rightarrow> u32 \<Rightarrow> u32 \<Rightarrow> int \<Rightarrow> bytes \<Rightarrow> ('k world, gerr option) go" where
  "deliver M E r senderID opcode fd data =
     recovering fd opcode senderID (bnd (deref r) (\<lambda>p. bnd (IsZombie r) (\<lambda>zombie.
       if zombie \<and> px_type p \<noteq> Display then
         andthen (closeReceivedFD fd)
           (recovering (-1) opcode senderID
             (andthen (case m_Absorb (M (px_type p)) of None \<Rightarrow> ret () | Some absorb \<Rightarrow> absorb r opcode data)
               (gets fatalErr)))
       else case m_Dispatch (M (px_type p)) of
           None \<Rightarrow> andthen (closeReceivedFD fd)
             (setFatal (Errorf ''%w (senderID=%d)'' [FNum (uint senderID)] [Sentinel ErrDispatchSenderUnsupported]))
         | Some dispatch \<Rightarrow> andthen (dispatch E r opcode fd data) (gets fatalErr))))"

definition Context_Dispatch :: "(iface \<Rightarrow> 'k methods) \<Rightarrow> 'k env \<Rightarrow> ('k world, gerr option) go" where
  "Context_Dispatch M E =
     bnd (gets fatalErr) (\<lambda>f.
     case f of Some f \<Rightarrow> ret (Some f)
     | None \<Rightarrow>
       bnd (ReadMsg E) (\<lambda>(senderID, opcode, fd, data, err).
       case err of
         Some e \<Rightarrow>
           if errors_is e ErrReadTimeout then ret (Some e)
           else setFatal (Errorf ''%w: %w'' [] [Sentinel ErrDispatchUnableToReadMsg, e])
       | None \<Rightarrow>
           bnd (lookupProxy senderID) (\<lambda>proxy.
           case proxy of
             None \<Rightarrow> andthen (closeReceivedFD fd)
               (setFatal (Errorf ''%w (senderID=%d)'' [FNum (uint senderID)] [Sentinel ErrDispatchSenderNotFound]))
           | Some r \<Rightarrow>
               bnd (deref r) (\<lambda>p.
               bnd (route_fd (m_HasFD (M (px_type p))) opcode fd) (\<lambda>fd.
               deliver M E r senderID opcode fd data)))))"

section \<open>The sticky error is what is reported\<close>

text \<open>\<open>reports m\<close>: \<open>m\<close> returns, and what it returns is the sticky error of the world it leaves.\<close>

definition reports :: "('k world, gerr option) go \<Rightarrow> bool" where
  "reports m \<longleftrightarrow> (\<forall>w r w'. m w = (r, w') \<longrightarrow> r = Inr (fatalErr w'))"

lemma reportsD: "reports m \<Longrightarrow> \<exists>w'. m w = (Inr (fatalErr w'), w')"
  unfolding reports_def by (cases "m w") blast

named_theorems reports_intro

lemma reports_gets [reports_intro]: "reports (gets fatalErr)"
  by (simp add: reports_def)

lemma reports_setFatal [reports_intro]: "reports (setFatal e)"
  unfolding reports_def
proof (intro allI impI)
  fix w r w' assume r: "setFatal e w = (r, w')"
  show "r = Inr (fatalErr w')"
    using r by (cases "fatalErr w") (auto simp: setFatal_first setFatal_sticky)
qed

lemma reports_closeReceivedFD [reports_intro]: "reports m \<Longrightarrow> reports (andthen (closeReceivedFD fd) m)"
  by (simp add: reports_def andthen_def bnd_def closeReceivedFD_run)

text \<open>A statement followed by a report may still panic; recovery makes it report.\<close>

definition reports_or_panics :: "('k world, gerr option) go \<Rightarrow> bool" where
  "reports_or_panics m \<longleftrightarrow> (\<forall>w e w'. m w = (Inr e, w') \<longrightarrow> e = fatalErr w')"

lemma reports_or_panics_of: "reports m \<Longrightarrow> reports_or_panics m"
  unfolding reports_def reports_or_panics_def by blast

lemma reports_or_panics_bnd: "(\<And>a. reports_or_panics (f a)) \<Longrightarrow> reports_or_panics (bnd m f)"
  unfolding reports_or_panics_def by (auto simp: bnd_Inr)

lemma reports_or_panics_andthen: "reports_or_panics n \<Longrightarrow> reports_or_panics (andthen m n)"
  unfolding andthen_def by (rule reports_or_panics_bnd)

lemma reports_recovering [reports_intro]:
  assumes "reports_or_panics m"
  shows "reports (recovering fd opcode sender m)"
  unfolding reports_def
proof (intro allI impI)
  fix w r w' assume r: "recovering fd opcode sender m w = (r, w')"
  obtain res w1 where m: "m w = (res, w1)" by fastforce
  show "r = Inr (fatalErr w')"
  proof (cases res)
    case (Inl p)
    let ?e = "Errorf ''dispatch: panic handling opcode=%d senderID=%d: %v''
      [FNum (uint opcode), FNum (uint sender), FPanic p] []"
    have "reports (andthen (closeReceivedFD fd) (setFatal ?e))"
      by (intro reports_intro)
    then show ?thesis using r m Inl by (auto simp: recovering_def reports_def)
  next
    case (Inr e)
    then show ?thesis using r m assms by (auto simp: recovering_def reports_or_panics_def)
  qed
qed

lemma deliver_reports: "reports (deliver M E r sender opcode fd data)"
  unfolding deliver_def
  by (intro reports_intro reports_or_panics_bnd)
    (auto intro!: reports_intro reports_or_panics_of [OF reports_recovering] reports_or_panics_of [OF reports_closeReceivedFD]
      reports_or_panics_andthen reports_or_panics_of [OF reports_gets] reports_or_panics_of [OF reports_setFatal] split: option.splits)

text \<open>The cases of one call, with the world in which the proxy's methods run.\<close>

lemma deref_registered:
  assumes "wf_world w" "objects w n = Some r"
  obtains p where "heap w r = Some p" "px_id p = n" "px_ctx p"
  using assms heap_ok_lookup [of w n r] unfolding wf_world_def by blast

lemma route_fd_run: "\<exists>fd'. route_fd h opcode fd w = (Inr fd', snd (route_fd h opcode fd w)) \<and>
    objects (snd (route_fd h opcode fd w)) = objects w \<and> heap (snd (route_fd h opcode fd w)) = heap w"
  by (cases h) (auto simp: route_fd_def andthen_def bnd_def putBackFD_run)

theorem Context_Dispatch_returns:
  assumes wf: "wf_world w"
  shows "\<exists>e w'. Context_Dispatch M E w = (Inr e, w') \<and>
    (e = fatalErr w' \<or> fatalErr w' = None \<and> (\<exists>x. e = Some x \<and> errors_is x ErrReadTimeout))"
proof (rule ReadMsg_outcome [of w E])
  fix f assume "fatalErr w = Some f"
  then show ?thesis by (simp add: Context_Dispatch_def)
next
  fix e w' assume r: "fatalErr w = None" "ReadMsg E w = (Inr (0, 0, -1, [], Some e), w')" "read_frame w w'"
    "errors_is e ErrReadTimeout"
  then have "Context_Dispatch M E w = (Inr (Some e), w')" by (simp add: Context_Dispatch_def bnd_def)
  then show ?thesis using r by (auto simp: read_frame_fields)
next
  fix e w' assume r: "fatalErr w = None" "ReadMsg E w = (Inr (0, 0, -1, [], Some e), w')" "fatalErr w' = Some e"
  then have "Context_Dispatch M E w = (Inr (Some e), w')"
    by (simp add: Context_Dispatch_def bnd_def setFatal_sticky)
  then show ?thesis using r by simp
next
  fix sender opcode fd body w1 w'
  assume r: "fatalErr w = None" "ReadMsg E w = (Inr (sender, opcode, fd, body, None), w')" "read_frame w w'"
  have wf': "wf_world w'" using wf r(3) read_frame_wf by blast
  let ?rest = "\<lambda>r. bnd (deref r) (\<lambda>p. bnd (route_fd (m_HasFD (M (px_type p))) opcode fd) (\<lambda>fd.
      deliver M E r sender opcode fd body))"
  let ?nf = "Errorf ''%w (senderID=%d)'' [FNum (uint sender)] [Sentinel ErrDispatchSenderNotFound]"
  have u: "Context_Dispatch M E w =
      (case objects w' sender of None \<Rightarrow> andthen (closeReceivedFD fd) (setFatal ?nf) w' | Some r \<Rightarrow> ?rest r w')"
    using r(1,2) by (simp add: Context_Dispatch_def bnd_def lookupProxy_def split: option.splits)
  show ?thesis
  proof (cases "objects w' sender")
    case None
    have "reports (andthen (closeReceivedFD fd) (setFatal ?nf) :: ('a world, gerr option) go)" by (intro reports_intro)
    from reportsD [OF this, of w'] show ?thesis using u None by auto
  next
    case (Some r0)
    obtain p where p: "heap w' r0 = Some p" using deref_registered [OF wf' Some] by metis
    obtain fd' w2 where f: "route_fd (m_HasFD (M (px_type p))) opcode fd w' = (Inr fd', w2)"
      using route_fd_run by blast
    have "Context_Dispatch M E w = deliver M E r0 sender opcode fd' body w2"
      using u Some p f by (simp add: bnd_deref bnd_run_Inr)
    then show ?thesis using reportsD [OF deliver_reports [of M E r0 sender opcode fd' body], of w2] by auto
  qed
qed

section \<open>The contract of the method table\<close>

text \<open>
  What the loop relies on: a dispatcher owns the descriptor it is given, provided an opcode without
  a descriptor is given none; and the methods keep the context well formed.
\<close>

primrec handled_of :: "effect \<Rightarrow> (hid \<times> ev) list" where
  "handled_of (Received fds) = []"
| "handled_of (Closed fd) = []"
| "handled_of (Handled h e) = [(h, e)]"

text \<open>The handler calls of a trace.\<close>

definition handled :: "effect list \<Rightarrow> (hid \<times> ev) list" where
  "handled tr = concat (map handled_of tr)"

definition quiet :: "(hid \<times> ev) list \<Rightarrow> 'k world \<Rightarrow> bool" where
  "quiet H w \<longleftrightarrow> handled (trace w) = H"

locale dispatcher =
  fixes M :: "iface \<Rightarrow> 'k methods"
  assumes dispatch_owns: "handlers_return E \<Longrightarrow> m_Dispatch (M t) = Some d \<Longrightarrow>
      (\<And>h. m_HasFD (M t) = Some h \<Longrightarrow> \<not> h opcode \<Longrightarrow> fd < 0) \<Longrightarrow> -1 \<le> fd \<Longrightarrow> owns fd (d E i opcode fd data)"
    and dispatch_wf: "handlers_wf E \<Longrightarrow> m_Dispatch (M t) = Some d \<Longrightarrow> keeps wf_world (d E i opcode fd data)"
    and absorb_wf: "m_Absorb (M t) = Some a \<Longrightarrow> keeps wf_world (a i opcode data)"
    and absorb_bal: "m_Absorb (M t) = Some a \<Longrightarrow> keeps (fd_bal X) (a i opcode data)"
    and absorb_quiet: "m_Absorb (M t) = Some a \<Longrightarrow> keeps (quiet H) (a i opcode data)"

lemma keeps_recovering [keeps_intro]:
  assumes "keeps I m" "keeps I (closeReceivedFD fd)" "\<And>e. keeps I (setFatal e)"
  shows "keeps I (recovering fd opcode sender m)"
proof (rule keepsI)
  fix w assume w: "I w"
  obtain r w' where m: "m w = (r, w')" by fastforce
  have w': "I w'" using keepsD' [OF assms(1) m w] .
  show "I (snd (recovering fd opcode sender m w))"
  proof (cases r)
    case (Inl p)
    then show ?thesis
      using m keepsD [OF keeps_andthen [OF assms(2,3)] w'] by (simp add: recovering_def)
  qed (use m w' in \<open>simp add: recovering_def\<close>)
qed

lemma keeps_route_fd [keeps_intro]: "keeps wf_world (route_fd h opcode fd)"
  unfolding route_fd_def by (intro keeps_intro)

lemma closeReceivedFD_bal: "keeps (fd_bal X) (closeReceivedFD (-1))"
  by (simp add: keeps_def closeReceivedFD_run)

lemma closeReceivedFD_disposes:
  "fd_bal (X + in_flight fd) w \<Longrightarrow> fd_bal X (snd (closeReceivedFD fd w))"
  using fd_bal_closeReceivedFD [of X fd w] by (simp add: in_flight_def)

lemma closeReceivedFD_setFatal_bal:
  assumes "fd_bal (X + in_flight fd) w"
  shows "fd_bal X (snd (andthen (closeReceivedFD fd) (setFatal e) w))"
  using fd_bal_setFatal [OF closeReceivedFD_disposes [OF assms]]
  by (simp add: andthen_def bnd_def closeReceivedFD_run split: if_splits)

lemma route_fd_bal:
  assumes "fd_bal (X + in_flight fd) w" "-1 \<le> fd" "route_fd h opcode fd w = (Inr fd', w')"
  shows "fd_bal (X + in_flight fd') w' \<and> -1 \<le> fd' \<and> (\<forall>f. h = Some f \<longrightarrow> \<not> f opcode \<longrightarrow> fd' < 0)"
  using assms fd_bal_putBackFD [of X fd w]
  by (cases h) (auto simp: route_fd_def andthen_def bnd_def putBackFD_run in_flight_def split: if_splits)

text \<open>A panic arrives at the recovery with \<open>fd\<close> still to be closed, a return with nothing left.\<close>

lemma recovering_settles:
  assumes m: "settles (in_flight fd) m" and b: "fd_bal (X + in_flight fd) w"
  shows "fd_bal X (snd (recovering fd opcode sender (andthen m (gets fatalErr)) w))"
proof -
  obtain r w' where mw: "m w = (r, w')" by fastforce
  show ?thesis
  proof (cases r)
    case (Inl p)
    then have "fd_bal (X + in_flight fd) w'" using settlesD_panic [OF m b] mw by simp
    then show ?thesis using closeReceivedFD_setFatal_bal mw Inl by (simp add: recovering_def andthen_def bnd_def)
  next
    case (Inr u)
    then show ?thesis using settlesD_return [OF m b] mw by (simp add: recovering_def andthen_def bnd_def)
  qed
qed

lemma recovering_cong: "m w = m' w \<Longrightarrow> recovering fd opcode sender m w = recovering fd opcode sender m' w"
  by (simp add: recovering_def)

lemma recovering_reports: "reports m \<Longrightarrow> recovering fd opcode sender m w = m w"
  using reportsD [of m w] by (auto simp: recovering_def)

lemma handled_simps [simp]:
  "handled [] = []" "handled (x # tr) = handled_of x @ handled tr" "handled (tr @ tr') = handled tr @ handled tr'"
  "handled (map Closed fds) = []"
  by (simp_all add: handled_def)

lemma quiet_upd [simp]:
  "quiet H (w\<lparr>conn := k\<rparr>) = quiet H w" "quiet H (w\<lparr>fatalErr := f\<rparr>) = quiet H w"
  "quiet H (w\<lparr>pendingFDs := fds\<rparr>) = quiet H w" "quiet H (w\<lparr>objects := ob\<rparr>) = quiet H w"
  "quiet H (w\<lparr>freeIDs := fs\<rparr>) = quiet H w" "quiet H (w\<lparr>currentID := c\<rparr>) = quiet H w"
  "quiet H (w\<lparr>heap := h\<rparr>) = quiet H w" "quiet H (w\<lparr>next_ref := nr\<rparr>) = quiet H w"
  by (simp_all add: quiet_def)

lemma quiet_ops [keeps_intro]:
  "keeps (quiet H) (closeReceivedFD fd)" "keeps (quiet H) takeFD"
  "keeps (quiet H) (putBackFD fd)" "keeps (quiet H) (alloc p)" "keeps (quiet H) (put_proxy r q)"
  by (simp_all add: keeps_def closeReceivedFD_run takeFD_run putBackFD_run alloc_def quiet_def split: list.splits)

lemma quiet_setFatal [keeps_intro]: "keeps (quiet H) (setFatal e)"
proof (rule keepsI)
  fix w :: "'a world" assume "quiet H w"
  then show "quiet H (snd (setFatal e w))"
    by (cases "fatalErr w") (simp_all add: setFatal_first setFatal_sticky quiet_def)
qed

lemma quiet_MarkZombie [keeps_intro]: "keeps (quiet H) (MarkZombie r)"
  unfolding MarkZombie_def by (intro keeps_intro)

lemma quiet_RegisterWithID [keeps_intro]: "keeps (quiet H) (RegisterWithID r n)"
proof -
  have "keeps (quiet H) (install r n)"
    unfolding install_def SetID_def SetContext_def by (intro keeps_intro keeps_modify) simp
  then show ?thesis unfolding RegisterWithID_def by (intro keeps_intro)
qed

lemma quiet_absorb_new [keeps_intro]: "keeps (quiet H) (absorb_new i data t l)"
  unfolding absorb_new_def NewWithID_def by (auto intro!: keeps_intro)

lemma collect_rights_quiet: "quiet H w \<Longrightarrow> quiet H (snd (collect_rights E src scms fds w))"
proof (induction scms arbitrary: fds w)
  case (Cons scm scms)
  then show ?case by (auto simp: Let_def split_beta closeFDs_run quiet_def split: option.splits)
qed simp

lemma receive_fds_quiet: "quiet H w \<Longrightarrow> quiet H (snd (receive_fds E rc w))"
  using collect_rights_quiet [of H w E "''frame''"]
  by (auto simp: receive_fds_def getFdsFromOob_def split: sum.splits prod.splits) (metis snd_conv)+

lemma read_loop_quiet: "quiet H w \<Longrightarrow> quiet H (snd (read_loop E dn dst w))"
  by (rule read_loop_inv [where P = "quiet H"]) (auto intro: receive_fds_quiet)

lemma quiet_read_fail [keeps_intro]: "keeps (quiet H) (read_fail e)"
  unfolding read_fail_def by (intro keeps_intro)

lemma quiet_read_body [keeps_intro]: "keeps (quiet H) (read_body E sender opcode n)"
proof (rule keepsI)
  fix w :: "'a world" assume q: "quiet H w"
  obtain b c e w1 where r: "(if n > 0 then readExact E (replicate n 0) w else (([], 0, None), w)) = ((b, c, e), w1)"
    by (metis prod_cases3 prod.collapse)
  have q1: "quiet H w1"
    using r q read_loop_quiet [OF q, of E "[]" "replicate n 0"] by (auto simp: readExact_def split: if_splits)
  have k: "keeps (quiet H) (bnd takeFD (\<lambda>fd. ret (sender, opcode, fd, b, None :: gerr option)))"
    by (intro keeps_intro)
  show "quiet H (snd (read_body E sender opcode n w))"
    using r keepsD [OF quiet_read_fail q1] keepsD [OF k q1] by (cases e) (simp_all add: read_body_def)
qed

lemma ReadMsg_quiet: "keeps (quiet H) (ReadMsg E)"
proof (rule keepsI)
  fix w :: "'a world" assume q: "quiet H w"
  obtain hdr n e w1 where r: "read_loop E [] (replicate 8 0) w = ((hdr, n, e), w1)" by (metis prod_cases3 prod.collapse)
  have q1: "quiet H w1" using read_loop_quiet [OF q, of E "[]" "replicate 8 0"] r by simp
  have k: "keeps (quiet H) (read_frame_of E hdr)"
    unfolding read_frame_of_def by (intro keeps_intro)
  show "quiet H (snd (ReadMsg E w))"
    using r q q1 keepsD [OF quiet_read_fail q1] keepsD [OF k q1]
    by (auto simp: ReadMsg_def readExact_def split: option.splits)
qed

context dispatcher
begin

lemma deliver_wf: "handlers_wf E \<Longrightarrow> keeps wf_world (deliver M E r sender opcode fd data)"
  unfolding deliver_def by (intro keeps_intro absorb_wf dispatch_wf)

lemma Context_Dispatch_wf: "handlers_wf E \<Longrightarrow> keeps wf_world (Context_Dispatch M E)"
  unfolding Context_Dispatch_def by (intro keeps_intro deliver_wf)

lemma deliver_bal:
  assumes H: "handlers_return E" and p: "heap w r = Some p" and b: "fd_bal (X + in_flight fd) w" and fd: "-1 \<le> fd"
    and route: "\<And>h. m_HasFD (M (px_type p)) = Some h \<Longrightarrow> \<not> h opcode \<Longrightarrow> fd < 0"
  shows "fd_bal X (snd (deliver M E r sender opcode fd data w))"
proof -
  let ?absorb = "andthen (case m_Absorb (M (px_type p)) of None \<Rightarrow> ret () | Some absorb \<Rightarrow> absorb r opcode data) (gets fatalErr)"
  let ?zombie = "andthen (closeReceivedFD fd) (recovering (-1) opcode sender ?absorb)"
  have d: "deliver M E r sender opcode fd data w = recovering fd opcode sender
      (if px_zombie p \<and> px_type p \<noteq> Display then ?zombie
       else case m_Dispatch (M (px_type p)) of
           None \<Rightarrow> andthen (closeReceivedFD fd)
             (setFatal (Errorf ''%w (senderID=%d)'' [FNum (uint sender)] [Sentinel ErrDispatchSenderUnsupported]))
         | Some dispatch \<Rightarrow> andthen (dispatch E r opcode fd data) (gets fatalErr)) w"
    unfolding deliver_def
    by (rule recovering_cong) (simp add: bnd_deref [OF p] IsZombie_def bnd_assoc)
  consider "px_zombie p \<and> px_type p \<noteq> Display" | "\<not> (px_zombie p \<and> px_type p \<noteq> Display)" by blast
  then show ?thesis
  proof cases
    case 1
    have "reports (recovering (-1) opcode sender ?absorb)"
      by (intro reports_recovering reports_or_panics_andthen reports_or_panics_of reports_gets)
    then have e: "deliver M E r sender opcode fd data w = ?zombie w"
      using d 1 by (simp add: recovering_reports [OF reports_closeReceivedFD])
    have "keeps (fd_bal X) (recovering (-1) opcode sender ?absorb)"
      by (intro keeps_intro closeReceivedFD_bal absorb_bal)
    from keepsD [OF this closeReceivedFD_disposes [OF b]] show ?thesis
      unfolding e by (simp add: andthen_def bnd_def closeReceivedFD_run split: if_splits)
  next
    case 2
    show ?thesis
    proof (cases "m_Dispatch (M (px_type p))")
      case None
      then show ?thesis
        using d 2 closeReceivedFD_setFatal_bal [OF b]
        by (simp add: recovering_reports [OF reports_closeReceivedFD [OF reports_setFatal]])
    next
      case (Some dis)
      have "settles (in_flight fd) (dis E r opcode fd data)"
        using dispatch_owns [OF H Some route fd] by (simp add: owns_def)
      then show ?thesis using recovering_settles b d 2 Some by auto
    qed
  qed
qed

text \<open>No descriptor is lost or duplicated by a call, whatever the frame and the socket do.\<close>

lemma Context_Dispatch_bal:
  assumes R: "rights_nonneg E" and H: "handlers_return E" and wf: "wf_world w" and b: "fd_bal X w"
  shows "fd_bal X (snd (Context_Dispatch M E w))"
proof (cases "fatalErr w")
  case (Some f)
  then show ?thesis using b by (simp add: Context_Dispatch_def)
next
  case None
  obtain sender opcode fd body err w1 where r: "ReadMsg E w = (Inr (sender, opcode, fd, body, err), w1)"
    by (rule ReadMsg_outcome [of w E]) auto
  have b1: "fd_bal (X + in_flight fd) w1" and lo: "-1 \<le> fd" using ReadMsg_bal [OF R b r] by simp_all
  have wf1: "wf_world w1" using keepsD' [OF ReadMsg_wf r wf] .
  show ?thesis
  proof (cases err)
    case (Some e)
    then have "fd = -1" using r by (rule_tac ReadMsg_outcome [of w E]) auto
    then have b0: "fd_bal X w1" using b1 by (simp add: in_flight_def)
    show ?thesis using r None Some b0 fd_bal_setFatal [OF b0] by (simp add: Context_Dispatch_def bnd_def)
  next
    case en: None
    show ?thesis
    proof (cases "objects w1 sender")
      case n: None
      then show ?thesis using r None en closeReceivedFD_setFatal_bal [OF b1]
        by (simp add: Context_Dispatch_def bnd_def lookupProxy_def)
    next
      case (Some r0)
      obtain p where p: "heap w1 r0 = Some p" using deref_registered [OF wf1 Some] by metis
      obtain fd' w2 where f: "route_fd (m_HasFD (M (px_type p))) opcode fd w1 = (Inr fd', w2)"
        and h: "heap w2 = heap w1" using route_fd_run by (metis snd_conv)
      have "Context_Dispatch M E w = deliver M E r0 sender opcode fd' body w2"
        using r None en Some p f by (simp add: Context_Dispatch_def bnd_def lookupProxy_def deref_def)
      then show ?thesis
        using deliver_bal [OF H _ conjunct1 [OF route_fd_bal [OF b1 lo f]]] route_fd_bal [OF b1 lo f] p h by simp
    qed
  qed
qed

text \<open>A zombie other than the display calls no handler.\<close>

lemma zombie_quiet:
  assumes r: "ReadMsg E w = (Inr (sender, opcode, fd, body, None), w1)" and o: "objects w1 sender = Some r0"
    and p: "heap w1 r0 = Some p" "px_zombie p" "px_type p \<noteq> Display"
  shows "handled (trace (snd (Context_Dispatch M E w))) = handled (trace w)"
proof -
  have n: "fatalErr w = None" using r by (rule_tac ReadMsg_outcome [of w E]) auto
  obtain fd' w2 where f: "route_fd (m_HasFD (M (px_type p))) opcode fd w1 = (Inr fd', w2)"
    and h: "heap w2 = heap w1" using route_fd_run by (metis snd_conv)
  have e: "Context_Dispatch M E w = deliver M E r0 sender opcode fd' body w2"
    using r n o p f by (simp add: Context_Dispatch_def bnd_def lookupProxy_def deref_def)
  let ?H = "handled (trace w)"
  have "quiet ?H w1" using keepsD' [OF ReadMsg_quiet r] by (simp add: quiet_def)
  then have q2: "quiet ?H w2" using f keepsD [of "quiet ?H" "putBackFD fd" w1] quiet_ops(3)
    by (auto simp: route_fd_def andthen_def bnd_def putBackFD_run split: option.splits if_splits)
  let ?z = "andthen (closeReceivedFD fd') (recovering (-1) opcode sender
      (andthen (case m_Absorb (M (px_type p)) of None \<Rightarrow> ret () | Some absorb \<Rightarrow> absorb r0 opcode body) (gets fatalErr)))"
  have "deliver M E r0 sender opcode fd' body w2 = recovering fd' opcode sender ?z w2"
    unfolding deliver_def by (rule recovering_cong) (simp add: bnd_deref p h IsZombie_def bnd_assoc)
  moreover have "keeps (quiet ?H) (recovering fd' opcode sender ?z)"
    by (intro keeps_intro absorb_quiet)
  note keepsD [OF this q2]
  ultimately show ?thesis by (simp add: e quiet_def)
qed

end

end
