(* ===== verification/Bind_Core.thy ===== *)
theory Bind_Core
  imports Client_Inv
begin

text \<open>
  The core objects of client/client.go: the display, the registry, callbacks, the compositor and
  shared-memory buffers. \<open>Display.Dispatch\<close> is the one dispatcher with behaviour of its own: it records
  a protocol error as fatal and recycles deleted IDs before it calls the handlers.
  Each method is named \<open>Type_Method\<close>; an object argument is \<open>None\<close> for nil, an \<open>int32\<close> argument is the word
  its conversion to \<open>uint32\<close> gives.
\<close>

section \<open>Display\<close>

definition NewDisplay :: "('k world, ref) go" where
  "NewDisplay = New Display"

definition Display_Sync :: "'k env \<Rightarrow> ref \<Rightarrow> ('k world, ref \<times> gerr option) go" where
  "Display_Sync E i =
     bnd (andthen (Context_of i) (New Callback)) (\<lambda>callback.
     bnd (request E i 0 (8 + 4)
       [PId (Some callback)] []) (\<lambda>err. ret (callback, err)))"

definition Display_GetRegistry :: "'k env \<Rightarrow> ref \<Rightarrow> ('k world, ref \<times> gerr option) go" where
  "Display_GetRegistry E i =
     bnd (andthen (Context_of i) (New Registry)) (\<lambda>registry.
     bnd (request E i 1 (8 + 4)
       [PId (Some registry)] []) (\<lambda>err. ret (registry, err)))"

definition Display_Destroy :: "ref \<Rightarrow> ('k world, gerr option) go" where
  "Display_Destroy i = andthen (MarkZombie i) (ret None)"

definition Display_SetErrorHandler :: "ref \<Rightarrow> hid option \<Rightarrow> ('k world, unit) go" where
  "Display_SetErrorHandler i f = SetHandler i ''errorHandler'' f"

definition Display_SetDeleteIdHandler :: "ref \<Rightarrow> hid option \<Rightarrow> ('k world, unit) go" where
  "Display_SetDeleteIdHandler i f = SetHandler i ''deleteIdHandler'' f"

definition Display_HasFD :: "u32 \<Rightarrow> bool" where
  "Display_HasFD opcode = (False)"

definition Display_Dispatch :: "'k env \<Rightarrow> ref \<Rightarrow> u32 \<Rightarrow> int \<Rightarrow> bytes \<Rightarrow> ('k world, unit) go" where
  "Display_Dispatch E i opcode fd data =
     (if opcode = 0 then
        bnd (lift (get_u32 data 0)) (\<lambda>n.
        andthen (Context_of i) (bnd (GetProxy n) (\<lambda>objectId.
        bnd (lift (get_u32 data 4)) (\<lambda>code.
        bnd (lift (get_string data 8)) (\<lambda>(message, l).
        andthen (andthen (Context_of i) (recordDisplayError objectId code message))
          (bnd (handler_of i ''errorHandler'') (\<lambda>f.
           if f \<noteq> None
           then call_handler E i ''errorHandler''
                  (Ev ''DisplayErrorEvent''
                     [(''ObjectId'', VObj objectId), (''Code'', VUint code), (''Message'', VString message)])
           else ret ())))))))
      else if opcode = 1 then
        bnd (lift (get_u32 data 0)) (\<lambda>n.
        andthen (andthen (Context_of i) (DeleteID n))
          (bnd (handler_of i ''deleteIdHandler'') (\<lambda>f.
           if f \<noteq> None
           then call_handler E i ''deleteIdHandler'' (Ev ''DisplayDeleteIdEvent'' [(''Id'', VUint n)])
           else ret ())))
      else unsupported)"

context client_inv
begin

lemma Display_inv:
  "keeps I (NewDisplay)"
  "keeps I (Display_Sync E i)"
  "keeps I (Display_GetRegistry E i)"
  "keeps I (Display_Destroy i)"
  "keeps I (Display_SetErrorHandler i f)"
  "keeps I (Display_SetDeleteIdHandler i f)"
  unfolding NewDisplay_def Display_Sync_def Display_GetRegistry_def Display_Destroy_def Display_SetErrorHandler_def Display_SetDeleteIdHandler_def
  by (intro keeps_intro parts_inv)+

end

lemma Display_Dispatch_owns:
  assumes "handlers_return E" "fd < 0"
  shows "owns fd (Display_Dispatch E i opcode fd data)"
proof -
  have e: "settles {#} (call_handler E i h (Ev name [(n1, VObj ob), (n2, VUint c), (n3, VString m)]))"
    for h name n1 ob n2 c n3 m
    using settles_call [OF assms(1), of "Ev name [(n1, VObj ob), (n2, VUint c), (n3, VString m)]"] by simp
  have d: "settles {#} (call_handler E i h (Ev name [(n1, VUint c)]))" for h name n1 c
    using settles_call [OF assms(1), of "Ev name [(n1, VUint c)]"] by simp
  have a: "settles {#} m \<Longrightarrow> settles {#} (if f \<noteq> None then m else ret ())" for f and m :: "('a world, unit) go"
    by (simp add: settles_def)
  have at: "settles F (andthen m n)" if "\<And>X. keeps (fd_bal X) m" "settles F n"
    for F and m n :: "('a world, unit) go"
    unfolding andthen_def by (rule settles_bnd [OF that(1)]) (rule that(2))
  show ?thesis
    unfolding Display_Dispatch_def owns_def in_flight_none [OF assms(2)] unsupported_def
    by (auto intro!: settles_bnd settles_raise settles_ret at a e d keeps_intro)
qed

lemma Display_Dispatch_wf: "handlers_wf E \<Longrightarrow> keeps wf_world (Display_Dispatch E i opcode fd data)"
  unfolding Display_Dispatch_def by (intro keeps_intro plain_intro)

section \<open>Registry\<close>

definition NewRegistry :: "('k world, ref) go" where
  "NewRegistry = New Registry"

definition Registry_Bind :: "'k env \<Rightarrow> ref \<Rightarrow> u32 \<Rightarrow> bytes \<Rightarrow> u32 \<Rightarrow> ref option \<Rightarrow> ('k world, gerr option) go" where
  "Registry_Bind E i name iface version new =
     request E i 0 (8 + 4 + (4 + str_len iface) + 4 + 4)
       [PWord name, PString iface (str_len iface), PWord version, PId new] []"

definition Registry_Destroy :: "ref \<Rightarrow> ('k world, gerr option) go" where
  "Registry_Destroy i = andthen (MarkZombie i) (ret None)"

definition Registry_SetGlobalHandler :: "ref \<Rightarrow> hid option \<Rightarrow> ('k world, unit) go" where
  "Registry_SetGlobalHandler i f = SetHandler i ''globalHandler'' f"

definition Registry_SetGlobalRemoveHandler :: "ref \<Rightarrow> hid option \<Rightarrow> ('k world, unit) go" where
  "Registry_SetGlobalRemoveHandler i f = SetHandler i ''globalRemoveHandler'' f"

definition Registry_HasFD :: "u32 \<Rightarrow> bool" where
  "Registry_HasFD opcode = (False)"

definition Registry_Dispatch :: "'k env \<Rightarrow> ref \<Rightarrow> u32 \<Rightarrow> int \<Rightarrow> bytes \<Rightarrow> ('k world, unit) go" where
  "Registry_Dispatch E i opcode fd data =
     (if opcode = 0 then event E i ''globalHandler'' ''RegistryGlobalEvent''
          [(''Name'', r_uint data), (''Interface'', r_string data), (''Version'', r_uint data)]
      else if opcode = 1 then event E i ''globalRemoveHandler'' ''RegistryGlobalRemoveEvent''
          [(''Name'', r_uint data)]
      else unsupported)"

context client_inv
begin

lemma Registry_inv:
  "keeps I (NewRegistry)"
  "keeps I (Registry_Bind E i u1 s1 u2 r1)"
  "keeps I (Registry_Destroy i)"
  "keeps I (Registry_SetGlobalHandler i f)"
  "keeps I (Registry_SetGlobalRemoveHandler i f)"
  unfolding NewRegistry_def Registry_Bind_def Registry_Destroy_def Registry_SetGlobalHandler_def Registry_SetGlobalRemoveHandler_def
  by (intro keeps_intro parts_inv)+

end

lemma Registry_Dispatch_owns:
  assumes "handlers_return E" "\<not> Registry_HasFD opcode \<Longrightarrow> fd < 0" "-1 \<le> fd"
  shows "owns fd (Registry_Dispatch E i opcode fd data)"
  unfolding Registry_Dispatch_def
  by (intro owns_intro plain_intro) (use assms in \<open>simp_all add: Registry_HasFD_def\<close>)

lemma Registry_Dispatch_wf: "handlers_wf E \<Longrightarrow> keeps wf_world (Registry_Dispatch E i opcode fd data)"
  unfolding Registry_Dispatch_def by (intro keeps_intro plain_intro)

section \<open>Callback\<close>

definition NewCallback :: "('k world, ref) go" where
  "NewCallback = New Callback"

definition Callback_Destroy :: "ref \<Rightarrow> ('k world, gerr option) go" where
  "Callback_Destroy i = andthen (MarkZombie i) (ret None)"

definition Callback_SetDoneHandler :: "ref \<Rightarrow> hid option \<Rightarrow> ('k world, unit) go" where
  "Callback_SetDoneHandler i f = SetHandler i ''doneHandler'' f"

definition Callback_HasFD :: "u32 \<Rightarrow> bool" where
  "Callback_HasFD opcode = (False)"

definition Callback_Dispatch :: "'k env \<Rightarrow> ref \<Rightarrow> u32 \<Rightarrow> int \<Rightarrow> bytes \<Rightarrow> ('k world, unit) go" where
  "Callback_Dispatch E i opcode fd data =
     (if opcode = 0 then event E i ''doneHandler'' ''CallbackDoneEvent''
          [(''CallbackData'', r_uint data)]
      else unsupported)"

context client_inv
begin

lemma Callback_inv:
  "keeps I (NewCallback)"
  "keeps I (Callback_Destroy i)"
  "keeps I (Callback_SetDoneHandler i f)"
  unfolding NewCallback_def Callback_Destroy_def Callback_SetDoneHandler_def
  by (intro keeps_intro parts_inv)+

end

lemma Callback_Dispatch_owns:
  assumes "handlers_return E" "\<not> Callback_HasFD opcode \<Longrightarrow> fd < 0" "-1 \<le> fd"
  shows "owns fd (Callback_Dispatch E i opcode fd data)"
  unfolding Callback_Dispatch_def
  by (intro owns_intro plain_intro) (use assms in \<open>simp_all add: Callback_HasFD_def\<close>)

lemma Callback_Dispatch_wf: "handlers_wf E \<Longrightarrow> keeps wf_world (Callback_Dispatch E i opcode fd data)"
  unfolding Callback_Dispatch_def by (intro keeps_intro plain_intro)

section \<open>Compositor\<close>

definition NewCompositor :: "('k world, ref) go" where
  "NewCompositor = New Compositor"

definition Compositor_CreateSurface :: "'k env \<Rightarrow> ref \<Rightarrow> ('k world, ref \<times> gerr option) go" where
  "Compositor_CreateSurface E i =
     bnd (andthen (Context_of i) (New Surface)) (\<lambda>new.
     bnd (request E i 0 (8 + 4)
       [PId (Some new)] []) (\<lambda>err. ret (new, err)))"

definition Compositor_CreateRegion :: "'k env \<Rightarrow> ref \<Rightarrow> ('k world, ref \<times> gerr option) go" where
  "Compositor_CreateRegion E i =
     bnd (andthen (Context_of i) (New Region)) (\<lambda>new.
     bnd (request E i 1 (8 + 4)
       [PId (Some new)] []) (\<lambda>err. ret (new, err)))"

definition Compositor_Destroy :: "ref \<Rightarrow> ('k world, gerr option) go" where
  "Compositor_Destroy i = andthen (MarkZombie i) (ret None)"

context client_inv
begin

lemma Compositor_inv:
  "keeps I (NewCompositor)"
  "keeps I (Compositor_CreateSurface E i)"
  "keeps I (Compositor_CreateRegion E i)"
  "keeps I (Compositor_Destroy i)"
  unfolding NewCompositor_def Compositor_CreateSurface_def Compositor_CreateRegion_def Compositor_Destroy_def
  by (intro keeps_intro parts_inv)+

end

section \<open>ShmPool\<close>

definition NewShmPool :: "('k world, ref) go" where
  "NewShmPool = New ShmPool"

definition ShmPool_CreateBuffer :: "'k env \<Rightarrow> ref \<Rightarrow> u32 \<Rightarrow> u32 \<Rightarrow> u32 \<Rightarrow> u32 \<Rightarrow> u32 \<Rightarrow> ('k world, ref \<times> gerr option) go" where
  "ShmPool_CreateBuffer E i offset width height stride format =
     bnd (andthen (Context_of i) (New Buffer)) (\<lambda>new.
     bnd (request E i 0 (8 + 4 + 4 + 4 + 4 + 4 + 4)
       [PId (Some new), PWord offset, PWord width, PWord height, PWord stride, PWord format] []) (\<lambda>err. ret (new, err)))"

definition ShmPool_Destroy :: "'k env \<Rightarrow> ref \<Rightarrow> ('k world, gerr option) go" where
  "ShmPool_Destroy E i =
     with_defer (MarkZombie i) (request E i 1 (8)
       [] [])"

definition ShmPool_Resize :: "'k env \<Rightarrow> ref \<Rightarrow> u32 \<Rightarrow> ('k world, gerr option) go" where
  "ShmPool_Resize E i size0 =
     request E i 2 (8 + 4)
       [PWord size0] []"

context client_inv
begin

lemma ShmPool_inv:
  "keeps I (NewShmPool)"
  "keeps I (ShmPool_CreateBuffer E i u1 u2 u3 u4 u5)"
  "keeps I (ShmPool_Destroy E i)"
  "keeps I (ShmPool_Resize E i u1)"
  unfolding NewShmPool_def ShmPool_CreateBuffer_def ShmPool_Destroy_def ShmPool_Resize_def
  by (intro keeps_intro parts_inv)+

end

section \<open>Shm\<close>

definition NewShm :: "('k world, ref) go" where
  "NewShm = New Shm"

definition Shm_CreatePool :: "'k env \<Rightarrow> ref \<Rightarrow> int \<Rightarrow> u32 \<Rightarrow> ('k world, ref \<times> gerr option) go" where
  "Shm_CreatePool E i fd size0 =
     bnd (andthen (Context_of i) (New ShmPool)) (\<lambda>new.
     bnd (request E i 0 (8 + 4 + 4)
       [PId (Some new), PWord size0] (unix_rights E fd)) (\<lambda>err. ret (new, err)))"

definition Shm_Release :: "'k env \<Rightarrow> ref \<Rightarrow> ('k world, gerr option) go" where
  "Shm_Release E i =
     with_defer (MarkZombie i) (request E i 1 (8)
       [] [])"

definition Shm_SetFormatHandler :: "ref \<Rightarrow> hid option \<Rightarrow> ('k world, unit) go" where
  "Shm_SetFormatHandler i f = SetHandler i ''formatHandler'' f"

definition Shm_HasFD :: "u32 \<Rightarrow> bool" where
  "Shm_HasFD opcode = (False)"

definition Shm_Dispatch :: "'k env \<Rightarrow> ref \<Rightarrow> u32 \<Rightarrow> int \<Rightarrow> bytes \<Rightarrow> ('k world, unit) go" where
  "Shm_Dispatch E i opcode fd data =
     (if opcode = 0 then event E i ''formatHandler'' ''ShmFormatEvent''
          [(''Format'', r_uint data)]
      else unsupported)"

context client_inv
begin

lemma Shm_inv:
  "keeps I (NewShm)"
  "keeps I (Shm_CreatePool E i d1 u1)"
  "keeps I (Shm_Release E i)"
  "keeps I (Shm_SetFormatHandler i f)"
  unfolding NewShm_def Shm_CreatePool_def Shm_Release_def Shm_SetFormatHandler_def
  by (intro keeps_intro parts_inv)+

end

lemma Shm_Dispatch_owns:
  assumes "handlers_return E" "\<not> Shm_HasFD opcode \<Longrightarrow> fd < 0" "-1 \<le> fd"
  shows "owns fd (Shm_Dispatch E i opcode fd data)"
  unfolding Shm_Dispatch_def
  by (intro owns_intro plain_intro) (use assms in \<open>simp_all add: Shm_HasFD_def\<close>)

lemma Shm_Dispatch_wf: "handlers_wf E \<Longrightarrow> keeps wf_world (Shm_Dispatch E i opcode fd data)"
  unfolding Shm_Dispatch_def by (intro keeps_intro plain_intro)

section \<open>Buffer\<close>

definition NewBuffer :: "('k world, ref) go" where
  "NewBuffer = New Buffer"

definition Buffer_Destroy :: "'k env \<Rightarrow> ref \<Rightarrow> ('k world, gerr option) go" where
  "Buffer_Destroy E i =
     with_defer (MarkZombie i) (request E i 0 (8)
       [] [])"

definition Buffer_SetReleaseHandler :: "ref \<Rightarrow> hid option \<Rightarrow> ('k world, unit) go" where
  "Buffer_SetReleaseHandler i f = SetHandler i ''releaseHandler'' f"

definition Buffer_HasFD :: "u32 \<Rightarrow> bool" where
  "Buffer_HasFD opcode = (False)"

definition Buffer_Dispatch :: "'k env \<Rightarrow> ref \<Rightarrow> u32 \<Rightarrow> int \<Rightarrow> bytes \<Rightarrow> ('k world, unit) go" where
  "Buffer_Dispatch E i opcode fd data =
     (if opcode = 0 then event E i ''releaseHandler'' ''BufferReleaseEvent''
          []
      else unsupported)"

context client_inv
begin

lemma Buffer_inv:
  "keeps I (NewBuffer)"
  "keeps I (Buffer_Destroy E i)"
  "keeps I (Buffer_SetReleaseHandler i f)"
  unfolding NewBuffer_def Buffer_Destroy_def Buffer_SetReleaseHandler_def
  by (intro keeps_intro parts_inv)+

end

lemma Buffer_Dispatch_owns:
  assumes "handlers_return E" "\<not> Buffer_HasFD opcode \<Longrightarrow> fd < 0" "-1 \<le> fd"
  shows "owns fd (Buffer_Dispatch E i opcode fd data)"
  unfolding Buffer_Dispatch_def
  by (intro owns_intro plain_intro) (use assms in \<open>simp_all add: Buffer_HasFD_def\<close>)

lemma Buffer_Dispatch_wf: "handlers_wf E \<Longrightarrow> keeps wf_world (Buffer_Dispatch E i opcode fd data)"
  unfolding Buffer_Dispatch_def by (intro keeps_intro plain_intro)

section \<open>Calls of the application\<close>

text \<open>The constructors, setters and requests of this file as operations on a world.\<close>

inductive core_op :: "'k env \<Rightarrow> ('k world, unit) go \<Rightarrow> bool" for E where
  "core_op E (discard (NewDisplay))"
| "core_op E (discard (Display_Sync E i))"
| "core_op E (discard (Display_GetRegistry E i))"
| "core_op E (discard (Display_Destroy i))"
| "core_op E (discard (Display_SetErrorHandler i f))"
| "core_op E (discard (Display_SetDeleteIdHandler i f))"
| "core_op E (discard (NewRegistry))"
| "core_op E (discard (Registry_Bind E i u1 s1 u2 r1))"
| "core_op E (discard (Registry_Destroy i))"
| "core_op E (discard (Registry_SetGlobalHandler i f))"
| "core_op E (discard (Registry_SetGlobalRemoveHandler i f))"
| "core_op E (discard (NewCallback))"
| "core_op E (discard (Callback_Destroy i))"
| "core_op E (discard (Callback_SetDoneHandler i f))"
| "core_op E (discard (NewCompositor))"
| "core_op E (discard (Compositor_CreateSurface E i))"
| "core_op E (discard (Compositor_CreateRegion E i))"
| "core_op E (discard (Compositor_Destroy i))"
| "core_op E (discard (NewShmPool))"
| "core_op E (discard (ShmPool_CreateBuffer E i u1 u2 u3 u4 u5))"
| "core_op E (discard (ShmPool_Destroy E i))"
| "core_op E (discard (ShmPool_Resize E i u1))"
| "core_op E (discard (NewShm))"
| "core_op E (discard (Shm_CreatePool E i d1 u1))"
| "core_op E (discard (Shm_Release E i))"
| "core_op E (discard (Shm_SetFormatHandler i f))"
| "core_op E (discard (NewBuffer))"
| "core_op E (discard (Buffer_Destroy E i))"
| "core_op E (discard (Buffer_SetReleaseHandler i f))"

context client_inv
begin

lemma core_op_inv: "core_op E m \<Longrightarrow> keeps I m"
  by (erule core_op.cases) (auto intro!: keeps_discard intro: Display_inv Registry_inv Callback_inv Compositor_inv ShmPool_inv Shm_inv Buffer_inv)

end

end
