(* ===== verification/Bind_Data.thy ===== *)
theory Bind_Data
  imports Client_Inv
begin

text \<open>
  Data transfer (\<open>wl_data_*\<close>) and the legacy shell of client/client.go. \<open>DataSource\<close> receives descriptors,
  \<open>DataOffer.Receive\<close> sends one, and \<open>DataDevice\<close> introduces offers the server names.
  Each method is named \<open>Type_Method\<close>; an object argument is \<open>None\<close> for nil, an \<open>int32\<close> argument is the word
  its conversion to \<open>uint32\<close> gives.
\<close>

section \<open>DataOffer\<close>

definition NewDataOffer :: "('k world, ref) go" where
  "NewDataOffer = New DataOffer"

definition DataOffer_Accept :: "'k env \<Rightarrow> ref \<Rightarrow> u32 \<Rightarrow> bytes option \<Rightarrow> ('k world, gerr option) go" where
  "DataOffer_Accept E i serial mimeType =
     request E i 0 (8 + 4 + (4 + opt_str_len mimeType))
       [PWord serial, PNullString mimeType (opt_str_len mimeType)] []"

definition DataOffer_Receive :: "'k env \<Rightarrow> ref \<Rightarrow> bytes \<Rightarrow> int \<Rightarrow> ('k world, gerr option) go" where
  "DataOffer_Receive E i mimeType fd =
     request E i 1 (8 + (4 + str_len mimeType))
       [PString mimeType (str_len mimeType)] (unix_rights E fd)"

definition DataOffer_Destroy :: "'k env \<Rightarrow> ref \<Rightarrow> ('k world, gerr option) go" where
  "DataOffer_Destroy E i =
     with_defer (MarkZombie i) (request E i 2 (8)
       [] [])"

definition DataOffer_Finish :: "'k env \<Rightarrow> ref \<Rightarrow> ('k world, gerr option) go" where
  "DataOffer_Finish E i =
     request E i 3 (8)
       [] []"

definition DataOffer_SetActions :: "'k env \<Rightarrow> ref \<Rightarrow> u32 \<Rightarrow> u32 \<Rightarrow> ('k world, gerr option) go" where
  "DataOffer_SetActions E i dndActions preferredAction =
     request E i 4 (8 + 4 + 4)
       [PWord dndActions, PWord preferredAction] []"

definition DataOffer_SetOfferHandler :: "ref \<Rightarrow> hid option \<Rightarrow> ('k world, unit) go" where
  "DataOffer_SetOfferHandler i f = SetHandler i ''offerHandler'' f"

definition DataOffer_SetSourceActionsHandler :: "ref \<Rightarrow> hid option \<Rightarrow> ('k world, unit) go" where
  "DataOffer_SetSourceActionsHandler i f = SetHandler i ''sourceActionsHandler'' f"

definition DataOffer_SetActionHandler :: "ref \<Rightarrow> hid option \<Rightarrow> ('k world, unit) go" where
  "DataOffer_SetActionHandler i f = SetHandler i ''actionHandler'' f"

definition DataOffer_HasFD :: "u32 \<Rightarrow> bool" where
  "DataOffer_HasFD opcode = (False)"

definition DataOffer_Dispatch :: "'k env \<Rightarrow> ref \<Rightarrow> u32 \<Rightarrow> int \<Rightarrow> bytes \<Rightarrow> ('k world, unit) go" where
  "DataOffer_Dispatch E i opcode fd data =
     (if opcode = 0 then event E i ''offerHandler'' ''DataOfferOfferEvent''
          [(''MimeType'', r_string data)]
      else if opcode = 1 then event E i ''sourceActionsHandler'' ''DataOfferSourceActionsEvent''
          [(''SourceActions'', r_uint data)]
      else if opcode = 2 then event E i ''actionHandler'' ''DataOfferActionEvent''
          [(''DndAction'', r_uint data)]
      else unsupported)"

context client_inv
begin

lemma DataOffer_inv:
  "keeps I (NewDataOffer)"
  "keeps I (DataOffer_Accept E i u1 os1)"
  "keeps I (DataOffer_Receive E i s1 d1)"
  "keeps I (DataOffer_Destroy E i)"
  "keeps I (DataOffer_Finish E i)"
  "keeps I (DataOffer_SetActions E i u1 u2)"
  "keeps I (DataOffer_SetOfferHandler i f)"
  "keeps I (DataOffer_SetSourceActionsHandler i f)"
  "keeps I (DataOffer_SetActionHandler i f)"
  unfolding NewDataOffer_def DataOffer_Accept_def DataOffer_Receive_def DataOffer_Destroy_def DataOffer_Finish_def DataOffer_SetActions_def DataOffer_SetOfferHandler_def DataOffer_SetSourceActionsHandler_def DataOffer_SetActionHandler_def
  by (intro keeps_intro parts_inv)+

end

lemma DataOffer_Dispatch_owns:
  assumes "handlers_return E" "\<not> DataOffer_HasFD opcode \<Longrightarrow> fd < 0" "-1 \<le> fd"
  shows "owns fd (DataOffer_Dispatch E i opcode fd data)"
  unfolding DataOffer_Dispatch_def
  by (intro owns_intro plain_intro) (use assms in \<open>simp_all add: DataOffer_HasFD_def\<close>)

lemma DataOffer_Dispatch_wf: "handlers_wf E \<Longrightarrow> keeps wf_world (DataOffer_Dispatch E i opcode fd data)"
  unfolding DataOffer_Dispatch_def by (intro keeps_intro plain_intro)

section \<open>DataSource\<close>

definition NewDataSource :: "('k world, ref) go" where
  "NewDataSource = New DataSource"

definition DataSource_Offer :: "'k env \<Rightarrow> ref \<Rightarrow> bytes \<Rightarrow> ('k world, gerr option) go" where
  "DataSource_Offer E i mimeType =
     request E i 0 (8 + (4 + str_len mimeType))
       [PString mimeType (str_len mimeType)] []"

definition DataSource_Destroy :: "'k env \<Rightarrow> ref \<Rightarrow> ('k world, gerr option) go" where
  "DataSource_Destroy E i =
     with_defer (MarkZombie i) (request E i 1 (8)
       [] [])"

definition DataSource_SetActions :: "'k env \<Rightarrow> ref \<Rightarrow> u32 \<Rightarrow> ('k world, gerr option) go" where
  "DataSource_SetActions E i dndActions =
     request E i 2 (8 + 4)
       [PWord dndActions] []"

definition DataSource_SetTargetHandler :: "ref \<Rightarrow> hid option \<Rightarrow> ('k world, unit) go" where
  "DataSource_SetTargetHandler i f = SetHandler i ''targetHandler'' f"

definition DataSource_SetSendHandler :: "ref \<Rightarrow> hid option \<Rightarrow> ('k world, unit) go" where
  "DataSource_SetSendHandler i f = SetHandler i ''sendHandler'' f"

definition DataSource_SetCancelledHandler :: "ref \<Rightarrow> hid option \<Rightarrow> ('k world, unit) go" where
  "DataSource_SetCancelledHandler i f = SetHandler i ''cancelledHandler'' f"

definition DataSource_SetDndDropPerformedHandler :: "ref \<Rightarrow> hid option \<Rightarrow> ('k world, unit) go" where
  "DataSource_SetDndDropPerformedHandler i f = SetHandler i ''dndDropPerformedHandler'' f"

definition DataSource_SetDndFinishedHandler :: "ref \<Rightarrow> hid option \<Rightarrow> ('k world, unit) go" where
  "DataSource_SetDndFinishedHandler i f = SetHandler i ''dndFinishedHandler'' f"

definition DataSource_SetActionHandler :: "ref \<Rightarrow> hid option \<Rightarrow> ('k world, unit) go" where
  "DataSource_SetActionHandler i f = SetHandler i ''actionHandler'' f"

definition DataSource_HasFD :: "u32 \<Rightarrow> bool" where
  "DataSource_HasFD opcode = (if opcode = 1 then True else False)"

definition DataSource_Dispatch :: "'k env \<Rightarrow> ref \<Rightarrow> u32 \<Rightarrow> int \<Rightarrow> bytes \<Rightarrow> ('k world, unit) go" where
  "DataSource_Dispatch E i opcode fd data =
     (if opcode = 0 then event E i ''targetHandler'' ''DataSourceTargetEvent''
          [(''MimeType'', r_opt_string data)]
      else if opcode = 1 then fd_event E i fd ''sendHandler'' ''DataSourceSendEvent''
          [(''MimeType'', r_string data), (''Fd'', r_fd fd)]
      else if opcode = 2 then event E i ''cancelledHandler'' ''DataSourceCancelledEvent''
          []
      else if opcode = 3 then event E i ''dndDropPerformedHandler'' ''DataSourceDndDropPerformedEvent''
          []
      else if opcode = 4 then event E i ''dndFinishedHandler'' ''DataSourceDndFinishedEvent''
          []
      else if opcode = 5 then event E i ''actionHandler'' ''DataSourceActionEvent''
          [(''DndAction'', r_uint data)]
      else unsupported)"

context client_inv
begin

lemma DataSource_inv:
  "keeps I (NewDataSource)"
  "keeps I (DataSource_Offer E i s1)"
  "keeps I (DataSource_Destroy E i)"
  "keeps I (DataSource_SetActions E i u1)"
  "keeps I (DataSource_SetTargetHandler i f)"
  "keeps I (DataSource_SetSendHandler i f)"
  "keeps I (DataSource_SetCancelledHandler i f)"
  "keeps I (DataSource_SetDndDropPerformedHandler i f)"
  "keeps I (DataSource_SetDndFinishedHandler i f)"
  "keeps I (DataSource_SetActionHandler i f)"
  unfolding NewDataSource_def DataSource_Offer_def DataSource_Destroy_def DataSource_SetActions_def DataSource_SetTargetHandler_def DataSource_SetSendHandler_def DataSource_SetCancelledHandler_def DataSource_SetDndDropPerformedHandler_def DataSource_SetDndFinishedHandler_def DataSource_SetActionHandler_def
  by (intro keeps_intro parts_inv)+

end

lemma DataSource_Dispatch_owns:
  assumes "handlers_return E" "\<not> DataSource_HasFD opcode \<Longrightarrow> fd < 0" "-1 \<le> fd"
  shows "owns fd (DataSource_Dispatch E i opcode fd data)"
  unfolding DataSource_Dispatch_def
  by (intro owns_intro plain_intro) (use assms in \<open>simp_all add: DataSource_HasFD_def\<close>)

lemma DataSource_Dispatch_wf: "handlers_wf E \<Longrightarrow> keeps wf_world (DataSource_Dispatch E i opcode fd data)"
  unfolding DataSource_Dispatch_def by (intro keeps_intro plain_intro)

section \<open>DataDevice\<close>

definition NewDataDevice :: "('k world, ref) go" where
  "NewDataDevice = New DataDevice"

definition DataDevice_StartDrag :: "'k env \<Rightarrow> ref \<Rightarrow> ref option \<Rightarrow> ref option \<Rightarrow> ref option \<Rightarrow> u32 \<Rightarrow> ('k world, gerr option) go" where
  "DataDevice_StartDrag E i source origin icon serial =
     request E i 0 (8 + 4 + 4 + 4 + 4)
       [PNullId source, PId origin, PNullId icon, PWord serial] []"

definition DataDevice_SetSelection :: "'k env \<Rightarrow> ref \<Rightarrow> ref option \<Rightarrow> u32 \<Rightarrow> ('k world, gerr option) go" where
  "DataDevice_SetSelection E i source serial =
     request E i 1 (8 + 4 + 4)
       [PNullId source, PWord serial] []"

definition DataDevice_Release :: "'k env \<Rightarrow> ref \<Rightarrow> ('k world, gerr option) go" where
  "DataDevice_Release E i =
     with_defer (MarkZombie i) (request E i 2 (8)
       [] [])"

definition DataDevice_SetDataOfferHandler :: "ref \<Rightarrow> hid option \<Rightarrow> ('k world, unit) go" where
  "DataDevice_SetDataOfferHandler i f = SetHandler i ''dataOfferHandler'' f"

definition DataDevice_SetEnterHandler :: "ref \<Rightarrow> hid option \<Rightarrow> ('k world, unit) go" where
  "DataDevice_SetEnterHandler i f = SetHandler i ''enterHandler'' f"

definition DataDevice_SetLeaveHandler :: "ref \<Rightarrow> hid option \<Rightarrow> ('k world, unit) go" where
  "DataDevice_SetLeaveHandler i f = SetHandler i ''leaveHandler'' f"

definition DataDevice_SetMotionHandler :: "ref \<Rightarrow> hid option \<Rightarrow> ('k world, unit) go" where
  "DataDevice_SetMotionHandler i f = SetHandler i ''motionHandler'' f"

definition DataDevice_SetDropHandler :: "ref \<Rightarrow> hid option \<Rightarrow> ('k world, unit) go" where
  "DataDevice_SetDropHandler i f = SetHandler i ''dropHandler'' f"

definition DataDevice_SetSelectionHandler :: "ref \<Rightarrow> hid option \<Rightarrow> ('k world, unit) go" where
  "DataDevice_SetSelectionHandler i f = SetHandler i ''selectionHandler'' f"

definition DataDevice_HasFD :: "u32 \<Rightarrow> bool" where
  "DataDevice_HasFD opcode = (False)"

definition DataDevice_Dispatch :: "'k env \<Rightarrow> ref \<Rightarrow> u32 \<Rightarrow> int \<Rightarrow> bytes \<Rightarrow> ('k world, unit) go" where
  "DataDevice_Dispatch E i opcode fd data =
     (if opcode = 0 then new_event E i ''dataOfferHandler'' ''DataDeviceDataOfferEvent''
          [(''Id'', r_new i data DataOffer)]
      else if opcode = 1 then event E i ''enterHandler'' ''DataDeviceEnterEvent''
          [(''Serial'', r_uint data), (''Surface'', r_obj i data Surface), (''X'', r_fixed data), (''Y'', r_fixed data), (''Id'', r_obj i data DataOffer)]
      else if opcode = 2 then event E i ''leaveHandler'' ''DataDeviceLeaveEvent''
          []
      else if opcode = 3 then event E i ''motionHandler'' ''DataDeviceMotionEvent''
          [(''Time'', r_uint data), (''X'', r_fixed data), (''Y'', r_fixed data)]
      else if opcode = 4 then event E i ''dropHandler'' ''DataDeviceDropEvent''
          []
      else if opcode = 5 then event E i ''selectionHandler'' ''DataDeviceSelectionEvent''
          [(''Id'', r_obj i data DataOffer)]
      else unsupported)"

definition DataDevice_AbsorbNewIDs :: "ref \<Rightarrow> u32 \<Rightarrow> bytes \<Rightarrow> ('k world, unit) go" where
  "DataDevice_AbsorbNewIDs i opcode data =
     (if opcode = 0 then andthen (absorb_new i data DataOffer 0) (ret ())
      else ret ())"

context client_inv
begin

lemma DataDevice_inv:
  "keeps I (NewDataDevice)"
  "keeps I (DataDevice_StartDrag E i r1 r2 r3 u1)"
  "keeps I (DataDevice_SetSelection E i r1 u1)"
  "keeps I (DataDevice_Release E i)"
  "keeps I (DataDevice_SetDataOfferHandler i f)"
  "keeps I (DataDevice_SetEnterHandler i f)"
  "keeps I (DataDevice_SetLeaveHandler i f)"
  "keeps I (DataDevice_SetMotionHandler i f)"
  "keeps I (DataDevice_SetDropHandler i f)"
  "keeps I (DataDevice_SetSelectionHandler i f)"
  unfolding NewDataDevice_def DataDevice_StartDrag_def DataDevice_SetSelection_def DataDevice_Release_def DataDevice_SetDataOfferHandler_def DataDevice_SetEnterHandler_def DataDevice_SetLeaveHandler_def DataDevice_SetMotionHandler_def DataDevice_SetDropHandler_def DataDevice_SetSelectionHandler_def
  by (intro keeps_intro parts_inv)+

end

lemma DataDevice_Dispatch_owns:
  assumes "handlers_return E" "\<not> DataDevice_HasFD opcode \<Longrightarrow> fd < 0" "-1 \<le> fd"
  shows "owns fd (DataDevice_Dispatch E i opcode fd data)"
  unfolding DataDevice_Dispatch_def
  by (intro owns_intro plain_intro) (use assms in \<open>simp_all add: DataDevice_HasFD_def\<close>)

lemma DataDevice_Dispatch_wf: "handlers_wf E \<Longrightarrow> keeps wf_world (DataDevice_Dispatch E i opcode fd data)"
  unfolding DataDevice_Dispatch_def by (intro keeps_intro plain_intro)

lemma DataDevice_AbsorbNewIDs_keeps:
  "keeps wf_world (DataDevice_AbsorbNewIDs i opcode data)"
  "keeps (fd_bal X) (DataDevice_AbsorbNewIDs i opcode data)"
  unfolding DataDevice_AbsorbNewIDs_def by (intro keeps_intro)+

section \<open>DataDeviceManager\<close>

definition NewDataDeviceManager :: "('k world, ref) go" where
  "NewDataDeviceManager = New DataDeviceManager"

definition DataDeviceManager_CreateDataSource :: "'k env \<Rightarrow> ref \<Rightarrow> ('k world, ref \<times> gerr option) go" where
  "DataDeviceManager_CreateDataSource E i =
     bnd (andthen (Context_of i) (New DataSource)) (\<lambda>new.
     bnd (request E i 0 (8 + 4)
       [PId (Some new)] []) (\<lambda>err. ret (new, err)))"

definition DataDeviceManager_GetDataDevice :: "'k env \<Rightarrow> ref \<Rightarrow> ref option \<Rightarrow> ('k world, ref \<times> gerr option) go" where
  "DataDeviceManager_GetDataDevice E i seat =
     bnd (andthen (Context_of i) (New DataDevice)) (\<lambda>new.
     bnd (request E i 1 (8 + 4 + 4)
       [PId (Some new), PId seat] []) (\<lambda>err. ret (new, err)))"

definition DataDeviceManager_Destroy :: "ref \<Rightarrow> ('k world, gerr option) go" where
  "DataDeviceManager_Destroy i = andthen (MarkZombie i) (ret None)"

context client_inv
begin

lemma DataDeviceManager_inv:
  "keeps I (NewDataDeviceManager)"
  "keeps I (DataDeviceManager_CreateDataSource E i)"
  "keeps I (DataDeviceManager_GetDataDevice E i r1)"
  "keeps I (DataDeviceManager_Destroy i)"
  unfolding NewDataDeviceManager_def DataDeviceManager_CreateDataSource_def DataDeviceManager_GetDataDevice_def DataDeviceManager_Destroy_def
  by (intro keeps_intro parts_inv)+

end

section \<open>Shell\<close>

definition NewShell :: "('k world, ref) go" where
  "NewShell = New Shell"

definition Shell_GetShellSurface :: "'k env \<Rightarrow> ref \<Rightarrow> ref option \<Rightarrow> ('k world, ref \<times> gerr option) go" where
  "Shell_GetShellSurface E i surface =
     bnd (andthen (Context_of i) (New ShellSurface)) (\<lambda>new.
     bnd (request E i 0 (8 + 4 + 4)
       [PId (Some new), PId surface] []) (\<lambda>err. ret (new, err)))"

definition Shell_Destroy :: "ref \<Rightarrow> ('k world, gerr option) go" where
  "Shell_Destroy i = andthen (MarkZombie i) (ret None)"

context client_inv
begin

lemma Shell_inv:
  "keeps I (NewShell)"
  "keeps I (Shell_GetShellSurface E i r1)"
  "keeps I (Shell_Destroy i)"
  unfolding NewShell_def Shell_GetShellSurface_def Shell_Destroy_def
  by (intro keeps_intro parts_inv)+

end

section \<open>ShellSurface\<close>

definition NewShellSurface :: "('k world, ref) go" where
  "NewShellSurface = New ShellSurface"

definition ShellSurface_Pong :: "'k env \<Rightarrow> ref \<Rightarrow> u32 \<Rightarrow> ('k world, gerr option) go" where
  "ShellSurface_Pong E i serial =
     request E i 0 (8 + 4)
       [PWord serial] []"

definition ShellSurface_Move :: "'k env \<Rightarrow> ref \<Rightarrow> ref option \<Rightarrow> u32 \<Rightarrow> ('k world, gerr option) go" where
  "ShellSurface_Move E i seat serial =
     request E i 1 (8 + 4 + 4)
       [PId seat, PWord serial] []"

definition ShellSurface_Resize :: "'k env \<Rightarrow> ref \<Rightarrow> ref option \<Rightarrow> u32 \<Rightarrow> u32 \<Rightarrow> ('k world, gerr option) go" where
  "ShellSurface_Resize E i seat serial edges =
     request E i 2 (8 + 4 + 4 + 4)
       [PId seat, PWord serial, PWord edges] []"

definition ShellSurface_SetToplevel :: "'k env \<Rightarrow> ref \<Rightarrow> ('k world, gerr option) go" where
  "ShellSurface_SetToplevel E i =
     request E i 3 (8)
       [] []"

definition ShellSurface_SetTransient :: "'k env \<Rightarrow> ref \<Rightarrow> ref option \<Rightarrow> u32 \<Rightarrow> u32 \<Rightarrow> u32 \<Rightarrow> ('k world, gerr option) go" where
  "ShellSurface_SetTransient E i parent x y flags0 =
     request E i 4 (8 + 4 + 4 + 4 + 4)
       [PId parent, PWord x, PWord y, PWord flags0] []"

definition ShellSurface_SetFullscreen :: "'k env \<Rightarrow> ref \<Rightarrow> u32 \<Rightarrow> u32 \<Rightarrow> ref option \<Rightarrow> ('k world, gerr option) go" where
  "ShellSurface_SetFullscreen E i method framerate output =
     request E i 5 (8 + 4 + 4 + 4)
       [PWord method, PWord framerate, PNullId output] []"

definition ShellSurface_SetPopup :: "'k env \<Rightarrow> ref \<Rightarrow> ref option \<Rightarrow> u32 \<Rightarrow> ref option \<Rightarrow> u32 \<Rightarrow> u32 \<Rightarrow> u32 \<Rightarrow> ('k world, gerr option) go" where
  "ShellSurface_SetPopup E i seat serial parent x y flags0 =
     request E i 6 (8 + 4 + 4 + 4 + 4 + 4 + 4)
       [PId seat, PWord serial, PId parent, PWord x, PWord y, PWord flags0] []"

definition ShellSurface_SetMaximized :: "'k env \<Rightarrow> ref \<Rightarrow> ref option \<Rightarrow> ('k world, gerr option) go" where
  "ShellSurface_SetMaximized E i output =
     request E i 7 (8 + 4)
       [PNullId output] []"

definition ShellSurface_SetTitle :: "'k env \<Rightarrow> ref \<Rightarrow> bytes \<Rightarrow> ('k world, gerr option) go" where
  "ShellSurface_SetTitle E i title =
     request E i 8 (8 + (4 + str_len title))
       [PString title (str_len title)] []"

definition ShellSurface_SetClass :: "'k env \<Rightarrow> ref \<Rightarrow> bytes \<Rightarrow> ('k world, gerr option) go" where
  "ShellSurface_SetClass E i class =
     request E i 9 (8 + (4 + str_len class))
       [PString class (str_len class)] []"

definition ShellSurface_Destroy :: "ref \<Rightarrow> ('k world, gerr option) go" where
  "ShellSurface_Destroy i = andthen (MarkZombie i) (ret None)"

definition ShellSurface_SetPingHandler :: "ref \<Rightarrow> hid option \<Rightarrow> ('k world, unit) go" where
  "ShellSurface_SetPingHandler i f = SetHandler i ''pingHandler'' f"

definition ShellSurface_SetConfigureHandler :: "ref \<Rightarrow> hid option \<Rightarrow> ('k world, unit) go" where
  "ShellSurface_SetConfigureHandler i f = SetHandler i ''configureHandler'' f"

definition ShellSurface_SetPopupDoneHandler :: "ref \<Rightarrow> hid option \<Rightarrow> ('k world, unit) go" where
  "ShellSurface_SetPopupDoneHandler i f = SetHandler i ''popupDoneHandler'' f"

definition ShellSurface_HasFD :: "u32 \<Rightarrow> bool" where
  "ShellSurface_HasFD opcode = (False)"

definition ShellSurface_Dispatch :: "'k env \<Rightarrow> ref \<Rightarrow> u32 \<Rightarrow> int \<Rightarrow> bytes \<Rightarrow> ('k world, unit) go" where
  "ShellSurface_Dispatch E i opcode fd data =
     (if opcode = 0 then event E i ''pingHandler'' ''ShellSurfacePingEvent''
          [(''Serial'', r_uint data)]
      else if opcode = 1 then event E i ''configureHandler'' ''ShellSurfaceConfigureEvent''
          [(''Edges'', r_uint data), (''Width'', r_int data), (''Height'', r_int data)]
      else if opcode = 2 then event E i ''popupDoneHandler'' ''ShellSurfacePopupDoneEvent''
          []
      else unsupported)"

context client_inv
begin

lemma ShellSurface_inv:
  "keeps I (NewShellSurface)"
  "keeps I (ShellSurface_Pong E i u1)"
  "keeps I (ShellSurface_Move E i r1 u1)"
  "keeps I (ShellSurface_Resize E i r1 u1 u2)"
  "keeps I (ShellSurface_SetToplevel E i)"
  "keeps I (ShellSurface_SetTransient E i r1 u1 u2 u3)"
  "keeps I (ShellSurface_SetFullscreen E i u1 u2 r1)"
  "keeps I (ShellSurface_SetPopup E i r1 u1 r2 u2 u3 u4)"
  "keeps I (ShellSurface_SetMaximized E i r1)"
  "keeps I (ShellSurface_SetTitle E i s1)"
  "keeps I (ShellSurface_SetClass E i s1)"
  "keeps I (ShellSurface_Destroy i)"
  "keeps I (ShellSurface_SetPingHandler i f)"
  "keeps I (ShellSurface_SetConfigureHandler i f)"
  "keeps I (ShellSurface_SetPopupDoneHandler i f)"
  unfolding NewShellSurface_def ShellSurface_Pong_def ShellSurface_Move_def ShellSurface_Resize_def ShellSurface_SetToplevel_def ShellSurface_SetTransient_def ShellSurface_SetFullscreen_def ShellSurface_SetPopup_def ShellSurface_SetMaximized_def ShellSurface_SetTitle_def ShellSurface_SetClass_def ShellSurface_Destroy_def ShellSurface_SetPingHandler_def ShellSurface_SetConfigureHandler_def ShellSurface_SetPopupDoneHandler_def
  by (intro keeps_intro parts_inv)+

end

lemma ShellSurface_Dispatch_owns:
  assumes "handlers_return E" "\<not> ShellSurface_HasFD opcode \<Longrightarrow> fd < 0" "-1 \<le> fd"
  shows "owns fd (ShellSurface_Dispatch E i opcode fd data)"
  unfolding ShellSurface_Dispatch_def
  by (intro owns_intro plain_intro) (use assms in \<open>simp_all add: ShellSurface_HasFD_def\<close>)

lemma ShellSurface_Dispatch_wf: "handlers_wf E \<Longrightarrow> keeps wf_world (ShellSurface_Dispatch E i opcode fd data)"
  unfolding ShellSurface_Dispatch_def by (intro keeps_intro plain_intro)

section \<open>Calls of the application\<close>

text \<open>The constructors, setters and requests of this file as operations on a world.\<close>

inductive data_op :: "'k env \<Rightarrow> ('k world, unit) go \<Rightarrow> bool" for E where
  "data_op E (discard (NewDataOffer))"
| "data_op E (discard (DataOffer_Accept E i u1 os1))"
| "data_op E (discard (DataOffer_Receive E i s1 d1))"
| "data_op E (discard (DataOffer_Destroy E i))"
| "data_op E (discard (DataOffer_Finish E i))"
| "data_op E (discard (DataOffer_SetActions E i u1 u2))"
| "data_op E (discard (DataOffer_SetOfferHandler i f))"
| "data_op E (discard (DataOffer_SetSourceActionsHandler i f))"
| "data_op E (discard (DataOffer_SetActionHandler i f))"
| "data_op E (discard (NewDataSource))"
| "data_op E (discard (DataSource_Offer E i s1))"
| "data_op E (discard (DataSource_Destroy E i))"
| "data_op E (discard (DataSource_SetActions E i u1))"
| "data_op E (discard (DataSource_SetTargetHandler i f))"
| "data_op E (discard (DataSource_SetSendHandler i f))"
| "data_op E (discard (DataSource_SetCancelledHandler i f))"
| "data_op E (discard (DataSource_SetDndDropPerformedHandler i f))"
| "data_op E (discard (DataSource_SetDndFinishedHandler i f))"
| "data_op E (discard (DataSource_SetActionHandler i f))"
| "data_op E (discard (NewDataDevice))"
| "data_op E (discard (DataDevice_StartDrag E i r1 r2 r3 u1))"
| "data_op E (discard (DataDevice_SetSelection E i r1 u1))"
| "data_op E (discard (DataDevice_Release E i))"
| "data_op E (discard (DataDevice_SetDataOfferHandler i f))"
| "data_op E (discard (DataDevice_SetEnterHandler i f))"
| "data_op E (discard (DataDevice_SetLeaveHandler i f))"
| "data_op E (discard (DataDevice_SetMotionHandler i f))"
| "data_op E (discard (DataDevice_SetDropHandler i f))"
| "data_op E (discard (DataDevice_SetSelectionHandler i f))"
| "data_op E (discard (NewDataDeviceManager))"
| "data_op E (discard (DataDeviceManager_CreateDataSource E i))"
| "data_op E (discard (DataDeviceManager_GetDataDevice E i r1))"
| "data_op E (discard (DataDeviceManager_Destroy i))"
| "data_op E (discard (NewShell))"
| "data_op E (discard (Shell_GetShellSurface E i r1))"
| "data_op E (discard (Shell_Destroy i))"
| "data_op E (discard (NewShellSurface))"
| "data_op E (discard (ShellSurface_Pong E i u1))"
| "data_op E (discard (ShellSurface_Move E i r1 u1))"
| "data_op E (discard (ShellSurface_Resize E i r1 u1 u2))"
| "data_op E (discard (ShellSurface_SetToplevel E i))"
| "data_op E (discard (ShellSurface_SetTransient E i r1 u1 u2 u3))"
| "data_op E (discard (ShellSurface_SetFullscreen E i u1 u2 r1))"
| "data_op E (discard (ShellSurface_SetPopup E i r1 u1 r2 u2 u3 u4))"
| "data_op E (discard (ShellSurface_SetMaximized E i r1))"
| "data_op E (discard (ShellSurface_SetTitle E i s1))"
| "data_op E (discard (ShellSurface_SetClass E i s1))"
| "data_op E (discard (ShellSurface_Destroy i))"
| "data_op E (discard (ShellSurface_SetPingHandler i f))"
| "data_op E (discard (ShellSurface_SetConfigureHandler i f))"
| "data_op E (discard (ShellSurface_SetPopupDoneHandler i f))"

context client_inv
begin

lemma data_op_inv: "data_op E m \<Longrightarrow> keeps I m"
  by (erule data_op.cases) (auto intro!: keeps_discard intro: DataOffer_inv DataSource_inv DataDevice_inv DataDeviceManager_inv Shell_inv ShellSurface_inv)

end

end
