(* ===== verification/Bind_Surface.thy ===== *)
theory Bind_Surface
  imports Client_Inv
begin

text \<open>
  Surfaces, regions, subsurfaces, outputs and \<open>wl_fixes\<close> of client/client.go.
  Each method is named \<open>Type_Method\<close>; an object argument is \<open>None\<close> for nil, an \<open>int32\<close> argument is the word
  its conversion to \<open>uint32\<close> gives.
\<close>

section \<open>Surface\<close>

definition NewSurface :: "('k world, ref) go" where
  "NewSurface = New Surface"

definition Surface_Destroy :: "'k env \<Rightarrow> ref \<Rightarrow> ('k world, gerr option) go" where
  "Surface_Destroy E i =
     with_defer (MarkZombie i) (request E i 0 (8)
       [] [])"

definition Surface_Attach :: "'k env \<Rightarrow> ref \<Rightarrow> ref option \<Rightarrow> u32 \<Rightarrow> u32 \<Rightarrow> ('k world, gerr option) go" where
  "Surface_Attach E i buffer x y =
     request E i 1 (8 + 4 + 4 + 4)
       [PNullId buffer, PWord x, PWord y] []"

definition Surface_Damage :: "'k env \<Rightarrow> ref \<Rightarrow> u32 \<Rightarrow> u32 \<Rightarrow> u32 \<Rightarrow> u32 \<Rightarrow> ('k world, gerr option) go" where
  "Surface_Damage E i x y width height =
     request E i 2 (8 + 4 + 4 + 4 + 4)
       [PWord x, PWord y, PWord width, PWord height] []"

definition Surface_Frame :: "'k env \<Rightarrow> ref \<Rightarrow> ('k world, ref \<times> gerr option) go" where
  "Surface_Frame E i =
     bnd (andthen (Context_of i) (New Callback)) (\<lambda>callback.
     bnd (request E i 3 (8 + 4)
       [PId (Some callback)] []) (\<lambda>err. ret (callback, err)))"

definition Surface_SetOpaqueRegion :: "'k env \<Rightarrow> ref \<Rightarrow> ref option \<Rightarrow> ('k world, gerr option) go" where
  "Surface_SetOpaqueRegion E i region =
     request E i 4 (8 + 4)
       [PNullId region] []"

definition Surface_SetInputRegion :: "'k env \<Rightarrow> ref \<Rightarrow> ref option \<Rightarrow> ('k world, gerr option) go" where
  "Surface_SetInputRegion E i region =
     request E i 5 (8 + 4)
       [PNullId region] []"

definition Surface_Commit :: "'k env \<Rightarrow> ref \<Rightarrow> ('k world, gerr option) go" where
  "Surface_Commit E i =
     request E i 6 (8)
       [] []"

definition Surface_SetBufferTransform :: "'k env \<Rightarrow> ref \<Rightarrow> u32 \<Rightarrow> ('k world, gerr option) go" where
  "Surface_SetBufferTransform E i transform =
     request E i 7 (8 + 4)
       [PWord transform] []"

definition Surface_SetBufferScale :: "'k env \<Rightarrow> ref \<Rightarrow> u32 \<Rightarrow> ('k world, gerr option) go" where
  "Surface_SetBufferScale E i scale =
     request E i 8 (8 + 4)
       [PWord scale] []"

definition Surface_DamageBuffer :: "'k env \<Rightarrow> ref \<Rightarrow> u32 \<Rightarrow> u32 \<Rightarrow> u32 \<Rightarrow> u32 \<Rightarrow> ('k world, gerr option) go" where
  "Surface_DamageBuffer E i x y width height =
     request E i 9 (8 + 4 + 4 + 4 + 4)
       [PWord x, PWord y, PWord width, PWord height] []"

definition Surface_Offset :: "'k env \<Rightarrow> ref \<Rightarrow> u32 \<Rightarrow> u32 \<Rightarrow> ('k world, gerr option) go" where
  "Surface_Offset E i x y =
     request E i 10 (8 + 4 + 4)
       [PWord x, PWord y] []"

definition Surface_SetEnterHandler :: "ref \<Rightarrow> hid option \<Rightarrow> ('k world, unit) go" where
  "Surface_SetEnterHandler i f = SetHandler i ''enterHandler'' f"

definition Surface_SetLeaveHandler :: "ref \<Rightarrow> hid option \<Rightarrow> ('k world, unit) go" where
  "Surface_SetLeaveHandler i f = SetHandler i ''leaveHandler'' f"

definition Surface_SetPreferredBufferScaleHandler :: "ref \<Rightarrow> hid option \<Rightarrow> ('k world, unit) go" where
  "Surface_SetPreferredBufferScaleHandler i f = SetHandler i ''preferredBufferScaleHandler'' f"

definition Surface_SetPreferredBufferTransformHandler :: "ref \<Rightarrow> hid option \<Rightarrow> ('k world, unit) go" where
  "Surface_SetPreferredBufferTransformHandler i f = SetHandler i ''preferredBufferTransformHandler'' f"

definition Surface_HasFD :: "u32 \<Rightarrow> bool" where
  "Surface_HasFD opcode = (False)"

definition Surface_Dispatch :: "'k env \<Rightarrow> ref \<Rightarrow> u32 \<Rightarrow> int \<Rightarrow> bytes \<Rightarrow> ('k world, unit) go" where
  "Surface_Dispatch E i opcode fd data =
     (if opcode = 0 then event E i ''enterHandler'' ''SurfaceEnterEvent''
          [(''Output'', r_obj i data Output)]
      else if opcode = 1 then event E i ''leaveHandler'' ''SurfaceLeaveEvent''
          [(''Output'', r_obj i data Output)]
      else if opcode = 2 then event E i ''preferredBufferScaleHandler'' ''SurfacePreferredBufferScaleEvent''
          [(''Factor'', r_int data)]
      else if opcode = 3 then event E i ''preferredBufferTransformHandler'' ''SurfacePreferredBufferTransformEvent''
          [(''Transform'', r_uint data)]
      else unsupported)"

context client_inv
begin

lemma Surface_inv:
  "keeps I (NewSurface)"
  "keeps I (Surface_Destroy E i)"
  "keeps I (Surface_Attach E i r1 u1 u2)"
  "keeps I (Surface_Damage E i u1 u2 u3 u4)"
  "keeps I (Surface_Frame E i)"
  "keeps I (Surface_SetOpaqueRegion E i r1)"
  "keeps I (Surface_SetInputRegion E i r1)"
  "keeps I (Surface_Commit E i)"
  "keeps I (Surface_SetBufferTransform E i u1)"
  "keeps I (Surface_SetBufferScale E i u1)"
  "keeps I (Surface_DamageBuffer E i u1 u2 u3 u4)"
  "keeps I (Surface_Offset E i u1 u2)"
  "keeps I (Surface_SetEnterHandler i f)"
  "keeps I (Surface_SetLeaveHandler i f)"
  "keeps I (Surface_SetPreferredBufferScaleHandler i f)"
  "keeps I (Surface_SetPreferredBufferTransformHandler i f)"
  unfolding NewSurface_def Surface_Destroy_def Surface_Attach_def Surface_Damage_def Surface_Frame_def Surface_SetOpaqueRegion_def Surface_SetInputRegion_def Surface_Commit_def Surface_SetBufferTransform_def Surface_SetBufferScale_def Surface_DamageBuffer_def Surface_Offset_def Surface_SetEnterHandler_def Surface_SetLeaveHandler_def Surface_SetPreferredBufferScaleHandler_def Surface_SetPreferredBufferTransformHandler_def
  by (intro keeps_intro parts_inv)+

end

lemma Surface_Dispatch_owns:
  assumes "handlers_return E" "\<not> Surface_HasFD opcode \<Longrightarrow> fd < 0" "-1 \<le> fd"
  shows "owns fd (Surface_Dispatch E i opcode fd data)"
  unfolding Surface_Dispatch_def
  by (intro owns_intro plain_intro) (use assms in \<open>simp_all add: Surface_HasFD_def\<close>)

lemma Surface_Dispatch_wf: "handlers_wf E \<Longrightarrow> keeps wf_world (Surface_Dispatch E i opcode fd data)"
  unfolding Surface_Dispatch_def by (intro keeps_intro plain_intro)

section \<open>Region\<close>

definition NewRegion :: "('k world, ref) go" where
  "NewRegion = New Region"

definition Region_Destroy :: "'k env \<Rightarrow> ref \<Rightarrow> ('k world, gerr option) go" where
  "Region_Destroy E i =
     with_defer (MarkZombie i) (request E i 0 (8)
       [] [])"

definition Region_Add :: "'k env \<Rightarrow> ref \<Rightarrow> u32 \<Rightarrow> u32 \<Rightarrow> u32 \<Rightarrow> u32 \<Rightarrow> ('k world, gerr option) go" where
  "Region_Add E i x y width height =
     request E i 1 (8 + 4 + 4 + 4 + 4)
       [PWord x, PWord y, PWord width, PWord height] []"

definition Region_Subtract :: "'k env \<Rightarrow> ref \<Rightarrow> u32 \<Rightarrow> u32 \<Rightarrow> u32 \<Rightarrow> u32 \<Rightarrow> ('k world, gerr option) go" where
  "Region_Subtract E i x y width height =
     request E i 2 (8 + 4 + 4 + 4 + 4)
       [PWord x, PWord y, PWord width, PWord height] []"

context client_inv
begin

lemma Region_inv:
  "keeps I (NewRegion)"
  "keeps I (Region_Destroy E i)"
  "keeps I (Region_Add E i u1 u2 u3 u4)"
  "keeps I (Region_Subtract E i u1 u2 u3 u4)"
  unfolding NewRegion_def Region_Destroy_def Region_Add_def Region_Subtract_def
  by (intro keeps_intro parts_inv)+

end

section \<open>Subcompositor\<close>

definition NewSubcompositor :: "('k world, ref) go" where
  "NewSubcompositor = New Subcompositor"

definition Subcompositor_Destroy :: "'k env \<Rightarrow> ref \<Rightarrow> ('k world, gerr option) go" where
  "Subcompositor_Destroy E i =
     with_defer (MarkZombie i) (request E i 0 (8)
       [] [])"

definition Subcompositor_GetSubsurface :: "'k env \<Rightarrow> ref \<Rightarrow> ref option \<Rightarrow> ref option \<Rightarrow> ('k world, ref \<times> gerr option) go" where
  "Subcompositor_GetSubsurface E i surface parent =
     bnd (andthen (Context_of i) (New Subsurface)) (\<lambda>new.
     bnd (request E i 1 (8 + 4 + 4 + 4)
       [PId (Some new), PId surface, PId parent] []) (\<lambda>err. ret (new, err)))"

context client_inv
begin

lemma Subcompositor_inv:
  "keeps I (NewSubcompositor)"
  "keeps I (Subcompositor_Destroy E i)"
  "keeps I (Subcompositor_GetSubsurface E i r1 r2)"
  unfolding NewSubcompositor_def Subcompositor_Destroy_def Subcompositor_GetSubsurface_def
  by (intro keeps_intro parts_inv)+

end

section \<open>Subsurface\<close>

definition NewSubsurface :: "('k world, ref) go" where
  "NewSubsurface = New Subsurface"

definition Subsurface_Destroy :: "'k env \<Rightarrow> ref \<Rightarrow> ('k world, gerr option) go" where
  "Subsurface_Destroy E i =
     with_defer (MarkZombie i) (request E i 0 (8)
       [] [])"

definition Subsurface_SetPosition :: "'k env \<Rightarrow> ref \<Rightarrow> u32 \<Rightarrow> u32 \<Rightarrow> ('k world, gerr option) go" where
  "Subsurface_SetPosition E i x y =
     request E i 1 (8 + 4 + 4)
       [PWord x, PWord y] []"

definition Subsurface_PlaceAbove :: "'k env \<Rightarrow> ref \<Rightarrow> ref option \<Rightarrow> ('k world, gerr option) go" where
  "Subsurface_PlaceAbove E i sibling =
     request E i 2 (8 + 4)
       [PId sibling] []"

definition Subsurface_PlaceBelow :: "'k env \<Rightarrow> ref \<Rightarrow> ref option \<Rightarrow> ('k world, gerr option) go" where
  "Subsurface_PlaceBelow E i sibling =
     request E i 3 (8 + 4)
       [PId sibling] []"

definition Subsurface_SetSync :: "'k env \<Rightarrow> ref \<Rightarrow> ('k world, gerr option) go" where
  "Subsurface_SetSync E i =
     request E i 4 (8)
       [] []"

definition Subsurface_SetDesync :: "'k env \<Rightarrow> ref \<Rightarrow> ('k world, gerr option) go" where
  "Subsurface_SetDesync E i =
     request E i 5 (8)
       [] []"

context client_inv
begin

lemma Subsurface_inv:
  "keeps I (NewSubsurface)"
  "keeps I (Subsurface_Destroy E i)"
  "keeps I (Subsurface_SetPosition E i u1 u2)"
  "keeps I (Subsurface_PlaceAbove E i r1)"
  "keeps I (Subsurface_PlaceBelow E i r1)"
  "keeps I (Subsurface_SetSync E i)"
  "keeps I (Subsurface_SetDesync E i)"
  unfolding NewSubsurface_def Subsurface_Destroy_def Subsurface_SetPosition_def Subsurface_PlaceAbove_def Subsurface_PlaceBelow_def Subsurface_SetSync_def Subsurface_SetDesync_def
  by (intro keeps_intro parts_inv)+

end

section \<open>Output\<close>

definition NewOutput :: "('k world, ref) go" where
  "NewOutput = New Output"

definition Output_Release :: "'k env \<Rightarrow> ref \<Rightarrow> ('k world, gerr option) go" where
  "Output_Release E i =
     with_defer (MarkZombie i) (request E i 0 (8)
       [] [])"

definition Output_SetGeometryHandler :: "ref \<Rightarrow> hid option \<Rightarrow> ('k world, unit) go" where
  "Output_SetGeometryHandler i f = SetHandler i ''geometryHandler'' f"

definition Output_SetModeHandler :: "ref \<Rightarrow> hid option \<Rightarrow> ('k world, unit) go" where
  "Output_SetModeHandler i f = SetHandler i ''modeHandler'' f"

definition Output_SetDoneHandler :: "ref \<Rightarrow> hid option \<Rightarrow> ('k world, unit) go" where
  "Output_SetDoneHandler i f = SetHandler i ''doneHandler'' f"

definition Output_SetScaleHandler :: "ref \<Rightarrow> hid option \<Rightarrow> ('k world, unit) go" where
  "Output_SetScaleHandler i f = SetHandler i ''scaleHandler'' f"

definition Output_SetNameHandler :: "ref \<Rightarrow> hid option \<Rightarrow> ('k world, unit) go" where
  "Output_SetNameHandler i f = SetHandler i ''nameHandler'' f"

definition Output_SetDescriptionHandler :: "ref \<Rightarrow> hid option \<Rightarrow> ('k world, unit) go" where
  "Output_SetDescriptionHandler i f = SetHandler i ''descriptionHandler'' f"

definition Output_HasFD :: "u32 \<Rightarrow> bool" where
  "Output_HasFD opcode = (False)"

definition Output_Dispatch :: "'k env \<Rightarrow> ref \<Rightarrow> u32 \<Rightarrow> int \<Rightarrow> bytes \<Rightarrow> ('k world, unit) go" where
  "Output_Dispatch E i opcode fd data =
     (if opcode = 0 then event E i ''geometryHandler'' ''OutputGeometryEvent''
          [(''X'', r_int data), (''Y'', r_int data), (''PhysicalWidth'', r_int data), (''PhysicalHeight'', r_int data), (''Subpixel'', r_int data), (''Make'', r_string data), (''Model'', r_string data), (''Transform'', r_int data)]
      else if opcode = 1 then event E i ''modeHandler'' ''OutputModeEvent''
          [(''Flags'', r_uint data), (''Width'', r_int data), (''Height'', r_int data), (''Refresh'', r_int data)]
      else if opcode = 2 then event E i ''doneHandler'' ''OutputDoneEvent''
          []
      else if opcode = 3 then event E i ''scaleHandler'' ''OutputScaleEvent''
          [(''Factor'', r_int data)]
      else if opcode = 4 then event E i ''nameHandler'' ''OutputNameEvent''
          [(''Name'', r_string data)]
      else if opcode = 5 then event E i ''descriptionHandler'' ''OutputDescriptionEvent''
          [(''Description'', r_string data)]
      else unsupported)"

context client_inv
begin

lemma Output_inv:
  "keeps I (NewOutput)"
  "keeps I (Output_Release E i)"
  "keeps I (Output_SetGeometryHandler i f)"
  "keeps I (Output_SetModeHandler i f)"
  "keeps I (Output_SetDoneHandler i f)"
  "keeps I (Output_SetScaleHandler i f)"
  "keeps I (Output_SetNameHandler i f)"
  "keeps I (Output_SetDescriptionHandler i f)"
  unfolding NewOutput_def Output_Release_def Output_SetGeometryHandler_def Output_SetModeHandler_def Output_SetDoneHandler_def Output_SetScaleHandler_def Output_SetNameHandler_def Output_SetDescriptionHandler_def
  by (intro keeps_intro parts_inv)+

end

lemma Output_Dispatch_owns:
  assumes "handlers_return E" "\<not> Output_HasFD opcode \<Longrightarrow> fd < 0" "-1 \<le> fd"
  shows "owns fd (Output_Dispatch E i opcode fd data)"
  unfolding Output_Dispatch_def
  by (intro owns_intro plain_intro) (use assms in \<open>simp_all add: Output_HasFD_def\<close>)

lemma Output_Dispatch_wf: "handlers_wf E \<Longrightarrow> keeps wf_world (Output_Dispatch E i opcode fd data)"
  unfolding Output_Dispatch_def by (intro keeps_intro plain_intro)

section \<open>Fixes\<close>

definition NewFixes :: "('k world, ref) go" where
  "NewFixes = New Fixes"

definition Fixes_Destroy :: "'k env \<Rightarrow> ref \<Rightarrow> ('k world, gerr option) go" where
  "Fixes_Destroy E i =
     with_defer (MarkZombie i) (request E i 0 (8)
       [] [])"

definition Fixes_DestroyRegistry :: "'k env \<Rightarrow> ref \<Rightarrow> ref option \<Rightarrow> ('k world, gerr option) go" where
  "Fixes_DestroyRegistry E i registry =
     bnd (nonnil registry) (\<lambda>r. with_defer (MarkZombie r) (
     request E i 1 (8 + 4)
       [PId registry] []))"

context client_inv
begin

lemma Fixes_inv:
  "keeps I (NewFixes)"
  "keeps I (Fixes_Destroy E i)"
  "keeps I (Fixes_DestroyRegistry E i r1)"
  unfolding NewFixes_def Fixes_Destroy_def Fixes_DestroyRegistry_def
  by (intro keeps_intro parts_inv)+

end

section \<open>Calls of the application\<close>

text \<open>The constructors, setters and requests of this file as operations on a world.\<close>

inductive surface_op :: "'k env \<Rightarrow> ('k world, unit) go \<Rightarrow> bool" for E where
  "surface_op E (discard (NewSurface))"
| "surface_op E (discard (Surface_Destroy E i))"
| "surface_op E (discard (Surface_Attach E i r1 u1 u2))"
| "surface_op E (discard (Surface_Damage E i u1 u2 u3 u4))"
| "surface_op E (discard (Surface_Frame E i))"
| "surface_op E (discard (Surface_SetOpaqueRegion E i r1))"
| "surface_op E (discard (Surface_SetInputRegion E i r1))"
| "surface_op E (discard (Surface_Commit E i))"
| "surface_op E (discard (Surface_SetBufferTransform E i u1))"
| "surface_op E (discard (Surface_SetBufferScale E i u1))"
| "surface_op E (discard (Surface_DamageBuffer E i u1 u2 u3 u4))"
| "surface_op E (discard (Surface_Offset E i u1 u2))"
| "surface_op E (discard (Surface_SetEnterHandler i f))"
| "surface_op E (discard (Surface_SetLeaveHandler i f))"
| "surface_op E (discard (Surface_SetPreferredBufferScaleHandler i f))"
| "surface_op E (discard (Surface_SetPreferredBufferTransformHandler i f))"
| "surface_op E (discard (NewRegion))"
| "surface_op E (discard (Region_Destroy E i))"
| "surface_op E (discard (Region_Add E i u1 u2 u3 u4))"
| "surface_op E (discard (Region_Subtract E i u1 u2 u3 u4))"
| "surface_op E (discard (NewSubcompositor))"
| "surface_op E (discard (Subcompositor_Destroy E i))"
| "surface_op E (discard (Subcompositor_GetSubsurface E i r1 r2))"
| "surface_op E (discard (NewSubsurface))"
| "surface_op E (discard (Subsurface_Destroy E i))"
| "surface_op E (discard (Subsurface_SetPosition E i u1 u2))"
| "surface_op E (discard (Subsurface_PlaceAbove E i r1))"
| "surface_op E (discard (Subsurface_PlaceBelow E i r1))"
| "surface_op E (discard (Subsurface_SetSync E i))"
| "surface_op E (discard (Subsurface_SetDesync E i))"
| "surface_op E (discard (NewOutput))"
| "surface_op E (discard (Output_Release E i))"
| "surface_op E (discard (Output_SetGeometryHandler i f))"
| "surface_op E (discard (Output_SetModeHandler i f))"
| "surface_op E (discard (Output_SetDoneHandler i f))"
| "surface_op E (discard (Output_SetScaleHandler i f))"
| "surface_op E (discard (Output_SetNameHandler i f))"
| "surface_op E (discard (Output_SetDescriptionHandler i f))"
| "surface_op E (discard (NewFixes))"
| "surface_op E (discard (Fixes_Destroy E i))"
| "surface_op E (discard (Fixes_DestroyRegistry E i r1))"

context client_inv
begin

lemma surface_op_inv: "surface_op E m \<Longrightarrow> keeps I m"
  by (erule surface_op.cases) (auto intro!: keeps_discard intro: Surface_inv Region_inv Subcompositor_inv Subsurface_inv Output_inv Fixes_inv)

end

end
