(* ===== verification/Bind_Input.thy ===== *)
theory Bind_Input
  imports Client_Inv
begin

text \<open>
  Seats and their devices of client/client.go. The keymap of a keyboard is a descriptor.
  Each method is named \<open>Type_Method\<close>; an object argument is \<open>None\<close> for nil, an \<open>int32\<close> argument is the word
  its conversion to \<open>uint32\<close> gives.
\<close>

section \<open>Seat\<close>

definition NewSeat :: "('k world, ref) go" where
  "NewSeat = New Seat"

definition Seat_GetPointer :: "'k env \<Rightarrow> ref \<Rightarrow> ('k world, ref \<times> gerr option) go" where
  "Seat_GetPointer E i =
     bnd (andthen (Context_of i) (New Pointer)) (\<lambda>new.
     bnd (request E i 0 (8 + 4)
       [PId (Some new)] []) (\<lambda>err. ret (new, err)))"

definition Seat_GetKeyboard :: "'k env \<Rightarrow> ref \<Rightarrow> ('k world, ref \<times> gerr option) go" where
  "Seat_GetKeyboard E i =
     bnd (andthen (Context_of i) (New Keyboard)) (\<lambda>new.
     bnd (request E i 1 (8 + 4)
       [PId (Some new)] []) (\<lambda>err. ret (new, err)))"

definition Seat_GetTouch :: "'k env \<Rightarrow> ref \<Rightarrow> ('k world, ref \<times> gerr option) go" where
  "Seat_GetTouch E i =
     bnd (andthen (Context_of i) (New Touch)) (\<lambda>new.
     bnd (request E i 2 (8 + 4)
       [PId (Some new)] []) (\<lambda>err. ret (new, err)))"

definition Seat_Release :: "'k env \<Rightarrow> ref \<Rightarrow> ('k world, gerr option) go" where
  "Seat_Release E i =
     with_defer (MarkZombie i) (request E i 3 (8)
       [] [])"

definition Seat_SetCapabilitiesHandler :: "ref \<Rightarrow> hid option \<Rightarrow> ('k world, unit) go" where
  "Seat_SetCapabilitiesHandler i f = SetHandler i ''capabilitiesHandler'' f"

definition Seat_SetNameHandler :: "ref \<Rightarrow> hid option \<Rightarrow> ('k world, unit) go" where
  "Seat_SetNameHandler i f = SetHandler i ''nameHandler'' f"

definition Seat_HasFD :: "u32 \<Rightarrow> bool" where
  "Seat_HasFD opcode = (False)"

definition Seat_Dispatch :: "'k env \<Rightarrow> ref \<Rightarrow> u32 \<Rightarrow> int \<Rightarrow> bytes \<Rightarrow> ('k world, unit) go" where
  "Seat_Dispatch E i opcode fd data =
     (if opcode = 0 then event E i ''capabilitiesHandler'' ''SeatCapabilitiesEvent''
          [(''Capabilities'', r_uint data)]
      else if opcode = 1 then event E i ''nameHandler'' ''SeatNameEvent''
          [(''Name'', r_string data)]
      else unsupported)"

context client_inv
begin

lemma Seat_inv:
  "keeps I (NewSeat)"
  "keeps I (Seat_GetPointer E i)"
  "keeps I (Seat_GetKeyboard E i)"
  "keeps I (Seat_GetTouch E i)"
  "keeps I (Seat_Release E i)"
  "keeps I (Seat_SetCapabilitiesHandler i f)"
  "keeps I (Seat_SetNameHandler i f)"
  unfolding NewSeat_def Seat_GetPointer_def Seat_GetKeyboard_def Seat_GetTouch_def Seat_Release_def Seat_SetCapabilitiesHandler_def Seat_SetNameHandler_def
  by (intro keeps_intro parts_inv)+

end

lemma Seat_Dispatch_owns:
  assumes "handlers_return E" "\<not> Seat_HasFD opcode \<Longrightarrow> fd < 0" "-1 \<le> fd"
  shows "owns fd (Seat_Dispatch E i opcode fd data)"
  unfolding Seat_Dispatch_def
  by (intro owns_intro plain_intro) (use assms in \<open>simp_all add: Seat_HasFD_def\<close>)

lemma Seat_Dispatch_wf: "handlers_wf E \<Longrightarrow> keeps wf_world (Seat_Dispatch E i opcode fd data)"
  unfolding Seat_Dispatch_def by (intro keeps_intro plain_intro)

section \<open>Pointer\<close>

definition NewPointer :: "('k world, ref) go" where
  "NewPointer = New Pointer"

definition Pointer_SetCursor :: "'k env \<Rightarrow> ref \<Rightarrow> u32 \<Rightarrow> ref option \<Rightarrow> u32 \<Rightarrow> u32 \<Rightarrow> ('k world, gerr option) go" where
  "Pointer_SetCursor E i serial surface hotspotX hotspotY =
     request E i 0 (8 + 4 + 4 + 4 + 4)
       [PWord serial, PNullId surface, PWord hotspotX, PWord hotspotY] []"

definition Pointer_Release :: "'k env \<Rightarrow> ref \<Rightarrow> ('k world, gerr option) go" where
  "Pointer_Release E i =
     with_defer (MarkZombie i) (request E i 1 (8)
       [] [])"

definition Pointer_SetEnterHandler :: "ref \<Rightarrow> hid option \<Rightarrow> ('k world, unit) go" where
  "Pointer_SetEnterHandler i f = SetHandler i ''enterHandler'' f"

definition Pointer_SetLeaveHandler :: "ref \<Rightarrow> hid option \<Rightarrow> ('k world, unit) go" where
  "Pointer_SetLeaveHandler i f = SetHandler i ''leaveHandler'' f"

definition Pointer_SetMotionHandler :: "ref \<Rightarrow> hid option \<Rightarrow> ('k world, unit) go" where
  "Pointer_SetMotionHandler i f = SetHandler i ''motionHandler'' f"

definition Pointer_SetButtonHandler :: "ref \<Rightarrow> hid option \<Rightarrow> ('k world, unit) go" where
  "Pointer_SetButtonHandler i f = SetHandler i ''buttonHandler'' f"

definition Pointer_SetAxisHandler :: "ref \<Rightarrow> hid option \<Rightarrow> ('k world, unit) go" where
  "Pointer_SetAxisHandler i f = SetHandler i ''axisHandler'' f"

definition Pointer_SetFrameHandler :: "ref \<Rightarrow> hid option \<Rightarrow> ('k world, unit) go" where
  "Pointer_SetFrameHandler i f = SetHandler i ''frameHandler'' f"

definition Pointer_SetAxisSourceHandler :: "ref \<Rightarrow> hid option \<Rightarrow> ('k world, unit) go" where
  "Pointer_SetAxisSourceHandler i f = SetHandler i ''axisSourceHandler'' f"

definition Pointer_SetAxisStopHandler :: "ref \<Rightarrow> hid option \<Rightarrow> ('k world, unit) go" where
  "Pointer_SetAxisStopHandler i f = SetHandler i ''axisStopHandler'' f"

definition Pointer_SetAxisDiscreteHandler :: "ref \<Rightarrow> hid option \<Rightarrow> ('k world, unit) go" where
  "Pointer_SetAxisDiscreteHandler i f = SetHandler i ''axisDiscreteHandler'' f"

definition Pointer_SetAxisValue120Handler :: "ref \<Rightarrow> hid option \<Rightarrow> ('k world, unit) go" where
  "Pointer_SetAxisValue120Handler i f = SetHandler i ''axisValue120Handler'' f"

definition Pointer_SetAxisRelativeDirectionHandler :: "ref \<Rightarrow> hid option \<Rightarrow> ('k world, unit) go" where
  "Pointer_SetAxisRelativeDirectionHandler i f = SetHandler i ''axisRelativeDirectionHandler'' f"

definition Pointer_HasFD :: "u32 \<Rightarrow> bool" where
  "Pointer_HasFD opcode = (False)"

definition Pointer_Dispatch :: "'k env \<Rightarrow> ref \<Rightarrow> u32 \<Rightarrow> int \<Rightarrow> bytes \<Rightarrow> ('k world, unit) go" where
  "Pointer_Dispatch E i opcode fd data =
     (if opcode = 0 then event E i ''enterHandler'' ''PointerEnterEvent''
          [(''Serial'', r_uint data), (''Surface'', r_obj i data Surface), (''SurfaceX'', r_fixed data), (''SurfaceY'', r_fixed data)]
      else if opcode = 1 then event E i ''leaveHandler'' ''PointerLeaveEvent''
          [(''Serial'', r_uint data), (''Surface'', r_obj i data Surface)]
      else if opcode = 2 then event E i ''motionHandler'' ''PointerMotionEvent''
          [(''Time'', r_uint data), (''SurfaceX'', r_fixed data), (''SurfaceY'', r_fixed data)]
      else if opcode = 3 then event E i ''buttonHandler'' ''PointerButtonEvent''
          [(''Serial'', r_uint data), (''Time'', r_uint data), (''Button'', r_uint data), (''State'', r_uint data)]
      else if opcode = 4 then event E i ''axisHandler'' ''PointerAxisEvent''
          [(''Time'', r_uint data), (''Axis'', r_uint data), (''Value'', r_fixed data)]
      else if opcode = 5 then event E i ''frameHandler'' ''PointerFrameEvent''
          []
      else if opcode = 6 then event E i ''axisSourceHandler'' ''PointerAxisSourceEvent''
          [(''AxisSource'', r_uint data)]
      else if opcode = 7 then event E i ''axisStopHandler'' ''PointerAxisStopEvent''
          [(''Time'', r_uint data), (''Axis'', r_uint data)]
      else if opcode = 8 then event E i ''axisDiscreteHandler'' ''PointerAxisDiscreteEvent''
          [(''Axis'', r_uint data), (''Discrete'', r_int data)]
      else if opcode = 9 then event E i ''axisValue120Handler'' ''PointerAxisValue120Event''
          [(''Axis'', r_uint data), (''Value120'', r_int data)]
      else if opcode = 10 then event E i ''axisRelativeDirectionHandler'' ''PointerAxisRelativeDirectionEvent''
          [(''Axis'', r_uint data), (''Direction'', r_uint data)]
      else unsupported)"

context client_inv
begin

lemma Pointer_inv:
  "keeps I (NewPointer)"
  "keeps I (Pointer_SetCursor E i u1 r1 u2 u3)"
  "keeps I (Pointer_Release E i)"
  "keeps I (Pointer_SetEnterHandler i f)"
  "keeps I (Pointer_SetLeaveHandler i f)"
  "keeps I (Pointer_SetMotionHandler i f)"
  "keeps I (Pointer_SetButtonHandler i f)"
  "keeps I (Pointer_SetAxisHandler i f)"
  "keeps I (Pointer_SetFrameHandler i f)"
  "keeps I (Pointer_SetAxisSourceHandler i f)"
  "keeps I (Pointer_SetAxisStopHandler i f)"
  "keeps I (Pointer_SetAxisDiscreteHandler i f)"
  "keeps I (Pointer_SetAxisValue120Handler i f)"
  "keeps I (Pointer_SetAxisRelativeDirectionHandler i f)"
  unfolding NewPointer_def Pointer_SetCursor_def Pointer_Release_def Pointer_SetEnterHandler_def Pointer_SetLeaveHandler_def Pointer_SetMotionHandler_def Pointer_SetButtonHandler_def Pointer_SetAxisHandler_def Pointer_SetFrameHandler_def Pointer_SetAxisSourceHandler_def Pointer_SetAxisStopHandler_def Pointer_SetAxisDiscreteHandler_def Pointer_SetAxisValue120Handler_def Pointer_SetAxisRelativeDirectionHandler_def
  by (intro keeps_intro parts_inv)+

end

lemma Pointer_Dispatch_owns:
  assumes "handlers_return E" "\<not> Pointer_HasFD opcode \<Longrightarrow> fd < 0" "-1 \<le> fd"
  shows "owns fd (Pointer_Dispatch E i opcode fd data)"
  unfolding Pointer_Dispatch_def
  by (intro owns_intro plain_intro) (use assms in \<open>simp_all add: Pointer_HasFD_def\<close>)

lemma Pointer_Dispatch_wf: "handlers_wf E \<Longrightarrow> keeps wf_world (Pointer_Dispatch E i opcode fd data)"
  unfolding Pointer_Dispatch_def by (intro keeps_intro plain_intro)

section \<open>Keyboard\<close>

definition NewKeyboard :: "('k world, ref) go" where
  "NewKeyboard = New Keyboard"

definition Keyboard_Release :: "'k env \<Rightarrow> ref \<Rightarrow> ('k world, gerr option) go" where
  "Keyboard_Release E i =
     with_defer (MarkZombie i) (request E i 0 (8)
       [] [])"

definition Keyboard_SetKeymapHandler :: "ref \<Rightarrow> hid option \<Rightarrow> ('k world, unit) go" where
  "Keyboard_SetKeymapHandler i f = SetHandler i ''keymapHandler'' f"

definition Keyboard_SetEnterHandler :: "ref \<Rightarrow> hid option \<Rightarrow> ('k world, unit) go" where
  "Keyboard_SetEnterHandler i f = SetHandler i ''enterHandler'' f"

definition Keyboard_SetLeaveHandler :: "ref \<Rightarrow> hid option \<Rightarrow> ('k world, unit) go" where
  "Keyboard_SetLeaveHandler i f = SetHandler i ''leaveHandler'' f"

definition Keyboard_SetKeyHandler :: "ref \<Rightarrow> hid option \<Rightarrow> ('k world, unit) go" where
  "Keyboard_SetKeyHandler i f = SetHandler i ''keyHandler'' f"

definition Keyboard_SetModifiersHandler :: "ref \<Rightarrow> hid option \<Rightarrow> ('k world, unit) go" where
  "Keyboard_SetModifiersHandler i f = SetHandler i ''modifiersHandler'' f"

definition Keyboard_SetRepeatInfoHandler :: "ref \<Rightarrow> hid option \<Rightarrow> ('k world, unit) go" where
  "Keyboard_SetRepeatInfoHandler i f = SetHandler i ''repeatInfoHandler'' f"

definition Keyboard_HasFD :: "u32 \<Rightarrow> bool" where
  "Keyboard_HasFD opcode = (if opcode = 0 then True else False)"

definition Keyboard_Dispatch :: "'k env \<Rightarrow> ref \<Rightarrow> u32 \<Rightarrow> int \<Rightarrow> bytes \<Rightarrow> ('k world, unit) go" where
  "Keyboard_Dispatch E i opcode fd data =
     (if opcode = 0 then fd_event E i fd ''keymapHandler'' ''KeyboardKeymapEvent''
          [(''Format'', r_uint data), (''Fd'', r_fd fd), (''Size'', r_uint data)]
      else if opcode = 1 then event E i ''enterHandler'' ''KeyboardEnterEvent''
          [(''Serial'', r_uint data), (''Surface'', r_obj i data Surface), (''Keys'', r_array data)]
      else if opcode = 2 then event E i ''leaveHandler'' ''KeyboardLeaveEvent''
          [(''Serial'', r_uint data), (''Surface'', r_obj i data Surface)]
      else if opcode = 3 then event E i ''keyHandler'' ''KeyboardKeyEvent''
          [(''Serial'', r_uint data), (''Time'', r_uint data), (''Key'', r_uint data), (''State'', r_uint data)]
      else if opcode = 4 then event E i ''modifiersHandler'' ''KeyboardModifiersEvent''
          [(''Serial'', r_uint data), (''ModsDepressed'', r_uint data), (''ModsLatched'', r_uint data), (''ModsLocked'', r_uint data), (''Group'', r_uint data)]
      else if opcode = 5 then event E i ''repeatInfoHandler'' ''KeyboardRepeatInfoEvent''
          [(''Rate'', r_int data), (''Delay'', r_int data)]
      else unsupported)"

context client_inv
begin

lemma Keyboard_inv:
  "keeps I (NewKeyboard)"
  "keeps I (Keyboard_Release E i)"
  "keeps I (Keyboard_SetKeymapHandler i f)"
  "keeps I (Keyboard_SetEnterHandler i f)"
  "keeps I (Keyboard_SetLeaveHandler i f)"
  "keeps I (Keyboard_SetKeyHandler i f)"
  "keeps I (Keyboard_SetModifiersHandler i f)"
  "keeps I (Keyboard_SetRepeatInfoHandler i f)"
  unfolding NewKeyboard_def Keyboard_Release_def Keyboard_SetKeymapHandler_def Keyboard_SetEnterHandler_def Keyboard_SetLeaveHandler_def Keyboard_SetKeyHandler_def Keyboard_SetModifiersHandler_def Keyboard_SetRepeatInfoHandler_def
  by (intro keeps_intro parts_inv)+

end

lemma Keyboard_Dispatch_owns:
  assumes "handlers_return E" "\<not> Keyboard_HasFD opcode \<Longrightarrow> fd < 0" "-1 \<le> fd"
  shows "owns fd (Keyboard_Dispatch E i opcode fd data)"
  unfolding Keyboard_Dispatch_def
  by (intro owns_intro plain_intro) (use assms in \<open>simp_all add: Keyboard_HasFD_def\<close>)

lemma Keyboard_Dispatch_wf: "handlers_wf E \<Longrightarrow> keeps wf_world (Keyboard_Dispatch E i opcode fd data)"
  unfolding Keyboard_Dispatch_def by (intro keeps_intro plain_intro)

section \<open>Touch\<close>

definition NewTouch :: "('k world, ref) go" where
  "NewTouch = New Touch"

definition Touch_Release :: "'k env \<Rightarrow> ref \<Rightarrow> ('k world, gerr option) go" where
  "Touch_Release E i =
     with_defer (MarkZombie i) (request E i 0 (8)
       [] [])"

definition Touch_SetDownHandler :: "ref \<Rightarrow> hid option \<Rightarrow> ('k world, unit) go" where
  "Touch_SetDownHandler i f = SetHandler i ''downHandler'' f"

definition Touch_SetUpHandler :: "ref \<Rightarrow> hid option \<Rightarrow> ('k world, unit) go" where
  "Touch_SetUpHandler i f = SetHandler i ''upHandler'' f"

definition Touch_SetMotionHandler :: "ref \<Rightarrow> hid option \<Rightarrow> ('k world, unit) go" where
  "Touch_SetMotionHandler i f = SetHandler i ''motionHandler'' f"

definition Touch_SetFrameHandler :: "ref \<Rightarrow> hid option \<Rightarrow> ('k world, unit) go" where
  "Touch_SetFrameHandler i f = SetHandler i ''frameHandler'' f"

definition Touch_SetCancelHandler :: "ref \<Rightarrow> hid option \<Rightarrow> ('k world, unit) go" where
  "Touch_SetCancelHandler i f = SetHandler i ''cancelHandler'' f"

definition Touch_SetShapeHandler :: "ref \<Rightarrow> hid option \<Rightarrow> ('k world, unit) go" where
  "Touch_SetShapeHandler i f = SetHandler i ''shapeHandler'' f"

definition Touch_SetOrientationHandler :: "ref \<Rightarrow> hid option \<Rightarrow> ('k world, unit) go" where
  "Touch_SetOrientationHandler i f = SetHandler i ''orientationHandler'' f"

definition Touch_HasFD :: "u32 \<Rightarrow> bool" where
  "Touch_HasFD opcode = (False)"

definition Touch_Dispatch :: "'k env \<Rightarrow> ref \<Rightarrow> u32 \<Rightarrow> int \<Rightarrow> bytes \<Rightarrow> ('k world, unit) go" where
  "Touch_Dispatch E i opcode fd data =
     (if opcode = 0 then event E i ''downHandler'' ''TouchDownEvent''
          [(''Serial'', r_uint data), (''Time'', r_uint data), (''Surface'', r_obj i data Surface), (''Id'', r_int data), (''X'', r_fixed data), (''Y'', r_fixed data)]
      else if opcode = 1 then event E i ''upHandler'' ''TouchUpEvent''
          [(''Serial'', r_uint data), (''Time'', r_uint data), (''Id'', r_int data)]
      else if opcode = 2 then event E i ''motionHandler'' ''TouchMotionEvent''
          [(''Time'', r_uint data), (''Id'', r_int data), (''X'', r_fixed data), (''Y'', r_fixed data)]
      else if opcode = 3 then event E i ''frameHandler'' ''TouchFrameEvent''
          []
      else if opcode = 4 then event E i ''cancelHandler'' ''TouchCancelEvent''
          []
      else if opcode = 5 then event E i ''shapeHandler'' ''TouchShapeEvent''
          [(''Id'', r_int data), (''Major'', r_fixed data), (''Minor'', r_fixed data)]
      else if opcode = 6 then event E i ''orientationHandler'' ''TouchOrientationEvent''
          [(''Id'', r_int data), (''Orientation'', r_fixed data)]
      else unsupported)"

context client_inv
begin

lemma Touch_inv:
  "keeps I (NewTouch)"
  "keeps I (Touch_Release E i)"
  "keeps I (Touch_SetDownHandler i f)"
  "keeps I (Touch_SetUpHandler i f)"
  "keeps I (Touch_SetMotionHandler i f)"
  "keeps I (Touch_SetFrameHandler i f)"
  "keeps I (Touch_SetCancelHandler i f)"
  "keeps I (Touch_SetShapeHandler i f)"
  "keeps I (Touch_SetOrientationHandler i f)"
  unfolding NewTouch_def Touch_Release_def Touch_SetDownHandler_def Touch_SetUpHandler_def Touch_SetMotionHandler_def Touch_SetFrameHandler_def Touch_SetCancelHandler_def Touch_SetShapeHandler_def Touch_SetOrientationHandler_def
  by (intro keeps_intro parts_inv)+

end

lemma Touch_Dispatch_owns:
  assumes "handlers_return E" "\<not> Touch_HasFD opcode \<Longrightarrow> fd < 0" "-1 \<le> fd"
  shows "owns fd (Touch_Dispatch E i opcode fd data)"
  unfolding Touch_Dispatch_def
  by (intro owns_intro plain_intro) (use assms in \<open>simp_all add: Touch_HasFD_def\<close>)

lemma Touch_Dispatch_wf: "handlers_wf E \<Longrightarrow> keeps wf_world (Touch_Dispatch E i opcode fd data)"
  unfolding Touch_Dispatch_def by (intro keeps_intro plain_intro)

section \<open>Calls of the application\<close>

text \<open>The constructors, setters and requests of this file as operations on a world.\<close>

inductive input_op :: "'k env \<Rightarrow> ('k world, unit) go \<Rightarrow> bool" for E where
  "input_op E (discard (NewSeat))"
| "input_op E (discard (Seat_GetPointer E i))"
| "input_op E (discard (Seat_GetKeyboard E i))"
| "input_op E (discard (Seat_GetTouch E i))"
| "input_op E (discard (Seat_Release E i))"
| "input_op E (discard (Seat_SetCapabilitiesHandler i f))"
| "input_op E (discard (Seat_SetNameHandler i f))"
| "input_op E (discard (NewPointer))"
| "input_op E (discard (Pointer_SetCursor E i u1 r1 u2 u3))"
| "input_op E (discard (Pointer_Release E i))"
| "input_op E (discard (Pointer_SetEnterHandler i f))"
| "input_op E (discard (Pointer_SetLeaveHandler i f))"
| "input_op E (discard (Pointer_SetMotionHandler i f))"
| "input_op E (discard (Pointer_SetButtonHandler i f))"
| "input_op E (discard (Pointer_SetAxisHandler i f))"
| "input_op E (discard (Pointer_SetFrameHandler i f))"
| "input_op E (discard (Pointer_SetAxisSourceHandler i f))"
| "input_op E (discard (Pointer_SetAxisStopHandler i f))"
| "input_op E (discard (Pointer_SetAxisDiscreteHandler i f))"
| "input_op E (discard (Pointer_SetAxisValue120Handler i f))"
| "input_op E (discard (Pointer_SetAxisRelativeDirectionHandler i f))"
| "input_op E (discard (NewKeyboard))"
| "input_op E (discard (Keyboard_Release E i))"
| "input_op E (discard (Keyboard_SetKeymapHandler i f))"
| "input_op E (discard (Keyboard_SetEnterHandler i f))"
| "input_op E (discard (Keyboard_SetLeaveHandler i f))"
| "input_op E (discard (Keyboard_SetKeyHandler i f))"
| "input_op E (discard (Keyboard_SetModifiersHandler i f))"
| "input_op E (discard (Keyboard_SetRepeatInfoHandler i f))"
| "input_op E (discard (NewTouch))"
| "input_op E (discard (Touch_Release E i))"
| "input_op E (discard (Touch_SetDownHandler i f))"
| "input_op E (discard (Touch_SetUpHandler i f))"
| "input_op E (discard (Touch_SetMotionHandler i f))"
| "input_op E (discard (Touch_SetFrameHandler i f))"
| "input_op E (discard (Touch_SetCancelHandler i f))"
| "input_op E (discard (Touch_SetShapeHandler i f))"
| "input_op E (discard (Touch_SetOrientationHandler i f))"

context client_inv
begin

lemma input_op_inv: "input_op E m \<Longrightarrow> keeps I m"
  by (erule input_op.cases) (auto intro!: keeps_discard intro: Seat_inv Pointer_inv Keyboard_inv Touch_inv)

end

end
