(* ===== verification/Bind_Ext.thy ===== *)
theory Bind_Ext
  imports Client_Inv
begin

text \<open>
  The extension packages: idle/ext_idle_notify.go, sessionlock/ext_session_lock_v1.go,
  cursorshape/cursor_shape.go and textinput/text_input.go.
  Each method is named \<open>Type_Method\<close>; an object argument is \<open>None\<close> for nil, an \<open>int32\<close> argument is the word
  its conversion to \<open>uint32\<close> gives.
\<close>

section \<open>ExtIdleNotifierV1\<close>

definition NewExtIdleNotifierV1 :: "('k world, ref) go" where
  "NewExtIdleNotifierV1 = New ExtIdleNotifierV1"

definition ExtIdleNotifierV1_Destroy :: "'k env \<Rightarrow> ref \<Rightarrow> ('k world, gerr option) go" where
  "ExtIdleNotifierV1_Destroy E i =
     with_defer (MarkZombie i) (request E i 0 (8)
       [] [])"

definition ExtIdleNotifierV1_GetIdleNotification :: "'k env \<Rightarrow> ref \<Rightarrow> u32 \<Rightarrow> ref option \<Rightarrow> ('k world, ref \<times> gerr option) go" where
  "ExtIdleNotifierV1_GetIdleNotification E i timeout seat =
     bnd (andthen (Context_of i) (New ExtIdleNotificationV1)) (\<lambda>new.
     bnd (request E i 1 (8 + 4 + 4 + 4)
       [PId (Some new), PWord timeout, PId seat] []) (\<lambda>err. ret (new, err)))"

definition ExtIdleNotifierV1_GetInputIdleNotification :: "'k env \<Rightarrow> ref \<Rightarrow> u32 \<Rightarrow> ref option \<Rightarrow> ('k world, ref \<times> gerr option) go" where
  "ExtIdleNotifierV1_GetInputIdleNotification E i timeout seat =
     bnd (andthen (Context_of i) (New ExtIdleNotificationV1)) (\<lambda>new.
     bnd (request E i 2 (8 + 4 + 4 + 4)
       [PId (Some new), PWord timeout, PId seat] []) (\<lambda>err. ret (new, err)))"

context client_inv
begin

lemma ExtIdleNotifierV1_inv:
  "keeps I (NewExtIdleNotifierV1)"
  "keeps I (ExtIdleNotifierV1_Destroy E i)"
  "keeps I (ExtIdleNotifierV1_GetIdleNotification E i u1 r1)"
  "keeps I (ExtIdleNotifierV1_GetInputIdleNotification E i u1 r1)"
  unfolding NewExtIdleNotifierV1_def ExtIdleNotifierV1_Destroy_def ExtIdleNotifierV1_GetIdleNotification_def ExtIdleNotifierV1_GetInputIdleNotification_def
  by (intro keeps_intro parts_inv)+

end

section \<open>ExtIdleNotificationV1\<close>

definition NewExtIdleNotificationV1 :: "('k world, ref) go" where
  "NewExtIdleNotificationV1 = New ExtIdleNotificationV1"

definition ExtIdleNotificationV1_Destroy :: "'k env \<Rightarrow> ref \<Rightarrow> ('k world, gerr option) go" where
  "ExtIdleNotificationV1_Destroy E i =
     with_defer (MarkZombie i) (request E i 0 (8)
       [] [])"

definition ExtIdleNotificationV1_SetIdledHandler :: "ref \<Rightarrow> hid option \<Rightarrow> ('k world, unit) go" where
  "ExtIdleNotificationV1_SetIdledHandler i f = SetHandler i ''idledHandler'' f"

definition ExtIdleNotificationV1_SetResumedHandler :: "ref \<Rightarrow> hid option \<Rightarrow> ('k world, unit) go" where
  "ExtIdleNotificationV1_SetResumedHandler i f = SetHandler i ''resumedHandler'' f"

definition ExtIdleNotificationV1_HasFD :: "u32 \<Rightarrow> bool" where
  "ExtIdleNotificationV1_HasFD opcode = (False)"

definition ExtIdleNotificationV1_Dispatch :: "'k env \<Rightarrow> ref \<Rightarrow> u32 \<Rightarrow> int \<Rightarrow> bytes \<Rightarrow> ('k world, unit) go" where
  "ExtIdleNotificationV1_Dispatch E i opcode fd data =
     (if opcode = 0 then event E i ''idledHandler'' ''ExtIdleNotificationV1IdledEvent''
          []
      else if opcode = 1 then event E i ''resumedHandler'' ''ExtIdleNotificationV1ResumedEvent''
          []
      else unsupported)"

context client_inv
begin

lemma ExtIdleNotificationV1_inv:
  "keeps I (NewExtIdleNotificationV1)"
  "keeps I (ExtIdleNotificationV1_Destroy E i)"
  "keeps I (ExtIdleNotificationV1_SetIdledHandler i f)"
  "keeps I (ExtIdleNotificationV1_SetResumedHandler i f)"
  unfolding NewExtIdleNotificationV1_def ExtIdleNotificationV1_Destroy_def ExtIdleNotificationV1_SetIdledHandler_def ExtIdleNotificationV1_SetResumedHandler_def
  by (intro keeps_intro parts_inv)+

end

lemma ExtIdleNotificationV1_Dispatch_owns:
  assumes "handlers_return E" "\<not> ExtIdleNotificationV1_HasFD opcode \<Longrightarrow> fd < 0" "-1 \<le> fd"
  shows "owns fd (ExtIdleNotificationV1_Dispatch E i opcode fd data)"
  unfolding ExtIdleNotificationV1_Dispatch_def
  by (intro owns_intro plain_intro) (use assms in \<open>simp_all add: ExtIdleNotificationV1_HasFD_def\<close>)

lemma ExtIdleNotificationV1_Dispatch_wf: "handlers_wf E \<Longrightarrow> keeps wf_world (ExtIdleNotificationV1_Dispatch E i opcode fd data)"
  unfolding ExtIdleNotificationV1_Dispatch_def by (intro keeps_intro plain_intro)

section \<open>ExtSessionLockManagerV1\<close>

definition NewExtSessionLockManagerV1 :: "('k world, ref) go" where
  "NewExtSessionLockManagerV1 = New ExtSessionLockManagerV1"

definition ExtSessionLockManagerV1_Destroy :: "'k env \<Rightarrow> ref \<Rightarrow> ('k world, gerr option) go" where
  "ExtSessionLockManagerV1_Destroy E i =
     with_defer (MarkZombie i) (request E i 0 (8)
       [] [])"

definition ExtSessionLockManagerV1_Lock :: "'k env \<Rightarrow> ref \<Rightarrow> ('k world, ref \<times> gerr option) go" where
  "ExtSessionLockManagerV1_Lock E i =
     bnd (andthen (Context_of i) (New ExtSessionLockV1)) (\<lambda>new.
     bnd (request E i 1 (8 + 4)
       [PId (Some new)] []) (\<lambda>err. ret (new, err)))"

context client_inv
begin

lemma ExtSessionLockManagerV1_inv:
  "keeps I (NewExtSessionLockManagerV1)"
  "keeps I (ExtSessionLockManagerV1_Destroy E i)"
  "keeps I (ExtSessionLockManagerV1_Lock E i)"
  unfolding NewExtSessionLockManagerV1_def ExtSessionLockManagerV1_Destroy_def ExtSessionLockManagerV1_Lock_def
  by (intro keeps_intro parts_inv)+

end

section \<open>ExtSessionLockV1\<close>

definition NewExtSessionLockV1 :: "('k world, ref) go" where
  "NewExtSessionLockV1 = New ExtSessionLockV1"

definition ExtSessionLockV1_Destroy :: "'k env \<Rightarrow> ref \<Rightarrow> ('k world, gerr option) go" where
  "ExtSessionLockV1_Destroy E i =
     with_defer (MarkZombie i) (request E i 0 (8)
       [] [])"

definition ExtSessionLockV1_GetLockSurface :: "'k env \<Rightarrow> ref \<Rightarrow> ref option \<Rightarrow> ref option \<Rightarrow> ('k world, ref \<times> gerr option) go" where
  "ExtSessionLockV1_GetLockSurface E i surface output =
     bnd (andthen (Context_of i) (New ExtSessionLockSurfaceV1)) (\<lambda>new.
     bnd (request E i 1 (8 + 4 + 4 + 4)
       [PId (Some new), PId surface, PId output] []) (\<lambda>err. ret (new, err)))"

definition ExtSessionLockV1_UnlockAndDestroy :: "'k env \<Rightarrow> ref \<Rightarrow> ('k world, gerr option) go" where
  "ExtSessionLockV1_UnlockAndDestroy E i =
     with_defer (MarkZombie i) (request E i 2 (8)
       [] [])"

definition ExtSessionLockV1_SetLockedHandler :: "ref \<Rightarrow> hid option \<Rightarrow> ('k world, unit) go" where
  "ExtSessionLockV1_SetLockedHandler i f = SetHandler i ''lockedHandler'' f"

definition ExtSessionLockV1_SetFinishedHandler :: "ref \<Rightarrow> hid option \<Rightarrow> ('k world, unit) go" where
  "ExtSessionLockV1_SetFinishedHandler i f = SetHandler i ''finishedHandler'' f"

definition ExtSessionLockV1_HasFD :: "u32 \<Rightarrow> bool" where
  "ExtSessionLockV1_HasFD opcode = (False)"

definition ExtSessionLockV1_Dispatch :: "'k env \<Rightarrow> ref \<Rightarrow> u32 \<Rightarrow> int \<Rightarrow> bytes \<Rightarrow> ('k world, unit) go" where
  "ExtSessionLockV1_Dispatch E i opcode fd data =
     (if opcode = 0 then event E i ''lockedHandler'' ''ExtSessionLockV1LockedEvent''
          []
      else if opcode = 1 then event E i ''finishedHandler'' ''ExtSessionLockV1FinishedEvent''
          []
      else unsupported)"

context client_inv
begin

lemma ExtSessionLockV1_inv:
  "keeps I (NewExtSessionLockV1)"
  "keeps I (ExtSessionLockV1_Destroy E i)"
  "keeps I (ExtSessionLockV1_GetLockSurface E i r1 r2)"
  "keeps I (ExtSessionLockV1_UnlockAndDestroy E i)"
  "keeps I (ExtSessionLockV1_SetLockedHandler i f)"
  "keeps I (ExtSessionLockV1_SetFinishedHandler i f)"
  unfolding NewExtSessionLockV1_def ExtSessionLockV1_Destroy_def ExtSessionLockV1_GetLockSurface_def ExtSessionLockV1_UnlockAndDestroy_def ExtSessionLockV1_SetLockedHandler_def ExtSessionLockV1_SetFinishedHandler_def
  by (intro keeps_intro parts_inv)+

end

lemma ExtSessionLockV1_Dispatch_owns:
  assumes "handlers_return E" "\<not> ExtSessionLockV1_HasFD opcode \<Longrightarrow> fd < 0" "-1 \<le> fd"
  shows "owns fd (ExtSessionLockV1_Dispatch E i opcode fd data)"
  unfolding ExtSessionLockV1_Dispatch_def
  by (intro owns_intro plain_intro) (use assms in \<open>simp_all add: ExtSessionLockV1_HasFD_def\<close>)

lemma ExtSessionLockV1_Dispatch_wf: "handlers_wf E \<Longrightarrow> keeps wf_world (ExtSessionLockV1_Dispatch E i opcode fd data)"
  unfolding ExtSessionLockV1_Dispatch_def by (intro keeps_intro plain_intro)

section \<open>ExtSessionLockSurfaceV1\<close>

definition NewExtSessionLockSurfaceV1 :: "('k world, ref) go" where
  "NewExtSessionLockSurfaceV1 = New ExtSessionLockSurfaceV1"

definition ExtSessionLockSurfaceV1_Destroy :: "'k env \<Rightarrow> ref \<Rightarrow> ('k world, gerr option) go" where
  "ExtSessionLockSurfaceV1_Destroy E i =
     with_defer (MarkZombie i) (request E i 0 (8)
       [] [])"

definition ExtSessionLockSurfaceV1_AckConfigure :: "'k env \<Rightarrow> ref \<Rightarrow> u32 \<Rightarrow> ('k world, gerr option) go" where
  "ExtSessionLockSurfaceV1_AckConfigure E i serial =
     request E i 1 (8 + 4)
       [PWord serial] []"

definition ExtSessionLockSurfaceV1_SetConfigureHandler :: "ref \<Rightarrow> hid option \<Rightarrow> ('k world, unit) go" where
  "ExtSessionLockSurfaceV1_SetConfigureHandler i f = SetHandler i ''configureHandler'' f"

definition ExtSessionLockSurfaceV1_HasFD :: "u32 \<Rightarrow> bool" where
  "ExtSessionLockSurfaceV1_HasFD opcode = (False)"

definition ExtSessionLockSurfaceV1_Dispatch :: "'k env \<Rightarrow> ref \<Rightarrow> u32 \<Rightarrow> int \<Rightarrow> bytes \<Rightarrow> ('k world, unit) go" where
  "ExtSessionLockSurfaceV1_Dispatch E i opcode fd data =
     (if opcode = 0 then event E i ''configureHandler'' ''ExtSessionLockSurfaceV1ConfigureEvent''
          [(''Serial'', r_uint data), (''Width'', r_uint data), (''Height'', r_uint data)]
      else unsupported)"

context client_inv
begin

lemma ExtSessionLockSurfaceV1_inv:
  "keeps I (NewExtSessionLockSurfaceV1)"
  "keeps I (ExtSessionLockSurfaceV1_Destroy E i)"
  "keeps I (ExtSessionLockSurfaceV1_AckConfigure E i u1)"
  "keeps I (ExtSessionLockSurfaceV1_SetConfigureHandler i f)"
  unfolding NewExtSessionLockSurfaceV1_def ExtSessionLockSurfaceV1_Destroy_def ExtSessionLockSurfaceV1_AckConfigure_def ExtSessionLockSurfaceV1_SetConfigureHandler_def
  by (intro keeps_intro parts_inv)+

end

lemma ExtSessionLockSurfaceV1_Dispatch_owns:
  assumes "handlers_return E" "\<not> ExtSessionLockSurfaceV1_HasFD opcode \<Longrightarrow> fd < 0" "-1 \<le> fd"
  shows "owns fd (ExtSessionLockSurfaceV1_Dispatch E i opcode fd data)"
  unfolding ExtSessionLockSurfaceV1_Dispatch_def
  by (intro owns_intro plain_intro) (use assms in \<open>simp_all add: ExtSessionLockSurfaceV1_HasFD_def\<close>)

lemma ExtSessionLockSurfaceV1_Dispatch_wf: "handlers_wf E \<Longrightarrow> keeps wf_world (ExtSessionLockSurfaceV1_Dispatch E i opcode fd data)"
  unfolding ExtSessionLockSurfaceV1_Dispatch_def by (intro keeps_intro plain_intro)

section \<open>WpCursorShapeManagerV1\<close>

definition NewWpCursorShapeManagerV1 :: "('k world, ref) go" where
  "NewWpCursorShapeManagerV1 = New WpCursorShapeManagerV1"

definition WpCursorShapeManagerV1_Destroy :: "'k env \<Rightarrow> ref \<Rightarrow> ('k world, gerr option) go" where
  "WpCursorShapeManagerV1_Destroy E i =
     with_defer (MarkZombie i) (request E i 0 (8)
       [] [])"

definition WpCursorShapeManagerV1_GetPointer :: "'k env \<Rightarrow> ref \<Rightarrow> ref option \<Rightarrow> ('k world, ref \<times> gerr option) go" where
  "WpCursorShapeManagerV1_GetPointer E i pointer =
     bnd (andthen (Context_of i) (New WpCursorShapeDeviceV1)) (\<lambda>cursorShapeDevice.
     bnd (request E i 1 (8 + 4 + 4)
       [PId (Some cursorShapeDevice), PId pointer] []) (\<lambda>err. ret (cursorShapeDevice, err)))"

definition WpCursorShapeManagerV1_GetTabletToolV2 :: "'k env \<Rightarrow> ref \<Rightarrow> ref option \<Rightarrow> ('k world, ref \<times> gerr option) go" where
  "WpCursorShapeManagerV1_GetTabletToolV2 E i tabletTool =
     bnd (andthen (Context_of i) (New WpCursorShapeDeviceV1)) (\<lambda>cursorShapeDevice.
     bnd (request E i 2 (8 + 4 + 4)
       [PId (Some cursorShapeDevice), PId tabletTool] []) (\<lambda>err. ret (cursorShapeDevice, err)))"

context client_inv
begin

lemma WpCursorShapeManagerV1_inv:
  "keeps I (NewWpCursorShapeManagerV1)"
  "keeps I (WpCursorShapeManagerV1_Destroy E i)"
  "keeps I (WpCursorShapeManagerV1_GetPointer E i r1)"
  "keeps I (WpCursorShapeManagerV1_GetTabletToolV2 E i r1)"
  unfolding NewWpCursorShapeManagerV1_def WpCursorShapeManagerV1_Destroy_def WpCursorShapeManagerV1_GetPointer_def WpCursorShapeManagerV1_GetTabletToolV2_def
  by (intro keeps_intro parts_inv)+

end

section \<open>WpCursorShapeDeviceV1\<close>

definition NewWpCursorShapeDeviceV1 :: "('k world, ref) go" where
  "NewWpCursorShapeDeviceV1 = New WpCursorShapeDeviceV1"

definition WpCursorShapeDeviceV1_Destroy :: "'k env \<Rightarrow> ref \<Rightarrow> ('k world, gerr option) go" where
  "WpCursorShapeDeviceV1_Destroy E i =
     with_defer (MarkZombie i) (request E i 0 (8)
       [] [])"

definition WpCursorShapeDeviceV1_SetShape :: "'k env \<Rightarrow> ref \<Rightarrow> u32 \<Rightarrow> u32 \<Rightarrow> ('k world, gerr option) go" where
  "WpCursorShapeDeviceV1_SetShape E i serial shape =
     request E i 1 (8 + 4 + 4)
       [PWord serial, PWord shape] []"

context client_inv
begin

lemma WpCursorShapeDeviceV1_inv:
  "keeps I (NewWpCursorShapeDeviceV1)"
  "keeps I (WpCursorShapeDeviceV1_Destroy E i)"
  "keeps I (WpCursorShapeDeviceV1_SetShape E i u1 u2)"
  unfolding NewWpCursorShapeDeviceV1_def WpCursorShapeDeviceV1_Destroy_def WpCursorShapeDeviceV1_SetShape_def
  by (intro keeps_intro parts_inv)+

end

section \<open>ZwpTextInputV3\<close>

definition NewZwpTextInputV3 :: "('k world, ref) go" where
  "NewZwpTextInputV3 = New ZwpTextInputV3"

definition ZwpTextInputV3_Destroy :: "'k env \<Rightarrow> ref \<Rightarrow> ('k world, gerr option) go" where
  "ZwpTextInputV3_Destroy E i =
     with_defer (MarkZombie i) (request E i 0 (8)
       [] [])"

definition ZwpTextInputV3_Enable :: "'k env \<Rightarrow> ref \<Rightarrow> ('k world, gerr option) go" where
  "ZwpTextInputV3_Enable E i =
     request E i 1 (8)
       [] []"

definition ZwpTextInputV3_Disable :: "'k env \<Rightarrow> ref \<Rightarrow> ('k world, gerr option) go" where
  "ZwpTextInputV3_Disable E i =
     request E i 2 (8)
       [] []"

definition ZwpTextInputV3_SetSurroundingText :: "'k env \<Rightarrow> ref \<Rightarrow> bytes \<Rightarrow> u32 \<Rightarrow> u32 \<Rightarrow> ('k world, gerr option) go" where
  "ZwpTextInputV3_SetSurroundingText E i text cursor anchor =
     request E i 3 (8 + (4 + str_len text) + 4 + 4)
       [PString text (str_len text), PWord cursor, PWord anchor] []"

definition ZwpTextInputV3_SetTextChangeCause :: "'k env \<Rightarrow> ref \<Rightarrow> u32 \<Rightarrow> ('k world, gerr option) go" where
  "ZwpTextInputV3_SetTextChangeCause E i cause =
     request E i 4 (8 + 4)
       [PWord cause] []"

definition ZwpTextInputV3_SetContentType :: "'k env \<Rightarrow> ref \<Rightarrow> u32 \<Rightarrow> u32 \<Rightarrow> ('k world, gerr option) go" where
  "ZwpTextInputV3_SetContentType E i hint purpose =
     request E i 5 (8 + 4 + 4)
       [PWord hint, PWord purpose] []"

definition ZwpTextInputV3_SetCursorRectangle :: "'k env \<Rightarrow> ref \<Rightarrow> u32 \<Rightarrow> u32 \<Rightarrow> u32 \<Rightarrow> u32 \<Rightarrow> ('k world, gerr option) go" where
  "ZwpTextInputV3_SetCursorRectangle E i x y width height =
     request E i 6 (8 + 4 + 4 + 4 + 4)
       [PWord x, PWord y, PWord width, PWord height] []"

definition ZwpTextInputV3_Commit :: "'k env \<Rightarrow> ref \<Rightarrow> ('k world, gerr option) go" where
  "ZwpTextInputV3_Commit E i =
     request E i 7 (8)
       [] []"

definition ZwpTextInputV3_SetEnterHandler :: "ref \<Rightarrow> hid option \<Rightarrow> ('k world, unit) go" where
  "ZwpTextInputV3_SetEnterHandler i f = SetHandler i ''enterHandler'' f"

definition ZwpTextInputV3_SetLeaveHandler :: "ref \<Rightarrow> hid option \<Rightarrow> ('k world, unit) go" where
  "ZwpTextInputV3_SetLeaveHandler i f = SetHandler i ''leaveHandler'' f"

definition ZwpTextInputV3_SetPreeditStringHandler :: "ref \<Rightarrow> hid option \<Rightarrow> ('k world, unit) go" where
  "ZwpTextInputV3_SetPreeditStringHandler i f = SetHandler i ''preeditStringHandler'' f"

definition ZwpTextInputV3_SetCommitStringHandler :: "ref \<Rightarrow> hid option \<Rightarrow> ('k world, unit) go" where
  "ZwpTextInputV3_SetCommitStringHandler i f = SetHandler i ''commitStringHandler'' f"

definition ZwpTextInputV3_SetDeleteSurroundingTextHandler :: "ref \<Rightarrow> hid option \<Rightarrow> ('k world, unit) go" where
  "ZwpTextInputV3_SetDeleteSurroundingTextHandler i f = SetHandler i ''deleteSurroundingTextHandler'' f"

definition ZwpTextInputV3_SetDoneHandler :: "ref \<Rightarrow> hid option \<Rightarrow> ('k world, unit) go" where
  "ZwpTextInputV3_SetDoneHandler i f = SetHandler i ''doneHandler'' f"

definition ZwpTextInputV3_HasFD :: "u32 \<Rightarrow> bool" where
  "ZwpTextInputV3_HasFD opcode = (False)"

definition ZwpTextInputV3_Dispatch :: "'k env \<Rightarrow> ref \<Rightarrow> u32 \<Rightarrow> int \<Rightarrow> bytes \<Rightarrow> ('k world, unit) go" where
  "ZwpTextInputV3_Dispatch E i opcode fd data =
     (if opcode = 0 then event E i ''enterHandler'' ''ZwpTextInputV3EnterEvent''
          [(''Surface'', r_obj i data Surface)]
      else if opcode = 1 then event E i ''leaveHandler'' ''ZwpTextInputV3LeaveEvent''
          [(''Surface'', r_obj i data Surface)]
      else if opcode = 2 then event E i ''preeditStringHandler'' ''ZwpTextInputV3PreeditStringEvent''
          [(''Text'', r_opt_string data), (''CursorBegin'', r_int data), (''CursorEnd'', r_int data)]
      else if opcode = 3 then event E i ''commitStringHandler'' ''ZwpTextInputV3CommitStringEvent''
          [(''Text'', r_opt_string data)]
      else if opcode = 4 then event E i ''deleteSurroundingTextHandler'' ''ZwpTextInputV3DeleteSurroundingTextEvent''
          [(''BeforeLength'', r_uint data), (''AfterLength'', r_uint data)]
      else if opcode = 5 then event E i ''doneHandler'' ''ZwpTextInputV3DoneEvent''
          [(''Serial'', r_uint data)]
      else unsupported)"

context client_inv
begin

lemma ZwpTextInputV3_inv:
  "keeps I (NewZwpTextInputV3)"
  "keeps I (ZwpTextInputV3_Destroy E i)"
  "keeps I (ZwpTextInputV3_Enable E i)"
  "keeps I (ZwpTextInputV3_Disable E i)"
  "keeps I (ZwpTextInputV3_SetSurroundingText E i s1 u1 u2)"
  "keeps I (ZwpTextInputV3_SetTextChangeCause E i u1)"
  "keeps I (ZwpTextInputV3_SetContentType E i u1 u2)"
  "keeps I (ZwpTextInputV3_SetCursorRectangle E i u1 u2 u3 u4)"
  "keeps I (ZwpTextInputV3_Commit E i)"
  "keeps I (ZwpTextInputV3_SetEnterHandler i f)"
  "keeps I (ZwpTextInputV3_SetLeaveHandler i f)"
  "keeps I (ZwpTextInputV3_SetPreeditStringHandler i f)"
  "keeps I (ZwpTextInputV3_SetCommitStringHandler i f)"
  "keeps I (ZwpTextInputV3_SetDeleteSurroundingTextHandler i f)"
  "keeps I (ZwpTextInputV3_SetDoneHandler i f)"
  unfolding NewZwpTextInputV3_def ZwpTextInputV3_Destroy_def ZwpTextInputV3_Enable_def ZwpTextInputV3_Disable_def ZwpTextInputV3_SetSurroundingText_def ZwpTextInputV3_SetTextChangeCause_def ZwpTextInputV3_SetContentType_def ZwpTextInputV3_SetCursorRectangle_def ZwpTextInputV3_Commit_def ZwpTextInputV3_SetEnterHandler_def ZwpTextInputV3_SetLeaveHandler_def ZwpTextInputV3_SetPreeditStringHandler_def ZwpTextInputV3_SetCommitStringHandler_def ZwpTextInputV3_SetDeleteSurroundingTextHandler_def ZwpTextInputV3_SetDoneHandler_def
  by (intro keeps_intro parts_inv)+

end

lemma ZwpTextInputV3_Dispatch_owns:
  assumes "handlers_return E" "\<not> ZwpTextInputV3_HasFD opcode \<Longrightarrow> fd < 0" "-1 \<le> fd"
  shows "owns fd (ZwpTextInputV3_Dispatch E i opcode fd data)"
  unfolding ZwpTextInputV3_Dispatch_def
  by (intro owns_intro plain_intro) (use assms in \<open>simp_all add: ZwpTextInputV3_HasFD_def\<close>)

lemma ZwpTextInputV3_Dispatch_wf: "handlers_wf E \<Longrightarrow> keeps wf_world (ZwpTextInputV3_Dispatch E i opcode fd data)"
  unfolding ZwpTextInputV3_Dispatch_def by (intro keeps_intro plain_intro)

section \<open>ZwpTextInputManagerV3\<close>

definition NewZwpTextInputManagerV3 :: "('k world, ref) go" where
  "NewZwpTextInputManagerV3 = New ZwpTextInputManagerV3"

definition ZwpTextInputManagerV3_Destroy :: "'k env \<Rightarrow> ref \<Rightarrow> ('k world, gerr option) go" where
  "ZwpTextInputManagerV3_Destroy E i =
     with_defer (MarkZombie i) (request E i 0 (8)
       [] [])"

definition ZwpTextInputManagerV3_GetTextInput :: "'k env \<Rightarrow> ref \<Rightarrow> ref option \<Rightarrow> ('k world, ref \<times> gerr option) go" where
  "ZwpTextInputManagerV3_GetTextInput E i seat =
     bnd (andthen (Context_of i) (New ZwpTextInputV3)) (\<lambda>new.
     bnd (request E i 1 (8 + 4 + 4)
       [PId (Some new), PId seat] []) (\<lambda>err. ret (new, err)))"

context client_inv
begin

lemma ZwpTextInputManagerV3_inv:
  "keeps I (NewZwpTextInputManagerV3)"
  "keeps I (ZwpTextInputManagerV3_Destroy E i)"
  "keeps I (ZwpTextInputManagerV3_GetTextInput E i r1)"
  unfolding NewZwpTextInputManagerV3_def ZwpTextInputManagerV3_Destroy_def ZwpTextInputManagerV3_GetTextInput_def
  by (intro keeps_intro parts_inv)+

end

section \<open>Calls of the application\<close>

text \<open>The constructors, setters and requests of this file as operations on a world.\<close>

inductive ext_op :: "'k env \<Rightarrow> ('k world, unit) go \<Rightarrow> bool" for E where
  "ext_op E (discard (NewExtIdleNotifierV1))"
| "ext_op E (discard (ExtIdleNotifierV1_Destroy E i))"
| "ext_op E (discard (ExtIdleNotifierV1_GetIdleNotification E i u1 r1))"
| "ext_op E (discard (ExtIdleNotifierV1_GetInputIdleNotification E i u1 r1))"
| "ext_op E (discard (NewExtIdleNotificationV1))"
| "ext_op E (discard (ExtIdleNotificationV1_Destroy E i))"
| "ext_op E (discard (ExtIdleNotificationV1_SetIdledHandler i f))"
| "ext_op E (discard (ExtIdleNotificationV1_SetResumedHandler i f))"
| "ext_op E (discard (NewExtSessionLockManagerV1))"
| "ext_op E (discard (ExtSessionLockManagerV1_Destroy E i))"
| "ext_op E (discard (ExtSessionLockManagerV1_Lock E i))"
| "ext_op E (discard (NewExtSessionLockV1))"
| "ext_op E (discard (ExtSessionLockV1_Destroy E i))"
| "ext_op E (discard (ExtSessionLockV1_GetLockSurface E i r1 r2))"
| "ext_op E (discard (ExtSessionLockV1_UnlockAndDestroy E i))"
| "ext_op E (discard (ExtSessionLockV1_SetLockedHandler i f))"
| "ext_op E (discard (ExtSessionLockV1_SetFinishedHandler i f))"
| "ext_op E (discard (NewExtSessionLockSurfaceV1))"
| "ext_op E (discard (ExtSessionLockSurfaceV1_Destroy E i))"
| "ext_op E (discard (ExtSessionLockSurfaceV1_AckConfigure E i u1))"
| "ext_op E (discard (ExtSessionLockSurfaceV1_SetConfigureHandler i f))"
| "ext_op E (discard (NewWpCursorShapeManagerV1))"
| "ext_op E (discard (WpCursorShapeManagerV1_Destroy E i))"
| "ext_op E (discard (WpCursorShapeManagerV1_GetPointer E i r1))"
| "ext_op E (discard (WpCursorShapeManagerV1_GetTabletToolV2 E i r1))"
| "ext_op E (discard (NewWpCursorShapeDeviceV1))"
| "ext_op E (discard (WpCursorShapeDeviceV1_Destroy E i))"
| "ext_op E (discard (WpCursorShapeDeviceV1_SetShape E i u1 u2))"
| "ext_op E (discard (NewZwpTextInputV3))"
| "ext_op E (discard (ZwpTextInputV3_Destroy E i))"
| "ext_op E (discard (ZwpTextInputV3_Enable E i))"
| "ext_op E (discard (ZwpTextInputV3_Disable E i))"
| "ext_op E (discard (ZwpTextInputV3_SetSurroundingText E i s1 u1 u2))"
| "ext_op E (discard (ZwpTextInputV3_SetTextChangeCause E i u1))"
| "ext_op E (discard (ZwpTextInputV3_SetContentType E i u1 u2))"
| "ext_op E (discard (ZwpTextInputV3_SetCursorRectangle E i u1 u2 u3 u4))"
| "ext_op E (discard (ZwpTextInputV3_Commit E i))"
| "ext_op E (discard (ZwpTextInputV3_SetEnterHandler i f))"
| "ext_op E (discard (ZwpTextInputV3_SetLeaveHandler i f))"
| "ext_op E (discard (ZwpTextInputV3_SetPreeditStringHandler i f))"
| "ext_op E (discard (ZwpTextInputV3_SetCommitStringHandler i f))"
| "ext_op E (discard (ZwpTextInputV3_SetDeleteSurroundingTextHandler i f))"
| "ext_op E (discard (ZwpTextInputV3_SetDoneHandler i f))"
| "ext_op E (discard (NewZwpTextInputManagerV3))"
| "ext_op E (discard (ZwpTextInputManagerV3_Destroy E i))"
| "ext_op E (discard (ZwpTextInputManagerV3_GetTextInput E i r1))"

context client_inv
begin

lemma ext_op_inv: "ext_op E m \<Longrightarrow> keeps I m"
  by (erule ext_op.cases) (auto intro!: keeps_discard intro: ExtIdleNotifierV1_inv ExtIdleNotificationV1_inv ExtSessionLockManagerV1_inv ExtSessionLockV1_inv ExtSessionLockSurfaceV1_inv WpCursorShapeManagerV1_inv WpCursorShapeDeviceV1_inv ZwpTextInputV3_inv ZwpTextInputManagerV3_inv)

end

end
