(* ===== verification/Bind_Tablet.thy ===== *)
theory Bind_Tablet
  imports Client_Inv
begin

text \<open>
  Tablets: cursorshape/tablet_v2.go. Seats, pads and pad groups introduce objects that the server
  names, so they also absorb introductions that arrive after they were destroyed.
  Each method is named \<open>Type_Method\<close>; an object argument is \<open>None\<close> for nil, an \<open>int32\<close> argument is the word
  its conversion to \<open>uint32\<close> gives.
\<close>

section \<open>ZwpTabletManagerV2\<close>

definition NewZwpTabletManagerV2 :: "('k world, ref) go" where
  "NewZwpTabletManagerV2 = New ZwpTabletManagerV2"

definition ZwpTabletManagerV2_GetTabletSeat :: "'k env \<Rightarrow> ref \<Rightarrow> ref option \<Rightarrow> ('k world, ref \<times> gerr option) go" where
  "ZwpTabletManagerV2_GetTabletSeat E i seat =
     bnd (andthen (Context_of i) (New ZwpTabletSeatV2)) (\<lambda>tabletSeat.
     bnd (request E i 0 (8 + 4 + 4)
       [PId (Some tabletSeat), PId seat] []) (\<lambda>err. ret (tabletSeat, err)))"

definition ZwpTabletManagerV2_Destroy :: "'k env \<Rightarrow> ref \<Rightarrow> ('k world, gerr option) go" where
  "ZwpTabletManagerV2_Destroy E i =
     with_defer (MarkZombie i) (request E i 1 (8)
       [] [])"

context client_inv
begin

lemma ZwpTabletManagerV2_inv:
  "keeps I (NewZwpTabletManagerV2)"
  "keeps I (ZwpTabletManagerV2_GetTabletSeat E i r1)"
  "keeps I (ZwpTabletManagerV2_Destroy E i)"
  unfolding NewZwpTabletManagerV2_def ZwpTabletManagerV2_GetTabletSeat_def ZwpTabletManagerV2_Destroy_def
  by (intro keeps_intro parts_inv)+

end

section \<open>ZwpTabletSeatV2\<close>

definition NewZwpTabletSeatV2 :: "('k world, ref) go" where
  "NewZwpTabletSeatV2 = New ZwpTabletSeatV2"

definition ZwpTabletSeatV2_Destroy :: "'k env \<Rightarrow> ref \<Rightarrow> ('k world, gerr option) go" where
  "ZwpTabletSeatV2_Destroy E i =
     with_defer (MarkZombie i) (request E i 0 (8)
       [] [])"

definition ZwpTabletSeatV2_SetTabletAddedHandler :: "ref \<Rightarrow> hid option \<Rightarrow> ('k world, unit) go" where
  "ZwpTabletSeatV2_SetTabletAddedHandler i f = SetHandler i ''tabletAddedHandler'' f"

definition ZwpTabletSeatV2_SetToolAddedHandler :: "ref \<Rightarrow> hid option \<Rightarrow> ('k world, unit) go" where
  "ZwpTabletSeatV2_SetToolAddedHandler i f = SetHandler i ''toolAddedHandler'' f"

definition ZwpTabletSeatV2_SetPadAddedHandler :: "ref \<Rightarrow> hid option \<Rightarrow> ('k world, unit) go" where
  "ZwpTabletSeatV2_SetPadAddedHandler i f = SetHandler i ''padAddedHandler'' f"

definition ZwpTabletSeatV2_HasFD :: "u32 \<Rightarrow> bool" where
  "ZwpTabletSeatV2_HasFD opcode = (False)"

definition ZwpTabletSeatV2_Dispatch :: "'k env \<Rightarrow> ref \<Rightarrow> u32 \<Rightarrow> int \<Rightarrow> bytes \<Rightarrow> ('k world, unit) go" where
  "ZwpTabletSeatV2_Dispatch E i opcode fd data =
     (if opcode = 0 then new_event E i ''tabletAddedHandler'' ''ZwpTabletSeatV2TabletAddedEvent''
          [(''Id'', r_new i data ZwpTabletV2)]
      else if opcode = 1 then new_event E i ''toolAddedHandler'' ''ZwpTabletSeatV2ToolAddedEvent''
          [(''Id'', r_new i data ZwpTabletToolV2)]
      else if opcode = 2 then new_event E i ''padAddedHandler'' ''ZwpTabletSeatV2PadAddedEvent''
          [(''Id'', r_new i data ZwpTabletPadV2)]
      else unsupported)"

definition ZwpTabletSeatV2_AbsorbNewIDs :: "ref \<Rightarrow> u32 \<Rightarrow> bytes \<Rightarrow> ('k world, unit) go" where
  "ZwpTabletSeatV2_AbsorbNewIDs i opcode data =
     (if opcode = 0 then andthen (absorb_new i data ZwpTabletV2 0) (ret ())
      else if opcode = 1 then andthen (absorb_new i data ZwpTabletToolV2 0) (ret ())
      else if opcode = 2 then andthen (absorb_new i data ZwpTabletPadV2 0) (ret ())
      else ret ())"

context client_inv
begin

lemma ZwpTabletSeatV2_inv:
  "keeps I (NewZwpTabletSeatV2)"
  "keeps I (ZwpTabletSeatV2_Destroy E i)"
  "keeps I (ZwpTabletSeatV2_SetTabletAddedHandler i f)"
  "keeps I (ZwpTabletSeatV2_SetToolAddedHandler i f)"
  "keeps I (ZwpTabletSeatV2_SetPadAddedHandler i f)"
  unfolding NewZwpTabletSeatV2_def ZwpTabletSeatV2_Destroy_def ZwpTabletSeatV2_SetTabletAddedHandler_def ZwpTabletSeatV2_SetToolAddedHandler_def ZwpTabletSeatV2_SetPadAddedHandler_def
  by (intro keeps_intro parts_inv)+

end

lemma ZwpTabletSeatV2_Dispatch_owns:
  assumes "handlers_return E" "\<not> ZwpTabletSeatV2_HasFD opcode \<Longrightarrow> fd < 0" "-1 \<le> fd"
  shows "owns fd (ZwpTabletSeatV2_Dispatch E i opcode fd data)"
  unfolding ZwpTabletSeatV2_Dispatch_def
  by (intro owns_intro plain_intro) (use assms in \<open>simp_all add: ZwpTabletSeatV2_HasFD_def\<close>)

lemma ZwpTabletSeatV2_Dispatch_wf: "handlers_wf E \<Longrightarrow> keeps wf_world (ZwpTabletSeatV2_Dispatch E i opcode fd data)"
  unfolding ZwpTabletSeatV2_Dispatch_def by (intro keeps_intro plain_intro)

lemma ZwpTabletSeatV2_AbsorbNewIDs_keeps:
  "keeps wf_world (ZwpTabletSeatV2_AbsorbNewIDs i opcode data)"
  "keeps (fd_bal X) (ZwpTabletSeatV2_AbsorbNewIDs i opcode data)"
  unfolding ZwpTabletSeatV2_AbsorbNewIDs_def by (intro keeps_intro)+

section \<open>ZwpTabletToolV2\<close>

definition NewZwpTabletToolV2 :: "('k world, ref) go" where
  "NewZwpTabletToolV2 = New ZwpTabletToolV2"

definition ZwpTabletToolV2_SetCursor :: "'k env \<Rightarrow> ref \<Rightarrow> u32 \<Rightarrow> ref option \<Rightarrow> u32 \<Rightarrow> u32 \<Rightarrow> ('k world, gerr option) go" where
  "ZwpTabletToolV2_SetCursor E i serial surface hotspotX hotspotY =
     request E i 0 (8 + 4 + 4 + 4 + 4)
       [PWord serial, PNullId surface, PWord hotspotX, PWord hotspotY] []"

definition ZwpTabletToolV2_Destroy :: "'k env \<Rightarrow> ref \<Rightarrow> ('k world, gerr option) go" where
  "ZwpTabletToolV2_Destroy E i =
     with_defer (MarkZombie i) (request E i 1 (8)
       [] [])"

definition ZwpTabletToolV2_SetTypeHandler :: "ref \<Rightarrow> hid option \<Rightarrow> ('k world, unit) go" where
  "ZwpTabletToolV2_SetTypeHandler i f = SetHandler i ''typeHandler'' f"

definition ZwpTabletToolV2_SetHardwareSerialHandler :: "ref \<Rightarrow> hid option \<Rightarrow> ('k world, unit) go" where
  "ZwpTabletToolV2_SetHardwareSerialHandler i f = SetHandler i ''hardwareSerialHandler'' f"

definition ZwpTabletToolV2_SetHardwareIdWacomHandler :: "ref \<Rightarrow> hid option \<Rightarrow> ('k world, unit) go" where
  "ZwpTabletToolV2_SetHardwareIdWacomHandler i f = SetHandler i ''hardwareIdWacomHandler'' f"

definition ZwpTabletToolV2_SetCapabilityHandler :: "ref \<Rightarrow> hid option \<Rightarrow> ('k world, unit) go" where
  "ZwpTabletToolV2_SetCapabilityHandler i f = SetHandler i ''capabilityHandler'' f"

definition ZwpTabletToolV2_SetDoneHandler :: "ref \<Rightarrow> hid option \<Rightarrow> ('k world, unit) go" where
  "ZwpTabletToolV2_SetDoneHandler i f = SetHandler i ''doneHandler'' f"

definition ZwpTabletToolV2_SetRemovedHandler :: "ref \<Rightarrow> hid option \<Rightarrow> ('k world, unit) go" where
  "ZwpTabletToolV2_SetRemovedHandler i f = SetHandler i ''removedHandler'' f"

definition ZwpTabletToolV2_SetProximityInHandler :: "ref \<Rightarrow> hid option \<Rightarrow> ('k world, unit) go" where
  "ZwpTabletToolV2_SetProximityInHandler i f = SetHandler i ''proximityInHandler'' f"

definition ZwpTabletToolV2_SetProximityOutHandler :: "ref \<Rightarrow> hid option \<Rightarrow> ('k world, unit) go" where
  "ZwpTabletToolV2_SetProximityOutHandler i f = SetHandler i ''proximityOutHandler'' f"

definition ZwpTabletToolV2_SetDownHandler :: "ref \<Rightarrow> hid option \<Rightarrow> ('k world, unit) go" where
  "ZwpTabletToolV2_SetDownHandler i f = SetHandler i ''downHandler'' f"

definition ZwpTabletToolV2_SetUpHandler :: "ref \<Rightarrow> hid option \<Rightarrow> ('k world, unit) go" where
  "ZwpTabletToolV2_SetUpHandler i f = SetHandler i ''upHandler'' f"

definition ZwpTabletToolV2_SetMotionHandler :: "ref \<Rightarrow> hid option \<Rightarrow> ('k world, unit) go" where
  "ZwpTabletToolV2_SetMotionHandler i f = SetHandler i ''motionHandler'' f"

definition ZwpTabletToolV2_SetPressureHandler :: "ref \<Rightarrow> hid option \<Rightarrow> ('k world, unit) go" where
  "ZwpTabletToolV2_SetPressureHandler i f = SetHandler i ''pressureHandler'' f"

definition ZwpTabletToolV2_SetDistanceHandler :: "ref \<Rightarrow> hid option \<Rightarrow> ('k world, unit) go" where
  "ZwpTabletToolV2_SetDistanceHandler i f = SetHandler i ''distanceHandler'' f"

definition ZwpTabletToolV2_SetTiltHandler :: "ref \<Rightarrow> hid option \<Rightarrow> ('k world, unit) go" where
  "ZwpTabletToolV2_SetTiltHandler i f = SetHandler i ''tiltHandler'' f"

definition ZwpTabletToolV2_SetRotationHandler :: "ref \<Rightarrow> hid option \<Rightarrow> ('k world, unit) go" where
  "ZwpTabletToolV2_SetRotationHandler i f = SetHandler i ''rotationHandler'' f"

definition ZwpTabletToolV2_SetSliderHandler :: "ref \<Rightarrow> hid option \<Rightarrow> ('k world, unit) go" where
  "ZwpTabletToolV2_SetSliderHandler i f = SetHandler i ''sliderHandler'' f"

definition ZwpTabletToolV2_SetWheelHandler :: "ref \<Rightarrow> hid option \<Rightarrow> ('k world, unit) go" where
  "ZwpTabletToolV2_SetWheelHandler i f = SetHandler i ''wheelHandler'' f"

definition ZwpTabletToolV2_SetButtonHandler :: "ref \<Rightarrow> hid option \<Rightarrow> ('k world, unit) go" where
  "ZwpTabletToolV2_SetButtonHandler i f = SetHandler i ''buttonHandler'' f"

definition ZwpTabletToolV2_SetFrameHandler :: "ref \<Rightarrow> hid option \<Rightarrow> ('k world, unit) go" where
  "ZwpTabletToolV2_SetFrameHandler i f = SetHandler i ''frameHandler'' f"

definition ZwpTabletToolV2_HasFD :: "u32 \<Rightarrow> bool" where
  "ZwpTabletToolV2_HasFD opcode = (False)"

definition ZwpTabletToolV2_Dispatch :: "'k env \<Rightarrow> ref \<Rightarrow> u32 \<Rightarrow> int \<Rightarrow> bytes \<Rightarrow> ('k world, unit) go" where
  "ZwpTabletToolV2_Dispatch E i opcode fd data =
     (if opcode = 0 then event E i ''typeHandler'' ''ZwpTabletToolV2TypeEvent''
          [(''ToolType'', r_uint data)]
      else if opcode = 1 then event E i ''hardwareSerialHandler'' ''ZwpTabletToolV2HardwareSerialEvent''
          [(''HardwareSerialHi'', r_uint data), (''HardwareSerialLo'', r_uint data)]
      else if opcode = 2 then event E i ''hardwareIdWacomHandler'' ''ZwpTabletToolV2HardwareIdWacomEvent''
          [(''HardwareIdHi'', r_uint data), (''HardwareIdLo'', r_uint data)]
      else if opcode = 3 then event E i ''capabilityHandler'' ''ZwpTabletToolV2CapabilityEvent''
          [(''Capability'', r_uint data)]
      else if opcode = 4 then event E i ''doneHandler'' ''ZwpTabletToolV2DoneEvent''
          []
      else if opcode = 5 then event E i ''removedHandler'' ''ZwpTabletToolV2RemovedEvent''
          []
      else if opcode = 6 then event E i ''proximityInHandler'' ''ZwpTabletToolV2ProximityInEvent''
          [(''Serial'', r_uint data), (''Tablet'', r_obj i data ZwpTabletV2), (''Surface'', r_obj i data Surface)]
      else if opcode = 7 then event E i ''proximityOutHandler'' ''ZwpTabletToolV2ProximityOutEvent''
          []
      else if opcode = 8 then event E i ''downHandler'' ''ZwpTabletToolV2DownEvent''
          [(''Serial'', r_uint data)]
      else if opcode = 9 then event E i ''upHandler'' ''ZwpTabletToolV2UpEvent''
          []
      else if opcode = 10 then event E i ''motionHandler'' ''ZwpTabletToolV2MotionEvent''
          [(''X'', r_fixed data), (''Y'', r_fixed data)]
      else if opcode = 11 then event E i ''pressureHandler'' ''ZwpTabletToolV2PressureEvent''
          [(''Pressure'', r_uint data)]
      else if opcode = 12 then event E i ''distanceHandler'' ''ZwpTabletToolV2DistanceEvent''
          [(''Distance'', r_uint data)]
      else if opcode = 13 then event E i ''tiltHandler'' ''ZwpTabletToolV2TiltEvent''
          [(''TiltX'', r_fixed data), (''TiltY'', r_fixed data)]
      else if opcode = 14 then event E i ''rotationHandler'' ''ZwpTabletToolV2RotationEvent''
          [(''Degrees'', r_fixed data)]
      else if opcode = 15 then event E i ''sliderHandler'' ''ZwpTabletToolV2SliderEvent''
          [(''Position'', r_int data)]
      else if opcode = 16 then event E i ''wheelHandler'' ''ZwpTabletToolV2WheelEvent''
          [(''Degrees'', r_fixed data), (''Clicks'', r_int data)]
      else if opcode = 17 then event E i ''buttonHandler'' ''ZwpTabletToolV2ButtonEvent''
          [(''Serial'', r_uint data), (''Button'', r_uint data), (''State'', r_uint data)]
      else if opcode = 18 then event E i ''frameHandler'' ''ZwpTabletToolV2FrameEvent''
          [(''Time'', r_uint data)]
      else unsupported)"

context client_inv
begin

lemma ZwpTabletToolV2_inv:
  "keeps I (NewZwpTabletToolV2)"
  "keeps I (ZwpTabletToolV2_SetCursor E i u1 r1 u2 u3)"
  "keeps I (ZwpTabletToolV2_Destroy E i)"
  "keeps I (ZwpTabletToolV2_SetTypeHandler i f)"
  "keeps I (ZwpTabletToolV2_SetHardwareSerialHandler i f)"
  "keeps I (ZwpTabletToolV2_SetHardwareIdWacomHandler i f)"
  "keeps I (ZwpTabletToolV2_SetCapabilityHandler i f)"
  "keeps I (ZwpTabletToolV2_SetDoneHandler i f)"
  "keeps I (ZwpTabletToolV2_SetRemovedHandler i f)"
  "keeps I (ZwpTabletToolV2_SetProximityInHandler i f)"
  "keeps I (ZwpTabletToolV2_SetProximityOutHandler i f)"
  "keeps I (ZwpTabletToolV2_SetDownHandler i f)"
  "keeps I (ZwpTabletToolV2_SetUpHandler i f)"
  "keeps I (ZwpTabletToolV2_SetMotionHandler i f)"
  "keeps I (ZwpTabletToolV2_SetPressureHandler i f)"
  "keeps I (ZwpTabletToolV2_SetDistanceHandler i f)"
  "keeps I (ZwpTabletToolV2_SetTiltHandler i f)"
  "keeps I (ZwpTabletToolV2_SetRotationHandler i f)"
  "keeps I (ZwpTabletToolV2_SetSliderHandler i f)"
  "keeps I (ZwpTabletToolV2_SetWheelHandler i f)"
  "keeps I (ZwpTabletToolV2_SetButtonHandler i f)"
  "keeps I (ZwpTabletToolV2_SetFrameHandler i f)"
  unfolding NewZwpTabletToolV2_def ZwpTabletToolV2_SetCursor_def ZwpTabletToolV2_Destroy_def ZwpTabletToolV2_SetTypeHandler_def ZwpTabletToolV2_SetHardwareSerialHandler_def ZwpTabletToolV2_SetHardwareIdWacomHandler_def ZwpTabletToolV2_SetCapabilityHandler_def ZwpTabletToolV2_SetDoneHandler_def ZwpTabletToolV2_SetRemovedHandler_def ZwpTabletToolV2_SetProximityInHandler_def ZwpTabletToolV2_SetProximityOutHandler_def ZwpTabletToolV2_SetDownHandler_def ZwpTabletToolV2_SetUpHandler_def ZwpTabletToolV2_SetMotionHandler_def ZwpTabletToolV2_SetPressureHandler_def ZwpTabletToolV2_SetDistanceHandler_def ZwpTabletToolV2_SetTiltHandler_def ZwpTabletToolV2_SetRotationHandler_def ZwpTabletToolV2_SetSliderHandler_def ZwpTabletToolV2_SetWheelHandler_def ZwpTabletToolV2_SetButtonHandler_def ZwpTabletToolV2_SetFrameHandler_def
  by (intro keeps_intro parts_inv)+

end

lemma ZwpTabletToolV2_Dispatch_owns:
  assumes "handlers_return E" "\<not> ZwpTabletToolV2_HasFD opcode \<Longrightarrow> fd < 0" "-1 \<le> fd"
  shows "owns fd (ZwpTabletToolV2_Dispatch E i opcode fd data)"
  unfolding ZwpTabletToolV2_Dispatch_def
  by (intro owns_intro plain_intro) (use assms in \<open>simp_all add: ZwpTabletToolV2_HasFD_def\<close>)

lemma ZwpTabletToolV2_Dispatch_wf: "handlers_wf E \<Longrightarrow> keeps wf_world (ZwpTabletToolV2_Dispatch E i opcode fd data)"
  unfolding ZwpTabletToolV2_Dispatch_def by (intro keeps_intro plain_intro)

section \<open>ZwpTabletV2\<close>

definition NewZwpTabletV2 :: "('k world, ref) go" where
  "NewZwpTabletV2 = New ZwpTabletV2"

definition ZwpTabletV2_Destroy :: "'k env \<Rightarrow> ref \<Rightarrow> ('k world, gerr option) go" where
  "ZwpTabletV2_Destroy E i =
     with_defer (MarkZombie i) (request E i 0 (8)
       [] [])"

definition ZwpTabletV2_SetNameHandler :: "ref \<Rightarrow> hid option \<Rightarrow> ('k world, unit) go" where
  "ZwpTabletV2_SetNameHandler i f = SetHandler i ''nameHandler'' f"

definition ZwpTabletV2_SetIdHandler :: "ref \<Rightarrow> hid option \<Rightarrow> ('k world, unit) go" where
  "ZwpTabletV2_SetIdHandler i f = SetHandler i ''idHandler'' f"

definition ZwpTabletV2_SetPathHandler :: "ref \<Rightarrow> hid option \<Rightarrow> ('k world, unit) go" where
  "ZwpTabletV2_SetPathHandler i f = SetHandler i ''pathHandler'' f"

definition ZwpTabletV2_SetDoneHandler :: "ref \<Rightarrow> hid option \<Rightarrow> ('k world, unit) go" where
  "ZwpTabletV2_SetDoneHandler i f = SetHandler i ''doneHandler'' f"

definition ZwpTabletV2_SetRemovedHandler :: "ref \<Rightarrow> hid option \<Rightarrow> ('k world, unit) go" where
  "ZwpTabletV2_SetRemovedHandler i f = SetHandler i ''removedHandler'' f"

definition ZwpTabletV2_HasFD :: "u32 \<Rightarrow> bool" where
  "ZwpTabletV2_HasFD opcode = (False)"

definition ZwpTabletV2_Dispatch :: "'k env \<Rightarrow> ref \<Rightarrow> u32 \<Rightarrow> int \<Rightarrow> bytes \<Rightarrow> ('k world, unit) go" where
  "ZwpTabletV2_Dispatch E i opcode fd data =
     (if opcode = 0 then event E i ''nameHandler'' ''ZwpTabletV2NameEvent''
          [(''Name'', r_string data)]
      else if opcode = 1 then event E i ''idHandler'' ''ZwpTabletV2IdEvent''
          [(''Vid'', r_uint data), (''Pid'', r_uint data)]
      else if opcode = 2 then event E i ''pathHandler'' ''ZwpTabletV2PathEvent''
          [(''Path'', r_string data)]
      else if opcode = 3 then event E i ''doneHandler'' ''ZwpTabletV2DoneEvent''
          []
      else if opcode = 4 then event E i ''removedHandler'' ''ZwpTabletV2RemovedEvent''
          []
      else unsupported)"

context client_inv
begin

lemma ZwpTabletV2_inv:
  "keeps I (NewZwpTabletV2)"
  "keeps I (ZwpTabletV2_Destroy E i)"
  "keeps I (ZwpTabletV2_SetNameHandler i f)"
  "keeps I (ZwpTabletV2_SetIdHandler i f)"
  "keeps I (ZwpTabletV2_SetPathHandler i f)"
  "keeps I (ZwpTabletV2_SetDoneHandler i f)"
  "keeps I (ZwpTabletV2_SetRemovedHandler i f)"
  unfolding NewZwpTabletV2_def ZwpTabletV2_Destroy_def ZwpTabletV2_SetNameHandler_def ZwpTabletV2_SetIdHandler_def ZwpTabletV2_SetPathHandler_def ZwpTabletV2_SetDoneHandler_def ZwpTabletV2_SetRemovedHandler_def
  by (intro keeps_intro parts_inv)+

end

lemma ZwpTabletV2_Dispatch_owns:
  assumes "handlers_return E" "\<not> ZwpTabletV2_HasFD opcode \<Longrightarrow> fd < 0" "-1 \<le> fd"
  shows "owns fd (ZwpTabletV2_Dispatch E i opcode fd data)"
  unfolding ZwpTabletV2_Dispatch_def
  by (intro owns_intro plain_intro) (use assms in \<open>simp_all add: ZwpTabletV2_HasFD_def\<close>)

lemma ZwpTabletV2_Dispatch_wf: "handlers_wf E \<Longrightarrow> keeps wf_world (ZwpTabletV2_Dispatch E i opcode fd data)"
  unfolding ZwpTabletV2_Dispatch_def by (intro keeps_intro plain_intro)

section \<open>ZwpTabletPadRingV2\<close>

definition NewZwpTabletPadRingV2 :: "('k world, ref) go" where
  "NewZwpTabletPadRingV2 = New ZwpTabletPadRingV2"

definition ZwpTabletPadRingV2_SetFeedback :: "'k env \<Rightarrow> ref \<Rightarrow> bytes \<Rightarrow> u32 \<Rightarrow> ('k world, gerr option) go" where
  "ZwpTabletPadRingV2_SetFeedback E i description serial =
     request E i 0 (8 + (4 + str_len description) + 4)
       [PString description (str_len description), PWord serial] []"

definition ZwpTabletPadRingV2_Destroy :: "'k env \<Rightarrow> ref \<Rightarrow> ('k world, gerr option) go" where
  "ZwpTabletPadRingV2_Destroy E i =
     with_defer (MarkZombie i) (request E i 1 (8)
       [] [])"

definition ZwpTabletPadRingV2_SetSourceHandler :: "ref \<Rightarrow> hid option \<Rightarrow> ('k world, unit) go" where
  "ZwpTabletPadRingV2_SetSourceHandler i f = SetHandler i ''sourceHandler'' f"

definition ZwpTabletPadRingV2_SetAngleHandler :: "ref \<Rightarrow> hid option \<Rightarrow> ('k world, unit) go" where
  "ZwpTabletPadRingV2_SetAngleHandler i f = SetHandler i ''angleHandler'' f"

definition ZwpTabletPadRingV2_SetStopHandler :: "ref \<Rightarrow> hid option \<Rightarrow> ('k world, unit) go" where
  "ZwpTabletPadRingV2_SetStopHandler i f = SetHandler i ''stopHandler'' f"

definition ZwpTabletPadRingV2_SetFrameHandler :: "ref \<Rightarrow> hid option \<Rightarrow> ('k world, unit) go" where
  "ZwpTabletPadRingV2_SetFrameHandler i f = SetHandler i ''frameHandler'' f"

definition ZwpTabletPadRingV2_HasFD :: "u32 \<Rightarrow> bool" where
  "ZwpTabletPadRingV2_HasFD opcode = (False)"

definition ZwpTabletPadRingV2_Dispatch :: "'k env \<Rightarrow> ref \<Rightarrow> u32 \<Rightarrow> int \<Rightarrow> bytes \<Rightarrow> ('k world, unit) go" where
  "ZwpTabletPadRingV2_Dispatch E i opcode fd data =
     (if opcode = 0 then event E i ''sourceHandler'' ''ZwpTabletPadRingV2SourceEvent''
          [(''Source'', r_uint data)]
      else if opcode = 1 then event E i ''angleHandler'' ''ZwpTabletPadRingV2AngleEvent''
          [(''Degrees'', r_fixed data)]
      else if opcode = 2 then event E i ''stopHandler'' ''ZwpTabletPadRingV2StopEvent''
          []
      else if opcode = 3 then event E i ''frameHandler'' ''ZwpTabletPadRingV2FrameEvent''
          [(''Time'', r_uint data)]
      else unsupported)"

context client_inv
begin

lemma ZwpTabletPadRingV2_inv:
  "keeps I (NewZwpTabletPadRingV2)"
  "keeps I (ZwpTabletPadRingV2_SetFeedback E i s1 u1)"
  "keeps I (ZwpTabletPadRingV2_Destroy E i)"
  "keeps I (ZwpTabletPadRingV2_SetSourceHandler i f)"
  "keeps I (ZwpTabletPadRingV2_SetAngleHandler i f)"
  "keeps I (ZwpTabletPadRingV2_SetStopHandler i f)"
  "keeps I (ZwpTabletPadRingV2_SetFrameHandler i f)"
  unfolding NewZwpTabletPadRingV2_def ZwpTabletPadRingV2_SetFeedback_def ZwpTabletPadRingV2_Destroy_def ZwpTabletPadRingV2_SetSourceHandler_def ZwpTabletPadRingV2_SetAngleHandler_def ZwpTabletPadRingV2_SetStopHandler_def ZwpTabletPadRingV2_SetFrameHandler_def
  by (intro keeps_intro parts_inv)+

end

lemma ZwpTabletPadRingV2_Dispatch_owns:
  assumes "handlers_return E" "\<not> ZwpTabletPadRingV2_HasFD opcode \<Longrightarrow> fd < 0" "-1 \<le> fd"
  shows "owns fd (ZwpTabletPadRingV2_Dispatch E i opcode fd data)"
  unfolding ZwpTabletPadRingV2_Dispatch_def
  by (intro owns_intro plain_intro) (use assms in \<open>simp_all add: ZwpTabletPadRingV2_HasFD_def\<close>)

lemma ZwpTabletPadRingV2_Dispatch_wf: "handlers_wf E \<Longrightarrow> keeps wf_world (ZwpTabletPadRingV2_Dispatch E i opcode fd data)"
  unfolding ZwpTabletPadRingV2_Dispatch_def by (intro keeps_intro plain_intro)

section \<open>ZwpTabletPadStripV2\<close>

definition NewZwpTabletPadStripV2 :: "('k world, ref) go" where
  "NewZwpTabletPadStripV2 = New ZwpTabletPadStripV2"

definition ZwpTabletPadStripV2_SetFeedback :: "'k env \<Rightarrow> ref \<Rightarrow> bytes \<Rightarrow> u32 \<Rightarrow> ('k world, gerr option) go" where
  "ZwpTabletPadStripV2_SetFeedback E i description serial =
     request E i 0 (8 + (4 + str_len description) + 4)
       [PString description (str_len description), PWord serial] []"

definition ZwpTabletPadStripV2_Destroy :: "'k env \<Rightarrow> ref \<Rightarrow> ('k world, gerr option) go" where
  "ZwpTabletPadStripV2_Destroy E i =
     with_defer (MarkZombie i) (request E i 1 (8)
       [] [])"

definition ZwpTabletPadStripV2_SetSourceHandler :: "ref \<Rightarrow> hid option \<Rightarrow> ('k world, unit) go" where
  "ZwpTabletPadStripV2_SetSourceHandler i f = SetHandler i ''sourceHandler'' f"

definition ZwpTabletPadStripV2_SetPositionHandler :: "ref \<Rightarrow> hid option \<Rightarrow> ('k world, unit) go" where
  "ZwpTabletPadStripV2_SetPositionHandler i f = SetHandler i ''positionHandler'' f"

definition ZwpTabletPadStripV2_SetStopHandler :: "ref \<Rightarrow> hid option \<Rightarrow> ('k world, unit) go" where
  "ZwpTabletPadStripV2_SetStopHandler i f = SetHandler i ''stopHandler'' f"

definition ZwpTabletPadStripV2_SetFrameHandler :: "ref \<Rightarrow> hid option \<Rightarrow> ('k world, unit) go" where
  "ZwpTabletPadStripV2_SetFrameHandler i f = SetHandler i ''frameHandler'' f"

definition ZwpTabletPadStripV2_HasFD :: "u32 \<Rightarrow> bool" where
  "ZwpTabletPadStripV2_HasFD opcode = (False)"

definition ZwpTabletPadStripV2_Dispatch :: "'k env \<Rightarrow> ref \<Rightarrow> u32 \<Rightarrow> int \<Rightarrow> bytes \<Rightarrow> ('k world, unit) go" where
  "ZwpTabletPadStripV2_Dispatch E i opcode fd data =
     (if opcode = 0 then event E i ''sourceHandler'' ''ZwpTabletPadStripV2SourceEvent''
          [(''Source'', r_uint data)]
      else if opcode = 1 then event E i ''positionHandler'' ''ZwpTabletPadStripV2PositionEvent''
          [(''Position'', r_uint data)]
      else if opcode = 2 then event E i ''stopHandler'' ''ZwpTabletPadStripV2StopEvent''
          []
      else if opcode = 3 then event E i ''frameHandler'' ''ZwpTabletPadStripV2FrameEvent''
          [(''Time'', r_uint data)]
      else unsupported)"

context client_inv
begin

lemma ZwpTabletPadStripV2_inv:
  "keeps I (NewZwpTabletPadStripV2)"
  "keeps I (ZwpTabletPadStripV2_SetFeedback E i s1 u1)"
  "keeps I (ZwpTabletPadStripV2_Destroy E i)"
  "keeps I (ZwpTabletPadStripV2_SetSourceHandler i f)"
  "keeps I (ZwpTabletPadStripV2_SetPositionHandler i f)"
  "keeps I (ZwpTabletPadStripV2_SetStopHandler i f)"
  "keeps I (ZwpTabletPadStripV2_SetFrameHandler i f)"
  unfolding NewZwpTabletPadStripV2_def ZwpTabletPadStripV2_SetFeedback_def ZwpTabletPadStripV2_Destroy_def ZwpTabletPadStripV2_SetSourceHandler_def ZwpTabletPadStripV2_SetPositionHandler_def ZwpTabletPadStripV2_SetStopHandler_def ZwpTabletPadStripV2_SetFrameHandler_def
  by (intro keeps_intro parts_inv)+

end

lemma ZwpTabletPadStripV2_Dispatch_owns:
  assumes "handlers_return E" "\<not> ZwpTabletPadStripV2_HasFD opcode \<Longrightarrow> fd < 0" "-1 \<le> fd"
  shows "owns fd (ZwpTabletPadStripV2_Dispatch E i opcode fd data)"
  unfolding ZwpTabletPadStripV2_Dispatch_def
  by (intro owns_intro plain_intro) (use assms in \<open>simp_all add: ZwpTabletPadStripV2_HasFD_def\<close>)

lemma ZwpTabletPadStripV2_Dispatch_wf: "handlers_wf E \<Longrightarrow> keeps wf_world (ZwpTabletPadStripV2_Dispatch E i opcode fd data)"
  unfolding ZwpTabletPadStripV2_Dispatch_def by (intro keeps_intro plain_intro)

section \<open>ZwpTabletPadGroupV2\<close>

definition NewZwpTabletPadGroupV2 :: "('k world, ref) go" where
  "NewZwpTabletPadGroupV2 = New ZwpTabletPadGroupV2"

definition ZwpTabletPadGroupV2_Destroy :: "'k env \<Rightarrow> ref \<Rightarrow> ('k world, gerr option) go" where
  "ZwpTabletPadGroupV2_Destroy E i =
     with_defer (MarkZombie i) (request E i 0 (8)
       [] [])"

definition ZwpTabletPadGroupV2_SetButtonsHandler :: "ref \<Rightarrow> hid option \<Rightarrow> ('k world, unit) go" where
  "ZwpTabletPadGroupV2_SetButtonsHandler i f = SetHandler i ''buttonsHandler'' f"

definition ZwpTabletPadGroupV2_SetRingHandler :: "ref \<Rightarrow> hid option \<Rightarrow> ('k world, unit) go" where
  "ZwpTabletPadGroupV2_SetRingHandler i f = SetHandler i ''ringHandler'' f"

definition ZwpTabletPadGroupV2_SetStripHandler :: "ref \<Rightarrow> hid option \<Rightarrow> ('k world, unit) go" where
  "ZwpTabletPadGroupV2_SetStripHandler i f = SetHandler i ''stripHandler'' f"

definition ZwpTabletPadGroupV2_SetModesHandler :: "ref \<Rightarrow> hid option \<Rightarrow> ('k world, unit) go" where
  "ZwpTabletPadGroupV2_SetModesHandler i f = SetHandler i ''modesHandler'' f"

definition ZwpTabletPadGroupV2_SetDoneHandler :: "ref \<Rightarrow> hid option \<Rightarrow> ('k world, unit) go" where
  "ZwpTabletPadGroupV2_SetDoneHandler i f = SetHandler i ''doneHandler'' f"

definition ZwpTabletPadGroupV2_SetModeSwitchHandler :: "ref \<Rightarrow> hid option \<Rightarrow> ('k world, unit) go" where
  "ZwpTabletPadGroupV2_SetModeSwitchHandler i f = SetHandler i ''modeSwitchHandler'' f"

definition ZwpTabletPadGroupV2_HasFD :: "u32 \<Rightarrow> bool" where
  "ZwpTabletPadGroupV2_HasFD opcode = (False)"

definition ZwpTabletPadGroupV2_Dispatch :: "'k env \<Rightarrow> ref \<Rightarrow> u32 \<Rightarrow> int \<Rightarrow> bytes \<Rightarrow> ('k world, unit) go" where
  "ZwpTabletPadGroupV2_Dispatch E i opcode fd data =
     (if opcode = 0 then event E i ''buttonsHandler'' ''ZwpTabletPadGroupV2ButtonsEvent''
          [(''Buttons'', r_array data)]
      else if opcode = 1 then new_event E i ''ringHandler'' ''ZwpTabletPadGroupV2RingEvent''
          [(''Ring'', r_new i data ZwpTabletPadRingV2)]
      else if opcode = 2 then new_event E i ''stripHandler'' ''ZwpTabletPadGroupV2StripEvent''
          [(''Strip'', r_new i data ZwpTabletPadStripV2)]
      else if opcode = 3 then event E i ''modesHandler'' ''ZwpTabletPadGroupV2ModesEvent''
          [(''Modes'', r_uint data)]
      else if opcode = 4 then event E i ''doneHandler'' ''ZwpTabletPadGroupV2DoneEvent''
          []
      else if opcode = 5 then event E i ''modeSwitchHandler'' ''ZwpTabletPadGroupV2ModeSwitchEvent''
          [(''Time'', r_uint data), (''Serial'', r_uint data), (''Mode'', r_uint data)]
      else unsupported)"

definition ZwpTabletPadGroupV2_AbsorbNewIDs :: "ref \<Rightarrow> u32 \<Rightarrow> bytes \<Rightarrow> ('k world, unit) go" where
  "ZwpTabletPadGroupV2_AbsorbNewIDs i opcode data =
     (if opcode = 1 then andthen (absorb_new i data ZwpTabletPadRingV2 0) (ret ())
      else if opcode = 2 then andthen (absorb_new i data ZwpTabletPadStripV2 0) (ret ())
      else ret ())"

context client_inv
begin

lemma ZwpTabletPadGroupV2_inv:
  "keeps I (NewZwpTabletPadGroupV2)"
  "keeps I (ZwpTabletPadGroupV2_Destroy E i)"
  "keeps I (ZwpTabletPadGroupV2_SetButtonsHandler i f)"
  "keeps I (ZwpTabletPadGroupV2_SetRingHandler i f)"
  "keeps I (ZwpTabletPadGroupV2_SetStripHandler i f)"
  "keeps I (ZwpTabletPadGroupV2_SetModesHandler i f)"
  "keeps I (ZwpTabletPadGroupV2_SetDoneHandler i f)"
  "keeps I (ZwpTabletPadGroupV2_SetModeSwitchHandler i f)"
  unfolding NewZwpTabletPadGroupV2_def ZwpTabletPadGroupV2_Destroy_def ZwpTabletPadGroupV2_SetButtonsHandler_def ZwpTabletPadGroupV2_SetRingHandler_def ZwpTabletPadGroupV2_SetStripHandler_def ZwpTabletPadGroupV2_SetModesHandler_def ZwpTabletPadGroupV2_SetDoneHandler_def ZwpTabletPadGroupV2_SetModeSwitchHandler_def
  by (intro keeps_intro parts_inv)+

end

lemma ZwpTabletPadGroupV2_Dispatch_owns:
  assumes "handlers_return E" "\<not> ZwpTabletPadGroupV2_HasFD opcode \<Longrightarrow> fd < 0" "-1 \<le> fd"
  shows "owns fd (ZwpTabletPadGroupV2_Dispatch E i opcode fd data)"
  unfolding ZwpTabletPadGroupV2_Dispatch_def
  by (intro owns_intro plain_intro) (use assms in \<open>simp_all add: ZwpTabletPadGroupV2_HasFD_def\<close>)

lemma ZwpTabletPadGroupV2_Dispatch_wf: "handlers_wf E \<Longrightarrow> keeps wf_world (ZwpTabletPadGroupV2_Dispatch E i opcode fd data)"
  unfolding ZwpTabletPadGroupV2_Dispatch_def by (intro keeps_intro plain_intro)

lemma ZwpTabletPadGroupV2_AbsorbNewIDs_keeps:
  "keeps wf_world (ZwpTabletPadGroupV2_AbsorbNewIDs i opcode data)"
  "keeps (fd_bal X) (ZwpTabletPadGroupV2_AbsorbNewIDs i opcode data)"
  unfolding ZwpTabletPadGroupV2_AbsorbNewIDs_def by (intro keeps_intro)+

section \<open>ZwpTabletPadV2\<close>

definition NewZwpTabletPadV2 :: "('k world, ref) go" where
  "NewZwpTabletPadV2 = New ZwpTabletPadV2"

definition ZwpTabletPadV2_SetFeedback :: "'k env \<Rightarrow> ref \<Rightarrow> u32 \<Rightarrow> bytes \<Rightarrow> u32 \<Rightarrow> ('k world, gerr option) go" where
  "ZwpTabletPadV2_SetFeedback E i button description serial =
     request E i 0 (8 + 4 + (4 + str_len description) + 4)
       [PWord button, PString description (str_len description), PWord serial] []"

definition ZwpTabletPadV2_Destroy :: "'k env \<Rightarrow> ref \<Rightarrow> ('k world, gerr option) go" where
  "ZwpTabletPadV2_Destroy E i =
     with_defer (MarkZombie i) (request E i 1 (8)
       [] [])"

definition ZwpTabletPadV2_SetGroupHandler :: "ref \<Rightarrow> hid option \<Rightarrow> ('k world, unit) go" where
  "ZwpTabletPadV2_SetGroupHandler i f = SetHandler i ''groupHandler'' f"

definition ZwpTabletPadV2_SetPathHandler :: "ref \<Rightarrow> hid option \<Rightarrow> ('k world, unit) go" where
  "ZwpTabletPadV2_SetPathHandler i f = SetHandler i ''pathHandler'' f"

definition ZwpTabletPadV2_SetButtonsHandler :: "ref \<Rightarrow> hid option \<Rightarrow> ('k world, unit) go" where
  "ZwpTabletPadV2_SetButtonsHandler i f = SetHandler i ''buttonsHandler'' f"

definition ZwpTabletPadV2_SetDoneHandler :: "ref \<Rightarrow> hid option \<Rightarrow> ('k world, unit) go" where
  "ZwpTabletPadV2_SetDoneHandler i f = SetHandler i ''doneHandler'' f"

definition ZwpTabletPadV2_SetButtonHandler :: "ref \<Rightarrow> hid option \<Rightarrow> ('k world, unit) go" where
  "ZwpTabletPadV2_SetButtonHandler i f = SetHandler i ''buttonHandler'' f"

definition ZwpTabletPadV2_SetEnterHandler :: "ref \<Rightarrow> hid option \<Rightarrow> ('k world, unit) go" where
  "ZwpTabletPadV2_SetEnterHandler i f = SetHandler i ''enterHandler'' f"

definition ZwpTabletPadV2_SetLeaveHandler :: "ref \<Rightarrow> hid option \<Rightarrow> ('k world, unit) go" where
  "ZwpTabletPadV2_SetLeaveHandler i f = SetHandler i ''leaveHandler'' f"

definition ZwpTabletPadV2_SetRemovedHandler :: "ref \<Rightarrow> hid option \<Rightarrow> ('k world, unit) go" where
  "ZwpTabletPadV2_SetRemovedHandler i f = SetHandler i ''removedHandler'' f"

definition ZwpTabletPadV2_HasFD :: "u32 \<Rightarrow> bool" where
  "ZwpTabletPadV2_HasFD opcode = (False)"

definition ZwpTabletPadV2_Dispatch :: "'k env \<Rightarrow> ref \<Rightarrow> u32 \<Rightarrow> int \<Rightarrow> bytes \<Rightarrow> ('k world, unit) go" where
  "ZwpTabletPadV2_Dispatch E i opcode fd data =
     (if opcode = 0 then new_event E i ''groupHandler'' ''ZwpTabletPadV2GroupEvent''
          [(''PadGroup'', r_new i data ZwpTabletPadGroupV2)]
      else if opcode = 1 then event E i ''pathHandler'' ''ZwpTabletPadV2PathEvent''
          [(''Path'', r_string data)]
      else if opcode = 2 then event E i ''buttonsHandler'' ''ZwpTabletPadV2ButtonsEvent''
          [(''Buttons'', r_uint data)]
      else if opcode = 3 then event E i ''doneHandler'' ''ZwpTabletPadV2DoneEvent''
          []
      else if opcode = 4 then event E i ''buttonHandler'' ''ZwpTabletPadV2ButtonEvent''
          [(''Time'', r_uint data), (''Button'', r_uint data), (''State'', r_uint data)]
      else if opcode = 5 then event E i ''enterHandler'' ''ZwpTabletPadV2EnterEvent''
          [(''Serial'', r_uint data), (''Tablet'', r_obj i data ZwpTabletV2), (''Surface'', r_obj i data Surface)]
      else if opcode = 6 then event E i ''leaveHandler'' ''ZwpTabletPadV2LeaveEvent''
          [(''Serial'', r_uint data), (''Surface'', r_obj i data Surface)]
      else if opcode = 7 then event E i ''removedHandler'' ''ZwpTabletPadV2RemovedEvent''
          []
      else unsupported)"

definition ZwpTabletPadV2_AbsorbNewIDs :: "ref \<Rightarrow> u32 \<Rightarrow> bytes \<Rightarrow> ('k world, unit) go" where
  "ZwpTabletPadV2_AbsorbNewIDs i opcode data =
     (if opcode = 0 then andthen (absorb_new i data ZwpTabletPadGroupV2 0) (ret ())
      else ret ())"

context client_inv
begin

lemma ZwpTabletPadV2_inv:
  "keeps I (NewZwpTabletPadV2)"
  "keeps I (ZwpTabletPadV2_SetFeedback E i u1 s1 u2)"
  "keeps I (ZwpTabletPadV2_Destroy E i)"
  "keeps I (ZwpTabletPadV2_SetGroupHandler i f)"
  "keeps I (ZwpTabletPadV2_SetPathHandler i f)"
  "keeps I (ZwpTabletPadV2_SetButtonsHandler i f)"
  "keeps I (ZwpTabletPadV2_SetDoneHandler i f)"
  "keeps I (ZwpTabletPadV2_SetButtonHandler i f)"
  "keeps I (ZwpTabletPadV2_SetEnterHandler i f)"
  "keeps I (ZwpTabletPadV2_SetLeaveHandler i f)"
  "keeps I (ZwpTabletPadV2_SetRemovedHandler i f)"
  unfolding NewZwpTabletPadV2_def ZwpTabletPadV2_SetFeedback_def ZwpTabletPadV2_Destroy_def ZwpTabletPadV2_SetGroupHandler_def ZwpTabletPadV2_SetPathHandler_def ZwpTabletPadV2_SetButtonsHandler_def ZwpTabletPadV2_SetDoneHandler_def ZwpTabletPadV2_SetButtonHandler_def ZwpTabletPadV2_SetEnterHandler_def ZwpTabletPadV2_SetLeaveHandler_def ZwpTabletPadV2_SetRemovedHandler_def
  by (intro keeps_intro parts_inv)+

end

lemma ZwpTabletPadV2_Dispatch_owns:
  assumes "handlers_return E" "\<not> ZwpTabletPadV2_HasFD opcode \<Longrightarrow> fd < 0" "-1 \<le> fd"
  shows "owns fd (ZwpTabletPadV2_Dispatch E i opcode fd data)"
  unfolding ZwpTabletPadV2_Dispatch_def
  by (intro owns_intro plain_intro) (use assms in \<open>simp_all add: ZwpTabletPadV2_HasFD_def\<close>)

lemma ZwpTabletPadV2_Dispatch_wf: "handlers_wf E \<Longrightarrow> keeps wf_world (ZwpTabletPadV2_Dispatch E i opcode fd data)"
  unfolding ZwpTabletPadV2_Dispatch_def by (intro keeps_intro plain_intro)

lemma ZwpTabletPadV2_AbsorbNewIDs_keeps:
  "keeps wf_world (ZwpTabletPadV2_AbsorbNewIDs i opcode data)"
  "keeps (fd_bal X) (ZwpTabletPadV2_AbsorbNewIDs i opcode data)"
  unfolding ZwpTabletPadV2_AbsorbNewIDs_def by (intro keeps_intro)+

section \<open>Calls of the application\<close>

text \<open>The constructors, setters and requests of this file as operations on a world.\<close>

inductive tablet_op :: "'k env \<Rightarrow> ('k world, unit) go \<Rightarrow> bool" for E where
  "tablet_op E (discard (NewZwpTabletManagerV2))"
| "tablet_op E (discard (ZwpTabletManagerV2_GetTabletSeat E i r1))"
| "tablet_op E (discard (ZwpTabletManagerV2_Destroy E i))"
| "tablet_op E (discard (NewZwpTabletSeatV2))"
| "tablet_op E (discard (ZwpTabletSeatV2_Destroy E i))"
| "tablet_op E (discard (ZwpTabletSeatV2_SetTabletAddedHandler i f))"
| "tablet_op E (discard (ZwpTabletSeatV2_SetToolAddedHandler i f))"
| "tablet_op E (discard (ZwpTabletSeatV2_SetPadAddedHandler i f))"
| "tablet_op E (discard (NewZwpTabletToolV2))"
| "tablet_op E (discard (ZwpTabletToolV2_SetCursor E i u1 r1 u2 u3))"
| "tablet_op E (discard (ZwpTabletToolV2_Destroy E i))"
| "tablet_op E (discard (ZwpTabletToolV2_SetTypeHandler i f))"
| "tablet_op E (discard (ZwpTabletToolV2_SetHardwareSerialHandler i f))"
| "tablet_op E (discard (ZwpTabletToolV2_SetHardwareIdWacomHandler i f))"
| "tablet_op E (discard (ZwpTabletToolV2_SetCapabilityHandler i f))"
| "tablet_op E (discard (ZwpTabletToolV2_SetDoneHandler i f))"
| "tablet_op E (discard (ZwpTabletToolV2_SetRemovedHandler i f))"
| "tablet_op E (discard (ZwpTabletToolV2_SetProximityInHandler i f))"
| "tablet_op E (discard (ZwpTabletToolV2_SetProximityOutHandler i f))"
| "tablet_op E (discard (ZwpTabletToolV2_SetDownHandler i f))"
| "tablet_op E (discard (ZwpTabletToolV2_SetUpHandler i f))"
| "tablet_op E (discard (ZwpTabletToolV2_SetMotionHandler i f))"
| "tablet_op E (discard (ZwpTabletToolV2_SetPressureHandler i f))"
| "tablet_op E (discard (ZwpTabletToolV2_SetDistanceHandler i f))"
| "tablet_op E (discard (ZwpTabletToolV2_SetTiltHandler i f))"
| "tablet_op E (discard (ZwpTabletToolV2_SetRotationHandler i f))"
| "tablet_op E (discard (ZwpTabletToolV2_SetSliderHandler i f))"
| "tablet_op E (discard (ZwpTabletToolV2_SetWheelHandler i f))"
| "tablet_op E (discard (ZwpTabletToolV2_SetButtonHandler i f))"
| "tablet_op E (discard (ZwpTabletToolV2_SetFrameHandler i f))"
| "tablet_op E (discard (NewZwpTabletV2))"
| "tablet_op E (discard (ZwpTabletV2_Destroy E i))"
| "tablet_op E (discard (ZwpTabletV2_SetNameHandler i f))"
| "tablet_op E (discard (ZwpTabletV2_SetIdHandler i f))"
| "tablet_op E (discard (ZwpTabletV2_SetPathHandler i f))"
| "tablet_op E (discard (ZwpTabletV2_SetDoneHandler i f))"
| "tablet_op E (discard (ZwpTabletV2_SetRemovedHandler i f))"
| "tablet_op E (discard (NewZwpTabletPadRingV2))"
| "tablet_op E (discard (ZwpTabletPadRingV2_SetFeedback E i s1 u1))"
| "tablet_op E (discard (ZwpTabletPadRingV2_Destroy E i))"
| "tablet_op E (discard (ZwpTabletPadRingV2_SetSourceHandler i f))"
| "tablet_op E (discard (ZwpTabletPadRingV2_SetAngleHandler i f))"
| "tablet_op E (discard (ZwpTabletPadRingV2_SetStopHandler i f))"
| "tablet_op E (discard (ZwpTabletPadRingV2_SetFrameHandler i f))"
| "tablet_op E (discard (NewZwpTabletPadStripV2))"
| "tablet_op E (discard (ZwpTabletPadStripV2_SetFeedback E i s1 u1))"
| "tablet_op E (discard (ZwpTabletPadStripV2_Destroy E i))"
| "tablet_op E (discard (ZwpTabletPadStripV2_SetSourceHandler i f))"
| "tablet_op E (discard (ZwpTabletPadStripV2_SetPositionHandler i f))"
| "tablet_op E (discard (ZwpTabletPadStripV2_SetStopHandler i f))"
| "tablet_op E (discard (ZwpTabletPadStripV2_SetFrameHandler i f))"
| "tablet_op E (discard (NewZwpTabletPadGroupV2))"
| "tablet_op E (discard (ZwpTabletPadGroupV2_Destroy E i))"
| "tablet_op E (discard (ZwpTabletPadGroupV2_SetButtonsHandler i f))"
| "tablet_op E (discard (ZwpTabletPadGroupV2_SetRingHandler i f))"
| "tablet_op E (discard (ZwpTabletPadGroupV2_SetStripHandler i f))"
| "tablet_op E (discard (ZwpTabletPadGroupV2_SetModesHandler i f))"
| "tablet_op E (discard (ZwpTabletPadGroupV2_SetDoneHandler i f))"
| "tablet_op E (discard (ZwpTabletPadGroupV2_SetModeSwitchHandler i f))"
| "tablet_op E (discard (NewZwpTabletPadV2))"
| "tablet_op E (discard (ZwpTabletPadV2_SetFeedback E i u1 s1 u2))"
| "tablet_op E (discard (ZwpTabletPadV2_Destroy E i))"
| "tablet_op E (discard (ZwpTabletPadV2_SetGroupHandler i f))"
| "tablet_op E (discard (ZwpTabletPadV2_SetPathHandler i f))"
| "tablet_op E (discard (ZwpTabletPadV2_SetButtonsHandler i f))"
| "tablet_op E (discard (ZwpTabletPadV2_SetDoneHandler i f))"
| "tablet_op E (discard (ZwpTabletPadV2_SetButtonHandler i f))"
| "tablet_op E (discard (ZwpTabletPadV2_SetEnterHandler i f))"
| "tablet_op E (discard (ZwpTabletPadV2_SetLeaveHandler i f))"
| "tablet_op E (discard (ZwpTabletPadV2_SetRemovedHandler i f))"

context client_inv
begin

lemma tablet_op_inv: "tablet_op E m \<Longrightarrow> keeps I m"
  by (erule tablet_op.cases) (auto intro!: keeps_discard intro: ZwpTabletManagerV2_inv ZwpTabletSeatV2_inv ZwpTabletToolV2_inv ZwpTabletV2_inv ZwpTabletPadRingV2_inv ZwpTabletPadStripV2_inv ZwpTabletPadGroupV2_inv ZwpTabletPadV2_inv)

end

end
