(* ===== verification/Bindings.thy ===== *)
theory Bindings
  imports Dispatch_Loop Bind_Core Bind_Data Bind_Surface Bind_Input Bind_Ext Bind_Tablet
begin

text \<open>
  The method table of the generated types: which of the optional interfaces of client/common.go
  each proxy type implements, as the generated methods declare it. An interface without events has
  no dispatcher, and neither has an application type that only embeds \<open>BaseProxy\<close>. The table
  satisfies the contract of the loop, so what \<open>Dispatch_Loop\<close> shows holds for the client.
\<close>

definition events :: "(u32 \<Rightarrow> bool) \<Rightarrow> ('k env \<Rightarrow> ref \<Rightarrow> u32 \<Rightarrow> int \<Rightarrow> bytes \<Rightarrow> ('k world, unit) go) \<Rightarrow> 'k methods" where
  "events h d = \<lparr>m_HasFD = Some h, m_Dispatch = Some d, m_Absorb = None\<rparr>"

definition generated :: "iface \<Rightarrow> 'k methods" where
  "generated t = (case t of
      Display \<Rightarrow> events Display_HasFD Display_Dispatch
    | Registry \<Rightarrow> events Registry_HasFD Registry_Dispatch
    | Callback \<Rightarrow> events Callback_HasFD Callback_Dispatch
    | Shm \<Rightarrow> events Shm_HasFD Shm_Dispatch
    | Buffer \<Rightarrow> events Buffer_HasFD Buffer_Dispatch
    | DataOffer \<Rightarrow> events DataOffer_HasFD DataOffer_Dispatch
    | DataSource \<Rightarrow> events DataSource_HasFD DataSource_Dispatch
    | DataDevice \<Rightarrow> (events DataDevice_HasFD DataDevice_Dispatch)\<lparr>m_Absorb := Some DataDevice_AbsorbNewIDs\<rparr>
    | ShellSurface \<Rightarrow> events ShellSurface_HasFD ShellSurface_Dispatch
    | Surface \<Rightarrow> events Surface_HasFD Surface_Dispatch
    | Seat \<Rightarrow> events Seat_HasFD Seat_Dispatch
    | Pointer \<Rightarrow> events Pointer_HasFD Pointer_Dispatch
    | Keyboard \<Rightarrow> events Keyboard_HasFD Keyboard_Dispatch
    | Touch \<Rightarrow> events Touch_HasFD Touch_Dispatch
    | Output \<Rightarrow> events Output_HasFD Output_Dispatch
    | ExtIdleNotificationV1 \<Rightarrow> events ExtIdleNotificationV1_HasFD ExtIdleNotificationV1_Dispatch
    | ExtSessionLockV1 \<Rightarrow> events ExtSessionLockV1_HasFD ExtSessionLockV1_Dispatch
    | ExtSessionLockSurfaceV1 \<Rightarrow> events ExtSessionLockSurfaceV1_HasFD ExtSessionLockSurfaceV1_Dispatch
    | ZwpTextInputV3 \<Rightarrow> events ZwpTextInputV3_HasFD ZwpTextInputV3_Dispatch
    | ZwpTabletSeatV2 \<Rightarrow> (events ZwpTabletSeatV2_HasFD ZwpTabletSeatV2_Dispatch)\<lparr>m_Absorb := Some ZwpTabletSeatV2_AbsorbNewIDs\<rparr>
    | ZwpTabletToolV2 \<Rightarrow> events ZwpTabletToolV2_HasFD ZwpTabletToolV2_Dispatch
    | ZwpTabletV2 \<Rightarrow> events ZwpTabletV2_HasFD ZwpTabletV2_Dispatch
    | ZwpTabletPadRingV2 \<Rightarrow> events ZwpTabletPadRingV2_HasFD ZwpTabletPadRingV2_Dispatch
    | ZwpTabletPadStripV2 \<Rightarrow> events ZwpTabletPadStripV2_HasFD ZwpTabletPadStripV2_Dispatch
    | ZwpTabletPadGroupV2 \<Rightarrow> (events ZwpTabletPadGroupV2_HasFD ZwpTabletPadGroupV2_Dispatch)\<lparr>m_Absorb := Some ZwpTabletPadGroupV2_AbsorbNewIDs\<rparr>
    | ZwpTabletPadV2 \<Rightarrow> (events ZwpTabletPadV2_HasFD ZwpTabletPadV2_Dispatch)\<lparr>m_Absorb := Some ZwpTabletPadV2_AbsorbNewIDs\<rparr>
    | _ \<Rightarrow> no_methods)"

lemmas generated_owns =
  Registry_Dispatch_owns
  Callback_Dispatch_owns
  Shm_Dispatch_owns
  Buffer_Dispatch_owns
  DataOffer_Dispatch_owns
  DataSource_Dispatch_owns
  DataDevice_Dispatch_owns
  ShellSurface_Dispatch_owns
  Surface_Dispatch_owns
  Seat_Dispatch_owns
  Pointer_Dispatch_owns
  Keyboard_Dispatch_owns
  Touch_Dispatch_owns
  Output_Dispatch_owns
  ExtIdleNotificationV1_Dispatch_owns
  ExtSessionLockV1_Dispatch_owns
  ExtSessionLockSurfaceV1_Dispatch_owns
  ZwpTextInputV3_Dispatch_owns
  ZwpTabletSeatV2_Dispatch_owns
  ZwpTabletToolV2_Dispatch_owns
  ZwpTabletV2_Dispatch_owns
  ZwpTabletPadRingV2_Dispatch_owns
  ZwpTabletPadStripV2_Dispatch_owns
  ZwpTabletPadGroupV2_Dispatch_owns
  ZwpTabletPadV2_Dispatch_owns

lemmas generated_wf =
  Display_Dispatch_wf
  Registry_Dispatch_wf
  Callback_Dispatch_wf
  Shm_Dispatch_wf
  Buffer_Dispatch_wf
  DataOffer_Dispatch_wf
  DataSource_Dispatch_wf
  DataDevice_Dispatch_wf
  ShellSurface_Dispatch_wf
  Surface_Dispatch_wf
  Seat_Dispatch_wf
  Pointer_Dispatch_wf
  Keyboard_Dispatch_wf
  Touch_Dispatch_wf
  Output_Dispatch_wf
  ExtIdleNotificationV1_Dispatch_wf
  ExtSessionLockV1_Dispatch_wf
  ExtSessionLockSurfaceV1_Dispatch_wf
  ZwpTextInputV3_Dispatch_wf
  ZwpTabletSeatV2_Dispatch_wf
  ZwpTabletToolV2_Dispatch_wf
  ZwpTabletV2_Dispatch_wf
  ZwpTabletPadRingV2_Dispatch_wf
  ZwpTabletPadStripV2_Dispatch_wf
  ZwpTabletPadGroupV2_Dispatch_wf
  ZwpTabletPadV2_Dispatch_wf

lemmas generated_absorb =
  DataDevice_AbsorbNewIDs_keeps
  ZwpTabletSeatV2_AbsorbNewIDs_keeps
  ZwpTabletPadGroupV2_AbsorbNewIDs_keeps
  ZwpTabletPadV2_AbsorbNewIDs_keeps

lemma absorb_quiet:
  "keeps (quiet H) (DataDevice_AbsorbNewIDs i opcode data)"
  "keeps (quiet H) (ZwpTabletSeatV2_AbsorbNewIDs i opcode data)"
  "keeps (quiet H) (ZwpTabletPadGroupV2_AbsorbNewIDs i opcode data)"
  "keeps (quiet H) (ZwpTabletPadV2_AbsorbNewIDs i opcode data)"
  unfolding DataDevice_AbsorbNewIDs_def ZwpTabletSeatV2_AbsorbNewIDs_def ZwpTabletPadGroupV2_AbsorbNewIDs_def ZwpTabletPadV2_AbsorbNewIDs_def
  by (intro keeps_intro)+

lemma generated_dispatch_owns:
  assumes "handlers_return E" "m_Dispatch (generated t) = Some d"
    "\<And>h. m_HasFD (generated t) = Some h \<Longrightarrow> \<not> h opcode \<Longrightarrow> fd < 0" "-1 \<le> fd"
  shows "owns fd (d E i opcode fd data)"
proof (cases "t = Display")
  case True
  then show ?thesis using assms by (auto simp: generated_def events_def Display_HasFD_def intro!: Display_Dispatch_owns)
next
  case False
  then show ?thesis
    using assms by (cases t) (auto simp: generated_def events_def no_methods_def intro!: generated_owns)
qed

lemma generated_dispatch_wf:
  assumes "handlers_wf E" "m_Dispatch (generated t) = Some d"
  shows "keeps wf_world (d E i opcode fd data)"
  using assms by (cases t) (auto simp: generated_def events_def no_methods_def intro!: generated_wf)

lemma generated_absorb_cases:
  assumes "m_Absorb (generated t) = Some a"
  shows "a \<in> {DataDevice_AbsorbNewIDs, ZwpTabletSeatV2_AbsorbNewIDs, ZwpTabletPadGroupV2_AbsorbNewIDs, ZwpTabletPadV2_AbsorbNewIDs}"
  using assms by (cases t) (auto simp: generated_def events_def no_methods_def)

interpretation gen: dispatcher generated
proof
  show "owns fd (d E i opcode fd data)"
    if "handlers_return E" "m_Dispatch (generated t) = Some d"
      "\<And>h. m_HasFD (generated t) = Some h \<Longrightarrow> \<not> h opcode \<Longrightarrow> fd < 0" "-1 \<le> fd"
    for E :: "'a env" and t d opcode fd i data
    by (rule generated_dispatch_owns [OF that])
  show "keeps wf_world (d E i opcode fd data)" if "handlers_wf E" "m_Dispatch (generated t) = Some d"
    for E :: "'a env" and t d opcode fd i data
    by (rule generated_dispatch_wf [OF that])
  show "keeps wf_world (a i opcode data)" if "m_Absorb (generated t) = Some a"
    for t and a :: "ref \<Rightarrow> u32 \<Rightarrow> bytes \<Rightarrow> ('a world, unit) go" and i opcode data
    using generated_absorb_cases [OF that] by (auto intro: generated_absorb)
  show "keeps (fd_bal X) (a i opcode data)" if "m_Absorb (generated t) = Some a"
    for t and a :: "ref \<Rightarrow> u32 \<Rightarrow> bytes \<Rightarrow> ('a world, unit) go" and X i opcode data
    using generated_absorb_cases [OF that] by (auto intro: generated_absorb)
  show "keeps (quiet H) (a i opcode data)" if "m_Absorb (generated t) = Some a"
    for t and a :: "ref \<Rightarrow> u32 \<Rightarrow> bytes \<Rightarrow> ('a world, unit) go" and H i opcode data
    using generated_absorb_cases [OF that] by (auto intro: absorb_quiet)
qed

end
