(* ===== verification/Id_Pool.thy ===== *)
theory Id_Pool
  imports Id_Allocator
begin

text \<open>
  Two views of the object map as an allocator. The locale \<open>id_pool\<close> is the contract a user of the
  allocator relies on (an acquired ID is not in use; a released one is), interpreted on \<open>New\<close> and
  \<open>DeleteID\<close>. The relation \<open>alloc_run\<close> follows a connection through any sequence of object
  creations, server introductions, local destructions and acknowledged deletions, with the peak
  number of client IDs in use, and shows that the ID counter never exceeds that peak.
\<close>

section \<open>The contract of an ID pool\<close>

locale id_pool =
  fixes used :: "'s \<Rightarrow> u32 set"
    and inv :: "'s \<Rightarrow> bool"
    and acquire :: "'s \<Rightarrow> (u32 \<times> 's) option"
    and release :: "u32 \<Rightarrow> 's \<Rightarrow> 's"
  assumes acquire_fresh: "inv s \<Longrightarrow> acquire s = Some (n, s') \<Longrightarrow> n \<notin> used s"
    and acquire_used: "inv s \<Longrightarrow> acquire s = Some (n, s') \<Longrightarrow> used s' = insert n (used s)"
    and acquire_inv: "inv s \<Longrightarrow> acquire s = Some (n, s') \<Longrightarrow> inv s'"
    and release_used: "inv s \<Longrightarrow> used (release n s) = used s - {n}"
    and release_inv: "inv s \<Longrightarrow> inv (release n s)"
begin

fun acquire_many :: "nat \<Rightarrow> 's \<Rightarrow> (u32 list \<times> 's) option" where
  "acquire_many 0 s = Some ([], s)"
| "acquire_many (Suc k) s =
     (case acquire s of None \<Rightarrow> None
      | Some (n, s') \<Rightarrow> (case acquire_many k s' of None \<Rightarrow> None | Some (ns, s'') \<Rightarrow> Some (n # ns, s'')))"

lemma acquire_many_distinct:
  "inv s \<Longrightarrow> acquire_many k s = Some (ns, s') \<Longrightarrow>
   distinct ns \<and> set ns \<inter> used s = {} \<and> used s' = used s \<union> set ns \<and> inv s'"
proof (induction k arbitrary: s ns)
  case (Suc k)
  from Suc.prems(2) obtain n s1 ns1 where a: "acquire s = Some (n, s1)"
    and r: "acquire_many k s1 = Some (ns1, s')" and ns: "ns = n # ns1"
    by (auto split: option.splits)
  have s1: "n \<notin> used s" "used s1 = insert n (used s)" "inv s1"
    using Suc.prems(1) a acquire_fresh acquire_used acquire_inv by blast+
  from Suc.IH [OF s1(3) r] s1 show ?case by (auto simp: ns)
qed auto

lemma release_then_unused: "inv s \<Longrightarrow> n \<notin> used (release n s)"
  by (simp add: release_used)

end

section \<open>The object map is a pool of client IDs\<close>

definition client_ids :: "'k world \<Rightarrow> u32 set" where
  "client_ids w = {n. n < firstServerID \<and> objects w n \<noteq> None}"

text \<open>Creating an object of type \<open>t\<close>, with the ID it got.\<close>

definition create :: "iface \<Rightarrow> 'k world \<Rightarrow> (u32 \<times> 'k world) option" where
  "create t w = (case bnd (New t) ID w of (Inl p, w') \<Rightarrow> None | (Inr n, w') \<Rightarrow> Some (n, w'))"

definition delete_id :: "u32 \<Rightarrow> 'k world \<Rightarrow> 'k world" where
  "delete_id n w = snd (DeleteID n w)"

lemma registered_as_ID: "registered_as r p n w w' \<Longrightarrow> ID r w' = (Inr n, w')"
  by (simp add: registered_as_def ID_def bnd_def deref_def)

lemma registered_as_client_ids:
  "registered_as r p n (after_alloc t w) w' \<Longrightarrow> n < firstServerID \<Longrightarrow> client_ids w' = insert n (client_ids w)"
  unfolding registered_as_def client_ids_def by auto

lemma create_outcome:
  assumes "wf_world w" and "create t w = Some (n, w')"
  shows "n \<notin> client_ids w \<and> client_ids w' = insert n (client_ids w) \<and> wf_world w' \<and> n \<noteq> 0"
proof (cases rule: New_outcome [OF assms(1), of t])
  case 1
  then show ?thesis using assms(2) by (simp add: create_def bnd_run_Inl)
next
  case (2 m w1)
  then have "bnd (New t) ID w = (Inr m, w1)"
    using registered_as_ID [OF 2(2)] by (simp add: bnd_run_Inr)
  then have "n = m" "w' = w1" using assms(2) by (simp_all add: create_def)
  then show ?thesis using 2 registered_as_client_ids [OF 2(2,4)] by (auto simp: client_ids_def)
qed

lemma delete_id_outcome:
  assumes "wf_world w"
  shows "client_ids (delete_id n w) = client_ids w - {n}" and "wf_world (delete_id n w)"
proof -
  show "wf_world (delete_id n w)"
    unfolding delete_id_def using keeps_DeleteID assms by (rule keepsD)
  show "client_ids (delete_id n w) = client_ids w - {n}"
    by (cases "objects w n = None")
      (auto simp: delete_id_def client_ids_def DeleteID_unknown DeleteID_known)
qed

interpretation pool: id_pool client_ids wf_world "create t" delete_id for t
  by unfold_locales (use create_outcome delete_id_outcome in blast)+

section \<open>The counter is the peak\<close>

inductive alloc_run :: "'k world \<Rightarrow> nat \<Rightarrow> bool" where
  connected: "New Display (empty_world k) = (Inr r, w) \<Longrightarrow> alloc_run w 1"
| created: "alloc_run w pk \<Longrightarrow> New t w = (res, w') \<Longrightarrow> alloc_run w' (max pk (card (client_ids w')))"
| introduced: "alloc_run w pk \<Longrightarrow> NewWithID t n w = (res, w') \<Longrightarrow> alloc_run w' pk"
| destroyed: "alloc_run w pk \<Longrightarrow> MarkZombie q w = (zres, w') \<Longrightarrow> alloc_run w' pk"
| deleted: "alloc_run w pk \<Longrightarrow> n \<noteq> 1 \<Longrightarrow> DeleteID n w = (dres, w') \<Longrightarrow> alloc_run w' pk"

text \<open>Every allocated ID is in use or on the free list.\<close>

definition accounted :: "'k world \<Rightarrow> bool" where
  "accounted w \<longleftrightarrow> unat (currentID w) = card (client_ids w) + length (freeIDs w)"

lemma accounted_New:
  assumes wf: "wf_world w" and acc: "accounted w" and new: "New t w = (res, w')"
  shows "accounted w' \<and> unat (currentID w') = max (unat (currentID w)) (card (client_ids w'))"
proof (cases rule: New_outcome [OF wf, of t])
  case 1
  then show ?thesis using acc new by (auto simp: accounted_def client_ids_def)
next
  case (2 n w1)
  have w1: "w' = w1" using new 2(1) by simp
  have "n \<notin> client_ids w" using 2(5) by (simp add: client_ids_def)
  then have card: "card (client_ids w') = card (client_ids w) + 1"
    using registered_as_client_ids [OF 2(2,4)] w1 by simp
  show ?thesis
  proof (cases "freeIDs w = []")
    case True
    from 2(8) [OF this] have "unat (currentID w1) = unat (currentID w) + 1" "freeIDs w1 = []" by blast+
    then show ?thesis using True acc card w1 by (simp add: accounted_def)
  next
    case False
    then show ?thesis using 2(7) acc card w1
      by (cases "freeIDs w") (auto simp: accounted_def)
  qed
qed

lemma accounted_cong:
  "client_ids w' = client_ids w \<Longrightarrow> freeIDs w' = freeIDs w \<Longrightarrow> currentID w' = currentID w \<Longrightarrow>
   accounted w' = accounted w"
  by (simp add: accounted_def)

lemma NewWithID_frame:
  assumes "wf_world w" "NewWithID t n w = (res, w')"
  shows "client_ids w' = client_ids w \<and> freeIDs w' = freeIDs w \<and> currentID w' = currentID w"
  by (rule RegisterWithID_outcome [OF after_alloc_wf [OF assms(1)] after_alloc_cell
        after_alloc_unregistered [OF assms(1)], of n t])
    (use assms(2) in \<open>auto simp: NewWithID_alt andthen_run_Inl andthen_run_Inr client_ids_def registered_as_def\<close>)

lemma MarkZombie_frame:
  "MarkZombie q w = (res, w') \<Longrightarrow>
   objects w' = objects w \<and> freeIDs w' = freeIDs w \<and> currentID w' = currentID w"
  by (auto simp: MarkZombie_def bnd_def deref_def split: option.splits)

lemma accounted_DeleteID:
  assumes wf: "wf_world w" and acc: "accounted w" and n: "n \<noteq> 1" and del: "DeleteID n w = (res, w')"
  shows "accounted w' \<and> currentID w' = currentID w"
proof (cases "objects w n = None")
  case True
  then show ?thesis using acc del by (simp add: DeleteID_unknown)
next
  case False
  have w': "w' = w\<lparr>objects := (objects w)(n := None),
     freeIDs := freeIDs w @ (if n > 1 \<and> n < firstServerID then [n] else [])\<rparr>"
    using del DeleteID_known [OF False] by simp
  have c: "client_ids w' = client_ids w - {n}" by (auto simp: w' client_ids_def)
  have "n \<noteq> 0" using wf False by (auto simp: wf_world_def ids_ok_def)
  then have gt: "1 < n" using n by (metis word_coorder.not_eq_extremum word_less_1 linorder_neqE)
  show ?thesis
  proof (cases "n < firstServerID")
    case True
    then have "n \<in> client_ids w" using False by (simp add: client_ids_def)
    then have "card (client_ids w') + 1 = card (client_ids w)" unfolding c
      by (metis Suc_eq_plus1 card_Suc_Diff1 finite)
    then show ?thesis using acc gt True by (simp add: accounted_def w')
  next
    case F: False
    then have "client_ids w' = client_ids w" unfolding c by (auto simp: client_ids_def)
    then show ?thesis using acc F by (simp add: accounted_def w')
  qed
qed

lemma alloc_run_peak: "alloc_run w pk \<Longrightarrow> wf_world w \<and> accounted w \<and> pk = unat (currentID w)"
proof (induction rule: alloc_run.induct)
  case (connected k r w)
  let ?e = "empty_world k"
  have e: "client_ids ?e = {}" "freeIDs ?e = []" "currentID ?e = 0"
    by (simp_all add: client_ids_def empty_world_def)
  then have acc: "accounted ?e" by (simp add: accounted_def)
  have "wf_world w" using keepsD' [OF keeps_New connected wf_world_empty] .
  moreover have "card (client_ids w) = 1" "accounted w"
    using accounted_New [OF wf_world_empty acc connected] connected e
    by (cases rule: New_outcome [OF wf_world_empty [of k], of Display];
        auto simp: firstServerID_def registered_as_client_ids)+
  ultimately show ?case
    using accounted_New [OF wf_world_empty acc connected] e by simp
next
  case (created w pk t res w')
  then show ?case using accounted_New keepsD' [OF keeps_New created(2)] by metis
next
  case (introduced w pk t n res w')
  then show ?case using NewWithID_frame accounted_cong keepsD' [OF keeps_NewWithID introduced(2)] by metis
next
  case (destroyed w pk q zres w')
  have "client_ids w' = client_ids w"
    using MarkZombie_frame [OF destroyed(2)] by (simp add: client_ids_def)
  then show ?case
    using destroyed MarkZombie_frame [OF destroyed(2)] accounted_cong keepsD' [OF keeps_MarkZombie destroyed(2)]
    by metis
next
  case (deleted w pk n dres w')
  then show ?case using accounted_DeleteID keepsD' [OF keeps_DeleteID deleted(3)] by metis
qed

end
