(* ===== verification/Client_Machine.thy ===== *)
theory Client_Machine
  imports Bindings Id_Pool
begin

text \<open>
  The client as a state machine: an application calls constructors, setters and requests of the
  bindings, the registration operations of the context, \<open>Dispatch\<close> and \<open>Close\<close> in any order. The
  invariants of the components hold in every world it can reach, and a sticky error never goes away.
\<close>

section \<open>Steps\<close>

text \<open>Any call of an exported operation, by the effect it has on the world.\<close>

inductive client_op :: "'k env \<Rightarrow> ('k world, unit) go \<Rightarrow> bool" for E where
  op_core: "core_op E m \<Longrightarrow> client_op E m"
| op_data: "data_op E m \<Longrightarrow> client_op E m"
| op_surface: "surface_op E m \<Longrightarrow> client_op E m"
| op_input: "input_op E m \<Longrightarrow> client_op E m"
| op_ext: "ext_op E m \<Longrightarrow> client_op E m"
| op_tablet: "tablet_op E m \<Longrightarrow> client_op E m"
| op_custom: "client_op E (discard (New (Custom n)))"
| op_mark: "client_op E (MarkZombie r)"

inductive client_step :: "'k env \<Rightarrow> 'k world \<Rightarrow> 'k world \<Rightarrow> bool" for E where
  step_op: "client_op E m \<Longrightarrow> client_step E w (snd (m w))"
| step_dispatch: "client_step E w (snd (Context_Dispatch generated E w))"
| step_unregister: "client_step E w (snd (Unregister r w))"
| step_delete: "client_step E w (snd (DeleteID n w))"
| step_close: "client_step E w (snd (Close E w))"

inductive client_run :: "'k env \<Rightarrow> 'k world \<Rightarrow> 'k world \<Rightarrow> bool" for E where
  run_refl: "client_run E w w"
| run_step: "client_run E w w1 \<Longrightarrow> client_step E w1 w2 \<Longrightarrow> client_run E w w2"

inductive_cases client_stepE: "client_step E w w'"

text \<open>\<open>Connect\<close> registers the display on an empty context.\<close>

definition fresh_client :: "'k \<Rightarrow> 'k world" where
  "fresh_client k = snd (NewDisplay (empty_world k))"

section \<open>Invariants\<close>

context client_inv
begin

lemma client_op_inv: "client_op E m \<Longrightarrow> keeps I m"
  by (erule client_op.cases)
    (auto intro: core_op_inv data_op_inv surface_op_inv input_op_inv ext_op_inv tablet_op_inv
      intro!: keeps_discard new_inv zombie_inv)

text \<open>An invariant of the operations that the other steps keep too holds along every run.\<close>

lemma run_inv:
  assumes run: "client_run E w w'" and w: "I w"
    and dispatch: "\<And>w. I w \<Longrightarrow> I (snd (Context_Dispatch generated E w))"
    and unregister: "\<And>w r. I w \<Longrightarrow> I (snd (Unregister r w))"
    and delete: "\<And>w n. I w \<Longrightarrow> I (snd (DeleteID n w))"
    and close: "\<And>w. I w \<Longrightarrow> I (snd (Close E w))"
  shows "I w'"
  using run w
proof induction
  case (run_step w w1 w2)
  from run_step.hyps(2) show ?case
    by (cases rule: client_step.cases)
      (use run_step dispatch unregister delete close keepsD [OF client_op_inv] in auto)
qed

end

lemma Close_wf: "wf_world w \<Longrightarrow> wf_world (snd (Close E w))"
  by (simp add: Close_def andthen_def bnd_def drain_run split_beta)

lemma Close_bal: "fd_bal X w \<Longrightarrow> fd_bal X (snd (Close E w))"
  using fd_bal_drain [of X w] by (simp add: Close_def andthen_def bnd_def drain_run split_beta)

lemma Close_drops_queue: "pendingFDs (snd (Close E w)) = []"
  by (simp add: Close_def andthen_def bnd_def drain_run split_beta)

lemma Unregister_bal: "keeps (fd_bal X) (Unregister r)"
  unfolding Unregister_def by (intro keeps_intro keeps_modify) simp

lemma run_wf:
  assumes "client_run E w w'" "wf_world w" "handlers_wf E"
  shows "wf_world w'"
  by (rule wf_inv.run_inv [OF assms(1,2)])
    (use keepsD [OF gen.Context_Dispatch_wf [OF assms(3)]] keepsD [OF keeps_Unregister]
      keepsD [OF keeps_DeleteID] Close_wf in auto)

text \<open>The two invariants together: the balance needs the object map to find the sender.\<close>

interpretation both_inv: client_inv E "\<lambda>w. wf_world w \<and> fd_bal X w" for E :: "'k env" and X
  by unfold_locales (intro keeps_conj keeps_intro)+

lemma run_bal:
  assumes "client_run E w w'" "wf_world w" "fd_bal X w"
    and H: "handlers_wf E" "handlers_return E" "rights_nonneg E"
  shows "fd_bal X w'"
proof -
  have "wf_world w' \<and> fd_bal X w'"
    by (rule both_inv.run_inv [OF assms(1) conjI [OF assms(2,3)]])
      (use gen.Context_Dispatch_bal [OF H(3,2)] keepsD [OF gen.Context_Dispatch_wf [OF H(1)]]
        keepsD [OF keeps_Unregister] keepsD [OF Unregister_bal] keepsD [OF keeps_DeleteID]
        keepsD [OF fd_bal_DeleteID] Close_wf Close_bal in auto)
  then show ?thesis ..
qed

lemma run_sticky:
  assumes "client_run E w w'" "fatalErr w = Some f"
  shows "fatalErr w' = Some f"
proof (rule fatal_inv.run_inv [OF assms])
  show "fatalErr (snd (Context_Dispatch generated E w)) = Some f" if "fatalErr w = Some f" for w
    using that by (simp add: Context_Dispatch_def)
  show "fatalErr (snd (Unregister r w)) = Some f" if "fatalErr w = Some f" for w :: "'a world" and r
    using that by (simp add: Unregister_def ID_def bnd_def deref_def split: option.splits)
  show "fatalErr (snd (DeleteID n w)) = Some f" if "fatalErr w = Some f" for w :: "'a world" and n
    using that by (simp add: DeleteID_def Let_def)
  show "fatalErr (snd (Close E w)) = Some f" if "fatalErr w = Some f" for w
    using that by (simp add: Close_def andthen_def bnd_def drain_run split_beta)
qed

section \<open>The connected context\<close>

lemma fresh_run:
  "NewDisplay (empty_world k) = (Inr 0, fresh_client k)"
  "objects (fresh_client k) 1 = Some 0" "px_type (the (heap (fresh_client k) 0)) = Display"
  "heap (fresh_client k) 0 = Some (new_proxy Display\<lparr>px_id := 1, px_ctx := True\<rparr>)"
  "fatalErr (fresh_client k) = None" "pendingFDs (fresh_client k) = []" "trace (fresh_client k) = []"
  "conn (fresh_client k) = k" "currentID (fresh_client k) = 1" "freeIDs (fresh_client k) = []"
  "objects (fresh_client k) = [1 \<mapsto> 0]" "next_ref (fresh_client k) = 1"
proof -
  have n: "next_id (\<lambda>_. None) 0 = (Some 1, 1)"
    by (subst next_id.simps) (simp add: firstServerID_def)
  have p: "pop_free (\<lambda>_. None) [] = (0, [])" by (simp add: pop_free.simps)
  note d = fresh_client_def NewDisplay_def New_def Register_def empty_world_def install_def SetID_def SetContext_def
    andthen_def bnd_def alloc_def deref_def new_proxy_def n p
  show "NewDisplay (empty_world k) = (Inr 0, fresh_client k)"
    "objects (fresh_client k) 1 = Some 0" "px_type (the (heap (fresh_client k) 0)) = Display"
    "heap (fresh_client k) 0 = Some (new_proxy Display\<lparr>px_id := 1, px_ctx := True\<rparr>)"
    "fatalErr (fresh_client k) = None" "pendingFDs (fresh_client k) = []" "trace (fresh_client k) = []"
    "conn (fresh_client k) = k" "currentID (fresh_client k) = 1" "freeIDs (fresh_client k) = []"
    "objects (fresh_client k) = [1 \<mapsto> 0]" "next_ref (fresh_client k) = 1"
    by (simp_all add: d)
qed

lemma fresh_wf: "wf_world (fresh_client k)"
  unfolding fresh_client_def NewDisplay_def by (rule keepsD [OF keeps_New wf_world_empty])

lemma fresh_bal: "fd_bal {#} (fresh_client k)"
  by (simp add: fd_bal_def fresh_run)

end
