(* ===== verification/Delivery.thy ===== *)
theory Delivery
  imports Client_Machine
begin

text \<open>
  Delivery of one event from the wire to a handler: a frame that arrives in any number of fragments
  reaches the dispatcher of its sender, with the descriptor that belongs to it, and a generated
  dispatcher hands the decoded event to the handler.
\<close>

section \<open>From the wire to the dispatcher\<close>

text \<open>\<open>arrives E w sender opcode body fds k\<close>: the next frame on the connection, with its descriptors.\<close>

definition arrives :: "'k env \<Rightarrow> 'k world \<Rightarrow> u32 \<Rightarrow> u32 \<Rightarrow> bytes \<Rightarrow> int list \<Rightarrow> 'k \<Rightarrow> bool" where
  "arrives E w sender opcode body fds k \<longleftrightarrow>
     sender \<noteq> 0 \<and> opcode \<le> 0xffff \<and> 4 dvd length body \<and> length body \<le> 65527 \<and>
     (\<exists>fds1 fds2 k1. fds = fds1 @ fds2 \<and>
        delivers E (conn w) (frame_header sender opcode (of_nat (8 + length body))) fds1 k1 \<and>
        delivers E k1 body fds2 k)"

lemma ReadMsg_arrives:
  assumes ar: "arrives E w sender opcode body fds k" and n: "fatalErr w = None"
  shows "\<exists>w'. ReadMsg E w = (Inr (sender, opcode, head_fd (pendingFDs w @ fds), body, None), w') \<and>
    conn w' = k \<and> pendingFDs w' = tl (pendingFDs w @ fds) \<and> read_frame w w'"
proof -
  let ?sz = "of_nat (8 + length body) :: u32"
  from ar have a: "sender \<noteq> 0" "opcode \<le> 0xffff" "4 dvd length body" "length body \<le> 65527"
    unfolding arrives_def by simp_all
  from ar obtain fds1 fds2 k1 where d: "fds = fds1 @ fds2" "delivers E (conn w) (frame_header sender opcode ?sz) fds1 k1"
    "delivers E k1 body fds2 k"
    unfolding arrives_def by blast
  have u: "unat ?sz = 8 + length body" using a(4) by (simp only: unat_of_nat) simp
  have "4 dvd unat ?sz" using a(3) unfolding u by simp
  then have "?sz mod 4 = 0" by (simp add: word_unat_eq_iff unat_mod mod_eq_0_iff_dvd del: of_nat_add)
  then have ok: "read_header_ok sender ?sz"
    using a u unfolding read_header_ok_def by (simp add: word_le_nat_alt del: of_nat_add)
  from ReadMsg_delivers [OF n ok u d(2,3)] show ?thesis
    using a(2) d(1) by (simp add: and_ffff)
qed

text \<open>An event without a descriptor leaves the queue as it is.\<close>

lemma Dispatch_arrives:
  assumes ar: "arrives E w sender opcode body fds k" and n: "fatalErr w = None"
    and o: "objects w sender = Some r" and p: "heap w r = Some p" "\<not> px_zombie p \<or> px_type p = Display"
    and m: "m_HasFD (M (px_type p)) = Some h" "m_Dispatch (M (px_type p)) = Some d"
    and q: "\<forall>fd\<in>set (pendingFDs w @ fds). 0 \<le> fd" and nofd: "\<not> h opcode"
  shows "\<exists>w'. read_frame w w' \<and> conn w' = k \<and> pendingFDs w' = pendingFDs w @ fds \<and> handled (trace w') = handled (trace w) \<and>
    Context_Dispatch M E w = recovering (-1) opcode sender (andthen (d E r opcode (-1) body) (gets fatalErr)) w'"
proof -
  obtain w1 where r: "ReadMsg E w = (Inr (sender, opcode, head_fd (pendingFDs w @ fds), body, None), w1)"
    and w1: "conn w1 = k" "pendingFDs w1 = tl (pendingFDs w @ fds)" "read_frame w w1"
    using ReadMsg_arrives [OF ar n] by blast
  let ?fd = "head_fd (pendingFDs w @ fds)"
  let ?w2 = "snd (putBackFD ?fd w1)"
  have w2: "conn ?w2 = k" "read_frame w ?w2"
    using w1 by (simp_all add: putBackFD_run read_frame_def)
  have w2q: "pendingFDs ?w2 = pendingFDs w @ fds"
    using w1 q by (cases "pendingFDs w @ fds") (auto simp: putBackFD_run head_fd_def simp flip: set_append)
  have live: "\<not> (px_zombie p \<and> px_type p \<noteq> Display)" using p(2) by blast
  have f: "route_fd (Some h) opcode ?fd w1 = (Inr (-1), ?w2)"
    using nofd by (simp add: route_fd_def andthen_def bnd_def putBackFD_run)
  have e: "Context_Dispatch M E w = deliver M E r sender opcode (-1) body ?w2"
    using r n o p m w1(3) f by (simp add: Context_Dispatch_def bnd_def lookupProxy_def deref_def read_frame_fields)
  also have "\<dots> = recovering (-1) opcode sender (andthen (d E r opcode (-1) body) (gets fatalErr)) ?w2"
    unfolding deliver_def
    by (rule recovering_cong) (use p(1) m w2(2) live in \<open>simp only: bnd_deref read_frame_fields IsZombie_def bnd_assoc bnd_simps if_False option.case\<close>)
  finally have "Context_Dispatch M E w = recovering (-1) opcode sender (andthen (d E r opcode (-1) body) (gets fatalErr)) ?w2" .
  moreover have "handled (trace ?w2) = handled (trace w)"
    using keepsD' [OF ReadMsg_quiet r, of "handled (trace w)"] by (simp add: quiet_def putBackFD_run)
  ultimately show ?thesis using w2 w2q by blast
qed

text \<open>An event without a descriptor for a zombie only runs the type's \<open>AbsorbNewIDs\<close>.\<close>

lemma Dispatch_arrives_zombie:
  assumes ar: "arrives E w sender opcode body fds k" and n: "fatalErr w = None"
    and o: "objects w sender = Some r" and p: "heap w r = Some p" "px_zombie p" "px_type p \<noteq> Display"
    and m: "m_HasFD (M (px_type p)) = Some h" "m_Absorb (M (px_type p)) = Some a"
    and q: "\<forall>fd\<in>set (pendingFDs w @ fds). 0 \<le> fd" and nofd: "\<not> h opcode"
  shows "\<exists>w'. read_frame w w' \<and> conn w' = k \<and> pendingFDs w' = pendingFDs w @ fds \<and> handled (trace w') = handled (trace w) \<and>
    Context_Dispatch M E w = recovering (-1) opcode sender (andthen (a r opcode body) (gets fatalErr)) w'"
proof -
  let ?fd = "head_fd (pendingFDs w @ fds)"
  obtain w1 where r: "ReadMsg E w = (Inr (sender, opcode, ?fd, body, None), w1)"
    and w1: "conn w1 = k" "pendingFDs w1 = tl (pendingFDs w @ fds)" "read_frame w w1"
    using ReadMsg_arrives [OF ar n] by blast
  let ?w2 = "snd (putBackFD ?fd w1)"
  have w2: "conn ?w2 = k" "read_frame w ?w2"
    using w1 by (simp_all add: putBackFD_run read_frame_def)
  have w2q: "pendingFDs ?w2 = pendingFDs w @ fds"
    using w1 q by (cases "pendingFDs w @ fds") (auto simp: putBackFD_run head_fd_def simp flip: set_append)
  have f: "route_fd (Some h) opcode ?fd w1 = (Inr (-1), ?w2)"
    using nofd by (simp add: route_fd_def andthen_def bnd_def putBackFD_run)
  have e: "Context_Dispatch M E w = deliver M E r sender opcode (-1) body ?w2"
    using r n o p m w1(3) f by (simp add: Context_Dispatch_def bnd_def lookupProxy_def deref_def read_frame_fields)
  let ?absorb = "recovering (-1) opcode sender (andthen (a r opcode body) (gets fatalErr))"
  have "reports ?absorb"
    by (intro reports_recovering reports_or_panics_andthen reports_or_panics_of reports_gets)
  then have "recovering (-1) opcode sender ?absorb ?w2 = ?absorb ?w2" by (rule recovering_reports)
  moreover have c: "andthen (closeReceivedFD (-1)) m' v = m' v" for m' :: "('a world, gerr option) go" and v
    by (simp add: andthen_def bnd_def closeReceivedFD_run)
  have "deliver M E r sender opcode (-1) body ?w2 = recovering (-1) opcode sender ?absorb ?w2"
    unfolding deliver_def
    by (rule recovering_cong)
      (use p m w2(2) in \<open>simp add: bnd_deref read_frame_fields IsZombie_def bnd_assoc c\<close>)
  ultimately have "Context_Dispatch M E w = ?absorb ?w2" using e by simp
  moreover have "handled (trace ?w2) = handled (trace w)"
    using keepsD' [OF ReadMsg_quiet r, of "handled (trace w)"] by (simp add: quiet_def putBackFD_run)
  ultimately show ?thesis using w2 w2q by blast
qed

text \<open>An event with a descriptor takes the first one of the queue.\<close>

lemma Dispatch_arrives_fd:
  assumes ar: "arrives E w sender opcode body fds k" and n: "fatalErr w = None"
    and o: "objects w sender = Some r" and p: "heap w r = Some p" "\<not> px_zombie p \<or> px_type p = Display"
    and m: "m_HasFD (M (px_type p)) = Some h" "m_Dispatch (M (px_type p)) = Some d"
    and fd: "h opcode" and q: "pendingFDs w @ fds = f # fs"
  shows "\<exists>w'. read_frame w w' \<and> conn w' = k \<and> pendingFDs w' = fs \<and> handled (trace w') = handled (trace w) \<and>
    Context_Dispatch M E w = recovering f opcode sender (andthen (d E r opcode f body) (gets fatalErr)) w'"
proof -
  obtain w1 where r: "ReadMsg E w = (Inr (sender, opcode, f, body, None), w1)"
    and w1: "conn w1 = k" "pendingFDs w1 = fs" "read_frame w w1"
    using ReadMsg_arrives [OF ar n] q by (auto simp: head_fd_def)
  have live: "\<not> (px_zombie p \<and> px_type p \<noteq> Display)" using p(2) by blast
  have e: "Context_Dispatch M E w = deliver M E r sender opcode f body w1"
    using r n o p m w1(3) fd
    by (simp add: Context_Dispatch_def bnd_def lookupProxy_def deref_def read_frame_fields route_fd_def)
  also have "\<dots> = recovering f opcode sender (andthen (d E r opcode f body) (gets fatalErr)) w1"
    unfolding deliver_def
    by (rule recovering_cong) (use p(1) m w1(3) live in \<open>simp only: bnd_deref read_frame_fields IsZombie_def bnd_assoc bnd_simps if_False option.case\<close>)
  finally have "Context_Dispatch M E w = recovering f opcode sender (andthen (d E r opcode f body) (gets fatalErr)) w1" .
  moreover have "handled (trace w1) = handled (trace w)"
    using keepsD' [OF ReadMsg_quiet r, of "handled (trace w)"] by (simp add: quiet_def)
  ultimately show ?thesis using w1 by blast
qed

section \<open>From the dispatcher to the handler\<close>

lemma event_runs:
  assumes "heap w i = Some p" "px_handlers p h = Some f" "decode as 0 w = (Inr vs, w)"
  shows "event E i h name as w = run_handler E f (Ev name vs) (w\<lparr>trace := trace w @ [Handled f (Ev name vs)]\<rparr>)"
proof -
  have "bnd (decode as 0) g w = g vs w" for g :: "(string \<times> gval) list \<Rightarrow> ('a world, unit) go"
    using assms(3) by (simp add: bnd_def)
  then show ?thesis
    using assms(1,2) by (simp add: event_def handler_of_def bnd_assoc bnd_deref call_handler_def)
qed

lemma event_no_handler:
  "heap w i = Some p \<Longrightarrow> px_handlers p h = None \<Longrightarrow> event E i h name as w = (Inr (), w)"
  by (simp add: event_def handler_of_def bnd_assoc bnd_deref)

lemma fd_event_runs:
  assumes "heap w i = Some p" "px_handlers p h = Some f" "decode as 0 w = (Inr vs, w)"
  shows "fd_event E i fd h name as w = run_handler E f (Ev name vs) (w\<lparr>trace := trace w @ [Handled f (Ev name vs)]\<rparr>)"
proof -
  have "bnd (decode as 0) g w = g vs w" for g :: "(string \<times> gval) list \<Rightarrow> ('a world, unit) go"
    using assms(3) by (simp add: bnd_def)
  then show ?thesis
    using assms(1,2) by (simp add: fd_event_def handler_of_def bnd_assoc bnd_deref call_handler_def)
qed

lemma fd_event_no_handler:
  "heap w i = Some p \<Longrightarrow> px_handlers p h = None \<Longrightarrow> fd \<noteq> -1 \<Longrightarrow>
   fd_event E i fd h name as w = (Inr (), w\<lparr>trace := trace w @ [Closed fd]\<rparr>)"
  by (simp add: fd_event_def handler_of_def bnd_assoc bnd_deref unix_Close_def)

text \<open>Decoding one unsigned argument.\<close>

lemma decode_uint:
  "get_u32 data l = Inr v \<Longrightarrow> decode ((n, r_uint data) # as) l w =
     bnd (decode as (l + 4)) (\<lambda>vs. ret ((n, VUint v) # vs)) w"
  by (simp add: r_uint_def bnd_assoc)

lemma decode_fd: "decode ((n, r_fd fd) # as) l w = bnd (decode as l) (\<lambda>vs. ret ((n, VFd fd) # vs)) w"
  by (simp add: r_fd_def bnd_assoc)

end
