(* ===== verification/Roundtrip_Loop.thy ===== *)
theory Roundtrip_Loop
  imports Delivery
begin

text \<open>
  \<open>Display.Roundtrip\<close> (client/display.go): send \<open>sync\<close>, set a done handler that raises a captured flag, and
  dispatch until the flag is up. The loop may run forever, so not returning is the value \<open>None\<close>.
  The theory shows when it returns: after as many clean dispatches as the flag takes, with the
  first error otherwise; and that the callback is destroyed on every way out.
\<close>

section \<open>The code\<close>

text \<open>\<open>for !done { err := i.Context().Dispatch(); if err != nil { return .. } }\<close>\<close>

partial_function (option) roundtrip_loop ::
  "'k env \<Rightarrow> ref \<Rightarrow> nat \<Rightarrow> 'k world \<Rightarrow> ((panic + gerr option) \<times> 'k world) option" where
  "roundtrip_loop E i c w =
     (if flags w c then Some (Inr None, w)
      else case andthen (Context_of i) (Context_Dispatch generated E) w of
          (Inl p, w') \<Rightarrow> Some (Inl p, w')
        | (Inr (Some e), w') \<Rightarrow> Some (Inr (Some (Errorf ''roundtrip: failed to dispatch: %w'' [] [e])), w')
        | (Inr None, w') \<Rightarrow> roundtrip_loop E i c w')"

text \<open>A fresh boolean variable \<open>done := false\<close>, captured by the handler.\<close>

definition new_flag :: "('k world, nat) go" where
  "new_flag w = (Inr (next_flag w), w\<lparr>flags := (flags w)(next_flag w := False), next_flag := Suc (next_flag w)\<rparr>)"

text \<open>The deferred \<open>callback.Destroy()\<close> returns a nil error, so nothing is logged.\<close>

definition Roundtrip :: "'k env \<Rightarrow> ref \<Rightarrow> 'k world \<Rightarrow> ((panic + gerr option) \<times> 'k world) option" where
  "Roundtrip E i w =
     (case Display_Sync E i w of
        (Inl p, w1) \<Rightarrow> Some (Inl p, w1)
      | (Inr (callback, Some e), w1) \<Rightarrow>
          Some (Inr (Some (Errorf ''unable to get sync callback: %w'' [] [e])), w1)
      | (Inr (callback, None), w1) \<Rightarrow>
          (case bnd new_flag (\<lambda>c. andthen (Callback_SetDoneHandler callback (Some (SetFlag c))) (ret c)) w1 of
             (Inl p, w2) \<Rightarrow> Some (with_defer (discard (Callback_Destroy callback)) (raise p) w2)
           | (Inr c, w2) \<Rightarrow>
               (case roundtrip_loop E i c w2 of
                  None \<Rightarrow> None
                | Some (r, w3) \<Rightarrow> Some (with_defer (discard (Callback_Destroy callback)) (lift r) w3))))"

section \<open>When the loop returns\<close>

text \<open>\<open>dispatches E i c w w'\<close>: clean dispatches lead from \<open>w\<close> to \<open>w'\<close> while the flag is down.\<close>

inductive dispatches :: "'k env \<Rightarrow> ref \<Rightarrow> nat \<Rightarrow> 'k world \<Rightarrow> 'k world \<Rightarrow> bool" for E i c where
  dispatches_refl: "dispatches E i c w w"
| dispatches_step: "\<not> flags w c \<Longrightarrow>
    andthen (Context_of i) (Context_Dispatch generated E) w = (Inr None, w1) \<Longrightarrow>
    dispatches E i c w1 w2 \<Longrightarrow> dispatches E i c w w2"

text \<open>What ends the loop in a world.\<close>

definition loop_ends :: "'k env \<Rightarrow> ref \<Rightarrow> nat \<Rightarrow> 'k world \<Rightarrow> (panic + gerr option) \<Rightarrow> 'k world \<Rightarrow> bool" where
  "loop_ends E i c w r w' \<longleftrightarrow>
     (if flags w c then r = Inr None \<and> w' = w
      else case andthen (Context_of i) (Context_Dispatch generated E) w of
          (Inl p, w1) \<Rightarrow> r = Inl p \<and> w' = w1
        | (Inr (Some e), w1) \<Rightarrow> r = Inr (Some (Errorf ''roundtrip: failed to dispatch: %w'' [] [e])) \<and> w' = w1
        | (Inr None, w1) \<Rightarrow> False)"

lemma loop_returns:
  "dispatches E i c w w1 \<Longrightarrow> loop_ends E i c w1 r w' \<Longrightarrow> roundtrip_loop E i c w = Some (r, w')"
proof (induction rule: dispatches.induct)
  case (dispatches_refl w)
  then show ?case
    by (subst roundtrip_loop.simps)
      (auto simp: loop_ends_def split: if_splits prod.splits sum.splits option.splits)
next
  case (dispatches_step w w1 w2)
  then show ?case by (subst roundtrip_loop.simps) simp
qed

lemma loop_returned:
  assumes "roundtrip_loop E i c w = Some rw"
  shows "\<exists>w1. dispatches E i c w w1 \<and> loop_ends E i c w1 (fst rw) (snd rw)"
proof (rule roundtrip_loop.raw_induct [where P = "\<lambda>E i c w rw. \<exists>w1. dispatches E i c w w1 \<and> loop_ends E i c w1 (fst rw) (snd rw)", OF _ assms])
  fix f :: "'a env \<Rightarrow> ref \<Rightarrow> nat \<Rightarrow> 'a world \<Rightarrow> ((panic + gerr option) \<times> 'a world) option"
    and E :: "'a env" and i c w and rw :: "(panic + gerr option) \<times> 'a world"
  let ?D = "andthen (Context_of i) (Context_Dispatch generated E)"
  assume IH: "\<And>E i c w rw. f E i c w = Some rw \<Longrightarrow> \<exists>w1. dispatches E i c w w1 \<and> loop_ends E i c w1 (fst rw) (snd rw)"
    and eq: "(if flags w c then Some (Inr None, w)
      else case ?D w of (Inl p, w') \<Rightarrow> Some (Inl p, w')
        | (Inr None, w') \<Rightarrow> f E i c w'
        | (Inr (Some e), w') \<Rightarrow> Some (Inr (Some (Errorf ''roundtrip: failed to dispatch: %w'' [] [e])), w')) = Some rw"
  show "\<exists>w1. dispatches E i c w w1 \<and> loop_ends E i c w1 (fst rw) (snd rw)"
  proof (cases "\<exists>w'. \<not> flags w c \<and> ?D w = (Inr None, w')")
    case True
    then obtain w' where s: "\<not> flags w c" "?D w = (Inr None, w')" by blast
    then have "f E i c w' = Some rw" using eq by simp
    then show ?thesis using IH dispatches_step [OF s] by blast
  next
    case False
    obtain r1 w' where d: "?D w = (r1, w')" by fastforce
    have "loop_ends E i c w (fst rw) (snd rw)"
      using eq False unfolding loop_ends_def d by (auto split: if_splits sum.splits option.splits)
    then show ?thesis using dispatches_refl by blast
  qed
qed

section \<open>The sync request\<close>

text \<open>A request only reads before it writes.\<close>

lemma request_writes:
  assumes "request E i opcode len ps oob w = (Inr e, w')"
  obtains b where "WriteMsg E b oob w = (Inr e, w')"
proof -
  have same: "w1 = w0" if "m w0 = (r, w1)" "\<And>I. keeps I m" for m :: "('a world, 'c) go" and r w0 w1
    using keepsD' [OF that(2) that(1), of "\<lambda>x. x = w0"] by simp
  show thesis
    using assms unfolding request_def
    by (auto simp: bnd_Inr andthen_Inr split: prod.splits
        dest!: same [OF _ keeps_ID] same [OF _ keeps_put_word] same [OF _ keeps_put_args] same [OF _ keeps_Context_of]
        intro: that)
qed

text \<open>After a sync that was sent, the new callback is live and the connection is clean.\<close>

lemma Sync_sent:
  assumes wf: "wf_world w" and s: "Display_Sync E i w = (Inr (cb, None), w1)"
  obtains n where "heap w1 cb = Some (new_proxy Callback\<lparr>px_id := n, px_ctx := True\<rparr>)" "objects w1 n = Some cb"
    "n \<noteq> 0" "fatalErr w1 = None" "fatalErr w = None" "pendingFDs w1 = pendingFDs w" "flags w1 = flags w"
    "next_flag w1 = next_flag w" "\<exists>p. heap w i = Some p \<and> px_ctx p" "i \<noteq> cb" "heap w1 i = heap w i" "wf_world w1"
proof -
  from s obtain w0 where ctx: "\<exists>u w2. Context_of i w = (Inr u, w2) \<and> New Callback w2 = (Inr cb, w0)"
    and rq: "request E i 0 (8 + 4) [PId (Some cb)] [] w0 = (Inr None, w1)"
    by (auto simp: Display_Sync_def bnd_Inr andthen_Inr)
  from ctx have i: "\<exists>p. heap w i = Some p \<and> px_ctx p" and nw: "New Callback w = (Inr cb, w0)"
    by (auto simp: Context_of_def bnd_def deref_def split: option.splits if_splits)
  obtain b where wr: "WriteMsg E b [] w0 = (Inr None, w1)" by (rule request_writes [OF rq])
  have sent: "fatalErr w0 = None \<and> (\<exists>k. w1 = w0\<lparr>conn := k\<rparr>)"
    using wr by (rule_tac WriteMsg_outcome [of w0 E b "[]"]) auto
  show thesis
  proof (rule New_outcome [OF wf, of Callback])
    fix n w2
    assume c: "New Callback w = (Inr (next_ref w), w2)"
      and r: "registered_as (next_ref w) (new_proxy Callback) n (after_alloc Callback w) w2" and n: "n \<noteq> 0" and wf2: "wf_world w2"
    have eq: "w2 = w0" "cb = next_ref w" using c nw by simp_all
    have f: "objects w0 = (objects w)(n := Some cb)"
      "heap w0 = (heap (after_alloc Callback w))(cb := Some (new_proxy Callback\<lparr>px_id := n, px_ctx := True\<rparr>))"
      "fatalErr w0 = fatalErr w" "pendingFDs w0 = pendingFDs w" "flags w0 = flags w" "next_flag w0 = next_flag w"
      using r eq registered_as_frame [OF r] by (simp_all add: registered_as_def)
    have "i \<noteq> cb" using i wf eq heap_ok_fresh [of w] by (auto simp: wf_world_def)
    moreover from this have "heap w0 i = heap w i" using f(2) eq by simp
    ultimately show thesis using that [of n] f sent i n wf2 eq by auto
  qed (use nw in simp)
qed

section \<open>The reply\<close>

lemma generated_Callback:
  "m_HasFD (generated Callback) = Some Callback_HasFD" "m_Dispatch (generated Callback) = Some Callback_Dispatch"
  by (simp_all add: generated_def events_def)

lemma Callback_done_runs:
  assumes "heap w cb = Some q" "px_handlers q ''doneHandler'' = Some (SetFlag c)"
  shows "Callback_Dispatch E cb 0 fd (le_bytes v) w = (Inr (), w\<lparr>
    trace := trace w @ [Handled (SetFlag c) (Ev ''CallbackDoneEvent'' [(''CallbackData'', VUint v)])],
    flags := (flags w)(c := True)\<rparr>)"
proof -
  have "get_u32 (le_bytes v) 0 = Inr v" using get_u32_at' [of 0 "[]" v "[]"] by simp
  then have "decode [(''CallbackData'', r_uint (le_bytes v))] 0 w = (Inr [(''CallbackData'', VUint v)], w)"
    by (simp add: r_uint_def bnd_def)
  from event_runs [OF assms this] show ?thesis
    by (simp add: Callback_Dispatch_def run_handler_def)
qed

lemma Roundtrip_setup:
  assumes "heap w cb = Some q"
  shows "bnd new_flag (\<lambda>c. andthen (Callback_SetDoneHandler cb (Some (SetFlag c))) (ret c)) w =
    (Inr (next_flag w), w\<lparr>flags := (flags w)(next_flag w := False), next_flag := Suc (next_flag w),
       heap := (heap w)(cb := Some (q\<lparr>px_handlers := (px_handlers q)(''doneHandler'' := Some (SetFlag (next_flag w)))\<rparr>))\<rparr>)"
  using assms by (simp add: new_flag_def Callback_SetDoneHandler_def SetHandler_def bnd_def andthen_def deref_def)

lemma destroyed: "heap w cb = Some q \<Longrightarrow> with_defer (discard (Callback_Destroy cb)) (lift r) w =
    (r, w\<lparr>heap := (heap w)(cb := Some (q\<lparr>px_zombie := True\<rparr>))\<rparr>)"
  by (simp add: with_defer_def discard_def Callback_Destroy_def andthen_def bnd_def MarkZombie_run)

lemma Roundtrip_replied:
  assumes wf: "wf_world w" and s: "Display_Sync E i w = (Inr (cb, None), w1)"
    and ar: "arrives E w1 (id_of w1 cb) 0 (le_bytes v) fds k"
    and q: "\<forall>fd\<in>set (pendingFDs w @ fds). 0 \<le> fd"
  shows "\<exists>w'. Roundtrip E i w = Some (Inr None, w') \<and> conn w' = k \<and> pendingFDs w' = pendingFDs w @ fds \<and>
    (\<exists>p. heap w' cb = Some p \<and> px_zombie p) \<and> fatalErr w' = None"
proof (rule Sync_sent [OF wf s])
  fix n
  assume cb: "heap w1 cb = Some (new_proxy Callback\<lparr>px_id := n, px_ctx := True\<rparr>)" "objects w1 n = Some cb"
    and f: "fatalErr w1 = None" "pendingFDs w1 = pendingFDs w" "next_flag w1 = next_flag w"
    and i: "\<exists>p. heap w i = Some p \<and> px_ctx p" "i \<noteq> cb" "heap w1 i = heap w i"
  let ?c = "next_flag w1"
  let ?q = "new_proxy Callback\<lparr>px_id := n, px_ctx := True,
      px_handlers := (\<lambda>_. None)(''doneHandler'' := Some (SetFlag ?c))\<rparr>"
  obtain w2 where w2: "w2 = w1\<lparr>flags := (flags w1)(?c := False), next_flag := Suc ?c, heap := (heap w1)(cb := Some ?q)\<rparr>"
    by simp
  have start: "bnd new_flag (\<lambda>c. andthen (Callback_SetDoneHandler cb (Some (SetFlag c))) (ret c)) w1 = (Inr ?c, w2)"
    unfolding Roundtrip_setup [OF cb(1)] w2 by (simp add: new_proxy_def)
  have w2s: "objects w2 n = Some cb" "heap w2 cb = Some ?q" "fatalErr w2 = None" "pendingFDs w2 = pendingFDs w"
    "\<not> flags w2 ?c" "heap w2 i = heap w i" "conn w2 = conn w1"
    using w2 cb f i by simp_all
  have t: "px_type ?q = Callback" "\<not> px_zombie ?q" "px_handlers ?q ''doneHandler'' = Some (SetFlag ?c)"
    by (simp_all add: new_proxy_def)
  have ar2: "arrives E w2 n 0 (le_bytes v) fds k"
    using ar cb(1) w2s(7) by (simp add: arrives_def)
  obtain w3 where w3: "read_frame w2 w3" "conn w3 = k" "pendingFDs w3 = pendingFDs w2 @ fds"
    and d: "Context_Dispatch generated E w2 =
      recovering (-1) 0 n (andthen (Callback_Dispatch E cb 0 (-1) (le_bytes v)) (gets fatalErr)) w3"
    using Dispatch_arrives [OF ar2 w2s(3,1,2) disjI1 [OF t(2)], of generated Callback_HasFD Callback_Dispatch]
      generated_Callback t(1) q w2s(4) by (auto simp: Callback_HasFD_def)
  let ?ev = "Handled (SetFlag ?c) (Ev ''CallbackDoneEvent'' [(''CallbackData'', VUint v)])"
  obtain w4 where w4: "w4 = w3\<lparr>trace := trace w3 @ [?ev], flags := (flags w3)(?c := True)\<rparr>" by simp
  have w3h: "heap w3 cb = Some ?q" "fatalErr w3 = None" "heap w3 i = heap w i"
    using w3(1) w2s by (simp_all add: read_frame_fields)
  have "Callback_Dispatch E cb 0 (-1) (le_bytes v) w3 = (Inr (), w4)"
    unfolding w4 by (rule Callback_done_runs [OF w3h(1) t(3)])
  then have "Context_Dispatch generated E w2 = (Inr None, w4)"
    using d w3h(2) w4 by (simp add: recovering_def andthen_def bnd_def)
  moreover have "Context_of i w2 = (Inr (), w2)"
    using i(1) w2s(6) by (auto simp: Context_of_def bnd_deref)
  ultimately have "andthen (Context_of i) (Context_Dispatch generated E) w2 = (Inr None, w4)"
    by (simp add: andthen_def bnd_def)
  from dispatches_step [OF w2s(5) this dispatches_refl]
  have "roundtrip_loop E i ?c w2 = Some (Inr None, w4)"
    by (rule loop_returns) (simp add: loop_ends_def w4)
  then have "Roundtrip E i w = Some (Inr None, w4\<lparr>heap := (heap w4)(cb := Some (?q\<lparr>px_zombie := True\<rparr>))\<rparr>)"
    using s start w3h(1) w4 by (simp add: Roundtrip_def destroyed [where q = ?q])
  then show ?thesis using w4 w3 w3h w2s(4) by simp
qed

end
