(* ===== verification/Peer.thy ===== *)
theory Peer
  imports Delivery
begin

unbundle bit_operations_syntax

text \<open>
  The server's end of a connection (internal/waylandtest/pair.go): \<open>ReadRequest\<close> reads one request off
  the stream and \<open>Frame\<close> builds an event. They are an independent reader and writer of the wire
  format, so the theory uses them as its reference: what a generated request sends, \<open>ReadRequest\<close>
  takes apart again, and what \<open>Frame\<close> builds, \<open>ReadMsg\<close> accepts.
\<close>

section \<open>Operations\<close>

text \<open>\<open>io.ReadFull\<close> on a stream whose bytes are given; \<open>t.Fatalf\<close> ends the test with a message.\<close>

datatype fatal = Fatalf string "farg list" "gerr list"

definition ReadFull :: "nat \<Rightarrow> bytes \<Rightarrow> gerr + (bytes \<times> bytes)" where
  "ReadFull n s =
     (if n \<le> length s then Inr (take n s, drop n s)
      else if s = [] then Inl (Sentinel EOF) else Inl (Sentinel ErrUnexpectedEOF))"

definition ReadRequest :: "bytes \<Rightarrow> (panic + fatal) + ((u32 \<times> u32 \<times> bytes) \<times> bytes)" where
  "ReadRequest s =
     (case ReadFull 8 s of
        Inl e \<Rightarrow> Inl (Inr (Fatalf ''read request header: %v'' [] [e]))
      | Inr (header, s1) \<Rightarrow>
        (case get_u32 header 0 of Inl p \<Rightarrow> Inl (Inl p) | Inr sender \<Rightarrow>
        (case get_u32 header 4 of Inl p \<Rightarrow> Inl (Inl p) | Inr word \<Rightarrow>
         let len = drop_bit 16 word; opcode = word AND 0xffff in
         if len < 8
         then Inl (Inr (Fatalf ''request length = %d, want at least the 8-byte header'' [FNum (uint len)] []))
         else case ReadFull (unat (len - 8)) s1 of
             Inl e \<Rightarrow> Inl (Inr (Fatalf ''read request body: %v'' [] [e]))
           | Inr (body, s2) \<Rightarrow> Inr ((sender, opcode, body), s2))))"

definition Frame :: "u32 \<Rightarrow> u32 \<Rightarrow> bytes \<Rightarrow> panic + bytes" where
  "Frame sender opcode body =
     (let frame = replicate (8 + length body) 0 in
      pbind (put_at frame 0 4 (\<lambda>s. PutUint32 s sender)) (\<lambda>frame.
      pbind (put_at frame 4 8 (\<lambda>s. PutUint32 s (push_bit 16 (of_nat (8 + length body)) OR opcode))) (\<lambda>frame.
      pbind (slice frame 8 (length frame)) (\<lambda>s. Inr (take 8 frame @ copy_into s body)))))"

section \<open>Reading requests back\<close>

lemma ReadRequest_frame:
  assumes sz: "unat sz = 8 + length body" "sz \<le> 0xffff"
  shows "ReadRequest (frame_header sender opcode sz @ body @ rest) = Inr ((sender, opcode AND 0xffff, body), rest)"
proof -
  have l: "\<not> sz < 8" "unat (sz - 8) = length body"
    using sz(1) by (simp_all add: word_less_nat_alt unat_sub word_le_nat_alt)
  have "ReadFull 8 (frame_header sender opcode sz @ body @ rest) = Inr (frame_header sender opcode sz, body @ rest)"
    by (simp add: ReadFull_def)
  moreover have "ReadFull (length body) (body @ rest) = Inr (body, rest)"
    by (simp add: ReadFull_def)
  ultimately show ?thesis using l sz(2) by (simp add: ReadRequest_def Let_def)
qed

lemma ReadRequest_request:
  assumes "8 + length (args_bytes (id_of w) ps) \<le> 0xffff" "opcode \<le> 0xffff"
  shows "ReadRequest (request_frame w sender opcode ps @ rest) = Inr ((sender, opcode, args_bytes (id_of w) ps), rest)"
proof -
  let ?sz = "of_nat (8 + length (args_bytes (id_of w) ps)) :: u32"
  have u: "unat ?sz = 8 + length (args_bytes (id_of w) ps)"
    using assms(1) by (simp only: unat_of_nat) simp
  have "?sz \<le> 0xffff" using assms(1) u by (simp add: word_le_nat_alt del: of_nat_add)
  from ReadRequest_frame [OF u this, of sender opcode rest] show ?thesis
    using assms(2) by (simp add: request_frame_def and_ffff)
qed

section \<open>Frames\<close>

lemma Frame_value:
  assumes "opcode \<le> 0xffff"
  shows "Frame sender opcode body = Inr (frame_header sender opcode (of_nat (8 + length body)) @ body)"
proof -
  let ?o = "push_bit 16 (of_nat (8 + length body)) OR opcode :: u32"
  have r: "replicate (8 + n) (0 :: byte) = replicate (4 + (4 + n)) 0" for n by simp
  have a: "put_at (replicate (8 + length body) 0) 0 4 (\<lambda>s. PutUint32 s sender) =
      Inr (le_bytes sender @ replicate (4 + length body) 0)"
    using put_at_word [of 0 "[]" "4 + length body" sender] unfolding r by simp
  have b: "put_at (le_bytes sender @ replicate (4 + length body) 0) 4 8 (\<lambda>s. PutUint32 s ?o) =
      Inr (le_bytes sender @ le_bytes ?o @ replicate (length body) 0)"
    using put_at_word [of 4 "le_bytes sender" "length body" ?o] by simp
  have c: "?o = opcode_word (of_nat (8 + length body)) opcode"
    using and_ffff [OF assms] by (simp add: opcode_word_def)
  show ?thesis
    unfolding Frame_def Let_def a b pbind_simps
    by (simp add: slice_def frame_header_def c [symmetric] del: of_nat_add)
qed

end
