(* ===== verification/Client_Silence.thy ===== *)
theory Client_Silence
  imports Client_Machine
begin

text \<open>
  Once a fatal error is recorded the client is silent: no operation of the client touches the
  connection any more, \<open>Close\<close> apart.
\<close>

definition untouched :: "gerr \<Rightarrow> ('k \<Rightarrow> bool) \<Rightarrow> 'k world \<Rightarrow> bool" where
  "untouched f P w \<longleftrightarrow> fatalErr w = Some f \<and> P (conn w)"

lemma untouched_upd [simp]:
  "untouched f P (w\<lparr>pendingFDs := fds\<rparr>) = untouched f P w" "untouched f P (w\<lparr>objects := ob\<rparr>) = untouched f P w"
  "untouched f P (w\<lparr>freeIDs := fs\<rparr>) = untouched f P w" "untouched f P (w\<lparr>currentID := c\<rparr>) = untouched f P w"
  "untouched f P (w\<lparr>heap := h\<rparr>) = untouched f P w" "untouched f P (w\<lparr>next_ref := nr\<rparr>) = untouched f P w"
  "untouched f P (w\<lparr>trace := tr\<rparr>) = untouched f P w"
  by (simp_all add: untouched_def)

lemma untouched_ops [keeps_intro]:
  "keeps (untouched f P) (alloc p)" "keeps (untouched f P) (put_proxy r q)"
  "keeps (untouched f P) (modify (\<lambda>w. w\<lparr>objects := (objects w)(n := x)\<rparr>))"
  by (auto simp: keeps_def alloc_def put_proxy_def)

lemma untouched_install [keeps_intro]: "keeps (untouched f P) (install r n)"
  unfolding install_def SetID_def SetContext_def by (intro keeps_intro)

lemma untouched_New [keeps_intro]: "keeps (untouched f P) (New t)"
  unfolding New_def
proof (intro keeps_intro)
  show "keeps (untouched f P) (Register r)" for r
    by (auto simp: keeps_def Register_def Let_def split: prod.splits option.splits
        intro!: keepsD [OF untouched_install])
qed

lemma untouched_WriteMsg [keeps_intro]: "keeps (untouched f P) (WriteMsg E b oob)"
  by (auto simp: keeps_def untouched_def WriteMsg_sticky)

interpretation silence: client_inv E "untouched f P" for E :: "'k env" and f P
  by unfold_locales (auto simp: MarkZombie_def SetHandler_def intro!: keeps_intro)

text \<open>Along a run the connection keeps every property that closing it keeps.\<close>

lemma run_silent:
  assumes run: "client_run E w w'" and f: "fatalErr w = Some f" and P: "P (conn w)"
    and close: "\<And>k. P k \<Longrightarrow> P (snd (close_conn E k))"
  shows "fatalErr w' = Some f \<and> P (conn w')"
proof -
  have "untouched f P w'"
  proof (rule silence.run_inv [OF run])
    show "untouched f P (snd (Context_Dispatch generated E w))" if "untouched f P w" for w
      using that by (simp add: untouched_def Context_Dispatch_def)
    show "untouched f P (snd (Unregister r w))" if "untouched f P w" for w r
      using that by (simp add: Unregister_def ID_def bnd_def deref_def split: option.splits)
    show "untouched f P (snd (DeleteID n w))" if "untouched f P w" for w n
      using that by (simp add: DeleteID_def Let_def)
    show "untouched f P (snd (Close E w))" if "untouched f P w" for w
      using that close by (simp add: untouched_def Close_def andthen_def bnd_def drain_run split_beta)
  qed (use f P in \<open>simp add: untouched_def\<close>)
  then show ?thesis by (simp add: untouched_def)
qed

end
