(* ===== verification/Stream_Host.thy ===== *)
theory Stream_Host
  imports Roundtrip_Loop Peer Client_Silence
begin

text \<open>
  An in-memory socket: incoming bytes wait in chunks, each with the descriptors that travel with
  its first byte, and outgoing bytes are appended to a buffer. It satisfies what the properties
  assume of a host, and the concrete runs of the development use it. A receive on an empty socket is a
  deadline, a descriptor is one byte of ancillary data, and every handler returns at once.
\<close>

record stream =
  chunks :: "(bytes \<times> byte list) list"
  out_bytes :: bytes
  out_oob :: bytes

definition stream_recv :: "stream \<Rightarrow> nat \<Rightarrow> recv \<times> stream" where
  "stream_recv k n =
     (case chunks k of
        [] \<Rightarrow> (\<lparr>rc_n = 0, rc_data = [], rc_oobn = 0, rc_oob = [], rc_flags = 0, rc_err = Some (OsError 11 True)\<rparr>, k)
      | (bs, fds) # cs \<Rightarrow>
          let m = min n (length bs) in
          (\<lparr>rc_n = m, rc_data = take m bs, rc_oobn = length fds, rc_oob = fds, rc_flags = 0, rc_err = None\<rparr>,
           k\<lparr>chunks := (if m < length bs then [(drop m bs, [])] else []) @ cs\<rparr>))"

definition stream_env :: "stream env" where
  "stream_env = \<lparr>
     recvmsg = stream_recv,
     oob_space = 1040,
     parse_scm = (\<lambda>bs. Inr [(0, 0, bs)]),
     parse_rights = (\<lambda>(l, t, bs). (map uint bs, None)),
     unix_rights = (\<lambda>fd. [of_int fd]),
     sendmsg = (\<lambda>k data oob. ((int (length data), int (length oob), None),
       k\<lparr>out_bytes := out_bytes k @ data, out_oob := out_oob k @ oob\<rparr>)),
     sendplain = (\<lambda>k data. ((int (length data), None), k\<lparr>out_bytes := out_bytes k @ data\<rparr>)),
     close_conn = (\<lambda>k. (None, k)),
     handler = (\<lambda>n e. ret ())\<rparr>"

definition stream_of :: "(bytes \<times> byte list) list \<Rightarrow> stream" where
  "stream_of cs = \<lparr>chunks = cs, out_bytes = [], out_oob = []\<rparr>"

lemma stream_of_simps [simp]:
  "chunks (stream_of cs) = cs" "out_bytes (stream_of cs) = []" "out_oob (stream_of cs) = []"
  "(stream_of cs)\<lparr>chunks := ds\<rparr> = stream_of ds"
  by (simp_all add: stream_of_def)

lemma stream_close [simp]: "close_conn stream_env k = (None, k)"
  by (simp add: stream_env_def)

lemma stream_recvmsg [simp]: "recvmsg stream_env = stream_recv"
  by (simp add: stream_env_def)

lemma stream_handler [simp]: "handler stream_env n e = ret ()"
  by (simp add: stream_env_def)

lemma stream_rights: "rights_nonneg stream_env"
  by (auto simp: rights_nonneg_def stream_env_def)

lemma stream_handlers: "handlers_wf stream_env" "handlers_return stream_env"
  by (auto simp: handlers_wf_def handlers_return_def stream_env_def intro: keeps_intro)

lemma stream_sink: "sink stream_env out_bytes out_oob"
  by (auto simp: sink_def stream_env_def)

lemma stream_accepting: "accepting stream_env"
  by (auto simp: accepting_def stream_env_def)

lemma stream_write:
  assumes "fatalErr w = None" "valid_frame b"
  shows "WriteMsg stream_env b oob w = (Inr None, w\<lparr>conn := (conn w)\<lparr>out_bytes := out_bytes (conn w) @ b, out_oob := out_oob (conn w) @ oob\<rparr>\<rparr>)"
  using assms by (auto simp: WriteMsg_valid [OF assms] writeFrame_def stream_env_def Let_def write_rest.simps valid_frame_def)

text \<open>Whole chunks are delivered one by one, with their descriptors.\<close>

lemma stream_delivers:
  assumes "\<forall>c\<in>set cs. fst c \<noteq> [] \<and> length (snd c) \<le> 1040"
  shows "delivers stream_env (k\<lparr>chunks := cs @ rest\<rparr>) (concat (map fst cs)) (map uint (concat (map snd cs)))
    (k\<lparr>chunks := rest\<rparr>)"
  using assms
proof (induction cs)
  case Nil
  then show ?case by (simp add: delivers_done)
next
  case (Cons c cs)
  obtain bs fds where c: "c = (bs, fds)" by fastforce
  let ?rc = "\<lparr>rc_n = length bs, rc_data = bs, rc_oobn = length fds, rc_oob = fds, rc_flags = 0, rc_err = None\<rparr>"
  have "delivers stream_env (k\<lparr>chunks := (c # cs) @ rest\<rparr>) (concat (map fst (c # cs)))
      (map uint fds @ map uint (concat (map snd cs))) (k\<lparr>chunks := rest\<rparr>)"
  proof (rule delivers_chunk)
    show "recvmsg stream_env (k\<lparr>chunks := (c # cs) @ rest\<rparr>) (length (concat (map fst (c # cs)))) =
        (?rc, k\<lparr>chunks := cs @ rest\<rparr>)"
      by (simp add: stream_env_def stream_recv_def c Let_def min_def)
    show "rights_of stream_env ?rc = Some (map uint fds)"
      using Cons.prems c by (simp add: rights_of_def stream_env_def)
    show "delivers stream_env (k\<lparr>chunks := cs @ rest\<rparr>) (drop (rc_n ?rc) (concat (map fst (c # cs))))
        (map uint (concat (map snd cs))) (k\<lparr>chunks := rest\<rparr>)"
      using Cons c by simp
  qed (use Cons.prems c in auto)
  then show ?case using c by simp
qed

text \<open>A frame whose header and body are each cut into chunks arrives.\<close>

lemma stream_arrives:
  assumes "concat (map fst hs) = frame_header sender opcode (of_nat (8 + length body))" "concat (map fst bs) = body"
    and "\<forall>c\<in>set (hs @ bs). fst c \<noteq> [] \<and> length (snd c) \<le> 1040"
    and "sender \<noteq> 0" "opcode \<le> 0xffff" "4 dvd length body" "length body \<le> 65527"
    and "conn w = k\<lparr>chunks := hs @ bs @ rest\<rparr>"
  shows "arrives stream_env w sender opcode body (map uint (concat (map snd (hs @ bs)))) (k\<lparr>chunks := rest\<rparr>)"
proof -
  have "delivers stream_env (conn w) (frame_header sender opcode (of_nat (8 + length body)))
      (map uint (concat (map snd hs))) (k\<lparr>chunks := bs @ rest\<rparr>)"
    using stream_delivers [where cs = hs and k = k and rest = "bs @ rest"] assms by simp
  moreover have "delivers stream_env (k\<lparr>chunks := bs @ rest\<rparr>) body (map uint (concat (map snd bs))) (k\<lparr>chunks := rest\<rparr>)"
    using stream_delivers [where cs = bs and k = k and rest = rest] assms by simp
  ultimately show ?thesis
    unfolding arrives_def using assms(4-7)
    by (intro conjI exI [of _ "map uint (concat (map snd hs))"] exI [of _ "map uint (concat (map snd bs))"]) auto
qed

text \<open>One frame in two chunks, its descriptors on the header.\<close>

definition frame_chunks :: "u32 \<Rightarrow> u32 \<Rightarrow> bytes \<Rightarrow> byte list \<Rightarrow> (bytes \<times> byte list) list" where
  "frame_chunks sender opcode body fds = [(frame_header sender opcode (of_nat (8 + length body)), fds), (body, [])]"

lemma frame_arrives:
  assumes "body \<noteq> []" "length fds \<le> 1040" "sender \<noteq> 0" "opcode \<le> 0xffff" "4 dvd length body" "length body \<le> 65527"
    and "chunks (conn w) = frame_chunks sender opcode body fds @ rest"
  shows "arrives stream_env w sender opcode body (map uint fds) ((conn w)\<lparr>chunks := rest\<rparr>)"
proof -
  let ?h = "frame_header sender opcode (of_nat (8 + length body))"
  have ne: "?h \<noteq> []" using length_frame_header [of sender opcode "of_nat (8 + length body)"] by (metis list.size(3) zero_neq_numeral)
  have "arrives stream_env w sender opcode body (map uint (concat (map snd ([(?h, fds)] @ [(body, [])]))))
      ((conn w)\<lparr>chunks := rest\<rparr>)"
    by (rule stream_arrives) (use assms ne in \<open>simp_all add: frame_chunks_def\<close>)
  then show ?thesis by simp
qed

end
