(* ===== verification/Connect.thy ===== *)
theory Connect
  imports Client_Machine
begin

text \<open>
  \<open>Connect\<close> and \<open>unixConnFromFD\<close> (client/context.go, lines 240 to 307): where the socket comes from. The
  environment, the descriptors and the sockets of the process are the host; what the code calls of
  strconv and filepath is modelled here, the system calls are parameters. The theory shows how an
  address is resolved and that an adopted descriptor is closed exactly once and its name dropped,
  on success and on failure.
\<close>

section \<open>Library functions\<close>

text \<open>\<open>strconv.Atoi\<close>: an optional sign and decimal digits, in the range of a 64-bit \<open>int\<close>.\<close>

definition digit_val :: "char \<Rightarrow> int option" where
  "digit_val c = (let n = int (of_char c) in if 48 \<le> n \<and> n \<le> 57 then Some (n - 48) else None)"

primrec digits_val :: "string \<Rightarrow> int \<Rightarrow> int option" where
  "digits_val [] n = Some n"
| "digits_val (c # cs) n = (case digit_val c of None \<Rightarrow> None | Some d \<Rightarrow> digits_val cs (10 * n + d))"

definition Atoi :: "string \<Rightarrow> int option" where
  "Atoi s =
     (let neg = (s \<noteq> [] \<and> hd s = CHR ''-''); signed = (neg \<or> (s \<noteq> [] \<and> hd s = CHR ''+''));
          ds = (if signed then tl s else s) in
      if ds = [] then None
      else case digits_val ds 0 of None \<Rightarrow> None
        | Some n \<Rightarrow> let v = (if neg then - n else n) in
            if - (2 ^ 63) \<le> v \<and> v < 2 ^ 63 then Some v else None)"

definition IsAbs :: "string \<Rightarrow> bool" where
  "IsAbs p \<longleftrightarrow> p \<noteq> [] \<and> hd p = CHR ''/''"

text \<open>\<open>filepath.Join\<close> of two non-empty elements: the lexical \<open>Clean\<close> of the joined path.\<close>

fun split_slash :: "string \<Rightarrow> string \<Rightarrow> string list" where
  "split_slash [] acc = [acc]"
| "split_slash (c # cs) acc = (if c = CHR ''/'' then acc # split_slash cs [] else split_slash cs (acc @ [c]))"

fun clean_comps :: "bool \<Rightarrow> string list \<Rightarrow> string list \<Rightarrow> string list" where
  "clean_comps rooted [] out = out"
| "clean_comps rooted (c # cs) out =
     (if c = [] \<or> c = ''.'' then clean_comps rooted cs out
      else if c = ''..'' then
        (if out \<noteq> [] \<and> last out \<noteq> ''..'' then clean_comps rooted cs (butlast out)
         else if rooted then clean_comps rooted cs out
         else clean_comps rooted cs (out @ [c]))
      else clean_comps rooted cs (out @ [c]))"

fun join_slash :: "string list \<Rightarrow> string" where
  "join_slash [] = []"
| "join_slash [c] = c"
| "join_slash (c # cs) = c @ ''/'' @ join_slash cs"

definition Clean :: "string \<Rightarrow> string" where
  "Clean p =
     (let rooted = IsAbs p; out = join_slash (clean_comps rooted (split_slash p []) []) in
      if rooted then ''/'' @ out else if out = [] then ''.'' else out)"

definition Join :: "string \<Rightarrow> string \<Rightarrow> string" where
  "Join a b = Clean (a @ ''/'' @ b)"

section \<open>The host\<close>

text \<open>
  The environment variables and what has happened to descriptors; the system calls are parameters:
  \<open>net.DialUnix\<close>, whether \<open>os.NewFile\<close> gives a file, \<open>net.FileConn\<close> (which duplicates the descriptor),
  \<open>file.Close\<close>, \<open>os.Unsetenv\<close>, and whether a connection is a Unix stream socket with a local address.
\<close>

datatype 'k host_effect = FileClosed int | ConnClosed 'k

record 'k host =
  env_vars :: "string \<Rightarrow> string option"
  host_log :: "'k host_effect list"

record 'k calls =
  DialUnix :: "string \<Rightarrow> gerr + 'k"
  NewFile :: "int \<Rightarrow> bool"
  FileConn :: "int \<Rightarrow> gerr + 'k"
  FileClose :: "int \<Rightarrow> gerr option"
  Unsetenv :: "string \<Rightarrow> gerr option"
  is_unix :: "'k \<Rightarrow> bool"

definition host_do :: "'k host_effect \<Rightarrow> 'k host \<Rightarrow> 'k host" where
  "host_do x h = h\<lparr>host_log := host_log h @ [x]\<rparr>"

definition unset :: "'k calls \<Rightarrow> string \<Rightarrow> 'k host \<Rightarrow> gerr option \<times> 'k host" where
  "unset C name h =
     (case Unsetenv C name of Some e \<Rightarrow> (Some e, h)
      | None \<Rightarrow> (None, h\<lparr>env_vars := (env_vars h)(name := None)\<rparr>))"

section \<open>Connecting\<close>

definition unixConnFromFD :: "'k calls \<Rightarrow> int \<Rightarrow> 'k host \<Rightarrow> (gerr + 'k) \<times> 'k host" where
  "unixConnFromFD C fd h =
     (if \<not> NewFile C fd then (Inl (Errorf ''invalid file descriptor'' [] []), h)
      else
        let r = FileConn C fd; closeErr = FileClose C fd; h1 = host_do (FileClosed fd) h in
        case r of
          Inl err \<Rightarrow> (Inl (the (errors_join [Some err, closeErr])), h1)
        | Inr k \<Rightarrow>
          (case closeErr of
             Some e \<Rightarrow> (Inl e, host_do (ConnClosed k) h1)
           | None \<Rightarrow>
             if \<not> is_unix C k
             then (Inl (Errorf ''file descriptor is not a Unix stream socket'' [] []), host_do (ConnClosed k) h1)
             else (Inr k, h1)))"

text \<open>The tail shared by both sources of a socket: \<open>ctx.conn = conn; return NewDisplay(ctx), nil\<close>.\<close>

definition new_client :: "'k \<Rightarrow> ref \<times> 'k world" where
  "new_client k = (case NewDisplay (empty_world k) of (r, w) \<Rightarrow> (case r of Inr d \<Rightarrow> (d, w) | Inl p \<Rightarrow> (0, w)))"

definition Connect :: "'k calls \<Rightarrow> string \<Rightarrow> 'k host \<Rightarrow> (gerr + ref \<times> 'k world) \<times> 'k host" where
  "Connect C addr h =
     (case (if addr = [] then env_vars h ''WAYLAND_SOCKET'' else None) of
        Some value \<Rightarrow>
          (case Atoi value of
             None \<Rightarrow> (Inl (Errorf ''env WAYLAND_SOCKET is not a valid file descriptor: %q''
                [FBytes (map of_char value)] []), h)
           | Some fd \<Rightarrow>
             if fd < 0
             then (Inl (Errorf ''env WAYLAND_SOCKET is not a valid file descriptor: %q''
                [FBytes (map of_char value)] []), h)
             else
               let (r, h1) = unixConnFromFD C fd h; (unsetErr, h2) = unset C ''WAYLAND_SOCKET'' h1 in
               case r of
                 Inl err \<Rightarrow>
                   (Inl (the (errors_join [Some (Errorf ''env WAYLAND_SOCKET: %w'' [] [err]), unsetErr])), h2)
               | Inr k \<Rightarrow>
                 (case unsetErr of
                    Some e \<Rightarrow> (Inl e, host_do (ConnClosed k) h2)
                  | None \<Rightarrow> (Inr (new_client k), h2)))
      | None \<Rightarrow>
          let display = (case env_vars h ''WAYLAND_DISPLAY'' of None \<Rightarrow> [] | Some v \<Rightarrow> v);
              addr1 = (if addr \<noteq> [] then addr else if display = [] then ''wayland-0'' else display);
              runtimeDir = (case env_vars h ''XDG_RUNTIME_DIR'' of None \<Rightarrow> [] | Some v \<Rightarrow> v)
          in
          if \<not> IsAbs addr1 \<and> runtimeDir = []
          then (Inl (Errorf ''env XDG_RUNTIME_DIR not set'' [] []), h)
          else
            let path = (if IsAbs addr1 then addr1 else Join runtimeDir addr1) in
            case DialUnix C path of
              Inl err \<Rightarrow> (Inl err, h)
            | Inr k \<Rightarrow> (Inr (new_client k), h))"

section \<open>Lemmas\<close>

lemma new_client_value: "new_client k = (0, fresh_client k)"
  by (simp add: new_client_def fresh_run(1))

lemma unixConnFromFD_ok:
  assumes "unixConnFromFD C fd h = (Inr k, h')"
  shows "FileConn C fd = Inr k \<and> is_unix C k \<and> h' = host_do (FileClosed fd) h"
  using assms by (auto simp: unixConnFromFD_def Let_def split: if_splits sum.splits option.splits)

text \<open>Whatever happens, the inherited descriptor is closed once, and a connection that is not returned too.\<close>

lemma unixConnFromFD_log:
  assumes "NewFile C fd"
  shows "host_log (snd (unixConnFromFD C fd h)) = host_log h @ FileClosed fd #
      (case FileConn C fd of Inl e \<Rightarrow> []
       | Inr k \<Rightarrow> if FileClose C fd = None \<and> is_unix C k then [] else [ConnClosed k])"
    and "env_vars (snd (unixConnFromFD C fd h)) = env_vars h"
  using assms by (auto simp: unixConnFromFD_def Let_def host_do_def split: sum.splits option.splits)

lemma Connect_socket:
  assumes "env_vars h ''WAYLAND_SOCKET'' = Some value" "Atoi value = Some fd" "0 \<le> fd"
  shows "Connect C [] h =
    (let (r, h1) = unixConnFromFD C fd h; (unsetErr, h2) = unset C ''WAYLAND_SOCKET'' h1 in
     case r of Inl err \<Rightarrow> (Inl (the (errors_join [Some (Errorf ''env WAYLAND_SOCKET: %w'' [] [err]), unsetErr])), h2)
     | Inr k \<Rightarrow> (case unsetErr of Some e \<Rightarrow> (Inl e, host_do (ConnClosed k) h2) | None \<Rightarrow> (Inr (new_client k), h2)))"
  using assms by (simp add: Connect_def Let_def)

text \<open>
  On an absolute path without empty, dot or dot-dot components \<open>Join\<close> appends a plain name after a slash.
\<close>

definition plain_name :: "string \<Rightarrow> bool" where
  "plain_name c \<longleftrightarrow> c \<noteq> [] \<and> CHR ''/'' \<notin> set c \<and> c \<noteq> ''.'' \<and> c \<noteq> ''..''"

lemma split_slash_last: "CHR ''/'' \<notin> set c \<Longrightarrow> split_slash c acc = [acc @ c]"
  by (induction c arbitrary: acc) auto

lemma split_slash_next: "CHR ''/'' \<notin> set c \<Longrightarrow> split_slash (c @ ''/'' @ s) acc = (acc @ c) # split_slash s []"
  by (induction c arbitrary: acc) auto

lemma split_slash_join: "cs \<noteq> [] \<Longrightarrow> \<forall>c\<in>set cs. CHR ''/'' \<notin> set c \<Longrightarrow> split_slash (join_slash cs) [] = cs"
proof (induction cs rule: join_slash.induct)
  case (3 c d cs)
  then show ?case using split_slash_next [of c "join_slash (d # cs)" "[]"] by simp
qed (simp_all add: split_slash_last)

lemma join_slash_snoc: "cs \<noteq> [] \<Longrightarrow> join_slash (cs @ [c]) = join_slash cs @ ''/'' @ c"
  by (induction cs rule: join_slash.induct) auto

lemma clean_comps_plain: "\<forall>c\<in>set cs. plain_name c \<Longrightarrow> clean_comps rooted cs out = out @ cs"
  by (induction cs arbitrary: out) (auto simp: plain_name_def)

lemma Clean_plain:
  assumes "cs \<noteq> []" "\<forall>c\<in>set cs. plain_name c"
  shows "Clean (''/'' @ join_slash cs) = ''/'' @ join_slash cs"
proof -
  have "split_slash (''/'' @ join_slash cs) [] = [] # cs"
    using split_slash_next [of "[]" "join_slash cs" "[]"] split_slash_join [of cs] assms by (auto simp: plain_name_def)
  then show ?thesis using clean_comps_plain [OF assms(2)] by (simp add: Clean_def Let_def IsAbs_def)
qed

lemma Join_plain:
  assumes "cs \<noteq> []" "\<forall>c\<in>set cs. plain_name c" "plain_name name"
  shows "Join (''/'' @ join_slash cs) name = ''/'' @ join_slash cs @ ''/'' @ name"
  using Clean_plain [of "cs @ [name]"] assms join_slash_snoc [of cs name] by (simp add: Join_def)

end
