(* ===== verification/Test_Pair.thy ===== *)
theory Test_Pair
  imports Peer Connect Client_Machine
begin

text \<open>
  The fixture of the wire tests (\<open>Pair\<close> of internal/waylandtest/pair.go): a listening socket, a client connected to it and the
  server's end of the connection. \<open>testing.T\<close> keeps the functions given to \<open>Cleanup\<close> and runs them, last one first, when the test
  ends, also when \<open>Fatalf\<close> ended it. The system calls of the listener are parameters; what each cleanup closes is recorded.
\<close>

section \<open>The fixture\<close>

record ('k, 'l) net_calls =
  TempDir :: string
  ListenUnix :: "string \<Rightarrow> gerr + 'l"
  AcceptUnix :: "'l \<Rightarrow> gerr + 'k"

datatype ('k, 'l) endpoint = Listener 'l | ClientContext | PeerConn 'k

record ('k, 'l) fixture =
  tst_host :: "'k host"
  ctx :: "'k world option"
  cleanups :: "('k, 'l) endpoint list"
  shut :: "('k, 'l) endpoint list"

definition Cleanup :: "('k, 'l) endpoint \<Rightarrow> ('k, 'l) fixture \<Rightarrow> ('k, 'l) fixture" where
  "Cleanup x s = s\<lparr>cleanups := x # cleanups s\<rparr>"

definition Pair_path :: "('k, 'l) net_calls \<Rightarrow> string" where
  "Pair_path T = Join (TempDir T) ''wayland-0''"

definition Pair :: "'k calls \<Rightarrow> ('k, 'l) net_calls \<Rightarrow> ('k, 'l) fixture \<Rightarrow> (fatal + 'k) \<times> ('k, 'l) fixture" where
  "Pair C T s =
     (let path = Pair_path T; arg = FBytes (map of_char path) in
      case ListenUnix T path of
        Inl err \<Rightarrow> (Inl (Fatalf ''listen on %s: %v'' [arg] [err]), s)
      | Inr listener \<Rightarrow>
        let s1 = Cleanup (Listener listener) s; (r, h) = Connect C path (tst_host s1) in
        case r of
          Inl err \<Rightarrow> (Inl (Fatalf ''connect to %s: %v'' [arg] [err]), s1\<lparr>tst_host := h\<rparr>)
        | Inr (display, w) \<Rightarrow>
          let s2 = Cleanup ClientContext (s1\<lparr>tst_host := h, ctx := Some w\<rparr>) in
          case AcceptUnix T listener of
            Inl err \<Rightarrow> (Inl (Fatalf ''accept on %s: %v'' [arg] [err]), s2)
          | Inr peer \<Rightarrow> (Inr peer, Cleanup (PeerConn peer) s2))"

definition run_cleanup :: "'k env \<Rightarrow> ('k, 'l) endpoint \<Rightarrow> ('k, 'l) fixture \<Rightarrow> ('k, 'l) fixture" where
  "run_cleanup E x s =
     (case x of
        ClientContext \<Rightarrow> s\<lparr>ctx := map_option (\<lambda>w. snd (Close E w)) (ctx s), shut := shut s @ [x]\<rparr>
      | _ \<Rightarrow> s\<lparr>shut := shut s @ [x]\<rparr>)"

definition end_test :: "'k env \<Rightarrow> ('k, 'l) fixture \<Rightarrow> ('k, 'l) fixture" where
  "end_test E s = fold (run_cleanup E) (cleanups s) (s\<lparr>cleanups := []\<rparr>)"

text \<open>A test: its body may do what it likes with the client and the peer before the cleanups run.\<close>

definition run_test ::
  "'k calls \<Rightarrow> ('k, 'l) net_calls \<Rightarrow> 'k env \<Rightarrow> ('k \<Rightarrow> 'k world \<Rightarrow> 'k world) \<Rightarrow> ('k, 'l) fixture \<Rightarrow> ('k, 'l) fixture" where
  "run_test C T E body s =
     (case Pair C T s of
        (Inl e, s') \<Rightarrow> end_test E s'
      | (Inr peer, s') \<Rightarrow> end_test E (s'\<lparr>ctx := map_option (body peer) (ctx s')\<rparr>))"

section \<open>Cleanup\<close>

lemma fold_cleanup_shut:
  "shut (fold (run_cleanup E) xs s) = shut s @ xs" "cleanups (fold (run_cleanup E) xs s) = cleanups s"
  by (induction xs arbitrary: s) (simp_all add: run_cleanup_def split: endpoint.splits)

text \<open>Whatever fails, what was opened is closed once, and in the reverse order.\<close>

lemma end_test_shut: "shut (end_test E s) = shut s @ cleanups s" "cleanups (end_test E s) = []"
  by (simp_all add: end_test_def fold_cleanup_shut)

lemma Pair_outcome:
  obtains (listen) err where "ListenUnix T (Pair_path T) = Inl err" "snd (Pair C T s) = s" "\<exists>e. fst (Pair C T s) = Inl e"
    | (connect) l err h where "ListenUnix T (Pair_path T) = Inr l" "Connect C (Pair_path T) (tst_host s) = (Inl err, h)"
        "snd (Pair C T s) = s\<lparr>tst_host := h, cleanups := Listener l # cleanups s\<rparr>" "\<exists>e. fst (Pair C T s) = Inl e"
    | (accept) l d w h err where "ListenUnix T (Pair_path T) = Inr l" "Connect C (Pair_path T) (tst_host s) = (Inr (d, w), h)"
        "AcceptUnix T l = Inl err" "\<exists>e. fst (Pair C T s) = Inl e"
        "snd (Pair C T s) = s\<lparr>tst_host := h, ctx := Some w, cleanups := ClientContext # Listener l # cleanups s\<rparr>"
    | (pair) l d w h p where "ListenUnix T (Pair_path T) = Inr l" "Connect C (Pair_path T) (tst_host s) = (Inr (d, w), h)"
        "AcceptUnix T l = Inr p" "Pair C T s =
          (Inr p, s\<lparr>tst_host := h, ctx := Some w, cleanups := PeerConn p # ClientContext # Listener l # cleanups s\<rparr>)"
proof (cases "ListenUnix T (Pair_path T)")
  case (Inl e)
  then show ?thesis using listen by (simp add: Pair_def Let_def)
next
  case l: (Inr l)
  obtain r h where c: "Connect C (Pair_path T) (tst_host s) = (r, h)" by (cases "Connect C (Pair_path T) (tst_host s)")
  show ?thesis
  proof (cases r)
    case (Inl e)
    then show ?thesis using connect l c by (simp add: Pair_def Let_def Cleanup_def)
  next
    case (Inr dw)
    then obtain d w where dw: "r = Inr (d, w)" by (cases dw) auto
    then show ?thesis using accept pair l c by (cases "AcceptUnix T l") (simp_all add: Pair_def Let_def Cleanup_def)
  qed
qed

lemma Pair_shut: "shut (snd (Pair C T s)) = shut s"
  by (cases rule: Pair_outcome [of T C s]) simp_all

lemma run_test_shut:
  "shut (run_test C T E body s) = shut s @ cleanups (snd (Pair C T s)) \<and> cleanups (run_test C T E body s) = []"
  using Pair_shut [of C T s] by (auto simp: run_test_def end_test_shut split: prod.split sum.split)

section \<open>No descriptor survives a test\<close>

text \<open>
  A test whose body only uses the client leaks no descriptor, whatever the compositor's end sends and whichever step of the
  fixture fails: after the cleanups every descriptor the client received is closed or with a handler.
\<close>

lemma Connect_fresh:
  assumes "Connect C path h = (Inr (d, w), h')"
  shows "\<exists>k. d = 0 \<and> w = fresh_client k"
  using assms by (auto simp: Connect_def Let_def new_client_value split: if_splits option.splits sum.splits prod.splits)

definition settled :: "'k world \<Rightarrow> bool" where
  "settled w \<longleftrightarrow> pendingFDs w = [] \<and> received (trace w) = released (trace w)"

lemma Close_settled:
  assumes "client_run E (fresh_client k) w" "handlers_wf E" "handlers_return E" "rights_nonneg E"
  shows "settled (snd (Close E w))"
proof -
  have "fd_bal {#} (snd (Close E w))" by (rule Close_bal [OF run_bal [OF assms(1) fresh_wf fresh_bal assms(2-4)]])
  then show ?thesis using Close_drops_queue [of E w] by (simp add: settled_def fd_bal_def)
qed

lemma test_settles:
  fixes s :: "('k, 'l) fixture"
  assumes "\<And>p w. client_run E w (body p w)" "handlers_wf E" "handlers_return E" "rights_nonneg E"
    and "ctx s = None" "cleanups s = []" "ctx (run_test C T E body s) = Some w"
  shows "settled w"
proof (cases rule: Pair_outcome [of T C s])
  case (accept l d w0 h err)
  with Connect_fresh obtain k where "w0 = fresh_client k" by blast
  then have "settled (snd (Close E w0))" using Close_settled [OF run_refl assms(2-4)] by blast
  moreover obtain e where "Pair C T s = (Inl e, snd (Pair C T s))" using accept(4) by (metis prod.collapse)
  ultimately show ?thesis using accept(5) assms(6,7) by (auto simp: run_test_def end_test_def run_cleanup_def)
next
  case (pair l d w0 h p)
  with Connect_fresh obtain k where "w0 = fresh_client k" by blast
  then have "settled (snd (Close E (body p w0)))" using Close_settled [OF _ assms(2-4)] assms(1) by blast
  then show ?thesis using pair(4) assms(6,7) by (simp add: run_test_def end_test_def run_cleanup_def)
qed (use assms(5-7) in \<open>auto simp: run_test_def end_test_def run_cleanup_def split: prod.splits sum.splits\<close>)

text \<open>On an absolute path the client of a pair is connected to the listener's socket, and the peer is the accepted end.\<close>

lemma Pair_connects:
  assumes "IsAbs (Pair_path T)" "ListenUnix T (Pair_path T) = Inr l" "DialUnix C (Pair_path T) = Inr k" "AcceptUnix T l = Inr p"
  shows "Pair C T s = (Inr p, s\<lparr>ctx := Some (fresh_client k), cleanups := PeerConn p # ClientContext # Listener l # cleanups s\<rparr>)"
proof -
  have "Pair_path T \<noteq> []" using assms(1) by (auto simp: IsAbs_def)
  then have "Connect C (Pair_path T) (tst_host s) = (Inr (0, fresh_client k), tst_host s)"
    using assms(1,3) by (simp add: Connect_def Let_def new_client_value)
  then show ?thesis using assms(2,4) by (simp add: Pair_def Let_def Cleanup_def)
qed

end
