(* ===== verification/Control_FD.thy ===== *)
theory Control_FD
  imports World
begin

text \<open>
  The socket's control entry points of client/context.go: \<open>SetReadDeadline\<close> and \<open>ControlFD\<close> with its
  helper \<open>controlFD\<close>. The runtime's raw connection is a parameter: \<open>SyscallConn\<close> gives it or fails, and
  \<open>Control\<close> calls the function it is given at most once, with the descriptor, and returns an error of its
  own. A callback is a function of the descriptor on the world, as user code may use the client.
\<close>

record 'k raw_conn =
  rw_control :: "'k world \<Rightarrow> int option \<times> gerr option"

record 'k sock_calls =
  SyscallConn :: "'k \<Rightarrow> gerr + 'k raw_conn"
  set_deadline :: "'k \<Rightarrow> int \<Rightarrow> gerr option \<times> 'k"

type_synonym 'k fd_callback = "int \<Rightarrow> ('k world, gerr option) go"

definition SetReadDeadline :: "'k sock_calls \<Rightarrow> int \<Rightarrow> ('k world, gerr option) go" where
  "SetReadDeadline S t = (\<lambda>w. let (e, k) = set_deadline S (conn w) t in (Inr e, w\<lparr>conn := k\<rparr>))"

definition controlFD :: "'k raw_conn \<Rightarrow> 'k fd_callback \<Rightarrow> ('k world, gerr option) go" where
  "controlFD raw fn =
     bnd (gets (rw_control raw)) (\<lambda>(called, controlErr).
     bnd (case called of None \<Rightarrow> ret None | Some fd \<Rightarrow> fn fd) (\<lambda>callbackErr.
     ret (errors_join [controlErr, callbackErr])))"

definition ControlFD :: "'k sock_calls \<Rightarrow> 'k fd_callback option \<Rightarrow> ('k world, gerr option) go" where
  "ControlFD S fn =
     (case fn of None \<Rightarrow> ret (Some (Sentinel ErrNilControlCallback))
      | Some f \<Rightarrow>
          bnd (gets (\<lambda>w. SyscallConn S (conn w))) (\<lambda>r.
          case r of Inl err \<Rightarrow> ret (Some err) | Inr raw \<Rightarrow> controlFD raw f))"

lemma controlFD_called:
  assumes "rw_control raw w = (Some fd, cerr)" "fn fd w = (Inr berr, w')"
  shows "controlFD raw fn w = (Inr (errors_join [cerr, berr]), w')"
  using assms by (simp add: controlFD_def bnd_def)

lemma controlFD_not_called:
  "rw_control raw w = (None, cerr) \<Longrightarrow> controlFD raw fn w = (Inr (errors_join [cerr, None]), w)"
  by (simp add: controlFD_def)

text \<open>An error of either side is in the result, and the result is nil exactly when both are.\<close>

lemma errors_join_is:
  "(errors_join [a, b] = None \<longleftrightarrow> a = None \<and> b = None) \<and>
   ((\<exists>e. errors_join [a, b] = Some e \<and> errors_is e s) \<longleftrightarrow>
     (\<exists>e. a = Some e \<and> errors_is e s) \<or> (\<exists>e. b = Some e \<and> errors_is e s))"
  by (cases a; cases b) (auto simp: errors_join_def map_filter_simps)

end
