(* ===== verification/Destructors.thy ===== *)
theory Destructors
  imports Bindings Client_Inv
begin

text \<open>
  Destruction of protocol objects: the requests the protocol marks as destructors, which write their
  message and mark the proxy a zombie on every way out, and the \<open>Destroy\<close> methods of the interfaces
  without one, which only mark it.
\<close>

definition destructor_requests :: "'k env \<Rightarrow> ref \<Rightarrow> ('k world, gerr option) go list" where
  "destructor_requests E i =
     [ShmPool_Destroy E i, Shm_Release E i, Buffer_Destroy E i, DataOffer_Destroy E i,
      DataSource_Destroy E i, DataDevice_Release E i, Surface_Destroy E i, Region_Destroy E i,
      Subcompositor_Destroy E i, Subsurface_Destroy E i, Output_Release E i, Fixes_Destroy E i,
      Seat_Release E i, Pointer_Release E i, Keyboard_Release E i, Touch_Release E i,
      ExtIdleNotifierV1_Destroy E i, ExtIdleNotificationV1_Destroy E i,
      ExtSessionLockManagerV1_Destroy E i, ExtSessionLockV1_Destroy E i,
      ExtSessionLockV1_UnlockAndDestroy E i, ExtSessionLockSurfaceV1_Destroy E i,
      WpCursorShapeManagerV1_Destroy E i, WpCursorShapeDeviceV1_Destroy E i, ZwpTextInputV3_Destroy E i,
      ZwpTextInputManagerV3_Destroy E i, ZwpTabletManagerV2_Destroy E i, ZwpTabletSeatV2_Destroy E i,
      ZwpTabletToolV2_Destroy E i, ZwpTabletV2_Destroy E i, ZwpTabletPadRingV2_Destroy E i,
      ZwpTabletPadStripV2_Destroy E i, ZwpTabletPadGroupV2_Destroy E i, ZwpTabletPadV2_Destroy E i]"

definition local_destructors :: "ref \<Rightarrow> ('k world, gerr option) go list" where
  "local_destructors i =
     [Display_Destroy i, Registry_Destroy i, Callback_Destroy i, Compositor_Destroy i,
      DataDeviceManager_Destroy i, Shell_Destroy i, ShellSurface_Destroy i]"

lemmas destructor_defs =
  ShmPool_Destroy_def Shm_Release_def Buffer_Destroy_def DataOffer_Destroy_def DataSource_Destroy_def
  DataDevice_Release_def Surface_Destroy_def Region_Destroy_def Subcompositor_Destroy_def
  Subsurface_Destroy_def Output_Release_def Fixes_Destroy_def Seat_Release_def Pointer_Release_def
  Keyboard_Release_def Touch_Release_def ExtIdleNotifierV1_Destroy_def
  ExtIdleNotificationV1_Destroy_def ExtSessionLockManagerV1_Destroy_def ExtSessionLockV1_Destroy_def
  ExtSessionLockV1_UnlockAndDestroy_def ExtSessionLockSurfaceV1_Destroy_def
  WpCursorShapeManagerV1_Destroy_def WpCursorShapeDeviceV1_Destroy_def ZwpTextInputV3_Destroy_def
  ZwpTextInputManagerV3_Destroy_def ZwpTabletManagerV2_Destroy_def ZwpTabletSeatV2_Destroy_def
  ZwpTabletToolV2_Destroy_def ZwpTabletV2_Destroy_def ZwpTabletPadRingV2_Destroy_def
  ZwpTabletPadStripV2_Destroy_def ZwpTabletPadGroupV2_Destroy_def ZwpTabletPadV2_Destroy_def
  Display_Destroy_def Registry_Destroy_def Callback_Destroy_def Compositor_Destroy_def
  DataDeviceManager_Destroy_def Shell_Destroy_def ShellSurface_Destroy_def

text \<open>Writing never touches the proxies or the ID tables.\<close>

definition same_tables :: "'k world \<Rightarrow> 'k world \<Rightarrow> bool" where
  "same_tables w w' \<longleftrightarrow> heap w' = heap w \<and> objects w' = objects w \<and> freeIDs w' = freeIDs w \<and> currentID w' = currentID w"

lemma WriteMsg_tables: "keeps (same_tables w0) (WriteMsg E b oob)"
proof (rule keepsI)
  fix w :: "'a world"
  assume "same_tables w0 w"
  then show "same_tables w0 (snd (WriteMsg E b oob w))"
    by (cases rule: WriteMsg_outcome [of w E b oob]) (simp_all add: same_tables_def)
qed

lemma request_tables: "same_tables w (snd (request E j opcode len ps oob w))"
  by (rule keepsD [OF keeps_request [OF WriteMsg_tables]]) (simp add: same_tables_def)

text \<open>The deferred call marks the proxy whatever the request did, and leaves its result alone.\<close>

lemma deferred_zombie:
  assumes "heap w i = Some p"
  shows "\<exists>w1. request E i opcode len ps oob w = (fst (with_defer (MarkZombie i) (request E i opcode len ps oob) w), w1) \<and>
    same_tables w w1 \<and> snd (with_defer (MarkZombie i) (request E i opcode len ps oob) w) =
      w1\<lparr>heap := (heap w)(i := Some (p\<lparr>px_zombie := True\<rparr>))\<rparr>"
proof -
  obtain r w1 where r: "request E i opcode len ps oob w = (r, w1)" by fastforce
  have t: "same_tables w w1" using request_tables [of w E i opcode len ps oob] r by simp
  then show ?thesis using r assms by (simp add: with_defer_def MarkZombie_run same_tables_def)
qed

lemma destructor_request_form:
  "m \<in> set (destructor_requests E i) \<Longrightarrow> \<exists>opcode. m = with_defer (MarkZombie i) (request E i opcode 8 [] [])"
  unfolding destructor_requests_def destructor_defs by auto

lemma local_destructor_form: "m \<in> set (local_destructors i) \<Longrightarrow> m = andthen (MarkZombie i) (ret None)"
  unfolding local_destructors_def destructor_defs by auto

end
