(* ===== verification/Enums.thy ===== *)
theory Enums
  imports Go_Errors
begin

text \<open>
  The protocol enumerations of the bindings (client/client.go and the extension packages): for every
  enum type its constants, and the methods \<open>Name\<close>, \<open>Value\<close> and \<open>String\<close>. A value is the \<open>uint32\<close> it is in
  Go, and a \<open>switch\<close> over the constants is a lookup in the list of its cases.
\<close>

section \<open>Switches\<close>

type_synonym cases = "(int \<times> string) list"

text \<open>\<open>switch e { case c: return s ... default: return "" }\<close>\<close>

definition switch :: "cases \<Rightarrow> u32 \<Rightarrow> string" where
  "switch cs e = (case map_of cs (uint e) of None \<Rightarrow> [] | Some s \<Rightarrow> s)"

section \<open>DisplayError\<close>

definition DisplayError_consts :: "(string \<times> int) list" where
  "DisplayError_consts =
     [(''DisplayErrorInvalidObject'', 0), (''DisplayErrorInvalidMethod'', 1), (''DisplayErrorNoMemory'', 2),
      (''DisplayErrorImplementation'', 3)]"

definition DisplayError_Names :: cases where
  "DisplayError_Names =
     [(0, ''invalid_object''), (1, ''invalid_method''), (2, ''no_memory''), (3, ''implementation'')]"

definition DisplayError_Name :: "u32 \<Rightarrow> string" where
  "DisplayError_Name e = switch DisplayError_Names e"

definition DisplayError_Values :: cases where
  "DisplayError_Values =
     [(0, ''0''), (1, ''1''), (2, ''2''), (3, ''3'')]"

definition DisplayError_Value :: "u32 \<Rightarrow> string" where
  "DisplayError_Value e = switch DisplayError_Values e"

definition DisplayError_String :: "u32 \<Rightarrow> string" where
  "DisplayError_String e = DisplayError_Name e @ ''='' @ DisplayError_Value e"

section \<open>ShmError\<close>

definition ShmError_consts :: "(string \<times> int) list" where
  "ShmError_consts =
     [(''ShmErrorInvalidFormat'', 0), (''ShmErrorInvalidStride'', 1), (''ShmErrorInvalidFd'', 2)]"

definition ShmError_Names :: cases where
  "ShmError_Names =
     [(0, ''invalid_format''), (1, ''invalid_stride''), (2, ''invalid_fd'')]"

definition ShmError_Name :: "u32 \<Rightarrow> string" where
  "ShmError_Name e = switch ShmError_Names e"

definition ShmError_Values :: cases where
  "ShmError_Values =
     [(0, ''0''), (1, ''1''), (2, ''2'')]"

definition ShmError_Value :: "u32 \<Rightarrow> string" where
  "ShmError_Value e = switch ShmError_Values e"

definition ShmError_String :: "u32 \<Rightarrow> string" where
  "ShmError_String e = ShmError_Name e @ ''='' @ ShmError_Value e"

section \<open>ShmFormat\<close>

definition ShmFormat_consts :: "(string \<times> int) list" where
  "ShmFormat_consts =
     [(''ShmFormatArgb8888'', 0), (''ShmFormatXrgb8888'', 1), (''ShmFormatC8'', 538982467),
      (''ShmFormatRgb332'', 943867730), (''ShmFormatBgr233'', 944916290), (''ShmFormatXrgb4444'', 842093144),
      (''ShmFormatXbgr4444'', 842089048), (''ShmFormatRgbx4444'', 842094674),
      (''ShmFormatBgrx4444'', 842094658), (''ShmFormatArgb4444'', 842093121),
      (''ShmFormatAbgr4444'', 842089025), (''ShmFormatRgba4444'', 842088786),
      (''ShmFormatBgra4444'', 842088770), (''ShmFormatXrgb1555'', 892424792),
      (''ShmFormatXbgr1555'', 892420696), (''ShmFormatRgbx5551'', 892426322),
      (''ShmFormatBgrx5551'', 892426306), (''ShmFormatArgb1555'', 892424769),
      (''ShmFormatAbgr1555'', 892420673), (''ShmFormatRgba5551'', 892420434),
      (''ShmFormatBgra5551'', 892420418), (''ShmFormatRgb565'', 909199186), (''ShmFormatBgr565'', 909199170),
      (''ShmFormatRgb888'', 875710290), (''ShmFormatBgr888'', 875710274), (''ShmFormatXbgr8888'', 875709016),
      (''ShmFormatRgbx8888'', 875714642), (''ShmFormatBgrx8888'', 875714626),
      (''ShmFormatAbgr8888'', 875708993), (''ShmFormatRgba8888'', 875708754),
      (''ShmFormatBgra8888'', 875708738), (''ShmFormatXrgb2101010'', 808669784),
      (''ShmFormatXbgr2101010'', 808665688), (''ShmFormatRgbx1010102'', 808671314),
      (''ShmFormatBgrx1010102'', 808671298), (''ShmFormatArgb2101010'', 808669761),
      (''ShmFormatAbgr2101010'', 808665665), (''ShmFormatRgba1010102'', 808665426),
      (''ShmFormatBgra1010102'', 808665410), (''ShmFormatYuyv'', 1448695129), (''ShmFormatYvyu'', 1431918169),
      (''ShmFormatUyvy'', 1498831189), (''ShmFormatVyuy'', 1498765654), (''ShmFormatAyuv'', 1448433985),
      (''ShmFormatNv12'', 842094158), (''ShmFormatNv21'', 825382478), (''ShmFormatNv16'', 909203022),
      (''ShmFormatNv61'', 825644622), (''ShmFormatYuv410'', 961959257), (''ShmFormatYvu410'', 961893977),
      (''ShmFormatYuv411'', 825316697), (''ShmFormatYvu411'', 825316953), (''ShmFormatYuv420'', 842093913),
      (''ShmFormatYvu420'', 842094169), (''ShmFormatYuv422'', 909202777), (''ShmFormatYvu422'', 909203033),
      (''ShmFormatYuv444'', 875713881), (''ShmFormatYvu444'', 875714137), (''ShmFormatR8'', 538982482),
      (''ShmFormatR16'', 540422482), (''ShmFormatRg88'', 943212370), (''ShmFormatGr88'', 943215175),
      (''ShmFormatRg1616'', 842221394), (''ShmFormatGr1616'', 842224199),
      (''ShmFormatXrgb16161616F'', 1211388504), (''ShmFormatXbgr16161616F'', 1211384408),
      (''ShmFormatArgb16161616F'', 1211388481), (''ShmFormatAbgr16161616F'', 1211384385),
      (''ShmFormatXyuv8888'', 1448434008), (''ShmFormatVuy888'', 875713878),
      (''ShmFormatVuy101010'', 808670550), (''ShmFormatY210'', 808530521), (''ShmFormatY212'', 842084953),
      (''ShmFormatY216'', 909193817), (''ShmFormatY410'', 808531033), (''ShmFormatY412'', 842085465),
      (''ShmFormatY416'', 909194329), (''ShmFormatXvyu2101010'', 808670808),
      (''ShmFormatXvyu1216161616'', 909334104), (''ShmFormatXvyu16161616'', 942954072),
      (''ShmFormatY0L0'', 810299481), (''ShmFormatX0L0'', 810299480), (''ShmFormatY0L2'', 843853913),
      (''ShmFormatX0L2'', 843853912), (''ShmFormatYuv4208Bit'', 942691673),
      (''ShmFormatYuv42010Bit'', 808539481), (''ShmFormatXrgb8888A8'', 943805016),
      (''ShmFormatXbgr8888A8'', 943800920), (''ShmFormatRgbx8888A8'', 943806546),
      (''ShmFormatBgrx8888A8'', 943806530), (''ShmFormatRgb888A8'', 943798354),
      (''ShmFormatBgr888A8'', 943798338), (''ShmFormatRgb565A8'', 943797586),
      (''ShmFormatBgr565A8'', 943797570), (''ShmFormatNv24'', 875714126), (''ShmFormatNv42'', 842290766),
      (''ShmFormatP210'', 808530512), (''ShmFormatP010'', 808530000), (''ShmFormatP012'', 842084432),
      (''ShmFormatP016'', 909193296), (''ShmFormatAxbxgxrx106106106106'', 808534593),
      (''ShmFormatNv15'', 892425806), (''ShmFormatQ410'', 808531025), (''ShmFormatQ401'', 825242705),
      (''ShmFormatXrgb16161616'', 942953048), (''ShmFormatXbgr16161616'', 942948952),
      (''ShmFormatArgb16161616'', 942953025), (''ShmFormatAbgr16161616'', 942948929),
      (''ShmFormatC1'', 538980675), (''ShmFormatC2'', 538980931), (''ShmFormatC4'', 538981443),
      (''ShmFormatD1'', 538980676), (''ShmFormatD2'', 538980932), (''ShmFormatD4'', 538981444),
      (''ShmFormatD8'', 538982468), (''ShmFormatR1'', 538980690), (''ShmFormatR2'', 538980946),
      (''ShmFormatR4'', 538981458), (''ShmFormatR10'', 540029266), (''ShmFormatR12'', 540160338),
      (''ShmFormatAvuy8888'', 1498764865), (''ShmFormatXvuy8888'', 1498764888), (''ShmFormatP030'', 808661072)]"

definition ShmFormat_Names :: cases where
  "ShmFormat_Names =
     [(0, ''argb8888''), (1, ''xrgb8888''), (538982467, ''c8''), (943867730, ''rgb332''),
      (944916290, ''bgr233''), (842093144, ''xrgb4444''), (842089048, ''xbgr4444''), (842094674, ''rgbx4444''),
      (842094658, ''bgrx4444''), (842093121, ''argb4444''), (842089025, ''abgr4444''),
      (842088786, ''rgba4444''), (842088770, ''bgra4444''), (892424792, ''xrgb1555''),
      (892420696, ''xbgr1555''), (892426322, ''rgbx5551''), (892426306, ''bgrx5551''),
      (892424769, ''argb1555''), (892420673, ''abgr1555''), (892420434, ''rgba5551''),
      (892420418, ''bgra5551''), (909199186, ''rgb565''), (909199170, ''bgr565''), (875710290, ''rgb888''),
      (875710274, ''bgr888''), (875709016, ''xbgr8888''), (875714642, ''rgbx8888''), (875714626, ''bgrx8888''),
      (875708993, ''abgr8888''), (875708754, ''rgba8888''), (875708738, ''bgra8888''),
      (808669784, ''xrgb2101010''), (808665688, ''xbgr2101010''), (808671314, ''rgbx1010102''),
      (808671298, ''bgrx1010102''), (808669761, ''argb2101010''), (808665665, ''abgr2101010''),
      (808665426, ''rgba1010102''), (808665410, ''bgra1010102''), (1448695129, ''yuyv''),
      (1431918169, ''yvyu''), (1498831189, ''uyvy''), (1498765654, ''vyuy''), (1448433985, ''ayuv''),
      (842094158, ''nv12''), (825382478, ''nv21''), (909203022, ''nv16''), (825644622, ''nv61''),
      (961959257, ''yuv410''), (961893977, ''yvu410''), (825316697, ''yuv411''), (825316953, ''yvu411''),
      (842093913, ''yuv420''), (842094169, ''yvu420''), (909202777, ''yuv422''), (909203033, ''yvu422''),
      (875713881, ''yuv444''), (875714137, ''yvu444''), (538982482, ''r8''), (540422482, ''r16''),
      (943212370, ''rg88''), (943215175, ''gr88''), (842221394, ''rg1616''), (842224199, ''gr1616''),
      (1211388504, ''xrgb16161616f''), (1211384408, ''xbgr16161616f''), (1211388481, ''argb16161616f''),
      (1211384385, ''abgr16161616f''), (1448434008, ''xyuv8888''), (875713878, ''vuy888''),
      (808670550, ''vuy101010''), (808530521, ''y210''), (842084953, ''y212''), (909193817, ''y216''),
      (808531033, ''y410''), (842085465, ''y412''), (909194329, ''y416''), (808670808, ''xvyu2101010''),
      (909334104, ''xvyu12_16161616''), (942954072, ''xvyu16161616''), (810299481, ''y0l0''),
      (810299480, ''x0l0''), (843853913, ''y0l2''), (843853912, ''x0l2''), (942691673, ''yuv420_8bit''),
      (808539481, ''yuv420_10bit''), (943805016, ''xrgb8888_a8''), (943800920, ''xbgr8888_a8''),
      (943806546, ''rgbx8888_a8''), (943806530, ''bgrx8888_a8''), (943798354, ''rgb888_a8''),
      (943798338, ''bgr888_a8''), (943797586, ''rgb565_a8''), (943797570, ''bgr565_a8''), (875714126, ''nv24''),
      (842290766, ''nv42''), (808530512, ''p210''), (808530000, ''p010''), (842084432, ''p012''),
      (909193296, ''p016''), (808534593, ''axbxgxrx106106106106''), (892425806, ''nv15''),
      (808531025, ''q410''), (825242705, ''q401''), (942953048, ''xrgb16161616''),
      (942948952, ''xbgr16161616''), (942953025, ''argb16161616''), (942948929, ''abgr16161616''),
      (538980675, ''c1''), (538980931, ''c2''), (538981443, ''c4''), (538980676, ''d1''), (538980932, ''d2''),
      (538981444, ''d4''), (538982468, ''d8''), (538980690, ''r1''), (538980946, ''r2''), (538981458, ''r4''),
      (540029266, ''r10''), (540160338, ''r12''), (1498764865, ''avuy8888''), (1498764888, ''xvuy8888''),
      (808661072, ''p030'')]"

definition ShmFormat_Name :: "u32 \<Rightarrow> string" where
  "ShmFormat_Name e = switch ShmFormat_Names e"

definition ShmFormat_Values :: cases where
  "ShmFormat_Values =
     [(0, ''0''), (1, ''1''), (538982467, ''0x20203843''), (943867730, ''0x38424752''),
      (944916290, ''0x38524742''), (842093144, ''0x32315258''), (842089048, ''0x32314258''),
      (842094674, ''0x32315852''), (842094658, ''0x32315842''), (842093121, ''0x32315241''),
      (842089025, ''0x32314241''), (842088786, ''0x32314152''), (842088770, ''0x32314142''),
      (892424792, ''0x35315258''), (892420696, ''0x35314258''), (892426322, ''0x35315852''),
      (892426306, ''0x35315842''), (892424769, ''0x35315241''), (892420673, ''0x35314241''),
      (892420434, ''0x35314152''), (892420418, ''0x35314142''), (909199186, ''0x36314752''),
      (909199170, ''0x36314742''), (875710290, ''0x34324752''), (875710274, ''0x34324742''),
      (875709016, ''0x34324258''), (875714642, ''0x34325852''), (875714626, ''0x34325842''),
      (875708993, ''0x34324241''), (875708754, ''0x34324152''), (875708738, ''0x34324142''),
      (808669784, ''0x30335258''), (808665688, ''0x30334258''), (808671314, ''0x30335852''),
      (808671298, ''0x30335842''), (808669761, ''0x30335241''), (808665665, ''0x30334241''),
      (808665426, ''0x30334152''), (808665410, ''0x30334142''), (1448695129, ''0x56595559''),
      (1431918169, ''0x55595659''), (1498831189, ''0x59565955''), (1498765654, ''0x59555956''),
      (1448433985, ''0x56555941''), (842094158, ''0x3231564e''), (825382478, ''0x3132564e''),
      (909203022, ''0x3631564e''), (825644622, ''0x3136564e''), (961959257, ''0x39565559''),
      (961893977, ''0x39555659''), (825316697, ''0x31315559''), (825316953, ''0x31315659''),
      (842093913, ''0x32315559''), (842094169, ''0x32315659''), (909202777, ''0x36315559''),
      (909203033, ''0x36315659''), (875713881, ''0x34325559''), (875714137, ''0x34325659''),
      (538982482, ''0x20203852''), (540422482, ''0x20363152''), (943212370, ''0x38384752''),
      (943215175, ''0x38385247''), (842221394, ''0x32334752''), (842224199, ''0x32335247''),
      (1211388504, ''0x48345258''), (1211384408, ''0x48344258''), (1211388481, ''0x48345241''),
      (1211384385, ''0x48344241''), (1448434008, ''0x56555958''), (875713878, ''0x34325556''),
      (808670550, ''0x30335556''), (808530521, ''0x30313259''), (842084953, ''0x32313259''),
      (909193817, ''0x36313259''), (808531033, ''0x30313459''), (842085465, ''0x32313459''),
      (909194329, ''0x36313459''), (808670808, ''0x30335658''), (909334104, ''0x36335658''),
      (942954072, ''0x38345658''), (810299481, ''0x304c3059''), (810299480, ''0x304c3058''),
      (843853913, ''0x324c3059''), (843853912, ''0x324c3058''), (942691673, ''0x38305559''),
      (808539481, ''0x30315559''), (943805016, ''0x38415258''), (943800920, ''0x38414258''),
      (943806546, ''0x38415852''), (943806530, ''0x38415842''), (943798354, ''0x38413852''),
      (943798338, ''0x38413842''), (943797586, ''0x38413552''), (943797570, ''0x38413542''),
      (875714126, ''0x3432564e''), (842290766, ''0x3234564e''), (808530512, ''0x30313250''),
      (808530000, ''0x30313050''), (842084432, ''0x32313050''), (909193296, ''0x36313050''),
      (808534593, ''0x30314241''), (892425806, ''0x3531564e''), (808531025, ''0x30313451''),
      (825242705, ''0x31303451''), (942953048, ''0x38345258''), (942948952, ''0x38344258''),
      (942953025, ''0x38345241''), (942948929, ''0x38344241''), (538980675, ''0x20203143''),
      (538980931, ''0x20203243''), (538981443, ''0x20203443''), (538980676, ''0x20203144''),
      (538980932, ''0x20203244''), (538981444, ''0x20203444''), (538982468, ''0x20203844''),
      (538980690, ''0x20203152''), (538980946, ''0x20203252''), (538981458, ''0x20203452''),
      (540029266, ''0x20303152''), (540160338, ''0x20323152''), (1498764865, ''0x59555641''),
      (1498764888, ''0x59555658''), (808661072, ''0x30333050'')]"

definition ShmFormat_Value :: "u32 \<Rightarrow> string" where
  "ShmFormat_Value e = switch ShmFormat_Values e"

definition ShmFormat_String :: "u32 \<Rightarrow> string" where
  "ShmFormat_String e = ShmFormat_Name e @ ''='' @ ShmFormat_Value e"

section \<open>DataOfferError\<close>

definition DataOfferError_consts :: "(string \<times> int) list" where
  "DataOfferError_consts =
     [(''DataOfferErrorInvalidFinish'', 0), (''DataOfferErrorInvalidActionMask'', 1),
      (''DataOfferErrorInvalidAction'', 2), (''DataOfferErrorInvalidOffer'', 3)]"

definition DataOfferError_Names :: cases where
  "DataOfferError_Names =
     [(0, ''invalid_finish''), (1, ''invalid_action_mask''), (2, ''invalid_action''), (3, ''invalid_offer'')]"

definition DataOfferError_Name :: "u32 \<Rightarrow> string" where
  "DataOfferError_Name e = switch DataOfferError_Names e"

definition DataOfferError_Values :: cases where
  "DataOfferError_Values =
     [(0, ''0''), (1, ''1''), (2, ''2''), (3, ''3'')]"

definition DataOfferError_Value :: "u32 \<Rightarrow> string" where
  "DataOfferError_Value e = switch DataOfferError_Values e"

definition DataOfferError_String :: "u32 \<Rightarrow> string" where
  "DataOfferError_String e = DataOfferError_Name e @ ''='' @ DataOfferError_Value e"

section \<open>DataSourceError\<close>

definition DataSourceError_consts :: "(string \<times> int) list" where
  "DataSourceError_consts =
     [(''DataSourceErrorInvalidActionMask'', 0), (''DataSourceErrorInvalidSource'', 1)]"

definition DataSourceError_Names :: cases where
  "DataSourceError_Names =
     [(0, ''invalid_action_mask''), (1, ''invalid_source'')]"

definition DataSourceError_Name :: "u32 \<Rightarrow> string" where
  "DataSourceError_Name e = switch DataSourceError_Names e"

definition DataSourceError_Values :: cases where
  "DataSourceError_Values =
     [(0, ''0''), (1, ''1'')]"

definition DataSourceError_Value :: "u32 \<Rightarrow> string" where
  "DataSourceError_Value e = switch DataSourceError_Values e"

definition DataSourceError_String :: "u32 \<Rightarrow> string" where
  "DataSourceError_String e = DataSourceError_Name e @ ''='' @ DataSourceError_Value e"

section \<open>DataDeviceError\<close>

definition DataDeviceError_consts :: "(string \<times> int) list" where
  "DataDeviceError_consts =
     [(''DataDeviceErrorRole'', 0), (''DataDeviceErrorUsedSource'', 1)]"

definition DataDeviceError_Names :: cases where
  "DataDeviceError_Names =
     [(0, ''role''), (1, ''used_source'')]"

definition DataDeviceError_Name :: "u32 \<Rightarrow> string" where
  "DataDeviceError_Name e = switch DataDeviceError_Names e"

definition DataDeviceError_Values :: cases where
  "DataDeviceError_Values =
     [(0, ''0''), (1, ''1'')]"

definition DataDeviceError_Value :: "u32 \<Rightarrow> string" where
  "DataDeviceError_Value e = switch DataDeviceError_Values e"

definition DataDeviceError_String :: "u32 \<Rightarrow> string" where
  "DataDeviceError_String e = DataDeviceError_Name e @ ''='' @ DataDeviceError_Value e"

section \<open>DataDeviceManagerDndAction\<close>

definition DataDeviceManagerDndAction_consts :: "(string \<times> int) list" where
  "DataDeviceManagerDndAction_consts =
     [(''DataDeviceManagerDndActionNone'', 0), (''DataDeviceManagerDndActionCopy'', 1),
      (''DataDeviceManagerDndActionMove'', 2), (''DataDeviceManagerDndActionAsk'', 4)]"

definition DataDeviceManagerDndAction_Names :: cases where
  "DataDeviceManagerDndAction_Names =
     [(0, ''none''), (1, ''copy''), (2, ''move''), (4, ''ask'')]"

definition DataDeviceManagerDndAction_Name :: "u32 \<Rightarrow> string" where
  "DataDeviceManagerDndAction_Name e = switch DataDeviceManagerDndAction_Names e"

definition DataDeviceManagerDndAction_Values :: cases where
  "DataDeviceManagerDndAction_Values =
     [(0, ''0''), (1, ''1''), (2, ''2''), (4, ''4'')]"

definition DataDeviceManagerDndAction_Value :: "u32 \<Rightarrow> string" where
  "DataDeviceManagerDndAction_Value e = switch DataDeviceManagerDndAction_Values e"

definition DataDeviceManagerDndAction_String :: "u32 \<Rightarrow> string" where
  "DataDeviceManagerDndAction_String e = DataDeviceManagerDndAction_Name e @ ''='' @ DataDeviceManagerDndAction_Value e"

section \<open>ShellError\<close>

definition ShellError_consts :: "(string \<times> int) list" where
  "ShellError_consts =
     [(''ShellErrorRole'', 0)]"

definition ShellError_Names :: cases where
  "ShellError_Names =
     [(0, ''role'')]"

definition ShellError_Name :: "u32 \<Rightarrow> string" where
  "ShellError_Name e = switch ShellError_Names e"

definition ShellError_Values :: cases where
  "ShellError_Values =
     [(0, ''0'')]"

definition ShellError_Value :: "u32 \<Rightarrow> string" where
  "ShellError_Value e = switch ShellError_Values e"

definition ShellError_String :: "u32 \<Rightarrow> string" where
  "ShellError_String e = ShellError_Name e @ ''='' @ ShellError_Value e"

section \<open>ShellSurfaceResize\<close>

definition ShellSurfaceResize_consts :: "(string \<times> int) list" where
  "ShellSurfaceResize_consts =
     [(''ShellSurfaceResizeNone'', 0), (''ShellSurfaceResizeTop'', 1), (''ShellSurfaceResizeBottom'', 2),
      (''ShellSurfaceResizeLeft'', 4), (''ShellSurfaceResizeTopLeft'', 5),
      (''ShellSurfaceResizeBottomLeft'', 6), (''ShellSurfaceResizeRight'', 8),
      (''ShellSurfaceResizeTopRight'', 9), (''ShellSurfaceResizeBottomRight'', 10)]"

definition ShellSurfaceResize_Names :: cases where
  "ShellSurfaceResize_Names =
     [(0, ''none''), (1, ''top''), (2, ''bottom''), (4, ''left''), (5, ''top_left''), (6, ''bottom_left''),
      (8, ''right''), (9, ''top_right''), (10, ''bottom_right'')]"

definition ShellSurfaceResize_Name :: "u32 \<Rightarrow> string" where
  "ShellSurfaceResize_Name e = switch ShellSurfaceResize_Names e"

definition ShellSurfaceResize_Values :: cases where
  "ShellSurfaceResize_Values =
     [(0, ''0''), (1, ''1''), (2, ''2''), (4, ''4''), (5, ''5''), (6, ''6''), (8, ''8''), (9, ''9''),
      (10, ''10'')]"

definition ShellSurfaceResize_Value :: "u32 \<Rightarrow> string" where
  "ShellSurfaceResize_Value e = switch ShellSurfaceResize_Values e"

definition ShellSurfaceResize_String :: "u32 \<Rightarrow> string" where
  "ShellSurfaceResize_String e = ShellSurfaceResize_Name e @ ''='' @ ShellSurfaceResize_Value e"

section \<open>ShellSurfaceTransient\<close>

definition ShellSurfaceTransient_consts :: "(string \<times> int) list" where
  "ShellSurfaceTransient_consts =
     [(''ShellSurfaceTransientInactive'', 1)]"

definition ShellSurfaceTransient_Names :: cases where
  "ShellSurfaceTransient_Names =
     [(1, ''inactive'')]"

definition ShellSurfaceTransient_Name :: "u32 \<Rightarrow> string" where
  "ShellSurfaceTransient_Name e = switch ShellSurfaceTransient_Names e"

definition ShellSurfaceTransient_Values :: cases where
  "ShellSurfaceTransient_Values =
     [(1, ''0x1'')]"

definition ShellSurfaceTransient_Value :: "u32 \<Rightarrow> string" where
  "ShellSurfaceTransient_Value e = switch ShellSurfaceTransient_Values e"

definition ShellSurfaceTransient_String :: "u32 \<Rightarrow> string" where
  "ShellSurfaceTransient_String e = ShellSurfaceTransient_Name e @ ''='' @ ShellSurfaceTransient_Value e"

section \<open>ShellSurfaceFullscreenMethod\<close>

definition ShellSurfaceFullscreenMethod_consts :: "(string \<times> int) list" where
  "ShellSurfaceFullscreenMethod_consts =
     [(''ShellSurfaceFullscreenMethodDefault'', 0), (''ShellSurfaceFullscreenMethodScale'', 1),
      (''ShellSurfaceFullscreenMethodDriver'', 2), (''ShellSurfaceFullscreenMethodFill'', 3)]"

definition ShellSurfaceFullscreenMethod_Names :: cases where
  "ShellSurfaceFullscreenMethod_Names =
     [(0, ''default''), (1, ''scale''), (2, ''driver''), (3, ''fill'')]"

definition ShellSurfaceFullscreenMethod_Name :: "u32 \<Rightarrow> string" where
  "ShellSurfaceFullscreenMethod_Name e = switch ShellSurfaceFullscreenMethod_Names e"

definition ShellSurfaceFullscreenMethod_Values :: cases where
  "ShellSurfaceFullscreenMethod_Values =
     [(0, ''0''), (1, ''1''), (2, ''2''), (3, ''3'')]"

definition ShellSurfaceFullscreenMethod_Value :: "u32 \<Rightarrow> string" where
  "ShellSurfaceFullscreenMethod_Value e = switch ShellSurfaceFullscreenMethod_Values e"

definition ShellSurfaceFullscreenMethod_String :: "u32 \<Rightarrow> string" where
  "ShellSurfaceFullscreenMethod_String e = ShellSurfaceFullscreenMethod_Name e @ ''='' @ ShellSurfaceFullscreenMethod_Value e"

section \<open>SurfaceError\<close>

definition SurfaceError_consts :: "(string \<times> int) list" where
  "SurfaceError_consts =
     [(''SurfaceErrorInvalidScale'', 0), (''SurfaceErrorInvalidTransform'', 1),
      (''SurfaceErrorInvalidSize'', 2), (''SurfaceErrorInvalidOffset'', 3),
      (''SurfaceErrorDefunctRoleObject'', 4)]"

definition SurfaceError_Names :: cases where
  "SurfaceError_Names =
     [(0, ''invalid_scale''), (1, ''invalid_transform''), (2, ''invalid_size''), (3, ''invalid_offset''),
      (4, ''defunct_role_object'')]"

definition SurfaceError_Name :: "u32 \<Rightarrow> string" where
  "SurfaceError_Name e = switch SurfaceError_Names e"

definition SurfaceError_Values :: cases where
  "SurfaceError_Values =
     [(0, ''0''), (1, ''1''), (2, ''2''), (3, ''3''), (4, ''4'')]"

definition SurfaceError_Value :: "u32 \<Rightarrow> string" where
  "SurfaceError_Value e = switch SurfaceError_Values e"

definition SurfaceError_String :: "u32 \<Rightarrow> string" where
  "SurfaceError_String e = SurfaceError_Name e @ ''='' @ SurfaceError_Value e"

section \<open>SeatCapability\<close>

definition SeatCapability_consts :: "(string \<times> int) list" where
  "SeatCapability_consts =
     [(''SeatCapabilityPointer'', 1), (''SeatCapabilityKeyboard'', 2), (''SeatCapabilityTouch'', 4)]"

definition SeatCapability_Names :: cases where
  "SeatCapability_Names =
     [(1, ''pointer''), (2, ''keyboard''), (4, ''touch'')]"

definition SeatCapability_Name :: "u32 \<Rightarrow> string" where
  "SeatCapability_Name e = switch SeatCapability_Names e"

definition SeatCapability_Values :: cases where
  "SeatCapability_Values =
     [(1, ''1''), (2, ''2''), (4, ''4'')]"

definition SeatCapability_Value :: "u32 \<Rightarrow> string" where
  "SeatCapability_Value e = switch SeatCapability_Values e"

definition SeatCapability_String :: "u32 \<Rightarrow> string" where
  "SeatCapability_String e = SeatCapability_Name e @ ''='' @ SeatCapability_Value e"

section \<open>SeatError\<close>

definition SeatError_consts :: "(string \<times> int) list" where
  "SeatError_consts =
     [(''SeatErrorMissingCapability'', 0)]"

definition SeatError_Names :: cases where
  "SeatError_Names =
     [(0, ''missing_capability'')]"

definition SeatError_Name :: "u32 \<Rightarrow> string" where
  "SeatError_Name e = switch SeatError_Names e"

definition SeatError_Values :: cases where
  "SeatError_Values =
     [(0, ''0'')]"

definition SeatError_Value :: "u32 \<Rightarrow> string" where
  "SeatError_Value e = switch SeatError_Values e"

definition SeatError_String :: "u32 \<Rightarrow> string" where
  "SeatError_String e = SeatError_Name e @ ''='' @ SeatError_Value e"

section \<open>PointerError\<close>

definition PointerError_consts :: "(string \<times> int) list" where
  "PointerError_consts =
     [(''PointerErrorRole'', 0)]"

definition PointerError_Names :: cases where
  "PointerError_Names =
     [(0, ''role'')]"

definition PointerError_Name :: "u32 \<Rightarrow> string" where
  "PointerError_Name e = switch PointerError_Names e"

definition PointerError_Values :: cases where
  "PointerError_Values =
     [(0, ''0'')]"

definition PointerError_Value :: "u32 \<Rightarrow> string" where
  "PointerError_Value e = switch PointerError_Values e"

definition PointerError_String :: "u32 \<Rightarrow> string" where
  "PointerError_String e = PointerError_Name e @ ''='' @ PointerError_Value e"

section \<open>PointerButtonState\<close>

definition PointerButtonState_consts :: "(string \<times> int) list" where
  "PointerButtonState_consts =
     [(''PointerButtonStateReleased'', 0), (''PointerButtonStatePressed'', 1)]"

definition PointerButtonState_Names :: cases where
  "PointerButtonState_Names =
     [(0, ''released''), (1, ''pressed'')]"

definition PointerButtonState_Name :: "u32 \<Rightarrow> string" where
  "PointerButtonState_Name e = switch PointerButtonState_Names e"

definition PointerButtonState_Values :: cases where
  "PointerButtonState_Values =
     [(0, ''0''), (1, ''1'')]"

definition PointerButtonState_Value :: "u32 \<Rightarrow> string" where
  "PointerButtonState_Value e = switch PointerButtonState_Values e"

definition PointerButtonState_String :: "u32 \<Rightarrow> string" where
  "PointerButtonState_String e = PointerButtonState_Name e @ ''='' @ PointerButtonState_Value e"

section \<open>PointerAxis\<close>

definition PointerAxis_consts :: "(string \<times> int) list" where
  "PointerAxis_consts =
     [(''PointerAxisVerticalScroll'', 0), (''PointerAxisHorizontalScroll'', 1)]"

definition PointerAxis_Names :: cases where
  "PointerAxis_Names =
     [(0, ''vertical_scroll''), (1, ''horizontal_scroll'')]"

definition PointerAxis_Name :: "u32 \<Rightarrow> string" where
  "PointerAxis_Name e = switch PointerAxis_Names e"

definition PointerAxis_Values :: cases where
  "PointerAxis_Values =
     [(0, ''0''), (1, ''1'')]"

definition PointerAxis_Value :: "u32 \<Rightarrow> string" where
  "PointerAxis_Value e = switch PointerAxis_Values e"

definition PointerAxis_String :: "u32 \<Rightarrow> string" where
  "PointerAxis_String e = PointerAxis_Name e @ ''='' @ PointerAxis_Value e"

section \<open>PointerAxisSource\<close>

definition PointerAxisSource_consts :: "(string \<times> int) list" where
  "PointerAxisSource_consts =
     [(''PointerAxisSourceWheel'', 0), (''PointerAxisSourceFinger'', 1), (''PointerAxisSourceContinuous'', 2),
      (''PointerAxisSourceWheelTilt'', 3)]"

definition PointerAxisSource_Names :: cases where
  "PointerAxisSource_Names =
     [(0, ''wheel''), (1, ''finger''), (2, ''continuous''), (3, ''wheel_tilt'')]"

definition PointerAxisSource_Name :: "u32 \<Rightarrow> string" where
  "PointerAxisSource_Name e = switch PointerAxisSource_Names e"

definition PointerAxisSource_Values :: cases where
  "PointerAxisSource_Values =
     [(0, ''0''), (1, ''1''), (2, ''2''), (3, ''3'')]"

definition PointerAxisSource_Value :: "u32 \<Rightarrow> string" where
  "PointerAxisSource_Value e = switch PointerAxisSource_Values e"

definition PointerAxisSource_String :: "u32 \<Rightarrow> string" where
  "PointerAxisSource_String e = PointerAxisSource_Name e @ ''='' @ PointerAxisSource_Value e"

section \<open>PointerAxisRelativeDirection\<close>

definition PointerAxisRelativeDirection_consts :: "(string \<times> int) list" where
  "PointerAxisRelativeDirection_consts =
     [(''PointerAxisRelativeDirectionIdentical'', 0), (''PointerAxisRelativeDirectionInverted'', 1)]"

definition PointerAxisRelativeDirection_Names :: cases where
  "PointerAxisRelativeDirection_Names =
     [(0, ''identical''), (1, ''inverted'')]"

definition PointerAxisRelativeDirection_Name :: "u32 \<Rightarrow> string" where
  "PointerAxisRelativeDirection_Name e = switch PointerAxisRelativeDirection_Names e"

definition PointerAxisRelativeDirection_Values :: cases where
  "PointerAxisRelativeDirection_Values =
     [(0, ''0''), (1, ''1'')]"

definition PointerAxisRelativeDirection_Value :: "u32 \<Rightarrow> string" where
  "PointerAxisRelativeDirection_Value e = switch PointerAxisRelativeDirection_Values e"

definition PointerAxisRelativeDirection_String :: "u32 \<Rightarrow> string" where
  "PointerAxisRelativeDirection_String e = PointerAxisRelativeDirection_Name e @ ''='' @ PointerAxisRelativeDirection_Value e"

section \<open>KeyboardKeymapFormat\<close>

definition KeyboardKeymapFormat_consts :: "(string \<times> int) list" where
  "KeyboardKeymapFormat_consts =
     [(''KeyboardKeymapFormatNoKeymap'', 0), (''KeyboardKeymapFormatXkbV1'', 1)]"

definition KeyboardKeymapFormat_Names :: cases where
  "KeyboardKeymapFormat_Names =
     [(0, ''no_keymap''), (1, ''xkb_v1'')]"

definition KeyboardKeymapFormat_Name :: "u32 \<Rightarrow> string" where
  "KeyboardKeymapFormat_Name e = switch KeyboardKeymapFormat_Names e"

definition KeyboardKeymapFormat_Values :: cases where
  "KeyboardKeymapFormat_Values =
     [(0, ''0''), (1, ''1'')]"

definition KeyboardKeymapFormat_Value :: "u32 \<Rightarrow> string" where
  "KeyboardKeymapFormat_Value e = switch KeyboardKeymapFormat_Values e"

definition KeyboardKeymapFormat_String :: "u32 \<Rightarrow> string" where
  "KeyboardKeymapFormat_String e = KeyboardKeymapFormat_Name e @ ''='' @ KeyboardKeymapFormat_Value e"

section \<open>KeyboardKeyState\<close>

definition KeyboardKeyState_consts :: "(string \<times> int) list" where
  "KeyboardKeyState_consts =
     [(''KeyboardKeyStateReleased'', 0), (''KeyboardKeyStatePressed'', 1), (''KeyboardKeyStateRepeated'', 2)]"

definition KeyboardKeyState_Names :: cases where
  "KeyboardKeyState_Names =
     [(0, ''released''), (1, ''pressed''), (2, ''repeated'')]"

definition KeyboardKeyState_Name :: "u32 \<Rightarrow> string" where
  "KeyboardKeyState_Name e = switch KeyboardKeyState_Names e"

definition KeyboardKeyState_Values :: cases where
  "KeyboardKeyState_Values =
     [(0, ''0''), (1, ''1''), (2, ''2'')]"

definition KeyboardKeyState_Value :: "u32 \<Rightarrow> string" where
  "KeyboardKeyState_Value e = switch KeyboardKeyState_Values e"

definition KeyboardKeyState_String :: "u32 \<Rightarrow> string" where
  "KeyboardKeyState_String e = KeyboardKeyState_Name e @ ''='' @ KeyboardKeyState_Value e"

section \<open>OutputSubpixel\<close>

definition OutputSubpixel_consts :: "(string \<times> int) list" where
  "OutputSubpixel_consts =
     [(''OutputSubpixelUnknown'', 0), (''OutputSubpixelNone'', 1), (''OutputSubpixelHorizontalRgb'', 2),
      (''OutputSubpixelHorizontalBgr'', 3), (''OutputSubpixelVerticalRgb'', 4),
      (''OutputSubpixelVerticalBgr'', 5)]"

definition OutputSubpixel_Names :: cases where
  "OutputSubpixel_Names =
     [(0, ''unknown''), (1, ''none''), (2, ''horizontal_rgb''), (3, ''horizontal_bgr''), (4, ''vertical_rgb''),
      (5, ''vertical_bgr'')]"

definition OutputSubpixel_Name :: "u32 \<Rightarrow> string" where
  "OutputSubpixel_Name e = switch OutputSubpixel_Names e"

definition OutputSubpixel_Values :: cases where
  "OutputSubpixel_Values =
     [(0, ''0''), (1, ''1''), (2, ''2''), (3, ''3''), (4, ''4''), (5, ''5'')]"

definition OutputSubpixel_Value :: "u32 \<Rightarrow> string" where
  "OutputSubpixel_Value e = switch OutputSubpixel_Values e"

definition OutputSubpixel_String :: "u32 \<Rightarrow> string" where
  "OutputSubpixel_String e = OutputSubpixel_Name e @ ''='' @ OutputSubpixel_Value e"

section \<open>OutputTransform\<close>

definition OutputTransform_consts :: "(string \<times> int) list" where
  "OutputTransform_consts =
     [(''OutputTransformNormal'', 0), (''OutputTransform90'', 1), (''OutputTransform180'', 2),
      (''OutputTransform270'', 3), (''OutputTransformFlipped'', 4), (''OutputTransformFlipped90'', 5),
      (''OutputTransformFlipped180'', 6), (''OutputTransformFlipped270'', 7)]"

definition OutputTransform_Names :: cases where
  "OutputTransform_Names =
     [(0, ''normal''), (1, ''90''), (2, ''180''), (3, ''270''), (4, ''flipped''), (5, ''flipped_90''),
      (6, ''flipped_180''), (7, ''flipped_270'')]"

definition OutputTransform_Name :: "u32 \<Rightarrow> string" where
  "OutputTransform_Name e = switch OutputTransform_Names e"

definition OutputTransform_Values :: cases where
  "OutputTransform_Values =
     [(0, ''0''), (1, ''1''), (2, ''2''), (3, ''3''), (4, ''4''), (5, ''5''), (6, ''6''), (7, ''7'')]"

definition OutputTransform_Value :: "u32 \<Rightarrow> string" where
  "OutputTransform_Value e = switch OutputTransform_Values e"

definition OutputTransform_String :: "u32 \<Rightarrow> string" where
  "OutputTransform_String e = OutputTransform_Name e @ ''='' @ OutputTransform_Value e"

section \<open>OutputMode\<close>

definition OutputMode_consts :: "(string \<times> int) list" where
  "OutputMode_consts =
     [(''OutputModeCurrent'', 1), (''OutputModePreferred'', 2)]"

definition OutputMode_Names :: cases where
  "OutputMode_Names =
     [(1, ''current''), (2, ''preferred'')]"

definition OutputMode_Name :: "u32 \<Rightarrow> string" where
  "OutputMode_Name e = switch OutputMode_Names e"

definition OutputMode_Values :: cases where
  "OutputMode_Values =
     [(1, ''0x1''), (2, ''0x2'')]"

definition OutputMode_Value :: "u32 \<Rightarrow> string" where
  "OutputMode_Value e = switch OutputMode_Values e"

definition OutputMode_String :: "u32 \<Rightarrow> string" where
  "OutputMode_String e = OutputMode_Name e @ ''='' @ OutputMode_Value e"

section \<open>SubcompositorError\<close>

definition SubcompositorError_consts :: "(string \<times> int) list" where
  "SubcompositorError_consts =
     [(''SubcompositorErrorBadSurface'', 0), (''SubcompositorErrorBadParent'', 1)]"

definition SubcompositorError_Names :: cases where
  "SubcompositorError_Names =
     [(0, ''bad_surface''), (1, ''bad_parent'')]"

definition SubcompositorError_Name :: "u32 \<Rightarrow> string" where
  "SubcompositorError_Name e = switch SubcompositorError_Names e"

definition SubcompositorError_Values :: cases where
  "SubcompositorError_Values =
     [(0, ''0''), (1, ''1'')]"

definition SubcompositorError_Value :: "u32 \<Rightarrow> string" where
  "SubcompositorError_Value e = switch SubcompositorError_Values e"

definition SubcompositorError_String :: "u32 \<Rightarrow> string" where
  "SubcompositorError_String e = SubcompositorError_Name e @ ''='' @ SubcompositorError_Value e"

section \<open>SubsurfaceError\<close>

definition SubsurfaceError_consts :: "(string \<times> int) list" where
  "SubsurfaceError_consts =
     [(''SubsurfaceErrorBadSurface'', 0)]"

definition SubsurfaceError_Names :: cases where
  "SubsurfaceError_Names =
     [(0, ''bad_surface'')]"

definition SubsurfaceError_Name :: "u32 \<Rightarrow> string" where
  "SubsurfaceError_Name e = switch SubsurfaceError_Names e"

definition SubsurfaceError_Values :: cases where
  "SubsurfaceError_Values =
     [(0, ''0'')]"

definition SubsurfaceError_Value :: "u32 \<Rightarrow> string" where
  "SubsurfaceError_Value e = switch SubsurfaceError_Values e"

definition SubsurfaceError_String :: "u32 \<Rightarrow> string" where
  "SubsurfaceError_String e = SubsurfaceError_Name e @ ''='' @ SubsurfaceError_Value e"

section \<open>ExtSessionLockV1Error\<close>

definition ExtSessionLockV1Error_consts :: "(string \<times> int) list" where
  "ExtSessionLockV1Error_consts =
     [(''ExtSessionLockV1ErrorInvalidDestroy'', 0), (''ExtSessionLockV1ErrorInvalidUnlock'', 1),
      (''ExtSessionLockV1ErrorRole'', 2), (''ExtSessionLockV1ErrorDuplicateOutput'', 3),
      (''ExtSessionLockV1ErrorAlreadyConstructed'', 4)]"

definition ExtSessionLockV1Error_Names :: cases where
  "ExtSessionLockV1Error_Names =
     [(0, ''invalid_destroy''), (1, ''invalid_unlock''), (2, ''role''), (3, ''duplicate_output''),
      (4, ''already_constructed'')]"

definition ExtSessionLockV1Error_Name :: "u32 \<Rightarrow> string" where
  "ExtSessionLockV1Error_Name e = switch ExtSessionLockV1Error_Names e"

definition ExtSessionLockV1Error_Values :: cases where
  "ExtSessionLockV1Error_Values =
     [(0, ''0''), (1, ''1''), (2, ''2''), (3, ''3''), (4, ''4'')]"

definition ExtSessionLockV1Error_Value :: "u32 \<Rightarrow> string" where
  "ExtSessionLockV1Error_Value e = switch ExtSessionLockV1Error_Values e"

definition ExtSessionLockV1Error_String :: "u32 \<Rightarrow> string" where
  "ExtSessionLockV1Error_String e = ExtSessionLockV1Error_Name e @ ''='' @ ExtSessionLockV1Error_Value e"

section \<open>ExtSessionLockSurfaceV1Error\<close>

definition ExtSessionLockSurfaceV1Error_consts :: "(string \<times> int) list" where
  "ExtSessionLockSurfaceV1Error_consts =
     [(''ExtSessionLockSurfaceV1ErrorCommitBeforeFirstAck'', 0),
      (''ExtSessionLockSurfaceV1ErrorNullBuffer'', 1), (''ExtSessionLockSurfaceV1ErrorDimensionsMismatch'', 2),
      (''ExtSessionLockSurfaceV1ErrorInvalidSerial'', 3)]"

definition ExtSessionLockSurfaceV1Error_Names :: cases where
  "ExtSessionLockSurfaceV1Error_Names =
     [(0, ''commit_before_first_ack''), (1, ''null_buffer''), (2, ''dimensions_mismatch''),
      (3, ''invalid_serial'')]"

definition ExtSessionLockSurfaceV1Error_Name :: "u32 \<Rightarrow> string" where
  "ExtSessionLockSurfaceV1Error_Name e = switch ExtSessionLockSurfaceV1Error_Names e"

definition ExtSessionLockSurfaceV1Error_Values :: cases where
  "ExtSessionLockSurfaceV1Error_Values =
     [(0, ''0''), (1, ''1''), (2, ''2''), (3, ''3'')]"

definition ExtSessionLockSurfaceV1Error_Value :: "u32 \<Rightarrow> string" where
  "ExtSessionLockSurfaceV1Error_Value e = switch ExtSessionLockSurfaceV1Error_Values e"

definition ExtSessionLockSurfaceV1Error_String :: "u32 \<Rightarrow> string" where
  "ExtSessionLockSurfaceV1Error_String e = ExtSessionLockSurfaceV1Error_Name e @ ''='' @ ExtSessionLockSurfaceV1Error_Value e"

section \<open>WpCursorShapeDeviceV1Shape\<close>

definition WpCursorShapeDeviceV1Shape_consts :: "(string \<times> int) list" where
  "WpCursorShapeDeviceV1Shape_consts =
     [(''WpCursorShapeDeviceV1ShapeDefault'', 1), (''WpCursorShapeDeviceV1ShapeContextMenu'', 2),
      (''WpCursorShapeDeviceV1ShapeHelp'', 3), (''WpCursorShapeDeviceV1ShapePointer'', 4),
      (''WpCursorShapeDeviceV1ShapeProgress'', 5), (''WpCursorShapeDeviceV1ShapeWait'', 6),
      (''WpCursorShapeDeviceV1ShapeCell'', 7), (''WpCursorShapeDeviceV1ShapeCrosshair'', 8),
      (''WpCursorShapeDeviceV1ShapeText'', 9), (''WpCursorShapeDeviceV1ShapeVerticalText'', 10),
      (''WpCursorShapeDeviceV1ShapeAlias'', 11), (''WpCursorShapeDeviceV1ShapeCopy'', 12),
      (''WpCursorShapeDeviceV1ShapeMove'', 13), (''WpCursorShapeDeviceV1ShapeNoDrop'', 14),
      (''WpCursorShapeDeviceV1ShapeNotAllowed'', 15), (''WpCursorShapeDeviceV1ShapeGrab'', 16),
      (''WpCursorShapeDeviceV1ShapeGrabbing'', 17), (''WpCursorShapeDeviceV1ShapeEResize'', 18),
      (''WpCursorShapeDeviceV1ShapeNResize'', 19), (''WpCursorShapeDeviceV1ShapeNeResize'', 20),
      (''WpCursorShapeDeviceV1ShapeNwResize'', 21), (''WpCursorShapeDeviceV1ShapeSResize'', 22),
      (''WpCursorShapeDeviceV1ShapeSeResize'', 23), (''WpCursorShapeDeviceV1ShapeSwResize'', 24),
      (''WpCursorShapeDeviceV1ShapeWResize'', 25), (''WpCursorShapeDeviceV1ShapeEwResize'', 26),
      (''WpCursorShapeDeviceV1ShapeNsResize'', 27), (''WpCursorShapeDeviceV1ShapeNeswResize'', 28),
      (''WpCursorShapeDeviceV1ShapeNwseResize'', 29), (''WpCursorShapeDeviceV1ShapeColResize'', 30),
      (''WpCursorShapeDeviceV1ShapeRowResize'', 31), (''WpCursorShapeDeviceV1ShapeAllScroll'', 32),
      (''WpCursorShapeDeviceV1ShapeZoomIn'', 33), (''WpCursorShapeDeviceV1ShapeZoomOut'', 34),
      (''WpCursorShapeDeviceV1ShapeDndAsk'', 35), (''WpCursorShapeDeviceV1ShapeAllResize'', 36)]"

definition WpCursorShapeDeviceV1Shape_Names :: cases where
  "WpCursorShapeDeviceV1Shape_Names =
     [(1, ''default''), (2, ''context_menu''), (3, ''help''), (4, ''pointer''), (5, ''progress''),
      (6, ''wait''), (7, ''cell''), (8, ''crosshair''), (9, ''text''), (10, ''vertical_text''), (11, ''alias''),
      (12, ''copy''), (13, ''move''), (14, ''no_drop''), (15, ''not_allowed''), (16, ''grab''),
      (17, ''grabbing''), (18, ''e_resize''), (19, ''n_resize''), (20, ''ne_resize''), (21, ''nw_resize''),
      (22, ''s_resize''), (23, ''se_resize''), (24, ''sw_resize''), (25, ''w_resize''), (26, ''ew_resize''),
      (27, ''ns_resize''), (28, ''nesw_resize''), (29, ''nwse_resize''), (30, ''col_resize''),
      (31, ''row_resize''), (32, ''all_scroll''), (33, ''zoom_in''), (34, ''zoom_out''), (35, ''dnd_ask''),
      (36, ''all_resize'')]"

definition WpCursorShapeDeviceV1Shape_Name :: "u32 \<Rightarrow> string" where
  "WpCursorShapeDeviceV1Shape_Name e = switch WpCursorShapeDeviceV1Shape_Names e"

definition WpCursorShapeDeviceV1Shape_Values :: cases where
  "WpCursorShapeDeviceV1Shape_Values =
     [(1, ''1''), (2, ''2''), (3, ''3''), (4, ''4''), (5, ''5''), (6, ''6''), (7, ''7''), (8, ''8''),
      (9, ''9''), (10, ''10''), (11, ''11''), (12, ''12''), (13, ''13''), (14, ''14''), (15, ''15''),
      (16, ''16''), (17, ''17''), (18, ''18''), (19, ''19''), (20, ''20''), (21, ''21''), (22, ''22''),
      (23, ''23''), (24, ''24''), (25, ''25''), (26, ''26''), (27, ''27''), (28, ''28''), (29, ''29''),
      (30, ''30''), (31, ''31''), (32, ''32''), (33, ''33''), (34, ''34''), (35, ''35''), (36, ''36'')]"

definition WpCursorShapeDeviceV1Shape_Value :: "u32 \<Rightarrow> string" where
  "WpCursorShapeDeviceV1Shape_Value e = switch WpCursorShapeDeviceV1Shape_Values e"

definition WpCursorShapeDeviceV1Shape_String :: "u32 \<Rightarrow> string" where
  "WpCursorShapeDeviceV1Shape_String e = WpCursorShapeDeviceV1Shape_Name e @ ''='' @ WpCursorShapeDeviceV1Shape_Value e"

section \<open>WpCursorShapeDeviceV1Error\<close>

definition WpCursorShapeDeviceV1Error_consts :: "(string \<times> int) list" where
  "WpCursorShapeDeviceV1Error_consts =
     [(''WpCursorShapeDeviceV1ErrorInvalidShape'', 1)]"

definition WpCursorShapeDeviceV1Error_Names :: cases where
  "WpCursorShapeDeviceV1Error_Names =
     [(1, ''invalid_shape'')]"

definition WpCursorShapeDeviceV1Error_Name :: "u32 \<Rightarrow> string" where
  "WpCursorShapeDeviceV1Error_Name e = switch WpCursorShapeDeviceV1Error_Names e"

definition WpCursorShapeDeviceV1Error_Values :: cases where
  "WpCursorShapeDeviceV1Error_Values =
     [(1, ''1'')]"

definition WpCursorShapeDeviceV1Error_Value :: "u32 \<Rightarrow> string" where
  "WpCursorShapeDeviceV1Error_Value e = switch WpCursorShapeDeviceV1Error_Values e"

definition WpCursorShapeDeviceV1Error_String :: "u32 \<Rightarrow> string" where
  "WpCursorShapeDeviceV1Error_String e = WpCursorShapeDeviceV1Error_Name e @ ''='' @ WpCursorShapeDeviceV1Error_Value e"

section \<open>ZwpTabletToolV2Type\<close>

definition ZwpTabletToolV2Type_consts :: "(string \<times> int) list" where
  "ZwpTabletToolV2Type_consts =
     [(''ZwpTabletToolV2TypePen'', 320), (''ZwpTabletToolV2TypeEraser'', 321),
      (''ZwpTabletToolV2TypeBrush'', 322), (''ZwpTabletToolV2TypePencil'', 323),
      (''ZwpTabletToolV2TypeAirbrush'', 324), (''ZwpTabletToolV2TypeFinger'', 325),
      (''ZwpTabletToolV2TypeMouse'', 326), (''ZwpTabletToolV2TypeLens'', 327)]"

definition ZwpTabletToolV2Type_Names :: cases where
  "ZwpTabletToolV2Type_Names =
     [(320, ''pen''), (321, ''eraser''), (322, ''brush''), (323, ''pencil''), (324, ''airbrush''),
      (325, ''finger''), (326, ''mouse''), (327, ''lens'')]"

definition ZwpTabletToolV2Type_Name :: "u32 \<Rightarrow> string" where
  "ZwpTabletToolV2Type_Name e = switch ZwpTabletToolV2Type_Names e"

definition ZwpTabletToolV2Type_Values :: cases where
  "ZwpTabletToolV2Type_Values =
     [(320, ''0x140''), (321, ''0x141''), (322, ''0x142''), (323, ''0x143''), (324, ''0x144''),
      (325, ''0x145''), (326, ''0x146''), (327, ''0x147'')]"

definition ZwpTabletToolV2Type_Value :: "u32 \<Rightarrow> string" where
  "ZwpTabletToolV2Type_Value e = switch ZwpTabletToolV2Type_Values e"

definition ZwpTabletToolV2Type_String :: "u32 \<Rightarrow> string" where
  "ZwpTabletToolV2Type_String e = ZwpTabletToolV2Type_Name e @ ''='' @ ZwpTabletToolV2Type_Value e"

section \<open>ZwpTabletToolV2Capability\<close>

definition ZwpTabletToolV2Capability_consts :: "(string \<times> int) list" where
  "ZwpTabletToolV2Capability_consts =
     [(''ZwpTabletToolV2CapabilityTilt'', 1), (''ZwpTabletToolV2CapabilityPressure'', 2),
      (''ZwpTabletToolV2CapabilityDistance'', 3), (''ZwpTabletToolV2CapabilityRotation'', 4),
      (''ZwpTabletToolV2CapabilitySlider'', 5), (''ZwpTabletToolV2CapabilityWheel'', 6)]"

definition ZwpTabletToolV2Capability_Names :: cases where
  "ZwpTabletToolV2Capability_Names =
     [(1, ''tilt''), (2, ''pressure''), (3, ''distance''), (4, ''rotation''), (5, ''slider''), (6, ''wheel'')]"

definition ZwpTabletToolV2Capability_Name :: "u32 \<Rightarrow> string" where
  "ZwpTabletToolV2Capability_Name e = switch ZwpTabletToolV2Capability_Names e"

definition ZwpTabletToolV2Capability_Values :: cases where
  "ZwpTabletToolV2Capability_Values =
     [(1, ''1''), (2, ''2''), (3, ''3''), (4, ''4''), (5, ''5''), (6, ''6'')]"

definition ZwpTabletToolV2Capability_Value :: "u32 \<Rightarrow> string" where
  "ZwpTabletToolV2Capability_Value e = switch ZwpTabletToolV2Capability_Values e"

definition ZwpTabletToolV2Capability_String :: "u32 \<Rightarrow> string" where
  "ZwpTabletToolV2Capability_String e = ZwpTabletToolV2Capability_Name e @ ''='' @ ZwpTabletToolV2Capability_Value e"

section \<open>ZwpTabletToolV2ButtonState\<close>

definition ZwpTabletToolV2ButtonState_consts :: "(string \<times> int) list" where
  "ZwpTabletToolV2ButtonState_consts =
     [(''ZwpTabletToolV2ButtonStateReleased'', 0), (''ZwpTabletToolV2ButtonStatePressed'', 1)]"

definition ZwpTabletToolV2ButtonState_Names :: cases where
  "ZwpTabletToolV2ButtonState_Names =
     [(0, ''released''), (1, ''pressed'')]"

definition ZwpTabletToolV2ButtonState_Name :: "u32 \<Rightarrow> string" where
  "ZwpTabletToolV2ButtonState_Name e = switch ZwpTabletToolV2ButtonState_Names e"

definition ZwpTabletToolV2ButtonState_Values :: cases where
  "ZwpTabletToolV2ButtonState_Values =
     [(0, ''0''), (1, ''1'')]"

definition ZwpTabletToolV2ButtonState_Value :: "u32 \<Rightarrow> string" where
  "ZwpTabletToolV2ButtonState_Value e = switch ZwpTabletToolV2ButtonState_Values e"

definition ZwpTabletToolV2ButtonState_String :: "u32 \<Rightarrow> string" where
  "ZwpTabletToolV2ButtonState_String e = ZwpTabletToolV2ButtonState_Name e @ ''='' @ ZwpTabletToolV2ButtonState_Value e"

section \<open>ZwpTabletToolV2Error\<close>

definition ZwpTabletToolV2Error_consts :: "(string \<times> int) list" where
  "ZwpTabletToolV2Error_consts =
     [(''ZwpTabletToolV2ErrorRole'', 0)]"

definition ZwpTabletToolV2Error_Names :: cases where
  "ZwpTabletToolV2Error_Names =
     [(0, ''role'')]"

definition ZwpTabletToolV2Error_Name :: "u32 \<Rightarrow> string" where
  "ZwpTabletToolV2Error_Name e = switch ZwpTabletToolV2Error_Names e"

definition ZwpTabletToolV2Error_Values :: cases where
  "ZwpTabletToolV2Error_Values =
     [(0, ''0'')]"

definition ZwpTabletToolV2Error_Value :: "u32 \<Rightarrow> string" where
  "ZwpTabletToolV2Error_Value e = switch ZwpTabletToolV2Error_Values e"

definition ZwpTabletToolV2Error_String :: "u32 \<Rightarrow> string" where
  "ZwpTabletToolV2Error_String e = ZwpTabletToolV2Error_Name e @ ''='' @ ZwpTabletToolV2Error_Value e"

section \<open>ZwpTabletPadRingV2Source\<close>

definition ZwpTabletPadRingV2Source_consts :: "(string \<times> int) list" where
  "ZwpTabletPadRingV2Source_consts =
     [(''ZwpTabletPadRingV2SourceFinger'', 1)]"

definition ZwpTabletPadRingV2Source_Names :: cases where
  "ZwpTabletPadRingV2Source_Names =
     [(1, ''finger'')]"

definition ZwpTabletPadRingV2Source_Name :: "u32 \<Rightarrow> string" where
  "ZwpTabletPadRingV2Source_Name e = switch ZwpTabletPadRingV2Source_Names e"

definition ZwpTabletPadRingV2Source_Values :: cases where
  "ZwpTabletPadRingV2Source_Values =
     [(1, ''1'')]"

definition ZwpTabletPadRingV2Source_Value :: "u32 \<Rightarrow> string" where
  "ZwpTabletPadRingV2Source_Value e = switch ZwpTabletPadRingV2Source_Values e"

definition ZwpTabletPadRingV2Source_String :: "u32 \<Rightarrow> string" where
  "ZwpTabletPadRingV2Source_String e = ZwpTabletPadRingV2Source_Name e @ ''='' @ ZwpTabletPadRingV2Source_Value e"

section \<open>ZwpTabletPadStripV2Source\<close>

definition ZwpTabletPadStripV2Source_consts :: "(string \<times> int) list" where
  "ZwpTabletPadStripV2Source_consts =
     [(''ZwpTabletPadStripV2SourceFinger'', 1)]"

definition ZwpTabletPadStripV2Source_Names :: cases where
  "ZwpTabletPadStripV2Source_Names =
     [(1, ''finger'')]"

definition ZwpTabletPadStripV2Source_Name :: "u32 \<Rightarrow> string" where
  "ZwpTabletPadStripV2Source_Name e = switch ZwpTabletPadStripV2Source_Names e"

definition ZwpTabletPadStripV2Source_Values :: cases where
  "ZwpTabletPadStripV2Source_Values =
     [(1, ''1'')]"

definition ZwpTabletPadStripV2Source_Value :: "u32 \<Rightarrow> string" where
  "ZwpTabletPadStripV2Source_Value e = switch ZwpTabletPadStripV2Source_Values e"

definition ZwpTabletPadStripV2Source_String :: "u32 \<Rightarrow> string" where
  "ZwpTabletPadStripV2Source_String e = ZwpTabletPadStripV2Source_Name e @ ''='' @ ZwpTabletPadStripV2Source_Value e"

section \<open>ZwpTabletPadV2ButtonState\<close>

definition ZwpTabletPadV2ButtonState_consts :: "(string \<times> int) list" where
  "ZwpTabletPadV2ButtonState_consts =
     [(''ZwpTabletPadV2ButtonStateReleased'', 0), (''ZwpTabletPadV2ButtonStatePressed'', 1)]"

definition ZwpTabletPadV2ButtonState_Names :: cases where
  "ZwpTabletPadV2ButtonState_Names =
     [(0, ''released''), (1, ''pressed'')]"

definition ZwpTabletPadV2ButtonState_Name :: "u32 \<Rightarrow> string" where
  "ZwpTabletPadV2ButtonState_Name e = switch ZwpTabletPadV2ButtonState_Names e"

definition ZwpTabletPadV2ButtonState_Values :: cases where
  "ZwpTabletPadV2ButtonState_Values =
     [(0, ''0''), (1, ''1'')]"

definition ZwpTabletPadV2ButtonState_Value :: "u32 \<Rightarrow> string" where
  "ZwpTabletPadV2ButtonState_Value e = switch ZwpTabletPadV2ButtonState_Values e"

definition ZwpTabletPadV2ButtonState_String :: "u32 \<Rightarrow> string" where
  "ZwpTabletPadV2ButtonState_String e = ZwpTabletPadV2ButtonState_Name e @ ''='' @ ZwpTabletPadV2ButtonState_Value e"

section \<open>ZwpTextInputV3ChangeCause\<close>

definition ZwpTextInputV3ChangeCause_consts :: "(string \<times> int) list" where
  "ZwpTextInputV3ChangeCause_consts =
     [(''ZwpTextInputV3ChangeCauseInputMethod'', 0), (''ZwpTextInputV3ChangeCauseOther'', 1)]"

definition ZwpTextInputV3ChangeCause_Names :: cases where
  "ZwpTextInputV3ChangeCause_Names =
     [(0, ''input_method''), (1, ''other'')]"

definition ZwpTextInputV3ChangeCause_Name :: "u32 \<Rightarrow> string" where
  "ZwpTextInputV3ChangeCause_Name e = switch ZwpTextInputV3ChangeCause_Names e"

definition ZwpTextInputV3ChangeCause_Values :: cases where
  "ZwpTextInputV3ChangeCause_Values =
     [(0, ''0''), (1, ''1'')]"

definition ZwpTextInputV3ChangeCause_Value :: "u32 \<Rightarrow> string" where
  "ZwpTextInputV3ChangeCause_Value e = switch ZwpTextInputV3ChangeCause_Values e"

definition ZwpTextInputV3ChangeCause_String :: "u32 \<Rightarrow> string" where
  "ZwpTextInputV3ChangeCause_String e = ZwpTextInputV3ChangeCause_Name e @ ''='' @ ZwpTextInputV3ChangeCause_Value e"

section \<open>ZwpTextInputV3ContentHint\<close>

definition ZwpTextInputV3ContentHint_consts :: "(string \<times> int) list" where
  "ZwpTextInputV3ContentHint_consts =
     [(''ZwpTextInputV3ContentHintNone'', 0), (''ZwpTextInputV3ContentHintCompletion'', 1),
      (''ZwpTextInputV3ContentHintSpellcheck'', 2), (''ZwpTextInputV3ContentHintAutoCapitalization'', 4),
      (''ZwpTextInputV3ContentHintLowercase'', 8), (''ZwpTextInputV3ContentHintUppercase'', 16),
      (''ZwpTextInputV3ContentHintTitlecase'', 32), (''ZwpTextInputV3ContentHintHiddenText'', 64),
      (''ZwpTextInputV3ContentHintSensitiveData'', 128), (''ZwpTextInputV3ContentHintLatin'', 256),
      (''ZwpTextInputV3ContentHintMultiline'', 512)]"

definition ZwpTextInputV3ContentHint_Names :: cases where
  "ZwpTextInputV3ContentHint_Names =
     [(0, ''none''), (1, ''completion''), (2, ''spellcheck''), (4, ''auto_capitalization''), (8, ''lowercase''),
      (16, ''uppercase''), (32, ''titlecase''), (64, ''hidden_text''), (128, ''sensitive_data''),
      (256, ''latin''), (512, ''multiline'')]"

definition ZwpTextInputV3ContentHint_Name :: "u32 \<Rightarrow> string" where
  "ZwpTextInputV3ContentHint_Name e = switch ZwpTextInputV3ContentHint_Names e"

definition ZwpTextInputV3ContentHint_Values :: cases where
  "ZwpTextInputV3ContentHint_Values =
     [(0, ''0x0''), (1, ''0x1''), (2, ''0x2''), (4, ''0x4''), (8, ''0x8''), (16, ''0x10''), (32, ''0x20''),
      (64, ''0x40''), (128, ''0x80''), (256, ''0x100''), (512, ''0x200'')]"

definition ZwpTextInputV3ContentHint_Value :: "u32 \<Rightarrow> string" where
  "ZwpTextInputV3ContentHint_Value e = switch ZwpTextInputV3ContentHint_Values e"

definition ZwpTextInputV3ContentHint_String :: "u32 \<Rightarrow> string" where
  "ZwpTextInputV3ContentHint_String e = ZwpTextInputV3ContentHint_Name e @ ''='' @ ZwpTextInputV3ContentHint_Value e"

section \<open>ZwpTextInputV3ContentPurpose\<close>

definition ZwpTextInputV3ContentPurpose_consts :: "(string \<times> int) list" where
  "ZwpTextInputV3ContentPurpose_consts =
     [(''ZwpTextInputV3ContentPurposeNormal'', 0), (''ZwpTextInputV3ContentPurposeAlpha'', 1),
      (''ZwpTextInputV3ContentPurposeDigits'', 2), (''ZwpTextInputV3ContentPurposeNumber'', 3),
      (''ZwpTextInputV3ContentPurposePhone'', 4), (''ZwpTextInputV3ContentPurposeUrl'', 5),
      (''ZwpTextInputV3ContentPurposeEmail'', 6), (''ZwpTextInputV3ContentPurposeName'', 7),
      (''ZwpTextInputV3ContentPurposePassword'', 8), (''ZwpTextInputV3ContentPurposePin'', 9),
      (''ZwpTextInputV3ContentPurposeDate'', 10), (''ZwpTextInputV3ContentPurposeTime'', 11),
      (''ZwpTextInputV3ContentPurposeDatetime'', 12), (''ZwpTextInputV3ContentPurposeTerminal'', 13)]"

definition ZwpTextInputV3ContentPurpose_Names :: cases where
  "ZwpTextInputV3ContentPurpose_Names =
     [(0, ''normal''), (1, ''alpha''), (2, ''digits''), (3, ''number''), (4, ''phone''), (5, ''url''),
      (6, ''email''), (7, ''name''), (8, ''password''), (9, ''pin''), (10, ''date''), (11, ''time''),
      (12, ''datetime''), (13, ''terminal'')]"

definition ZwpTextInputV3ContentPurpose_Name :: "u32 \<Rightarrow> string" where
  "ZwpTextInputV3ContentPurpose_Name e = switch ZwpTextInputV3ContentPurpose_Names e"

definition ZwpTextInputV3ContentPurpose_Values :: cases where
  "ZwpTextInputV3ContentPurpose_Values =
     [(0, ''0''), (1, ''1''), (2, ''2''), (3, ''3''), (4, ''4''), (5, ''5''), (6, ''6''), (7, ''7''),
      (8, ''8''), (9, ''9''), (10, ''10''), (11, ''11''), (12, ''12''), (13, ''13'')]"

definition ZwpTextInputV3ContentPurpose_Value :: "u32 \<Rightarrow> string" where
  "ZwpTextInputV3ContentPurpose_Value e = switch ZwpTextInputV3ContentPurpose_Values e"

definition ZwpTextInputV3ContentPurpose_String :: "u32 \<Rightarrow> string" where
  "ZwpTextInputV3ContentPurpose_String e = ZwpTextInputV3ContentPurpose_Name e @ ''='' @ ZwpTextInputV3ContentPurpose_Value e"

section \<open>All enumerations\<close>

definition enum_tables :: "((string \<times> int) list \<times> cases \<times> cases) list" where
  "enum_tables =
     [(DisplayError_consts, DisplayError_Names, DisplayError_Values),
      (ShmError_consts, ShmError_Names, ShmError_Values),
      (ShmFormat_consts, ShmFormat_Names, ShmFormat_Values),
      (DataOfferError_consts, DataOfferError_Names, DataOfferError_Values),
      (DataSourceError_consts, DataSourceError_Names, DataSourceError_Values),
      (DataDeviceError_consts, DataDeviceError_Names, DataDeviceError_Values),
      (DataDeviceManagerDndAction_consts, DataDeviceManagerDndAction_Names, DataDeviceManagerDndAction_Values),
      (ShellError_consts, ShellError_Names, ShellError_Values),
      (ShellSurfaceResize_consts, ShellSurfaceResize_Names, ShellSurfaceResize_Values),
      (ShellSurfaceTransient_consts, ShellSurfaceTransient_Names, ShellSurfaceTransient_Values),
      (ShellSurfaceFullscreenMethod_consts, ShellSurfaceFullscreenMethod_Names, ShellSurfaceFullscreenMethod_Values),
      (SurfaceError_consts, SurfaceError_Names, SurfaceError_Values),
      (SeatCapability_consts, SeatCapability_Names, SeatCapability_Values),
      (SeatError_consts, SeatError_Names, SeatError_Values),
      (PointerError_consts, PointerError_Names, PointerError_Values),
      (PointerButtonState_consts, PointerButtonState_Names, PointerButtonState_Values),
      (PointerAxis_consts, PointerAxis_Names, PointerAxis_Values),
      (PointerAxisSource_consts, PointerAxisSource_Names, PointerAxisSource_Values),
      (PointerAxisRelativeDirection_consts, PointerAxisRelativeDirection_Names, PointerAxisRelativeDirection_Values),
      (KeyboardKeymapFormat_consts, KeyboardKeymapFormat_Names, KeyboardKeymapFormat_Values),
      (KeyboardKeyState_consts, KeyboardKeyState_Names, KeyboardKeyState_Values),
      (OutputSubpixel_consts, OutputSubpixel_Names, OutputSubpixel_Values),
      (OutputTransform_consts, OutputTransform_Names, OutputTransform_Values),
      (OutputMode_consts, OutputMode_Names, OutputMode_Values),
      (SubcompositorError_consts, SubcompositorError_Names, SubcompositorError_Values),
      (SubsurfaceError_consts, SubsurfaceError_Names, SubsurfaceError_Values),
      (ExtSessionLockV1Error_consts, ExtSessionLockV1Error_Names, ExtSessionLockV1Error_Values),
      (ExtSessionLockSurfaceV1Error_consts, ExtSessionLockSurfaceV1Error_Names, ExtSessionLockSurfaceV1Error_Values),
      (WpCursorShapeDeviceV1Shape_consts, WpCursorShapeDeviceV1Shape_Names, WpCursorShapeDeviceV1Shape_Values),
      (WpCursorShapeDeviceV1Error_consts, WpCursorShapeDeviceV1Error_Names, WpCursorShapeDeviceV1Error_Values),
      (ZwpTabletToolV2Type_consts, ZwpTabletToolV2Type_Names, ZwpTabletToolV2Type_Values),
      (ZwpTabletToolV2Capability_consts, ZwpTabletToolV2Capability_Names, ZwpTabletToolV2Capability_Values),
      (ZwpTabletToolV2ButtonState_consts, ZwpTabletToolV2ButtonState_Names, ZwpTabletToolV2ButtonState_Values),
      (ZwpTabletToolV2Error_consts, ZwpTabletToolV2Error_Names, ZwpTabletToolV2Error_Values),
      (ZwpTabletPadRingV2Source_consts, ZwpTabletPadRingV2Source_Names, ZwpTabletPadRingV2Source_Values),
      (ZwpTabletPadStripV2Source_consts, ZwpTabletPadStripV2Source_Names, ZwpTabletPadStripV2Source_Values),
      (ZwpTabletPadV2ButtonState_consts, ZwpTabletPadV2ButtonState_Names, ZwpTabletPadV2ButtonState_Values),
      (ZwpTextInputV3ChangeCause_consts, ZwpTextInputV3ChangeCause_Names, ZwpTextInputV3ChangeCause_Values),
      (ZwpTextInputV3ContentHint_consts, ZwpTextInputV3ContentHint_Names, ZwpTextInputV3ContentHint_Values),
      (ZwpTextInputV3ContentPurpose_consts, ZwpTextInputV3ContentPurpose_Names, ZwpTextInputV3ContentPurpose_Values)]"

lemmas enum_defs =
  DisplayError_consts_def DisplayError_Names_def DisplayError_Values_def
  ShmError_consts_def ShmError_Names_def ShmError_Values_def
  ShmFormat_consts_def ShmFormat_Names_def ShmFormat_Values_def
  DataOfferError_consts_def DataOfferError_Names_def DataOfferError_Values_def
  DataSourceError_consts_def DataSourceError_Names_def DataSourceError_Values_def
  DataDeviceError_consts_def DataDeviceError_Names_def DataDeviceError_Values_def
  DataDeviceManagerDndAction_consts_def DataDeviceManagerDndAction_Names_def DataDeviceManagerDndAction_Values_def
  ShellError_consts_def ShellError_Names_def ShellError_Values_def
  ShellSurfaceResize_consts_def ShellSurfaceResize_Names_def ShellSurfaceResize_Values_def
  ShellSurfaceTransient_consts_def ShellSurfaceTransient_Names_def ShellSurfaceTransient_Values_def
  ShellSurfaceFullscreenMethod_consts_def ShellSurfaceFullscreenMethod_Names_def ShellSurfaceFullscreenMethod_Values_def
  SurfaceError_consts_def SurfaceError_Names_def SurfaceError_Values_def
  SeatCapability_consts_def SeatCapability_Names_def SeatCapability_Values_def
  SeatError_consts_def SeatError_Names_def SeatError_Values_def
  PointerError_consts_def PointerError_Names_def PointerError_Values_def
  PointerButtonState_consts_def PointerButtonState_Names_def PointerButtonState_Values_def
  PointerAxis_consts_def PointerAxis_Names_def PointerAxis_Values_def
  PointerAxisSource_consts_def PointerAxisSource_Names_def PointerAxisSource_Values_def
  PointerAxisRelativeDirection_consts_def PointerAxisRelativeDirection_Names_def PointerAxisRelativeDirection_Values_def
  KeyboardKeymapFormat_consts_def KeyboardKeymapFormat_Names_def KeyboardKeymapFormat_Values_def
  KeyboardKeyState_consts_def KeyboardKeyState_Names_def KeyboardKeyState_Values_def
  OutputSubpixel_consts_def OutputSubpixel_Names_def OutputSubpixel_Values_def
  OutputTransform_consts_def OutputTransform_Names_def OutputTransform_Values_def
  OutputMode_consts_def OutputMode_Names_def OutputMode_Values_def
  SubcompositorError_consts_def SubcompositorError_Names_def SubcompositorError_Values_def
  SubsurfaceError_consts_def SubsurfaceError_Names_def SubsurfaceError_Values_def
  ExtSessionLockV1Error_consts_def ExtSessionLockV1Error_Names_def ExtSessionLockV1Error_Values_def
  ExtSessionLockSurfaceV1Error_consts_def ExtSessionLockSurfaceV1Error_Names_def ExtSessionLockSurfaceV1Error_Values_def
  WpCursorShapeDeviceV1Shape_consts_def WpCursorShapeDeviceV1Shape_Names_def WpCursorShapeDeviceV1Shape_Values_def
  WpCursorShapeDeviceV1Error_consts_def WpCursorShapeDeviceV1Error_Names_def WpCursorShapeDeviceV1Error_Values_def
  ZwpTabletToolV2Type_consts_def ZwpTabletToolV2Type_Names_def ZwpTabletToolV2Type_Values_def
  ZwpTabletToolV2Capability_consts_def ZwpTabletToolV2Capability_Names_def ZwpTabletToolV2Capability_Values_def
  ZwpTabletToolV2ButtonState_consts_def ZwpTabletToolV2ButtonState_Names_def ZwpTabletToolV2ButtonState_Values_def
  ZwpTabletToolV2Error_consts_def ZwpTabletToolV2Error_Names_def ZwpTabletToolV2Error_Values_def
  ZwpTabletPadRingV2Source_consts_def ZwpTabletPadRingV2Source_Names_def ZwpTabletPadRingV2Source_Values_def
  ZwpTabletPadStripV2Source_consts_def ZwpTabletPadStripV2Source_Names_def ZwpTabletPadStripV2Source_Values_def
  ZwpTabletPadV2ButtonState_consts_def ZwpTabletPadV2ButtonState_Names_def ZwpTabletPadV2ButtonState_Values_def
  ZwpTextInputV3ChangeCause_consts_def ZwpTextInputV3ChangeCause_Names_def ZwpTextInputV3ChangeCause_Values_def
  ZwpTextInputV3ContentHint_consts_def ZwpTextInputV3ContentHint_Names_def ZwpTextInputV3ContentHint_Values_def
  ZwpTextInputV3ContentPurpose_consts_def ZwpTextInputV3ContentPurpose_Names_def ZwpTextInputV3ContentPurpose_Values_def

text \<open>The number a literal of the protocol denotes: decimal, or hexadecimal after \<open>0x\<close>.\<close>

definition hex_val :: "char \<Rightarrow> int option" where
  "hex_val c = (let n = int (of_char c) in
     if 48 \<le> n \<and> n \<le> 57 then Some (n - 48)
     else if 97 \<le> n \<and> n \<le> 102 then Some (n - 87)
     else if 65 \<le> n \<and> n \<le> 70 then Some (n - 55) else None)"

primrec base_val :: "int \<Rightarrow> string \<Rightarrow> int \<Rightarrow> int option" where
  "base_val b [] n = Some n"
| "base_val b (c # cs) n = (case hex_val c of None \<Rightarrow> None
     | Some d \<Rightarrow> if d < b then base_val b cs (b * n + d) else None)"

definition literal_val :: "string \<Rightarrow> int option" where
  "literal_val s = (if take 2 s = ''0x'' then base_val 16 (drop 2 s) 0 else base_val 10 s 0)"

text \<open>
  What the tables of one enum owe: the methods cover exactly the constants, in the same order, the
  constants are distinct values of 32 bits, no two have one name, and each value string denotes its constant.
\<close>

definition enum_ok :: "(string \<times> int) list \<times> cases \<times> cases \<Rightarrow> bool" where
  "enum_ok t = (case t of (cs, ns, vs) \<Rightarrow>
     map snd cs = map fst ns \<and> map fst ns = map fst vs \<and>
     distinct (map fst ns) \<and> distinct (map snd ns) \<and>
     list_all (\<lambda>(c, s). literal_val s = Some c \<and> 0 \<le> c \<and> c < 2 ^ 32) vs)"

text \<open>The constants of every enum with its methods.\<close>

definition enum_methods :: "((string \<times> int) list \<times> (u32 \<Rightarrow> string) \<times> (u32 \<Rightarrow> string)) list" where
  "enum_methods =
     [(DisplayError_consts, DisplayError_Name, DisplayError_Value),
      (ShmError_consts, ShmError_Name, ShmError_Value),
      (ShmFormat_consts, ShmFormat_Name, ShmFormat_Value),
      (DataOfferError_consts, DataOfferError_Name, DataOfferError_Value),
      (DataSourceError_consts, DataSourceError_Name, DataSourceError_Value),
      (DataDeviceError_consts, DataDeviceError_Name, DataDeviceError_Value),
      (DataDeviceManagerDndAction_consts, DataDeviceManagerDndAction_Name, DataDeviceManagerDndAction_Value),
      (ShellError_consts, ShellError_Name, ShellError_Value),
      (ShellSurfaceResize_consts, ShellSurfaceResize_Name, ShellSurfaceResize_Value),
      (ShellSurfaceTransient_consts, ShellSurfaceTransient_Name, ShellSurfaceTransient_Value),
      (ShellSurfaceFullscreenMethod_consts, ShellSurfaceFullscreenMethod_Name, ShellSurfaceFullscreenMethod_Value),
      (SurfaceError_consts, SurfaceError_Name, SurfaceError_Value),
      (SeatCapability_consts, SeatCapability_Name, SeatCapability_Value),
      (SeatError_consts, SeatError_Name, SeatError_Value),
      (PointerError_consts, PointerError_Name, PointerError_Value),
      (PointerButtonState_consts, PointerButtonState_Name, PointerButtonState_Value),
      (PointerAxis_consts, PointerAxis_Name, PointerAxis_Value),
      (PointerAxisSource_consts, PointerAxisSource_Name, PointerAxisSource_Value),
      (PointerAxisRelativeDirection_consts, PointerAxisRelativeDirection_Name, PointerAxisRelativeDirection_Value),
      (KeyboardKeymapFormat_consts, KeyboardKeymapFormat_Name, KeyboardKeymapFormat_Value),
      (KeyboardKeyState_consts, KeyboardKeyState_Name, KeyboardKeyState_Value),
      (OutputSubpixel_consts, OutputSubpixel_Name, OutputSubpixel_Value),
      (OutputTransform_consts, OutputTransform_Name, OutputTransform_Value),
      (OutputMode_consts, OutputMode_Name, OutputMode_Value),
      (SubcompositorError_consts, SubcompositorError_Name, SubcompositorError_Value),
      (SubsurfaceError_consts, SubsurfaceError_Name, SubsurfaceError_Value),
      (ExtSessionLockV1Error_consts, ExtSessionLockV1Error_Name, ExtSessionLockV1Error_Value),
      (ExtSessionLockSurfaceV1Error_consts, ExtSessionLockSurfaceV1Error_Name, ExtSessionLockSurfaceV1Error_Value),
      (WpCursorShapeDeviceV1Shape_consts, WpCursorShapeDeviceV1Shape_Name, WpCursorShapeDeviceV1Shape_Value),
      (WpCursorShapeDeviceV1Error_consts, WpCursorShapeDeviceV1Error_Name, WpCursorShapeDeviceV1Error_Value),
      (ZwpTabletToolV2Type_consts, ZwpTabletToolV2Type_Name, ZwpTabletToolV2Type_Value),
      (ZwpTabletToolV2Capability_consts, ZwpTabletToolV2Capability_Name, ZwpTabletToolV2Capability_Value),
      (ZwpTabletToolV2ButtonState_consts, ZwpTabletToolV2ButtonState_Name, ZwpTabletToolV2ButtonState_Value),
      (ZwpTabletToolV2Error_consts, ZwpTabletToolV2Error_Name, ZwpTabletToolV2Error_Value),
      (ZwpTabletPadRingV2Source_consts, ZwpTabletPadRingV2Source_Name, ZwpTabletPadRingV2Source_Value),
      (ZwpTabletPadStripV2Source_consts, ZwpTabletPadStripV2Source_Name, ZwpTabletPadStripV2Source_Value),
      (ZwpTabletPadV2ButtonState_consts, ZwpTabletPadV2ButtonState_Name, ZwpTabletPadV2ButtonState_Value),
      (ZwpTextInputV3ChangeCause_consts, ZwpTextInputV3ChangeCause_Name, ZwpTextInputV3ChangeCause_Value),
      (ZwpTextInputV3ContentHint_consts, ZwpTextInputV3ContentHint_Name, ZwpTextInputV3ContentHint_Value),
      (ZwpTextInputV3ContentPurpose_consts, ZwpTextInputV3ContentPurpose_Name, ZwpTextInputV3ContentPurpose_Value)]"

lemma method_tables: "enum_methods = map (\<lambda>(cs, ns, vs). (cs, switch ns, switch vs)) enum_tables"
  by (simp add: enum_methods_def enum_tables_def fun_eq_iff
    DisplayError_Name_def DisplayError_Value_def
    ShmError_Name_def ShmError_Value_def
    ShmFormat_Name_def ShmFormat_Value_def
    DataOfferError_Name_def DataOfferError_Value_def
    DataSourceError_Name_def DataSourceError_Value_def
    DataDeviceError_Name_def DataDeviceError_Value_def
    DataDeviceManagerDndAction_Name_def DataDeviceManagerDndAction_Value_def
    ShellError_Name_def ShellError_Value_def
    ShellSurfaceResize_Name_def ShellSurfaceResize_Value_def
    ShellSurfaceTransient_Name_def ShellSurfaceTransient_Value_def
    ShellSurfaceFullscreenMethod_Name_def ShellSurfaceFullscreenMethod_Value_def
    SurfaceError_Name_def SurfaceError_Value_def
    SeatCapability_Name_def SeatCapability_Value_def
    SeatError_Name_def SeatError_Value_def
    PointerError_Name_def PointerError_Value_def
    PointerButtonState_Name_def PointerButtonState_Value_def
    PointerAxis_Name_def PointerAxis_Value_def
    PointerAxisSource_Name_def PointerAxisSource_Value_def
    PointerAxisRelativeDirection_Name_def PointerAxisRelativeDirection_Value_def
    KeyboardKeymapFormat_Name_def KeyboardKeymapFormat_Value_def
    KeyboardKeyState_Name_def KeyboardKeyState_Value_def
    OutputSubpixel_Name_def OutputSubpixel_Value_def
    OutputTransform_Name_def OutputTransform_Value_def
    OutputMode_Name_def OutputMode_Value_def
    SubcompositorError_Name_def SubcompositorError_Value_def
    SubsurfaceError_Name_def SubsurfaceError_Value_def
    ExtSessionLockV1Error_Name_def ExtSessionLockV1Error_Value_def
    ExtSessionLockSurfaceV1Error_Name_def ExtSessionLockSurfaceV1Error_Value_def
    WpCursorShapeDeviceV1Shape_Name_def WpCursorShapeDeviceV1Shape_Value_def
    WpCursorShapeDeviceV1Error_Name_def WpCursorShapeDeviceV1Error_Value_def
    ZwpTabletToolV2Type_Name_def ZwpTabletToolV2Type_Value_def
    ZwpTabletToolV2Capability_Name_def ZwpTabletToolV2Capability_Value_def
    ZwpTabletToolV2ButtonState_Name_def ZwpTabletToolV2ButtonState_Value_def
    ZwpTabletToolV2Error_Name_def ZwpTabletToolV2Error_Value_def
    ZwpTabletPadRingV2Source_Name_def ZwpTabletPadRingV2Source_Value_def
    ZwpTabletPadStripV2Source_Name_def ZwpTabletPadStripV2Source_Value_def
    ZwpTabletPadV2ButtonState_Name_def ZwpTabletPadV2ButtonState_Value_def
    ZwpTextInputV3ChangeCause_Name_def ZwpTextInputV3ChangeCause_Value_def
    ZwpTextInputV3ContentHint_Name_def ZwpTextInputV3ContentHint_Value_def
    ZwpTextInputV3ContentPurpose_Name_def ZwpTextInputV3ContentPurpose_Value_def)

lemma ShmFormat_keys: "distinct (map fst ShmFormat_Names)"
  by code_simp

lemma ShmFormat_names: "distinct (map snd ShmFormat_Names)"
  by (simp add: ShmFormat_Names_def)

lemma ShmFormat_ok: "enum_ok (ShmFormat_consts, ShmFormat_Names, ShmFormat_Values)"
  unfolding enum_ok_def prod.case
  by (intro conjI ShmFormat_keys ShmFormat_names) code_simp+

lemma enums_ok: "list_all enum_ok enum_tables"
  unfolding enum_tables_def list.pred_inject
  by (intro conjI ShmFormat_ok; code_simp)

lemma switch_map_of: "uint e \<in> fst ` set cs \<Longrightarrow> map_of cs (uint e) = Some (switch cs e)"
  using map_of_eq_None_iff [of cs "uint e"] by (cases "map_of cs (uint e)") (simp_all add: switch_def)

lemma switch_default: "uint e \<notin> fst ` set cs \<Longrightarrow> switch cs e = []"
  by (simp add: switch_def map_of_eq_None_iff [THEN iffD2])

text \<open>A table in order is a bijection between the constants and their names, and its values print the constants.\<close>

lemma enum_ok_methods:
  assumes "enum_ok (cs, ns, vs)"
  shows "uint e \<in> snd ` set cs \<Longrightarrow> literal_val (switch vs e) = Some (uint e)"
    and "uint e \<notin> snd ` set cs \<Longrightarrow> switch ns e = [] \<and> switch vs e = []"
    and "uint e \<in> snd ` set cs \<Longrightarrow> uint e' \<in> snd ` set cs \<Longrightarrow> switch ns e = switch ns e' \<Longrightarrow> e = e'"
proof -
  have keys: "map snd cs = map fst ns" "map fst ns = map fst vs" and d: "distinct (map fst ns)" "distinct (map snd ns)"
    and v: "\<And>c s. (c, s) \<in> set vs \<Longrightarrow> literal_val s = Some c"
    using assms by (auto simp: enum_ok_def list_all_iff)
  have n: "snd ` set cs = fst ` set ns" "snd ` set cs = fst ` set vs" using keys by (metis list.set_map)+
  show "literal_val (switch vs e) = Some (uint e)" if "uint e \<in> snd ` set cs"
    using switch_map_of [of e vs] map_of_SomeD v n that by metis
  show "switch ns e = [] \<and> switch vs e = []" if "uint e \<notin> snd ` set cs"
    using switch_default n that by metis
  show "e = e'" if c: "uint e \<in> snd ` set cs" "uint e' \<in> snd ` set cs" and q: "switch ns e = switch ns e'"
  proof -
    have "(uint e, switch ns e) \<in> set ns" "(uint e', switch ns e) \<in> set ns"
      using switch_map_of [of _ ns] map_of_SomeD n c q by metis+
    moreover have "inj_on snd (set ns)" using d(2) by (simp add: distinct_map)
    ultimately have "uint e = uint e'" by (metis inj_onD fst_conv snd_conv)
    then show ?thesis by (simp add: word_uint_eq_iff)
  qed
qed

end
