(* ===== verification/Event_Structs.thy ===== *)
theory Event_Structs
  imports World "HOL-Library.List_Lexorder" "HOL-Library.Char_ord"
begin

text \<open>
  The type declarations of the generated files: for every event its struct, for every proxy type its handler fields and the
  event struct each handler takes, and the interface names. A struct is the list of its field names with their Go types.
\<close>

datatype gotype = TUint | TInt | TFixed | TString | TOptString | TArray | TFd | TPtr iface | TProxy

type_synonym fields = "(string \<times> gotype) list"

section \<open>Event structs\<close>

definition DisplayErrorEvent :: fields where
  "DisplayErrorEvent =
     [(''ObjectId'', TProxy), (''Code'', TUint), (''Message'', TString)]"

definition DisplayDeleteIdEvent :: fields where
  "DisplayDeleteIdEvent =
     [(''Id'', TUint)]"

definition RegistryGlobalEvent :: fields where
  "RegistryGlobalEvent =
     [(''Name'', TUint), (''Interface'', TString), (''Version'', TUint)]"

definition RegistryGlobalRemoveEvent :: fields where
  "RegistryGlobalRemoveEvent =
     [(''Name'', TUint)]"

definition CallbackDoneEvent :: fields where
  "CallbackDoneEvent =
     [(''CallbackData'', TUint)]"

definition ShmFormatEvent :: fields where
  "ShmFormatEvent =
     [(''Format'', TUint)]"

definition BufferReleaseEvent :: fields where
  "BufferReleaseEvent =
     []"

definition DataOfferOfferEvent :: fields where
  "DataOfferOfferEvent =
     [(''MimeType'', TString)]"

definition DataOfferSourceActionsEvent :: fields where
  "DataOfferSourceActionsEvent =
     [(''SourceActions'', TUint)]"

definition DataOfferActionEvent :: fields where
  "DataOfferActionEvent =
     [(''DndAction'', TUint)]"

definition DataSourceTargetEvent :: fields where
  "DataSourceTargetEvent =
     [(''MimeType'', TOptString)]"

definition DataSourceSendEvent :: fields where
  "DataSourceSendEvent =
     [(''MimeType'', TString), (''Fd'', TFd)]"

definition DataSourceCancelledEvent :: fields where
  "DataSourceCancelledEvent =
     []"

definition DataSourceDndDropPerformedEvent :: fields where
  "DataSourceDndDropPerformedEvent =
     []"

definition DataSourceDndFinishedEvent :: fields where
  "DataSourceDndFinishedEvent =
     []"

definition DataSourceActionEvent :: fields where
  "DataSourceActionEvent =
     [(''DndAction'', TUint)]"

definition DataDeviceDataOfferEvent :: fields where
  "DataDeviceDataOfferEvent =
     [(''Id'', TPtr DataOffer)]"

definition DataDeviceEnterEvent :: fields where
  "DataDeviceEnterEvent =
     [(''Serial'', TUint), (''Surface'', TPtr Surface), (''X'', TFixed), (''Y'', TFixed), (''Id'', TPtr DataOffer)]"

definition DataDeviceLeaveEvent :: fields where
  "DataDeviceLeaveEvent =
     []"

definition DataDeviceMotionEvent :: fields where
  "DataDeviceMotionEvent =
     [(''Time'', TUint), (''X'', TFixed), (''Y'', TFixed)]"

definition DataDeviceDropEvent :: fields where
  "DataDeviceDropEvent =
     []"

definition DataDeviceSelectionEvent :: fields where
  "DataDeviceSelectionEvent =
     [(''Id'', TPtr DataOffer)]"

definition ShellSurfacePingEvent :: fields where
  "ShellSurfacePingEvent =
     [(''Serial'', TUint)]"

definition ShellSurfaceConfigureEvent :: fields where
  "ShellSurfaceConfigureEvent =
     [(''Edges'', TUint), (''Width'', TInt), (''Height'', TInt)]"

definition ShellSurfacePopupDoneEvent :: fields where
  "ShellSurfacePopupDoneEvent =
     []"

definition SurfaceEnterEvent :: fields where
  "SurfaceEnterEvent =
     [(''Output'', TPtr Output)]"

definition SurfaceLeaveEvent :: fields where
  "SurfaceLeaveEvent =
     [(''Output'', TPtr Output)]"

definition SurfacePreferredBufferScaleEvent :: fields where
  "SurfacePreferredBufferScaleEvent =
     [(''Factor'', TInt)]"

definition SurfacePreferredBufferTransformEvent :: fields where
  "SurfacePreferredBufferTransformEvent =
     [(''Transform'', TUint)]"

definition SeatCapabilitiesEvent :: fields where
  "SeatCapabilitiesEvent =
     [(''Capabilities'', TUint)]"

definition SeatNameEvent :: fields where
  "SeatNameEvent =
     [(''Name'', TString)]"

definition PointerEnterEvent :: fields where
  "PointerEnterEvent =
     [(''Serial'', TUint), (''Surface'', TPtr Surface), (''SurfaceX'', TFixed), (''SurfaceY'', TFixed)]"

definition PointerLeaveEvent :: fields where
  "PointerLeaveEvent =
     [(''Serial'', TUint), (''Surface'', TPtr Surface)]"

definition PointerMotionEvent :: fields where
  "PointerMotionEvent =
     [(''Time'', TUint), (''SurfaceX'', TFixed), (''SurfaceY'', TFixed)]"

definition PointerButtonEvent :: fields where
  "PointerButtonEvent =
     [(''Serial'', TUint), (''Time'', TUint), (''Button'', TUint), (''State'', TUint)]"

definition PointerAxisEvent :: fields where
  "PointerAxisEvent =
     [(''Time'', TUint), (''Axis'', TUint), (''Value'', TFixed)]"

definition PointerFrameEvent :: fields where
  "PointerFrameEvent =
     []"

definition PointerAxisSourceEvent :: fields where
  "PointerAxisSourceEvent =
     [(''AxisSource'', TUint)]"

definition PointerAxisStopEvent :: fields where
  "PointerAxisStopEvent =
     [(''Time'', TUint), (''Axis'', TUint)]"

definition PointerAxisDiscreteEvent :: fields where
  "PointerAxisDiscreteEvent =
     [(''Axis'', TUint), (''Discrete'', TInt)]"

definition PointerAxisValue120Event :: fields where
  "PointerAxisValue120Event =
     [(''Axis'', TUint), (''Value120'', TInt)]"

definition PointerAxisRelativeDirectionEvent :: fields where
  "PointerAxisRelativeDirectionEvent =
     [(''Axis'', TUint), (''Direction'', TUint)]"

definition KeyboardKeymapEvent :: fields where
  "KeyboardKeymapEvent =
     [(''Format'', TUint), (''Fd'', TFd), (''Size'', TUint)]"

definition KeyboardEnterEvent :: fields where
  "KeyboardEnterEvent =
     [(''Serial'', TUint), (''Surface'', TPtr Surface), (''Keys'', TArray)]"

definition KeyboardLeaveEvent :: fields where
  "KeyboardLeaveEvent =
     [(''Serial'', TUint), (''Surface'', TPtr Surface)]"

definition KeyboardKeyEvent :: fields where
  "KeyboardKeyEvent =
     [(''Serial'', TUint), (''Time'', TUint), (''Key'', TUint), (''State'', TUint)]"

definition KeyboardModifiersEvent :: fields where
  "KeyboardModifiersEvent =
     [(''Serial'', TUint), (''ModsDepressed'', TUint), (''ModsLatched'', TUint), (''ModsLocked'', TUint), (''Group'', TUint)]"

definition KeyboardRepeatInfoEvent :: fields where
  "KeyboardRepeatInfoEvent =
     [(''Rate'', TInt), (''Delay'', TInt)]"

definition TouchDownEvent :: fields where
  "TouchDownEvent =
     [(''Serial'', TUint), (''Time'', TUint), (''Surface'', TPtr Surface), (''Id'', TInt), (''X'', TFixed), (''Y'', TFixed)]"

definition TouchUpEvent :: fields where
  "TouchUpEvent =
     [(''Serial'', TUint), (''Time'', TUint), (''Id'', TInt)]"

definition TouchMotionEvent :: fields where
  "TouchMotionEvent =
     [(''Time'', TUint), (''Id'', TInt), (''X'', TFixed), (''Y'', TFixed)]"

definition TouchFrameEvent :: fields where
  "TouchFrameEvent =
     []"

definition TouchCancelEvent :: fields where
  "TouchCancelEvent =
     []"

definition TouchShapeEvent :: fields where
  "TouchShapeEvent =
     [(''Id'', TInt), (''Major'', TFixed), (''Minor'', TFixed)]"

definition TouchOrientationEvent :: fields where
  "TouchOrientationEvent =
     [(''Id'', TInt), (''Orientation'', TFixed)]"

definition OutputGeometryEvent :: fields where
  "OutputGeometryEvent =
     [(''X'', TInt), (''Y'', TInt), (''PhysicalWidth'', TInt), (''PhysicalHeight'', TInt), (''Subpixel'', TInt),
      (''Make'', TString), (''Model'', TString), (''Transform'', TInt)]"

definition OutputModeEvent :: fields where
  "OutputModeEvent =
     [(''Flags'', TUint), (''Width'', TInt), (''Height'', TInt), (''Refresh'', TInt)]"

definition OutputDoneEvent :: fields where
  "OutputDoneEvent =
     []"

definition OutputScaleEvent :: fields where
  "OutputScaleEvent =
     [(''Factor'', TInt)]"

definition OutputNameEvent :: fields where
  "OutputNameEvent =
     [(''Name'', TString)]"

definition OutputDescriptionEvent :: fields where
  "OutputDescriptionEvent =
     [(''Description'', TString)]"

definition ZwpTabletSeatV2TabletAddedEvent :: fields where
  "ZwpTabletSeatV2TabletAddedEvent =
     [(''Id'', TPtr ZwpTabletV2)]"

definition ZwpTabletSeatV2ToolAddedEvent :: fields where
  "ZwpTabletSeatV2ToolAddedEvent =
     [(''Id'', TPtr ZwpTabletToolV2)]"

definition ZwpTabletSeatV2PadAddedEvent :: fields where
  "ZwpTabletSeatV2PadAddedEvent =
     [(''Id'', TPtr ZwpTabletPadV2)]"

definition ZwpTabletToolV2TypeEvent :: fields where
  "ZwpTabletToolV2TypeEvent =
     [(''ToolType'', TUint)]"

definition ZwpTabletToolV2HardwareSerialEvent :: fields where
  "ZwpTabletToolV2HardwareSerialEvent =
     [(''HardwareSerialHi'', TUint), (''HardwareSerialLo'', TUint)]"

definition ZwpTabletToolV2HardwareIdWacomEvent :: fields where
  "ZwpTabletToolV2HardwareIdWacomEvent =
     [(''HardwareIdHi'', TUint), (''HardwareIdLo'', TUint)]"

definition ZwpTabletToolV2CapabilityEvent :: fields where
  "ZwpTabletToolV2CapabilityEvent =
     [(''Capability'', TUint)]"

definition ZwpTabletToolV2DoneEvent :: fields where
  "ZwpTabletToolV2DoneEvent =
     []"

definition ZwpTabletToolV2RemovedEvent :: fields where
  "ZwpTabletToolV2RemovedEvent =
     []"

definition ZwpTabletToolV2ProximityInEvent :: fields where
  "ZwpTabletToolV2ProximityInEvent =
     [(''Serial'', TUint), (''Tablet'', TPtr ZwpTabletV2), (''Surface'', TPtr Surface)]"

definition ZwpTabletToolV2ProximityOutEvent :: fields where
  "ZwpTabletToolV2ProximityOutEvent =
     []"

definition ZwpTabletToolV2DownEvent :: fields where
  "ZwpTabletToolV2DownEvent =
     [(''Serial'', TUint)]"

definition ZwpTabletToolV2UpEvent :: fields where
  "ZwpTabletToolV2UpEvent =
     []"

definition ZwpTabletToolV2MotionEvent :: fields where
  "ZwpTabletToolV2MotionEvent =
     [(''X'', TFixed), (''Y'', TFixed)]"

definition ZwpTabletToolV2PressureEvent :: fields where
  "ZwpTabletToolV2PressureEvent =
     [(''Pressure'', TUint)]"

definition ZwpTabletToolV2DistanceEvent :: fields where
  "ZwpTabletToolV2DistanceEvent =
     [(''Distance'', TUint)]"

definition ZwpTabletToolV2TiltEvent :: fields where
  "ZwpTabletToolV2TiltEvent =
     [(''TiltX'', TFixed), (''TiltY'', TFixed)]"

definition ZwpTabletToolV2RotationEvent :: fields where
  "ZwpTabletToolV2RotationEvent =
     [(''Degrees'', TFixed)]"

definition ZwpTabletToolV2SliderEvent :: fields where
  "ZwpTabletToolV2SliderEvent =
     [(''Position'', TInt)]"

definition ZwpTabletToolV2WheelEvent :: fields where
  "ZwpTabletToolV2WheelEvent =
     [(''Degrees'', TFixed), (''Clicks'', TInt)]"

definition ZwpTabletToolV2ButtonEvent :: fields where
  "ZwpTabletToolV2ButtonEvent =
     [(''Serial'', TUint), (''Button'', TUint), (''State'', TUint)]"

definition ZwpTabletToolV2FrameEvent :: fields where
  "ZwpTabletToolV2FrameEvent =
     [(''Time'', TUint)]"

definition ZwpTabletV2NameEvent :: fields where
  "ZwpTabletV2NameEvent =
     [(''Name'', TString)]"

definition ZwpTabletV2IdEvent :: fields where
  "ZwpTabletV2IdEvent =
     [(''Vid'', TUint), (''Pid'', TUint)]"

definition ZwpTabletV2PathEvent :: fields where
  "ZwpTabletV2PathEvent =
     [(''Path'', TString)]"

definition ZwpTabletV2DoneEvent :: fields where
  "ZwpTabletV2DoneEvent =
     []"

definition ZwpTabletV2RemovedEvent :: fields where
  "ZwpTabletV2RemovedEvent =
     []"

definition ZwpTabletPadRingV2SourceEvent :: fields where
  "ZwpTabletPadRingV2SourceEvent =
     [(''Source'', TUint)]"

definition ZwpTabletPadRingV2AngleEvent :: fields where
  "ZwpTabletPadRingV2AngleEvent =
     [(''Degrees'', TFixed)]"

definition ZwpTabletPadRingV2StopEvent :: fields where
  "ZwpTabletPadRingV2StopEvent =
     []"

definition ZwpTabletPadRingV2FrameEvent :: fields where
  "ZwpTabletPadRingV2FrameEvent =
     [(''Time'', TUint)]"

definition ZwpTabletPadStripV2SourceEvent :: fields where
  "ZwpTabletPadStripV2SourceEvent =
     [(''Source'', TUint)]"

definition ZwpTabletPadStripV2PositionEvent :: fields where
  "ZwpTabletPadStripV2PositionEvent =
     [(''Position'', TUint)]"

definition ZwpTabletPadStripV2StopEvent :: fields where
  "ZwpTabletPadStripV2StopEvent =
     []"

definition ZwpTabletPadStripV2FrameEvent :: fields where
  "ZwpTabletPadStripV2FrameEvent =
     [(''Time'', TUint)]"

definition ZwpTabletPadGroupV2ButtonsEvent :: fields where
  "ZwpTabletPadGroupV2ButtonsEvent =
     [(''Buttons'', TArray)]"

definition ZwpTabletPadGroupV2RingEvent :: fields where
  "ZwpTabletPadGroupV2RingEvent =
     [(''Ring'', TPtr ZwpTabletPadRingV2)]"

definition ZwpTabletPadGroupV2StripEvent :: fields where
  "ZwpTabletPadGroupV2StripEvent =
     [(''Strip'', TPtr ZwpTabletPadStripV2)]"

definition ZwpTabletPadGroupV2ModesEvent :: fields where
  "ZwpTabletPadGroupV2ModesEvent =
     [(''Modes'', TUint)]"

definition ZwpTabletPadGroupV2DoneEvent :: fields where
  "ZwpTabletPadGroupV2DoneEvent =
     []"

definition ZwpTabletPadGroupV2ModeSwitchEvent :: fields where
  "ZwpTabletPadGroupV2ModeSwitchEvent =
     [(''Time'', TUint), (''Serial'', TUint), (''Mode'', TUint)]"

definition ZwpTabletPadV2GroupEvent :: fields where
  "ZwpTabletPadV2GroupEvent =
     [(''PadGroup'', TPtr ZwpTabletPadGroupV2)]"

definition ZwpTabletPadV2PathEvent :: fields where
  "ZwpTabletPadV2PathEvent =
     [(''Path'', TString)]"

definition ZwpTabletPadV2ButtonsEvent :: fields where
  "ZwpTabletPadV2ButtonsEvent =
     [(''Buttons'', TUint)]"

definition ZwpTabletPadV2DoneEvent :: fields where
  "ZwpTabletPadV2DoneEvent =
     []"

definition ZwpTabletPadV2ButtonEvent :: fields where
  "ZwpTabletPadV2ButtonEvent =
     [(''Time'', TUint), (''Button'', TUint), (''State'', TUint)]"

definition ZwpTabletPadV2EnterEvent :: fields where
  "ZwpTabletPadV2EnterEvent =
     [(''Serial'', TUint), (''Tablet'', TPtr ZwpTabletV2), (''Surface'', TPtr Surface)]"

definition ZwpTabletPadV2LeaveEvent :: fields where
  "ZwpTabletPadV2LeaveEvent =
     [(''Serial'', TUint), (''Surface'', TPtr Surface)]"

definition ZwpTabletPadV2RemovedEvent :: fields where
  "ZwpTabletPadV2RemovedEvent =
     []"

definition ExtIdleNotificationV1IdledEvent :: fields where
  "ExtIdleNotificationV1IdledEvent =
     []"

definition ExtIdleNotificationV1ResumedEvent :: fields where
  "ExtIdleNotificationV1ResumedEvent =
     []"

definition ExtSessionLockV1LockedEvent :: fields where
  "ExtSessionLockV1LockedEvent =
     []"

definition ExtSessionLockV1FinishedEvent :: fields where
  "ExtSessionLockV1FinishedEvent =
     []"

definition ExtSessionLockSurfaceV1ConfigureEvent :: fields where
  "ExtSessionLockSurfaceV1ConfigureEvent =
     [(''Serial'', TUint), (''Width'', TUint), (''Height'', TUint)]"

definition ZwpTextInputV3EnterEvent :: fields where
  "ZwpTextInputV3EnterEvent =
     [(''Surface'', TPtr Surface)]"

definition ZwpTextInputV3LeaveEvent :: fields where
  "ZwpTextInputV3LeaveEvent =
     [(''Surface'', TPtr Surface)]"

definition ZwpTextInputV3PreeditStringEvent :: fields where
  "ZwpTextInputV3PreeditStringEvent =
     [(''Text'', TOptString), (''CursorBegin'', TInt), (''CursorEnd'', TInt)]"

definition ZwpTextInputV3CommitStringEvent :: fields where
  "ZwpTextInputV3CommitStringEvent =
     [(''Text'', TOptString)]"

definition ZwpTextInputV3DeleteSurroundingTextEvent :: fields where
  "ZwpTextInputV3DeleteSurroundingTextEvent =
     [(''BeforeLength'', TUint), (''AfterLength'', TUint)]"

definition ZwpTextInputV3DoneEvent :: fields where
  "ZwpTextInputV3DoneEvent =
     [(''Serial'', TUint)]"

text \<open>The struct a name denotes: a table in alphabetical order.\<close>

definition event_table :: "(string \<times> fields) list" where
  "event_table =
     [(''BufferReleaseEvent'', BufferReleaseEvent),
      (''CallbackDoneEvent'', CallbackDoneEvent),
      (''DataDeviceDataOfferEvent'', DataDeviceDataOfferEvent),
      (''DataDeviceDropEvent'', DataDeviceDropEvent),
      (''DataDeviceEnterEvent'', DataDeviceEnterEvent),
      (''DataDeviceLeaveEvent'', DataDeviceLeaveEvent),
      (''DataDeviceMotionEvent'', DataDeviceMotionEvent),
      (''DataDeviceSelectionEvent'', DataDeviceSelectionEvent),
      (''DataOfferActionEvent'', DataOfferActionEvent),
      (''DataOfferOfferEvent'', DataOfferOfferEvent),
      (''DataOfferSourceActionsEvent'', DataOfferSourceActionsEvent),
      (''DataSourceActionEvent'', DataSourceActionEvent),
      (''DataSourceCancelledEvent'', DataSourceCancelledEvent),
      (''DataSourceDndDropPerformedEvent'', DataSourceDndDropPerformedEvent),
      (''DataSourceDndFinishedEvent'', DataSourceDndFinishedEvent),
      (''DataSourceSendEvent'', DataSourceSendEvent),
      (''DataSourceTargetEvent'', DataSourceTargetEvent),
      (''DisplayDeleteIdEvent'', DisplayDeleteIdEvent),
      (''DisplayErrorEvent'', DisplayErrorEvent),
      (''ExtIdleNotificationV1IdledEvent'', ExtIdleNotificationV1IdledEvent),
      (''ExtIdleNotificationV1ResumedEvent'', ExtIdleNotificationV1ResumedEvent),
      (''ExtSessionLockSurfaceV1ConfigureEvent'', ExtSessionLockSurfaceV1ConfigureEvent),
      (''ExtSessionLockV1FinishedEvent'', ExtSessionLockV1FinishedEvent),
      (''ExtSessionLockV1LockedEvent'', ExtSessionLockV1LockedEvent),
      (''KeyboardEnterEvent'', KeyboardEnterEvent),
      (''KeyboardKeyEvent'', KeyboardKeyEvent),
      (''KeyboardKeymapEvent'', KeyboardKeymapEvent),
      (''KeyboardLeaveEvent'', KeyboardLeaveEvent),
      (''KeyboardModifiersEvent'', KeyboardModifiersEvent),
      (''KeyboardRepeatInfoEvent'', KeyboardRepeatInfoEvent),
      (''OutputDescriptionEvent'', OutputDescriptionEvent),
      (''OutputDoneEvent'', OutputDoneEvent),
      (''OutputGeometryEvent'', OutputGeometryEvent),
      (''OutputModeEvent'', OutputModeEvent),
      (''OutputNameEvent'', OutputNameEvent),
      (''OutputScaleEvent'', OutputScaleEvent),
      (''PointerAxisDiscreteEvent'', PointerAxisDiscreteEvent),
      (''PointerAxisEvent'', PointerAxisEvent),
      (''PointerAxisRelativeDirectionEvent'', PointerAxisRelativeDirectionEvent),
      (''PointerAxisSourceEvent'', PointerAxisSourceEvent),
      (''PointerAxisStopEvent'', PointerAxisStopEvent),
      (''PointerAxisValue120Event'', PointerAxisValue120Event),
      (''PointerButtonEvent'', PointerButtonEvent),
      (''PointerEnterEvent'', PointerEnterEvent),
      (''PointerFrameEvent'', PointerFrameEvent),
      (''PointerLeaveEvent'', PointerLeaveEvent),
      (''PointerMotionEvent'', PointerMotionEvent),
      (''RegistryGlobalEvent'', RegistryGlobalEvent),
      (''RegistryGlobalRemoveEvent'', RegistryGlobalRemoveEvent),
      (''SeatCapabilitiesEvent'', SeatCapabilitiesEvent),
      (''SeatNameEvent'', SeatNameEvent),
      (''ShellSurfaceConfigureEvent'', ShellSurfaceConfigureEvent),
      (''ShellSurfacePingEvent'', ShellSurfacePingEvent),
      (''ShellSurfacePopupDoneEvent'', ShellSurfacePopupDoneEvent),
      (''ShmFormatEvent'', ShmFormatEvent),
      (''SurfaceEnterEvent'', SurfaceEnterEvent),
      (''SurfaceLeaveEvent'', SurfaceLeaveEvent),
      (''SurfacePreferredBufferScaleEvent'', SurfacePreferredBufferScaleEvent),
      (''SurfacePreferredBufferTransformEvent'', SurfacePreferredBufferTransformEvent),
      (''TouchCancelEvent'', TouchCancelEvent),
      (''TouchDownEvent'', TouchDownEvent),
      (''TouchFrameEvent'', TouchFrameEvent),
      (''TouchMotionEvent'', TouchMotionEvent),
      (''TouchOrientationEvent'', TouchOrientationEvent),
      (''TouchShapeEvent'', TouchShapeEvent),
      (''TouchUpEvent'', TouchUpEvent),
      (''ZwpTabletPadGroupV2ButtonsEvent'', ZwpTabletPadGroupV2ButtonsEvent),
      (''ZwpTabletPadGroupV2DoneEvent'', ZwpTabletPadGroupV2DoneEvent),
      (''ZwpTabletPadGroupV2ModeSwitchEvent'', ZwpTabletPadGroupV2ModeSwitchEvent),
      (''ZwpTabletPadGroupV2ModesEvent'', ZwpTabletPadGroupV2ModesEvent),
      (''ZwpTabletPadGroupV2RingEvent'', ZwpTabletPadGroupV2RingEvent),
      (''ZwpTabletPadGroupV2StripEvent'', ZwpTabletPadGroupV2StripEvent),
      (''ZwpTabletPadRingV2AngleEvent'', ZwpTabletPadRingV2AngleEvent),
      (''ZwpTabletPadRingV2FrameEvent'', ZwpTabletPadRingV2FrameEvent),
      (''ZwpTabletPadRingV2SourceEvent'', ZwpTabletPadRingV2SourceEvent),
      (''ZwpTabletPadRingV2StopEvent'', ZwpTabletPadRingV2StopEvent),
      (''ZwpTabletPadStripV2FrameEvent'', ZwpTabletPadStripV2FrameEvent),
      (''ZwpTabletPadStripV2PositionEvent'', ZwpTabletPadStripV2PositionEvent),
      (''ZwpTabletPadStripV2SourceEvent'', ZwpTabletPadStripV2SourceEvent),
      (''ZwpTabletPadStripV2StopEvent'', ZwpTabletPadStripV2StopEvent),
      (''ZwpTabletPadV2ButtonEvent'', ZwpTabletPadV2ButtonEvent),
      (''ZwpTabletPadV2ButtonsEvent'', ZwpTabletPadV2ButtonsEvent),
      (''ZwpTabletPadV2DoneEvent'', ZwpTabletPadV2DoneEvent),
      (''ZwpTabletPadV2EnterEvent'', ZwpTabletPadV2EnterEvent),
      (''ZwpTabletPadV2GroupEvent'', ZwpTabletPadV2GroupEvent),
      (''ZwpTabletPadV2LeaveEvent'', ZwpTabletPadV2LeaveEvent),
      (''ZwpTabletPadV2PathEvent'', ZwpTabletPadV2PathEvent),
      (''ZwpTabletPadV2RemovedEvent'', ZwpTabletPadV2RemovedEvent),
      (''ZwpTabletSeatV2PadAddedEvent'', ZwpTabletSeatV2PadAddedEvent),
      (''ZwpTabletSeatV2TabletAddedEvent'', ZwpTabletSeatV2TabletAddedEvent),
      (''ZwpTabletSeatV2ToolAddedEvent'', ZwpTabletSeatV2ToolAddedEvent),
      (''ZwpTabletToolV2ButtonEvent'', ZwpTabletToolV2ButtonEvent),
      (''ZwpTabletToolV2CapabilityEvent'', ZwpTabletToolV2CapabilityEvent),
      (''ZwpTabletToolV2DistanceEvent'', ZwpTabletToolV2DistanceEvent),
      (''ZwpTabletToolV2DoneEvent'', ZwpTabletToolV2DoneEvent),
      (''ZwpTabletToolV2DownEvent'', ZwpTabletToolV2DownEvent),
      (''ZwpTabletToolV2FrameEvent'', ZwpTabletToolV2FrameEvent),
      (''ZwpTabletToolV2HardwareIdWacomEvent'', ZwpTabletToolV2HardwareIdWacomEvent),
      (''ZwpTabletToolV2HardwareSerialEvent'', ZwpTabletToolV2HardwareSerialEvent),
      (''ZwpTabletToolV2MotionEvent'', ZwpTabletToolV2MotionEvent),
      (''ZwpTabletToolV2PressureEvent'', ZwpTabletToolV2PressureEvent),
      (''ZwpTabletToolV2ProximityInEvent'', ZwpTabletToolV2ProximityInEvent),
      (''ZwpTabletToolV2ProximityOutEvent'', ZwpTabletToolV2ProximityOutEvent),
      (''ZwpTabletToolV2RemovedEvent'', ZwpTabletToolV2RemovedEvent),
      (''ZwpTabletToolV2RotationEvent'', ZwpTabletToolV2RotationEvent),
      (''ZwpTabletToolV2SliderEvent'', ZwpTabletToolV2SliderEvent),
      (''ZwpTabletToolV2TiltEvent'', ZwpTabletToolV2TiltEvent),
      (''ZwpTabletToolV2TypeEvent'', ZwpTabletToolV2TypeEvent),
      (''ZwpTabletToolV2UpEvent'', ZwpTabletToolV2UpEvent),
      (''ZwpTabletToolV2WheelEvent'', ZwpTabletToolV2WheelEvent),
      (''ZwpTabletV2DoneEvent'', ZwpTabletV2DoneEvent),
      (''ZwpTabletV2IdEvent'', ZwpTabletV2IdEvent),
      (''ZwpTabletV2NameEvent'', ZwpTabletV2NameEvent),
      (''ZwpTabletV2PathEvent'', ZwpTabletV2PathEvent),
      (''ZwpTabletV2RemovedEvent'', ZwpTabletV2RemovedEvent),
      (''ZwpTextInputV3CommitStringEvent'', ZwpTextInputV3CommitStringEvent),
      (''ZwpTextInputV3DeleteSurroundingTextEvent'', ZwpTextInputV3DeleteSurroundingTextEvent),
      (''ZwpTextInputV3DoneEvent'', ZwpTextInputV3DoneEvent),
      (''ZwpTextInputV3EnterEvent'', ZwpTextInputV3EnterEvent),
      (''ZwpTextInputV3LeaveEvent'', ZwpTextInputV3LeaveEvent),
      (''ZwpTextInputV3PreeditStringEvent'', ZwpTextInputV3PreeditStringEvent)]"

definition event_struct :: "string \<Rightarrow> fields option" where
  "event_struct = map_of event_table"

lemma event_table_names:
  "map fst event_table =
     [''BufferReleaseEvent'',
      ''CallbackDoneEvent'',
      ''DataDeviceDataOfferEvent'',
      ''DataDeviceDropEvent'',
      ''DataDeviceEnterEvent'',
      ''DataDeviceLeaveEvent'',
      ''DataDeviceMotionEvent'',
      ''DataDeviceSelectionEvent'',
      ''DataOfferActionEvent'',
      ''DataOfferOfferEvent'',
      ''DataOfferSourceActionsEvent'',
      ''DataSourceActionEvent'',
      ''DataSourceCancelledEvent'',
      ''DataSourceDndDropPerformedEvent'',
      ''DataSourceDndFinishedEvent'',
      ''DataSourceSendEvent'',
      ''DataSourceTargetEvent'',
      ''DisplayDeleteIdEvent'',
      ''DisplayErrorEvent'',
      ''ExtIdleNotificationV1IdledEvent'',
      ''ExtIdleNotificationV1ResumedEvent'',
      ''ExtSessionLockSurfaceV1ConfigureEvent'',
      ''ExtSessionLockV1FinishedEvent'',
      ''ExtSessionLockV1LockedEvent'',
      ''KeyboardEnterEvent'',
      ''KeyboardKeyEvent'',
      ''KeyboardKeymapEvent'',
      ''KeyboardLeaveEvent'',
      ''KeyboardModifiersEvent'',
      ''KeyboardRepeatInfoEvent'',
      ''OutputDescriptionEvent'',
      ''OutputDoneEvent'',
      ''OutputGeometryEvent'',
      ''OutputModeEvent'',
      ''OutputNameEvent'',
      ''OutputScaleEvent'',
      ''PointerAxisDiscreteEvent'',
      ''PointerAxisEvent'',
      ''PointerAxisRelativeDirectionEvent'',
      ''PointerAxisSourceEvent'',
      ''PointerAxisStopEvent'',
      ''PointerAxisValue120Event'',
      ''PointerButtonEvent'',
      ''PointerEnterEvent'',
      ''PointerFrameEvent'',
      ''PointerLeaveEvent'',
      ''PointerMotionEvent'',
      ''RegistryGlobalEvent'',
      ''RegistryGlobalRemoveEvent'',
      ''SeatCapabilitiesEvent'',
      ''SeatNameEvent'',
      ''ShellSurfaceConfigureEvent'',
      ''ShellSurfacePingEvent'',
      ''ShellSurfacePopupDoneEvent'',
      ''ShmFormatEvent'',
      ''SurfaceEnterEvent'',
      ''SurfaceLeaveEvent'',
      ''SurfacePreferredBufferScaleEvent'',
      ''SurfacePreferredBufferTransformEvent'',
      ''TouchCancelEvent'',
      ''TouchDownEvent'',
      ''TouchFrameEvent'',
      ''TouchMotionEvent'',
      ''TouchOrientationEvent'',
      ''TouchShapeEvent'',
      ''TouchUpEvent'',
      ''ZwpTabletPadGroupV2ButtonsEvent'',
      ''ZwpTabletPadGroupV2DoneEvent'',
      ''ZwpTabletPadGroupV2ModeSwitchEvent'',
      ''ZwpTabletPadGroupV2ModesEvent'',
      ''ZwpTabletPadGroupV2RingEvent'',
      ''ZwpTabletPadGroupV2StripEvent'',
      ''ZwpTabletPadRingV2AngleEvent'',
      ''ZwpTabletPadRingV2FrameEvent'',
      ''ZwpTabletPadRingV2SourceEvent'',
      ''ZwpTabletPadRingV2StopEvent'',
      ''ZwpTabletPadStripV2FrameEvent'',
      ''ZwpTabletPadStripV2PositionEvent'',
      ''ZwpTabletPadStripV2SourceEvent'',
      ''ZwpTabletPadStripV2StopEvent'',
      ''ZwpTabletPadV2ButtonEvent'',
      ''ZwpTabletPadV2ButtonsEvent'',
      ''ZwpTabletPadV2DoneEvent'',
      ''ZwpTabletPadV2EnterEvent'',
      ''ZwpTabletPadV2GroupEvent'',
      ''ZwpTabletPadV2LeaveEvent'',
      ''ZwpTabletPadV2PathEvent'',
      ''ZwpTabletPadV2RemovedEvent'',
      ''ZwpTabletSeatV2PadAddedEvent'',
      ''ZwpTabletSeatV2TabletAddedEvent'',
      ''ZwpTabletSeatV2ToolAddedEvent'',
      ''ZwpTabletToolV2ButtonEvent'',
      ''ZwpTabletToolV2CapabilityEvent'',
      ''ZwpTabletToolV2DistanceEvent'',
      ''ZwpTabletToolV2DoneEvent'',
      ''ZwpTabletToolV2DownEvent'',
      ''ZwpTabletToolV2FrameEvent'',
      ''ZwpTabletToolV2HardwareIdWacomEvent'',
      ''ZwpTabletToolV2HardwareSerialEvent'',
      ''ZwpTabletToolV2MotionEvent'',
      ''ZwpTabletToolV2PressureEvent'',
      ''ZwpTabletToolV2ProximityInEvent'',
      ''ZwpTabletToolV2ProximityOutEvent'',
      ''ZwpTabletToolV2RemovedEvent'',
      ''ZwpTabletToolV2RotationEvent'',
      ''ZwpTabletToolV2SliderEvent'',
      ''ZwpTabletToolV2TiltEvent'',
      ''ZwpTabletToolV2TypeEvent'',
      ''ZwpTabletToolV2UpEvent'',
      ''ZwpTabletToolV2WheelEvent'',
      ''ZwpTabletV2DoneEvent'',
      ''ZwpTabletV2IdEvent'',
      ''ZwpTabletV2NameEvent'',
      ''ZwpTabletV2PathEvent'',
      ''ZwpTabletV2RemovedEvent'',
      ''ZwpTextInputV3CommitStringEvent'',
      ''ZwpTextInputV3DeleteSurroundingTextEvent'',
      ''ZwpTextInputV3DoneEvent'',
      ''ZwpTextInputV3EnterEvent'',
      ''ZwpTextInputV3LeaveEvent'',
      ''ZwpTextInputV3PreeditStringEvent'']"
  by (simp add: event_table_def)

lemma event_table_distinct: "distinct (map fst event_table)"
proof -
  have "successively (<) (map fst event_table)" unfolding event_table_names by code_simp
  then have "sorted_wrt (<) (map fst event_table)" by (simp add: successively_conv_sorted_wrt)
  then show ?thesis by (simp add: strict_sorted_iff)
qed

lemma event_structI: "(name, s) \<in> set event_table \<Longrightarrow> event_struct name = Some s"
  using event_table_distinct by (simp add: event_struct_def)

lemma event_structs_1:
  "event_struct ''DisplayErrorEvent'' = Some DisplayErrorEvent"
  "event_struct ''DisplayDeleteIdEvent'' = Some DisplayDeleteIdEvent"
  "event_struct ''RegistryGlobalEvent'' = Some RegistryGlobalEvent"
  "event_struct ''RegistryGlobalRemoveEvent'' = Some RegistryGlobalRemoveEvent"
  "event_struct ''CallbackDoneEvent'' = Some CallbackDoneEvent"
  "event_struct ''ShmFormatEvent'' = Some ShmFormatEvent"
  "event_struct ''BufferReleaseEvent'' = Some BufferReleaseEvent"
  "event_struct ''DataOfferOfferEvent'' = Some DataOfferOfferEvent"
  "event_struct ''DataOfferSourceActionsEvent'' = Some DataOfferSourceActionsEvent"
  "event_struct ''DataOfferActionEvent'' = Some DataOfferActionEvent"
  "event_struct ''DataSourceTargetEvent'' = Some DataSourceTargetEvent"
  "event_struct ''DataSourceSendEvent'' = Some DataSourceSendEvent"
  "event_struct ''DataSourceCancelledEvent'' = Some DataSourceCancelledEvent"
  "event_struct ''DataSourceDndDropPerformedEvent'' = Some DataSourceDndDropPerformedEvent"
  "event_struct ''DataSourceDndFinishedEvent'' = Some DataSourceDndFinishedEvent"
  "event_struct ''DataSourceActionEvent'' = Some DataSourceActionEvent"
  "event_struct ''DataDeviceDataOfferEvent'' = Some DataDeviceDataOfferEvent"
  "event_struct ''DataDeviceEnterEvent'' = Some DataDeviceEnterEvent"
  "event_struct ''DataDeviceLeaveEvent'' = Some DataDeviceLeaveEvent"
  "event_struct ''DataDeviceMotionEvent'' = Some DataDeviceMotionEvent"
  "event_struct ''DataDeviceDropEvent'' = Some DataDeviceDropEvent"
  "event_struct ''DataDeviceSelectionEvent'' = Some DataDeviceSelectionEvent"
  "event_struct ''ShellSurfacePingEvent'' = Some ShellSurfacePingEvent"
  "event_struct ''ShellSurfaceConfigureEvent'' = Some ShellSurfaceConfigureEvent"
  "event_struct ''ShellSurfacePopupDoneEvent'' = Some ShellSurfacePopupDoneEvent"
  by (rule event_structI, simp only: event_table_def list.set insert_iff simp_thms)+

lemma event_structs_2:
  "event_struct ''SurfaceEnterEvent'' = Some SurfaceEnterEvent"
  "event_struct ''SurfaceLeaveEvent'' = Some SurfaceLeaveEvent"
  "event_struct ''SurfacePreferredBufferScaleEvent'' = Some SurfacePreferredBufferScaleEvent"
  "event_struct ''SurfacePreferredBufferTransformEvent'' = Some SurfacePreferredBufferTransformEvent"
  "event_struct ''SeatCapabilitiesEvent'' = Some SeatCapabilitiesEvent"
  "event_struct ''SeatNameEvent'' = Some SeatNameEvent"
  "event_struct ''PointerEnterEvent'' = Some PointerEnterEvent"
  "event_struct ''PointerLeaveEvent'' = Some PointerLeaveEvent"
  "event_struct ''PointerMotionEvent'' = Some PointerMotionEvent"
  "event_struct ''PointerButtonEvent'' = Some PointerButtonEvent"
  "event_struct ''PointerAxisEvent'' = Some PointerAxisEvent"
  "event_struct ''PointerFrameEvent'' = Some PointerFrameEvent"
  "event_struct ''PointerAxisSourceEvent'' = Some PointerAxisSourceEvent"
  "event_struct ''PointerAxisStopEvent'' = Some PointerAxisStopEvent"
  "event_struct ''PointerAxisDiscreteEvent'' = Some PointerAxisDiscreteEvent"
  "event_struct ''PointerAxisValue120Event'' = Some PointerAxisValue120Event"
  "event_struct ''PointerAxisRelativeDirectionEvent'' = Some PointerAxisRelativeDirectionEvent"
  "event_struct ''KeyboardKeymapEvent'' = Some KeyboardKeymapEvent"
  "event_struct ''KeyboardEnterEvent'' = Some KeyboardEnterEvent"
  "event_struct ''KeyboardLeaveEvent'' = Some KeyboardLeaveEvent"
  "event_struct ''KeyboardKeyEvent'' = Some KeyboardKeyEvent"
  "event_struct ''KeyboardModifiersEvent'' = Some KeyboardModifiersEvent"
  "event_struct ''KeyboardRepeatInfoEvent'' = Some KeyboardRepeatInfoEvent"
  "event_struct ''TouchDownEvent'' = Some TouchDownEvent"
  "event_struct ''TouchUpEvent'' = Some TouchUpEvent"
  by (rule event_structI, simp only: event_table_def list.set insert_iff simp_thms)+

lemma event_structs_3:
  "event_struct ''TouchMotionEvent'' = Some TouchMotionEvent"
  "event_struct ''TouchFrameEvent'' = Some TouchFrameEvent"
  "event_struct ''TouchCancelEvent'' = Some TouchCancelEvent"
  "event_struct ''TouchShapeEvent'' = Some TouchShapeEvent"
  "event_struct ''TouchOrientationEvent'' = Some TouchOrientationEvent"
  "event_struct ''OutputGeometryEvent'' = Some OutputGeometryEvent"
  "event_struct ''OutputModeEvent'' = Some OutputModeEvent"
  "event_struct ''OutputDoneEvent'' = Some OutputDoneEvent"
  "event_struct ''OutputScaleEvent'' = Some OutputScaleEvent"
  "event_struct ''OutputNameEvent'' = Some OutputNameEvent"
  "event_struct ''OutputDescriptionEvent'' = Some OutputDescriptionEvent"
  "event_struct ''ZwpTabletSeatV2TabletAddedEvent'' = Some ZwpTabletSeatV2TabletAddedEvent"
  "event_struct ''ZwpTabletSeatV2ToolAddedEvent'' = Some ZwpTabletSeatV2ToolAddedEvent"
  "event_struct ''ZwpTabletSeatV2PadAddedEvent'' = Some ZwpTabletSeatV2PadAddedEvent"
  "event_struct ''ZwpTabletToolV2TypeEvent'' = Some ZwpTabletToolV2TypeEvent"
  "event_struct ''ZwpTabletToolV2HardwareSerialEvent'' = Some ZwpTabletToolV2HardwareSerialEvent"
  "event_struct ''ZwpTabletToolV2HardwareIdWacomEvent'' = Some ZwpTabletToolV2HardwareIdWacomEvent"
  "event_struct ''ZwpTabletToolV2CapabilityEvent'' = Some ZwpTabletToolV2CapabilityEvent"
  "event_struct ''ZwpTabletToolV2DoneEvent'' = Some ZwpTabletToolV2DoneEvent"
  "event_struct ''ZwpTabletToolV2RemovedEvent'' = Some ZwpTabletToolV2RemovedEvent"
  "event_struct ''ZwpTabletToolV2ProximityInEvent'' = Some ZwpTabletToolV2ProximityInEvent"
  "event_struct ''ZwpTabletToolV2ProximityOutEvent'' = Some ZwpTabletToolV2ProximityOutEvent"
  "event_struct ''ZwpTabletToolV2DownEvent'' = Some ZwpTabletToolV2DownEvent"
  "event_struct ''ZwpTabletToolV2UpEvent'' = Some ZwpTabletToolV2UpEvent"
  "event_struct ''ZwpTabletToolV2MotionEvent'' = Some ZwpTabletToolV2MotionEvent"
  by (rule event_structI, simp only: event_table_def list.set insert_iff simp_thms)+

lemma event_structs_4:
  "event_struct ''ZwpTabletToolV2PressureEvent'' = Some ZwpTabletToolV2PressureEvent"
  "event_struct ''ZwpTabletToolV2DistanceEvent'' = Some ZwpTabletToolV2DistanceEvent"
  "event_struct ''ZwpTabletToolV2TiltEvent'' = Some ZwpTabletToolV2TiltEvent"
  "event_struct ''ZwpTabletToolV2RotationEvent'' = Some ZwpTabletToolV2RotationEvent"
  "event_struct ''ZwpTabletToolV2SliderEvent'' = Some ZwpTabletToolV2SliderEvent"
  "event_struct ''ZwpTabletToolV2WheelEvent'' = Some ZwpTabletToolV2WheelEvent"
  "event_struct ''ZwpTabletToolV2ButtonEvent'' = Some ZwpTabletToolV2ButtonEvent"
  "event_struct ''ZwpTabletToolV2FrameEvent'' = Some ZwpTabletToolV2FrameEvent"
  "event_struct ''ZwpTabletV2NameEvent'' = Some ZwpTabletV2NameEvent"
  "event_struct ''ZwpTabletV2IdEvent'' = Some ZwpTabletV2IdEvent"
  "event_struct ''ZwpTabletV2PathEvent'' = Some ZwpTabletV2PathEvent"
  "event_struct ''ZwpTabletV2DoneEvent'' = Some ZwpTabletV2DoneEvent"
  "event_struct ''ZwpTabletV2RemovedEvent'' = Some ZwpTabletV2RemovedEvent"
  "event_struct ''ZwpTabletPadRingV2SourceEvent'' = Some ZwpTabletPadRingV2SourceEvent"
  "event_struct ''ZwpTabletPadRingV2AngleEvent'' = Some ZwpTabletPadRingV2AngleEvent"
  "event_struct ''ZwpTabletPadRingV2StopEvent'' = Some ZwpTabletPadRingV2StopEvent"
  "event_struct ''ZwpTabletPadRingV2FrameEvent'' = Some ZwpTabletPadRingV2FrameEvent"
  "event_struct ''ZwpTabletPadStripV2SourceEvent'' = Some ZwpTabletPadStripV2SourceEvent"
  "event_struct ''ZwpTabletPadStripV2PositionEvent'' = Some ZwpTabletPadStripV2PositionEvent"
  "event_struct ''ZwpTabletPadStripV2StopEvent'' = Some ZwpTabletPadStripV2StopEvent"
  "event_struct ''ZwpTabletPadStripV2FrameEvent'' = Some ZwpTabletPadStripV2FrameEvent"
  "event_struct ''ZwpTabletPadGroupV2ButtonsEvent'' = Some ZwpTabletPadGroupV2ButtonsEvent"
  "event_struct ''ZwpTabletPadGroupV2RingEvent'' = Some ZwpTabletPadGroupV2RingEvent"
  "event_struct ''ZwpTabletPadGroupV2StripEvent'' = Some ZwpTabletPadGroupV2StripEvent"
  "event_struct ''ZwpTabletPadGroupV2ModesEvent'' = Some ZwpTabletPadGroupV2ModesEvent"
  by (rule event_structI, simp only: event_table_def list.set insert_iff simp_thms)+

lemma event_structs_5:
  "event_struct ''ZwpTabletPadGroupV2DoneEvent'' = Some ZwpTabletPadGroupV2DoneEvent"
  "event_struct ''ZwpTabletPadGroupV2ModeSwitchEvent'' = Some ZwpTabletPadGroupV2ModeSwitchEvent"
  "event_struct ''ZwpTabletPadV2GroupEvent'' = Some ZwpTabletPadV2GroupEvent"
  "event_struct ''ZwpTabletPadV2PathEvent'' = Some ZwpTabletPadV2PathEvent"
  "event_struct ''ZwpTabletPadV2ButtonsEvent'' = Some ZwpTabletPadV2ButtonsEvent"
  "event_struct ''ZwpTabletPadV2DoneEvent'' = Some ZwpTabletPadV2DoneEvent"
  "event_struct ''ZwpTabletPadV2ButtonEvent'' = Some ZwpTabletPadV2ButtonEvent"
  "event_struct ''ZwpTabletPadV2EnterEvent'' = Some ZwpTabletPadV2EnterEvent"
  "event_struct ''ZwpTabletPadV2LeaveEvent'' = Some ZwpTabletPadV2LeaveEvent"
  "event_struct ''ZwpTabletPadV2RemovedEvent'' = Some ZwpTabletPadV2RemovedEvent"
  "event_struct ''ExtIdleNotificationV1IdledEvent'' = Some ExtIdleNotificationV1IdledEvent"
  "event_struct ''ExtIdleNotificationV1ResumedEvent'' = Some ExtIdleNotificationV1ResumedEvent"
  "event_struct ''ExtSessionLockV1LockedEvent'' = Some ExtSessionLockV1LockedEvent"
  "event_struct ''ExtSessionLockV1FinishedEvent'' = Some ExtSessionLockV1FinishedEvent"
  "event_struct ''ExtSessionLockSurfaceV1ConfigureEvent'' = Some ExtSessionLockSurfaceV1ConfigureEvent"
  "event_struct ''ZwpTextInputV3EnterEvent'' = Some ZwpTextInputV3EnterEvent"
  "event_struct ''ZwpTextInputV3LeaveEvent'' = Some ZwpTextInputV3LeaveEvent"
  "event_struct ''ZwpTextInputV3PreeditStringEvent'' = Some ZwpTextInputV3PreeditStringEvent"
  "event_struct ''ZwpTextInputV3CommitStringEvent'' = Some ZwpTextInputV3CommitStringEvent"
  "event_struct ''ZwpTextInputV3DeleteSurroundingTextEvent'' = Some ZwpTextInputV3DeleteSurroundingTextEvent"
  "event_struct ''ZwpTextInputV3DoneEvent'' = Some ZwpTextInputV3DoneEvent"
  by (rule event_structI, simp only: event_table_def list.set insert_iff simp_thms)+

lemmas event_structs = event_structs_1 event_structs_2 event_structs_3 event_structs_4 event_structs_5

lemmas struct_defs =
  DisplayErrorEvent_def DisplayDeleteIdEvent_def RegistryGlobalEvent_def RegistryGlobalRemoveEvent_def CallbackDoneEvent_def
  ShmFormatEvent_def BufferReleaseEvent_def DataOfferOfferEvent_def DataOfferSourceActionsEvent_def DataOfferActionEvent_def
  DataSourceTargetEvent_def DataSourceSendEvent_def DataSourceCancelledEvent_def DataSourceDndDropPerformedEvent_def DataSourceDndFinishedEvent_def
  DataSourceActionEvent_def DataDeviceDataOfferEvent_def DataDeviceEnterEvent_def DataDeviceLeaveEvent_def DataDeviceMotionEvent_def
  DataDeviceDropEvent_def DataDeviceSelectionEvent_def ShellSurfacePingEvent_def ShellSurfaceConfigureEvent_def ShellSurfacePopupDoneEvent_def
  SurfaceEnterEvent_def SurfaceLeaveEvent_def SurfacePreferredBufferScaleEvent_def SurfacePreferredBufferTransformEvent_def SeatCapabilitiesEvent_def
  SeatNameEvent_def PointerEnterEvent_def PointerLeaveEvent_def PointerMotionEvent_def PointerButtonEvent_def
  PointerAxisEvent_def PointerFrameEvent_def PointerAxisSourceEvent_def PointerAxisStopEvent_def PointerAxisDiscreteEvent_def
  PointerAxisValue120Event_def PointerAxisRelativeDirectionEvent_def KeyboardKeymapEvent_def KeyboardEnterEvent_def KeyboardLeaveEvent_def
  KeyboardKeyEvent_def KeyboardModifiersEvent_def KeyboardRepeatInfoEvent_def TouchDownEvent_def TouchUpEvent_def
  TouchMotionEvent_def TouchFrameEvent_def TouchCancelEvent_def TouchShapeEvent_def TouchOrientationEvent_def
  OutputGeometryEvent_def OutputModeEvent_def OutputDoneEvent_def OutputScaleEvent_def OutputNameEvent_def
  OutputDescriptionEvent_def ZwpTabletSeatV2TabletAddedEvent_def ZwpTabletSeatV2ToolAddedEvent_def ZwpTabletSeatV2PadAddedEvent_def ZwpTabletToolV2TypeEvent_def
  ZwpTabletToolV2HardwareSerialEvent_def ZwpTabletToolV2HardwareIdWacomEvent_def ZwpTabletToolV2CapabilityEvent_def ZwpTabletToolV2DoneEvent_def ZwpTabletToolV2RemovedEvent_def
  ZwpTabletToolV2ProximityInEvent_def ZwpTabletToolV2ProximityOutEvent_def ZwpTabletToolV2DownEvent_def ZwpTabletToolV2UpEvent_def ZwpTabletToolV2MotionEvent_def
  ZwpTabletToolV2PressureEvent_def ZwpTabletToolV2DistanceEvent_def ZwpTabletToolV2TiltEvent_def ZwpTabletToolV2RotationEvent_def ZwpTabletToolV2SliderEvent_def
  ZwpTabletToolV2WheelEvent_def ZwpTabletToolV2ButtonEvent_def ZwpTabletToolV2FrameEvent_def ZwpTabletV2NameEvent_def ZwpTabletV2IdEvent_def
  ZwpTabletV2PathEvent_def ZwpTabletV2DoneEvent_def ZwpTabletV2RemovedEvent_def ZwpTabletPadRingV2SourceEvent_def ZwpTabletPadRingV2AngleEvent_def
  ZwpTabletPadRingV2StopEvent_def ZwpTabletPadRingV2FrameEvent_def ZwpTabletPadStripV2SourceEvent_def ZwpTabletPadStripV2PositionEvent_def ZwpTabletPadStripV2StopEvent_def
  ZwpTabletPadStripV2FrameEvent_def ZwpTabletPadGroupV2ButtonsEvent_def ZwpTabletPadGroupV2RingEvent_def ZwpTabletPadGroupV2StripEvent_def ZwpTabletPadGroupV2ModesEvent_def
  ZwpTabletPadGroupV2DoneEvent_def ZwpTabletPadGroupV2ModeSwitchEvent_def ZwpTabletPadV2GroupEvent_def ZwpTabletPadV2PathEvent_def ZwpTabletPadV2ButtonsEvent_def
  ZwpTabletPadV2DoneEvent_def ZwpTabletPadV2ButtonEvent_def ZwpTabletPadV2EnterEvent_def ZwpTabletPadV2LeaveEvent_def ZwpTabletPadV2RemovedEvent_def
  ExtIdleNotificationV1IdledEvent_def ExtIdleNotificationV1ResumedEvent_def ExtSessionLockV1LockedEvent_def ExtSessionLockV1FinishedEvent_def ExtSessionLockSurfaceV1ConfigureEvent_def
  ZwpTextInputV3EnterEvent_def ZwpTextInputV3LeaveEvent_def ZwpTextInputV3PreeditStringEvent_def ZwpTextInputV3CommitStringEvent_def ZwpTextInputV3DeleteSurroundingTextEvent_def
  ZwpTextInputV3DoneEvent_def

section \<open>Proxy structs\<close>

text \<open>The handler fields after the embedded \<open>BaseProxy\<close>, each with the struct its function type takes.\<close>

definition Display_struct :: "(string \<times> string) list" where
  "Display_struct =
     [(''errorHandler'', ''DisplayErrorEvent''), (''deleteIdHandler'', ''DisplayDeleteIdEvent'')]"

definition Registry_struct :: "(string \<times> string) list" where
  "Registry_struct =
     [(''globalHandler'', ''RegistryGlobalEvent''), (''globalRemoveHandler'', ''RegistryGlobalRemoveEvent'')]"

definition Callback_struct :: "(string \<times> string) list" where
  "Callback_struct =
     [(''doneHandler'', ''CallbackDoneEvent'')]"

definition Compositor_struct :: "(string \<times> string) list" where
  "Compositor_struct =
     []"

definition ShmPool_struct :: "(string \<times> string) list" where
  "ShmPool_struct =
     []"

definition Shm_struct :: "(string \<times> string) list" where
  "Shm_struct =
     [(''formatHandler'', ''ShmFormatEvent'')]"

definition Buffer_struct :: "(string \<times> string) list" where
  "Buffer_struct =
     [(''releaseHandler'', ''BufferReleaseEvent'')]"

definition DataOffer_struct :: "(string \<times> string) list" where
  "DataOffer_struct =
     [(''offerHandler'', ''DataOfferOfferEvent''), (''sourceActionsHandler'', ''DataOfferSourceActionsEvent''),
      (''actionHandler'', ''DataOfferActionEvent'')]"

definition DataSource_struct :: "(string \<times> string) list" where
  "DataSource_struct =
     [(''targetHandler'', ''DataSourceTargetEvent''), (''sendHandler'', ''DataSourceSendEvent''),
      (''cancelledHandler'', ''DataSourceCancelledEvent''),
      (''dndDropPerformedHandler'', ''DataSourceDndDropPerformedEvent''),
      (''dndFinishedHandler'', ''DataSourceDndFinishedEvent''), (''actionHandler'', ''DataSourceActionEvent'')]"

definition DataDevice_struct :: "(string \<times> string) list" where
  "DataDevice_struct =
     [(''dataOfferHandler'', ''DataDeviceDataOfferEvent''), (''enterHandler'', ''DataDeviceEnterEvent''),
      (''leaveHandler'', ''DataDeviceLeaveEvent''), (''motionHandler'', ''DataDeviceMotionEvent''),
      (''dropHandler'', ''DataDeviceDropEvent''), (''selectionHandler'', ''DataDeviceSelectionEvent'')]"

definition DataDeviceManager_struct :: "(string \<times> string) list" where
  "DataDeviceManager_struct =
     []"

definition Shell_struct :: "(string \<times> string) list" where
  "Shell_struct =
     []"

definition ShellSurface_struct :: "(string \<times> string) list" where
  "ShellSurface_struct =
     [(''pingHandler'', ''ShellSurfacePingEvent''), (''configureHandler'', ''ShellSurfaceConfigureEvent''),
      (''popupDoneHandler'', ''ShellSurfacePopupDoneEvent'')]"

definition Surface_struct :: "(string \<times> string) list" where
  "Surface_struct =
     [(''enterHandler'', ''SurfaceEnterEvent''), (''leaveHandler'', ''SurfaceLeaveEvent''),
      (''preferredBufferScaleHandler'', ''SurfacePreferredBufferScaleEvent''),
      (''preferredBufferTransformHandler'', ''SurfacePreferredBufferTransformEvent'')]"

definition Seat_struct :: "(string \<times> string) list" where
  "Seat_struct =
     [(''capabilitiesHandler'', ''SeatCapabilitiesEvent''), (''nameHandler'', ''SeatNameEvent'')]"

definition Pointer_struct :: "(string \<times> string) list" where
  "Pointer_struct =
     [(''enterHandler'', ''PointerEnterEvent''), (''leaveHandler'', ''PointerLeaveEvent''),
      (''motionHandler'', ''PointerMotionEvent''), (''buttonHandler'', ''PointerButtonEvent''),
      (''axisHandler'', ''PointerAxisEvent''), (''frameHandler'', ''PointerFrameEvent''),
      (''axisSourceHandler'', ''PointerAxisSourceEvent''), (''axisStopHandler'', ''PointerAxisStopEvent''),
      (''axisDiscreteHandler'', ''PointerAxisDiscreteEvent''), (''axisValue120Handler'', ''PointerAxisValue120Event''),
      (''axisRelativeDirectionHandler'', ''PointerAxisRelativeDirectionEvent'')]"

definition Keyboard_struct :: "(string \<times> string) list" where
  "Keyboard_struct =
     [(''keymapHandler'', ''KeyboardKeymapEvent''), (''enterHandler'', ''KeyboardEnterEvent''),
      (''leaveHandler'', ''KeyboardLeaveEvent''), (''keyHandler'', ''KeyboardKeyEvent''),
      (''modifiersHandler'', ''KeyboardModifiersEvent''), (''repeatInfoHandler'', ''KeyboardRepeatInfoEvent'')]"

definition Touch_struct :: "(string \<times> string) list" where
  "Touch_struct =
     [(''downHandler'', ''TouchDownEvent''), (''upHandler'', ''TouchUpEvent''), (''motionHandler'', ''TouchMotionEvent''),
      (''frameHandler'', ''TouchFrameEvent''), (''cancelHandler'', ''TouchCancelEvent''),
      (''shapeHandler'', ''TouchShapeEvent''), (''orientationHandler'', ''TouchOrientationEvent'')]"

definition Output_struct :: "(string \<times> string) list" where
  "Output_struct =
     [(''geometryHandler'', ''OutputGeometryEvent''), (''modeHandler'', ''OutputModeEvent''),
      (''doneHandler'', ''OutputDoneEvent''), (''scaleHandler'', ''OutputScaleEvent''),
      (''nameHandler'', ''OutputNameEvent''), (''descriptionHandler'', ''OutputDescriptionEvent'')]"

definition Region_struct :: "(string \<times> string) list" where
  "Region_struct =
     []"

definition Subcompositor_struct :: "(string \<times> string) list" where
  "Subcompositor_struct =
     []"

definition Subsurface_struct :: "(string \<times> string) list" where
  "Subsurface_struct =
     []"

definition Fixes_struct :: "(string \<times> string) list" where
  "Fixes_struct =
     []"

definition WpCursorShapeManagerV1_struct :: "(string \<times> string) list" where
  "WpCursorShapeManagerV1_struct =
     []"

definition WpCursorShapeDeviceV1_struct :: "(string \<times> string) list" where
  "WpCursorShapeDeviceV1_struct =
     []"

definition ZwpTabletManagerV2_struct :: "(string \<times> string) list" where
  "ZwpTabletManagerV2_struct =
     []"

definition ZwpTabletSeatV2_struct :: "(string \<times> string) list" where
  "ZwpTabletSeatV2_struct =
     [(''tabletAddedHandler'', ''ZwpTabletSeatV2TabletAddedEvent''),
      (''toolAddedHandler'', ''ZwpTabletSeatV2ToolAddedEvent''), (''padAddedHandler'', ''ZwpTabletSeatV2PadAddedEvent'')]"

definition ZwpTabletToolV2_struct :: "(string \<times> string) list" where
  "ZwpTabletToolV2_struct =
     [(''typeHandler'', ''ZwpTabletToolV2TypeEvent''), (''hardwareSerialHandler'', ''ZwpTabletToolV2HardwareSerialEvent''),
      (''hardwareIdWacomHandler'', ''ZwpTabletToolV2HardwareIdWacomEvent''),
      (''capabilityHandler'', ''ZwpTabletToolV2CapabilityEvent''), (''doneHandler'', ''ZwpTabletToolV2DoneEvent''),
      (''removedHandler'', ''ZwpTabletToolV2RemovedEvent''), (''proximityInHandler'', ''ZwpTabletToolV2ProximityInEvent''),
      (''proximityOutHandler'', ''ZwpTabletToolV2ProximityOutEvent''), (''downHandler'', ''ZwpTabletToolV2DownEvent''),
      (''upHandler'', ''ZwpTabletToolV2UpEvent''), (''motionHandler'', ''ZwpTabletToolV2MotionEvent''),
      (''pressureHandler'', ''ZwpTabletToolV2PressureEvent''), (''distanceHandler'', ''ZwpTabletToolV2DistanceEvent''),
      (''tiltHandler'', ''ZwpTabletToolV2TiltEvent''), (''rotationHandler'', ''ZwpTabletToolV2RotationEvent''),
      (''sliderHandler'', ''ZwpTabletToolV2SliderEvent''), (''wheelHandler'', ''ZwpTabletToolV2WheelEvent''),
      (''buttonHandler'', ''ZwpTabletToolV2ButtonEvent''), (''frameHandler'', ''ZwpTabletToolV2FrameEvent'')]"

definition ZwpTabletV2_struct :: "(string \<times> string) list" where
  "ZwpTabletV2_struct =
     [(''nameHandler'', ''ZwpTabletV2NameEvent''), (''idHandler'', ''ZwpTabletV2IdEvent''),
      (''pathHandler'', ''ZwpTabletV2PathEvent''), (''doneHandler'', ''ZwpTabletV2DoneEvent''),
      (''removedHandler'', ''ZwpTabletV2RemovedEvent'')]"

definition ZwpTabletPadRingV2_struct :: "(string \<times> string) list" where
  "ZwpTabletPadRingV2_struct =
     [(''sourceHandler'', ''ZwpTabletPadRingV2SourceEvent''), (''angleHandler'', ''ZwpTabletPadRingV2AngleEvent''),
      (''stopHandler'', ''ZwpTabletPadRingV2StopEvent''), (''frameHandler'', ''ZwpTabletPadRingV2FrameEvent'')]"

definition ZwpTabletPadStripV2_struct :: "(string \<times> string) list" where
  "ZwpTabletPadStripV2_struct =
     [(''sourceHandler'', ''ZwpTabletPadStripV2SourceEvent''), (''positionHandler'', ''ZwpTabletPadStripV2PositionEvent''),
      (''stopHandler'', ''ZwpTabletPadStripV2StopEvent''), (''frameHandler'', ''ZwpTabletPadStripV2FrameEvent'')]"

definition ZwpTabletPadGroupV2_struct :: "(string \<times> string) list" where
  "ZwpTabletPadGroupV2_struct =
     [(''buttonsHandler'', ''ZwpTabletPadGroupV2ButtonsEvent''), (''ringHandler'', ''ZwpTabletPadGroupV2RingEvent''),
      (''stripHandler'', ''ZwpTabletPadGroupV2StripEvent''), (''modesHandler'', ''ZwpTabletPadGroupV2ModesEvent''),
      (''doneHandler'', ''ZwpTabletPadGroupV2DoneEvent''), (''modeSwitchHandler'', ''ZwpTabletPadGroupV2ModeSwitchEvent'')]"

definition ZwpTabletPadV2_struct :: "(string \<times> string) list" where
  "ZwpTabletPadV2_struct =
     [(''groupHandler'', ''ZwpTabletPadV2GroupEvent''), (''pathHandler'', ''ZwpTabletPadV2PathEvent''),
      (''buttonsHandler'', ''ZwpTabletPadV2ButtonsEvent''), (''doneHandler'', ''ZwpTabletPadV2DoneEvent''),
      (''buttonHandler'', ''ZwpTabletPadV2ButtonEvent''), (''enterHandler'', ''ZwpTabletPadV2EnterEvent''),
      (''leaveHandler'', ''ZwpTabletPadV2LeaveEvent''), (''removedHandler'', ''ZwpTabletPadV2RemovedEvent'')]"

definition ExtIdleNotifierV1_struct :: "(string \<times> string) list" where
  "ExtIdleNotifierV1_struct =
     []"

definition ExtIdleNotificationV1_struct :: "(string \<times> string) list" where
  "ExtIdleNotificationV1_struct =
     [(''idledHandler'', ''ExtIdleNotificationV1IdledEvent''), (''resumedHandler'', ''ExtIdleNotificationV1ResumedEvent'')]"

definition ExtSessionLockManagerV1_struct :: "(string \<times> string) list" where
  "ExtSessionLockManagerV1_struct =
     []"

definition ExtSessionLockV1_struct :: "(string \<times> string) list" where
  "ExtSessionLockV1_struct =
     [(''lockedHandler'', ''ExtSessionLockV1LockedEvent''), (''finishedHandler'', ''ExtSessionLockV1FinishedEvent'')]"

definition ExtSessionLockSurfaceV1_struct :: "(string \<times> string) list" where
  "ExtSessionLockSurfaceV1_struct =
     [(''configureHandler'', ''ExtSessionLockSurfaceV1ConfigureEvent'')]"

definition ZwpTextInputV3_struct :: "(string \<times> string) list" where
  "ZwpTextInputV3_struct =
     [(''enterHandler'', ''ZwpTextInputV3EnterEvent''), (''leaveHandler'', ''ZwpTextInputV3LeaveEvent''),
      (''preeditStringHandler'', ''ZwpTextInputV3PreeditStringEvent''),
      (''commitStringHandler'', ''ZwpTextInputV3CommitStringEvent''),
      (''deleteSurroundingTextHandler'', ''ZwpTextInputV3DeleteSurroundingTextEvent''),
      (''doneHandler'', ''ZwpTextInputV3DoneEvent'')]"

definition ZwpTextInputManagerV3_struct :: "(string \<times> string) list" where
  "ZwpTextInputManagerV3_struct =
     []"

section \<open>Interface names\<close>

definition DisplayInterfaceName :: string where
  "DisplayInterfaceName = ''wl_display''"

definition RegistryInterfaceName :: string where
  "RegistryInterfaceName = ''wl_registry''"

definition CallbackInterfaceName :: string where
  "CallbackInterfaceName = ''wl_callback''"

definition CompositorInterfaceName :: string where
  "CompositorInterfaceName = ''wl_compositor''"

definition ShmPoolInterfaceName :: string where
  "ShmPoolInterfaceName = ''wl_shm_pool''"

definition ShmInterfaceName :: string where
  "ShmInterfaceName = ''wl_shm''"

definition BufferInterfaceName :: string where
  "BufferInterfaceName = ''wl_buffer''"

definition DataOfferInterfaceName :: string where
  "DataOfferInterfaceName = ''wl_data_offer''"

definition DataSourceInterfaceName :: string where
  "DataSourceInterfaceName = ''wl_data_source''"

definition DataDeviceInterfaceName :: string where
  "DataDeviceInterfaceName = ''wl_data_device''"

definition DataDeviceManagerInterfaceName :: string where
  "DataDeviceManagerInterfaceName = ''wl_data_device_manager''"

definition ShellInterfaceName :: string where
  "ShellInterfaceName = ''wl_shell''"

definition ShellSurfaceInterfaceName :: string where
  "ShellSurfaceInterfaceName = ''wl_shell_surface''"

definition SurfaceInterfaceName :: string where
  "SurfaceInterfaceName = ''wl_surface''"

definition SeatInterfaceName :: string where
  "SeatInterfaceName = ''wl_seat''"

definition PointerInterfaceName :: string where
  "PointerInterfaceName = ''wl_pointer''"

definition KeyboardInterfaceName :: string where
  "KeyboardInterfaceName = ''wl_keyboard''"

definition TouchInterfaceName :: string where
  "TouchInterfaceName = ''wl_touch''"

definition OutputInterfaceName :: string where
  "OutputInterfaceName = ''wl_output''"

definition RegionInterfaceName :: string where
  "RegionInterfaceName = ''wl_region''"

definition SubcompositorInterfaceName :: string where
  "SubcompositorInterfaceName = ''wl_subcompositor''"

definition SubsurfaceInterfaceName :: string where
  "SubsurfaceInterfaceName = ''wl_subsurface''"

definition FixesInterfaceName :: string where
  "FixesInterfaceName = ''wl_fixes''"

definition WpCursorShapeManagerV1InterfaceName :: string where
  "WpCursorShapeManagerV1InterfaceName = ''wp_cursor_shape_manager_v1''"

definition WpCursorShapeDeviceV1InterfaceName :: string where
  "WpCursorShapeDeviceV1InterfaceName = ''wp_cursor_shape_device_v1''"

definition ZwpTabletManagerV2InterfaceName :: string where
  "ZwpTabletManagerV2InterfaceName = ''zwp_tablet_manager_v2''"

definition ZwpTabletSeatV2InterfaceName :: string where
  "ZwpTabletSeatV2InterfaceName = ''zwp_tablet_seat_v2''"

definition ZwpTabletToolV2InterfaceName :: string where
  "ZwpTabletToolV2InterfaceName = ''zwp_tablet_tool_v2''"

definition ZwpTabletV2InterfaceName :: string where
  "ZwpTabletV2InterfaceName = ''zwp_tablet_v2''"

definition ZwpTabletPadRingV2InterfaceName :: string where
  "ZwpTabletPadRingV2InterfaceName = ''zwp_tablet_pad_ring_v2''"

definition ZwpTabletPadStripV2InterfaceName :: string where
  "ZwpTabletPadStripV2InterfaceName = ''zwp_tablet_pad_strip_v2''"

definition ZwpTabletPadGroupV2InterfaceName :: string where
  "ZwpTabletPadGroupV2InterfaceName = ''zwp_tablet_pad_group_v2''"

definition ZwpTabletPadV2InterfaceName :: string where
  "ZwpTabletPadV2InterfaceName = ''zwp_tablet_pad_v2''"

definition ExtIdleNotifierV1InterfaceName :: string where
  "ExtIdleNotifierV1InterfaceName = ''ext_idle_notifier_v1''"

definition ExtIdleNotificationV1InterfaceName :: string where
  "ExtIdleNotificationV1InterfaceName = ''ext_idle_notification_v1''"

definition ExtSessionLockManagerV1InterfaceName :: string where
  "ExtSessionLockManagerV1InterfaceName = ''ext_session_lock_manager_v1''"

definition ExtSessionLockV1InterfaceName :: string where
  "ExtSessionLockV1InterfaceName = ''ext_session_lock_v1''"

definition ExtSessionLockSurfaceV1InterfaceName :: string where
  "ExtSessionLockSurfaceV1InterfaceName = ''ext_session_lock_surface_v1''"

definition ZwpTextInputV3InterfaceName :: string where
  "ZwpTextInputV3InterfaceName = ''zwp_text_input_v3''"

definition ZwpTextInputManagerV3InterfaceName :: string where
  "ZwpTextInputManagerV3InterfaceName = ''zwp_text_input_manager_v3''"

end
