(* ===== verification/Event_Typing.thy ===== *)
theory Event_Typing
  imports Bindings Event_Structs
begin

text \<open>
  The events that reach handlers are values of their declared structs: the right fields, in order, and in each a value of
  its Go type; a pointer field is nil or points to a proxy of the declared type. Go's compiler checks this of the generated code; the
  model, whose values carry no types, proves it. \<open>checked E\<close> is \<open>E\<close> with handlers that first test the struct they are given and
  panic on an ill-typed one; the client behaves the same on it.
\<close>

section \<open>Typing values\<close>

definition has_type :: "'k world \<Rightarrow> gval \<Rightarrow> gotype \<Rightarrow> bool" where
  "has_type w v t = (case v of
      VUint _ \<Rightarrow> t = TUint
    | VInt _ \<Rightarrow> t = TInt
    | VFixed _ \<Rightarrow> t = TFixed
    | VString _ \<Rightarrow> t = TString
    | VOptString _ \<Rightarrow> t = TOptString
    | VArray _ \<Rightarrow> t = TArray
    | VFd _ \<Rightarrow> t = TFd
    | VObj x \<Rightarrow> (case t of
        TProxy \<Rightarrow> (case x of None \<Rightarrow> True | Some r \<Rightarrow> heap w r \<noteq> None)
      | TPtr T \<Rightarrow> (case x of None \<Rightarrow> True | Some r \<Rightarrow> (case heap w r of None \<Rightarrow> False | Some p \<Rightarrow> px_type p = T))
      | _ \<Rightarrow> False))"

primrec fields_typed :: "'k world \<Rightarrow> (string \<times> gval) list \<Rightarrow> fields \<Rightarrow> bool" where
  "fields_typed w [] fs \<longleftrightarrow> fs = []"
| "fields_typed w (x # xs) fs \<longleftrightarrow>
     (case fs of [] \<Rightarrow> False | f # fs \<Rightarrow> fst x = fst f \<and> has_type w (snd x) (snd f) \<and> fields_typed w xs fs)"

definition well_typed_event :: "'k world \<Rightarrow> ev \<Rightarrow> bool" where
  "well_typed_event w e = (case e of Ev name vs \<Rightarrow>
     (case event_struct name of None \<Rightarrow> False | Some fs \<Rightarrow> fields_typed w vs fs))"

definition checked :: "'k env \<Rightarrow> 'k env" where
  "checked E = E\<lparr>handler := (\<lambda>n e w.
     if well_typed_event w e then handler E n e w else raise (PanicMsg ''ill-typed event'') w)\<rparr>"

section \<open>Proxies keep their type\<close>

definition same_types :: "'k world \<Rightarrow> 'k world \<Rightarrow> bool" where
  "same_types w w' \<longleftrightarrow> (\<forall>r p. heap w r = Some p \<longrightarrow> (\<exists>p'. heap w' r = Some p' \<and> px_type p' = px_type p))"

lemma same_types_refl [simp]: "same_types w w"
  by (simp add: same_types_def)

lemma same_types_trans [trans]: "same_types w w' \<Longrightarrow> same_types w' w'' \<Longrightarrow> same_types w w''"
  unfolding same_types_def by metis

lemma same_typesD: "same_types w w' \<Longrightarrow> heap w r = Some p \<Longrightarrow> \<exists>p'. heap w' r = Some p' \<and> px_type p' = px_type p"
  by (simp add: same_types_def)

lemma has_type_mono: "has_type w v t \<Longrightarrow> same_types w w' \<Longrightarrow> has_type w' v t"
  by (cases v; cases t) (auto simp: has_type_def split: option.splits dest: same_typesD)

lemma same_heap_types: "heap (w' :: 'k world) = heap (w :: 'k world) \<Longrightarrow> same_types w w'"
  by (simp add: same_types_def)

lemma same_heap_typed:
  assumes "heap (w' :: 'k world) = heap (w :: 'k world)"
  shows "has_type w' v t = has_type w v t" "fields_typed w' vs fs = fields_typed w vs fs"
    "well_typed_event w' e = well_typed_event w e"
proof -
  have "same_types w w'" "same_types w' w" using assms by (simp_all add: same_heap_types)
  then have v: "has_type w' v t = has_type w v t" for v t using has_type_mono by blast
  then show "has_type w' v t = has_type w v t" .
  have f: "fields_typed w' vs fs = fields_typed w vs fs" for vs fs
    by (induction vs arbitrary: fs) (simp_all add: v split: list.splits)
  then show "fields_typed w' vs fs = fields_typed w vs fs" .
  show "well_typed_event w' e = well_typed_event w e"
    by (simp add: well_typed_event_def f split: ev.splits option.splits)
qed

section \<open>Readers\<close>

text \<open>A reader of a type: what it returns has the type, and the proxies that were there keep theirs.\<close>

definition typed_reader :: "gotype \<Rightarrow> 'k reader \<Rightarrow> bool" where
  "typed_reader t rd \<longleftrightarrow> (\<forall>w l v l' w'. wf_world w \<longrightarrow> rd l w = (Inr (v, l'), w') \<longrightarrow>
     wf_world w' \<and> has_type w' v t \<and> same_types w w')"

lemma typed_readerI:
  "(\<And>w l v l' w'. wf_world w \<Longrightarrow> rd l w = (Inr (v, l'), w') \<Longrightarrow> wf_world w' \<and> has_type w' v t \<and> same_types w w') \<Longrightarrow>
   typed_reader t rd"
  by (auto simp: typed_reader_def)

lemma typed_plain [simp]:
  "typed_reader TUint (r_uint data)" "typed_reader TInt (r_int data)" "typed_reader TFixed (r_fixed data)"
  "typed_reader TString (r_string data)" "typed_reader TOptString (r_opt_string data)" "typed_reader TArray (r_array data)"
  "typed_reader TFd (r_fd fd)"
  by (auto intro!: typed_readerI simp: r_uint_def r_int_def r_fixed_def r_string_def r_opt_string_def r_array_def r_fd_def
      has_type_def bnd_Inr)

lemma Context_of_Inr: "Context_of i w = (Inr u, w') \<Longrightarrow> w' = w"
  by (auto simp: Context_of_def bnd_Inr deref_def split: option.splits if_splits)

lemma live_proxy_Inr:
  assumes "live_proxy i t n w = (Inr x, w')"
  shows "w' = w" "x = Some r \<Longrightarrow> \<exists>p. heap w r = Some p \<and> px_type p = t"
proof -
  have "bnd (GetProxy n) (\<lambda>x. case x of None \<Rightarrow> ret None
      | Some r \<Rightarrow> bnd (deref r) (\<lambda>p. if px_type p = t then bnd (IsZombie r) (\<lambda>z. ret (if z then None else Some r)) else ret None)) w =
      (Inr x, w')"
    using assms by (auto simp: live_proxy_def andthen_Inr dest!: Context_of_Inr)
  then show "w' = w" "x = Some r \<Longrightarrow> \<exists>p. heap w r = Some p \<and> px_type p = t"
    by (auto simp: bnd_Inr GetProxy_def lookupProxy_def deref_def IsZombie_def split: option.splits if_splits)
qed

lemma typed_r_obj [simp]: "typed_reader (TPtr t) (r_obj i data t)"
proof (rule typed_readerI)
  fix w :: "'a world" and l v l' w'
  assume wf: "wf_world w" and r: "r_obj i data t l w = (Inr (v, l'), w')"
  then obtain n x where x: "live_proxy i t n w = (Inr x, w')" "v = VObj x"
    by (auto simp: r_obj_def bnd_Inr)
  from live_proxy_Inr [OF x(1)] show "wf_world w' \<and> has_type w' v (TPtr t) \<and> same_types w w'"
    using wf x(2) by (auto simp: has_type_def split: option.splits)
qed

lemma NewWithID_typed:
  assumes wf: "wf_world w" and r: "NewWithID t n w = (Inr x, w')"
  shows "wf_world w' \<and> same_types w w' \<and> (\<exists>p. heap w' x = Some p \<and> px_type p = t)"
proof -
  have fresh: "heap w (next_ref w) = None" using wf by (auto simp: wf_world_def heap_ok_def)
  show ?thesis
  proof (cases rule: RegisterWithID_outcome [OF after_alloc_wf [OF wf] after_alloc_cell after_alloc_unregistered [OF wf], of n t])
    case (3 w1)
    then have "x = next_ref w" "w' = w1" using r 3 by (auto simp: NewWithID_alt andthen_Inr)
    then show ?thesis using 3 fresh
      by (auto simp: registered_as_def same_types_def after_alloc_def new_proxy_def)
  qed (use r in \<open>auto simp: NewWithID_alt andthen_Inr\<close>)
qed

lemma typed_r_new [simp]: "typed_reader (TPtr t) (r_new i data t)"
proof (rule typed_readerI)
  fix w :: "'a world" and l v l' w'
  assume wf: "wf_world w" and r: "r_new i data t l w = (Inr (v, l'), w')"
  then obtain n x w1 p where x: "live_proxy i t n w = (Inr x, w1)" and v: "v = VObj p"
    and p: "(case x of Some r \<Rightarrow> ret (Some r)
      | None \<Rightarrow> if n \<noteq> 0 then andthen (Context_of i) (bnd (NewWithID t n) (\<lambda>r. ret (Some r))) else ret None) w1 = (Inr p, w')"
    by (auto simp: r_new_def bnd_Inr)
  have "w1 = w" using live_proxy_Inr(1) [OF x] .
  show "wf_world w' \<and> has_type w' v (TPtr t) \<and> same_types w w'"
  proof (cases "\<exists>r. x = Some r")
    case True
    then show ?thesis using live_proxy_Inr [OF x] p v wf by (auto simp: has_type_def)
  next
    case False
    then consider "p = None" "w' = w" | y where "p = Some y" "NewWithID t n w = (Inr y, w')"
      using p \<open>w1 = w\<close> by (auto simp: andthen_Inr bnd_Inr dest: Context_of_Inr split: if_splits)
    then show ?thesis
    proof cases
      case (2 y)
      then show ?thesis using NewWithID_typed [OF wf 2(2)] v by (auto simp: has_type_def)
    qed (use wf v in \<open>simp add: has_type_def\<close>)
  qed
qed

primrec typed_args :: "(string \<times> 'k reader) list \<Rightarrow> fields \<Rightarrow> bool" where
  "typed_args [] fs \<longleftrightarrow> fs = []"
| "typed_args (a # as) fs \<longleftrightarrow>
     (case fs of [] \<Rightarrow> False | f # fs \<Rightarrow> fst a = fst f \<and> typed_reader (snd f) (snd a) \<and> typed_args as fs)"

lemma decode_typed:
  assumes "typed_args as fs" "wf_world w" "decode as l w = (Inr vs, w')"
  shows "fields_typed w' vs fs \<and> same_types w w'"
  using assms
proof (induction as arbitrary: fs w l vs)
  case (Cons a as)
  then obtain f gs where fs: "fs = f # gs" "fst a = fst f" "typed_reader (snd f) (snd a)" "typed_args as gs"
    by (auto split: list.splits)
  from Cons.prems(3) obtain v l1 w1 us where d: "snd a l w = (Inr (v, l1), w1)" "decode as l1 w1 = (Inr us, w')" "vs = (fst a, v) # us"
    by (auto simp: bnd_Inr)
  have v: "wf_world w1" "has_type w1 v (snd f)" "same_types w w1"
    using fs(3) Cons.prems(2) d(1) by (auto simp: typed_reader_def)
  from Cons.IH [OF fs(4) v(1) d(2)] show ?case
    using fs d(3) v has_type_mono same_types_trans by auto
qed simp

section \<open>Dispatchers\<close>

lemma call_handler_checked:
  assumes "well_typed_event w e"
  shows "call_handler (checked E) r name e w = call_handler E r name e w"
proof -
  have h: "run_handler (checked E) h e w1 = run_handler E h e w1" if "heap w1 = heap w" for h w1
    using assms same_heap_typed(3) [OF that] by (simp add: run_handler_def checked_def split: hid.splits)
  show ?thesis
    by (auto simp: call_handler_def handler_of_def bnd_def andthen_def deref_def log_effect_def h split: option.splits prod.splits sum.splits)
qed

definition typed_event :: "string \<Rightarrow> (string \<times> 'k reader) list \<Rightarrow> bool" where
  "typed_event name as \<longleftrightarrow> (case event_struct name of None \<Rightarrow> False | Some fs \<Rightarrow> typed_args as fs)"

lemma typed_event_values:
  "typed_event name as \<Longrightarrow> wf_world w \<Longrightarrow> decode as l w = (Inr vs, w') \<Longrightarrow> well_typed_event w' (Ev name vs)"
  by (auto simp: typed_event_def well_typed_event_def dest: decode_typed split: option.splits)

lemma handler_of_world: "handler_of i h w = (r, w') \<Longrightarrow> w' = w"
  by (auto simp: handler_of_def bnd_def deref_def split: option.splits)

lemma bnd_same: "(\<And>a w1. m w = (Inr a, w1) \<Longrightarrow> f a w1 = g a w1) \<Longrightarrow> bnd m f w = bnd m g w"
  by (auto simp: bnd_def split: prod.splits sum.splits)

lemma decoded_call_checked:
  "typed_event name as \<Longrightarrow> wf_world w \<Longrightarrow>
   bnd (decode as 0) (\<lambda>vs. call_handler (checked E) i h (Ev name vs)) w = bnd (decode as 0) (\<lambda>vs. call_handler E i h (Ev name vs)) w"
  by (rule bnd_same) (simp add: call_handler_checked typed_event_values)

lemma event_checked:
  assumes "typed_event name as" "wf_world w"
  shows "event (checked E) i h name as w = event E i h name as w"
    and "fd_event (checked E) i fd h name as w = fd_event E i fd h name as w"
    and "new_event (checked E) i h name as w = new_event E i h name as w"
proof -
  show "event (checked E) i h name as w = event E i h name as w"
    "fd_event (checked E) i fd h name as w = fd_event E i fd h name as w"
    unfolding event_def fd_event_def
    by (auto intro!: bnd_same dest!: handler_of_world simp: decoded_call_checked [OF assms] split: option.splits)
  show "new_event (checked E) i h name as w = new_event E i h name as w"
    unfolding new_event_def
  proof (intro bnd_same)
    fix vs w1 f w2
    assume d: "decode as 0 w = (Inr vs, w1)" and h: "handler_of i h w1 = (Inr f, w2)"
    then have "well_typed_event w2 (Ev name vs)"
      using handler_of_world [OF h] typed_event_values [OF assms d] by simp
    then show "(case f of None \<Rightarrow> ret () | Some x \<Rightarrow> call_handler (checked E) i h (Ev name vs)) w2 =
        (case f of None \<Rightarrow> ret () | Some x \<Rightarrow> call_handler E i h (Ev name vs)) w2"
      by (simp add: call_handler_checked split: option.splits)
  qed
qed

lemmas typed_simps = event_checked typed_event_def event_structs struct_defs

lemma Registry_checked: "wf_world w \<Longrightarrow> Registry_Dispatch (checked E) i opcode fd data w = Registry_Dispatch E i opcode fd data w"
  by (simp add: Registry_Dispatch_def typed_simps)

lemma Callback_checked: "wf_world w \<Longrightarrow> Callback_Dispatch (checked E) i opcode fd data w = Callback_Dispatch E i opcode fd data w"
  by (simp add: Callback_Dispatch_def typed_simps)

lemma Shm_checked: "wf_world w \<Longrightarrow> Shm_Dispatch (checked E) i opcode fd data w = Shm_Dispatch E i opcode fd data w"
  by (simp add: Shm_Dispatch_def typed_simps)

lemma Buffer_checked: "wf_world w \<Longrightarrow> Buffer_Dispatch (checked E) i opcode fd data w = Buffer_Dispatch E i opcode fd data w"
  by (simp add: Buffer_Dispatch_def typed_simps)

lemma DataOffer_checked: "wf_world w \<Longrightarrow> DataOffer_Dispatch (checked E) i opcode fd data w = DataOffer_Dispatch E i opcode fd data w"
  by (simp add: DataOffer_Dispatch_def typed_simps)

lemma DataSource_checked: "wf_world w \<Longrightarrow> DataSource_Dispatch (checked E) i opcode fd data w = DataSource_Dispatch E i opcode fd data w"
  by (simp add: DataSource_Dispatch_def typed_simps)

lemma DataDevice_checked: "wf_world w \<Longrightarrow> DataDevice_Dispatch (checked E) i opcode fd data w = DataDevice_Dispatch E i opcode fd data w"
  by (simp add: DataDevice_Dispatch_def typed_simps)

lemma ShellSurface_checked: "wf_world w \<Longrightarrow> ShellSurface_Dispatch (checked E) i opcode fd data w = ShellSurface_Dispatch E i opcode fd data w"
  by (simp add: ShellSurface_Dispatch_def typed_simps)

lemma Surface_checked: "wf_world w \<Longrightarrow> Surface_Dispatch (checked E) i opcode fd data w = Surface_Dispatch E i opcode fd data w"
  by (simp add: Surface_Dispatch_def typed_simps)

lemma Seat_checked: "wf_world w \<Longrightarrow> Seat_Dispatch (checked E) i opcode fd data w = Seat_Dispatch E i opcode fd data w"
  by (simp add: Seat_Dispatch_def typed_simps)

lemma Pointer_checked: "wf_world w \<Longrightarrow> Pointer_Dispatch (checked E) i opcode fd data w = Pointer_Dispatch E i opcode fd data w"
  by (simp add: Pointer_Dispatch_def typed_simps)

lemma Keyboard_checked: "wf_world w \<Longrightarrow> Keyboard_Dispatch (checked E) i opcode fd data w = Keyboard_Dispatch E i opcode fd data w"
  by (simp add: Keyboard_Dispatch_def typed_simps)

lemma Touch_checked: "wf_world w \<Longrightarrow> Touch_Dispatch (checked E) i opcode fd data w = Touch_Dispatch E i opcode fd data w"
  by (simp add: Touch_Dispatch_def typed_simps)

lemma Output_checked: "wf_world w \<Longrightarrow> Output_Dispatch (checked E) i opcode fd data w = Output_Dispatch E i opcode fd data w"
  by (simp add: Output_Dispatch_def typed_simps)

lemma ExtIdleNotificationV1_checked: "wf_world w \<Longrightarrow> ExtIdleNotificationV1_Dispatch (checked E) i opcode fd data w = ExtIdleNotificationV1_Dispatch E i opcode fd data w"
  by (simp add: ExtIdleNotificationV1_Dispatch_def typed_simps)

lemma ExtSessionLockV1_checked: "wf_world w \<Longrightarrow> ExtSessionLockV1_Dispatch (checked E) i opcode fd data w = ExtSessionLockV1_Dispatch E i opcode fd data w"
  by (simp add: ExtSessionLockV1_Dispatch_def typed_simps)

lemma ExtSessionLockSurfaceV1_checked: "wf_world w \<Longrightarrow> ExtSessionLockSurfaceV1_Dispatch (checked E) i opcode fd data w = ExtSessionLockSurfaceV1_Dispatch E i opcode fd data w"
  by (simp add: ExtSessionLockSurfaceV1_Dispatch_def typed_simps)

lemma ZwpTextInputV3_checked: "wf_world w \<Longrightarrow> ZwpTextInputV3_Dispatch (checked E) i opcode fd data w = ZwpTextInputV3_Dispatch E i opcode fd data w"
  by (simp add: ZwpTextInputV3_Dispatch_def typed_simps)

lemma ZwpTabletSeatV2_checked: "wf_world w \<Longrightarrow> ZwpTabletSeatV2_Dispatch (checked E) i opcode fd data w = ZwpTabletSeatV2_Dispatch E i opcode fd data w"
  by (simp add: ZwpTabletSeatV2_Dispatch_def typed_simps)

lemma ZwpTabletToolV2_checked: "wf_world w \<Longrightarrow> ZwpTabletToolV2_Dispatch (checked E) i opcode fd data w = ZwpTabletToolV2_Dispatch E i opcode fd data w"
  by (simp add: ZwpTabletToolV2_Dispatch_def typed_simps)

lemma ZwpTabletV2_checked: "wf_world w \<Longrightarrow> ZwpTabletV2_Dispatch (checked E) i opcode fd data w = ZwpTabletV2_Dispatch E i opcode fd data w"
  by (simp add: ZwpTabletV2_Dispatch_def typed_simps)

lemma ZwpTabletPadRingV2_checked: "wf_world w \<Longrightarrow> ZwpTabletPadRingV2_Dispatch (checked E) i opcode fd data w = ZwpTabletPadRingV2_Dispatch E i opcode fd data w"
  by (simp add: ZwpTabletPadRingV2_Dispatch_def typed_simps)

lemma ZwpTabletPadStripV2_checked: "wf_world w \<Longrightarrow> ZwpTabletPadStripV2_Dispatch (checked E) i opcode fd data w = ZwpTabletPadStripV2_Dispatch E i opcode fd data w"
  by (simp add: ZwpTabletPadStripV2_Dispatch_def typed_simps)

lemma ZwpTabletPadGroupV2_checked: "wf_world w \<Longrightarrow> ZwpTabletPadGroupV2_Dispatch (checked E) i opcode fd data w = ZwpTabletPadGroupV2_Dispatch E i opcode fd data w"
  by (simp add: ZwpTabletPadGroupV2_Dispatch_def typed_simps)

lemma ZwpTabletPadV2_checked: "wf_world w \<Longrightarrow> ZwpTabletPadV2_Dispatch (checked E) i opcode fd data w = ZwpTabletPadV2_Dispatch E i opcode fd data w"
  by (simp add: ZwpTabletPadV2_Dispatch_def typed_simps)

lemma recordDisplayError_heap: "recordDisplayError ob c m w = (r, w') \<Longrightarrow> heap w' = heap w"
  by (cases "fatalErr w")
    (auto simp: recordDisplayError_def bnd_def andthen_def ID_def deref_def setFatal_first setFatal_sticky split: option.splits)

lemma Display_checked:
  assumes wf: "wf_world w"
  shows "Display_Dispatch (checked E) i opcode fd data w = Display_Dispatch E i opcode fd data w"
proof -
  have ok: "\<exists>p. heap w r = Some p" if "objects w n = Some r" for n r
    using that wf unfolding wf_world_def heap_ok_def by blast
  have t: "well_typed_event w1 (Ev ''DisplayErrorEvent'' [(''ObjectId'', VObj ob), (''Code'', VUint c), (''Message'', VString m)])"
    if "heap w1 = heap w" "objects w n = ob" for w1 n ob c m
    using that ok by (auto simp: well_typed_event_def event_structs struct_defs has_type_def split: option.splits)
  have u: "well_typed_event w1 (Ev ''DisplayDeleteIdEvent'' [(''Id'', VUint n)])" for w1 n
    by (simp add: well_typed_event_def event_structs struct_defs has_type_def)
  show ?thesis
    unfolding Display_Dispatch_def andthen_def
    by (auto intro!: bnd_same simp: bnd_Inr call_handler_checked t u GetProxy_def lookupProxy_def
        dest!: Context_of_Inr handler_of_world recordDisplayError_heap)
qed

lemma generated_checked:
  assumes "m_Dispatch (generated t) = Some d" "wf_world w"
  shows "d (checked E) i opcode fd data w = d E i opcode fd data w"
  using assms(1) by (cases t)
    (auto simp: generated_def events_def no_methods_def Display_checked [OF assms(2)]
      Registry_checked [OF assms(2)] Callback_checked [OF assms(2)] Shm_checked [OF assms(2)] Buffer_checked [OF assms(2)]
      DataOffer_checked [OF assms(2)] DataSource_checked [OF assms(2)] DataDevice_checked [OF assms(2)] ShellSurface_checked [OF assms(2)]
      Surface_checked [OF assms(2)] Seat_checked [OF assms(2)] Pointer_checked [OF assms(2)] Keyboard_checked [OF assms(2)]
      Touch_checked [OF assms(2)] Output_checked [OF assms(2)] ExtIdleNotificationV1_checked [OF assms(2)] ExtSessionLockV1_checked [OF assms(2)]
      ExtSessionLockSurfaceV1_checked [OF assms(2)] ZwpTextInputV3_checked [OF assms(2)] ZwpTabletSeatV2_checked [OF assms(2)] ZwpTabletToolV2_checked [OF assms(2)]
      ZwpTabletV2_checked [OF assms(2)] ZwpTabletPadRingV2_checked [OF assms(2)] ZwpTabletPadStripV2_checked [OF assms(2)] ZwpTabletPadGroupV2_checked [OF assms(2)]
      ZwpTabletPadV2_checked [OF assms(2)])

section \<open>The event loop\<close>

text \<open>Reading does not depend on the handlers.\<close>

lemma checked_fields [simp]:
  "recvmsg (checked E) = recvmsg E" "oob_space (checked E) = oob_space E" "parse_scm (checked E) = parse_scm E"
  "parse_rights (checked E) = parse_rights E"
  by (simp_all add: checked_def)

lemma collect_rights_checked: "collect_rights (checked E) = collect_rights E"
proof (rule ext)+
  show "collect_rights (checked E) src scms fds w = collect_rights E src scms fds w" for src scms fds w
    by (induction scms arbitrary: fds w) (simp_all add: Let_def split: prod.splits option.splits)
qed

lemma receive_fds_checked: "receive_fds (checked E) = receive_fds E"
  by (rule ext)+ (unfold receive_fds_def getFdsFromOob_def collect_rights_checked checked_fields, rule refl)

lemma read_loop_checked: "read_loop (checked E) dn dst w = read_loop E dn dst w"
proof (induction E dn dst w rule: read_loop.induct)
  case (1 E dn dst w)
  then show ?case
    by (subst (1 2) read_loop.simps) (simp add: receive_fds_checked Let_def split: prod.splits option.splits)
qed

lemma ReadMsg_checked: "ReadMsg (checked E) = ReadMsg E"
proof -
  have r: "readExact (checked E) = readExact E" by (rule ext)+ (simp add: readExact_def read_loop_checked)
  have b: "read_body (checked E) = read_body E" by (rule ext)+ (unfold read_body_def r, rule refl)
  have f: "read_frame_of (checked E) = read_frame_of E" by (rule ext) (unfold read_frame_of_def b, rule refl)
  show ?thesis by (rule ext) (unfold ReadMsg_def r f, rule refl)
qed

lemma recovering_same: "m w = m' w \<Longrightarrow> recovering fd opcode senderID m w = recovering fd opcode senderID m' w"
  by (simp add: recovering_def)

lemma deref_Inr: "deref r w = (Inr p, w') \<Longrightarrow> w' = w"
  by (simp add: deref_def split: option.splits)

lemma IsZombie_Inr: "IsZombie r w = (Inr z, w') \<Longrightarrow> w' = w"
  by (auto simp: IsZombie_def bnd_Inr dest: deref_Inr)

lemma andthen_same: "m w = m' w \<Longrightarrow> andthen m n w = andthen m' n w"
  by (simp add: andthen_def bnd_def)

lemma deliver_checked:
  assumes "wf_world w"
  shows "deliver generated (checked E) r senderID opcode fd data w = deliver generated E r senderID opcode fd data w"
  unfolding deliver_def
  by (rule recovering_same)
    (use assms in \<open>auto intro!: bnd_same andthen_same simp: generated_checked dest!: deref_Inr IsZombie_Inr split: option.splits\<close>)

text \<open>Every event that \<open>Dispatch\<close> hands to a handler is well typed.\<close>

theorem Context_Dispatch_checked:
  fixes E :: "'k env"
  assumes wf: "wf_world w"
  shows "Context_Dispatch generated (checked E) w = Context_Dispatch generated E w"
proof -
  note wf_steps = keepsD' [OF ReadMsg_wf] keepsD' [OF keeps_route_fd]
  have route: "bnd (deref r) (\<lambda>p. bnd (route_fd (m_HasFD ((generated :: iface \<Rightarrow> 'k methods) (px_type p))) opcode fd)
        (\<lambda>fd. deliver generated (checked E) r senderID opcode fd data)) w1 =
      bnd (deref r) (\<lambda>p. bnd (route_fd (m_HasFD ((generated :: iface \<Rightarrow> 'k methods) (px_type p))) opcode fd)
        (\<lambda>fd. deliver generated E r senderID opcode fd data)) w1" if "wf_world w1" for r opcode fd senderID data w1
  proof (intro bnd_same)
    fix p w2 fd' w3
    assume "deref r w1 = (Inr p, w2)" and f: "route_fd (m_HasFD ((generated :: iface \<Rightarrow> 'k methods) (px_type p))) opcode fd w2 = (Inr fd', w3)"
    then have "wf_world w3" using that wf_steps(2) [OF f] deref_Inr by blast
    then show "deliver generated (checked E) r senderID opcode fd' data w3 = deliver generated E r senderID opcode fd' data w3"
      by (rule deliver_checked)
  qed
  show ?thesis
    unfolding Context_Dispatch_def ReadMsg_checked
    by (rule bnd_same)
      (use wf route in \<open>auto intro!: bnd_same simp: lookupProxy_def gets_def dest!: wf_steps(1) split: option.splits\<close>)
qed

end
