(* ===== verification/Scanner_Text.thy ===== *)
theory Scanner_Text
  imports World
begin

text \<open>
  The protocol data and the text helpers of the scanner (cmd/sysc-wayland-scanner/main.go): the
  records the XML decoder fills, the string functions of Go's library that it uses, and its naming and
  comment helpers. Text is a list of 8-bit characters, as Go strings are bytes. The case conversions of
  \<open>strcase\<close> and the one-line summaries of \<open>go/doc\<close> are parameters, fields of \<open>config\<close>.
\<close>

section \<open>Protocols\<close>

record description =
  d_Text :: string
  d_Summary :: string

record arg =
  a_Name :: string
  a_Type :: string
  a_Summary :: string
  a_Interface :: string
  a_Description :: description
  a_AllowNull :: bool

record message =
  m_Name :: string
  m_Type :: string
  m_Description :: description
  m_Args :: "arg list"

record entry =
  en_Name :: string
  en_Value :: string
  en_Summary :: string

record enum =
  e_Name :: string
  e_Description :: description
  e_Entries :: "entry list"

record interface =
  i_Name :: string
  i_Description :: description
  i_Requests :: "message list"
  i_Events :: "message list"
  i_Enums :: "enum list"

record protocol =
  p_Name :: string
  p_Copyright :: string
  p_Interfaces :: "interface list"

text \<open>The flags and the library functions the scanner runs with.\<close>

record config =
  protocol :: protocol
  cf_prefix :: string
  cf_suffix :: string
  ToCamel :: "string \<Rightarrow> string"
  ToLowerCamel :: "string \<Rightarrow> string"
  Synopsis :: "string \<Rightarrow> string"

section \<open>Library functions\<close>

definition HasPrefix :: "string \<Rightarrow> string \<Rightarrow> bool" where
  "HasPrefix s p = (take (length p) s = p)"

definition TrimPrefix :: "string \<Rightarrow> string \<Rightarrow> string" where
  "TrimPrefix s p = (if HasPrefix s p then drop (length p) s else s)"

definition HasSuffix :: "string \<Rightarrow> string \<Rightarrow> bool" where
  "HasSuffix s p = (length p \<le> length s \<and> drop (length s - length p) s = p)"

definition TrimSuffix :: "string \<Rightarrow> string \<Rightarrow> string" where
  "TrimSuffix s p = (if HasSuffix s p then take (length s - length p) s else s)"

definition Join_strings :: "string list \<Rightarrow> string \<Rightarrow> string" where
  "Join_strings xs sep = (case xs of [] \<Rightarrow> [] | y # ys \<Rightarrow> y @ concat (map (\<lambda>s. sep @ s) ys))"

definition LF :: char where "LF = CHR 0x0A"
definition CR :: char where "CR = CHR 0x0D"

text \<open>The characters \<open>strings.TrimSpace\<close> removes, in UTF-8: the ASCII spaces and those of Unicode.\<close>

definition space_chars :: "string list" where
  "space_chars =
     [[CHR 0x09], [CHR 0x0A], [CHR 0x0B], [CHR 0x0C], [CHR 0x0D], [CHR 0x20],
      [CHR 0xC2, CHR 0x85], [CHR 0xC2, CHR 0xA0], [CHR 0xE1, CHR 0x9A, CHR 0x80]] @
     map (\<lambda>n. [CHR 0xE2, CHR 0x80, char_of (128 + n)]) [0..<11] @
     [[CHR 0xE2, CHR 0x80, CHR 0xA8], [CHR 0xE2, CHR 0x80, CHR 0xA9], [CHR 0xE2, CHR 0x80, CHR 0xAF],
      [CHR 0xE2, CHR 0x81, CHR 0x9F], [CHR 0xE3, CHR 0x80, CHR 0x80]]"

lemma space_chars_nonempty: "c \<in> set space_chars \<Longrightarrow> c \<noteq> []"
  by (auto simp: space_chars_def)

function trim_left :: "string \<Rightarrow> string" where
  "trim_left s = (case find (\<lambda>c. HasPrefix s c) space_chars of
     None \<Rightarrow> s | Some c \<Rightarrow> if s = [] then s else trim_left (drop (length c) s))"
  by pat_completeness auto
termination
proof (relation "measure length")
  fix s :: string and c
  assume "find (\<lambda>c. HasPrefix s c) space_chars = Some c" "s \<noteq> []"
  then show "(drop (length c) s, s) \<in> measure length"
    using space_chars_nonempty by (auto simp: find_Some_iff)
qed simp

function trim_right :: "string \<Rightarrow> string" where
  "trim_right s = (case find (\<lambda>c. HasSuffix s c) space_chars of
     None \<Rightarrow> s | Some c \<Rightarrow> if s = [] then s else trim_right (take (length s - length c) s))"
  by pat_completeness auto
termination
proof (relation "measure length")
  fix s :: string and c
  assume "find (\<lambda>c. HasSuffix s c) space_chars = Some c" "s \<noteq> []"
  then show "(take (length s - length c) s, s) \<in> measure length"
    using space_chars_nonempty by (auto simp: find_Some_iff)
qed simp

declare trim_left.simps [simp del] trim_right.simps [simp del]

definition TrimSpace :: "string \<Rightarrow> string" where
  "TrimSpace s = trim_right (trim_left s)"

text \<open>
  The lines a \<open>bufio.Scanner\<close> returns: split at line feeds, a final line only when it is not empty, and
  nothing from a line on that does not fit the scanner's buffer of 65536 bytes. A carriage return
  before the line feed is dropped.
\<close>

fun raw_lines :: "string \<Rightarrow> string \<Rightarrow> string list" where
  "raw_lines [] acc = (if acc = [] then [] else [acc])"
| "raw_lines (c # cs) acc = (if c = LF then acc # raw_lines cs [] else raw_lines cs (acc @ [c]))"

definition drop_cr :: "string \<Rightarrow> string" where
  "drop_cr s = (if s \<noteq> [] \<and> last s = CR then butlast s else s)"

definition scan_lines :: "string \<Rightarrow> string list" where
  "scan_lines s = map drop_cr (takeWhile (\<lambda>l. length l \<le> 65535) (raw_lines s []))"

section \<open>Names\<close>

definition toCamel :: "config \<Rightarrow> string \<Rightarrow> string" where
  "toCamel c s = ToCamel c (TrimSuffix (TrimPrefix s (cf_prefix c)) (cf_suffix c))"

definition toCamelPrefix :: "config \<Rightarrow> string \<Rightarrow> string \<Rightarrow> string" where
  "toCamelPrefix c s pre = ToCamel c (TrimPrefix s pre)"

definition toLowerCamel :: "config \<Rightarrow> string \<Rightarrow> string" where
  "toLowerCamel c s = (let s = ToLowerCamel c s in if s = ''map'' then ''_map'' else s)"

definition isLocalInterface :: "config \<Rightarrow> string \<Rightarrow> bool" where
  "isLocalInterface c iface = list_ex (\<lambda>v. i_Name v = iface) (p_Interfaces (protocol c))"

definition interfaceNameForArg :: "config \<Rightarrow> string \<Rightarrow> string \<Rightarrow> string" where
  "interfaceNameForArg c protocolName iface =
     (if isLocalInterface c iface then toCamel c iface
      else if protocolName \<noteq> ''wayland'' \<and> HasPrefix iface ''wl_'' then ''client.'' @ toCamelPrefix c iface ''wl_''
      else if protocolName \<noteq> ''xdg_shell'' \<and> HasPrefix iface ''xdg_'' then ''xdg_shell.'' @ toCamelPrefix c iface ''xdg_''
      else toCamel c iface)"

definition hasDestructor :: "interface \<Rightarrow> bool" where
  "hasDestructor v = list_ex (\<lambda>r. m_Type r = ''destructor'') (i_Requests v)"

definition needs_xdg :: "config \<Rightarrow> message \<Rightarrow> bool" where
  "needs_xdg c m = list_ex (\<lambda>a. \<not> isLocalInterface c (a_Interface a) \<and> HasPrefix (a_Interface a) ''xdg_'') (m_Args m)"

definition requiresXDGImport :: "config \<Rightarrow> bool" where
  "requiresXDGImport c =
     list_ex (\<lambda>iface. list_ex (needs_xdg c) (i_Requests iface) \<or> list_ex (needs_xdg c) (i_Events iface))
       (p_Interfaces (protocol c))"

definition comment :: "string \<Rightarrow> string" where
  "comment s = TrimSuffix (concat (map (\<lambda>t. ''// '' @ TrimSpace t @ [LF]) (scan_lines s))) (''// '' @ [LF])"

section \<open>Lemmas\<close>

lemma TrimPrefix_append [simp]: "TrimPrefix (p @ s) p = s"
  by (simp add: TrimPrefix_def HasPrefix_def)

lemma TrimSuffix_append [simp]: "TrimSuffix (s @ p) p = s"
  by (simp add: TrimSuffix_def HasSuffix_def)

text \<open>Trimming removes text at the ends only.\<close>

lemma trim_left_sub: "set (trim_left s) \<subseteq> set s"
proof (induction s rule: trim_left.induct)
  case (1 s)
  show ?case
    using 1 by (subst trim_left.simps) (auto split: option.splits dest: in_set_dropD)
qed

lemma trim_right_sub: "set (trim_right s) \<subseteq> set s"
proof (induction s rule: trim_right.induct)
  case (1 s)
  show ?case
    using 1 by (subst trim_right.simps) (auto split: option.splits dest: in_set_takeD)
qed

lemma TrimSpace_sub: "set (TrimSpace s) \<subseteq> set s"
  using trim_left_sub trim_right_sub unfolding TrimSpace_def by blast

lemma raw_lines_no_LF: "LF \<notin> set acc \<Longrightarrow> l \<in> set (raw_lines s acc) \<Longrightarrow> LF \<notin> set l"
  by (induction s acc rule: raw_lines.induct) (auto split: if_splits)

lemma scan_lines_no_LF: "l \<in> set (scan_lines s) \<Longrightarrow> LF \<notin> set l"
  unfolding scan_lines_def drop_cr_def
  by (auto dest!: set_takeWhileD raw_lines_no_LF [of "[]", simplified] dest: in_set_butlastD split: if_splits)

text \<open>Whether text is made of whole comment lines.\<close>

definition comment_line :: "string \<Rightarrow> bool" where
  "comment_line l \<longleftrightarrow> (\<exists>t. l = ''// '' @ t @ [LF] \<and> LF \<notin> set t)"

definition comment_lines :: "string \<Rightarrow> bool" where
  "comment_lines s \<longleftrightarrow> (\<exists>ls. s = concat ls \<and> (\<forall>l\<in>set ls. comment_line l))"

lemma HasSuffix_iff: "HasSuffix s p \<longleftrightarrow> (\<exists>x. s = x @ p)"
proof
  assume "HasSuffix s p"
  then show "\<exists>x. s = x @ p" unfolding HasSuffix_def by (metis append_take_drop_id)
qed (auto simp: HasSuffix_def)

lemma trim_right_end: "trim_right s \<noteq> [] \<Longrightarrow> last (trim_right s) \<noteq> CHR '' ''"
proof (induction s rule: trim_right.induct)
  case (1 s)
  show ?case
  proof (cases "find (\<lambda>c. HasSuffix s c) space_chars")
    case None
    then have t: "trim_right s = s" by (subst trim_right.simps) simp
    have "[CHR '' ''] \<in> set space_chars" by (simp add: space_chars_def)
    then have "\<not> HasSuffix s [CHR '' '']" using None [unfolded find_None_iff] by blast
    then show ?thesis using 1(2) unfolding t HasSuffix_iff by (metis append_butlast_last_id)
  next
    case (Some c)
    then have "trim_right s = (if s = [] then s else trim_right (take (length s - length c) s))"
      by (subst trim_right.simps) simp
    then show ?thesis using 1 Some by (auto split: if_splits)
  qed
qed

text \<open>Whatever a description contains, its comment is comment lines only.\<close>

lemma comment_is_comment: "comment_lines (comment s)"
proof -
  let ?f = "\<lambda>t. ''// '' @ TrimSpace t @ [LF]"
  have line: "comment_line (?f l)" if "l \<in> set (scan_lines s)" for l
    using scan_lines_no_LF [OF that] TrimSpace_sub unfolding comment_line_def by blast
  show ?thesis
  proof (cases "scan_lines s" rule: rev_cases)
    case Nil
    then show ?thesis by (auto simp: comment_def TrimSuffix_def HasSuffix_def comment_lines_def intro!: exI [of _ "[]"])
  next
    case (snoc ls l)
    let ?t = "TrimSpace l" and ?p = "concat (map ?f ls)"
    have "comment s = (if ?t = [] then ?p else ?p @ ?f l)"
    proof (cases "?t = []")
      case True
      then show ?thesis using TrimSuffix_append [of ?p "''// '' @ [LF]"] snoc by (simp add: comment_def)
    next
      case False
      have "last ?t \<noteq> CHR '' ''" using trim_right_end False by (simp add: TrimSpace_def)
      then have l: "last (?p @ ''// '' @ ?t) \<noteq> CHR '' ''" using False by simp
      have "\<not> HasSuffix (?p @ ?f l) (''// '' @ [LF])"
      proof
        assume "HasSuffix (?p @ ?f l) (''// '' @ [LF])"
        then obtain x where "(?p @ ''// '' @ ?t) @ [LF] = (x @ ''// '') @ [LF]" by (auto simp: HasSuffix_iff)
        then have "last (?p @ ''// '' @ ?t) = last (x @ ''// '')" by (metis butlast_snoc)
        then show False using l by simp
      qed
      then show ?thesis using False snoc by (simp add: comment_def TrimSuffix_def)
    qed
    moreover have "comment_lines ?p" "comment_lines (?p @ ?f l)"
      unfolding comment_lines_def using line snoc
      by (rule_tac [1] x = "map ?f ls" in exI, rule_tac [2] x = "map ?f (ls @ [l])" in exI) auto
    ultimately show ?thesis by simp
  qed
qed

end
