(* ===== verification/Scanner_Request.thy ===== *)
theory Scanner_Request
  imports Scanner_Text
begin

text \<open>
  \<open>writeRequest\<close> of the scanner: the Go statements it emits for a request and the text of each, as
  one \<open>Fprintf\<close> or one group of them writes it. A statement keeps the names and the choices that the text depends on;
  \<open>stmt_text\<close> is the text.
\<close>

section \<open>Statements\<close>

text \<open>Decimal numerals, as \<open>%d\<close> prints them.\<close>

fun decimal :: "nat \<Rightarrow> string" where
  "decimal n = (if n < 10 then [char_of (48 + n)] else decimal (n div 10) @ [char_of (48 + n mod 10)])"

declare decimal.simps [simp del]

text \<open>A summand of a buffer size or of a cursor step: a number, or the slot of a counted argument.\<close>

datatype size = Bytes nat | Slot string

primrec size_text :: "size \<Rightarrow> string" where
  "size_text (Bytes n) = decimal n"
| "size_text (Slot x) = ''(4 + '' @ x @ ''Len)''"

text \<open>
  The first argument of a constructor that calls into the client package is the qualifier of the call, empty or \<open>client.\<close>.
\<close>

datatype stmt =
    DeferMark string
  | NewObject string string
  | ConstOpcode nat
  | LetStrLen string string
  | LetOptLen string string
  | LetArrLen string string
  | LetBuf bool "size list"
  | LetCursor
  | PutSelf string
  | PutHeader string
  | PutNull string
  | PutID string string
  | PutWord string string string
  | PutFix string string
  | PutStr string bool string string
  | PutArr string string
  | Advance size
  | IfNil string stmt stmt stmt stmt
  | LetOob string
  | LetErr bool bool
  | Return "string list"

primrec stmt_text :: "stmt \<Rightarrow> string" where
  "stmt_text (DeferMark x) = ''defer '' @ x @ ''.MarkZombie()'' @ [LF]"
| "stmt_text (NewObject x f) = x @ '' := '' @ f @ ''(i.Context())'' @ [LF]"
| "stmt_text (ConstOpcode n) = ''const opcode = '' @ decimal n @ [LF]"
| "stmt_text (LetStrLen q x) = x @ ''Len := '' @ q @ ''PaddedLen(len('' @ x @ '')+1)'' @ [LF]"
| "stmt_text (LetOptLen q x) = x @ ''Len := 0'' @ [LF] @ ''if '' @ x @ '' != nil {'' @ [LF] @
     x @ ''Len = '' @ q @ ''PaddedLen(len(*'' @ x @ '')+1)'' @ [LF] @ ''}'' @ [LF]"
| "stmt_text (LetArrLen q x) = x @ ''Len := '' @ q @ ''PaddedLen(len('' @ x @ ''))'' @ [LF]"
| "stmt_text (LetBuf const sizes) =
     (if const
      then ''const _reqBufLen =  '' @ Join_strings (map size_text sizes) ''+'' @ [LF] @ ''var _reqBuf [_reqBufLen]byte'' @ [LF]
      else ''_reqBufLen := '' @ Join_strings (map size_text sizes) ''+'' @ [LF] @ ''_reqBuf := make([]byte, _reqBufLen)'' @ [LF])"
| "stmt_text LetCursor = ''l := 0'' @ [LF]"
| "stmt_text (PutSelf q) = q @ ''PutUint32(_reqBuf[l:4], i.ID())'' @ [LF]"
| "stmt_text (PutHeader q) = q @ ''PutUint32(_reqBuf[l:l+4], uint32(_reqBufLen<<16|opcode&0x0000ffff))'' @ [LF]"
| "stmt_text (PutNull q) = q @ ''PutUint32(_reqBuf[l:l+4], 0)'' @ [LF]"
| "stmt_text (PutID q x) = q @ ''PutUint32(_reqBuf[l:l+4], '' @ x @ ''.ID())'' @ [LF]"
| "stmt_text (PutWord q sp x) = q @ ''PutUint32(_reqBuf[l:l+4], '' @ sp @ ''uint32('' @ x @ ''))'' @ [LF]"
| "stmt_text (PutFix q x) = q @ ''PutFixed(_reqBuf[l:l+4], '' @ x @ '')'' @ [LF]"
| "stmt_text (PutStr q ptr slot x) =
     q @ ''PutString(_reqBuf[l:l+(4 + '' @ slot @ ''Len)], '' @ (if ptr then ''*'' else []) @ x @ '')'' @ [LF]"
| "stmt_text (PutArr q x) = q @ ''PutArray(_reqBuf[l:l+(4 + '' @ x @ ''Len)], '' @ x @ '')'' @ [LF]"
| "stmt_text (Advance s) = ''l += '' @ size_text s @ [LF]"
| "stmt_text (IfNil x a b c d) = ''if '' @ x @ '' == nil {'' @ [LF] @ stmt_text a @ stmt_text b @ ''} else {'' @ [LF] @ stmt_text c @ stmt_text d @ ''}'' @ [LF]"
| "stmt_text (LetOob x) = ''oob := unix.UnixRights(int('' @ x @ ''))'' @ [LF]"
| "stmt_text (LetErr const oob) = ''err := i.Context().WriteMsg(_reqBuf'' @ (if const then ''[:]'' else []) @ '', '' @
     (if oob then ''oob'' else ''nil'') @ '')'' @ [LF]"
| "stmt_text (Return xs) = ''return '' @ Join_strings xs '','' @ [LF]"

section \<open>The parts of a request\<close>

text \<open>The qualifier of calls into the client package.\<close>

definition qual :: "config \<Rightarrow> string" where
  "qual c = (if p_Name (protocol c) = ''wayland'' then [] else ''client.'')"

text \<open>Parameters and result types.\<close>

definition typeToGoType :: "string \<Rightarrow> string" where
  "typeToGoType t =
     (case map_of [(''int'', ''int32''), (''uint'', ''uint32''), (''fixed'', ''float64''), (''string'', ''string''),
        (''object'', ''Proxy''), (''array'', ''[]byte''), (''fd'', ''int'')] t of None \<Rightarrow> [] | Some g \<Rightarrow> g)"

definition arg_iface :: "config \<Rightarrow> arg \<Rightarrow> string" where
  "arg_iface c a =
     (if \<not> isLocalInterface c (a_Interface a) then
        if p_Name (protocol c) \<noteq> ''wayland'' \<and> HasPrefix (a_Interface a) ''wl_''
        then ''client.'' @ toCamelPrefix c (a_Interface a) ''wl_''
        else if p_Name (protocol c) \<noteq> ''xdg_shell'' \<and> HasPrefix (a_Interface a) ''xdg_''
        then ''xdg_shell.'' @ toCamelPrefix c (a_Interface a) ''xdg_''
        else toCamel c (a_Interface a)
      else toCamel c (a_Interface a))"

definition arg_params :: "config \<Rightarrow> arg \<Rightarrow> string list" where
  "arg_params c a =
     (let x = toLowerCamel c (a_Name a) in
      if a_Type a = ''new_id'' then if a_Interface a \<noteq> [] then [] else [''iface string'', ''version uint32'', ''id Proxy'']
      else if a_Type a = ''object'' then [x @ '' *'' @ arg_iface c a]
      else if a_Type a = ''string'' then
        [x @ '' '' @ (if a_AllowNull a then ''*'' else []) @ typeToGoType (a_Type a)]
      else if a_Type a \<in> {''int'', ''uint'', ''fixed'', ''array'', ''fd''} then [x @ '' '' @ typeToGoType (a_Type a)]
      else [])"

definition arg_returns :: "config \<Rightarrow> arg \<Rightarrow> string list" where
  "arg_returns c a = (if a_Type a = ''new_id'' \<and> a_Interface a \<noteq> [] then [''*'' @ arg_iface c a] else [])"

definition request_params :: "config \<Rightarrow> message \<Rightarrow> string list" where
  "request_params c r = concat (map (arg_params c) (m_Args r))"

definition request_returns :: "config \<Rightarrow> message \<Rightarrow> string list" where
  "request_returns c r = concat (map (arg_returns c) (m_Args r)) @ [''error'']"

text \<open>The comment above the method.\<close>

definition request_doc :: "config \<Rightarrow> message \<Rightarrow> string" where
  "request_doc c r =
     ''// '' @ toCamel c (m_Name r) @ '' : '' @ Synopsis c (d_Summary (m_Description r)) @ [LF] @
     comment (d_Text (m_Description r)) @ ''//'' @ [LF] @
     concat (map (\<lambda>a. let x = toLowerCamel c (a_Name a) in
       (if a_Summary a \<noteq> [] \<and> a_Type a \<noteq> ''new_id'' then ''//  '' @ x @ '': '' @ Synopsis c (a_Summary a) @ [LF] else []) @
       (if a_AllowNull a \<and> a_Type a = ''string'' then ''// A nil '' @ x @ '' sends the protocol NULL.'' @ [LF] else []))
       (m_Args r))"

text \<open>The deferred calls: every destructor marks its own proxy, \<open>wl_fixes.destroy_registry\<close> the registry it is given.\<close>

definition request_defers :: "config \<Rightarrow> interface \<Rightarrow> message \<Rightarrow> stmt list" where
  "request_defers c iface r =
     (if m_Type r = ''destructor'' then [DeferMark ''i''] else []) @
     (if p_Name (protocol c) = ''wayland'' \<and> i_Name iface = ''wl_fixes'' \<and> m_Name r = ''destroy_registry''
      then (case find (\<lambda>a. a_Type a = ''object'' \<and> a_Interface a = ''wl_registry'') (m_Args r) of
          None \<Rightarrow> [] | Some a \<Rightarrow> [DeferMark (toLowerCamel c (a_Name a))])
      else [])"

text \<open>The new objects: their constructors and, in order, their names.\<close>

definition arg_news :: "config \<Rightarrow> arg \<Rightarrow> stmt list" where
  "arg_news c a =
     (let x = toLowerCamel c (a_Name a) in
      if a_Type a = ''new_id'' \<and> a_Interface a \<noteq> [] then
        if isLocalInterface c (a_Interface a) then [NewObject x (''New'' @ toCamel c (a_Interface a))]
        else if p_Name (protocol c) \<noteq> ''wayland'' \<and> HasPrefix (a_Interface a) ''wl_''
        then [NewObject x (''client.New'' @ toCamelPrefix c (a_Interface a) ''wl_'')]
        else if p_Name (protocol c) \<noteq> ''xdg_shell'' \<and> HasPrefix (a_Interface a) ''xdg_''
        then [NewObject x (''xdg_shell.New'' @ toCamelPrefix c (a_Interface a) ''xdg_'')]
        else []
      else [])"

definition request_news :: "config \<Rightarrow> message \<Rightarrow> stmt list" where
  "request_news c r = concat (map (arg_news c) (m_Args r))"

definition newObjects :: "config \<Rightarrow> message \<Rightarrow> string list" where
  "newObjects c r = map (\<lambda>a. toLowerCamel c (a_Name a)) (filter (\<lambda>a. a_Type a = ''new_id'' \<and> a_Interface a \<noteq> []) (m_Args r))"

text \<open>Lengths and sizes; \<open>canBeConst\<close> as long as every argument has a fixed size.\<close>

definition arg_lens :: "config \<Rightarrow> arg \<Rightarrow> stmt list" where
  "arg_lens c a =
     (let x = toLowerCamel c (a_Name a) in
      if a_Type a = ''new_id'' then if a_Interface a \<noteq> [] then [] else [LetStrLen (qual c) ''iface'']
      else if a_Type a = ''string'' then if a_AllowNull a then [LetOptLen (qual c) x] else [LetStrLen (qual c) x]
      else if a_Type a = ''array'' then [LetArrLen (qual c) x]
      else [])"

definition arg_sizes :: "config \<Rightarrow> arg \<Rightarrow> size list" where
  "arg_sizes c a =
     (let x = toLowerCamel c (a_Name a) in
      if a_Type a = ''new_id'' then if a_Interface a \<noteq> [] then [Bytes 4] else [Slot ''iface'', Bytes 4, Bytes 4]
      else if a_Type a \<in> {''object'', ''int'', ''uint'', ''fixed''} then [Bytes 4]
      else if a_Type a \<in> {''string'', ''array''} then [Slot x]
      else [])"

definition canBeConst :: "message \<Rightarrow> bool" where
  "canBeConst r = list_all (\<lambda>a. \<not> (a_Type a \<in> {''string'', ''array''} \<or> a_Type a = ''new_id'' \<and> a_Interface a = [])) (m_Args r)"

definition request_sizes :: "config \<Rightarrow> message \<Rightarrow> size list" where
  "request_sizes c r = Bytes 8 # concat (map (arg_sizes c) (m_Args r))"

text \<open>The buffer and the eight bytes of the header.\<close>

definition request_header :: "config \<Rightarrow> message \<Rightarrow> stmt list" where
  "request_header c r =
     [LetBuf (canBeConst r) (request_sizes c r), LetCursor, PutSelf (qual c), Advance (Bytes 4), PutHeader (qual c), Advance (Bytes 4)]"

text \<open>One group of statements per argument.\<close>

definition arg_puts :: "config \<Rightarrow> arg \<Rightarrow> stmt list" where
  "arg_puts c a =
     (let x = toLowerCamel c (a_Name a); q = qual c; four = Advance (Bytes 4) in
      if a_Type a = ''object'' then
        if a_AllowNull a then [IfNil x (PutNull q) four (PutID q x) four] else [PutID q x, four]
      else if a_Type a = ''new_id'' then
        if a_Interface a \<noteq> [] then [PutID q x, four]
        else [PutStr q False ''iface'' ''iface'', Advance (Slot ''iface''),
              PutWord q (if p_Name (protocol c) = ''wayland'' then [] else '' '') ''version'', four, PutID q ''id'', four]
      else if a_Type a \<in> {''int'', ''uint''} then [PutWord q [] x, four]
      else if a_Type a = ''fixed'' then [PutFix q x, four]
      else if a_Type a = ''string'' then
        if a_AllowNull a then [IfNil x (PutNull q) four (PutStr q True x x) (Advance (Slot x))]
        else [PutStr q False x x, Advance (Slot x)]
      else if a_Type a = ''array'' then [PutArr q x, Advance (Slot x)]
      else [])"

text \<open>The descriptor of the last \<open>fd\<close> argument, the write and the results.\<close>

definition fd_args :: "message \<Rightarrow> arg list" where
  "fd_args r = filter (\<lambda>a. a_Type a = ''fd'') (m_Args r)"

definition request_send :: "config \<Rightarrow> message \<Rightarrow> stmt list" where
  "request_send c r =
     (if fd_args r \<noteq> [] then [LetOob (toLowerCamel c (a_Name (last (fd_args r)))), LetErr (canBeConst r) True]
      else [LetErr (canBeConst r) False]) @
     [Return (newObjects c r @ [''err''])]"

definition request_body :: "config \<Rightarrow> interface \<Rightarrow> nat \<Rightarrow> message \<Rightarrow> stmt list" where
  "request_body c iface opcode r =
     request_defers c iface r @ request_news c r @ [ConstOpcode opcode] @ concat (map (arg_lens c) (m_Args r)) @
     request_header c r @ concat (map (arg_puts c) (m_Args r)) @ request_send c r"

definition writeRequest :: "config \<Rightarrow> string \<Rightarrow> interface \<Rightarrow> nat \<Rightarrow> message \<Rightarrow> string" where
  "writeRequest c ifaceName iface opcode r =
     request_doc c r @ ''func (i *'' @ ifaceName @ '') '' @ toCamel c (m_Name r) @ ''('' @ Join_strings (request_params c r) '','' @
     '') ('' @ Join_strings (request_returns c r) '','' @ '') {'' @ [LF] @
     concat (map stmt_text (request_body c iface opcode r)) @ ''}'' @ [LF]"

end
