(* ===== verification/Scanner_Event.thy ===== *)
theory Scanner_Event
  imports Scanner_Request
begin

text \<open>
  The event side of the scanner: \<open>writeEvent\<close>, \<open>writeEventDispatcher\<close> and \<open>writeNewIDAbsorber\<close> of
  cmd/sysc-wayland-scanner/main.go. As for requests, the emitted Go is a list of statements, one
  constructor per group of \<open>Fprintf\<close> calls, with the text of each.
\<close>

section \<open>Statements of a dispatcher\<close>

datatype estmt =
    NilGuard string bool
  | VarEvent string
  | LetL
  | LetID string string string
  | IfLive string string string bool
  | IfFresh string string
  | SetProxy string string
  | Skip
  | SetFd string
  | SetUint string string
  | SetInt string string
  | SetFixed string string
  | CheckLen string
  | LetWire string string
  | CheckWire string string
  | LetLen string
  | LetPadded string string
  | CheckPadded string string
  | SetStr string string string
  | SetOptStr string string string
  | MakeArr string string
  | CopyArr string string
  | SkipPadded string
  | SkipWire string string
  | DoDelete
  | DoRecord
  | CallIfSet string
  | Call string

definition quoted :: "string \<Rightarrow> string" where
  "quoted s = CHR 0x22 # s @ [CHR 0x22]"

definition panic_if :: "string \<Rightarrow> string \<Rightarrow> string" where
  "panic_if cond msg = ''if '' @ cond @ '' { panic('' @ quoted msg @ '') }'' @ [LF]"

primrec estmt_text :: "estmt \<Rightarrow> string" where
  "estmt_text (NilGuard h closes) = ''if i.'' @ h @ ''Handler == nil {'' @ [LF] @
     (if closes then ''if fd != -1 {'' @ [LF] @ ''unix.Close(fd)'' @ [LF] @ ''}'' @ [LF] else []) @
     ''return'' @ [LF] @ ''}'' @ [LF]"
| "estmt_text (VarEvent t) = ''var e  '' @ t @ ''Event'' @ [LF]"
| "estmt_text LetL = ''l := 0'' @ [LF]"
| "estmt_text (LetID q sp x) = x @ ''ID := '' @ q @ ''Uint32(data[l :'' @ sp @ ''l+4])'' @ [LF]"
| "estmt_text (IfLive x t f new) =
     ''if '' @ x @ '', ok := i.Context().GetProxy('' @ x @ ''ID).(*'' @ t @ ''); ok && !'' @ x @ ''.IsZombie() {'' @ [LF] @
     ''e.'' @ f @ '' = '' @ x @ [LF] @
     (if new
      then ''} else if '' @ x @ ''ID != 0 {'' @ [LF] @ x @ '' := &'' @ t @ ''{}'' @ [LF] @
        ''i.Context().RegisterWithID('' @ x @ '', '' @ x @ ''ID)'' @ [LF] @ ''e.'' @ f @ '' = '' @ x @ [LF]
      else ''} else {'' @ [LF] @ ''e.'' @ f @ '' = nil'' @ [LF]) @ ''}'' @ [LF]"
| "estmt_text (IfFresh x t) =
     ''if '' @ x @ ''ID != 0 {'' @ [LF] @ x @ '' := &'' @ t @ ''{}'' @ [LF] @
     ''i.Context().RegisterWithID('' @ x @ '', '' @ x @ ''ID)'' @ [LF] @ x @ ''.MarkZombie()'' @ [LF] @ ''}'' @ [LF]"
| "estmt_text (SetProxy q f) = ''e.'' @ f @ '' = i.Context().GetProxy('' @ q @ ''Uint32(data[l :l+4]))'' @ [LF]"
| "estmt_text Skip = ''l += 4'' @ [LF]"
| "estmt_text (SetFd f) = ''e.'' @ f @ '' = fd'' @ [LF]"
| "estmt_text (SetUint q f) = ''e.'' @ f @ '' = '' @ q @ ''Uint32(data[l : l+4])'' @ [LF]"
| "estmt_text (SetInt q f) = ''e.'' @ f @ '' = int32('' @ q @ ''Uint32(data[l : l+4]))'' @ [LF]"
| "estmt_text (SetFixed q f) = ''e.'' @ f @ '' = '' @ q @ ''Fixed(data[l : l+4])'' @ [LF]"
| "estmt_text (CheckLen what) = panic_if ''len(data)-l < 4'' (''client: truncated event '' @ what @ '' length'')"
| "estmt_text (LetWire q x) = x @ ''WireLen := '' @ q @ ''Uint32(data[l : l+4])'' @ [LF] @ ''l += 4'' @ [LF]"
| "estmt_text (CheckWire x what) =
     panic_if (''uint64('' @ x @ ''WireLen) > uint64(len(data)-l)'') (''client: truncated event '' @ what)"
| "estmt_text (LetLen x) = x @ ''Len := int('' @ x @ ''WireLen)'' @ [LF]"
| "estmt_text (LetPadded q x) = x @ ''PaddedLen := '' @ q @ ''PaddedLen('' @ x @ ''Len)'' @ [LF]"
| "estmt_text (CheckPadded x what) =
     panic_if (x @ ''PaddedLen > len(data)-l'') (''client: truncated event '' @ what @ '' padding'')"
| "estmt_text (SetStr q f x) = ''e.'' @ f @ '' = '' @ q @ ''String(data[l : l+'' @ x @ ''Len])'' @ [LF]"
| "estmt_text (SetOptStr q f x) = ''if '' @ x @ ''Len == 0 {'' @ [LF] @ ''e.'' @ f @ '' = nil'' @ [LF] @ ''} else {'' @ [LF] @
     x @ '' := '' @ q @ ''String(data[l : l+'' @ x @ ''Len])'' @ [LF] @ ''e.'' @ f @ '' = &'' @ x @ [LF] @ ''}'' @ [LF]"
| "estmt_text (MakeArr f x) = ''e.'' @ f @ '' = make([]byte, '' @ x @ ''Len)'' @ [LF]"
| "estmt_text (CopyArr f x) = ''copy(e.'' @ f @ '', data[l:l+'' @ x @ ''Len])'' @ [LF]"
| "estmt_text (SkipPadded x) = ''l += '' @ x @ ''PaddedLen'' @ [LF]"
| "estmt_text (SkipWire q x) = ''l += '' @ q @ ''PaddedLen(int('' @ x @ ''WireLen))'' @ [LF]"
| "estmt_text DoDelete = [LF] @ ''i.Context().DeleteID(e.Id)'' @ [LF] @ [LF]"
| "estmt_text DoRecord = [LF] @ ''i.Context().recordDisplayError(e)'' @ [LF]"
| "estmt_text (CallIfSet h) = ''if i.'' @ h @ ''Handler != nil {'' @ [LF] @ ''i.'' @ h @ ''Handler(e)'' @ [LF] @ ''}'' @ [LF]"
| "estmt_text (Call h) = ''i.'' @ h @ ''Handler(e)'' @ [LF]"

section \<open>Dispatchers\<close>

definition is_fd :: "arg \<Rightarrow> bool" where "is_fd a \<longleftrightarrow> a_Type a = ''fd''"
definition is_new :: "arg \<Rightarrow> bool" where "is_new a \<longleftrightarrow> a_Type a = ''new_id''"

text \<open>\<open>hasFD\<close> and \<open>hasNewID\<close> of an event.\<close>

definition has_fd :: "message \<Rightarrow> bool" where "has_fd e = list_ex is_fd (m_Args e)"
definition has_new :: "message \<Rightarrow> bool" where "has_new e = list_ex is_new (m_Args e)"

definition counted_reads :: "string \<Rightarrow> string \<Rightarrow> string \<Rightarrow> estmt list" where
  "counted_reads q x what =
     [CheckLen what, LetWire q x, CheckWire x what, LetLen x, LetPadded q x, CheckPadded x what]"

text \<open>The block of one argument.\<close>

definition arg_reads :: "config \<Rightarrow> arg \<Rightarrow> estmt list" where
  "arg_reads c a =
     (let f = toCamel c (a_Name a); x = toLowerCamel c (a_Name a); q = qual c in
      if a_Type a \<in> {''object'', ''new_id''} then
        (if a_Interface a \<noteq> []
         then [LetID q [] x, IfLive x (interfaceNameForArg c (p_Name (protocol c)) (a_Interface a)) f (is_new a)]
         else [SetProxy q f]) @ [Skip]
      else if a_Type a = ''fd'' then [SetFd f]
      else if a_Type a = ''uint'' then [SetUint q f, Skip]
      else if a_Type a = ''int'' then [SetInt q f, Skip]
      else if a_Type a = ''fixed'' then [SetFixed q f, Skip]
      else if a_Type a = ''string'' then
        counted_reads q x ''string'' @ [if a_AllowNull a then SetOptStr q f x else SetStr q f x, SkipPadded x]
      else if a_Type a = ''array'' then counted_reads q x ''array'' @ [MakeArr f x, CopyArr f x, SkipPadded x]
      else [])"

text \<open>The two events of \<open>wl_display\<close> that the client itself acts on.\<close>

definition isDeleteID :: "config \<Rightarrow> interface \<Rightarrow> message \<Rightarrow> bool" where
  "isDeleteID c v e \<longleftrightarrow> p_Name (protocol c) = ''wayland'' \<and> i_Name v = ''wl_display'' \<and> m_Name e = ''delete_id''"

definition isDisplayError :: "config \<Rightarrow> interface \<Rightarrow> message \<Rightarrow> bool" where
  "isDisplayError c v e \<longleftrightarrow> p_Name (protocol c) = ''wayland'' \<and> i_Name v = ''wl_display'' \<and> m_Name e = ''error''"

definition event_guard :: "config \<Rightarrow> interface \<Rightarrow> message \<Rightarrow> estmt list" where
  "event_guard c v e =
     (if \<not> isDeleteID c v e \<and> \<not> isDisplayError c v e \<and> \<not> has_new e
      then [NilGuard (toLowerCamel c (m_Name e)) (has_fd e)] else [])"

definition event_cursor :: "message \<Rightarrow> estmt list" where
  "event_cursor e = (case m_Args e of [] \<Rightarrow> [] | [a] \<Rightarrow> if a_Type a \<noteq> ''fd'' then [LetL] else [] | _ \<Rightarrow> [LetL])"

definition event_call :: "config \<Rightarrow> interface \<Rightarrow> message \<Rightarrow> estmt list" where
  "event_call c v e =
     (let h = toLowerCamel c (m_Name e) in
      if isDeleteID c v e then [DoDelete, CallIfSet h]
      else if isDisplayError c v e then [DoRecord, CallIfSet h]
      else if has_new e then [NilGuard h (has_fd e), Call h]
      else [Call h])"

definition event_body :: "config \<Rightarrow> string \<Rightarrow> interface \<Rightarrow> message \<Rightarrow> estmt list" where
  "event_body c ifaceName v e =
     event_guard c v e @ [VarEvent (ifaceName @ toCamel c (m_Name e))] @ event_cursor e @
     concat (map (arg_reads c) (m_Args e)) @ event_call c v e"

text \<open>A blank line precedes a handler call that follows the decoding.\<close>

definition event_text :: "config \<Rightarrow> string \<Rightarrow> interface \<Rightarrow> message \<Rightarrow> string" where
  "event_text c ifaceName v e =
     concat (map estmt_text (event_guard c v e @ [VarEvent (ifaceName @ toCamel c (m_Name e))] @ event_cursor e @
       concat (map (arg_reads c) (m_Args e)))) @
     (if isDeleteID c v e \<or> isDisplayError c v e then [] else [LF]) @ concat (map estmt_text (event_call c v e))"

text \<open>The cases of a \<open>switch\<close>, by opcode.\<close>

definition numbered :: "'a list \<Rightarrow> (nat \<times> 'a) list" where
  "numbered xs = zip [0..<length xs] xs"

definition fd_opcodes :: "interface \<Rightarrow> nat list" where
  "fd_opcodes v = map fst (filter (\<lambda>(n, e). has_fd e) (numbered (i_Events v)))"

definition HasFD_text :: "string \<Rightarrow> interface \<Rightarrow> string" where
  "HasFD_text ifaceName v =
     ''func (i *'' @ ifaceName @ '') HasFD(opcode uint32) bool {'' @ [LF] @
     (if \<not> list_ex has_fd (i_Events v) then ''return false'' @ [LF]
      else ''switch opcode {'' @ [LF] @
        concat (map (\<lambda>n. ''case '' @ decimal n @ '':'' @ [LF] @ ''return true'' @ [LF]) (fd_opcodes v)) @
        ''default:'' @ [LF] @ ''return false'' @ [LF] @ ''}'' @ [LF]) @ ''}'' @ [LF]"

definition Dispatch_text :: "config \<Rightarrow> string \<Rightarrow> interface \<Rightarrow> string" where
  "Dispatch_text c ifaceName v =
     ''func (i *'' @ ifaceName @ '') Dispatch(opcode uint32, fd int, data []byte) {'' @ [LF] @ ''switch opcode {'' @ [LF] @
     concat (map (\<lambda>(n, e). ''case '' @ decimal n @ '':'' @ [LF] @ event_text c ifaceName v e) (numbered (i_Events v))) @
     ''default:'' @ [LF] @ ''panic('' @ quoted ''client: unsupported opcode'' @ '')'' @ [LF] @ ''}'' @ [LF] @ ''}'' @ [LF]"

section \<open>The absorber\<close>

definition arg_absorbs :: "config \<Rightarrow> arg \<Rightarrow> estmt list" where
  "arg_absorbs c a =
     (let x = toLowerCamel c (a_Name a); q = qual c in
      if a_Type a \<in> {''object'', ''new_id''} then
        (if a_Interface a \<noteq> []
         then LetID q '' '' x # (if is_new a then [IfFresh x (interfaceNameForArg c (p_Name (protocol c)) (a_Interface a))] else [])
         else []) @ [Skip]
      else if a_Type a \<in> {''uint'', ''int'', ''fixed''} then [Skip]
      else if a_Type a \<in> {''string'', ''array''} then
        [CheckLen (a_Type a), LetWire q x, CheckWire x (a_Type a), SkipWire q x]
      else [])"

definition absorb_body :: "config \<Rightarrow> message \<Rightarrow> estmt list" where
  "absorb_body c e = LetL # concat (map (arg_absorbs c) (m_Args e))"

definition introducing :: "interface \<Rightarrow> (nat \<times> message) list" where
  "introducing v = filter (\<lambda>(n, e). has_new e) (numbered (i_Events v))"

definition writeNewIDAbsorber :: "config \<Rightarrow> string \<Rightarrow> interface \<Rightarrow> string" where
  "writeNewIDAbsorber c ifaceName v =
     (if \<not> list_ex has_new (i_Events v) then []
      else ''// AbsorbNewIDs registers zombie placeholders for objects a destroyed'' @ [LF] @
        ''// proxy'' @ [CHR 0x27] @ ''s in-flight event introduces, so their follow-up events are'' @ [LF] @
        ''// discarded instead of hitting an unknown sender.'' @ [LF] @
        ''func (i *'' @ ifaceName @ '') AbsorbNewIDs(opcode uint32, data []byte) {'' @ [LF] @ ''switch opcode {'' @ [LF] @
        concat (map (\<lambda>(n, e). ''case '' @ decimal n @ '':'' @ [LF] @ concat (map estmt_text (absorb_body c e))) (introducing v)) @
        ''}'' @ [LF] @ ''}'' @ [LF])"

definition writeEventDispatcher :: "config \<Rightarrow> string \<Rightarrow> interface \<Rightarrow> string" where
  "writeEventDispatcher c ifaceName v =
     (if i_Events v = [] then []
      else HasFD_text ifaceName v @ Dispatch_text c ifaceName v @ writeNewIDAbsorber c ifaceName v)"

section \<open>Event types\<close>

definition field_type :: "config \<Rightarrow> arg \<Rightarrow> string list" where
  "field_type c a =
     (if a_Type a \<in> {''object'', ''new_id''} then [if a_Interface a \<noteq> [] then ''*'' @ arg_iface c a else ''Proxy'']
      else if a_Type a = ''string'' then [(if a_AllowNull a then ''*'' else []) @ typeToGoType (a_Type a)]
      else if a_Type a \<in> {''int'', ''uint'', ''fixed'', ''array'', ''fd''} then [typeToGoType (a_Type a)]
      else [])"

definition field_text :: "config \<Rightarrow> arg \<Rightarrow> string" where
  "field_text c a =
     (let f = toCamel c (a_Name a) in
      (if d_Summary (a_Description a) \<noteq> [] then ''// '' @ f @ '' '' @ Synopsis c (d_Summary (a_Description a)) @ [LF] else []) @
      comment (d_Text (a_Description a)) @
      concat (map (\<lambda>t. f @ '' '' @ t @ [LF]) (field_type c a)))"

definition writeEvent :: "config \<Rightarrow> string \<Rightarrow> message \<Rightarrow> string" where
  "writeEvent c ifaceName e =
     (let n = ifaceName @ toCamel c (m_Name e); s = toCamel c (m_Name e) in
      ''// '' @ n @ ''Event : '' @ Synopsis c (d_Summary (m_Description e)) @ [LF] @ comment (d_Text (m_Description e)) @
      ''type '' @ n @ ''Event struct {'' @ [LF] @ concat (map (field_text c) (m_Args e)) @ ''}'' @ [LF] @
      ''type '' @ n @ ''HandlerFunc func('' @ n @ ''Event)'' @ [LF] @
      ''// Set'' @ s @ ''Handler : sets handler for '' @ n @ ''Event'' @ [LF] @
      ''func (i *'' @ ifaceName @ '') Set'' @ s @ ''Handler(f '' @ n @ ''HandlerFunc) {'' @ [LF] @
      ''i.'' @ toLowerCamel c (m_Name e) @ ''Handler = f'' @ [LF] @ ''}'' @ [LF])"

end
