(* ===== verification/Scanner_File.thy ===== *)
theory Scanner_File
  imports Scanner_Event
begin

text \<open>
  The file that the scanner writes before it is formatted: \<open>writeInterface\<close>, \<open>writeEnum\<close> and the part of
  \<open>main\<close> between decoding the protocol and \<open>fmtFile\<close>, with the one error that this part reports.
\<close>

section \<open>Enums\<close>

definition enum_switch :: "config \<Rightarrow> string \<Rightarrow> string \<Rightarrow> enum \<Rightarrow> (entry \<Rightarrow> string) \<Rightarrow> string" where
  "enum_switch c n method e f =
     ''func (e '' @ n @ '') '' @ method @ ''() string {'' @ [LF] @ ''switch e {'' @ [LF] @
     concat (map (\<lambda>x. ''case '' @ n @ toCamel c (en_Name x) @ '':'' @ [LF] @ ''return '' @ quoted (f x) @ [LF]) (e_Entries e)) @
     ''default:'' @ [LF] @ ''return '' @ quoted [] @ [LF] @ ''}'' @ [LF] @ ''}'' @ [LF]"

definition enum_const :: "config \<Rightarrow> string \<Rightarrow> entry \<Rightarrow> string" where
  "enum_const c n x =
     (if en_Summary x \<noteq> [] then ''// '' @ n @ toCamel c (en_Name x) @ '' : '' @ Synopsis c (en_Summary x) @ [LF] else []) @
     n @ toCamel c (en_Name x) @ '' '' @ n @ '' = '' @ en_Value x @ [LF]"

definition writeEnum :: "config \<Rightarrow> string \<Rightarrow> enum \<Rightarrow> string" where
  "writeEnum c ifaceName e =
     (let n = ifaceName @ toCamel c (e_Name e) in
      ''type '' @ n @ '' uint32'' @ [LF] @
      ''// '' @ n @ '' : '' @ Synopsis c (d_Summary (e_Description e)) @ [LF] @ comment (d_Text (e_Description e)) @
      ''const ('' @ [LF] @ concat (map (enum_const c n) (e_Entries e)) @ '')'' @ [LF] @
      enum_switch c n ''Name'' e en_Name @ enum_switch c n ''Value'' e en_Value @
      ''func (e '' @ n @ '') String() string {'' @ [LF] @
      ''return  e.Name() + '' @ quoted ''='' @ '' +  e.Value()'' @ [LF] @ ''}'' @ [LF])"

section \<open>Interfaces\<close>

definition interface_names :: "string \<Rightarrow> interface \<Rightarrow> string" where
  "interface_names ifaceName v =
     ''// '' @ ifaceName @ ''InterfaceName is the name of the interface as it appears in the [client.Registry].'' @ [LF] @
     ''// It can be used to match the [client.RegistryGlobalEvent.Interface] in the'' @ [LF] @
     ''// [Registry.SetGlobalHandler] and can be used in [Registry.Bind] if this applies.'' @ [LF] @
     ''const '' @ ifaceName @ ''InterfaceName = '' @ quoted (i_Name v) @ [LF]"

definition interface_struct :: "config \<Rightarrow> string \<Rightarrow> interface \<Rightarrow> string" where
  "interface_struct c ifaceName v =
     ''// '' @ ifaceName @ '' : '' @ Synopsis c (d_Summary (i_Description v)) @ [LF] @ comment (d_Text (i_Description v)) @
     ''type '' @ ifaceName @ '' struct {'' @ [LF] @ qual c @ ''BaseProxy'' @ [LF] @
     concat (map (\<lambda>e. toLowerCamel c (m_Name e) @ ''Handler '' @ ifaceName @ toCamel c (m_Name e) @ ''HandlerFunc'' @ [LF]) (i_Events v)) @
     ''}'' @ [LF]"

definition interface_new :: "config \<Rightarrow> string \<Rightarrow> interface \<Rightarrow> string" where
  "interface_new c ifaceName v =
     (let x = toLowerCamel c (i_Name v) in
      ''// New'' @ ifaceName @ '' : '' @ Synopsis c (d_Summary (i_Description v)) @ [LF] @ comment (d_Text (i_Description v)) @
      ''func New'' @ ifaceName @ ''(ctx *'' @ qual c @ ''Context) *'' @ ifaceName @ '' {'' @ [LF] @
      x @ '' := &'' @ ifaceName @ ''{}'' @ [LF] @ ''ctx.Register('' @ x @ '')'' @ [LF] @ ''return '' @ x @ [LF] @ ''}'' @ [LF])"

text \<open>An interface without a destructor gets a local \<open>Destroy\<close> that only marks the proxy.\<close>

definition local_destroy :: "string \<Rightarrow> interface \<Rightarrow> string" where
  "local_destroy ifaceName v =
     (if hasDestructor v then []
      else ''func (i *'' @ ifaceName @ '') Destroy() (error) {'' @ [LF] @ ''i.MarkZombie()'' @ [LF] @ ''return nil'' @ [LF] @ ''}'' @ [LF])"

definition writeInterface :: "config \<Rightarrow> interface \<Rightarrow> string" where
  "writeInterface c v =
     (let n = toCamel c (i_Name v) in
      interface_names n v @ interface_struct c n v @ interface_new c n v @
      concat (map (\<lambda>(k, r). writeRequest c n v k r) (numbered (i_Requests v))) @ local_destroy n v @
      concat (map (writeEnum c n) (i_Enums v)) @ concat (map (writeEvent c n) (i_Events v)) @ writeEventDispatcher c n v)"

section \<open>The file\<close>

text \<open>\<open>%q\<close> of an import path, which is ASCII.\<close>

definition hex :: "nat \<Rightarrow> char" where
  "hex n = char_of (if n < 10 then 48 + n else 87 + n)"

definition escape :: "char \<Rightarrow> string" where
  "escape x =
     (let n = of_char x :: nat in
      if n = 0x22 then [CHR 0x5C, CHR 0x22] else if n = 0x5C then [CHR 0x5C, CHR 0x5C]
      else if n \<in> {7, 8, 9, 10, 11, 12, 13} then [CHR 0x5C, ''abtnvfr'' ! (n - 7)]
      else if n < 32 \<or> n = 127 then [CHR 0x5C, CHR ''x'', hex (n div 16), hex (n mod 16)]
      else [x])"

definition Quote :: "string \<Rightarrow> string" where
  "Quote s = quoted (concat (map escape s))"

definition file_header :: "config \<Rightarrow> string \<Rightarrow> string \<Rightarrow> string" where
  "file_header c inputFile packageName =
     ''// Generated by go-wayland-scanner'' @ [LF] @
     ''// https://github.com/Nomadcxx/sysc-wayland/cmd/sysc-wayland-scanner'' @ [LF] @
     ''// XML file : '' @ inputFile @ [LF] @ ''//'' @ [LF] @
     ''// '' @ p_Name (protocol c) @ '' Protocol Copyright: '' @ [LF] @ comment (p_Copyright (protocol c)) @
     [LF] @ [LF] @ ''package '' @ packageName @ [LF]"

definition file_imports :: "config \<Rightarrow> string \<Rightarrow> string" where
  "file_imports c xdgShellImport =
     (if p_Name (protocol c) \<noteq> ''wayland'' then ''import '' @ quoted ''github.com/Nomadcxx/sysc-wayland/client'' @ [LF] else []) @
     (if requiresXDGImport c then ''import xdg_shell '' @ Quote xdgShellImport @ [LF] else [])"

definition scan :: "config \<Rightarrow> string \<Rightarrow> string \<Rightarrow> string \<Rightarrow> string + string" where
  "scan c inputFile packageName xdgShellImport =
     (if requiresXDGImport c \<and> xdgShellImport = [] then Inl ''-xdg-shell-import is required for external xdg_* interfaces''
      else Inr (file_header c inputFile packageName @ file_imports c xdgShellImport @
        concat (map (writeInterface c) (p_Interfaces (protocol c)))))"

end
