(* ===== verification/Scanner_Main.thy ===== *)
theory Scanner_Main
  imports Scanner_File Connect
begin

text \<open>
  The command itself: \<open>main\<close>, \<open>getInputFile\<close> with its download cache, and \<open>fmtFile\<close>. The files of the machine, its log and the URLs
  fetched are the state; the operating system, the network, the XML decoder, the hash and the two formatters are
  parameters. The theory shows where the input comes from, when the cache answers, and what the output file holds for
  every way the command ends.
\<close>

section \<open>The machine\<close>

record flags =
  inputFile :: string
  outputFile :: string
  packageName :: string
  flag_prefix :: string
  flag_suffix :: string
  xdgShellImport :: string

record machine =
  files :: "string \<Rightarrow> string option"
  logged :: "gerr list"
  fetched :: "string list"

text \<open>What a reader gives: its bytes, and the error that ends them if it is not the end of the file.\<close>

type_synonym source = "string \<times> gerr option"

record response =
  StatusCode :: nat
  Body :: source

text \<open>
  The calls: \<open>open_fault\<close> is the error of an \<open>os.Open\<close> that fails for another reason than a missing file, \<open>read_fault\<close> one of a later read.
  \<open>write_fault\<close> says how an \<open>os.WriteFile\<close> of a text fails, with the number of bytes it stored if it had opened the file;
  \<open>dst_fault\<close> says it of a \<open>Write\<close>.
\<close>

record tools =
  Getenv :: "string \<Rightarrow> string"
  MkdirAll :: "string \<Rightarrow> gerr option"
  open_fault :: "string \<Rightarrow> gerr option"
  read_fault :: "string \<Rightarrow> gerr option"
  Get :: "string \<Rightarrow> gerr + response"
  write_fault :: "string \<Rightarrow> string \<Rightarrow> (nat option \<times> gerr) option"
  Sum512 :: "string \<Rightarrow> bytes"
  Decode :: "source \<Rightarrow> gerr + protocol"
  src_close :: "gerr option"
  create_fault :: "string \<Rightarrow> gerr option"
  dst_fault :: "string \<Rightarrow> string \<Rightarrow> (nat \<times> gerr) option"
  dst_close :: "gerr option"
  Process :: "string \<Rightarrow> gerr + string"
  go_list :: "string \<times> gerr option"
  gofumpt :: "string \<Rightarrow> string \<Rightarrow> gerr + string"
  strcase_Camel :: "string \<Rightarrow> string"
  strcase_LowerCamel :: "string \<Rightarrow> string"
  doc_Synopsis :: "string \<Rightarrow> string"

text \<open>Errors as \<open>fmt.Errorf\<close> and \<open>log.Fatalf\<close> print them, and the ways the command ends.\<close>

datatype failure = Cause gerr | Message string | Prefixed string failure

datatype outcome = Usage | Fatal failure | Finished

text \<open>\<open>ENOENT\<close>, the error that is \<open>os.ErrNotExist\<close>.\<close>

definition ENOENT :: gerr where
  "ENOENT = OsError 2 False"

definition os_Open :: "tools \<Rightarrow> string \<Rightarrow> machine \<Rightarrow> gerr + source" where
  "os_Open T path m =
     (case open_fault T path of Some e \<Rightarrow> Inl e
      | None \<Rightarrow> (case files m path of None \<Rightarrow> Inl ENOENT | Some s \<Rightarrow> Inr (s, read_fault T path)))"

definition WriteFile :: "tools \<Rightarrow> string \<Rightarrow> string \<Rightarrow> machine \<Rightarrow> gerr option \<times> machine" where
  "WriteFile T path s m =
     (case write_fault T path s of
        None \<Rightarrow> (None, m\<lparr>files := (files m)(path \<mapsto> s)\<rparr>)
      | Some (None, e) \<Rightarrow> (Some e, m)
      | Some (Some n, e) \<Rightarrow> (Some e, m\<lparr>files := (files m)(path \<mapsto> take n s)\<rparr>))"

text \<open>\<open>filepath.Join\<close> of two elements, of which empty ones are dropped.\<close>

definition filepath_Join :: "string \<Rightarrow> string \<Rightarrow> string" where
  "filepath_Join a b = (if a = [] then if b = [] then [] else Clean b else if b = [] then Clean a else Join a b)"

definition EncodeToString :: "bytes \<Rightarrow> string" where
  "EncodeToString bs = concat (map (\<lambda>b. [hex (unat b div 16), hex (unat b mod 16)]) bs)"

section \<open>The input\<close>

text \<open>The cache directory, empty when the cache is off.\<close>

definition cache_dir :: "tools \<Rightarrow> failure + string" where
  "cache_dir T =
     (if Getenv T ''WAYLAND_SCANNER_USE_CACHE'' = ''1'' then
        let home = Getenv T ''XDG_CACHE_HOME'';
            xdgCacheHome = (if home = [] then filepath_Join (Getenv T ''HOME'') ''.cache'' else home);
            dir = filepath_Join xdgCacheHome ''go-wayland/scanner''
        in case MkdirAll T dir of
             Some e \<Rightarrow> Inl (Prefixed ''failed to create cache directory with enabled cache: '' (Cause e))
           | None \<Rightarrow> Inr dir
      else Inr [])"

definition pathToFile :: "tools \<Rightarrow> string \<Rightarrow> string \<Rightarrow> string \<Rightarrow> string" where
  "pathToFile T pkg dir file = filepath_Join dir (pkg @ ''-'' @ take 15 (EncodeToString (Sum512 T file)))"

definition lookup_cache :: "tools \<Rightarrow> string \<Rightarrow> string \<Rightarrow> string \<Rightarrow> machine \<Rightarrow> (failure + source) option" where
  "lookup_cache T pkg dir file m =
     (if dir = [] then None
      else case os_Open T (pathToFile T pkg dir file) m of
          Inl e \<Rightarrow> if e = ENOENT then None else Some (Inl (Prefixed ''unable to open cached file: '' (Cause e)))
        | Inr h \<Rightarrow> Some (Inr h))"

definition getInputFile :: "tools \<Rightarrow> string \<Rightarrow> string \<Rightarrow> string \<Rightarrow> machine \<Rightarrow> (failure + source) \<times> machine" where
  "getInputFile T pkg dir file m =
     (if HasPrefix file ''http'' then
        case lookup_cache T pkg dir file m of
          Some r \<Rightarrow> (r, m)
        | None \<Rightarrow>
            let m1 = m\<lparr>fetched := fetched m @ [file]\<rparr> in
            (case Get T file of
               Inl e \<Rightarrow> (Inl (Cause e), m1)
             | Inr resp \<Rightarrow>
                 if dir = [] then (Inr (Body resp), m1)
                 else
                   (case Body resp of
                      (_, Some e) \<Rightarrow> (Inl (Prefixed ''unable to read response body: '' (Cause e)), m1)
                    | (body, None) \<Rightarrow>
                        (case WriteFile T (pathToFile T pkg dir file) body m1 of
                           (Some e, m2) \<Rightarrow> (Inl (Prefixed ''unable to save file to cache: '' (Cause e)), m2)
                         | (None, m2) \<Rightarrow> (Inr (body, None), m2))))
      else (case os_Open T file m of Inl e \<Rightarrow> (Inl (Cause e), m) | Inr h \<Rightarrow> (Inr h, m)))"

section \<open>The output\<close>

text \<open>The version of the language, from the first line that \<open>go list\<close> prints.\<close>

definition langVersion :: "string \<times> gerr option \<Rightarrow> string" where
  "langVersion r =
     (let out = TrimSpace (takeWhile (\<lambda>x. x \<noteq> LF) (fst r)) in
      if snd r = None \<and> out \<noteq> [] then ''go'' @ TrimPrefix out ''go'' else [])"

definition fmtFile :: "tools \<Rightarrow> string \<Rightarrow> failure + string" where
  "fmtFile T b =
     (case Process T b of
        Inl e \<Rightarrow> Inl (Prefixed ''cannot run goimports on file: '' (Cause e))
      | Inr b1 \<Rightarrow>
          (case gofumpt T (langVersion (go_list T)) b1 of
             Inl e \<Rightarrow> Inl (Prefixed ''cannot run gofumpt on file: '' (Cause e))
           | Inr b2 \<Rightarrow> Inr b2))"

text \<open>\<open>os.Create\<close> comes before \<open>fmtFile\<close>, and truncates.\<close>

definition write_output :: "tools \<Rightarrow> string \<Rightarrow> string \<Rightarrow> machine \<Rightarrow> outcome \<times> machine" where
  "write_output T path w m =
     (case create_fault T path of
        Some e \<Rightarrow> (Fatal (Prefixed ''unable to create output file: '' (Cause e)), m)
      | None \<Rightarrow>
          let m1 = m\<lparr>files := (files m)(path \<mapsto> [])\<rparr> in
          (case fmtFile T w of
             Inl e \<Rightarrow> (Fatal e, m1)
           | Inr b \<Rightarrow>
               (case dst_fault T path b of
                  Some (n, e) \<Rightarrow> (Fatal (Prefixed ''unable to copy to output file: '' (Cause e)),
                    m1\<lparr>files := (files m1)(path \<mapsto> take n b)\<rparr>)
                | None \<Rightarrow>
                    let m2 = m1\<lparr>files := (files m1)(path \<mapsto> b)\<rparr> in
                    (case dst_close T of
                       Some e \<Rightarrow> (Fatal (Prefixed ''unable to close to output file: '' (Cause e)), m2)
                     | None \<Rightarrow> (Finished, m2)))))"

section \<open>The command\<close>

definition scan_config :: "tools \<Rightarrow> flags \<Rightarrow> protocol \<Rightarrow> config" where
  "scan_config T fl p = \<lparr>protocol = p, cf_prefix = flag_prefix fl, cf_suffix = flag_suffix fl,
     ToCamel = strcase_Camel T, ToLowerCamel = strcase_LowerCamel T, Synopsis = doc_Synopsis T\<rparr>"

definition scan_main :: "tools \<Rightarrow> flags \<Rightarrow> machine \<Rightarrow> outcome \<times> machine" where
  "scan_main T fl m =
     (if inputFile fl = [] \<or> outputFile fl = [] then (Usage, m)
      else case cache_dir T of
        Inl e \<Rightarrow> (Fatal e, m)
      | Inr dir \<Rightarrow>
          (case getInputFile T (packageName fl) dir (inputFile fl) m of
             (Inl e, m1) \<Rightarrow> (Fatal (Prefixed ''unable to get input file: '' e), m1)
           | (Inr src, m1) \<Rightarrow>
               (case Decode T src of
                  Inl e \<Rightarrow> (Fatal (Prefixed ''unable to decode protocol xml: '' (Cause e)), m1)
                | Inr p \<Rightarrow>
                    let m2 = (case src_close T of None \<Rightarrow> m1 | Some e \<Rightarrow> m1\<lparr>logged := logged m1 @ [e]\<rparr>) in
                    (case scan (scan_config T fl p) (inputFile fl) (packageName fl) (xdgShellImport fl) of
                       Inl msg \<Rightarrow> (Fatal (Message msg), m2)
                     | Inr w \<Rightarrow> write_output T (outputFile fl) w m2))))"

section \<open>Where the input comes from\<close>

lemma os_Open_present: "os_Open T path m = Inr h \<Longrightarrow> files m path = Some (fst h)"
  by (auto simp: os_Open_def split: option.splits)

text \<open>A file that is there is read, and a failing read is not taken for a missing file.\<close>

lemma lookup_cache_hit:
  "dir \<noteq> [] \<Longrightarrow> files m (pathToFile T pkg dir file) = Some s \<Longrightarrow> open_fault T (pathToFile T pkg dir file) = None \<Longrightarrow>
   lookup_cache T pkg dir file m = Some (Inr (s, read_fault T (pathToFile T pkg dir file)))"
  by (simp add: lookup_cache_def os_Open_def)

lemma getInputFile_local:
  "\<not> HasPrefix file ''http'' \<Longrightarrow> snd (getInputFile T pkg dir file m) = m"
  by (simp add: getInputFile_def split: sum.splits)

text \<open>Only the cache file is ever written, and only the URL is fetched, at most once.\<close>

lemma getInputFile_frame:
  assumes "getInputFile T pkg dir file m = (r, m')"
  shows "path \<noteq> pathToFile T pkg dir file \<Longrightarrow> files m' path = files m path"
    and "dir = [] \<Longrightarrow> files m' = files m"
    and "logged m' = logged m" "fetched m' = fetched m \<or> fetched m' = fetched m @ [file]"
  using assms
  by (auto simp: getInputFile_def WriteFile_def Let_def split: if_splits option.splits sum.splits prod.splits)

text \<open>
  The cache works: a download that succeeded with the cache on is what the next run reads, without the network.
\<close>

theorem cached_download_reused:
  assumes "HasPrefix file ''http''" "dir \<noteq> []" "getInputFile T pkg dir file m = (Inr src, m')" "fetched m' \<noteq> fetched m"
    and "open_fault T (pathToFile T pkg dir file) = None" "read_fault T (pathToFile T pkg dir file) = None"
  shows "getInputFile T pkg dir file m' = (Inr src, m')"
proof -
  have "lookup_cache T pkg dir file m = None" using assms(1,3,4) by (auto simp: getInputFile_def split: option.splits)
  then obtain body where "src = (body, None)" "files m' (pathToFile T pkg dir file) = Some body"
    using assms(1-4) by (auto simp: getInputFile_def WriteFile_def Let_def eq_commute [of "(_, _)" "Body _"]
        split: if_splits option.splits sum.splits prod.splits)
  then show ?thesis using assms(1,2,5,6) by (simp add: getInputFile_def lookup_cache_hit)
qed

text \<open>The status of the answer is never looked at: the page of a failed download is cached and reused like a protocol.\<close>

theorem error_page_cached:
  assumes "HasPrefix file ''http''" "dir \<noteq> []"
    and "files m (pathToFile T pkg dir file) = None" "open_fault T (pathToFile T pkg dir file) = None"
    and "Get T file = Inr \<lparr>StatusCode = status, Body = (page, None)\<rparr>" "write_fault T (pathToFile T pkg dir file) page = None"
  shows "getInputFile T pkg dir file m = (Inr (page, None),
    m\<lparr>fetched := fetched m @ [file], files := (files m)(pathToFile T pkg dir file \<mapsto> page)\<rparr>)"
  using assms by (simp add: getInputFile_def lookup_cache_def os_Open_def ENOENT_def WriteFile_def Let_def)

section \<open>What the output file holds\<close>

text \<open>The stages up to the text, and what they leave.\<close>

definition emitted_text :: "tools \<Rightarrow> flags \<Rightarrow> source \<Rightarrow> string option" where
  "emitted_text T fl src =
     (case Decode T src of Inl _ \<Rightarrow> None
      | Inr p \<Rightarrow> (case scan (scan_config T fl p) (inputFile fl) (packageName fl) (xdgShellImport fl) of Inl _ \<Rightarrow> None | Inr w \<Rightarrow> Some w))"

text \<open>The cache file of a run, if the cache is on.\<close>

definition cache_file :: "tools \<Rightarrow> flags \<Rightarrow> string option" where
  "cache_file T fl =
     (case cache_dir T of Inl _ \<Rightarrow> None
      | Inr dir \<Rightarrow> if dir = [] then None else Some (pathToFile T (packageName fl) dir (inputFile fl)))"

lemma getInputFile_files:
  assumes "getInputFile T (packageName fl) dir (inputFile fl) m = (r, m1)" "cache_dir T = Inr dir" "cache_file T fl \<noteq> Some path"
  shows "files m1 path = files m path"
  using getInputFile_frame [OF assms(1)] assms(2,3) by (cases "dir = []") (auto simp: cache_file_def)

text \<open>A text that reached the output file: all of it, a part of it, or nothing where it could not be formatted.\<close>

definition attempted :: "tools \<Rightarrow> string \<Rightarrow> string option \<Rightarrow> bool" where
  "attempted T w s \<longleftrightarrow> (case fmtFile T w of Inl _ \<Rightarrow> s = Some [] | Inr b \<Rightarrow> \<exists>n. s = Some (take n b))"

lemma write_output_files:
  assumes "write_output T path w m = (out, m')"
  shows "out = Finished \<Longrightarrow> \<exists>b. fmtFile T w = Inr b \<and> files m' = (files m)(path \<mapsto> b)"
    and "out \<noteq> Finished \<Longrightarrow> files m' path = files m path \<or> attempted T w (files m' path)"
    and "p \<noteq> path \<Longrightarrow> files m' p = files m p" "out \<noteq> Usage"
proof -
  have all: "\<exists>n. Some b = Some (take n b)" for b :: string by (metis take_all order_refl)
  show "out = Finished \<Longrightarrow> \<exists>b. fmtFile T w = Inr b \<and> files m' = (files m)(path \<mapsto> b)"
    and "out \<noteq> Finished \<Longrightarrow> files m' path = files m path \<or> attempted T w (files m' path)"
    and "p \<noteq> path \<Longrightarrow> files m' p = files m p" "out \<noteq> Usage"
    using assms all by (auto simp: write_output_def attempted_def Let_def split: option.splits sum.splits prod.splits)
qed

text \<open>The stages of a run that gets as far as writing.\<close>

lemma scan_main_cases:
  assumes "scan_main T fl m = (out, m')"
  obtains "out = Usage" "m' = m"
  | e where "out = Fatal e" "\<And>path. cache_file T fl \<noteq> Some path \<Longrightarrow> files m' path = files m path"
  | dir src m1 w where "cache_dir T = Inr dir" "getInputFile T (packageName fl) dir (inputFile fl) m = (Inr src, m1)"
      "emitted_text T fl src = Some w"
      "\<exists>m2. files m2 = files m1 \<and> write_output T (outputFile fl) w m2 = (out, m')"
proof -
  consider "inputFile fl = [] \<or> outputFile fl = []" | e where "cache_dir T = Inl e" "inputFile fl \<noteq> []" "outputFile fl \<noteq> []"
    | dir r m1 where "cache_dir T = Inr dir" "inputFile fl \<noteq> []" "outputFile fl \<noteq> []"
        "getInputFile T (packageName fl) dir (inputFile fl) m = (r, m1)"
    by (cases "cache_dir T"; cases "getInputFile T (packageName fl) (projr (cache_dir T)) (inputFile fl) m") auto
  then show thesis
  proof cases
    case 1
    then show thesis using assms that(1) by (auto simp: scan_main_def)
  next
    case 2
    then show thesis using assms that(2) by (auto simp: scan_main_def)
  next
    case 3
    note F = getInputFile_files [OF 3(4,1)]
    show thesis
    proof (cases r)
      case (Inl e)
      then show thesis using assms 3 F that(2) by (auto simp: scan_main_def)
    next
      case (Inr src)
      let ?m2 = "case src_close T of None \<Rightarrow> m1 | Some e \<Rightarrow> m1\<lparr>logged := logged m1 @ [e]\<rparr>"
      have m2: "files ?m2 = files m1" by (simp split: option.splits)
      show thesis
      proof (cases "emitted_text T fl src")
        case None
        then have "\<exists>e. out = Fatal e" "files m' = files m1"
          using assms 3 Inr m2 by (auto simp: scan_main_def emitted_text_def Let_def split: sum.splits)
        then show thesis using that(2) F by metis
      next
        case (Some w)
        then have "write_output T (outputFile fl) w ?m2 = (out, m')"
          using assms 3 Inr by (auto simp: scan_main_def emitted_text_def Let_def split: sum.splits)
        then show thesis using that(3) 3(1,4) Inr Some m2 by blast
      qed
    qed
  qed
qed

text \<open>A text that goimports or gofumpt refuses costs the output file: it has been truncated by then.\<close>

theorem failed_format_empties_output:
  assumes "inputFile fl \<noteq> []" "outputFile fl \<noteq> []" "cache_dir T = Inr dir"
    and "getInputFile T (packageName fl) dir (inputFile fl) m = (Inr src, m1)" "emitted_text T fl src = Some w"
    and "create_fault T (outputFile fl) = None" "fmtFile T w = Inl e"
  shows "fst (scan_main T fl m) = Fatal e \<and> files (snd (scan_main T fl m)) (outputFile fl) = Some []"
  using assms by (auto simp: scan_main_def emitted_text_def write_output_def Let_def split: sum.splits)

end
