(* ===== verification/Scanner_Exec.thy ===== *)
theory Scanner_Exec
  imports Scanner_Request Request_Build
begin

unbundle bit_operations_syntax

text \<open>
  What the emitted statements of a request do when Go runs them: a semantics of the statements over the
  client's state, and the proof that a generated request is the request its protocol description asks for
  (\<open>request\<close> of Request_Build over one put per argument). The locals of the method are a record; a
  statement that Go would not compile, because a name is not declared with the type it is used at, raises
  \<open>ill_formed\<close>, and the theorem shows that this never happens.
\<close>

section \<open>Values and locals\<close>

datatype gov =
    GWord u32
  | GFixed rat
  | GString bytes
  | GOptString "bytes option"
  | GArray bytes
  | GFd int
  | GObj "ref option"

record locals =
  lc_vars :: "string \<Rightarrow> gov option"
  lc_lens :: "string \<Rightarrow> nat option"
  lc_opcode :: u32
  lc_len :: nat
  lc_buf :: bytes
  lc_l :: nat
  lc_oob :: bytes
  lc_err :: "gerr option"

definition start_locals :: "(string \<Rightarrow> gov option) \<Rightarrow> locals" where
  "start_locals vars = \<lparr>lc_vars = vars, lc_lens = (\<lambda>_. None), lc_opcode = 0, lc_len = 0, lc_buf = [], lc_l = 0,
     lc_oob = [], lc_err = None\<rparr>"

definition ill_formed :: "('k world, 'a) go" where
  "ill_formed = raise (PanicMsg ''the generated method does not compile'')"

definition size_val :: "locals \<Rightarrow> size \<Rightarrow> nat option" where
  "size_val lc s = (case s of Bytes n \<Rightarrow> Some n | Slot x \<Rightarrow> map_option (\<lambda>n. 4 + n) (lc_lens lc x))"

fun sizes_val :: "locals \<Rightarrow> size list \<Rightarrow> nat option" where
  "sizes_val lc [] = Some 0"
| "sizes_val lc (s # ss) = (case (size_val lc s, sizes_val lc ss) of (Some a, Some b) \<Rightarrow> Some (a + b) | _ \<Rightarrow> None)"

text \<open>Writing the buffer at the cursor.\<close>

definition put_here :: "locals \<Rightarrow> nat \<Rightarrow> (bytes \<Rightarrow> panic + bytes) \<Rightarrow> ('k world, locals) go" where
  "put_here lc n f = bnd (lift (put_at (lc_buf lc) (lc_l lc) (lc_l lc + n) f)) (\<lambda>b. ret (lc\<lparr>lc_buf := b\<rparr>))"

section \<open>Running statements\<close>

text \<open>\<open>ctors\<close> gives the type a constructor makes, and \<open>i\<close> is the receiver.\<close>

primrec exec :: "'k env \<Rightarrow> (string \<Rightarrow> iface option) \<Rightarrow> ref \<Rightarrow> stmt \<Rightarrow> locals \<Rightarrow> ('k world, locals) go" where
  "exec E ctors i (DeferMark x) lc = ill_formed"
| "exec E ctors i (NewObject x f) lc =
     (case ctors f of None \<Rightarrow> ill_formed
      | Some t \<Rightarrow> bnd (andthen (Context_of i) (New t)) (\<lambda>r. ret (lc\<lparr>lc_vars := (lc_vars lc)(x \<mapsto> GObj (Some r))\<rparr>)))"
| "exec E ctors i (ConstOpcode n) lc = ret (lc\<lparr>lc_opcode := of_nat n\<rparr>)"
| "exec E ctors i (LetStrLen q x) lc =
     (case lc_vars lc x of Some (GString s) \<Rightarrow> ret (lc\<lparr>lc_lens := (lc_lens lc)(x \<mapsto> PaddedLen (length s + 1))\<rparr>) | _ \<Rightarrow> ill_formed)"
| "exec E ctors i (LetOptLen q x) lc =
     (case lc_vars lc x of
        Some (GOptString v) \<Rightarrow>
          ret (lc\<lparr>lc_lens := (lc_lens lc)(x \<mapsto> (case v of None \<Rightarrow> 0 | Some s \<Rightarrow> PaddedLen (length s + 1)))\<rparr>)
      | _ \<Rightarrow> ill_formed)"
| "exec E ctors i (LetArrLen q x) lc =
     (case lc_vars lc x of Some (GArray a) \<Rightarrow> ret (lc\<lparr>lc_lens := (lc_lens lc)(x \<mapsto> PaddedLen (length a))\<rparr>) | _ \<Rightarrow> ill_formed)"
| "exec E ctors i (LetBuf const ss) lc =
     (case sizes_val lc ss of None \<Rightarrow> ill_formed | Some n \<Rightarrow> ret (lc\<lparr>lc_len := n, lc_buf := replicate n 0\<rparr>))"
| "exec E ctors i LetCursor lc = ret (lc\<lparr>lc_l := 0\<rparr>)"
| "exec E ctors i (PutSelf q) lc =
     bnd (ID i) (\<lambda>n. bnd (lift (put_at (lc_buf lc) (lc_l lc) 4 (\<lambda>s. PutUint32 s n))) (\<lambda>b. ret (lc\<lparr>lc_buf := b\<rparr>)))"
| "exec E ctors i (PutHeader q) lc = put_here lc 4 (\<lambda>s. PutUint32 s (opcode_word (of_nat (lc_len lc)) (lc_opcode lc)))"
| "exec E ctors i (PutNull q) lc = put_here lc 4 (\<lambda>s. PutUint32 s 0)"
| "exec E ctors i (PutID q x) lc =
     (case lc_vars lc x of Some (GObj p) \<Rightarrow> bnd (ID_arg p) (\<lambda>n. put_here lc 4 (\<lambda>s. PutUint32 s n)) | _ \<Rightarrow> ill_formed)"
| "exec E ctors i (PutWord q sp x) lc =
     (case lc_vars lc x of Some (GWord v) \<Rightarrow> put_here lc 4 (\<lambda>s. PutUint32 s v) | _ \<Rightarrow> ill_formed)"
| "exec E ctors i (PutFix q x) lc =
     (case lc_vars lc x of Some (GFixed v) \<Rightarrow> put_here lc 4 (\<lambda>s. PutFixed s v) | _ \<Rightarrow> ill_formed)"
| "exec E ctors i (PutStr q ptr slot x) lc =
     (case (lc_lens lc slot, lc_vars lc x) of
        (Some n, Some (GString s)) \<Rightarrow> if ptr then ill_formed else put_here lc (4 + n) (\<lambda>d. PutString d s)
      | (Some n, Some (GOptString v)) \<Rightarrow>
          if ptr then (case v of None \<Rightarrow> raise NilDereference | Some s \<Rightarrow> put_here lc (4 + n) (\<lambda>d. PutString d s)) else ill_formed
      | _ \<Rightarrow> ill_formed)"
| "exec E ctors i (PutArr q x) lc =
     (case (lc_lens lc x, lc_vars lc x) of
        (Some n, Some (GArray a)) \<Rightarrow> put_here lc (4 + n) (\<lambda>d. PutArray d a)
      | _ \<Rightarrow> ill_formed)"
| "exec E ctors i (Advance s) lc =
     (case size_val lc s of None \<Rightarrow> ill_formed | Some n \<Rightarrow> ret (lc\<lparr>lc_l := lc_l lc + n\<rparr>))"
| "exec E ctors i (IfNil x a b c d) lc =
     (case lc_vars lc x of
        Some (GObj p) \<Rightarrow> if p = None then bnd (exec E ctors i a lc) (exec E ctors i b) else bnd (exec E ctors i c lc) (exec E ctors i d)
      | Some (GOptString p) \<Rightarrow> if p = None then bnd (exec E ctors i a lc) (exec E ctors i b) else bnd (exec E ctors i c lc) (exec E ctors i d)
      | _ \<Rightarrow> ill_formed)"
| "exec E ctors i (LetOob x) lc =
     (case lc_vars lc x of Some (GFd fd) \<Rightarrow> ret (lc\<lparr>lc_oob := unix_rights E fd\<rparr>) | _ \<Rightarrow> ill_formed)"
| "exec E ctors i (LetErr const oob) lc =
     bnd (andthen (Context_of i) (WriteMsg E (lc_buf lc) (if oob then lc_oob lc else []))) (\<lambda>e. ret (lc\<lparr>lc_err := e\<rparr>))"
| "exec E ctors i (Return xs) lc = ill_formed"

text \<open>The object a name of the method denotes; \<open>i\<close> is the receiver.\<close>

definition proxy_of :: "ref \<Rightarrow> locals \<Rightarrow> string \<Rightarrow> ('k world, ref) go" where
  "proxy_of i lc x =
     (if x = ''i'' then ret i
      else case lc_vars lc x of Some (GObj p) \<Rightarrow> nonnil p | _ \<Rightarrow> ill_formed)"

definition result_of :: "locals \<Rightarrow> string \<Rightarrow> ref" where
  "result_of lc x = (case lc_vars lc x of Some (GObj (Some r)) \<Rightarrow> r | _ \<Rightarrow> 0)"

text \<open>The body of a method: a deferred call runs after the rest, whatever the rest does.\<close>

fun exec_body :: "'k env \<Rightarrow> (string \<Rightarrow> iface option) \<Rightarrow> ref \<Rightarrow> stmt list \<Rightarrow> locals \<Rightarrow> ('k world, ref list \<times> gerr option) go" where
  "exec_body E ctors i [] lc = ill_formed"
| "exec_body E ctors i (DeferMark x # ss) lc = bnd (proxy_of i lc x) (\<lambda>r. with_defer (MarkZombie r) (exec_body E ctors i ss lc))"
| "exec_body E ctors i (Return xs # ss) lc = ret (map (result_of lc) (butlast xs), lc_err lc)"
| "exec_body E ctors i (s # ss) lc = bnd (exec E ctors i s lc) (exec_body E ctors i ss)"

text \<open>Statements that neither defer nor return run in sequence.\<close>

primrec exec_seq :: "'k env \<Rightarrow> (string \<Rightarrow> iface option) \<Rightarrow> ref \<Rightarrow> stmt list \<Rightarrow> locals \<Rightarrow> ('k world, locals) go" where
  "exec_seq E ctors i [] lc = ret lc"
| "exec_seq E ctors i (s # ss) lc = bnd (exec E ctors i s lc) (exec_seq E ctors i ss)"

primrec straight :: "stmt \<Rightarrow> bool" where
  "straight (DeferMark x) = False"
| "straight (NewObject x f) = True"
| "straight (ConstOpcode n) = True"
| "straight (LetStrLen q x) = True"
| "straight (LetOptLen q x) = True"
| "straight (LetArrLen q x) = True"
| "straight (LetBuf const ss) = True"
| "straight LetCursor = True"
| "straight (PutSelf q) = True"
| "straight (PutHeader q) = True"
| "straight (PutNull q) = True"
| "straight (PutID q x) = True"
| "straight (PutWord q sp x) = True"
| "straight (PutFix q x) = True"
| "straight (PutStr q ptr slot x) = True"
| "straight (PutArr q x) = True"
| "straight (Advance s) = True"
| "straight (IfNil x a b c d) = True"
| "straight (LetOob x) = True"
| "straight (LetErr const oob) = True"
| "straight (Return xs) = False"

lemma bnd_ret [simp]: "bnd m ret = m"
  by (rule ext) (simp add: bnd_def split: prod.splits sum.splits)

lemma ret_bnd [simp]: "bnd (ret a) f = f a"
  by (rule ext) simp

lemma exec_seq_append: "exec_seq E ctors i (ss @ ts) lc = bnd (exec_seq E ctors i ss lc) (exec_seq E ctors i ts)"
proof (induction ss arbitrary: lc)
  case (Cons s ss)
  have "exec_seq E ctors i (ss @ ts) = (\<lambda>lc. bnd (exec_seq E ctors i ss lc) (exec_seq E ctors i ts))"
    by (rule ext) (rule Cons.IH)
  then show ?case by (simp add: bnd_assoc)
qed simp

lemma exec_body_straight: "straight s \<Longrightarrow> exec_body E ctors i (s # ss) lc = bnd (exec E ctors i s lc) (exec_body E ctors i ss)"
  by (cases s) simp_all

lemma exec_body_seq:
  "list_all straight ss \<Longrightarrow> exec_body E ctors i (ss @ ts) lc = bnd (exec_seq E ctors i ss lc) (exec_body E ctors i ts)"
proof (induction ss arbitrary: lc)
  case (Cons s ss)
  have "exec_body E ctors i (ss @ ts) = (\<lambda>lc. bnd (exec_seq E ctors i ss lc) (exec_body E ctors i ts))"
    by (rule ext) (rule Cons.IH, use Cons.prems in simp)
  then show ?case using Cons.prems by (simp add: exec_body_straight bnd_assoc)
qed simp

section \<open>What a request should do\<close>

text \<open>The new objects of a request, created in order.\<close>

primrec create_all :: "ref \<Rightarrow> iface list \<Rightarrow> ('k world, ref list) go" where
  "create_all i [] = ret []"
| "create_all i (t # ts) =
     bnd (andthen (Context_of i) (New t)) (\<lambda>r. bnd (create_all i ts) (\<lambda>rs. ret (r # rs)))"

definition new_args :: "message \<Rightarrow> arg list" where
  "new_args r = filter (\<lambda>a. a_Type a = ''new_id'' \<and> a_Interface a \<noteq> []) (m_Args r)"

definition new_type :: "config \<Rightarrow> (string \<Rightarrow> iface option) \<Rightarrow> arg \<Rightarrow> iface option" where
  "new_type c ctors a = (case arg_news c a of NewObject x f # _ \<Rightarrow> ctors f | _ \<Rightarrow> None)"

text \<open>The puts an argument asks for, if the names it uses hold values of its type.\<close>

definition arg_put :: "config \<Rightarrow> (string \<Rightarrow> gov option) \<Rightarrow> arg \<Rightarrow> put list option" where
  "arg_put c vars a =
     (let x = toLowerCamel c (a_Name a) in
      if a_Type a = ''object'' then
        (case vars x of Some (GObj p) \<Rightarrow> Some [if a_AllowNull a then PNullId p else PId p] | _ \<Rightarrow> None)
      else if a_Type a = ''new_id'' then
        if a_Interface a \<noteq> [] then (case vars x of Some (GObj p) \<Rightarrow> Some [PId p] | _ \<Rightarrow> None)
        else (case (vars ''iface'', vars ''version'', vars ''id'') of
            (Some (GString s), Some (GWord v), Some (GObj p)) \<Rightarrow> Some [PString s (str_len s), PWord v, PId p]
          | _ \<Rightarrow> None)
      else if a_Type a \<in> {''int'', ''uint''} then (case vars x of Some (GWord v) \<Rightarrow> Some [PWord v] | _ \<Rightarrow> None)
      else if a_Type a = ''fixed'' then
        (case vars x of Some (GFixed v) \<Rightarrow> Some [PWord (fixedFromfloat64 v)] | _ \<Rightarrow> None)
      else if a_Type a = ''string'' then
        (case vars x of
           Some (GString s) \<Rightarrow> if a_AllowNull a then None else Some [PString s (str_len s)]
         | Some (GOptString v) \<Rightarrow> if a_AllowNull a then Some [PNullString v (opt_str_len v)] else None
         | _ \<Rightarrow> None)
      else if a_Type a = ''array'' then
        (case vars x of Some (GArray d) \<Rightarrow> Some [PArray d (PaddedLen (length d))] | _ \<Rightarrow> None)
      else if a_Type a = ''fd'' then (case vars x of Some (GFd fd) \<Rightarrow> Some [] | _ \<Rightarrow> None)
      else None)"

definition puts_of :: "config \<Rightarrow> (string \<Rightarrow> gov option) \<Rightarrow> message \<Rightarrow> put list" where
  "puts_of c vars r = concat (map (\<lambda>a. the (arg_put c vars a)) (m_Args r))"

primrec put_size :: "put \<Rightarrow> nat" where
  "put_size (PWord v) = 4"
| "put_size (PId x) = 4"
| "put_size (PNullId x) = 4"
| "put_size (PString s n) = 4 + n"
| "put_size (PNullString x n) = 4 + n"
| "put_size (PArray a n) = 4 + n"

definition oob_of :: "'k env \<Rightarrow> config \<Rightarrow> (string \<Rightarrow> gov option) \<Rightarrow> message \<Rightarrow> bytes" where
  "oob_of E c vars r =
     (if fd_args r = [] then []
      else case vars (toLowerCamel c (a_Name (last (fd_args r)))) of Some (GFd fd) \<Rightarrow> unix_rights E fd | _ \<Rightarrow> [])"

text \<open>The deferred marks around the rest.\<close>

fun deferring :: "ref \<Rightarrow> (string \<Rightarrow> gov option) \<Rightarrow> stmt list \<Rightarrow> ('k world, 'a) go \<Rightarrow> ('k world, 'a) go" where
  "deferring i vars (DeferMark x # ss) m =
     bnd (proxy_of i (start_locals vars) x) (\<lambda>r. with_defer (MarkZombie r) (deferring i vars ss m))"
| "deferring i vars ss m = m"

definition intended :: "'k env \<Rightarrow> config \<Rightarrow> (string \<Rightarrow> iface option) \<Rightarrow> ref \<Rightarrow> (string \<Rightarrow> gov option) \<Rightarrow> interface \<Rightarrow>
    nat \<Rightarrow> message \<Rightarrow> ('k world, ref list \<times> gerr option) go" where
  "intended E c ctors i vars iface opcode r =
     deferring i vars (request_defers c iface r)
       (bnd (create_all i (map (\<lambda>a. the (new_type c ctors a)) (new_args r))) (\<lambda>rs.
        let vars' = vars(newObjects c r [\<mapsto>] map (\<lambda>r. GObj (Some r)) rs); ps = puts_of c vars' r in
        bnd (request E i (of_nat opcode) (8 + sum_list (map put_size ps)) ps (oob_of E c vars r)) (\<lambda>err.
        ret (rs, err))))"

section \<open>Well-formed requests\<close>

text \<open>
  The names the method declares: its receiver, its parameters and new objects, the lengths and the
  fixed locals. Go rejects a method that declares a name twice in its block, and a parameter that
  is a keyword or hides a name the body calls.
\<close>

definition arg_names :: "config \<Rightarrow> arg \<Rightarrow> string list" where
  "arg_names c a = (if a_Type a = ''new_id'' \<and> a_Interface a = [] then [''iface'', ''version'', ''id'']
     else [toLowerCamel c (a_Name a)])"

definition len_names :: "config \<Rightarrow> arg \<Rightarrow> string list" where
  "len_names c a =
     (if a_Type a = ''new_id'' \<and> a_Interface a = [] then [''iface'']
      else if a_Type a \<in> {''string'', ''array''} then [toLowerCamel c (a_Name a)] else [])"

definition fixed_names :: "string list" where
  "fixed_names = [''i'', ''opcode'', ''_reqBufLen'', ''_reqBuf'', ''l'', ''oob'', ''err'']"

definition used_names :: "string list" where
  "used_names = [''len'', ''make'', ''byte'', ''int'', ''uint32'', ''nil'', ''client'', ''xdg_shell'', ''unix'',
     ''PaddedLen'', ''PutUint32'', ''PutFixed'', ''PutString'', ''PutArray'',
     ''break'', ''case'', ''chan'', ''const'', ''continue'', ''default'', ''defer'', ''else'', ''fallthrough'', ''for'', ''func'',
     ''go'', ''goto'', ''if'', ''import'', ''interface'', ''map'', ''package'', ''range'', ''return'', ''select'', ''struct'',
     ''switch'', ''type'', ''var'']"

definition well_named :: "config \<Rightarrow> message \<Rightarrow> bool" where
  "well_named c r \<longleftrightarrow> distinct (used_names @ fixed_names @ concat (map (arg_names c) (m_Args r)) @
     map (\<lambda>x. x @ ''Len'') (concat (map (len_names c) (m_Args r))))"

text \<open>The values have the types of the parameters and the constructors exist.\<close>

definition well_typed :: "config \<Rightarrow> (string \<Rightarrow> iface option) \<Rightarrow> (string \<Rightarrow> gov option) \<Rightarrow> message \<Rightarrow> bool" where
  "well_typed c ctors vars r \<longleftrightarrow>
     list_all (\<lambda>a. if a_Type a = ''new_id'' \<and> a_Interface a \<noteq> [] then new_type c ctors a \<noteq> None
       else arg_put c vars a \<noteq> None) (m_Args r)"

end
