(* ===== verification/Scanner_Correct.thy ===== *)
theory Scanner_Correct
  imports Scanner_Exec
begin

unbundle bit_operations_syntax

text \<open>
  The request generator is correct: for every request of every protocol whose names are well formed and
  every well-typed call, running the emitted statements is \<open>intended\<close>, the request that the protocol
  description asks for.
\<close>

section \<open>Locals\<close>

definition add_lens :: "(string \<times> nat) list \<Rightarrow> (string \<Rightarrow> nat option) \<Rightarrow> string \<Rightarrow> nat option" where
  "add_lens ps m = fold (\<lambda>(x, n) m. m(x \<mapsto> n)) ps m"

lemma add_lens_append [simp]: "add_lens (ps @ qs) m = add_lens qs (add_lens ps m)"
  by (simp add: add_lens_def)

lemma add_lens_simps [simp]: "add_lens [] m = m" "add_lens ((x, n) # ps) m = add_lens ps (m(x \<mapsto> n))"
  by (simp_all add: add_lens_def)

lemma add_lens_notin: "x \<notin> fst ` set ps \<Longrightarrow> add_lens ps m x = m x"
  by (induction ps arbitrary: m) auto

lemma add_lens_in: "distinct (map fst ps) \<Longrightarrow> (x, n) \<in> set ps \<Longrightarrow> add_lens ps m x = Some n"
  by (induction ps arbitrary: m) (auto simp: add_lens_notin)

definition arg_slots :: "config \<Rightarrow> (string \<Rightarrow> gov option) \<Rightarrow> arg \<Rightarrow> (string \<times> nat) list" where
  "arg_slots c vars a = (let x = toLowerCamel c (a_Name a) in
     concat (map (\<lambda>p. case p of PString s n \<Rightarrow> [(if a_Type a = ''new_id'' then ''iface'' else x, n)]
       | PNullString v n \<Rightarrow> [(x, n)] | PArray d n \<Rightarrow> [(x, n)] | _ \<Rightarrow> []) (the (arg_put c vars a))))"

lemmas arg_put_cases = if_splits option.splits gov.splits

lemma arg_slots_names: "arg_put c vars a \<noteq> None \<Longrightarrow> map fst (arg_slots c vars a) = len_names c a"
  by (auto simp: arg_slots_def arg_put_def len_names_def Let_def split: arg_put_cases)

lemma exec_arg_lens:
  "arg_put c (lc_vars lc) a \<noteq> None \<Longrightarrow>
   exec_seq E ctors i (arg_lens c a) lc = ret (lc\<lparr>lc_lens := add_lens (arg_slots c (lc_vars lc) a) (lc_lens lc)\<rparr>)"
  by (auto simp: arg_slots_def arg_put_def arg_lens_def Let_def str_len_def opt_str_len_def split: arg_put_cases)

lemma exec_lens:
  "\<forall>a\<in>set as. arg_put c (lc_vars lc) a \<noteq> None \<Longrightarrow>
   exec_seq E ctors i (concat (map (arg_lens c) as)) lc =
     ret (lc\<lparr>lc_lens := add_lens (concat (map (arg_slots c (lc_vars lc)) as)) (lc_lens lc)\<rparr>)"
proof (induction as arbitrary: lc)
  case (Cons a as)
  then show ?case using exec_arg_lens [of c lc a E ctors i] by (simp add: exec_seq_append)
qed simp

section \<open>Sizes\<close>

lemma sizes_val_append:
  "sizes_val lc (xs @ ys) = (case (sizes_val lc xs, sizes_val lc ys) of (Some a, Some b) \<Rightarrow> Some (a + b) | _ \<Rightarrow> None)"
  by (induction xs) (auto split: option.splits)

definition has_slots :: "locals \<Rightarrow> (string \<times> nat) list \<Rightarrow> bool" where
  "has_slots lc ps \<longleftrightarrow> (\<forall>(x, n)\<in>set ps. lc_lens lc x = Some n)"

lemma arg_sizes_val:
  assumes "arg_put c (lc_vars lc) a \<noteq> None" "has_slots lc (arg_slots c (lc_vars lc) a)"
  shows "sizes_val lc (arg_sizes c a) = Some (sum_list (map put_size (the (arg_put c (lc_vars lc) a))))"
  using assms
  by (auto simp: arg_slots_def arg_put_def arg_sizes_def Let_def size_val_def has_slots_def split: arg_put_cases)

lemma concat_sizes_val:
  assumes "\<forall>a\<in>set as. arg_put c (lc_vars lc) a \<noteq> None \<and> has_slots lc (arg_slots c (lc_vars lc) a)"
  shows "sizes_val lc (concat (map (arg_sizes c) as)) =
    Some (sum_list (map put_size (concat (map (\<lambda>a. the (arg_put c (lc_vars lc) a)) as))))"
  using assms by (induction as) (auto simp: sizes_val_append arg_sizes_val)

section \<open>Puts\<close>

definition put_run :: "put list \<Rightarrow> locals \<Rightarrow> ('k world, locals) go" where
  "put_run ps lc = bnd (put_args ps (lc_buf lc) (lc_l lc)) (\<lambda>(b, l). ret (lc\<lparr>lc_buf := b, lc_l := l\<rparr>))"

lemma put_run_Nil [simp]: "put_run [] lc = ret lc"
  by (simp add: put_run_def del: ret_run)

lemma put_args_append: "put_args (ps @ qs) b l = bnd (put_args ps b l) (\<lambda>(b, l). put_args qs b l)"
proof (induction ps arbitrary: b l)
  case (Cons p ps)
  then show ?case by (simp add: bnd_assoc split_def del: ret_run)
qed simp

lemma put_run_append: "put_run (ps @ qs) lc = bnd (put_run ps lc) (put_run qs)"
  by (simp add: put_run_def [abs_def] put_args_append bnd_assoc split_def del: ret_run)

lemma advance_four:
  "bnd (put_here lc 4 f) (exec E ctors i (Advance (Bytes 4))) =
     bnd (lift (put_at (lc_buf lc) (lc_l lc) (lc_l lc + 4) f)) (\<lambda>b. ret (lc\<lparr>lc_buf := b, lc_l := lc_l lc + 4\<rparr>))"
  by (simp add: put_here_def bnd_assoc size_val_def del: ret_run)

lemma advance_slot:
  "lc_lens lc x = Some n \<Longrightarrow>
   bnd (put_here lc (4 + n) f) (exec E ctors i (Advance (Slot x))) =
     bnd (lift (put_at (lc_buf lc) (lc_l lc) (lc_l lc + (4 + n)) f)) (\<lambda>b. ret (lc\<lparr>lc_buf := b, lc_l := lc_l lc + (4 + n)\<rparr>))"
  by (simp add: put_here_def bnd_assoc size_val_def del: ret_run)

lemma put_run_single:
  "put_run [PWord v] lc = bnd (put_here lc 4 (\<lambda>s. PutUint32 s v)) (exec E ctors i (Advance (Bytes 4)))"
  "put_run [PId p] lc = bnd (ID_arg p) (\<lambda>n. bnd (put_here lc 4 (\<lambda>s. PutUint32 s n)) (exec E ctors i (Advance (Bytes 4))))"
  "put_run [PNullId p] lc = (case p of None \<Rightarrow> bnd (put_here lc 4 (\<lambda>s. PutUint32 s 0)) (exec E ctors i (Advance (Bytes 4)))
     | Some r \<Rightarrow> bnd (ID r) (\<lambda>n. bnd (put_here lc 4 (\<lambda>s. PutUint32 s n)) (exec E ctors i (Advance (Bytes 4)))))"
  unfolding advance_four put_run_def
  by (simp_all add: put_word_def bnd_assoc split_def del: ret_run split: option.splits)

lemma put_run_counted:
  assumes "lc_lens lc x = Some n"
  shows "put_run [PString s n] lc = bnd (put_here lc (4 + n) (\<lambda>d. PutString d s)) (exec E ctors i (Advance (Slot x)))"
    and "put_run [PNullString v n] lc = (case v of None \<Rightarrow> bnd (put_here lc 4 (\<lambda>s. PutUint32 s 0)) (exec E ctors i (Advance (Bytes 4)))
       | Some s \<Rightarrow> bnd (put_here lc (4 + n) (\<lambda>d. PutString d s)) (exec E ctors i (Advance (Slot x))))"
    and "put_run [PArray a n] lc = bnd (put_here lc (4 + n) (\<lambda>d. PutArray d a)) (exec E ctors i (Advance (Slot x)))"
  unfolding advance_four advance_slot [OF assms] put_run_def
  by (simp_all add: put_word_def put_string_def put_array_def bnd_assoc split_def del: ret_run split: option.splits)

lemma exec_seq_short: "exec_seq E ctors i [] = ret" "exec_seq E ctors i [s] = exec E ctors i s"
proof -
  show e: "exec_seq E ctors i [] = ret" by (rule ext) (simp del: ret_run)
  show "exec_seq E ctors i [s] = exec E ctors i s" by (rule ext) (simp add: e [unfolded fun_eq_iff] e del: exec_seq.simps(1) ret_run)
qed

lemma ID_arg_Some: "ID_arg (Some r) = ID r"
  by (rule ext) (simp add: ID_arg_def nonnil_def)

text \<open>Blocks in sequence: the second runs where the first has moved only the buffer and the cursor.\<close>

lemma exec_puts_seq:
  assumes "exec_seq E ctors i ss lc = put_run ps lc"
    and "\<And>b l. exec_seq E ctors i ts (lc\<lparr>lc_buf := b, lc_l := l\<rparr>) = put_run qs (lc\<lparr>lc_buf := b, lc_l := l\<rparr>)"
  shows "exec_seq E ctors i (ss @ ts) lc = put_run (ps @ qs) lc"
  unfolding exec_seq_append put_run_append assms(1)
  by (simp add: put_run_def [of ps] bnd_assoc split_def assms(2) del: ret_run)

lemmas exec_put = arg_put_def Let_def exec_seq_short ID_arg_Some PutFixed_def arg_slots_def has_slots_def

lemma exec_arg_puts:
  assumes put: "arg_put c (lc_vars lc) a = Some ps" and slots: "has_slots lc (arg_slots c (lc_vars lc) a)"
  shows "exec_seq E ctors i (arg_puts c a) lc = put_run ps lc"
proof -
  note single = put_run_single [where E = E and ctors = ctors and i = i]
    put_run_counted [where E = E and ctors = ctors and i = i]
  consider "a_Type a = ''new_id''" "a_Interface a = []" | "\<not> (a_Type a = ''new_id'' \<and> a_Interface a = [])" by blast
  then show ?thesis
  proof cases
    case 1
    then obtain v n p where ps: "ps = [PString v (str_len v)] @ [PWord n] @ [PId p]"
      and vars: "lc_vars lc ''iface'' = Some (GString v)" "lc_vars lc ''version'' = Some (GWord n)" "lc_vars lc ''id'' = Some (GObj p)"
      using put by (auto simp: arg_put_def Let_def split: arg_put_cases)
    have len: "lc_lens lc ''iface'' = Some (str_len v)"
      using 1 slots ps put by (simp add: arg_slots_def has_slots_def)
    let ?q = "qual c" and ?four = "Advance (Bytes 4)"
    let ?sp = "if p_Name (protocol c) = ''wayland'' then [] else '' ''"
    have puts: "arg_puts c a = [PutStr ?q False ''iface'' ''iface'', Advance (Slot ''iface'')] @
        [PutWord ?q ?sp ''version'', ?four] @ [PutID ?q ''id'', ?four]"
      using 1 by (simp add: arg_puts_def Let_def)
    show ?thesis unfolding puts ps
      by (intro exec_puts_seq) (use vars len in \<open>simp_all add: exec_put single bnd_assoc del: ret_run exec.simps(17)\<close>)
  next
    case 2
    show ?thesis using put slots 2
      by (auto simp: exec_put arg_puts_def single bnd_assoc simp del: ret_run exec.simps(17) split: arg_put_cases)
  qed
qed

lemma exec_puts:
  "\<forall>a\<in>set as. arg_put c (lc_vars lc) a \<noteq> None \<and> has_slots lc (arg_slots c (lc_vars lc) a) \<Longrightarrow>
   exec_seq E ctors i (concat (map (arg_puts c) as)) lc = put_run (concat (map (\<lambda>a. the (arg_put c (lc_vars lc) a)) as)) lc"
proof (induction as arbitrary: lc)
  case (Cons a as)
  obtain ps where ps: "arg_put c (lc_vars lc) a = Some ps" using Cons.prems by auto
  show ?case using Cons.prems ps
    by (simp del: ret_run, intro exec_puts_seq) (auto simp: exec_arg_puts has_slots_def Cons.IH simp del: ret_run)
qed (simp del: ret_run)

section \<open>New objects\<close>

abbreviation objs :: "ref list \<Rightarrow> gov list" where
  "objs rs \<equiv> map (\<lambda>r. GObj (Some r)) rs"

lemma arg_news_cases:
  "arg_news c a = [] \<or> (\<exists>f. arg_news c a = [NewObject (toLowerCamel c (a_Name a)) f]) \<and> a_Type a = ''new_id'' \<and> a_Interface a \<noteq> []"
  by (simp add: arg_news_def Let_def)

lemma exec_news:
  "\<forall>a\<in>set as. a_Type a = ''new_id'' \<and> a_Interface a \<noteq> [] \<longrightarrow> new_type c ctors a \<noteq> None \<Longrightarrow>
   exec_seq E ctors i (concat (map (arg_news c) as)) lc =
     bnd (create_all i (map (\<lambda>a. the (new_type c ctors a)) (filter (\<lambda>a. a_Type a = ''new_id'' \<and> a_Interface a \<noteq> []) as)))
       (\<lambda>rs. ret (lc\<lparr>lc_vars := (lc_vars lc)(map (\<lambda>a. toLowerCamel c (a_Name a))
         (filter (\<lambda>a. a_Type a = ''new_id'' \<and> a_Interface a \<noteq> []) as) [\<mapsto>] objs rs)\<rparr>))"
proof (induction as arbitrary: lc)
  case (Cons a as)
  show ?case
  proof (cases "a_Type a = ''new_id'' \<and> a_Interface a \<noteq> []")
    case True
    then obtain f where f: "arg_news c a = [NewObject (toLowerCamel c (a_Name a)) f]" "ctors f \<noteq> None"
      using Cons.prems arg_news_cases [of c a] by (auto simp: new_type_def)
    then obtain t where t: "ctors f = Some t" "new_type c ctors a = Some t" by (auto simp: new_type_def)
    have "\<forall>a\<in>set as. a_Type a = ''new_id'' \<and> a_Interface a \<noteq> [] \<longrightarrow> new_type c ctors a \<noteq> None"
      using Cons.prems by simp
    from Cons.IH [OF this] show ?thesis using True f t
      by (simp add: exec_seq_append exec_seq_short bnd_assoc del: ret_run fun_upd_apply)
  next
    case False
    then have "arg_news c a = []" using arg_news_cases [of c a] by auto
    then show ?thesis using False Cons.prems by (auto simp: Cons.IH simp del: ret_run)
  qed
qed (simp del: ret_run)

lemma create_all_cong:
  "(\<And>rs. length rs = length ts \<Longrightarrow> f rs = g rs) \<Longrightarrow> bnd (create_all i ts) f = bnd (create_all i ts) g"
proof (induction ts arbitrary: f g)
  case (Cons t ts)
  have "bnd (create_all i ts) (\<lambda>rs. f (r # rs)) = bnd (create_all i ts) (\<lambda>rs. g (r # rs))" for r
    by (rule Cons.IH) (use Cons.prems in simp)
  then show ?case by (simp add: bnd_assoc del: ret_run)
qed (simp del: ret_run)

lemma results_of_new:
  assumes "distinct xs" "length rs = length xs" "lc_vars lc = vars(xs [\<mapsto>] objs rs)"
  shows "map (result_of lc) xs = rs"
proof (rule nth_equalityI)
  fix k assume "k < length (map (result_of lc) xs)"
  then have k: "k < length xs" by simp
  have "map_of (rev (zip xs (objs rs))) (xs ! k) = Some (GObj (Some (rs ! k)))"
    using assms(1,2) k by (intro map_of_is_SomeI) (auto simp: rev_map [symmetric] in_set_zip)
  then have "(vars(xs [\<mapsto>] objs rs)) (xs ! k) = Some (GObj (Some (rs ! k)))"
    by (simp add: map_upds_def map_add_Some_iff)
  then show "map (result_of lc) xs ! k = rs ! k"
    using assms k by (simp add: result_of_def)
qed (use assms in simp)

section \<open>The whole method\<close>

lemma straight_parts:
  "list_all straight (concat (map (arg_news c) as))"
  "list_all straight (concat (map (arg_lens c) as))"
  "list_all straight (concat (map (arg_puts c) as))"
  "list_all straight (request_header c r)"
  by (auto simp: list_all_iff arg_news_def arg_lens_def arg_puts_def request_header_def Let_def split: if_splits)

text \<open>The header of the frame, over locals that hold every slot.\<close>

lemma exec_header:
  assumes "sizes_val lc (concat (map (arg_sizes c) (m_Args r))) = Some n"
  shows "exec_seq E ctors i (request_header c r) lc =
    bnd (ID i) (\<lambda>self.
    bnd (lift (put_at (replicate (8 + n) 0) 0 4 (\<lambda>s. PutUint32 s self))) (\<lambda>b.
    bnd (put_word b 4 (opcode_word (of_nat (8 + n)) (lc_opcode lc))) (\<lambda>(b, l).
    ret (lc\<lparr>lc_len := 8 + n, lc_buf := b, lc_l := l\<rparr>))))"
proof -
  have "sizes_val lc (request_sizes c r) = Some (8 + n)"
    using assms by (simp add: request_sizes_def size_val_def)
  then show ?thesis
    by (simp add: request_header_def put_here_def put_word_def size_val_def bnd_assoc exec_seq_short del: ret_run of_nat_add)
qed

lemma has_slots_all:
  assumes "\<forall>a\<in>set as. arg_put c vars a \<noteq> None" "distinct (concat (map (len_names c) as))" "a \<in> set as"
    and "lc_lens lc = add_lens (concat (map (arg_slots c vars) as)) m"
  shows "has_slots lc (arg_slots c vars a)"
proof -
  have "map fst (concat (map (arg_slots c vars) as)) = concat (map (len_names c) as)"
    using assms(1) by (induction as) (auto simp: arg_slots_names)
  then show ?thesis
    using assms(2-4) by (auto simp: has_slots_def intro!: add_lens_in)
qed

lemma exec_send:
  "(fd_args r \<noteq> [] \<longrightarrow> arg_put c (lc_vars lc) (last (fd_args r)) \<noteq> None) \<Longrightarrow>
   exec_body E ctors i (request_send c r) lc =
     bnd (andthen (Context_of i) (WriteMsg E (lc_buf lc) (oob_of E c (lc_vars lc) r)))
       (\<lambda>err. ret (map (result_of lc) (newObjects c r), err))"
proof -
  assume fd: "fd_args r \<noteq> [] \<longrightarrow> arg_put c (lc_vars lc) (last (fd_args r)) \<noteq> None"
  have res: "result_of (lc\<lparr>lc_err := e\<rparr>) = result_of lc" "result_of (lc\<lparr>lc_oob := oob, lc_err := e\<rparr>) = result_of lc" for e oob
    by (simp_all add: result_of_def fun_eq_iff)
  show ?thesis
  proof (cases "fd_args r = []")
    case False
    have "last (fd_args r) \<in> set (fd_args r)" using False by simp
    then have "a_Type (last (fd_args r)) = ''fd''" by (simp add: fd_args_def)
    then obtain v where "lc_vars lc (toLowerCamel c (a_Name (last (fd_args r)))) = Some (GFd v)"
      using fd False by (auto simp: arg_put_def Let_def split: arg_put_cases)
    then show ?thesis using False res by (simp add: request_send_def oob_of_def bnd_assoc del: ret_run)
  qed (simp add: request_send_def oob_of_def bnd_assoc res del: ret_run)
qed

lemma exec_rest:
  assumes put: "\<forall>a\<in>set (m_Args r). arg_put c vars a \<noteq> None"
    and dist: "distinct (concat (map (len_names c) (m_Args r)))"
  shows "exec_body E ctors i ([ConstOpcode n] @ concat (map (arg_lens c) (m_Args r)) @ request_header c r @
      concat (map (arg_puts c) (m_Args r)) @ request_send c r) (start_locals vars) =
    (let ps = puts_of c vars r in
     bnd (request E i (of_nat n) (8 + sum_list (map put_size ps)) ps (oob_of E c vars r))
       (\<lambda>err. ret (map (result_of (start_locals vars)) (newObjects c r), err)))"
proof -
  let ?lens = "add_lens (concat (map (arg_slots c vars) (m_Args r))) (\<lambda>_. None)"
  let ?lc = "(start_locals vars)\<lparr>lc_opcode := of_nat n, lc_lens := ?lens\<rparr>"
  let ?ps = "puts_of c vars r" let ?n = "sum_list (map put_size ?ps)"
  have slots: "has_slots (?lc\<lparr>lc_len := k, lc_buf := b, lc_l := l\<rparr>) (arg_slots c vars a)" "has_slots ?lc (arg_slots c vars a)"
    if "a \<in> set (m_Args r)" for a k b l
    by (rule has_slots_all [OF put dist that, of _ "\<lambda>_. None"], simp)+
  have lens: "exec_seq E ctors i (concat (map (arg_lens c) (m_Args r))) ((start_locals vars)\<lparr>lc_opcode := of_nat n\<rparr>) = ret ?lc"
    using exec_lens [of "m_Args r" c "(start_locals vars)\<lparr>lc_opcode := of_nat n\<rparr>" E ctors i] put
    by (simp add: start_locals_def del: ret_run)
  have size: "sizes_val ?lc (concat (map (arg_sizes c) (m_Args r))) = Some ?n"
    using concat_sizes_val [of "m_Args r" c ?lc] put slots by (simp add: start_locals_def puts_of_def)
  have puts: "exec_seq E ctors i (concat (map (arg_puts c) (m_Args r))) (?lc\<lparr>lc_len := k, lc_buf := b, lc_l := l\<rparr>) =
      put_run ?ps (?lc\<lparr>lc_len := k, lc_buf := b, lc_l := l\<rparr>)" for k b l
    using exec_puts [of "m_Args r" c "?lc\<lparr>lc_len := k, lc_buf := b, lc_l := l\<rparr>" E ctors i] put slots
    by (simp add: start_locals_def puts_of_def del: ret_run)
  have send: "exec_body E ctors i (request_send c r) (?lc\<lparr>lc_len := k, lc_buf := b, lc_l := l\<rparr>) =
      bnd (andthen (Context_of i) (WriteMsg E b (oob_of E c vars r)))
        (\<lambda>err. ret (map (result_of (start_locals vars)) (newObjects c r), err))" for k b l
  proof -
    have "last (fd_args r) \<in> set (m_Args r)" if "fd_args r \<noteq> []"
      using last_in_set [OF that] by (simp add: fd_args_def)
    moreover have "result_of (?lc\<lparr>lc_len := k, lc_buf := b, lc_l := l\<rparr>) = result_of (start_locals vars)"
      by (simp add: result_of_def fun_eq_iff start_locals_def)
    ultimately show ?thesis using put by (subst exec_send) (simp_all add: start_locals_def del: ret_run)
  qed
  show ?thesis
    by (simp add: exec_body_seq straight_parts lens exec_header [OF size] bnd_assoc split_def puts put_run_def send
        request_def Let_def del: ret_run of_nat_add)
qed

primrec is_defer :: "stmt \<Rightarrow> bool" where
  "is_defer (DeferMark x) = True"
| "is_defer (NewObject x f) = False"
| "is_defer (ConstOpcode n) = False"
| "is_defer (LetStrLen q x) = False"
| "is_defer (LetOptLen q x) = False"
| "is_defer (LetArrLen q x) = False"
| "is_defer (LetBuf const ss) = False"
| "is_defer LetCursor = False"
| "is_defer (PutSelf q) = False"
| "is_defer (PutHeader q) = False"
| "is_defer (PutNull q) = False"
| "is_defer (PutID q x) = False"
| "is_defer (PutWord q sp x) = False"
| "is_defer (PutFix q x) = False"
| "is_defer (PutStr q ptr slot x) = False"
| "is_defer (PutArr q x) = False"
| "is_defer (Advance s) = False"
| "is_defer (IfNil x a b c d) = False"
| "is_defer (LetOob x) = False"
| "is_defer (LetErr const oob) = False"
| "is_defer (Return xs) = False"

lemma exec_defers:
  "list_all is_defer ds \<Longrightarrow>
   exec_body E ctors i (ds @ ss) (start_locals vars) = deferring i vars ds (exec_body E ctors i ss (start_locals vars))"
proof (induction ds)
  case (Cons d ds)
  then obtain x where "d = DeferMark x" by (cases d) auto
  then show ?case using Cons by (simp del: ret_run)
qed simp

lemma request_defers_are: "list_all is_defer (request_defers c iface r)"
  by (simp add: request_defers_def split: option.splits)

lemma well_named_lens: "well_named c r \<Longrightarrow> distinct (concat (map (len_names c) (m_Args r)))"
  by (simp add: well_named_def distinct_map)

lemma well_named_args: "well_named c r \<Longrightarrow> distinct (concat (map (arg_names c) (m_Args r)))"
  by (simp add: well_named_def)

lemma newObjects_alt: "newObjects c r = map (\<lambda>a. toLowerCamel c (a_Name a)) (new_args r)"
  by (simp add: newObjects_def new_args_def)

lemma newObjects_distinct:
  assumes "well_named c r"
  shows "distinct (newObjects c r)"
proof -
  have "distinct (concat (map (arg_names c) as)) \<Longrightarrow>
      distinct (map (\<lambda>a. toLowerCamel c (a_Name a)) (filter (\<lambda>a. a_Type a = ''new_id'' \<and> a_Interface a \<noteq> []) as))" for as
    by (induction as) (auto simp: arg_names_def split: if_splits)
  then show ?thesis using well_named_args [OF assms] by (simp add: newObjects_def)
qed

text \<open>The names of the other arguments are not those of new objects, so their values survive.\<close>

lemma other_names:
  assumes "distinct (concat (map (arg_names c) as))" "a \<in> set as" "b \<in> set as" "a \<noteq> b" "x \<in> set (arg_names c a)"
  shows "x \<notin> set (arg_names c b)"
  using assms by (induction as) auto

lemma arg_put_cong:
  "(\<And>x. x \<in> set (arg_names c a) \<Longrightarrow> vars' x = vars x) \<Longrightarrow> arg_put c vars' a = arg_put c vars a"
  by (auto simp: arg_put_def arg_names_def Let_def)

lemma arg_put_created:
  assumes wn: "well_named c r" and wt: "well_typed c ctors vars r" and len: "length rs = length (newObjects c r)"
    and a: "a \<in> set (m_Args r)"
  shows "arg_put c (vars(newObjects c r [\<mapsto>] objs rs)) a \<noteq> None"
proof (cases "a_Type a = ''new_id'' \<and> a_Interface a \<noteq> []")
  case True
  let ?x = "toLowerCamel c (a_Name a)"
  have "?x \<in> set (newObjects c r)" using True a by (simp add: newObjects_def)
  then obtain k where k: "k < length (newObjects c r)" "newObjects c r ! k = ?x" by (auto simp: in_set_conv_nth)
  then have "map_of (rev (zip (newObjects c r) (objs rs))) ?x = Some (GObj (Some (rs ! k)))"
    using len newObjects_distinct [OF wn] by (intro map_of_is_SomeI) (auto simp: rev_map [symmetric] in_set_zip)
  then show ?thesis using True by (simp add: arg_put_def map_upds_def map_add_Some_iff)
next
  case False
  have "x \<notin> set (newObjects c r)" if x: "x \<in> set (arg_names c a)" for x
  proof
    assume "x \<in> set (newObjects c r)"
    then obtain b where b: "b \<in> set (m_Args r)" "a_Type b = ''new_id''" "a_Interface b \<noteq> []" "x = toLowerCamel c (a_Name b)"
      by (auto simp: newObjects_def)
    then have "x \<in> set (arg_names c b)" "a \<noteq> b" using False by (auto simp: arg_names_def)
    then show False using other_names [OF well_named_args [OF wn] a b(1) _ x] by blast
  qed
  then have "arg_put c (vars(newObjects c r [\<mapsto>] objs rs)) a = arg_put c vars a"
    by (intro arg_put_cong) simp
  then show ?thesis using wt a False by (auto simp: well_typed_def list_all_iff)
qed

lemma oob_created:
  assumes wn: "well_named c r"
  shows "oob_of E c (vars(newObjects c r [\<mapsto>] objs rs)) r = oob_of E c vars r"
proof (cases "fd_args r = []")
  case False
  let ?a = "last (fd_args r)"
  have a: "?a \<in> set (m_Args r)" "a_Type ?a = ''fd''" using last_in_set [OF False] by (auto simp: fd_args_def)
  have "toLowerCamel c (a_Name ?a) \<notin> set (newObjects c r)"
  proof
    assume "toLowerCamel c (a_Name ?a) \<in> set (newObjects c r)"
    then obtain b where b: "b \<in> set (m_Args r)" "a_Type b = ''new_id''" "a_Interface b \<noteq> []"
      "toLowerCamel c (a_Name ?a) = toLowerCamel c (a_Name b)"
      by (auto simp: newObjects_def)
    have "?a \<noteq> b" using a(2) b(2) by auto
    then show False
      using other_names [OF well_named_args [OF wn] a(1) b(1), of "toLowerCamel c (a_Name ?a)"] a(2) b
      by (simp add: arg_names_def)
  qed
  then show ?thesis by (simp add: oob_of_def)
qed (simp add: oob_of_def)

theorem request_correct:
  assumes wn: "well_named c r" and wt: "well_typed c ctors vars r"
  shows "exec_body E ctors i (request_body c iface n r) (start_locals vars) = intended E c ctors i vars iface n r"
proof -
  let ?ts = "map (\<lambda>a. the (new_type c ctors a)) (new_args r)"
  have news: "exec_seq E ctors i (request_news c r) (start_locals vars) =
      bnd (create_all i ?ts) (\<lambda>rs. ret (start_locals (vars(newObjects c r [\<mapsto>] objs rs))))"
  proof -
    have "\<forall>a\<in>set (m_Args r). a_Type a = ''new_id'' \<and> a_Interface a \<noteq> [] \<longrightarrow> new_type c ctors a \<noteq> None"
      using wt by (auto simp: well_typed_def list_all_iff)
    from exec_news [OF this, of E i "start_locals vars"] show ?thesis
      by (simp add: request_news_def newObjects_def new_args_def start_locals_def del: ret_run)
  qed
  have rest: "exec_body E ctors i ([ConstOpcode n] @ concat (map (arg_lens c) (m_Args r)) @ request_header c r @
      concat (map (arg_puts c) (m_Args r)) @ request_send c r) (start_locals (vars(newObjects c r [\<mapsto>] objs rs))) =
    (let vars' = vars(newObjects c r [\<mapsto>] objs rs); ps = puts_of c vars' r in
     bnd (request E i (of_nat n) (8 + sum_list (map put_size ps)) ps (oob_of E c vars r)) (\<lambda>err. ret (rs, err)))"
    if len: "length rs = length ?ts" for rs
  proof -
    have len: "length rs = length (newObjects c r)" using len by (simp add: newObjects_alt)
    have res: "map (result_of (start_locals (vars(newObjects c r [\<mapsto>] objs rs)))) (newObjects c r) = rs"
      by (rule results_of_new [OF newObjects_distinct [OF wn] len]) (simp add: start_locals_def)
    show ?thesis
      using exec_rest [of r c "vars(newObjects c r [\<mapsto>] objs rs)" E ctors i n] arg_put_created [OF wn wt len]
        well_named_lens [OF wn] res oob_created [OF wn, of E vars rs]
      by (simp add: Let_def del: ret_run)
  qed
  let ?rest = "[ConstOpcode n] @ concat (map (arg_lens c) (m_Args r)) @ request_header c r @
      concat (map (arg_puts c) (m_Args r)) @ request_send c r"
  have body: "exec_body E ctors i (request_news c r @ ?rest) (start_locals vars) =
      bnd (create_all i ?ts) (\<lambda>rs. exec_body E ctors i ?rest (start_locals (vars(newObjects c r [\<mapsto>] objs rs))))"
    by (subst exec_body_seq) (simp_all add: request_news_def straight_parts news [unfolded request_news_def] bnd_assoc del: ret_run)
  show ?thesis
    unfolding request_body_def exec_defers [OF request_defers_are] intended_def body
    by (subst create_all_cong [OF rest], assumption) (rule refl)
qed

end
