(* ===== verification/Scanner_Event_Exec.thy ===== *)
theory Scanner_Event_Exec
  imports Scanner_Event Scanner_Correct Event_Decode
begin

unbundle bit_operations_syntax

text \<open>
  What a generated dispatcher does when Go runs it: a semantics of the statements of \<open>Scanner_Event\<close> over
  the client's state, and the proof that a generated case is the event its protocol description
  asks for, in the terms of Event_Decode: a reader per argument and one of the event forms.
\<close>

section \<open>Running a case\<close>

record elocals =
  el_type :: string
  el_l :: nat
  el_ids :: "string \<Rightarrow> u32 option"
  el_wire :: "string \<Rightarrow> u32 option"
  el_len :: "string \<Rightarrow> nat option"
  el_pad :: "string \<Rightarrow> nat option"
  el_event :: "string \<Rightarrow> gval option"

definition start_elocals :: elocals where
  "start_elocals = \<lparr>el_type = [], el_l = 0, el_ids = (\<lambda>_. None), el_wire = (\<lambda>_. None), el_len = (\<lambda>_. None),
     el_pad = (\<lambda>_. None), el_event = (\<lambda>_. None)\<rparr>"

definition set_field :: "string \<Rightarrow> gval \<Rightarrow> elocals \<Rightarrow> elocals" where
  "set_field f v lc = lc\<lparr>el_event := (el_event lc)(f \<mapsto> v)\<rparr>"

text \<open>The fields of an event struct with their zero values.\<close>

definition zero_of :: "arg \<Rightarrow> gval" where
  "zero_of a =
     (if a_Type a = ''uint'' then VUint 0 else if a_Type a = ''int'' then VInt 0 else if a_Type a = ''fixed'' then VFixed 0
      else if a_Type a = ''string'' then (if a_AllowNull a then VOptString None else VString [])
      else if a_Type a = ''array'' then VArray [] else if a_Type a = ''fd'' then VFd 0 else VObj None)"

definition zeros :: "config \<Rightarrow> message \<Rightarrow> (string \<times> gval) list" where
  "zeros c e = map (\<lambda>a. (toCamel c (a_Name a), zero_of a)) (m_Args e)"

definition event_value :: "string list \<Rightarrow> elocals \<Rightarrow> ev option" where
  "event_value flds lc =
     map_option (Ev (el_type lc @ ''Event'')) (those (map (\<lambda>f. map_option (Pair f) (el_event lc f)) flds))"

definition call_if :: "'k env \<Rightarrow> ref \<Rightarrow> string \<Rightarrow> ev \<Rightarrow> ('k world, unit) go" where
  "call_if E i h e = bnd (handler_of i h) (\<lambda>f. if f \<noteq> None then call_handler E i h e else ret ())"

definition drop_fd :: "bool \<Rightarrow> int \<Rightarrow> ('k world, unit) go" where
  "drop_fd closes fd = (if closes \<and> fd \<noteq> -1 then unix_Close fd else ret ())"

text \<open>The client's own actions, on the fields of the event they read.\<close>

definition delete_of :: "ref \<Rightarrow> (string \<Rightarrow> gval option) \<Rightarrow> ('k world, unit) go" where
  "delete_of i ev = (case ev ''Id'' of Some (VUint n) \<Rightarrow> andthen (Context_of i) (DeleteID n) | _ \<Rightarrow> ill_formed)"

definition record_of :: "ref \<Rightarrow> (string \<Rightarrow> gval option) \<Rightarrow> ('k world, unit) go" where
  "record_of i ev =
     (case (ev ''ObjectId'', ev ''Code'', ev ''Message'') of
        (Some (VObj ob), Some (VUint code), Some (VString msg)) \<Rightarrow> andthen (Context_of i) (recordDisplayError ob code msg)
      | _ \<Rightarrow> ill_formed)"

text \<open>\<open>types\<close> gives the Go type a name denotes, \<open>flds\<close> the declared fields of the event struct with their zero values.\<close>

primrec exec_e :: "'k env \<Rightarrow> (string \<Rightarrow> iface option) \<Rightarrow> (string \<times> gval) list \<Rightarrow> ref \<Rightarrow> int \<Rightarrow> bytes \<Rightarrow> estmt \<Rightarrow> elocals \<Rightarrow>
    ('k world, elocals) go" where
  "exec_e E types flds i fd data (NilGuard h closes) lc = ill_formed"
| "exec_e E types flds i fd data (VarEvent t) lc = ret (lc\<lparr>el_type := t, el_event := map_of flds\<rparr>)"
| "exec_e E types flds i fd data LetL lc = ret (lc\<lparr>el_l := 0\<rparr>)"
| "exec_e E types flds i fd data (LetID q sp x) lc =
     bnd (lift (get_u32 data (el_l lc))) (\<lambda>n. ret (lc\<lparr>el_ids := (el_ids lc)(x \<mapsto> n)\<rparr>))"
| "exec_e E types flds i fd data (IfLive x t f new) lc =
     (case (el_ids lc x, types t) of
        (Some n, Some ty) \<Rightarrow>
          bnd (live_proxy i ty n) (\<lambda>p. case p of
            Some r \<Rightarrow> ret (set_field f (VObj (Some r)) lc)
          | None \<Rightarrow>
              if new then
                if n \<noteq> 0 then andthen (Context_of i) (bnd (NewWithID ty n) (\<lambda>r. ret (set_field f (VObj (Some r)) lc)))
                else ret lc
              else ret (set_field f (VObj None) lc))
      | _ \<Rightarrow> ill_formed)"
| "exec_e E types flds i fd data (IfFresh x t) lc =
     (case (el_ids lc x, types t) of
        (Some n, Some ty) \<Rightarrow>
          andthen (if n \<noteq> 0 then andthen (Context_of i) (bnd (NewWithID ty n) MarkZombie) else ret ()) (ret lc)
      | _ \<Rightarrow> ill_formed)"
| "exec_e E types flds i fd data (SetProxy q f) lc =
     bnd (lift (get_u32 data (el_l lc))) (\<lambda>n. andthen (Context_of i) (bnd (GetProxy n) (\<lambda>p. ret (set_field f (VObj p) lc))))"
| "exec_e E types flds i fd data Skip lc = ret (lc\<lparr>el_l := el_l lc + 4\<rparr>)"
| "exec_e E types flds i fd data (SetFd f) lc = ret (set_field f (VFd fd) lc)"
| "exec_e E types flds i fd data (SetUint q f) lc =
     bnd (lift (get_u32 data (el_l lc))) (\<lambda>n. ret (set_field f (VUint n) lc))"
| "exec_e E types flds i fd data (SetInt q f) lc =
     bnd (lift (get_u32 data (el_l lc))) (\<lambda>n. ret (set_field f (VInt n) lc))"
| "exec_e E types flds i fd data (SetFixed q f) lc =
     bnd (lift (get_fixed data (el_l lc))) (\<lambda>v. ret (set_field f (VFixed v) lc))"
| "exec_e E types flds i fd data (CheckLen what) lc =
     (if length data < el_l lc + 4 then raise (PanicMsg (''client: truncated event '' @ what @ '' length'')) else ret lc)"
| "exec_e E types flds i fd data (LetWire q x) lc =
     bnd (lift (get_u32 data (el_l lc))) (\<lambda>n. ret (lc\<lparr>el_wire := (el_wire lc)(x \<mapsto> n), el_l := el_l lc + 4\<rparr>))"
| "exec_e E types flds i fd data (CheckWire x what) lc =
     (case el_wire lc x of None \<Rightarrow> ill_formed
      | Some n \<Rightarrow> if unat n > length data - el_l lc then raise (PanicMsg (''client: truncated event '' @ what)) else ret lc)"
| "exec_e E types flds i fd data (LetLen x) lc =
     (case el_wire lc x of None \<Rightarrow> ill_formed | Some n \<Rightarrow> ret (lc\<lparr>el_len := (el_len lc)(x \<mapsto> unat n)\<rparr>))"
| "exec_e E types flds i fd data (LetPadded q x) lc =
     (case el_len lc x of None \<Rightarrow> ill_formed | Some n \<Rightarrow> ret (lc\<lparr>el_pad := (el_pad lc)(x \<mapsto> PaddedLen n)\<rparr>))"
| "exec_e E types flds i fd data (CheckPadded x what) lc =
     (case el_pad lc x of None \<Rightarrow> ill_formed
      | Some p \<Rightarrow> if p > length data - el_l lc then raise (PanicMsg (''client: truncated event '' @ what @ '' padding'')) else ret lc)"
| "exec_e E types flds i fd data (SetStr q f x) lc =
     (case el_len lc x of None \<Rightarrow> ill_formed
      | Some n \<Rightarrow> bnd (lift (pbind (slice data (el_l lc) (el_l lc + n)) String)) (\<lambda>s. ret (set_field f (VString s) lc)))"
| "exec_e E types flds i fd data (SetOptStr q f x) lc =
     (case el_len lc x of None \<Rightarrow> ill_formed
      | Some n \<Rightarrow> if n = 0 then ret (set_field f (VOptString None) lc)
        else bnd (lift (pbind (slice data (el_l lc) (el_l lc + n)) String)) (\<lambda>s. ret (set_field f (VOptString (Some s)) lc)))"
| "exec_e E types flds i fd data (MakeArr f x) lc =
     (case el_len lc x of None \<Rightarrow> ill_formed | Some n \<Rightarrow> ret (set_field f (VArray (replicate n 0)) lc))"
| "exec_e E types flds i fd data (CopyArr f x) lc =
     (case (el_len lc x, el_event lc f) of
        (Some n, Some (VArray d)) \<Rightarrow>
          bnd (lift (slice data (el_l lc) (el_l lc + n))) (\<lambda>s. ret (set_field f (VArray (copy_into d s)) lc))
      | _ \<Rightarrow> ill_formed)"
| "exec_e E types flds i fd data (SkipPadded x) lc =
     (case el_pad lc x of None \<Rightarrow> ill_formed | Some p \<Rightarrow> ret (lc\<lparr>el_l := el_l lc + p\<rparr>))"
| "exec_e E types flds i fd data (SkipWire q x) lc =
     (case el_wire lc x of None \<Rightarrow> ill_formed | Some n \<Rightarrow> ret (lc\<lparr>el_l := el_l lc + PaddedLen (unat n)\<rparr>))"
| "exec_e E types flds i fd data DoDelete lc = andthen (delete_of i (el_event lc)) (ret lc)"
| "exec_e E types flds i fd data DoRecord lc = andthen (record_of i (el_event lc)) (ret lc)"
| "exec_e E types flds i fd data (CallIfSet h) lc =
     (case event_value (map fst flds) lc of None \<Rightarrow> ill_formed
      | Some e \<Rightarrow> andthen (call_if E i (h @ ''Handler'') e) (ret lc))"
| "exec_e E types flds i fd data (Call h) lc =
     (case event_value (map fst flds) lc of None \<Rightarrow> ill_formed
      | Some e \<Rightarrow> andthen (call_handler E i (h @ ''Handler'') e) (ret lc))"

text \<open>A case of the \<open>switch\<close>: only the nil guards leave it early.\<close>

fun exec_case :: "'k env \<Rightarrow> (string \<Rightarrow> iface option) \<Rightarrow> (string \<times> gval) list \<Rightarrow> ref \<Rightarrow> int \<Rightarrow> bytes \<Rightarrow> estmt list \<Rightarrow> elocals \<Rightarrow>
    ('k world, unit) go" where
  "exec_case E types flds i fd data [] lc = ret ()"
| "exec_case E types flds i fd data (NilGuard h closes # ss) lc =
     bnd (handler_of i (h @ ''Handler'')) (\<lambda>f. case f of None \<Rightarrow> drop_fd closes fd | Some _ \<Rightarrow> exec_case E types flds i fd data ss lc)"
| "exec_case E types flds i fd data (s # ss) lc =
     bnd (exec_e E types flds i fd data s lc) (exec_case E types flds i fd data ss)"

text \<open>The three generated methods of an interface.\<close>

definition exec_dispatch :: "'k env \<Rightarrow> config \<Rightarrow> (string \<Rightarrow> iface option) \<Rightarrow> ref \<Rightarrow> interface \<Rightarrow> u32 \<Rightarrow> int \<Rightarrow> bytes \<Rightarrow>
    ('k world, unit) go" where
  "exec_dispatch E c types i v opcode fd data =
     (if unat opcode < length (i_Events v) then
        let e = i_Events v ! unat opcode in
        exec_case E types (zeros c e) i fd data (event_body c (toCamel c (i_Name v)) v e) start_elocals
      else unsupported)"

definition exec_HasFD :: "interface \<Rightarrow> u32 \<Rightarrow> bool" where
  "exec_HasFD v opcode = (list_ex has_fd (i_Events v) \<and> unat opcode \<in> set (fd_opcodes v))"

definition exec_absorb :: "'k env \<Rightarrow> config \<Rightarrow> (string \<Rightarrow> iface option) \<Rightarrow> ref \<Rightarrow> interface \<Rightarrow> u32 \<Rightarrow> bytes \<Rightarrow> ('k world, unit) go" where
  "exec_absorb E c types i v opcode data =
     (case map_of (introducing v) (unat opcode) of None \<Rightarrow> ret ()
      | Some e \<Rightarrow> exec_case E types [] i (-1) data (absorb_body c e) start_elocals)"

end
