(* ===== verification/Scanner_Event_Read.thy ===== *)
theory Scanner_Event_Read
  imports Scanner_Event_Exec
begin

unbundle bit_operations_syntax

text \<open>
  What a generated dispatcher should do, in the terms of Event_Decode, and the proof that the statements
  emitted for the arguments of an event decode them: a reader per argument, in order.
\<close>

section \<open>What a case should do\<close>

text \<open>An object argument without an interface: whatever is registered at the ID.\<close>

definition r_any :: "ref \<Rightarrow> bytes \<Rightarrow> 'k reader" where
  "r_any i data l =
     bnd (lift (get_u32 data l)) (\<lambda>n. andthen (Context_of i) (bnd (GetProxy n) (\<lambda>p. ret (VObj p, l + 4))))"

definition arg_type :: "config \<Rightarrow> (string \<Rightarrow> iface option) \<Rightarrow> arg \<Rightarrow> iface option" where
  "arg_type c types a = types (interfaceNameForArg c (p_Name (protocol c)) (a_Interface a))"

definition reader_of :: "config \<Rightarrow> (string \<Rightarrow> iface option) \<Rightarrow> ref \<Rightarrow> int \<Rightarrow> bytes \<Rightarrow> arg \<Rightarrow> 'k reader" where
  "reader_of c types i fd data a =
     (if a_Type a \<in> {''object'', ''new_id''} then
        if a_Interface a = [] then r_any i data
        else if is_new a then r_new i data (the (arg_type c types a))
        else r_obj i data (the (arg_type c types a))
      else if a_Type a = ''fd'' then r_fd fd
      else if a_Type a = ''uint'' then r_uint data
      else if a_Type a = ''int'' then r_int data
      else if a_Type a = ''fixed'' then r_fixed data
      else if a_Type a = ''string'' then if a_AllowNull a then r_opt_string data else r_string data
      else r_array data)"

definition readers_of :: "config \<Rightarrow> (string \<Rightarrow> iface option) \<Rightarrow> ref \<Rightarrow> int \<Rightarrow> bytes \<Rightarrow> message \<Rightarrow> (string \<times> 'k reader) list" where
  "readers_of c types i fd data e = map (\<lambda>a. (toCamel c (a_Name a), reader_of c types i fd data a)) (m_Args e)"

definition intended_event :: "'k env \<Rightarrow> config \<Rightarrow> (string \<Rightarrow> iface option) \<Rightarrow> ref \<Rightarrow> int \<Rightarrow> bytes \<Rightarrow> interface \<Rightarrow> message \<Rightarrow>
    ('k world, unit) go" where
  "intended_event E c types i fd data v e =
     (let h = toLowerCamel c (m_Name e) @ ''Handler''; name = toCamel c (i_Name v) @ toCamel c (m_Name e) @ ''Event'';
          as = readers_of c types i fd data e in
      if isDeleteID c v e then bnd (decode as 0) (\<lambda>vs. andthen (delete_of i (map_of vs)) (call_if E i h (Ev name vs)))
      else if isDisplayError c v e then bnd (decode as 0) (\<lambda>vs. andthen (record_of i (map_of vs)) (call_if E i h (Ev name vs)))
      else if has_new e then
        bnd (decode as 0) (\<lambda>vs. bnd (handler_of i h) (\<lambda>f. case f of None \<Rightarrow> drop_fd (has_fd e) fd
          | Some _ \<Rightarrow> call_handler E i h (Ev name vs)))
      else if has_fd e then fd_event E i fd h name as
      else event E i h name as)"

definition intended_dispatch :: "'k env \<Rightarrow> config \<Rightarrow> (string \<Rightarrow> iface option) \<Rightarrow> ref \<Rightarrow> interface \<Rightarrow> u32 \<Rightarrow> int \<Rightarrow> bytes \<Rightarrow>
    ('k world, unit) go" where
  "intended_dispatch E c types i v opcode fd data =
     (if unat opcode < length (i_Events v) then intended_event E c types i fd data v (i_Events v ! unat opcode)
      else unsupported)"

text \<open>
  What Go needs to compile a case: fields of distinct names, argument types the wire has, and Go types
  for the interfaces named.
\<close>

definition arg_types :: "string list" where
  "arg_types = [''int'', ''uint'', ''fixed'', ''string'', ''array'', ''fd'', ''object'', ''new_id'']"

definition well_formed_event :: "config \<Rightarrow> (string \<Rightarrow> iface option) \<Rightarrow> message \<Rightarrow> bool" where
  "well_formed_event c types e \<longleftrightarrow>
     distinct (map (\<lambda>a. toCamel c (a_Name a)) (m_Args e)) \<and>
     list_all (\<lambda>a. a_Type a \<in> set arg_types \<and>
       (a_Type a \<in> {''object'', ''new_id''} \<and> a_Interface a \<noteq> [] \<longrightarrow> arg_type c types a \<noteq> None)) (m_Args e)"

section \<open>Sequences of statements\<close>

primrec exec_es :: "'k env \<Rightarrow> (string \<Rightarrow> iface option) \<Rightarrow> (string \<times> gval) list \<Rightarrow> ref \<Rightarrow> int \<Rightarrow> bytes \<Rightarrow> estmt list \<Rightarrow> elocals \<Rightarrow>
    ('k world, elocals) go" where
  "exec_es E types flds i fd data [] lc = ret lc"
| "exec_es E types flds i fd data (s # ss) lc = bnd (exec_e E types flds i fd data s lc) (exec_es E types flds i fd data ss)"

fun no_guard :: "estmt \<Rightarrow> bool" where
  "no_guard (NilGuard h closes) = False"
| "no_guard s = True"

lemma exec_case_step:
  "no_guard s \<Longrightarrow> exec_case E types flds i fd data (s # ss) lc =
     bnd (exec_e E types flds i fd data s lc) (exec_case E types flds i fd data ss)"
  by (cases s) (simp_all del: ret_run exec_e.simps)

lemma exec_case_append:
  "list_all no_guard ss \<Longrightarrow> exec_case E types flds i fd data (ss @ ts) lc =
     bnd (exec_es E types flds i fd data ss lc) (exec_case E types flds i fd data ts)"
proof (induction ss arbitrary: lc)
  case (Cons s ss)
  have "exec_case E types flds i fd data (ss @ ts) = (\<lambda>lc. bnd (exec_es E types flds i fd data ss lc) (exec_case E types flds i fd data ts))"
    by (rule ext) (rule Cons.IH, use Cons.prems in simp)
  then show ?case using Cons.prems by (simp add: exec_case_step bnd_assoc del: ret_run exec_case.simps)
qed (simp del: ret_run)

lemma exec_es_append:
  "exec_es E types flds i fd data (ss @ ts) lc = bnd (exec_es E types flds i fd data ss lc) (exec_es E types flds i fd data ts)"
proof (induction ss arbitrary: lc)
  case (Cons s ss)
  have "exec_es E types flds i fd data (ss @ ts) = (\<lambda>lc. bnd (exec_es E types flds i fd data ss lc) (exec_es E types flds i fd data ts))"
    by (rule ext) (rule Cons.IH)
  then show ?case by (simp add: bnd_assoc del: ret_run)
qed (simp del: ret_run)

text \<open>Continuations that read only the cursor, the type and the fields.\<close>

definition visible :: "(elocals \<Rightarrow> 'b) \<Rightarrow> bool" where
  "visible k \<longleftrightarrow> (\<forall>lc lc'. el_l lc = el_l lc' \<and> el_type lc = el_type lc' \<and> el_event lc = el_event lc' \<longrightarrow> k lc = k lc')"

lemma visibleD:
  "visible k \<Longrightarrow> el_l lc = el_l lc' \<Longrightarrow> el_type lc = el_type lc' \<Longrightarrow> el_event lc = el_event lc' \<Longrightarrow> k lc = k lc'"
  unfolding visible_def by blast

section \<open>Reading the arguments\<close>

text \<open>The counted blocks.\<close>

lemma exec_counted:
  "exec_es E types flds i fd data (counted_reads q x what) lc =
     bnd (lift (counted what data (el_l lc))) (\<lambda>(l, n, p). ret (lc\<lparr>el_wire := (el_wire lc)(x \<mapsto> of_nat n), el_l := l,
       el_len := (el_len lc)(x \<mapsto> n), el_pad := (el_pad lc)(x \<mapsto> p)\<rparr>))"
proof (rule ext)
  fix w
  show "exec_es E types flds i fd data (counted_reads q x what) lc w =
    bnd (lift (counted what data (el_l lc))) (\<lambda>(l, n, p). ret (lc\<lparr>el_wire := (el_wire lc)(x \<mapsto> of_nat n), el_l := l,
       el_len := (el_len lc)(x \<mapsto> n), el_pad := (el_pad lc)(x \<mapsto> p)\<rparr>)) w"
    by (cases "get_u32 data (el_l lc)") (simp_all add: counted_reads_def counted_def Let_def bnd_assoc)
qed

lemma el_order: "lc\<lparr>el_event := ev, el_l := l\<rparr> = lc\<lparr>el_l := l, el_event := ev\<rparr>"
  by (cases lc) simp

lemma visible_updates:
  assumes "visible k"
  shows "k (lc\<lparr>el_ids := a, el_l := l, el_event := ev\<rparr>) = k (lc\<lparr>el_l := l, el_event := ev\<rparr>)"
    and "k (lc\<lparr>el_ids := a, el_l := l\<rparr>) = k (lc\<lparr>el_l := l\<rparr>)"
    and "k (lc\<lparr>el_ids := a\<rparr>) = k lc"
  by (rule visibleD [OF assms]; simp)+

lemma bnd_ext: "(\<And>a. f a = g a) \<Longrightarrow> bnd m f = bnd m g"
  by presburger

lemma andthen_bnd: "andthen m n = bnd m (\<lambda>_. n)"
  by (rule ext) (simp add: andthen_def)

text \<open>The field of a new object that the server left null is not assigned.\<close>

definition assign :: "config \<Rightarrow> arg \<Rightarrow> gval \<Rightarrow> (string \<Rightarrow> gval option) \<Rightarrow> string \<Rightarrow> gval option" where
  "assign c a v ev =
     (if a_Type a = ''new_id'' \<and> a_Interface a \<noteq> [] \<and> v = VObj None then ev else ev(toCamel c (a_Name a) \<mapsto> v))"

lemma exec_obj_reads:
  assumes vis: "visible k" and t: "a_Type a \<in> {''object'', ''new_id''}" and ty: "a_Interface a \<noteq> [] \<longrightarrow> arg_type c types a \<noteq> None"
  shows "bnd (exec_es E types flds i fd data (arg_reads c a) lc) k =
    bnd (reader_of c types i fd data a (el_l lc)) (\<lambda>(v, l). k (lc\<lparr>el_l := l, el_event := assign c a v (el_event lc)\<rparr>))"
proof (cases "a_Interface a = []")
  case True
  then show ?thesis using t
    by (auto simp: arg_reads_def reader_of_def r_any_def Let_def bnd_assoc andthen_bnd set_field_def el_order assign_def simp del: ret_run lift_run
        intro!: bnd_ext)
next
  case False
  then obtain g where g: "types (interfaceNameForArg c (p_Name (protocol c)) (a_Interface a)) = Some g"
    using ty by (auto simp: arg_type_def)
  have eq: "lc\<lparr>el_l := l, el_event := el_event lc\<rparr> = lc\<lparr>el_l := l\<rparr>" for l by simp
  show ?thesis using t g False
    by (auto simp: arg_reads_def reader_of_def r_obj_def r_new_def arg_type_def is_new_def Let_def bnd_assoc andthen_bnd set_field_def
        visible_updates [OF vis] eq el_order assign_def
        simp del: ret_run lift_run intro!: bnd_ext split: option.splits)
qed

lemma visible_counted:
  "visible k \<Longrightarrow> k (lc\<lparr>el_wire := a, el_len := b, el_pad := d, el_event := ev, el_l := l\<rparr>) = k (lc\<lparr>el_l := l, el_event := ev\<rparr>)"
  by (erule visibleD) simp_all

lemma lift_parts:
  "lift (pbind m f) = bnd (lift m) (\<lambda>a. lift (f a))" "lift (Inr b) = ret b"
  "lift (case t of (l, n, p) \<Rightarrow> g l n p) = (case t of (l, n, p) \<Rightarrow> lift (g l n p))"
  "lift (if x then m else m') = (if x then lift m else lift m')"
proof -
  show "lift (pbind m f) = bnd (lift m) (\<lambda>a. lift (f a))" by (rule ext) (cases m, simp_all add: pbind_def)
  show "lift (Inr b) = ret b" by (rule ext) simp
qed (simp_all split: prod.splits)

lemma exec_string_reads:
  assumes vis: "visible k" and t: "a_Type a = ''string''"
  shows "bnd (exec_es E types flds i fd data (arg_reads c a) lc) k =
    bnd (reader_of c types i fd data a (el_l lc)) (\<lambda>(v, l). k (lc\<lparr>el_l := l, el_event := assign c a v (el_event lc)\<rparr>))"
  using t
  by (auto simp: arg_reads_def reader_of_def r_string_def r_opt_string_def get_string_def get_opt_string_def Let_def
      exec_es_append exec_counted bnd_assoc set_field_def visible_counted [OF vis] split_def lift_parts assign_def
      simp del: ret_run lift_run intro!: bnd_ext)

lemma exec_array_reads:
  assumes vis: "visible k" and t: "a_Type a = ''array''"
  shows "bnd (exec_es E types flds i fd data (arg_reads c a) lc) k =
    bnd (reader_of c types i fd data a (el_l lc)) (\<lambda>(v, l). k (lc\<lparr>el_l := l, el_event := assign c a v (el_event lc)\<rparr>))"
  using t
  by (auto simp: arg_reads_def reader_of_def r_array_def get_array_def Let_def
      exec_es_append exec_counted bnd_assoc set_field_def visible_counted [OF vis] split_def lift_parts assign_def
      simp del: ret_run lift_run intro!: bnd_ext)

lemma exec_arg_reads:
  assumes vis: "visible k" and t: "a_Type a \<in> set arg_types"
    and ty: "a_Type a \<in> {''object'', ''new_id''} \<and> a_Interface a \<noteq> [] \<longrightarrow> arg_type c types a \<noteq> None"
  shows "bnd (exec_es E types flds i fd data (arg_reads c a) lc) k =
    bnd (reader_of c types i fd data a (el_l lc)) (\<lambda>(v, l). k (lc\<lparr>el_l := l, el_event := assign c a v (el_event lc)\<rparr>))"
proof -
  have "?thesis" if "a_Type a \<in> {''uint'', ''int'', ''fixed'', ''fd''}"
    using that
    by (auto simp: arg_reads_def reader_of_def r_uint_def r_int_def r_fixed_def r_fd_def Let_def set_field_def bnd_assoc el_order assign_def
        simp del: ret_run lift_run intro!: bnd_ext)
  moreover have "?thesis" if "a_Type a \<in> {''object'', ''new_id''}"
    by (rule exec_obj_reads [OF vis that]) (use that ty in auto)
  ultimately show ?thesis
    using t exec_string_reads [OF vis] exec_array_reads [OF vis] by (auto simp: arg_types_def)
qed

section \<open>Decoding\<close>

definition updates :: "('a \<times> 'b) list \<Rightarrow> ('a \<Rightarrow> 'b option) \<Rightarrow> 'a \<Rightarrow> 'b option" where
  "updates ps m = fold (\<lambda>(x, v) m. m(x \<mapsto> v)) ps m"

lemma updates_simps [simp]: "updates [] m = m" "updates ((x, v) # ps) m = updates ps (m(x \<mapsto> v))"
  by (simp_all add: updates_def)

lemma updates_notin: "x \<notin> fst ` set ps \<Longrightarrow> updates ps m x = m x"
  by (induction ps arbitrary: m) auto

lemma updates_in: "distinct (map fst ps) \<Longrightarrow> (x, v) \<in> set ps \<Longrightarrow> updates ps m x = Some v"
  by (induction ps arbitrary: m) (auto simp: updates_notin)

lemma decode_cong:
  "(\<And>vs. map fst vs = map fst as \<Longrightarrow> F vs = G vs) \<Longrightarrow> bnd (decode as l) F = bnd (decode as l) G"
proof (induction as arbitrary: F G l)
  case (Cons a as)
  have "bnd (decode as l) (\<lambda>vs. F ((fst a, v) # vs)) = bnd (decode as l) (\<lambda>vs. G ((fst a, v) # vs))" for v l
    by (rule Cons.IH) (use Cons.prems in simp)
  then show ?case by (simp add: bnd_assoc split_def del: ret_run)
qed (simp del: ret_run)

definition wf_arg :: "config \<Rightarrow> (string \<Rightarrow> iface option) \<Rightarrow> arg \<Rightarrow> bool" where
  "wf_arg c types a \<longleftrightarrow> a_Type a \<in> set arg_types \<and>
     (a_Type a \<in> {''object'', ''new_id''} \<and> a_Interface a \<noteq> [] \<longrightarrow> arg_type c types a \<noteq> None)"

lemma visible_reads:
  assumes "visible k" "wf_arg c types a"
  shows "visible (\<lambda>lc. bnd (exec_es E types flds i fd data (arg_reads c a) lc) k)"
  unfolding visible_def
proof (intro allI impI)
  fix lc lc' :: elocals assume e: "el_l lc = el_l lc' \<and> el_type lc = el_type lc' \<and> el_event lc = el_event lc'"
  then have "k (lc\<lparr>el_l := l, el_event := ev\<rparr>) = k (lc'\<lparr>el_l := l, el_event := ev\<rparr>)" for l ev
    by (intro visibleD [OF assms(1)]) simp_all
  then show "bnd (exec_es E types flds i fd data (arg_reads c a) lc) k = bnd (exec_es E types flds i fd data (arg_reads c a) lc') k"
    using e exec_arg_reads [OF assms(1), of a c types] assms(2) unfolding wf_arg_def by simp
qed

lemma exec_reads_Cons:
  "bnd (exec_es E types flds i fd data (concat (map (arg_reads c) (a # as))) lc) k =
   bnd (exec_es E types flds i fd data (arg_reads c a) lc)
     (\<lambda>lc. bnd (exec_es E types flds i fd data (concat (map (arg_reads c) as)) lc) k)"
  by (simp add: exec_es_append bnd_assoc del: ret_run)

lemma visible_all_reads:
  "visible k \<Longrightarrow> \<forall>a\<in>set as. wf_arg c types a \<Longrightarrow>
   visible (\<lambda>lc. bnd (exec_es E types flds i fd data (concat (map (arg_reads c) as)) lc) k)"
proof (induction as)
  case (Cons a as)
  then show ?case unfolding exec_reads_Cons by (intro visible_reads) simp_all
qed (simp del: ret_run)

text \<open>Reading the arguments in order is decoding, for a continuation that reads the type and the fields only.\<close>

lemma exec_reads:
  assumes k: "visible k" "\<And>lc l. k (lc\<lparr>el_l := l\<rparr>) = k lc"
    and wf: "distinct (map (\<lambda>a. toCamel c (a_Name a)) as)" "\<forall>a\<in>set as. wf_arg c types a"
    and z: "\<forall>a\<in>set as. el_event lc (toCamel c (a_Name a)) = Some (zero_of a)"
  shows "bnd (exec_es E types flds i fd data (concat (map (arg_reads c) as)) lc) k =
    bnd (decode (map (\<lambda>a. (toCamel c (a_Name a), reader_of c types i fd data a)) as) (el_l lc))
      (\<lambda>vs. k (lc\<lparr>el_event := updates vs (el_event lc)\<rparr>))"
  using wf z
proof (induction as arbitrary: lc)
  case Nil
  then show ?case by (simp del: ret_run)
next
  case (Cons a as)
  let ?rest = "\<lambda>lc. bnd (exec_es E types flds i fd data (concat (map (arg_reads c) as)) lc) k"
  let ?as = "map (\<lambda>a. (toCamel c (a_Name a), reader_of c types i fd data a)) as"
  have a: "assign c a v (el_event lc) = (el_event lc)(toCamel c (a_Name a) \<mapsto> v)" for v
    using Cons.prems(3) by (auto simp: assign_def zero_of_def fun_upd_idem)
  have IH: "?rest (lc\<lparr>el_l := l, el_event := (el_event lc)(toCamel c (a_Name a) \<mapsto> v)\<rparr>) =
      bnd (decode ?as l) (\<lambda>vs. k (lc\<lparr>el_event := updates ((toCamel c (a_Name a), v) # vs) (el_event lc)\<rparr>))" for v l
  proof -
    have z: "\<forall>b\<in>set as. ((el_event lc)(toCamel c (a_Name a) \<mapsto> v)) (toCamel c (a_Name b)) = Some (zero_of b)"
      using Cons.prems by (force simp: image_iff)
    have "?rest (lc\<lparr>el_l := l, el_event := (el_event lc)(toCamel c (a_Name a) \<mapsto> v)\<rparr>) =
        bnd (decode ?as l) (\<lambda>vs. k (lc\<lparr>el_l := l, el_event := updates ((toCamel c (a_Name a), v) # vs) (el_event lc)\<rparr>))"
      using Cons.IH [of "lc\<lparr>el_l := l, el_event := (el_event lc)(toCamel c (a_Name a) \<mapsto> v)\<rparr>"] Cons.prems z
      by (simp del: fun_upd_apply)
    also have "\<dots> = bnd (decode ?as l) (\<lambda>vs. k (lc\<lparr>el_event := updates ((toCamel c (a_Name a), v) # vs) (el_event lc)\<rparr>))"
      by (simp only: el_order [symmetric] k(2))
    finally show ?thesis .
  qed
  have "bnd (exec_es E types flds i fd data (arg_reads c a) lc) ?rest =
      bnd (reader_of c types i fd data a (el_l lc)) (\<lambda>(v, l). ?rest (lc\<lparr>el_l := l, el_event := assign c a v (el_event lc)\<rparr>))"
    using Cons.prems(2) by (intro exec_arg_reads visible_all_reads k(1)) (auto simp: wf_arg_def)
  then show ?case
    unfolding exec_reads_Cons a IH by (simp add: bnd_assoc split_def del: ret_run)
qed

end
