(* ===== verification/Scanner_Event_Correct.thy ===== *)
theory Scanner_Event_Correct
  imports Scanner_Event_Read
begin

unbundle bit_operations_syntax

text \<open>
  The event generator is correct: for every event of every protocol whose names are well formed, running
  the generated case is \<open>intended_event\<close>, and so every dispatcher that the scanner can generate meets
  the contracts that Event_Decode states for one: it settles its descriptor and keeps the context well formed.
\<close>

section \<open>A case\<close>

lemma no_guard_reads: "list_all no_guard (concat (map (arg_reads c) as))"
proof (induction as)
  case (Cons a as)
  have "list_all no_guard (arg_reads c a)" by (simp add: arg_reads_def counted_reads_def Let_def)
  then show ?case using Cons by simp
qed simp

lemma those_map_Some: "(\<And>x. x \<in> set xs \<Longrightarrow> f x = Some (g x)) \<Longrightarrow> those (map f xs) = Some (map g xs)"
  by (induction xs) auto

lemma event_value_updates:
  assumes "distinct (map fst vs)" "el_event lc = updates vs m"
  shows "event_value (map fst vs) lc = Some (Ev (el_type lc @ ''Event'') vs)"
proof -
  have "those (map (\<lambda>(f, v). map_option (Pair f) (el_event lc f)) vs) = Some (map id vs)"
    using assms by (intro those_map_Some) (auto simp: updates_in)
  then show ?thesis by (simp add: event_value_def comp_def split_def)
qed

text \<open>The call at the end of a case, over locals that hold the decoded fields.\<close>

definition finish :: "'k env \<Rightarrow> config \<Rightarrow> ref \<Rightarrow> int \<Rightarrow> interface \<Rightarrow> message \<Rightarrow> string \<Rightarrow> (string \<times> gval) list \<Rightarrow> ('k world, unit) go" where
  "finish E c i fd v e name vs =
     (let h = toLowerCamel c (m_Name e) @ ''Handler'' in
      if isDeleteID c v e then andthen (delete_of i (map_of vs)) (call_if E i h (Ev name vs))
      else if isDisplayError c v e then andthen (record_of i (map_of vs)) (call_if E i h (Ev name vs))
      else if has_new e then bnd (handler_of i h) (\<lambda>f. case f of None \<Rightarrow> drop_fd (has_fd e) fd | Some _ \<Rightarrow> call_handler E i h (Ev name vs))
      else call_handler E i h (Ev name vs))"

lemma bnd_unit: "bnd m (\<lambda>_. ret ()) = (m :: ('w, unit) go)"
  by (rule ext) (simp add: bnd_def split: prod.splits sum.splits)

lemma updates_map_of: "distinct (map fst vs) \<Longrightarrow> updates vs m f = (case map_of vs f of None \<Rightarrow> m f | Some v \<Rightarrow> Some v)"
  by (induction vs arbitrary: m) (auto simp: updates_notin image_iff map_of_eq_None_iff split: option.splits)

lemma updates_zeros: "distinct (map fst vs) \<Longrightarrow> dom m \<subseteq> fst ` set vs \<Longrightarrow> updates vs m = map_of vs"
proof (rule ext)
  fix f assume "distinct (map fst vs)" "dom m \<subseteq> fst ` set vs"
  then show "updates vs m f = map_of vs f"
    by (cases "f \<in> fst ` set vs") (auto simp: updates_notin updates_in map_of_eq_None_iff [THEN iffD2] domIff subset_iff)
qed

lemma exec_call:
  assumes "distinct (map fst vs)" "map fst flds = map fst vs" "el_event lc = map_of vs" "name = el_type lc @ ''Event''"
  shows "exec_case E types flds i fd data (event_call c v e) lc = finish E c i fd v e name vs"
proof -
  have ev: "event_value (map fst flds) lc = Some (Ev name vs)"
    using event_value_updates [of vs lc "\<lambda>_. None"] assms updates_zeros [OF assms(1), of "\<lambda>_. None"] by simp
  show ?thesis
    by (simp add: event_call_def finish_def Let_def ev andthen_bnd bnd_assoc bnd_unit assms(3) del: ret_run cong: option.case_cong)
qed

lemma exec_case_Nil: "exec_case E types flds i fd data [] = (\<lambda>_. ret ())"
  by (rule ext) simp

lemma call_visible:
  "visible (exec_case E types flds i fd data (event_call c v e))"
  "exec_case E types flds i fd data (event_call c v e) (lc\<lparr>el_l := l\<rparr>) = exec_case E types flds i fd data (event_call c v e) lc"
proof -
  have ev: "event_value fs lc = event_value fs lc'" if "el_type lc = el_type lc'" "el_event lc = el_event lc'" for fs lc lc'
    using that by (simp add: event_value_def)
  have eq: "exec_case E types flds i fd data (event_call c v e) lc = exec_case E types flds i fd data (event_call c v e) lc'"
    if "el_type lc = el_type lc'" "el_event lc = el_event lc'" for lc lc'
    using ev [OF that] that
    by (cases "event_value (map fst flds) lc'")
      (simp_all add: event_call_def Let_def andthen_bnd bnd_assoc exec_case_Nil del: ret_run)
  show "visible (exec_case E types flds i fd data (event_call c v e))"
    unfolding visible_def using eq by blast
  show "exec_case E types flds i fd data (event_call c v e) (lc\<lparr>el_l := l\<rparr>) = exec_case E types flds i fd data (event_call c v e) lc"
    by (rule eq) simp_all
qed

lemma field_names:
  "map fst (zeros c e) = map (\<lambda>a. toCamel c (a_Name a)) (m_Args e)"
  "map fst (readers_of c types i fd data e) = map (\<lambda>a. toCamel c (a_Name a)) (m_Args e)"
  by (simp_all add: zeros_def readers_of_def)

lemma exec_after_guard:
  assumes wf: "distinct (map (\<lambda>a. toCamel c (a_Name a)) (m_Args e))" "\<forall>a\<in>set (m_Args e). wf_arg c types a"
  shows "exec_case E types (zeros c e) i fd data ([VarEvent n] @ event_cursor e @ concat (map (arg_reads c) (m_Args e)) @
      event_call c v e) start_elocals =
    bnd (decode (readers_of c types i fd data e) 0) (finish E c i fd v e (n @ ''Event''))"
proof -
  let ?lc = "start_elocals\<lparr>el_type := n, el_event := map_of (zeros c e)\<rparr>"
  let ?k = "exec_case E types (zeros c e) i fd data (event_call c v e)"
  have zero: "\<forall>a\<in>set (m_Args e). el_event ?lc (toCamel c (a_Name a)) = Some (zero_of a)"
    using wf(1) by (auto intro!: map_of_is_SomeI simp: field_names) (simp add: zeros_def)
  have "exec_case E types (zeros c e) i fd data ([VarEvent n] @ event_cursor e @ concat (map (arg_reads c) (m_Args e)) @
      event_call c v e) start_elocals = bnd (exec_es E types (zeros c e) i fd data (concat (map (arg_reads c) (m_Args e))) ?lc) ?k"
  proof -
    have l: "?lc\<lparr>el_l := 0\<rparr> = ?lc" by (simp add: start_elocals_def)
    have "event_cursor e \<in> {[], [LetL]}" by (auto simp: event_cursor_def split: list.splits)
    then show ?thesis using l by (auto simp: exec_case_append [OF no_guard_reads] simp del: ret_run)
  qed
  also have "\<dots> = bnd (decode (readers_of c types i fd data e) 0)
      (\<lambda>vs. ?k (?lc\<lparr>el_event := updates vs (map_of (zeros c e))\<rparr>))"
    using exec_reads [OF call_visible wf zero] by (simp add: readers_of_def start_elocals_def del: ret_run)
  also have "\<dots> = bnd (decode (readers_of c types i fd data e) 0) (finish E c i fd v e (n @ ''Event''))"
  proof (rule decode_cong)
    fix vs :: "(string \<times> gval) list" assume vs: "map fst vs = map fst (readers_of c types i fd data e)"
    have d: "distinct (map fst vs)" using wf(1) vs by (simp add: field_names)
    have dom: "dom (map_of (zeros c e)) \<subseteq> fst ` set vs"
    proof -
      have "fst ` set vs = set (map fst (zeros c e))" using vs by (metis field_names set_map)
      then show ?thesis by (simp add: dom_map_of_conv_image_fst)
    qed
    show "?k (?lc\<lparr>el_event := updates vs (map_of (zeros c e))\<rparr>) = finish E c i fd v e (n @ ''Event'') vs"
      by (rule exec_call) (use d vs updates_zeros [OF d dom] in \<open>simp_all add: field_names\<close>)
  qed
  finally show ?thesis .
qed

theorem event_correct:
  assumes "well_formed_event c types e"
  shows "exec_case E types (zeros c e) i fd data (event_body c (toCamel c (i_Name v)) v e) start_elocals =
    intended_event E c types i fd data v e"
proof -
  have wf: "distinct (map (\<lambda>a. toCamel c (a_Name a)) (m_Args e))" "\<forall>a\<in>set (m_Args e). wf_arg c types a"
    using assms by (auto simp: well_formed_event_def wf_arg_def list_all_iff)
  let ?h = "toLowerCamel c (m_Name e)" and ?n = "toCamel c (i_Name v) @ toCamel c (m_Name e)"
  note rest = exec_after_guard [OF wf, of E i fd data ?n v]
  show ?thesis
  proof (cases "\<not> isDeleteID c v e \<and> \<not> isDisplayError c v e \<and> \<not> has_new e")
    case True
    then have "finish E c i fd v e (?n @ ''Event'') = (\<lambda>vs. call_handler E i (?h @ ''Handler'') (Ev (?n @ ''Event'') vs))"
      by (auto simp: finish_def)
    then show ?thesis using True rest
      by (simp add: event_body_def event_guard_def intended_event_def fd_event_def event_def drop_fd_def Let_def
          del: ret_run exec_case.simps(3-) cong: option.case_cong)
  next
    case False
    then have "event_body c (toCamel c (i_Name v)) v e = [VarEvent ?n] @ event_cursor e @ concat (map (arg_reads c) (m_Args e)) @ event_call c v e"
      by (simp add: event_body_def event_guard_def)
    then show ?thesis using False rest
      by (cases "isDeleteID c v e"; cases "isDisplayError c v e"; cases "has_new e")
        (simp_all add: intended_event_def finish_def [abs_def] Let_def del: ret_run exec_case.simps)
  qed
qed

theorem dispatch_correct:
  "list_all (well_formed_event c types) (i_Events v) \<Longrightarrow>
   exec_dispatch E c types i v opcode fd data = intended_dispatch E c types i v opcode fd data"
  by (simp add: exec_dispatch_def intended_dispatch_def event_correct list_all_length Let_def)

section \<open>Ownership of the descriptor\<close>

lemma plain_any [plain_intro]: "plain (r_any i data)"
  by (rule plainI) (auto simp: r_any_def bnd_Inr andthen_Inr intro!: keeps_intro)

lemma plain_reader: "\<not> is_fd a \<Longrightarrow> plain (reader_of c types i fd data a)"
  by (auto simp: reader_of_def is_fd_def intro!: plain_intro)

lemma reader_fd: "is_fd a \<Longrightarrow> reader_of c types i fd data a = r_fd fd"
  by (simp add: reader_of_def is_fd_def)

lemma decode_readers:
  "length (filter is_fd as) \<le> 1 \<Longrightarrow>
   decode_ok (if list_ex is_fd as then in_flight fd else {#})
     (map (\<lambda>a. (toCamel c (a_Name a), reader_of c types i fd data a)) as)"
proof (induction as)
  case (Cons a as)
  show ?case
  proof (cases "is_fd a")
    case True
    then have "\<not> list_ex is_fd as" using Cons.prems by (auto simp: list_ex_iff filter_empty_conv)
    then show ?thesis using Cons True by (auto simp: reader_fd intro!: decode_ok_fd)
  next
    case False
    then show ?thesis using Cons plain_reader by (auto intro!: decode_ok_plain)
  qed
qed (simp add: owns_intro)

text \<open>One descriptor per event at most, and none for the client's own events.\<close>

definition well_formed_fds :: "config \<Rightarrow> interface \<Rightarrow> message \<Rightarrow> bool" where
  "well_formed_fds c v e \<longleftrightarrow> length (filter is_fd (m_Args e)) \<le> 1 \<and>
     (isDeleteID c v e \<or> isDisplayError c v e \<longrightarrow> \<not> has_fd e)"

lemma settles_andthen: "(\<And>X. keeps (fd_bal X) m) \<Longrightarrow> settles F n \<Longrightarrow> settles F (andthen m n)"
  unfolding andthen_def by (rule settles_bnd)

lemma settles_call_if: "handlers_return E \<Longrightarrow> vals_fds vs = {#} \<Longrightarrow> settles {#} (call_if E i h (Ev name vs))"
  unfolding call_if_def using settles_call [of E "Ev name vs" i h, unfolded ev_fds_vals]
  by (auto intro!: settles_bnd keeps_intro settles_ret)

lemma keeps_own_actions [keeps_intro]:
  "keeps (fd_bal X) (delete_of i ev)" "keeps (fd_bal X) (record_of i ev)"
  unfolding delete_of_def record_of_def ill_formed_def
  by (auto intro!: keeps_intro split: option.splits gval.splits)

lemma settles_drop_fd:
  "-1 \<le> fd \<Longrightarrow> settles (if closes then in_flight fd else {#}) (drop_fd closes fd)"
  by (auto simp: settles_def drop_fd_def unix_Close_def in_flight_def fd_bal_def)

lemma intended_event_owns:
  assumes H: "handlers_return E" and wf: "well_formed_fds c v e"
    and fd: "has_fd e \<Longrightarrow> -1 \<le> fd" "\<not> has_fd e \<Longrightarrow> fd < 0"
  shows "owns fd (intended_event E c types i fd data v e)"
proof -
  let ?F = "if has_fd e then in_flight fd else {#}"
  have F: "in_flight fd = ?F" using fd(2) by (auto simp: in_flight_none)
  have d: "decode_ok ?F (readers_of c types i fd data e)"
    using decode_readers [of "m_Args e" fd c types i data] wf by (simp add: well_formed_fds_def has_fd_def readers_of_def)
  have vals: "vals_fds vs = ?F" if "decode (readers_of c types i fd data e) 0 w = (Inr vs, w')" for vs w w'
    using decode_ok_vals [OF d that] .
  let ?h = "toLowerCamel c (m_Name e) @ ''Handler''"
  let ?name = "toCamel c (i_Name v) @ toCamel c (m_Name e) @ ''Event''"
  have own: "settles ?F (bnd (decode (readers_of c types i fd data e) 0) (\<lambda>vs. andthen (act vs) (call_if E i ?h (Ev ?name vs))))"
    if "\<not> has_fd e" "\<And>vs X. keeps (fd_bal X) (act vs)" for act
  proof (rule settles_bnd [OF decode_ok_keeps [OF d]])
    fix vs w w' assume "decode (readers_of c types i fd data e) 0 w = (Inr vs, w')"
    from vals [OF this] have "settles ?F (call_if E i ?h (Ev ?name vs))"
      using settles_call_if [OF H, of vs i ?h ?name] that(1) by simp
    then show "settles ?F (andthen (act vs) (call_if E i ?h (Ev ?name vs)))"
      by (intro settles_andthen that(2))
  qed
  have new: "settles ?F (bnd (decode (readers_of c types i fd data e) 0) (\<lambda>vs. bnd (handler_of i ?h) (\<lambda>f.
      case f of None \<Rightarrow> drop_fd (has_fd e) fd | Some _ \<Rightarrow> call_handler E i ?h (Ev ?name vs))))"
  proof (rule settles_bnd [OF decode_ok_keeps [OF d]])
    fix vs w w' assume "decode (readers_of c types i fd data e) 0 w = (Inr vs, w')"
    then have "ev_fds (Ev ?name vs) = ?F" unfolding ev_fds_vals by (rule vals)
    then have "settles ?F (call_handler E i ?h (Ev ?name vs))" using settles_call [OF H, of "Ev ?name vs" i ?h] by (simp only:)
    moreover have "settles ?F (drop_fd (has_fd e) fd :: ('a world, unit) go)"
      using settles_drop_fd [of fd "has_fd e"] fd(1) by (cases "has_fd e") (simp_all add: drop_fd_def settles_ret)
    ultimately show "settles ?F (bnd (handler_of i ?h) (\<lambda>f.
        case f of None \<Rightarrow> drop_fd (has_fd e) fd | Some _ \<Rightarrow> call_handler E i ?h (Ev ?name vs)))"
      by (auto intro!: settles_bnd keeps_intro split: option.splits)
  qed
  show ?thesis
  proof (cases "isDeleteID c v e \<or> isDisplayError c v e \<or> has_new e")
    case True
    then show ?thesis
      using own [of "\<lambda>vs. delete_of i (map_of vs)"] own [of "\<lambda>vs. record_of i (map_of vs)"] new wf
      unfolding owns_def by (subst F) (auto simp: intended_event_def Let_def well_formed_fds_def keeps_own_actions split: if_splits)
  next
    case False
    then show ?thesis
      using d fd owns_event [OF H, of "readers_of c types i fd data e" fd i ?h ?name]
        owns_fd_event [OF H, of fd "readers_of c types i fd data e" i ?h ?name]
      by (auto simp: intended_event_def Let_def split: if_splits)
  qed
qed

lemma fd_opcodes_iff: "n \<in> set (fd_opcodes v) \<longleftrightarrow> n < length (i_Events v) \<and> has_fd (i_Events v ! n)"
  by (auto simp: fd_opcodes_def numbered_def in_set_zip image_iff) (metis fst_conv in_set_zip length_upt minus_nat.diff_0 nth_upt plus_nat.add_0 snd_conv)

lemma exec_HasFD_iff:
  "exec_HasFD v opcode \<longleftrightarrow> unat opcode < length (i_Events v) \<and> has_fd (i_Events v ! unat opcode)"
  by (auto simp: exec_HasFD_def fd_opcodes_iff list_ex_iff)

theorem exec_dispatch_owns:
  assumes "handlers_return E" "list_all (well_formed_event c types) (i_Events v)" "list_all (well_formed_fds c v) (i_Events v)"
    and "exec_HasFD v opcode \<Longrightarrow> -1 \<le> fd" "\<not> exec_HasFD v opcode \<Longrightarrow> fd < 0"
  shows "owns fd (exec_dispatch E c types i v opcode fd data)"
proof (cases "unat opcode < length (i_Events v)")
  case True
  then show ?thesis
    using assms intended_event_owns [OF assms(1), of c v "i_Events v ! unat opcode" fd types i data]
    by (simp add: dispatch_correct intended_dispatch_def exec_HasFD_iff list_all_length)
qed (simp add: exec_dispatch_def owns_unsupported)

section \<open>Well-formedness of the context\<close>

lemma decode_readers_wf: "keeps wf_world (decode (map (\<lambda>a. (toCamel c (a_Name a), reader_of c types i fd data a)) as) l)"
proof (induction as arbitrary: l)
  case (Cons a as)
  show ?case
  proof (cases "is_fd a")
    case True
    then show ?thesis unfolding list.map reader_fd [OF True] by (intro decode_wf_fd Cons.IH)
  next
    case False
    then show ?thesis unfolding list.map by (intro decode_wf_plain plain_reader Cons.IH)
  qed
qed (simp add: keeps_intro)

lemma own_actions_wf [keeps_intro]:
  "keeps wf_world (delete_of i ev)" "keeps wf_world (record_of i ev)"
  unfolding delete_of_def record_of_def ill_formed_def
  by (auto intro!: keeps_intro split: option.splits gval.splits)

theorem exec_dispatch_wf:
  assumes H: "handlers_wf E" and wf: "list_all (well_formed_event c types) (i_Events v)"
  shows "keeps wf_world (exec_dispatch E c types i v opcode fd data)"
proof -
  have d: "keeps wf_world (decode (readers_of c types i f data e) l)" for e l f
    unfolding readers_of_def by (rule decode_readers_wf)
  have "keeps wf_world (intended_event E c types i fd data v e)" for e
    unfolding intended_event_def Let_def call_if_def drop_fd_def
    by (auto intro!: keeps_intro d H split: option.splits)
  then show ?thesis by (simp add: dispatch_correct [OF wf] intended_dispatch_def unsupported_keeps)
qed

text \<open>The two equations that only equalities between statements need are not for everyone's simplifier.\<close>

declare bnd_ret [simp del] ret_bnd [simp del]

end
