(* ===== verification/Scanner_Absorb.thy ===== *)
theory Scanner_Absorb
  imports Scanner_Event_Correct
begin

unbundle bit_operations_syntax

text \<open>
  The absorber that the scanner emits for interfaces whose events introduce objects: what it should do,
  that the generated \<open>AbsorbNewIDs\<close> does it, and that it steps over every argument exactly as the
  dispatcher does, so that it registers placeholders for the very IDs the dispatcher would bind.
\<close>

section \<open>Walking the arguments\<close>

definition skip_counted :: "string \<Rightarrow> bytes \<Rightarrow> nat \<Rightarrow> panic + nat" where
  "skip_counted what data l =
     (if length data < l + 4 then Inl (PanicMsg (''client: truncated event '' @ what @ '' length''))
      else pbind (get_u32 data l) (\<lambda>n.
        if unat n > length data - (l + 4) then Inl (PanicMsg (''client: truncated event '' @ what))
        else Inr (l + 4 + PaddedLen (unat n))))"

definition absorb_arg :: "config \<Rightarrow> (string \<Rightarrow> iface option) \<Rightarrow> ref \<Rightarrow> bytes \<Rightarrow> arg \<Rightarrow> nat \<Rightarrow> ('k world, nat) go" where
  "absorb_arg c types i data a l =
     (if a_Type a \<in> {''object'', ''new_id''} then
        if a_Interface a = [] then ret (l + 4)
        else if is_new a then absorb_new i data (the (arg_type c types a)) l
        else bnd (lift (get_u32 data l)) (\<lambda>_. ret (l + 4))
      else if a_Type a \<in> {''uint'', ''int'', ''fixed''} then ret (l + 4)
      else if a_Type a \<in> {''string'', ''array''} then lift (skip_counted (a_Type a) data l)
      else ret l)"

primrec absorb_args :: "config \<Rightarrow> (string \<Rightarrow> iface option) \<Rightarrow> ref \<Rightarrow> bytes \<Rightarrow> arg list \<Rightarrow> nat \<Rightarrow> ('k world, nat) go" where
  "absorb_args c types i data [] l = ret l"
| "absorb_args c types i data (a # as) l = bnd (absorb_arg c types i data a l) (absorb_args c types i data as)"

definition intended_absorb :: "config \<Rightarrow> (string \<Rightarrow> iface option) \<Rightarrow> ref \<Rightarrow> interface \<Rightarrow> u32 \<Rightarrow> bytes \<Rightarrow> ('k world, unit) go" where
  "intended_absorb c types i v opcode data =
     (if unat opcode < length (i_Events v) \<and> has_new (i_Events v ! unat opcode)
      then bnd (absorb_args c types i data (m_Args (i_Events v ! unat opcode)) 0) (\<lambda>_. ret ()) else ret ())"

section \<open>The generated code\<close>

lemma visible_wire: "visible k \<Longrightarrow> k (lc\<lparr>el_wire := a, el_l := l\<rparr>) = k (lc\<lparr>el_l := l\<rparr>)"
  by (erule visibleD) simp_all

lemma exec_skip_counted:
  assumes "visible k"
  shows "bnd (exec_es E types flds i fd data [CheckLen what, LetWire q x, CheckWire x what, SkipWire q x] lc) k =
    bnd (lift (skip_counted what data (el_l lc))) (\<lambda>l. k (lc\<lparr>el_l := l\<rparr>))"
proof (rule ext)
  fix w
  show "bnd (exec_es E types flds i fd data [CheckLen what, LetWire q x, CheckWire x what, SkipWire q x] lc) k w =
    bnd (lift (skip_counted what data (el_l lc))) (\<lambda>l. k (lc\<lparr>el_l := l\<rparr>)) w"
    by (cases "get_u32 data (el_l lc)") (simp_all add: skip_counted_def bnd_assoc visible_wire [OF assms])
qed

lemma exec_arg_absorbs:
  assumes vis: "visible k" and wf: "wf_arg c types a"
  shows "bnd (exec_es E types flds i fd data (arg_absorbs c a) lc) k =
    bnd (absorb_arg c types i data a (el_l lc)) (\<lambda>l. k (lc\<lparr>el_l := l\<rparr>))"
proof -
  note s = arg_absorbs_def absorb_arg_def is_new_def Let_def bnd_assoc ret_bnd
  consider "a_Type a \<in> {''object'', ''new_id''}" "a_Interface a = []" | "a_Type a = ''new_id''" "a_Interface a \<noteq> []"
    | "a_Type a = ''object''" "a_Interface a \<noteq> []" | "a_Type a \<in> {''uint'', ''int'', ''fixed'', ''fd''}"
    | "a_Type a \<in> {''string'', ''array''}"
    using wf unfolding wf_arg_def arg_types_def by auto
  then show ?thesis
  proof cases
    case 1
    then show ?thesis by (auto simp: s simp del: ret_run)
  next
    case 2
    then obtain g where "types (interfaceNameForArg c (p_Name (protocol c)) (a_Interface a)) = Some g"
      using wf by (auto simp: wf_arg_def arg_type_def)
    then show ?thesis using 2
      by (simp add: s absorb_new_def arg_type_def andthen_bnd visible_updates [OF vis] del: ret_run lift_run)
  next
    case 3
    then show ?thesis by (simp add: s visible_updates [OF vis] del: ret_run lift_run)
  next
    case 4
    then show ?thesis by (auto simp: s simp del: ret_run)
  next
    case 5
    then show ?thesis using exec_skip_counted [OF vis] by (auto simp: s simp del: ret_run exec_es.simps lift_run)
  qed
qed

lemma visible_absorbs:
  assumes "visible k" "wf_arg c types a"
  shows "visible (\<lambda>lc. bnd (exec_es E types flds i fd data (arg_absorbs c a) lc) k)"
  unfolding visible_def
proof (intro allI impI)
  fix lc lc' :: elocals assume e: "el_l lc = el_l lc' \<and> el_type lc = el_type lc' \<and> el_event lc = el_event lc'"
  then have "k (lc\<lparr>el_l := l\<rparr>) = k (lc'\<lparr>el_l := l\<rparr>)" for l
    by (intro visibleD [OF assms(1)]) simp_all
  then show "bnd (exec_es E types flds i fd data (arg_absorbs c a) lc) k = bnd (exec_es E types flds i fd data (arg_absorbs c a) lc') k"
    using e by (simp add: exec_arg_absorbs [OF assms])
qed

lemma exec_absorbs_Cons:
  "bnd (exec_es E types flds i fd data (concat (map (arg_absorbs c) (a # as))) lc) k =
   bnd (exec_es E types flds i fd data (arg_absorbs c a) lc)
     (\<lambda>lc. bnd (exec_es E types flds i fd data (concat (map (arg_absorbs c) as)) lc) k)"
  by (simp add: exec_es_append bnd_assoc del: ret_run)

lemma visible_all_absorbs:
  "visible k \<Longrightarrow> \<forall>a\<in>set as. wf_arg c types a \<Longrightarrow>
   visible (\<lambda>lc. bnd (exec_es E types flds i fd data (concat (map (arg_absorbs c) as)) lc) k)"
proof (induction as)
  case (Cons a as)
  then show ?case unfolding exec_absorbs_Cons by (intro visible_absorbs) simp_all
qed (simp add: ret_bnd del: ret_run)

lemma exec_absorbs:
  "visible k \<Longrightarrow> \<forall>a\<in>set as. wf_arg c types a \<Longrightarrow>
   bnd (exec_es E types flds i fd data (concat (map (arg_absorbs c) as)) lc) k =
     bnd (absorb_args c types i data as (el_l lc)) (\<lambda>l. k (lc\<lparr>el_l := l\<rparr>))"
proof (induction as arbitrary: lc)
  case (Cons a as)
  show ?case unfolding exec_absorbs_Cons
    by (subst exec_arg_absorbs [OF visible_all_absorbs [OF Cons.prems(1)], of as c types])
      (use Cons in \<open>simp_all add: bnd_assoc\<close>)
qed (simp add: ret_bnd del: ret_run)

lemma no_guard_absorbs: "list_all no_guard (absorb_body c e)"
proof -
  have "list_all no_guard (concat (map (arg_absorbs c) as))" for as
  proof (induction as)
    case (Cons a as)
    have "list_all no_guard (arg_absorbs c a)" by (simp add: arg_absorbs_def Let_def)
    then show ?case using Cons by simp
  qed simp
  then show ?thesis by (simp add: absorb_body_def)
qed

lemma introducing_iff: "map_of (introducing v) n = (if n < length (i_Events v) \<and> has_new (i_Events v ! n) then Some (i_Events v ! n) else None)"
proof -
  have d: "distinct (map fst (introducing v))"
    unfolding introducing_def numbered_def by (rule distinct_map_filter) simp
  show ?thesis
  proof (cases "n < length (i_Events v) \<and> has_new (i_Events v ! n)")
    case True
    then have "(n, i_Events v ! n) \<in> set (introducing v)"
      by (auto simp: introducing_def numbered_def in_set_zip intro!: exI [of _ n])
    then show ?thesis using True d by simp
  next
    case False
    then have "n \<notin> fst ` set (introducing v)" by (auto simp: introducing_def numbered_def in_set_zip)
    then have "map_of (introducing v) n = None" by (simp add: map_of_eq_None_iff)
    then show ?thesis using False by auto
  qed
qed

theorem absorb_correct:
  assumes "list_all (well_formed_event c types) (i_Events v)"
  shows "exec_absorb E c types i v opcode data = intended_absorb c types i v opcode data"
proof (cases "unat opcode < length (i_Events v) \<and> has_new (i_Events v ! unat opcode)")
  case True
  let ?e = "i_Events v ! unat opcode"
  have "well_formed_event c types ?e" using assms True by (simp add: list_all_length)
  then have wf: "\<forall>a\<in>set (m_Args ?e). wf_arg c types a"
    by (auto simp: well_formed_event_def wf_arg_def list_all_iff)
  have vis: "visible (\<lambda>_. ret ())" by (simp add: visible_def)
  have "exec_case E types [] i (-1) data (absorb_body c ?e) start_elocals =
      bnd (exec_es E types [] i (-1) data (absorb_body c ?e) start_elocals) (\<lambda>_. ret ())"
    using exec_case_append [OF no_guard_absorbs, of E types "[]" i "-1" data c ?e "[]"] by (simp add: exec_case_Nil)
  also have "\<dots> = bnd (absorb_args c types i data (m_Args ?e) 0) (\<lambda>_. ret ())"
    using exec_absorbs [OF vis wf, of E "[]" i "-1" data "start_elocals\<lparr>el_l := 0\<rparr>"]
    by (simp add: absorb_body_def ret_bnd del: ret_run)
  finally show ?thesis using True by (simp add: exec_absorb_def introducing_iff intended_absorb_def)
qed (auto simp: exec_absorb_def introducing_iff intended_absorb_def)

section \<open>Agreement with the dispatcher\<close>

lemma counted_skips: "counted what data l = Inr (m, n, p) \<Longrightarrow> skip_counted what data l = Inr (m + p)"
  by (cases "get_u32 data l") (auto simp: counted_def skip_counted_def Let_def split: if_splits)

lemma pbind_Inr_E: "pbind m f = Inr b \<Longrightarrow> (\<And>a. m = Inr a \<Longrightarrow> f a = Inr b \<Longrightarrow> P) \<Longrightarrow> P"
  by (cases m) auto

text \<open>Where the dispatcher reads an argument, the absorber steps over it to the same place.\<close>

theorem absorb_steps_like_dispatch:
  assumes "wf_arg c types a" "\<not> is_new a"
    and r: "reader_of c types i fd data a l w = (Inr (v, m), w')"
  shows "absorb_arg c types i data a l u = (Inr m, u)"
proof -
  have t: "a_Type a \<in> set arg_types" using assms(1) by (simp add: wf_arg_def)
  have str: "skip_counted ''string'' data l = Inr m" if "get_string data l = Inr (s, m) \<or> get_opt_string data l = Inr (t, m)" for s t
    using that by (auto simp: get_string_def get_opt_string_def split: prod.splits if_splits elim!: pbind_Inr_E dest!: counted_skips)
  have arr: "skip_counted ''array'' data l = Inr m" if "get_array data l = Inr (s, m)" for s
    using that by (auto simp: get_array_def split: prod.splits elim!: pbind_Inr_E dest!: counted_skips)
  show ?thesis
    using t assms(2) r str arr
    by (auto simp: arg_types_def is_new_def reader_of_def absorb_arg_def r_uint_def r_int_def r_fixed_def r_string_def
        r_opt_string_def r_array_def r_fd_def r_any_def r_obj_def bnd_Inr andthen_Inr split: if_splits)
qed

section \<open>Contracts\<close>

lemma absorb_args_keeps:
  "keeps wf_world (absorb_args c types i data as l)" "keeps (fd_bal X) (absorb_args c types i data as l)"
proof -
  have a: "keeps wf_world (absorb_arg c types i data a l)" "keeps (fd_bal X) (absorb_arg c types i data a l)" for a l
    by (auto simp: absorb_arg_def intro!: keeps_intro)
  show "keeps wf_world (absorb_args c types i data as l)"
    by (induction as arbitrary: l) (auto intro!: keeps_intro a)
  show "keeps (fd_bal X) (absorb_args c types i data as l)"
    by (induction as arbitrary: l) (auto intro!: keeps_intro a)
qed

theorem exec_absorb_keeps:
  assumes "list_all (well_formed_event c types) (i_Events v)"
  shows "keeps wf_world (exec_absorb E c types i v opcode data)" "keeps (fd_bal X) (exec_absorb E c types i v opcode data)"
  unfolding absorb_correct [OF assms] intended_absorb_def by (auto intro!: keeps_intro absorb_args_keeps)

end
