(* ===== verification/Scanner_Protocols.thy ===== *)
theory Scanner_Protocols
  imports Scanner_Absorb
begin

text \<open>
  The protocol descriptions in protocols/: the requests and events of every interface with their arguments, as the XML
  decoder hands them to the scanner, and its enums. Descriptions and summaries, which only become comments, are left out.
\<close>

definition no_text :: description where
  "no_text = \<lparr>d_Text = [], d_Summary = []\<rparr>"

definition mk_arg :: "string \<Rightarrow> string \<Rightarrow> string \<Rightarrow> bool \<Rightarrow> arg" where
  "mk_arg n t iface null = \<lparr>a_Name = n, a_Type = t, a_Summary = [], a_Interface = iface, a_Description = no_text, a_AllowNull = null\<rparr>"

definition mk_message :: "string \<Rightarrow> string \<Rightarrow> arg list \<Rightarrow> message" where
  "mk_message n t as = \<lparr>m_Name = n, m_Type = t, m_Description = no_text, m_Args = as\<rparr>"

definition mk_enum :: "string \<Rightarrow> (string \<times> string) list \<Rightarrow> enum" where
  "mk_enum n es = \<lparr>e_Name = n, e_Description = no_text,
     e_Entries = map (\<lambda>(n, x). \<lparr>en_Name = n, en_Value = x, en_Summary = []\<rparr>) es\<rparr>"

definition mk_interface :: "string \<Rightarrow> message list \<Rightarrow> message list \<Rightarrow> enum list \<Rightarrow> interface" where
  "mk_interface n rs es ens = \<lparr>i_Name = n, i_Description = no_text, i_Requests = rs, i_Events = es, i_Enums = ens\<rparr>"

lemmas mk_defs = mk_arg_def mk_message_def mk_interface_def

section \<open>protocols/wayland.xml\<close>

definition wl_display_error :: enum where
  "wl_display_error = mk_enum ''error''
     [(''invalid_object'', ''0''), (''invalid_method'', ''1''), (''no_memory'', ''2''), (''implementation'', ''3'')]"

definition wl_display :: interface where
  "wl_display = mk_interface ''wl_display''
     [mk_message ''sync'' '''' [mk_arg ''callback'' ''new_id'' ''wl_callback'' False],
      mk_message ''get_registry'' '''' [mk_arg ''registry'' ''new_id'' ''wl_registry'' False]]
     [mk_message ''error'' '''' [mk_arg ''object_id'' ''object'' '''' False, mk_arg ''code'' ''uint'' '''' False, mk_arg ''message'' ''string'' '''' False],
      mk_message ''delete_id'' '''' [mk_arg ''id'' ''uint'' '''' False]]
     [wl_display_error]"

definition wl_registry :: interface where
  "wl_registry = mk_interface ''wl_registry''
     [mk_message ''bind'' '''' [mk_arg ''name'' ''uint'' '''' False, mk_arg ''id'' ''new_id'' '''' False]]
     [mk_message ''global'' '''' [mk_arg ''name'' ''uint'' '''' False, mk_arg ''interface'' ''string'' '''' False, mk_arg ''version'' ''uint'' '''' False],
      mk_message ''global_remove'' '''' [mk_arg ''name'' ''uint'' '''' False]]
     []"

definition wl_callback :: interface where
  "wl_callback = mk_interface ''wl_callback''
     []
     [mk_message ''done'' ''destructor'' [mk_arg ''callback_data'' ''uint'' '''' False]]
     []"

definition wl_compositor :: interface where
  "wl_compositor = mk_interface ''wl_compositor''
     [mk_message ''create_surface'' '''' [mk_arg ''id'' ''new_id'' ''wl_surface'' False],
      mk_message ''create_region'' '''' [mk_arg ''id'' ''new_id'' ''wl_region'' False]]
     []
     []"

definition wl_shm_pool :: interface where
  "wl_shm_pool = mk_interface ''wl_shm_pool''
     [mk_message ''create_buffer'' '''' [mk_arg ''id'' ''new_id'' ''wl_buffer'' False, mk_arg ''offset'' ''int'' '''' False, mk_arg ''width'' ''int'' '''' False, mk_arg ''height'' ''int'' '''' False, mk_arg ''stride'' ''int'' '''' False, mk_arg ''format'' ''uint'' '''' False],
      mk_message ''destroy'' ''destructor'' [],
      mk_message ''resize'' '''' [mk_arg ''size'' ''int'' '''' False]]
     []
     []"

definition wl_shm_error :: enum where
  "wl_shm_error = mk_enum ''error''
     [(''invalid_format'', ''0''), (''invalid_stride'', ''1''), (''invalid_fd'', ''2'')]"

definition wl_shm_format :: enum where
  "wl_shm_format = mk_enum ''format''
     [(''argb8888'', ''0''), (''xrgb8888'', ''1''), (''c8'', ''0x20203843''), (''rgb332'', ''0x38424752''),
      (''bgr233'', ''0x38524742''), (''xrgb4444'', ''0x32315258''), (''xbgr4444'', ''0x32314258''),
      (''rgbx4444'', ''0x32315852''), (''bgrx4444'', ''0x32315842''), (''argb4444'', ''0x32315241''),
      (''abgr4444'', ''0x32314241''), (''rgba4444'', ''0x32314152''), (''bgra4444'', ''0x32314142''),
      (''xrgb1555'', ''0x35315258''), (''xbgr1555'', ''0x35314258''), (''rgbx5551'', ''0x35315852''),
      (''bgrx5551'', ''0x35315842''), (''argb1555'', ''0x35315241''), (''abgr1555'', ''0x35314241''),
      (''rgba5551'', ''0x35314152''), (''bgra5551'', ''0x35314142''), (''rgb565'', ''0x36314752''),
      (''bgr565'', ''0x36314742''), (''rgb888'', ''0x34324752''), (''bgr888'', ''0x34324742''),
      (''xbgr8888'', ''0x34324258''), (''rgbx8888'', ''0x34325852''), (''bgrx8888'', ''0x34325842''),
      (''abgr8888'', ''0x34324241''), (''rgba8888'', ''0x34324152''), (''bgra8888'', ''0x34324142''),
      (''xrgb2101010'', ''0x30335258''), (''xbgr2101010'', ''0x30334258''), (''rgbx1010102'', ''0x30335852''),
      (''bgrx1010102'', ''0x30335842''), (''argb2101010'', ''0x30335241''), (''abgr2101010'', ''0x30334241''),
      (''rgba1010102'', ''0x30334152''), (''bgra1010102'', ''0x30334142''), (''yuyv'', ''0x56595559''),
      (''yvyu'', ''0x55595659''), (''uyvy'', ''0x59565955''), (''vyuy'', ''0x59555956''), (''ayuv'', ''0x56555941''),
      (''nv12'', ''0x3231564e''), (''nv21'', ''0x3132564e''), (''nv16'', ''0x3631564e''), (''nv61'', ''0x3136564e''),
      (''yuv410'', ''0x39565559''), (''yvu410'', ''0x39555659''), (''yuv411'', ''0x31315559''),
      (''yvu411'', ''0x31315659''), (''yuv420'', ''0x32315559''), (''yvu420'', ''0x32315659''),
      (''yuv422'', ''0x36315559''), (''yvu422'', ''0x36315659''), (''yuv444'', ''0x34325559''),
      (''yvu444'', ''0x34325659''), (''r8'', ''0x20203852''), (''r16'', ''0x20363152''), (''rg88'', ''0x38384752''),
      (''gr88'', ''0x38385247''), (''rg1616'', ''0x32334752''), (''gr1616'', ''0x32335247''),
      (''xrgb16161616f'', ''0x48345258''), (''xbgr16161616f'', ''0x48344258''), (''argb16161616f'', ''0x48345241''),
      (''abgr16161616f'', ''0x48344241''), (''xyuv8888'', ''0x56555958''), (''vuy888'', ''0x34325556''),
      (''vuy101010'', ''0x30335556''), (''y210'', ''0x30313259''), (''y212'', ''0x32313259''), (''y216'', ''0x36313259''),
      (''y410'', ''0x30313459''), (''y412'', ''0x32313459''), (''y416'', ''0x36313459''), (''xvyu2101010'', ''0x30335658''),
      (''xvyu12_16161616'', ''0x36335658''), (''xvyu16161616'', ''0x38345658''), (''y0l0'', ''0x304c3059''),
      (''x0l0'', ''0x304c3058''), (''y0l2'', ''0x324c3059''), (''x0l2'', ''0x324c3058''), (''yuv420_8bit'', ''0x38305559''),
      (''yuv420_10bit'', ''0x30315559''), (''xrgb8888_a8'', ''0x38415258''), (''xbgr8888_a8'', ''0x38414258''),
      (''rgbx8888_a8'', ''0x38415852''), (''bgrx8888_a8'', ''0x38415842''), (''rgb888_a8'', ''0x38413852''),
      (''bgr888_a8'', ''0x38413842''), (''rgb565_a8'', ''0x38413552''), (''bgr565_a8'', ''0x38413542''),
      (''nv24'', ''0x3432564e''), (''nv42'', ''0x3234564e''), (''p210'', ''0x30313250''), (''p010'', ''0x30313050''),
      (''p012'', ''0x32313050''), (''p016'', ''0x36313050''), (''axbxgxrx106106106106'', ''0x30314241''),
      (''nv15'', ''0x3531564e''), (''q410'', ''0x30313451''), (''q401'', ''0x31303451''),
      (''xrgb16161616'', ''0x38345258''), (''xbgr16161616'', ''0x38344258''), (''argb16161616'', ''0x38345241''),
      (''abgr16161616'', ''0x38344241''), (''c1'', ''0x20203143''), (''c2'', ''0x20203243''), (''c4'', ''0x20203443''),
      (''d1'', ''0x20203144''), (''d2'', ''0x20203244''), (''d4'', ''0x20203444''), (''d8'', ''0x20203844''),
      (''r1'', ''0x20203152''), (''r2'', ''0x20203252''), (''r4'', ''0x20203452''), (''r10'', ''0x20303152''),
      (''r12'', ''0x20323152''), (''avuy8888'', ''0x59555641''), (''xvuy8888'', ''0x59555658''), (''p030'', ''0x30333050'')]"

definition wl_shm :: interface where
  "wl_shm = mk_interface ''wl_shm''
     [mk_message ''create_pool'' '''' [mk_arg ''id'' ''new_id'' ''wl_shm_pool'' False, mk_arg ''fd'' ''fd'' '''' False, mk_arg ''size'' ''int'' '''' False],
      mk_message ''release'' ''destructor'' []]
     [mk_message ''format'' '''' [mk_arg ''format'' ''uint'' '''' False]]
     [wl_shm_error, wl_shm_format]"

definition wl_buffer :: interface where
  "wl_buffer = mk_interface ''wl_buffer''
     [mk_message ''destroy'' ''destructor'' []]
     [mk_message ''release'' '''' []]
     []"

definition wl_data_offer_error :: enum where
  "wl_data_offer_error = mk_enum ''error''
     [(''invalid_finish'', ''0''), (''invalid_action_mask'', ''1''), (''invalid_action'', ''2''), (''invalid_offer'', ''3'')]"

definition wl_data_offer :: interface where
  "wl_data_offer = mk_interface ''wl_data_offer''
     [mk_message ''accept'' '''' [mk_arg ''serial'' ''uint'' '''' False, mk_arg ''mime_type'' ''string'' '''' True],
      mk_message ''receive'' '''' [mk_arg ''mime_type'' ''string'' '''' False, mk_arg ''fd'' ''fd'' '''' False],
      mk_message ''destroy'' ''destructor'' [],
      mk_message ''finish'' '''' [],
      mk_message ''set_actions'' '''' [mk_arg ''dnd_actions'' ''uint'' '''' False, mk_arg ''preferred_action'' ''uint'' '''' False]]
     [mk_message ''offer'' '''' [mk_arg ''mime_type'' ''string'' '''' False],
      mk_message ''source_actions'' '''' [mk_arg ''source_actions'' ''uint'' '''' False],
      mk_message ''action'' '''' [mk_arg ''dnd_action'' ''uint'' '''' False]]
     [wl_data_offer_error]"

definition wl_data_source_error :: enum where
  "wl_data_source_error = mk_enum ''error''
     [(''invalid_action_mask'', ''0''), (''invalid_source'', ''1'')]"

definition wl_data_source :: interface where
  "wl_data_source = mk_interface ''wl_data_source''
     [mk_message ''offer'' '''' [mk_arg ''mime_type'' ''string'' '''' False],
      mk_message ''destroy'' ''destructor'' [],
      mk_message ''set_actions'' '''' [mk_arg ''dnd_actions'' ''uint'' '''' False]]
     [mk_message ''target'' '''' [mk_arg ''mime_type'' ''string'' '''' True],
      mk_message ''send'' '''' [mk_arg ''mime_type'' ''string'' '''' False, mk_arg ''fd'' ''fd'' '''' False],
      mk_message ''cancelled'' '''' [],
      mk_message ''dnd_drop_performed'' '''' [],
      mk_message ''dnd_finished'' '''' [],
      mk_message ''action'' '''' [mk_arg ''dnd_action'' ''uint'' '''' False]]
     [wl_data_source_error]"

definition wl_data_device_error :: enum where
  "wl_data_device_error = mk_enum ''error''
     [(''role'', ''0''), (''used_source'', ''1'')]"

definition wl_data_device :: interface where
  "wl_data_device = mk_interface ''wl_data_device''
     [mk_message ''start_drag'' '''' [mk_arg ''source'' ''object'' ''wl_data_source'' True, mk_arg ''origin'' ''object'' ''wl_surface'' False, mk_arg ''icon'' ''object'' ''wl_surface'' True, mk_arg ''serial'' ''uint'' '''' False],
      mk_message ''set_selection'' '''' [mk_arg ''source'' ''object'' ''wl_data_source'' True, mk_arg ''serial'' ''uint'' '''' False],
      mk_message ''release'' ''destructor'' []]
     [mk_message ''data_offer'' '''' [mk_arg ''id'' ''new_id'' ''wl_data_offer'' False],
      mk_message ''enter'' '''' [mk_arg ''serial'' ''uint'' '''' False, mk_arg ''surface'' ''object'' ''wl_surface'' False, mk_arg ''x'' ''fixed'' '''' False, mk_arg ''y'' ''fixed'' '''' False, mk_arg ''id'' ''object'' ''wl_data_offer'' True],
      mk_message ''leave'' '''' [],
      mk_message ''motion'' '''' [mk_arg ''time'' ''uint'' '''' False, mk_arg ''x'' ''fixed'' '''' False, mk_arg ''y'' ''fixed'' '''' False],
      mk_message ''drop'' '''' [],
      mk_message ''selection'' '''' [mk_arg ''id'' ''object'' ''wl_data_offer'' True]]
     [wl_data_device_error]"

definition wl_data_device_manager_dnd_action :: enum where
  "wl_data_device_manager_dnd_action = mk_enum ''dnd_action''
     [(''none'', ''0''), (''copy'', ''1''), (''move'', ''2''), (''ask'', ''4'')]"

definition wl_data_device_manager :: interface where
  "wl_data_device_manager = mk_interface ''wl_data_device_manager''
     [mk_message ''create_data_source'' '''' [mk_arg ''id'' ''new_id'' ''wl_data_source'' False],
      mk_message ''get_data_device'' '''' [mk_arg ''id'' ''new_id'' ''wl_data_device'' False, mk_arg ''seat'' ''object'' ''wl_seat'' False]]
     []
     [wl_data_device_manager_dnd_action]"

definition wl_shell_error :: enum where
  "wl_shell_error = mk_enum ''error''
     [(''role'', ''0'')]"

definition wl_shell :: interface where
  "wl_shell = mk_interface ''wl_shell''
     [mk_message ''get_shell_surface'' '''' [mk_arg ''id'' ''new_id'' ''wl_shell_surface'' False, mk_arg ''surface'' ''object'' ''wl_surface'' False]]
     []
     [wl_shell_error]"

definition wl_shell_surface_resize :: enum where
  "wl_shell_surface_resize = mk_enum ''resize''
     [(''none'', ''0''), (''top'', ''1''), (''bottom'', ''2''), (''left'', ''4''), (''top_left'', ''5''),
      (''bottom_left'', ''6''), (''right'', ''8''), (''top_right'', ''9''), (''bottom_right'', ''10'')]"

definition wl_shell_surface_transient :: enum where
  "wl_shell_surface_transient = mk_enum ''transient''
     [(''inactive'', ''0x1'')]"

definition wl_shell_surface_fullscreen_method :: enum where
  "wl_shell_surface_fullscreen_method = mk_enum ''fullscreen_method''
     [(''default'', ''0''), (''scale'', ''1''), (''driver'', ''2''), (''fill'', ''3'')]"

definition wl_shell_surface :: interface where
  "wl_shell_surface = mk_interface ''wl_shell_surface''
     [mk_message ''pong'' '''' [mk_arg ''serial'' ''uint'' '''' False],
      mk_message ''move'' '''' [mk_arg ''seat'' ''object'' ''wl_seat'' False, mk_arg ''serial'' ''uint'' '''' False],
      mk_message ''resize'' '''' [mk_arg ''seat'' ''object'' ''wl_seat'' False, mk_arg ''serial'' ''uint'' '''' False, mk_arg ''edges'' ''uint'' '''' False],
      mk_message ''set_toplevel'' '''' [],
      mk_message ''set_transient'' '''' [mk_arg ''parent'' ''object'' ''wl_surface'' False, mk_arg ''x'' ''int'' '''' False, mk_arg ''y'' ''int'' '''' False, mk_arg ''flags'' ''uint'' '''' False],
      mk_message ''set_fullscreen'' '''' [mk_arg ''method'' ''uint'' '''' False, mk_arg ''framerate'' ''uint'' '''' False, mk_arg ''output'' ''object'' ''wl_output'' True],
      mk_message ''set_popup'' '''' [mk_arg ''seat'' ''object'' ''wl_seat'' False, mk_arg ''serial'' ''uint'' '''' False, mk_arg ''parent'' ''object'' ''wl_surface'' False, mk_arg ''x'' ''int'' '''' False, mk_arg ''y'' ''int'' '''' False, mk_arg ''flags'' ''uint'' '''' False],
      mk_message ''set_maximized'' '''' [mk_arg ''output'' ''object'' ''wl_output'' True],
      mk_message ''set_title'' '''' [mk_arg ''title'' ''string'' '''' False],
      mk_message ''set_class'' '''' [mk_arg ''class_'' ''string'' '''' False]]
     [mk_message ''ping'' '''' [mk_arg ''serial'' ''uint'' '''' False],
      mk_message ''configure'' '''' [mk_arg ''edges'' ''uint'' '''' False, mk_arg ''width'' ''int'' '''' False, mk_arg ''height'' ''int'' '''' False],
      mk_message ''popup_done'' '''' []]
     [wl_shell_surface_resize, wl_shell_surface_transient, wl_shell_surface_fullscreen_method]"

definition wl_surface_error :: enum where
  "wl_surface_error = mk_enum ''error''
     [(''invalid_scale'', ''0''), (''invalid_transform'', ''1''), (''invalid_size'', ''2''), (''invalid_offset'', ''3''),
      (''defunct_role_object'', ''4'')]"

definition wl_surface :: interface where
  "wl_surface = mk_interface ''wl_surface''
     [mk_message ''destroy'' ''destructor'' [],
      mk_message ''attach'' '''' [mk_arg ''buffer'' ''object'' ''wl_buffer'' True, mk_arg ''x'' ''int'' '''' False, mk_arg ''y'' ''int'' '''' False],
      mk_message ''damage'' '''' [mk_arg ''x'' ''int'' '''' False, mk_arg ''y'' ''int'' '''' False, mk_arg ''width'' ''int'' '''' False, mk_arg ''height'' ''int'' '''' False],
      mk_message ''frame'' '''' [mk_arg ''callback'' ''new_id'' ''wl_callback'' False],
      mk_message ''set_opaque_region'' '''' [mk_arg ''region'' ''object'' ''wl_region'' True],
      mk_message ''set_input_region'' '''' [mk_arg ''region'' ''object'' ''wl_region'' True],
      mk_message ''commit'' '''' [],
      mk_message ''set_buffer_transform'' '''' [mk_arg ''transform'' ''int'' '''' False],
      mk_message ''set_buffer_scale'' '''' [mk_arg ''scale'' ''int'' '''' False],
      mk_message ''damage_buffer'' '''' [mk_arg ''x'' ''int'' '''' False, mk_arg ''y'' ''int'' '''' False, mk_arg ''width'' ''int'' '''' False, mk_arg ''height'' ''int'' '''' False],
      mk_message ''offset'' '''' [mk_arg ''x'' ''int'' '''' False, mk_arg ''y'' ''int'' '''' False]]
     [mk_message ''enter'' '''' [mk_arg ''output'' ''object'' ''wl_output'' False],
      mk_message ''leave'' '''' [mk_arg ''output'' ''object'' ''wl_output'' False],
      mk_message ''preferred_buffer_scale'' '''' [mk_arg ''factor'' ''int'' '''' False],
      mk_message ''preferred_buffer_transform'' '''' [mk_arg ''transform'' ''uint'' '''' False]]
     [wl_surface_error]"

definition wl_seat_capability :: enum where
  "wl_seat_capability = mk_enum ''capability''
     [(''pointer'', ''1''), (''keyboard'', ''2''), (''touch'', ''4'')]"

definition wl_seat_error :: enum where
  "wl_seat_error = mk_enum ''error''
     [(''missing_capability'', ''0'')]"

definition wl_seat :: interface where
  "wl_seat = mk_interface ''wl_seat''
     [mk_message ''get_pointer'' '''' [mk_arg ''id'' ''new_id'' ''wl_pointer'' False],
      mk_message ''get_keyboard'' '''' [mk_arg ''id'' ''new_id'' ''wl_keyboard'' False],
      mk_message ''get_touch'' '''' [mk_arg ''id'' ''new_id'' ''wl_touch'' False],
      mk_message ''release'' ''destructor'' []]
     [mk_message ''capabilities'' '''' [mk_arg ''capabilities'' ''uint'' '''' False],
      mk_message ''name'' '''' [mk_arg ''name'' ''string'' '''' False]]
     [wl_seat_capability, wl_seat_error]"

definition wl_pointer_error :: enum where
  "wl_pointer_error = mk_enum ''error''
     [(''role'', ''0'')]"

definition wl_pointer_button_state :: enum where
  "wl_pointer_button_state = mk_enum ''button_state''
     [(''released'', ''0''), (''pressed'', ''1'')]"

definition wl_pointer_axis :: enum where
  "wl_pointer_axis = mk_enum ''axis''
     [(''vertical_scroll'', ''0''), (''horizontal_scroll'', ''1'')]"

definition wl_pointer_axis_source :: enum where
  "wl_pointer_axis_source = mk_enum ''axis_source''
     [(''wheel'', ''0''), (''finger'', ''1''), (''continuous'', ''2''), (''wheel_tilt'', ''3'')]"

definition wl_pointer_axis_relative_direction :: enum where
  "wl_pointer_axis_relative_direction = mk_enum ''axis_relative_direction''
     [(''identical'', ''0''), (''inverted'', ''1'')]"

definition wl_pointer :: interface where
  "wl_pointer = mk_interface ''wl_pointer''
     [mk_message ''set_cursor'' '''' [mk_arg ''serial'' ''uint'' '''' False, mk_arg ''surface'' ''object'' ''wl_surface'' True, mk_arg ''hotspot_x'' ''int'' '''' False, mk_arg ''hotspot_y'' ''int'' '''' False],
      mk_message ''release'' ''destructor'' []]
     [mk_message ''enter'' '''' [mk_arg ''serial'' ''uint'' '''' False, mk_arg ''surface'' ''object'' ''wl_surface'' False, mk_arg ''surface_x'' ''fixed'' '''' False, mk_arg ''surface_y'' ''fixed'' '''' False],
      mk_message ''leave'' '''' [mk_arg ''serial'' ''uint'' '''' False, mk_arg ''surface'' ''object'' ''wl_surface'' False],
      mk_message ''motion'' '''' [mk_arg ''time'' ''uint'' '''' False, mk_arg ''surface_x'' ''fixed'' '''' False, mk_arg ''surface_y'' ''fixed'' '''' False],
      mk_message ''button'' '''' [mk_arg ''serial'' ''uint'' '''' False, mk_arg ''time'' ''uint'' '''' False, mk_arg ''button'' ''uint'' '''' False, mk_arg ''state'' ''uint'' '''' False],
      mk_message ''axis'' '''' [mk_arg ''time'' ''uint'' '''' False, mk_arg ''axis'' ''uint'' '''' False, mk_arg ''value'' ''fixed'' '''' False],
      mk_message ''frame'' '''' [],
      mk_message ''axis_source'' '''' [mk_arg ''axis_source'' ''uint'' '''' False],
      mk_message ''axis_stop'' '''' [mk_arg ''time'' ''uint'' '''' False, mk_arg ''axis'' ''uint'' '''' False],
      mk_message ''axis_discrete'' '''' [mk_arg ''axis'' ''uint'' '''' False, mk_arg ''discrete'' ''int'' '''' False],
      mk_message ''axis_value120'' '''' [mk_arg ''axis'' ''uint'' '''' False, mk_arg ''value120'' ''int'' '''' False],
      mk_message ''axis_relative_direction'' '''' [mk_arg ''axis'' ''uint'' '''' False, mk_arg ''direction'' ''uint'' '''' False]]
     [wl_pointer_error, wl_pointer_button_state, wl_pointer_axis, wl_pointer_axis_source, wl_pointer_axis_relative_direction]"

definition wl_keyboard_keymap_format :: enum where
  "wl_keyboard_keymap_format = mk_enum ''keymap_format''
     [(''no_keymap'', ''0''), (''xkb_v1'', ''1'')]"

definition wl_keyboard_key_state :: enum where
  "wl_keyboard_key_state = mk_enum ''key_state''
     [(''released'', ''0''), (''pressed'', ''1''), (''repeated'', ''2'')]"

definition wl_keyboard :: interface where
  "wl_keyboard = mk_interface ''wl_keyboard''
     [mk_message ''release'' ''destructor'' []]
     [mk_message ''keymap'' '''' [mk_arg ''format'' ''uint'' '''' False, mk_arg ''fd'' ''fd'' '''' False, mk_arg ''size'' ''uint'' '''' False],
      mk_message ''enter'' '''' [mk_arg ''serial'' ''uint'' '''' False, mk_arg ''surface'' ''object'' ''wl_surface'' False, mk_arg ''keys'' ''array'' '''' False],
      mk_message ''leave'' '''' [mk_arg ''serial'' ''uint'' '''' False, mk_arg ''surface'' ''object'' ''wl_surface'' False],
      mk_message ''key'' '''' [mk_arg ''serial'' ''uint'' '''' False, mk_arg ''time'' ''uint'' '''' False, mk_arg ''key'' ''uint'' '''' False, mk_arg ''state'' ''uint'' '''' False],
      mk_message ''modifiers'' '''' [mk_arg ''serial'' ''uint'' '''' False, mk_arg ''mods_depressed'' ''uint'' '''' False, mk_arg ''mods_latched'' ''uint'' '''' False, mk_arg ''mods_locked'' ''uint'' '''' False, mk_arg ''group'' ''uint'' '''' False],
      mk_message ''repeat_info'' '''' [mk_arg ''rate'' ''int'' '''' False, mk_arg ''delay'' ''int'' '''' False]]
     [wl_keyboard_keymap_format, wl_keyboard_key_state]"

definition wl_touch :: interface where
  "wl_touch = mk_interface ''wl_touch''
     [mk_message ''release'' ''destructor'' []]
     [mk_message ''down'' '''' [mk_arg ''serial'' ''uint'' '''' False, mk_arg ''time'' ''uint'' '''' False, mk_arg ''surface'' ''object'' ''wl_surface'' False, mk_arg ''id'' ''int'' '''' False, mk_arg ''x'' ''fixed'' '''' False, mk_arg ''y'' ''fixed'' '''' False],
      mk_message ''up'' '''' [mk_arg ''serial'' ''uint'' '''' False, mk_arg ''time'' ''uint'' '''' False, mk_arg ''id'' ''int'' '''' False],
      mk_message ''motion'' '''' [mk_arg ''time'' ''uint'' '''' False, mk_arg ''id'' ''int'' '''' False, mk_arg ''x'' ''fixed'' '''' False, mk_arg ''y'' ''fixed'' '''' False],
      mk_message ''frame'' '''' [],
      mk_message ''cancel'' '''' [],
      mk_message ''shape'' '''' [mk_arg ''id'' ''int'' '''' False, mk_arg ''major'' ''fixed'' '''' False, mk_arg ''minor'' ''fixed'' '''' False],
      mk_message ''orientation'' '''' [mk_arg ''id'' ''int'' '''' False, mk_arg ''orientation'' ''fixed'' '''' False]]
     []"

definition wl_output_subpixel :: enum where
  "wl_output_subpixel = mk_enum ''subpixel''
     [(''unknown'', ''0''), (''none'', ''1''), (''horizontal_rgb'', ''2''), (''horizontal_bgr'', ''3''),
      (''vertical_rgb'', ''4''), (''vertical_bgr'', ''5'')]"

definition wl_output_transform :: enum where
  "wl_output_transform = mk_enum ''transform''
     [(''normal'', ''0''), (''90'', ''1''), (''180'', ''2''), (''270'', ''3''), (''flipped'', ''4''),
      (''flipped_90'', ''5''), (''flipped_180'', ''6''), (''flipped_270'', ''7'')]"

definition wl_output_mode :: enum where
  "wl_output_mode = mk_enum ''mode''
     [(''current'', ''0x1''), (''preferred'', ''0x2'')]"

definition wl_output :: interface where
  "wl_output = mk_interface ''wl_output''
     [mk_message ''release'' ''destructor'' []]
     [mk_message ''geometry'' '''' [mk_arg ''x'' ''int'' '''' False, mk_arg ''y'' ''int'' '''' False, mk_arg ''physical_width'' ''int'' '''' False, mk_arg ''physical_height'' ''int'' '''' False, mk_arg ''subpixel'' ''int'' '''' False, mk_arg ''make'' ''string'' '''' False, mk_arg ''model'' ''string'' '''' False, mk_arg ''transform'' ''int'' '''' False],
      mk_message ''mode'' '''' [mk_arg ''flags'' ''uint'' '''' False, mk_arg ''width'' ''int'' '''' False, mk_arg ''height'' ''int'' '''' False, mk_arg ''refresh'' ''int'' '''' False],
      mk_message ''done'' '''' [],
      mk_message ''scale'' '''' [mk_arg ''factor'' ''int'' '''' False],
      mk_message ''name'' '''' [mk_arg ''name'' ''string'' '''' False],
      mk_message ''description'' '''' [mk_arg ''description'' ''string'' '''' False]]
     [wl_output_subpixel, wl_output_transform, wl_output_mode]"

definition wl_region :: interface where
  "wl_region = mk_interface ''wl_region''
     [mk_message ''destroy'' ''destructor'' [],
      mk_message ''add'' '''' [mk_arg ''x'' ''int'' '''' False, mk_arg ''y'' ''int'' '''' False, mk_arg ''width'' ''int'' '''' False, mk_arg ''height'' ''int'' '''' False],
      mk_message ''subtract'' '''' [mk_arg ''x'' ''int'' '''' False, mk_arg ''y'' ''int'' '''' False, mk_arg ''width'' ''int'' '''' False, mk_arg ''height'' ''int'' '''' False]]
     []
     []"

definition wl_subcompositor_error :: enum where
  "wl_subcompositor_error = mk_enum ''error''
     [(''bad_surface'', ''0''), (''bad_parent'', ''1'')]"

definition wl_subcompositor :: interface where
  "wl_subcompositor = mk_interface ''wl_subcompositor''
     [mk_message ''destroy'' ''destructor'' [],
      mk_message ''get_subsurface'' '''' [mk_arg ''id'' ''new_id'' ''wl_subsurface'' False, mk_arg ''surface'' ''object'' ''wl_surface'' False, mk_arg ''parent'' ''object'' ''wl_surface'' False]]
     []
     [wl_subcompositor_error]"

definition wl_subsurface_error :: enum where
  "wl_subsurface_error = mk_enum ''error''
     [(''bad_surface'', ''0'')]"

definition wl_subsurface :: interface where
  "wl_subsurface = mk_interface ''wl_subsurface''
     [mk_message ''destroy'' ''destructor'' [],
      mk_message ''set_position'' '''' [mk_arg ''x'' ''int'' '''' False, mk_arg ''y'' ''int'' '''' False],
      mk_message ''place_above'' '''' [mk_arg ''sibling'' ''object'' ''wl_surface'' False],
      mk_message ''place_below'' '''' [mk_arg ''sibling'' ''object'' ''wl_surface'' False],
      mk_message ''set_sync'' '''' [],
      mk_message ''set_desync'' '''' []]
     []
     [wl_subsurface_error]"

definition wl_fixes :: interface where
  "wl_fixes = mk_interface ''wl_fixes''
     [mk_message ''destroy'' ''destructor'' [],
      mk_message ''destroy_registry'' '''' [mk_arg ''registry'' ''object'' ''wl_registry'' False]]
     []
     []"

definition wayland_protocol :: protocol where
  "wayland_protocol = \<lparr>p_Name = ''wayland'', p_Copyright = [], p_Interfaces = [wl_display, wl_registry, wl_callback, wl_compositor, wl_shm_pool, wl_shm, wl_buffer, wl_data_offer, wl_data_source, wl_data_device, wl_data_device_manager, wl_shell, wl_shell_surface, wl_surface, wl_seat, wl_pointer, wl_keyboard, wl_touch, wl_output, wl_region, wl_subcompositor, wl_subsurface, wl_fixes]\<rparr>"

section \<open>protocols/cursor-shape-v1.xml\<close>

definition wp_cursor_shape_manager_v1 :: interface where
  "wp_cursor_shape_manager_v1 = mk_interface ''wp_cursor_shape_manager_v1''
     [mk_message ''destroy'' ''destructor'' [],
      mk_message ''get_pointer'' '''' [mk_arg ''cursor_shape_device'' ''new_id'' ''wp_cursor_shape_device_v1'' False, mk_arg ''pointer'' ''object'' ''wl_pointer'' False],
      mk_message ''get_tablet_tool_v2'' '''' [mk_arg ''cursor_shape_device'' ''new_id'' ''wp_cursor_shape_device_v1'' False, mk_arg ''tablet_tool'' ''object'' ''zwp_tablet_tool_v2'' False]]
     []
     []"

definition wp_cursor_shape_device_v1_shape :: enum where
  "wp_cursor_shape_device_v1_shape = mk_enum ''shape''
     [(''default'', ''1''), (''context_menu'', ''2''), (''help'', ''3''), (''pointer'', ''4''), (''progress'', ''5''),
      (''wait'', ''6''), (''cell'', ''7''), (''crosshair'', ''8''), (''text'', ''9''), (''vertical_text'', ''10''),
      (''alias'', ''11''), (''copy'', ''12''), (''move'', ''13''), (''no_drop'', ''14''), (''not_allowed'', ''15''),
      (''grab'', ''16''), (''grabbing'', ''17''), (''e_resize'', ''18''), (''n_resize'', ''19''), (''ne_resize'', ''20''),
      (''nw_resize'', ''21''), (''s_resize'', ''22''), (''se_resize'', ''23''), (''sw_resize'', ''24''),
      (''w_resize'', ''25''), (''ew_resize'', ''26''), (''ns_resize'', ''27''), (''nesw_resize'', ''28''),
      (''nwse_resize'', ''29''), (''col_resize'', ''30''), (''row_resize'', ''31''), (''all_scroll'', ''32''),
      (''zoom_in'', ''33''), (''zoom_out'', ''34''), (''dnd_ask'', ''35''), (''all_resize'', ''36'')]"

definition wp_cursor_shape_device_v1_error :: enum where
  "wp_cursor_shape_device_v1_error = mk_enum ''error''
     [(''invalid_shape'', ''1'')]"

definition wp_cursor_shape_device_v1 :: interface where
  "wp_cursor_shape_device_v1 = mk_interface ''wp_cursor_shape_device_v1''
     [mk_message ''destroy'' ''destructor'' [],
      mk_message ''set_shape'' '''' [mk_arg ''serial'' ''uint'' '''' False, mk_arg ''shape'' ''uint'' '''' False]]
     []
     [wp_cursor_shape_device_v1_shape, wp_cursor_shape_device_v1_error]"

definition cursor_shape_v1_protocol :: protocol where
  "cursor_shape_v1_protocol = \<lparr>p_Name = ''cursor_shape_v1'', p_Copyright = [], p_Interfaces = [wp_cursor_shape_manager_v1, wp_cursor_shape_device_v1]\<rparr>"

section \<open>protocols/ext-idle-notify-v1.xml\<close>

definition ext_idle_notifier_v1 :: interface where
  "ext_idle_notifier_v1 = mk_interface ''ext_idle_notifier_v1''
     [mk_message ''destroy'' ''destructor'' [],
      mk_message ''get_idle_notification'' '''' [mk_arg ''id'' ''new_id'' ''ext_idle_notification_v1'' False, mk_arg ''timeout'' ''uint'' '''' False, mk_arg ''seat'' ''object'' ''wl_seat'' False],
      mk_message ''get_input_idle_notification'' '''' [mk_arg ''id'' ''new_id'' ''ext_idle_notification_v1'' False, mk_arg ''timeout'' ''uint'' '''' False, mk_arg ''seat'' ''object'' ''wl_seat'' False]]
     []
     []"

definition ext_idle_notification_v1 :: interface where
  "ext_idle_notification_v1 = mk_interface ''ext_idle_notification_v1''
     [mk_message ''destroy'' ''destructor'' []]
     [mk_message ''idled'' '''' [],
      mk_message ''resumed'' '''' []]
     []"

definition ext_idle_notify_v1_protocol :: protocol where
  "ext_idle_notify_v1_protocol = \<lparr>p_Name = ''ext_idle_notify_v1'', p_Copyright = [], p_Interfaces = [ext_idle_notifier_v1, ext_idle_notification_v1]\<rparr>"

section \<open>protocols/ext-session-lock-v1.xml\<close>

definition ext_session_lock_manager_v1 :: interface where
  "ext_session_lock_manager_v1 = mk_interface ''ext_session_lock_manager_v1''
     [mk_message ''destroy'' ''destructor'' [],
      mk_message ''lock'' '''' [mk_arg ''id'' ''new_id'' ''ext_session_lock_v1'' False]]
     []
     []"

definition ext_session_lock_v1_error :: enum where
  "ext_session_lock_v1_error = mk_enum ''error''
     [(''invalid_destroy'', ''0''), (''invalid_unlock'', ''1''), (''role'', ''2''), (''duplicate_output'', ''3''),
      (''already_constructed'', ''4'')]"

definition ext_session_lock_v1 :: interface where
  "ext_session_lock_v1 = mk_interface ''ext_session_lock_v1''
     [mk_message ''destroy'' ''destructor'' [],
      mk_message ''get_lock_surface'' '''' [mk_arg ''id'' ''new_id'' ''ext_session_lock_surface_v1'' False, mk_arg ''surface'' ''object'' ''wl_surface'' False, mk_arg ''output'' ''object'' ''wl_output'' False],
      mk_message ''unlock_and_destroy'' ''destructor'' []]
     [mk_message ''locked'' '''' [],
      mk_message ''finished'' '''' []]
     [ext_session_lock_v1_error]"

definition ext_session_lock_surface_v1_error :: enum where
  "ext_session_lock_surface_v1_error = mk_enum ''error''
     [(''commit_before_first_ack'', ''0''), (''null_buffer'', ''1''), (''dimensions_mismatch'', ''2''),
      (''invalid_serial'', ''3'')]"

definition ext_session_lock_surface_v1 :: interface where
  "ext_session_lock_surface_v1 = mk_interface ''ext_session_lock_surface_v1''
     [mk_message ''destroy'' ''destructor'' [],
      mk_message ''ack_configure'' '''' [mk_arg ''serial'' ''uint'' '''' False]]
     [mk_message ''configure'' '''' [mk_arg ''serial'' ''uint'' '''' False, mk_arg ''width'' ''uint'' '''' False, mk_arg ''height'' ''uint'' '''' False]]
     [ext_session_lock_surface_v1_error]"

definition ext_session_lock_v1_protocol :: protocol where
  "ext_session_lock_v1_protocol = \<lparr>p_Name = ''ext_session_lock_v1'', p_Copyright = [], p_Interfaces = [ext_session_lock_manager_v1, ext_session_lock_v1, ext_session_lock_surface_v1]\<rparr>"

section \<open>protocols/tablet-v2.xml\<close>

definition zwp_tablet_manager_v2 :: interface where
  "zwp_tablet_manager_v2 = mk_interface ''zwp_tablet_manager_v2''
     [mk_message ''get_tablet_seat'' '''' [mk_arg ''tablet_seat'' ''new_id'' ''zwp_tablet_seat_v2'' False, mk_arg ''seat'' ''object'' ''wl_seat'' False],
      mk_message ''destroy'' ''destructor'' []]
     []
     []"

definition zwp_tablet_seat_v2 :: interface where
  "zwp_tablet_seat_v2 = mk_interface ''zwp_tablet_seat_v2''
     [mk_message ''destroy'' ''destructor'' []]
     [mk_message ''tablet_added'' '''' [mk_arg ''id'' ''new_id'' ''zwp_tablet_v2'' False],
      mk_message ''tool_added'' '''' [mk_arg ''id'' ''new_id'' ''zwp_tablet_tool_v2'' False],
      mk_message ''pad_added'' '''' [mk_arg ''id'' ''new_id'' ''zwp_tablet_pad_v2'' False]]
     []"

definition zwp_tablet_tool_v2_type :: enum where
  "zwp_tablet_tool_v2_type = mk_enum ''type''
     [(''pen'', ''0x140''), (''eraser'', ''0x141''), (''brush'', ''0x142''), (''pencil'', ''0x143''),
      (''airbrush'', ''0x144''), (''finger'', ''0x145''), (''mouse'', ''0x146''), (''lens'', ''0x147'')]"

definition zwp_tablet_tool_v2_capability :: enum where
  "zwp_tablet_tool_v2_capability = mk_enum ''capability''
     [(''tilt'', ''1''), (''pressure'', ''2''), (''distance'', ''3''), (''rotation'', ''4''), (''slider'', ''5''),
      (''wheel'', ''6'')]"

definition zwp_tablet_tool_v2_button_state :: enum where
  "zwp_tablet_tool_v2_button_state = mk_enum ''button_state''
     [(''released'', ''0''), (''pressed'', ''1'')]"

definition zwp_tablet_tool_v2_error :: enum where
  "zwp_tablet_tool_v2_error = mk_enum ''error''
     [(''role'', ''0'')]"

definition zwp_tablet_tool_v2 :: interface where
  "zwp_tablet_tool_v2 = mk_interface ''zwp_tablet_tool_v2''
     [mk_message ''set_cursor'' '''' [mk_arg ''serial'' ''uint'' '''' False, mk_arg ''surface'' ''object'' ''wl_surface'' True, mk_arg ''hotspot_x'' ''int'' '''' False, mk_arg ''hotspot_y'' ''int'' '''' False],
      mk_message ''destroy'' ''destructor'' []]
     [mk_message ''type'' '''' [mk_arg ''tool_type'' ''uint'' '''' False],
      mk_message ''hardware_serial'' '''' [mk_arg ''hardware_serial_hi'' ''uint'' '''' False, mk_arg ''hardware_serial_lo'' ''uint'' '''' False],
      mk_message ''hardware_id_wacom'' '''' [mk_arg ''hardware_id_hi'' ''uint'' '''' False, mk_arg ''hardware_id_lo'' ''uint'' '''' False],
      mk_message ''capability'' '''' [mk_arg ''capability'' ''uint'' '''' False],
      mk_message ''done'' '''' [],
      mk_message ''removed'' '''' [],
      mk_message ''proximity_in'' '''' [mk_arg ''serial'' ''uint'' '''' False, mk_arg ''tablet'' ''object'' ''zwp_tablet_v2'' False, mk_arg ''surface'' ''object'' ''wl_surface'' False],
      mk_message ''proximity_out'' '''' [],
      mk_message ''down'' '''' [mk_arg ''serial'' ''uint'' '''' False],
      mk_message ''up'' '''' [],
      mk_message ''motion'' '''' [mk_arg ''x'' ''fixed'' '''' False, mk_arg ''y'' ''fixed'' '''' False],
      mk_message ''pressure'' '''' [mk_arg ''pressure'' ''uint'' '''' False],
      mk_message ''distance'' '''' [mk_arg ''distance'' ''uint'' '''' False],
      mk_message ''tilt'' '''' [mk_arg ''tilt_x'' ''fixed'' '''' False, mk_arg ''tilt_y'' ''fixed'' '''' False],
      mk_message ''rotation'' '''' [mk_arg ''degrees'' ''fixed'' '''' False],
      mk_message ''slider'' '''' [mk_arg ''position'' ''int'' '''' False],
      mk_message ''wheel'' '''' [mk_arg ''degrees'' ''fixed'' '''' False, mk_arg ''clicks'' ''int'' '''' False],
      mk_message ''button'' '''' [mk_arg ''serial'' ''uint'' '''' False, mk_arg ''button'' ''uint'' '''' False, mk_arg ''state'' ''uint'' '''' False],
      mk_message ''frame'' '''' [mk_arg ''time'' ''uint'' '''' False]]
     [zwp_tablet_tool_v2_type, zwp_tablet_tool_v2_capability, zwp_tablet_tool_v2_button_state, zwp_tablet_tool_v2_error]"

definition zwp_tablet_v2 :: interface where
  "zwp_tablet_v2 = mk_interface ''zwp_tablet_v2''
     [mk_message ''destroy'' ''destructor'' []]
     [mk_message ''name'' '''' [mk_arg ''name'' ''string'' '''' False],
      mk_message ''id'' '''' [mk_arg ''vid'' ''uint'' '''' False, mk_arg ''pid'' ''uint'' '''' False],
      mk_message ''path'' '''' [mk_arg ''path'' ''string'' '''' False],
      mk_message ''done'' '''' [],
      mk_message ''removed'' '''' []]
     []"

definition zwp_tablet_pad_ring_v2_source :: enum where
  "zwp_tablet_pad_ring_v2_source = mk_enum ''source''
     [(''finger'', ''1'')]"

definition zwp_tablet_pad_ring_v2 :: interface where
  "zwp_tablet_pad_ring_v2 = mk_interface ''zwp_tablet_pad_ring_v2''
     [mk_message ''set_feedback'' '''' [mk_arg ''description'' ''string'' '''' False, mk_arg ''serial'' ''uint'' '''' False],
      mk_message ''destroy'' ''destructor'' []]
     [mk_message ''source'' '''' [mk_arg ''source'' ''uint'' '''' False],
      mk_message ''angle'' '''' [mk_arg ''degrees'' ''fixed'' '''' False],
      mk_message ''stop'' '''' [],
      mk_message ''frame'' '''' [mk_arg ''time'' ''uint'' '''' False]]
     [zwp_tablet_pad_ring_v2_source]"

definition zwp_tablet_pad_strip_v2_source :: enum where
  "zwp_tablet_pad_strip_v2_source = mk_enum ''source''
     [(''finger'', ''1'')]"

definition zwp_tablet_pad_strip_v2 :: interface where
  "zwp_tablet_pad_strip_v2 = mk_interface ''zwp_tablet_pad_strip_v2''
     [mk_message ''set_feedback'' '''' [mk_arg ''description'' ''string'' '''' False, mk_arg ''serial'' ''uint'' '''' False],
      mk_message ''destroy'' ''destructor'' []]
     [mk_message ''source'' '''' [mk_arg ''source'' ''uint'' '''' False],
      mk_message ''position'' '''' [mk_arg ''position'' ''uint'' '''' False],
      mk_message ''stop'' '''' [],
      mk_message ''frame'' '''' [mk_arg ''time'' ''uint'' '''' False]]
     [zwp_tablet_pad_strip_v2_source]"

definition zwp_tablet_pad_group_v2 :: interface where
  "zwp_tablet_pad_group_v2 = mk_interface ''zwp_tablet_pad_group_v2''
     [mk_message ''destroy'' ''destructor'' []]
     [mk_message ''buttons'' '''' [mk_arg ''buttons'' ''array'' '''' False],
      mk_message ''ring'' '''' [mk_arg ''ring'' ''new_id'' ''zwp_tablet_pad_ring_v2'' False],
      mk_message ''strip'' '''' [mk_arg ''strip'' ''new_id'' ''zwp_tablet_pad_strip_v2'' False],
      mk_message ''modes'' '''' [mk_arg ''modes'' ''uint'' '''' False],
      mk_message ''done'' '''' [],
      mk_message ''mode_switch'' '''' [mk_arg ''time'' ''uint'' '''' False, mk_arg ''serial'' ''uint'' '''' False, mk_arg ''mode'' ''uint'' '''' False]]
     []"

definition zwp_tablet_pad_v2_button_state :: enum where
  "zwp_tablet_pad_v2_button_state = mk_enum ''button_state''
     [(''released'', ''0''), (''pressed'', ''1'')]"

definition zwp_tablet_pad_v2 :: interface where
  "zwp_tablet_pad_v2 = mk_interface ''zwp_tablet_pad_v2''
     [mk_message ''set_feedback'' '''' [mk_arg ''button'' ''uint'' '''' False, mk_arg ''description'' ''string'' '''' False, mk_arg ''serial'' ''uint'' '''' False],
      mk_message ''destroy'' ''destructor'' []]
     [mk_message ''group'' '''' [mk_arg ''pad_group'' ''new_id'' ''zwp_tablet_pad_group_v2'' False],
      mk_message ''path'' '''' [mk_arg ''path'' ''string'' '''' False],
      mk_message ''buttons'' '''' [mk_arg ''buttons'' ''uint'' '''' False],
      mk_message ''done'' '''' [],
      mk_message ''button'' '''' [mk_arg ''time'' ''uint'' '''' False, mk_arg ''button'' ''uint'' '''' False, mk_arg ''state'' ''uint'' '''' False],
      mk_message ''enter'' '''' [mk_arg ''serial'' ''uint'' '''' False, mk_arg ''tablet'' ''object'' ''zwp_tablet_v2'' False, mk_arg ''surface'' ''object'' ''wl_surface'' False],
      mk_message ''leave'' '''' [mk_arg ''serial'' ''uint'' '''' False, mk_arg ''surface'' ''object'' ''wl_surface'' False],
      mk_message ''removed'' '''' []]
     [zwp_tablet_pad_v2_button_state]"

definition tablet_v2_protocol :: protocol where
  "tablet_v2_protocol = \<lparr>p_Name = ''tablet_unstable_v2'', p_Copyright = [], p_Interfaces = [zwp_tablet_manager_v2, zwp_tablet_seat_v2, zwp_tablet_tool_v2, zwp_tablet_v2, zwp_tablet_pad_ring_v2, zwp_tablet_pad_strip_v2, zwp_tablet_pad_group_v2, zwp_tablet_pad_v2]\<rparr>"

section \<open>protocols/text-input-unstable-v3.xml\<close>

definition zwp_text_input_v3_change_cause :: enum where
  "zwp_text_input_v3_change_cause = mk_enum ''change_cause''
     [(''input_method'', ''0''), (''other'', ''1'')]"

definition zwp_text_input_v3_content_hint :: enum where
  "zwp_text_input_v3_content_hint = mk_enum ''content_hint''
     [(''none'', ''0x0''), (''completion'', ''0x1''), (''spellcheck'', ''0x2''), (''auto_capitalization'', ''0x4''),
      (''lowercase'', ''0x8''), (''uppercase'', ''0x10''), (''titlecase'', ''0x20''), (''hidden_text'', ''0x40''),
      (''sensitive_data'', ''0x80''), (''latin'', ''0x100''), (''multiline'', ''0x200'')]"

definition zwp_text_input_v3_content_purpose :: enum where
  "zwp_text_input_v3_content_purpose = mk_enum ''content_purpose''
     [(''normal'', ''0''), (''alpha'', ''1''), (''digits'', ''2''), (''number'', ''3''), (''phone'', ''4''),
      (''url'', ''5''), (''email'', ''6''), (''name'', ''7''), (''password'', ''8''), (''pin'', ''9''), (''date'', ''10''),
      (''time'', ''11''), (''datetime'', ''12''), (''terminal'', ''13'')]"

definition zwp_text_input_v3 :: interface where
  "zwp_text_input_v3 = mk_interface ''zwp_text_input_v3''
     [mk_message ''destroy'' ''destructor'' [],
      mk_message ''enable'' '''' [],
      mk_message ''disable'' '''' [],
      mk_message ''set_surrounding_text'' '''' [mk_arg ''text'' ''string'' '''' False, mk_arg ''cursor'' ''int'' '''' False, mk_arg ''anchor'' ''int'' '''' False],
      mk_message ''set_text_change_cause'' '''' [mk_arg ''cause'' ''uint'' '''' False],
      mk_message ''set_content_type'' '''' [mk_arg ''hint'' ''uint'' '''' False, mk_arg ''purpose'' ''uint'' '''' False],
      mk_message ''set_cursor_rectangle'' '''' [mk_arg ''x'' ''int'' '''' False, mk_arg ''y'' ''int'' '''' False, mk_arg ''width'' ''int'' '''' False, mk_arg ''height'' ''int'' '''' False],
      mk_message ''commit'' '''' []]
     [mk_message ''enter'' '''' [mk_arg ''surface'' ''object'' ''wl_surface'' False],
      mk_message ''leave'' '''' [mk_arg ''surface'' ''object'' ''wl_surface'' False],
      mk_message ''preedit_string'' '''' [mk_arg ''text'' ''string'' '''' True, mk_arg ''cursor_begin'' ''int'' '''' False, mk_arg ''cursor_end'' ''int'' '''' False],
      mk_message ''commit_string'' '''' [mk_arg ''text'' ''string'' '''' True],
      mk_message ''delete_surrounding_text'' '''' [mk_arg ''before_length'' ''uint'' '''' False, mk_arg ''after_length'' ''uint'' '''' False],
      mk_message ''done'' '''' [mk_arg ''serial'' ''uint'' '''' False]]
     [zwp_text_input_v3_change_cause, zwp_text_input_v3_content_hint, zwp_text_input_v3_content_purpose]"

definition zwp_text_input_manager_v3 :: interface where
  "zwp_text_input_manager_v3 = mk_interface ''zwp_text_input_manager_v3''
     [mk_message ''destroy'' ''destructor'' [],
      mk_message ''get_text_input'' '''' [mk_arg ''id'' ''new_id'' ''zwp_text_input_v3'' False, mk_arg ''seat'' ''object'' ''wl_seat'' False]]
     []
     []"

definition text_input_unstable_v3_protocol :: protocol where
  "text_input_unstable_v3_protocol = \<lparr>p_Name = ''text_input_unstable_v3'', p_Copyright = [], p_Interfaces = [zwp_text_input_v3, zwp_text_input_manager_v3]\<rparr>"

end
