(* ===== verification/Scanner_Names.thy ===== *)
theory Scanner_Names
  imports Scanner_Protocols
begin

text \<open>
  The Go names of the checked-in bindings. What the scanner relies on of strcase is the hypothesis
  \<open>strcase\<close>, which states its documented behaviour on names in snake case; the tables evaluate it on the names of protocols/.
\<close>

section \<open>Case conversion\<close>

definition lower_char :: "char \<Rightarrow> bool" where
  "lower_char x \<longleftrightarrow> x \<in> set ''abcdefghijklmnopqrstuvwxyz''"

definition digit_char :: "char \<Rightarrow> bool" where
  "digit_char x \<longleftrightarrow> x \<in> set ''0123456789''"

definition upper_of :: "char \<Rightarrow> char" where
  "upper_of x = (case map_of (zip ''abcdefghijklmnopqrstuvwxyz'' ''ABCDEFGHIJKLMNOPQRSTUVWXYZ'') x of None \<Rightarrow> x | Some y \<Rightarrow> y)"

text \<open>The same on the bits of a character, for evaluation.\<close>

lemma char_classes [code]:
  "lower_char (Char b0 b1 b2 b3 b4 b5 b6 b7) \<longleftrightarrow>
     \<not> b7 \<and> b6 \<and> b5 \<and> (b0 \<or> b1 \<or> b2 \<or> b3 \<or> b4) \<and> \<not> (b4 \<and> b3 \<and> (b2 \<or> b1 \<and> b0))"
  "digit_char (Char b0 b1 b2 b3 b4 b5 b6 b7) \<longleftrightarrow> \<not> b7 \<and> \<not> b6 \<and> b5 \<and> b4 \<and> \<not> (b3 \<and> (b2 \<or> b1))"
  by (cases b0; cases b1; cases b2; cases b3; cases b4; cases b5; cases b6; cases b7; simp add: lower_char_def digit_char_def)+

lemma upper_of_bits [code]:
  "upper_of (Char b0 b1 b2 b3 b4 b5 b6 b7) =
     (if \<not> b7 \<and> b6 \<and> b5 \<and> (b0 \<or> b1 \<or> b2 \<or> b3 \<or> b4) \<and> \<not> (b4 \<and> b3 \<and> (b2 \<or> b1 \<and> b0))
      then Char b0 b1 b2 b3 b4 False b6 b7 else Char b0 b1 b2 b3 b4 b5 b6 b7)"
  by (cases b0; cases b1; cases b2; cases b3; cases b4; cases b5; cases b6; cases b7; simp add: upper_of_def)

text \<open>
  Underscores are dropped, and the letter after one or after a digit is a capital; \<open>up\<close> says whether the first is one too.
\<close>

primrec camel_from :: "bool \<Rightarrow> string \<Rightarrow> string" where
  "camel_from up [] = []"
| "camel_from up (x # xs) = (if x = CHR ''_'' then camel_from True xs else (if up then upper_of x else x) # camel_from (digit_char x) xs)"

text \<open>Names in snake case: small letters, digits and underscores.\<close>

definition snake :: "string \<Rightarrow> bool" where
  "snake s \<longleftrightarrow> list_all (\<lambda>x. lower_char x \<or> digit_char x \<or> x = CHR ''_'') s"

definition strcase :: "config \<Rightarrow> bool" where
  "strcase c \<longleftrightarrow> (\<forall>s. snake s \<longrightarrow> ToCamel c s = camel_from True s \<and> ToLowerCamel c s = camel_from False s)"

text \<open>A run of the scanner on a protocol with a prefix to trim.\<close>

definition scanning :: "protocol \<Rightarrow> string \<Rightarrow> config \<Rightarrow> bool" where
  "scanning p pre c \<longleftrightarrow> strcase c \<and> protocol c = p \<and> cf_prefix c = pre \<and> cf_suffix c = []"

lemma scanningD:
  assumes "scanning p pre c"
  shows "snake s \<Longrightarrow> ToCamel c s = camel_from True s" "snake s \<Longrightarrow> ToLowerCamel c s = camel_from False s"
    and "protocol c = p" "cf_prefix c = pre" "cf_suffix c = []"
  using assms by (auto simp: scanning_def strcase_def)

section \<open>The names of the protocols\<close>

lemma snake_list:
  "list_all snake
     [''_buffer'',
      ''_callback'',
      ''_compositor'',
      ''_data_device'',
      ''_data_device_manager'',
      ''_data_offer'',
      ''_data_source'',
      ''_display'',
      ''_fixes'',
      ''_keyboard'',
      ''_output'',
      ''_pointer'',
      ''_region'',
      ''_registry'',
      ''_seat'',
      ''_shell'',
      ''_shell_surface'',
      ''_shm'',
      ''_shm_pool'',
      ''_subcompositor'',
      ''_subsurface'',
      ''_surface'',
      ''_touch'',
      ''action'',
      ''after_length'',
      ''anchor'',
      ''angle'',
      ''axis'',
      ''axis_discrete'',
      ''axis_relative_direction'',
      ''axis_source'',
      ''axis_stop'',
      ''axis_value120'',
      ''before_length'',
      ''buffer'',
      ''button'',
      ''buttons'',
      ''callback'',
      ''callback_data'',
      ''cancel'',
      ''cancelled'',
      ''capabilities'',
      ''capability'',
      ''cause'',
      ''class_'',
      ''clicks'',
      ''code'',
      ''commit_string'',
      ''compositor'',
      ''configure'',
      ''cursor'',
      ''cursor_begin'',
      ''cursor_end'',
      ''cursor_shape_device'',
      ''data_device'',
      ''data_device_manager'',
      ''data_offer'',
      ''data_source'',
      ''degrees'',
      ''delay'',
      ''delete_id'',
      ''delete_surrounding_text'',
      ''description'',
      ''direction'',
      ''discrete'',
      ''display'',
      ''distance'',
      ''dnd_action'',
      ''dnd_actions'',
      ''dnd_drop_performed'',
      ''dnd_finished'',
      ''done'',
      ''down'',
      ''drop'',
      ''edges'',
      ''enter'',
      ''error'',
      ''ext_idle_notification_v1'',
      ''ext_idle_notifier_v1'',
      ''ext_session_lock_manager_v1'',
      ''ext_session_lock_surface_v1'',
      ''ext_session_lock_v1'',
      ''factor'',
      ''fd'',
      ''finished'',
      ''fixes'',
      ''flags'',
      ''format'',
      ''frame'',
      ''framerate'',
      ''geometry'',
      ''global'',
      ''global_remove'',
      ''group'',
      ''hardware_id_hi'',
      ''hardware_id_lo'',
      ''hardware_id_wacom'',
      ''hardware_serial'',
      ''hardware_serial_hi'',
      ''hardware_serial_lo'',
      ''height'',
      ''hint'',
      ''hotspot_x'',
      ''hotspot_y'',
      ''icon'',
      ''id'',
      ''idled'',
      ''interface'',
      ''key'',
      ''keyboard'',
      ''keymap'',
      ''keys'',
      ''leave'',
      ''locked'',
      ''major'',
      ''make'',
      ''message'',
      ''method'',
      ''mime_type'',
      ''minor'',
      ''mode'',
      ''mode_switch'',
      ''model'',
      ''modes'',
      ''modifiers'',
      ''mods_depressed'',
      ''mods_latched'',
      ''mods_locked'',
      ''motion'',
      ''name'',
      ''object_id'',
      ''offer'',
      ''offset'',
      ''orientation'',
      ''origin'',
      ''output'',
      ''pad_added'',
      ''pad_group'',
      ''parent'',
      ''path'',
      ''physical_height'',
      ''physical_width'',
      ''pid'',
      ''ping'',
      ''pointer'',
      ''popup_done'',
      ''position'',
      ''preedit_string'',
      ''preferred_action'',
      ''preferred_buffer_scale'',
      ''preferred_buffer_transform'',
      ''pressure'',
      ''proximity_in'',
      ''proximity_out'',
      ''purpose'',
      ''rate'',
      ''refresh'',
      ''region'',
      ''registry'',
      ''release'',
      ''removed'',
      ''repeat_info'',
      ''resumed'',
      ''ring'',
      ''rotation'',
      ''scale'',
      ''seat'',
      ''selection'',
      ''send'',
      ''serial'',
      ''shape'',
      ''shell'',
      ''shell_surface'',
      ''shm'',
      ''shm_pool'',
      ''sibling'',
      ''size'',
      ''slider'',
      ''source'',
      ''source_actions'',
      ''state'',
      ''stop'',
      ''stride'',
      ''strip'',
      ''subcompositor'',
      ''subpixel'',
      ''subsurface'',
      ''surface'',
      ''surface_x'',
      ''surface_y'',
      ''tablet'',
      ''tablet_added'',
      ''tablet_seat'',
      ''tablet_tool'',
      ''target'',
      ''text'',
      ''tilt'',
      ''tilt_x'',
      ''tilt_y'',
      ''time'',
      ''timeout'',
      ''title'',
      ''tool_added'',
      ''tool_type'',
      ''touch'',
      ''transform'',
      ''type'',
      ''up'',
      ''value'',
      ''value120'',
      ''version'',
      ''vid'',
      ''wheel'',
      ''width'',
      ''wp_cursor_shape_device_v1'',
      ''wp_cursor_shape_manager_v1'',
      ''x'',
      ''y'',
      ''zwp_tablet_manager_v2'',
      ''zwp_tablet_pad_group_v2'',
      ''zwp_tablet_pad_ring_v2'',
      ''zwp_tablet_pad_strip_v2'',
      ''zwp_tablet_pad_v2'',
      ''zwp_tablet_seat_v2'',
      ''zwp_tablet_tool_v2'',
      ''zwp_tablet_v2'',
      ''zwp_text_input_manager_v3'',
      ''zwp_text_input_v3'']"
  by code_simp

lemmas snake_names = snake_list [unfolded list.pred_inject]

lemma camel_list:
  "list_all (\<lambda>(s, t). camel_from True s = t)
     [(''_buffer'', ''Buffer''),
      (''_callback'', ''Callback''),
      (''_compositor'', ''Compositor''),
      (''_data_device'', ''DataDevice''),
      (''_data_device_manager'', ''DataDeviceManager''),
      (''_data_offer'', ''DataOffer''),
      (''_data_source'', ''DataSource''),
      (''_display'', ''Display''),
      (''_fixes'', ''Fixes''),
      (''_keyboard'', ''Keyboard''),
      (''_output'', ''Output''),
      (''_pointer'', ''Pointer''),
      (''_region'', ''Region''),
      (''_registry'', ''Registry''),
      (''_seat'', ''Seat''),
      (''_shell'', ''Shell''),
      (''_shell_surface'', ''ShellSurface''),
      (''_shm'', ''Shm''),
      (''_shm_pool'', ''ShmPool''),
      (''_subcompositor'', ''Subcompositor''),
      (''_subsurface'', ''Subsurface''),
      (''_surface'', ''Surface''),
      (''_touch'', ''Touch''),
      (''action'', ''Action''),
      (''after_length'', ''AfterLength''),
      (''angle'', ''Angle''),
      (''axis'', ''Axis''),
      (''axis_discrete'', ''AxisDiscrete''),
      (''axis_relative_direction'', ''AxisRelativeDirection''),
      (''axis_source'', ''AxisSource''),
      (''axis_stop'', ''AxisStop''),
      (''axis_value120'', ''AxisValue120''),
      (''before_length'', ''BeforeLength''),
      (''buffer'', ''Buffer''),
      (''button'', ''Button''),
      (''buttons'', ''Buttons''),
      (''callback'', ''Callback''),
      (''callback_data'', ''CallbackData''),
      (''cancel'', ''Cancel''),
      (''cancelled'', ''Cancelled''),
      (''capabilities'', ''Capabilities''),
      (''capability'', ''Capability''),
      (''clicks'', ''Clicks''),
      (''code'', ''Code''),
      (''commit_string'', ''CommitString''),
      (''compositor'', ''Compositor''),
      (''configure'', ''Configure''),
      (''cursor_begin'', ''CursorBegin''),
      (''cursor_end'', ''CursorEnd''),
      (''data_device'', ''DataDevice''),
      (''data_device_manager'', ''DataDeviceManager''),
      (''data_offer'', ''DataOffer''),
      (''data_source'', ''DataSource''),
      (''degrees'', ''Degrees''),
      (''delay'', ''Delay''),
      (''delete_id'', ''DeleteId''),
      (''delete_surrounding_text'', ''DeleteSurroundingText''),
      (''description'', ''Description''),
      (''direction'', ''Direction''),
      (''discrete'', ''Discrete''),
      (''display'', ''Display''),
      (''distance'', ''Distance''),
      (''dnd_action'', ''DndAction''),
      (''dnd_drop_performed'', ''DndDropPerformed''),
      (''dnd_finished'', ''DndFinished''),
      (''done'', ''Done''),
      (''down'', ''Down''),
      (''drop'', ''Drop''),
      (''edges'', ''Edges''),
      (''enter'', ''Enter''),
      (''error'', ''Error''),
      (''ext_idle_notification_v1'', ''ExtIdleNotificationV1''),
      (''ext_idle_notifier_v1'', ''ExtIdleNotifierV1''),
      (''ext_session_lock_manager_v1'', ''ExtSessionLockManagerV1''),
      (''ext_session_lock_surface_v1'', ''ExtSessionLockSurfaceV1''),
      (''ext_session_lock_v1'', ''ExtSessionLockV1''),
      (''factor'', ''Factor''),
      (''fd'', ''Fd''),
      (''finished'', ''Finished''),
      (''fixes'', ''Fixes''),
      (''flags'', ''Flags''),
      (''format'', ''Format''),
      (''frame'', ''Frame''),
      (''geometry'', ''Geometry''),
      (''global'', ''Global''),
      (''global_remove'', ''GlobalRemove''),
      (''group'', ''Group''),
      (''hardware_id_hi'', ''HardwareIdHi''),
      (''hardware_id_lo'', ''HardwareIdLo''),
      (''hardware_id_wacom'', ''HardwareIdWacom''),
      (''hardware_serial'', ''HardwareSerial''),
      (''hardware_serial_hi'', ''HardwareSerialHi''),
      (''hardware_serial_lo'', ''HardwareSerialLo''),
      (''height'', ''Height''),
      (''id'', ''Id''),
      (''idled'', ''Idled''),
      (''interface'', ''Interface''),
      (''key'', ''Key''),
      (''keyboard'', ''Keyboard''),
      (''keymap'', ''Keymap''),
      (''keys'', ''Keys''),
      (''leave'', ''Leave''),
      (''locked'', ''Locked''),
      (''major'', ''Major''),
      (''make'', ''Make''),
      (''message'', ''Message''),
      (''mime_type'', ''MimeType''),
      (''minor'', ''Minor''),
      (''mode'', ''Mode''),
      (''mode_switch'', ''ModeSwitch''),
      (''model'', ''Model''),
      (''modes'', ''Modes''),
      (''modifiers'', ''Modifiers''),
      (''mods_depressed'', ''ModsDepressed''),
      (''mods_latched'', ''ModsLatched''),
      (''mods_locked'', ''ModsLocked''),
      (''motion'', ''Motion''),
      (''name'', ''Name''),
      (''object_id'', ''ObjectId''),
      (''offer'', ''Offer''),
      (''orientation'', ''Orientation''),
      (''output'', ''Output''),
      (''pad_added'', ''PadAdded''),
      (''pad_group'', ''PadGroup''),
      (''path'', ''Path''),
      (''physical_height'', ''PhysicalHeight''),
      (''physical_width'', ''PhysicalWidth''),
      (''pid'', ''Pid''),
      (''ping'', ''Ping''),
      (''pointer'', ''Pointer''),
      (''popup_done'', ''PopupDone''),
      (''position'', ''Position''),
      (''preedit_string'', ''PreeditString''),
      (''preferred_buffer_scale'', ''PreferredBufferScale''),
      (''preferred_buffer_transform'', ''PreferredBufferTransform''),
      (''pressure'', ''Pressure''),
      (''proximity_in'', ''ProximityIn''),
      (''proximity_out'', ''ProximityOut''),
      (''rate'', ''Rate''),
      (''refresh'', ''Refresh''),
      (''region'', ''Region''),
      (''registry'', ''Registry''),
      (''release'', ''Release''),
      (''removed'', ''Removed''),
      (''repeat_info'', ''RepeatInfo''),
      (''resumed'', ''Resumed''),
      (''ring'', ''Ring''),
      (''rotation'', ''Rotation''),
      (''scale'', ''Scale''),
      (''seat'', ''Seat''),
      (''selection'', ''Selection''),
      (''send'', ''Send''),
      (''serial'', ''Serial''),
      (''shape'', ''Shape''),
      (''shell'', ''Shell''),
      (''shell_surface'', ''ShellSurface''),
      (''shm'', ''Shm''),
      (''shm_pool'', ''ShmPool''),
      (''size'', ''Size''),
      (''slider'', ''Slider''),
      (''source'', ''Source''),
      (''source_actions'', ''SourceActions''),
      (''state'', ''State''),
      (''stop'', ''Stop''),
      (''strip'', ''Strip''),
      (''subcompositor'', ''Subcompositor''),
      (''subpixel'', ''Subpixel''),
      (''subsurface'', ''Subsurface''),
      (''surface'', ''Surface''),
      (''surface_x'', ''SurfaceX''),
      (''surface_y'', ''SurfaceY''),
      (''tablet'', ''Tablet''),
      (''tablet_added'', ''TabletAdded''),
      (''target'', ''Target''),
      (''text'', ''Text''),
      (''tilt'', ''Tilt''),
      (''tilt_x'', ''TiltX''),
      (''tilt_y'', ''TiltY''),
      (''time'', ''Time''),
      (''tool_added'', ''ToolAdded''),
      (''tool_type'', ''ToolType''),
      (''touch'', ''Touch''),
      (''transform'', ''Transform''),
      (''type'', ''Type''),
      (''up'', ''Up''),
      (''value'', ''Value''),
      (''value120'', ''Value120''),
      (''version'', ''Version''),
      (''vid'', ''Vid''),
      (''wheel'', ''Wheel''),
      (''width'', ''Width''),
      (''wp_cursor_shape_device_v1'', ''WpCursorShapeDeviceV1''),
      (''wp_cursor_shape_manager_v1'', ''WpCursorShapeManagerV1''),
      (''x'', ''X''),
      (''y'', ''Y''),
      (''zwp_tablet_manager_v2'', ''ZwpTabletManagerV2''),
      (''zwp_tablet_pad_group_v2'', ''ZwpTabletPadGroupV2''),
      (''zwp_tablet_pad_ring_v2'', ''ZwpTabletPadRingV2''),
      (''zwp_tablet_pad_strip_v2'', ''ZwpTabletPadStripV2''),
      (''zwp_tablet_pad_v2'', ''ZwpTabletPadV2''),
      (''zwp_tablet_seat_v2'', ''ZwpTabletSeatV2''),
      (''zwp_tablet_tool_v2'', ''ZwpTabletToolV2''),
      (''zwp_tablet_v2'', ''ZwpTabletV2''),
      (''zwp_text_input_manager_v3'', ''ZwpTextInputManagerV3''),
      (''zwp_text_input_v3'', ''ZwpTextInputV3'')]"
  by code_simp

lemmas camel_names = camel_list [unfolded list.pred_inject prod.case]

lemma lower_camel_list:
  "list_all (\<lambda>(s, t). camel_from False s = t)
     [(''action'', ''action''),
      (''after_length'', ''afterLength''),
      (''anchor'', ''anchor''),
      (''angle'', ''angle''),
      (''axis'', ''axis''),
      (''axis_discrete'', ''axisDiscrete''),
      (''axis_relative_direction'', ''axisRelativeDirection''),
      (''axis_source'', ''axisSource''),
      (''axis_stop'', ''axisStop''),
      (''axis_value120'', ''axisValue120''),
      (''before_length'', ''beforeLength''),
      (''buffer'', ''buffer''),
      (''button'', ''button''),
      (''buttons'', ''buttons''),
      (''callback'', ''callback''),
      (''callback_data'', ''callbackData''),
      (''cancel'', ''cancel''),
      (''cancelled'', ''cancelled''),
      (''capabilities'', ''capabilities''),
      (''capability'', ''capability''),
      (''cause'', ''cause''),
      (''class_'', ''class''),
      (''clicks'', ''clicks''),
      (''code'', ''code''),
      (''commit_string'', ''commitString''),
      (''configure'', ''configure''),
      (''cursor'', ''cursor''),
      (''cursor_begin'', ''cursorBegin''),
      (''cursor_end'', ''cursorEnd''),
      (''cursor_shape_device'', ''cursorShapeDevice''),
      (''data_offer'', ''dataOffer''),
      (''degrees'', ''degrees''),
      (''delay'', ''delay''),
      (''delete_id'', ''deleteId''),
      (''delete_surrounding_text'', ''deleteSurroundingText''),
      (''description'', ''description''),
      (''direction'', ''direction''),
      (''discrete'', ''discrete''),
      (''distance'', ''distance''),
      (''dnd_action'', ''dndAction''),
      (''dnd_actions'', ''dndActions''),
      (''dnd_drop_performed'', ''dndDropPerformed''),
      (''dnd_finished'', ''dndFinished''),
      (''done'', ''done''),
      (''down'', ''down''),
      (''drop'', ''drop''),
      (''edges'', ''edges''),
      (''enter'', ''enter''),
      (''error'', ''error''),
      (''factor'', ''factor''),
      (''fd'', ''fd''),
      (''finished'', ''finished''),
      (''flags'', ''flags''),
      (''format'', ''format''),
      (''frame'', ''frame''),
      (''framerate'', ''framerate''),
      (''geometry'', ''geometry''),
      (''global'', ''global''),
      (''global_remove'', ''globalRemove''),
      (''group'', ''group''),
      (''hardware_id_hi'', ''hardwareIdHi''),
      (''hardware_id_lo'', ''hardwareIdLo''),
      (''hardware_id_wacom'', ''hardwareIdWacom''),
      (''hardware_serial'', ''hardwareSerial''),
      (''hardware_serial_hi'', ''hardwareSerialHi''),
      (''hardware_serial_lo'', ''hardwareSerialLo''),
      (''height'', ''height''),
      (''hint'', ''hint''),
      (''hotspot_x'', ''hotspotX''),
      (''hotspot_y'', ''hotspotY''),
      (''icon'', ''icon''),
      (''id'', ''id''),
      (''idled'', ''idled''),
      (''interface'', ''interface''),
      (''key'', ''key''),
      (''keymap'', ''keymap''),
      (''keys'', ''keys''),
      (''leave'', ''leave''),
      (''locked'', ''locked''),
      (''major'', ''major''),
      (''make'', ''make''),
      (''message'', ''message''),
      (''method'', ''method''),
      (''mime_type'', ''mimeType''),
      (''minor'', ''minor''),
      (''mode'', ''mode''),
      (''mode_switch'', ''modeSwitch''),
      (''model'', ''model''),
      (''modes'', ''modes''),
      (''modifiers'', ''modifiers''),
      (''mods_depressed'', ''modsDepressed''),
      (''mods_latched'', ''modsLatched''),
      (''mods_locked'', ''modsLocked''),
      (''motion'', ''motion''),
      (''name'', ''name''),
      (''object_id'', ''objectId''),
      (''offer'', ''offer''),
      (''offset'', ''offset''),
      (''orientation'', ''orientation''),
      (''origin'', ''origin''),
      (''output'', ''output''),
      (''pad_added'', ''padAdded''),
      (''pad_group'', ''padGroup''),
      (''parent'', ''parent''),
      (''path'', ''path''),
      (''physical_height'', ''physicalHeight''),
      (''physical_width'', ''physicalWidth''),
      (''pid'', ''pid''),
      (''ping'', ''ping''),
      (''pointer'', ''pointer''),
      (''popup_done'', ''popupDone''),
      (''position'', ''position''),
      (''preedit_string'', ''preeditString''),
      (''preferred_action'', ''preferredAction''),
      (''preferred_buffer_scale'', ''preferredBufferScale''),
      (''preferred_buffer_transform'', ''preferredBufferTransform''),
      (''pressure'', ''pressure''),
      (''proximity_in'', ''proximityIn''),
      (''proximity_out'', ''proximityOut''),
      (''purpose'', ''purpose''),
      (''rate'', ''rate''),
      (''refresh'', ''refresh''),
      (''region'', ''region''),
      (''registry'', ''registry''),
      (''release'', ''release''),
      (''removed'', ''removed''),
      (''repeat_info'', ''repeatInfo''),
      (''resumed'', ''resumed''),
      (''ring'', ''ring''),
      (''rotation'', ''rotation''),
      (''scale'', ''scale''),
      (''seat'', ''seat''),
      (''selection'', ''selection''),
      (''send'', ''send''),
      (''serial'', ''serial''),
      (''shape'', ''shape''),
      (''sibling'', ''sibling''),
      (''size'', ''size''),
      (''slider'', ''slider''),
      (''source'', ''source''),
      (''source_actions'', ''sourceActions''),
      (''state'', ''state''),
      (''stop'', ''stop''),
      (''stride'', ''stride''),
      (''strip'', ''strip''),
      (''subpixel'', ''subpixel''),
      (''surface'', ''surface''),
      (''surface_x'', ''surfaceX''),
      (''surface_y'', ''surfaceY''),
      (''tablet'', ''tablet''),
      (''tablet_added'', ''tabletAdded''),
      (''tablet_seat'', ''tabletSeat''),
      (''tablet_tool'', ''tabletTool''),
      (''target'', ''target''),
      (''text'', ''text''),
      (''tilt'', ''tilt''),
      (''tilt_x'', ''tiltX''),
      (''tilt_y'', ''tiltY''),
      (''time'', ''time''),
      (''timeout'', ''timeout''),
      (''title'', ''title''),
      (''tool_added'', ''toolAdded''),
      (''tool_type'', ''toolType''),
      (''transform'', ''transform''),
      (''type'', ''type''),
      (''up'', ''up''),
      (''value'', ''value''),
      (''value120'', ''value120''),
      (''version'', ''version''),
      (''vid'', ''vid''),
      (''wheel'', ''wheel''),
      (''width'', ''width''),
      (''x'', ''x''),
      (''y'', ''y'')]"
  by code_simp

lemmas lower_camel_names = lower_camel_list [unfolded list.pred_inject prod.case]

section \<open>Go types\<close>

text \<open>The Go types of the bindings, by the names that the generated packages use for them.\<close>

definition go_type :: "string \<Rightarrow> iface option" where
  "go_type = map_of
     [(''Display'', Display),
      (''Registry'', Registry),
      (''Callback'', Callback),
      (''Compositor'', Compositor),
      (''ShmPool'', ShmPool),
      (''Shm'', Shm),
      (''Buffer'', Buffer),
      (''DataOffer'', DataOffer),
      (''DataSource'', DataSource),
      (''DataDevice'', DataDevice),
      (''DataDeviceManager'', DataDeviceManager),
      (''Shell'', Shell),
      (''ShellSurface'', ShellSurface),
      (''Surface'', Surface),
      (''Seat'', Seat),
      (''Pointer'', Pointer),
      (''Keyboard'', Keyboard),
      (''Touch'', Touch),
      (''Output'', Output),
      (''Region'', Region),
      (''Subcompositor'', Subcompositor),
      (''Subsurface'', Subsurface),
      (''Fixes'', Fixes),
      (''WpCursorShapeManagerV1'', WpCursorShapeManagerV1),
      (''WpCursorShapeDeviceV1'', WpCursorShapeDeviceV1),
      (''ExtIdleNotifierV1'', ExtIdleNotifierV1),
      (''ExtIdleNotificationV1'', ExtIdleNotificationV1),
      (''ExtSessionLockManagerV1'', ExtSessionLockManagerV1),
      (''ExtSessionLockV1'', ExtSessionLockV1),
      (''ExtSessionLockSurfaceV1'', ExtSessionLockSurfaceV1),
      (''ZwpTabletManagerV2'', ZwpTabletManagerV2),
      (''ZwpTabletSeatV2'', ZwpTabletSeatV2),
      (''ZwpTabletToolV2'', ZwpTabletToolV2),
      (''ZwpTabletV2'', ZwpTabletV2),
      (''ZwpTabletPadRingV2'', ZwpTabletPadRingV2),
      (''ZwpTabletPadStripV2'', ZwpTabletPadStripV2),
      (''ZwpTabletPadGroupV2'', ZwpTabletPadGroupV2),
      (''ZwpTabletPadV2'', ZwpTabletPadV2),
      (''ZwpTextInputV3'', ZwpTextInputV3),
      (''ZwpTextInputManagerV3'', ZwpTextInputManagerV3),
      (''client.Display'', Display),
      (''client.Registry'', Registry),
      (''client.Callback'', Callback),
      (''client.Compositor'', Compositor),
      (''client.ShmPool'', ShmPool),
      (''client.Shm'', Shm),
      (''client.Buffer'', Buffer),
      (''client.DataOffer'', DataOffer),
      (''client.DataSource'', DataSource),
      (''client.DataDevice'', DataDevice),
      (''client.DataDeviceManager'', DataDeviceManager),
      (''client.Shell'', Shell),
      (''client.ShellSurface'', ShellSurface),
      (''client.Surface'', Surface),
      (''client.Seat'', Seat),
      (''client.Pointer'', Pointer),
      (''client.Keyboard'', Keyboard),
      (''client.Touch'', Touch),
      (''client.Output'', Output),
      (''client.Region'', Region),
      (''client.Subcompositor'', Subcompositor),
      (''client.Subsurface'', Subsurface),
      (''client.Fixes'', Fixes)]"

text \<open>Their constructors.\<close>

definition go_ctor :: "string \<Rightarrow> iface option" where
  "go_ctor = map_of
     [(''NewDisplay'', Display),
      (''NewRegistry'', Registry),
      (''NewCallback'', Callback),
      (''NewCompositor'', Compositor),
      (''NewShmPool'', ShmPool),
      (''NewShm'', Shm),
      (''NewBuffer'', Buffer),
      (''NewDataOffer'', DataOffer),
      (''NewDataSource'', DataSource),
      (''NewDataDevice'', DataDevice),
      (''NewDataDeviceManager'', DataDeviceManager),
      (''NewShell'', Shell),
      (''NewShellSurface'', ShellSurface),
      (''NewSurface'', Surface),
      (''NewSeat'', Seat),
      (''NewPointer'', Pointer),
      (''NewKeyboard'', Keyboard),
      (''NewTouch'', Touch),
      (''NewOutput'', Output),
      (''NewRegion'', Region),
      (''NewSubcompositor'', Subcompositor),
      (''NewSubsurface'', Subsurface),
      (''NewFixes'', Fixes),
      (''NewWpCursorShapeManagerV1'', WpCursorShapeManagerV1),
      (''NewWpCursorShapeDeviceV1'', WpCursorShapeDeviceV1),
      (''NewExtIdleNotifierV1'', ExtIdleNotifierV1),
      (''NewExtIdleNotificationV1'', ExtIdleNotificationV1),
      (''NewExtSessionLockManagerV1'', ExtSessionLockManagerV1),
      (''NewExtSessionLockV1'', ExtSessionLockV1),
      (''NewExtSessionLockSurfaceV1'', ExtSessionLockSurfaceV1),
      (''NewZwpTabletManagerV2'', ZwpTabletManagerV2),
      (''NewZwpTabletSeatV2'', ZwpTabletSeatV2),
      (''NewZwpTabletToolV2'', ZwpTabletToolV2),
      (''NewZwpTabletV2'', ZwpTabletV2),
      (''NewZwpTabletPadRingV2'', ZwpTabletPadRingV2),
      (''NewZwpTabletPadStripV2'', ZwpTabletPadStripV2),
      (''NewZwpTabletPadGroupV2'', ZwpTabletPadGroupV2),
      (''NewZwpTabletPadV2'', ZwpTabletPadV2),
      (''NewZwpTextInputV3'', ZwpTextInputV3),
      (''NewZwpTextInputManagerV3'', ZwpTextInputManagerV3),
      (''client.NewDisplay'', Display),
      (''client.NewRegistry'', Registry),
      (''client.NewCallback'', Callback),
      (''client.NewCompositor'', Compositor),
      (''client.NewShmPool'', ShmPool),
      (''client.NewShm'', Shm),
      (''client.NewBuffer'', Buffer),
      (''client.NewDataOffer'', DataOffer),
      (''client.NewDataSource'', DataSource),
      (''client.NewDataDevice'', DataDevice),
      (''client.NewDataDeviceManager'', DataDeviceManager),
      (''client.NewShell'', Shell),
      (''client.NewShellSurface'', ShellSurface),
      (''client.NewSurface'', Surface),
      (''client.NewSeat'', Seat),
      (''client.NewPointer'', Pointer),
      (''client.NewKeyboard'', Keyboard),
      (''client.NewTouch'', Touch),
      (''client.NewOutput'', Output),
      (''client.NewRegion'', Region),
      (''client.NewSubcompositor'', Subcompositor),
      (''client.NewSubsurface'', Subsurface),
      (''client.NewFixes'', Fixes)]"

lemma go_type_list:
  "list_all (\<lambda>(s, t). go_type s = Some t)
     [(''Display'', Display),
      (''Registry'', Registry),
      (''Callback'', Callback),
      (''Compositor'', Compositor),
      (''ShmPool'', ShmPool),
      (''Shm'', Shm),
      (''Buffer'', Buffer),
      (''DataOffer'', DataOffer),
      (''DataSource'', DataSource),
      (''DataDevice'', DataDevice),
      (''DataDeviceManager'', DataDeviceManager),
      (''Shell'', Shell),
      (''ShellSurface'', ShellSurface),
      (''Surface'', Surface),
      (''Seat'', Seat),
      (''Pointer'', Pointer),
      (''Keyboard'', Keyboard),
      (''Touch'', Touch),
      (''Output'', Output),
      (''Region'', Region),
      (''Subcompositor'', Subcompositor),
      (''Subsurface'', Subsurface),
      (''Fixes'', Fixes),
      (''WpCursorShapeManagerV1'', WpCursorShapeManagerV1),
      (''WpCursorShapeDeviceV1'', WpCursorShapeDeviceV1),
      (''ExtIdleNotifierV1'', ExtIdleNotifierV1),
      (''ExtIdleNotificationV1'', ExtIdleNotificationV1),
      (''ExtSessionLockManagerV1'', ExtSessionLockManagerV1),
      (''ExtSessionLockV1'', ExtSessionLockV1),
      (''ExtSessionLockSurfaceV1'', ExtSessionLockSurfaceV1),
      (''ZwpTabletManagerV2'', ZwpTabletManagerV2),
      (''ZwpTabletSeatV2'', ZwpTabletSeatV2),
      (''ZwpTabletToolV2'', ZwpTabletToolV2),
      (''ZwpTabletV2'', ZwpTabletV2),
      (''ZwpTabletPadRingV2'', ZwpTabletPadRingV2),
      (''ZwpTabletPadStripV2'', ZwpTabletPadStripV2),
      (''ZwpTabletPadGroupV2'', ZwpTabletPadGroupV2),
      (''ZwpTabletPadV2'', ZwpTabletPadV2),
      (''ZwpTextInputV3'', ZwpTextInputV3),
      (''ZwpTextInputManagerV3'', ZwpTextInputManagerV3),
      (''client.Display'', Display),
      (''client.Registry'', Registry),
      (''client.Callback'', Callback),
      (''client.Compositor'', Compositor),
      (''client.ShmPool'', ShmPool),
      (''client.Shm'', Shm),
      (''client.Buffer'', Buffer),
      (''client.DataOffer'', DataOffer),
      (''client.DataSource'', DataSource),
      (''client.DataDevice'', DataDevice),
      (''client.DataDeviceManager'', DataDeviceManager),
      (''client.Shell'', Shell),
      (''client.ShellSurface'', ShellSurface),
      (''client.Surface'', Surface),
      (''client.Seat'', Seat),
      (''client.Pointer'', Pointer),
      (''client.Keyboard'', Keyboard),
      (''client.Touch'', Touch),
      (''client.Output'', Output),
      (''client.Region'', Region),
      (''client.Subcompositor'', Subcompositor),
      (''client.Subsurface'', Subsurface),
      (''client.Fixes'', Fixes)]"
  by code_simp

lemmas go_types = go_type_list [unfolded list.pred_inject prod.case]

lemma go_ctor_list:
  "list_all (\<lambda>(s, t). go_ctor s = Some t)
     [(''NewDisplay'', Display),
      (''NewRegistry'', Registry),
      (''NewCallback'', Callback),
      (''NewCompositor'', Compositor),
      (''NewShmPool'', ShmPool),
      (''NewShm'', Shm),
      (''NewBuffer'', Buffer),
      (''NewDataOffer'', DataOffer),
      (''NewDataSource'', DataSource),
      (''NewDataDevice'', DataDevice),
      (''NewDataDeviceManager'', DataDeviceManager),
      (''NewShell'', Shell),
      (''NewShellSurface'', ShellSurface),
      (''NewSurface'', Surface),
      (''NewSeat'', Seat),
      (''NewPointer'', Pointer),
      (''NewKeyboard'', Keyboard),
      (''NewTouch'', Touch),
      (''NewOutput'', Output),
      (''NewRegion'', Region),
      (''NewSubcompositor'', Subcompositor),
      (''NewSubsurface'', Subsurface),
      (''NewFixes'', Fixes),
      (''NewWpCursorShapeManagerV1'', WpCursorShapeManagerV1),
      (''NewWpCursorShapeDeviceV1'', WpCursorShapeDeviceV1),
      (''NewExtIdleNotifierV1'', ExtIdleNotifierV1),
      (''NewExtIdleNotificationV1'', ExtIdleNotificationV1),
      (''NewExtSessionLockManagerV1'', ExtSessionLockManagerV1),
      (''NewExtSessionLockV1'', ExtSessionLockV1),
      (''NewExtSessionLockSurfaceV1'', ExtSessionLockSurfaceV1),
      (''NewZwpTabletManagerV2'', ZwpTabletManagerV2),
      (''NewZwpTabletSeatV2'', ZwpTabletSeatV2),
      (''NewZwpTabletToolV2'', ZwpTabletToolV2),
      (''NewZwpTabletV2'', ZwpTabletV2),
      (''NewZwpTabletPadRingV2'', ZwpTabletPadRingV2),
      (''NewZwpTabletPadStripV2'', ZwpTabletPadStripV2),
      (''NewZwpTabletPadGroupV2'', ZwpTabletPadGroupV2),
      (''NewZwpTabletPadV2'', ZwpTabletPadV2),
      (''NewZwpTextInputV3'', ZwpTextInputV3),
      (''NewZwpTextInputManagerV3'', ZwpTextInputManagerV3),
      (''client.NewDisplay'', Display),
      (''client.NewRegistry'', Registry),
      (''client.NewCallback'', Callback),
      (''client.NewCompositor'', Compositor),
      (''client.NewShmPool'', ShmPool),
      (''client.NewShm'', Shm),
      (''client.NewBuffer'', Buffer),
      (''client.NewDataOffer'', DataOffer),
      (''client.NewDataSource'', DataSource),
      (''client.NewDataDevice'', DataDevice),
      (''client.NewDataDeviceManager'', DataDeviceManager),
      (''client.NewShell'', Shell),
      (''client.NewShellSurface'', ShellSurface),
      (''client.NewSurface'', Surface),
      (''client.NewSeat'', Seat),
      (''client.NewPointer'', Pointer),
      (''client.NewKeyboard'', Keyboard),
      (''client.NewTouch'', Touch),
      (''client.NewOutput'', Output),
      (''client.NewRegion'', Region),
      (''client.NewSubcompositor'', Subcompositor),
      (''client.NewSubsurface'', Subsurface),
      (''client.NewFixes'', Fixes)]"
  by code_simp

lemmas go_ctors = go_ctor_list [unfolded list.pred_inject prod.case]

section \<open>Protocols by name\<close>

text \<open>What the scanner asks of a protocol is its name and the names of its interfaces.\<close>

lemma local_interface:
  assumes "scanning p pre c"
  shows "isLocalInterface c s = list_ex (\<lambda>n. n = s) (map i_Name (p_Interfaces p))"
  using scanningD(3) [OF assms] by (auto simp: isLocalInterface_def list_ex_iff)

lemma wayland_names:
  "p_Name wayland_protocol = ''wayland''"
  "map i_Name (p_Interfaces wayland_protocol) =
     [''wl_display'',
      ''wl_registry'',
      ''wl_callback'',
      ''wl_compositor'',
      ''wl_shm_pool'',
      ''wl_shm'',
      ''wl_buffer'',
      ''wl_data_offer'',
      ''wl_data_source'',
      ''wl_data_device'',
      ''wl_data_device_manager'',
      ''wl_shell'',
      ''wl_shell_surface'',
      ''wl_surface'',
      ''wl_seat'',
      ''wl_pointer'',
      ''wl_keyboard'',
      ''wl_touch'',
      ''wl_output'',
      ''wl_region'',
      ''wl_subcompositor'',
      ''wl_subsurface'',
      ''wl_fixes'']"
  by code_simp+

lemma cursor_shape_v1_names:
  "p_Name cursor_shape_v1_protocol = ''cursor_shape_v1''"
  "map i_Name (p_Interfaces cursor_shape_v1_protocol) =
     [''wp_cursor_shape_manager_v1'',
      ''wp_cursor_shape_device_v1'']"
  by code_simp+

lemma ext_idle_notify_v1_names:
  "p_Name ext_idle_notify_v1_protocol = ''ext_idle_notify_v1''"
  "map i_Name (p_Interfaces ext_idle_notify_v1_protocol) =
     [''ext_idle_notifier_v1'',
      ''ext_idle_notification_v1'']"
  by code_simp+

lemma ext_session_lock_v1_names:
  "p_Name ext_session_lock_v1_protocol = ''ext_session_lock_v1''"
  "map i_Name (p_Interfaces ext_session_lock_v1_protocol) =
     [''ext_session_lock_manager_v1'',
      ''ext_session_lock_v1'',
      ''ext_session_lock_surface_v1'']"
  by code_simp+

lemma tablet_v2_names:
  "p_Name tablet_v2_protocol = ''tablet_unstable_v2''"
  "map i_Name (p_Interfaces tablet_v2_protocol) =
     [''zwp_tablet_manager_v2'',
      ''zwp_tablet_seat_v2'',
      ''zwp_tablet_tool_v2'',
      ''zwp_tablet_v2'',
      ''zwp_tablet_pad_ring_v2'',
      ''zwp_tablet_pad_strip_v2'',
      ''zwp_tablet_pad_group_v2'',
      ''zwp_tablet_pad_v2'']"
  by code_simp+

lemma text_input_unstable_v3_names:
  "p_Name text_input_unstable_v3_protocol = ''text_input_unstable_v3''"
  "map i_Name (p_Interfaces text_input_unstable_v3_protocol) =
     [''zwp_text_input_v3'',
      ''zwp_text_input_manager_v3'']"
  by code_simp+

lemmas protocol_names = wayland_names cursor_shape_v1_names ext_idle_notify_v1_names ext_session_lock_v1_names tablet_v2_names text_input_unstable_v3_names

declare camel_from.simps [simp del]

text \<open>The tables rewrite by default.\<close>

declare snake_names [simp] camel_names [simp] lower_camel_names [simp] go_types [simp] go_ctors [simp]

end
