(* ===== verification/Scanner_Methods.thy ===== *)
theory Scanner_Methods
  imports Scanner_Names Bindings
begin

text \<open>
  What the scanner emits for an interface, as a method table: the emitted dispatcher, descriptor query and
  absorber under the semantics of \<open>Scanner_Event_Exec\<close>, and the emitted request methods as functions of their
  arguments. The Valid theories compare both with the checked-in bindings of the Bind theories.
\<close>

section \<open>Dispatching on the opcode\<close>

text \<open>The \<open>n\<close>-th entry, counted from \<open>k\<close>, or the default.\<close>

primrec pick :: "u32 \<Rightarrow> u32 \<Rightarrow> 'a \<Rightarrow> 'a list \<Rightarrow> 'a" where
  "pick k n d [] = d"
| "pick k n d (x # xs) = (if n = k then x else pick (k + 1) n d xs)"

lemma pick_nth:
  "unat k + length xs < 2 ^ 32 \<Longrightarrow> k \<le> n \<Longrightarrow>
   pick k n d xs = (if unat n - unat k < length xs then xs ! (unat n - unat k) else d)"
proof (induction xs arbitrary: k)
  case (Cons x xs)
  show ?case
  proof (cases "n = k")
    case False
    then have lt: "unat k < unat n" using Cons.prems by (simp add: word_less_nat_alt [symmetric])
    then have s: "unat (k + 1) = Suc (unat k)" using Cons.prems(1) by (simp add: unat_word_ariths(1))
    then have k: "k + 1 \<le> n" using lt by (simp add: word_le_nat_alt)
    then have "unat n - unat k = Suc (unat n - unat (k + 1))" using lt s by simp
    then show ?thesis using False k s Cons by simp
  qed simp
qed simp

lemma dispatch_pick:
  assumes "list_all (well_formed_event c types) (i_Events v)" "length (i_Events v) < 2 ^ 32"
  shows "exec_dispatch E c types i v opcode fd data =
    pick 0 opcode unsupported (map (intended_event E c types i fd data v) (i_Events v))"
  unfolding dispatch_correct [OF assms(1)] intended_dispatch_def
  using assms(2) by (simp add: pick_nth)


text \<open>The methods of the optional interfaces of client/common.go that the scanner emits for an interface.\<close>

definition emitted_methods :: "'k env \<Rightarrow> config \<Rightarrow> interface \<Rightarrow> 'k methods" where
  "emitted_methods E c v =
     (if i_Events v = [] then no_methods
      else \<lparr>m_HasFD = Some (exec_HasFD v), m_Dispatch = Some (\<lambda>E i. exec_dispatch E c go_type i v),
        m_Absorb = (if list_ex has_new (i_Events v) then Some (\<lambda>i. exec_absorb E c go_type i v) else None)\<rparr>)"

lemma HasFD_pick:
  assumes "length (i_Events v) < 2 ^ 32"
  shows "exec_HasFD v opcode = pick 0 opcode False (map has_fd (i_Events v))"
  using assms by (simp add: exec_HasFD_iff pick_nth)

lemma absorb_pick:
  assumes "list_all (well_formed_event c types) (i_Events v)" "length (i_Events v) < 2 ^ 32"
  shows "exec_absorb E c types i v opcode data = pick 0 opcode (ret ())
    (map (\<lambda>e. if has_new e then bnd (absorb_args c types i data (m_Args e) 0) (\<lambda>_. ret ()) else ret ()) (i_Events v))"
  unfolding absorb_correct [OF assms(1)] intended_absorb_def
  using assms(2) by (simp add: pick_nth)

text \<open>The table of an interface with events, read off its description.\<close>

lemma emitted_methodsI:
  assumes "i_Events v \<noteq> []" "list_all (well_formed_event c go_type) (i_Events v)" "length (i_Events v) < 2 ^ 32"
    and "\<And>opcode. pick 0 opcode False (map has_fd (i_Events v)) = h opcode"
    and "\<And>E i opcode fd data. pick 0 opcode unsupported (map (intended_event E c go_type i fd data v) (i_Events v)) = d E i opcode fd data"
    and "\<not> list_ex has_new (i_Events v)"
  shows "emitted_methods E c v = events h d"
  using assms by (simp add: emitted_methods_def events_def HasFD_pick dispatch_pick fun_eq_iff)

lemma emitted_methods_absorbI:
  assumes "list_all (well_formed_event c go_type) (i_Events v)" "length (i_Events v) < 2 ^ 32"
    and "\<And>opcode. pick 0 opcode False (map has_fd (i_Events v)) = h opcode"
    and "\<And>E i opcode fd data. pick 0 opcode unsupported (map (intended_event E c go_type i fd data v) (i_Events v)) = d E i opcode fd data"
    and "list_ex has_new (i_Events v)"
    and "\<And>i opcode data. pick 0 opcode (ret ())
      (map (\<lambda>e. if has_new e then bnd (absorb_args c go_type i data (m_Args e) 0) (\<lambda>_. ret ()) else ret ()) (i_Events v)) = a i opcode data"
  shows "emitted_methods E c v = (events h d)\<lparr>m_Absorb := Some a\<rparr>"
proof -
  have "i_Events v \<noteq> []" using assms(5) by auto
  then show ?thesis using assms by (simp add: emitted_methods_def events_def HasFD_pick dispatch_pick absorb_pick fun_eq_iff)
qed

lemma emitted_no_methods: "i_Events v = [] \<Longrightarrow> emitted_methods E c v = no_methods"
  by (simp add: emitted_methods_def)

lemmas event_eval = mk_defs toCamel_def toLowerCamel_def toCamelPrefix_def TrimPrefix_def HasPrefix_def TrimSuffix_def HasSuffix_def
  protocol_names interfaceNameForArg_def
  intended_event_def isDeleteID_def isDisplayError_def has_new_def has_fd_def is_new_def is_fd_def readers_of_def reader_of_def arg_type_def
  well_formed_event_def arg_types_def absorb_arg_def

lemma bnd_pair: "bnd (case x of (a, b) \<Rightarrow> f a b) k = (case x of (a, b) \<Rightarrow> bnd (f a b) k)"
  by (cases x) simp

lemmas display_eval = delete_of_def record_of_def call_if_def r_uint_def r_any_def r_string_def bnd_assoc ret_bnd andthen_bnd bnd_pair Let_def

lemma absorb_args_Nil: "absorb_args c types i data [] = ret"
  by (rule ext) simp

lemmas new_eval = new_event_def drop_fd_def absorb_args_Nil bnd_assoc ret_bnd andthen_bnd Let_def if_False

section \<open>Calling a request method\<close>

text \<open>The parameters of the emitted method, in order, and a call with the values \<open>args\<close>.\<close>

definition method_params :: "config \<Rightarrow> message \<Rightarrow> string list" where
  "method_params c r = concat (map (\<lambda>a. if a_Type a = ''new_id'' \<and> a_Interface a \<noteq> [] then [] else arg_names c a) (m_Args r))"

definition call_method :: "'k env \<Rightarrow> config \<Rightarrow> ref \<Rightarrow> interface \<Rightarrow> nat \<Rightarrow> gov list \<Rightarrow> ('k world, ref list \<times> gerr option) go" where
  "call_method E c i v n args =
     (let r = i_Requests v ! n in
      exec_body E go_ctor i (request_body c v n r) (start_locals (map_of (zip (method_params c r) args))))"

lemma well_named_alt:
  "well_named c r \<longleftrightarrow> distinct (concat (map (arg_names c) (m_Args r))) \<and>
     list_all (\<lambda>x. x \<notin> set (used_names @ fixed_names)) (concat (map (arg_names c) (m_Args r))) \<and>
     distinct (map (\<lambda>x. x @ ''Len'') (concat (map (len_names c) (m_Args r)))) \<and>
     list_all (\<lambda>x. x \<notin> set (used_names @ fixed_names @ concat (map (arg_names c) (m_Args r))))
       (map (\<lambda>x. x @ ''Len'') (concat (map (len_names c) (m_Args r))))"
proof -
  have d: "distinct (used_names @ fixed_names)" by code_simp
  show ?thesis using d unfolding well_named_def list_all_iff distinct_append set_append by blast
qed

lemma call_method:
  assumes "r = i_Requests v ! n" "vars = map_of (zip (method_params c r) args)" "well_named c r" "well_typed c go_ctor vars r"
  shows "call_method E c i v n args = intended E c go_ctor i vars v n r"
  using request_correct [OF assms(3,4)] assms(1,2) by (simp add: call_method_def Let_def)


lemmas call_eval = call_method [OF refl refl]

lemmas request_eval = mk_defs toLowerCamel_def toCamel_def toCamelPrefix_def TrimPrefix_def HasPrefix_def TrimSuffix_def HasSuffix_def
  protocol_names
  well_named_alt used_names_def fixed_names_def well_typed_def method_params_def arg_names_def len_names_def
  intended_def request_defers_def new_args_def new_type_def arg_news_def newObjects_def puts_of_def arg_put_def
  oob_of_def fd_args_def proxy_of_def start_locals_def Let_def bnd_assoc ret_bnd str_len_def ac_simps

text \<open>The kinds of the values that a method takes.\<close>

datatype gkind = KWord | KFixed | KString | KOptString | KArray | KFd | KObj

primrec gov_kind :: "gov \<Rightarrow> gkind" where
  "gov_kind (GWord _) = KWord"
| "gov_kind (GFixed _) = KFixed"
| "gov_kind (GString _) = KString"
| "gov_kind (GOptString _) = KOptString"
| "gov_kind (GArray _) = KArray"
| "gov_kind (GFd _) = KFd"
| "gov_kind (GObj _) = KObj"

lemma gov_kind_iff:
  "gov_kind x = KWord \<longleftrightarrow> (\<exists>a. x = GWord a)"
  "gov_kind x = KFixed \<longleftrightarrow> (\<exists>b. x = GFixed b)"
  "gov_kind x = KString \<longleftrightarrow> (\<exists>d. x = GString d)"
  "gov_kind x = KOptString \<longleftrightarrow> (\<exists>e. x = GOptString e)"
  "gov_kind x = KArray \<longleftrightarrow> (\<exists>d. x = GArray d)"
  "gov_kind x = KFd \<longleftrightarrow> (\<exists>f. x = GFd f)"
  "gov_kind x = KObj \<longleftrightarrow> (\<exists>g. x = GObj g)"
  by (cases x; simp)+

definition arg_kinds :: "arg \<Rightarrow> gkind list" where
  "arg_kinds a =
     (if a_Type a = ''new_id'' then if a_Interface a = [] then [KString, KWord, KObj] else []
      else if a_Type a = ''object'' then [KObj]
      else if a_Type a = ''string'' then [if a_AllowNull a then KOptString else KString]
      else if a_Type a \<in> {''int'', ''uint''} then [KWord]
      else if a_Type a = ''fixed'' then [KFixed]
      else if a_Type a = ''array'' then [KArray]
      else if a_Type a = ''fd'' then [KFd]
      else [])"

definition request_kinds :: "message \<Rightarrow> gkind list" where
  "request_kinds r = concat (map arg_kinds (m_Args r))"

lemma mk_interface_sel:
  "i_Requests (mk_interface n rs es ens) = rs" "i_Events (mk_interface n rs es ens) = es" "i_Name (mk_interface n rs es ens) = n"
  by (simp_all add: mk_interface_def)

lemmas kinds_eval = mk_arg_def mk_message_def request_kinds_def arg_kinds_def map_eq_Cons_conv gov_kind_iff

section \<open>Methods on values\<close>

text \<open>A method of the bindings as a function of the values of its arguments, \<open>None\<close> where their number or kinds do not fit.\<close>

type_synonym 'k gmethod = "gov list \<Rightarrow> ('k world, ref list \<times> gerr option) go option"

definition on_end :: "('k world, ref list \<times> gerr option) go \<Rightarrow> 'k gmethod" where
  "on_end m args = (if args = [] then Some m else None)"

definition on_word :: "(u32 \<Rightarrow> 'k gmethod) \<Rightarrow> 'k gmethod" where
  "on_word f args = (case args of GWord x # r \<Rightarrow> f x r | _ \<Rightarrow> None)"

definition on_fixed :: "(rat \<Rightarrow> 'k gmethod) \<Rightarrow> 'k gmethod" where
  "on_fixed f args = (case args of GFixed x # r \<Rightarrow> f x r | _ \<Rightarrow> None)"

definition on_string :: "(bytes \<Rightarrow> 'k gmethod) \<Rightarrow> 'k gmethod" where
  "on_string f args = (case args of GString x # r \<Rightarrow> f x r | _ \<Rightarrow> None)"

definition on_opt_string :: "(bytes option \<Rightarrow> 'k gmethod) \<Rightarrow> 'k gmethod" where
  "on_opt_string f args = (case args of GOptString x # r \<Rightarrow> f x r | _ \<Rightarrow> None)"

definition on_array :: "(bytes \<Rightarrow> 'k gmethod) \<Rightarrow> 'k gmethod" where
  "on_array f args = (case args of GArray x # r \<Rightarrow> f x r | _ \<Rightarrow> None)"

definition on_fd :: "(int \<Rightarrow> 'k gmethod) \<Rightarrow> 'k gmethod" where
  "on_fd f args = (case args of GFd x # r \<Rightarrow> f x r | _ \<Rightarrow> None)"

definition on_obj :: "(ref option \<Rightarrow> 'k gmethod) \<Rightarrow> 'k gmethod" where
  "on_obj f args = (case args of GObj x # r \<Rightarrow> f x r | _ \<Rightarrow> None)"

lemmas on_defs = on_end_def on_word_def on_fixed_def on_string_def on_opt_string_def on_array_def on_fd_def on_obj_def

text \<open>The results of a method: the proxies it creates and its error.\<close>

definition err_only :: "('k world, gerr option) go \<Rightarrow> ('k world, ref list \<times> gerr option) go" where
  "err_only m = bnd m (\<lambda>err. ret ([], err))"

definition ref_err :: "('k world, ref \<times> gerr option) go \<Rightarrow> ('k world, ref list \<times> gerr option) go" where
  "ref_err m = bnd m (\<lambda>(r, err). ret ([r], err))"

text \<open>A deferred call that comes before the result is assembled.\<close>

lemma with_defer_result: "with_defer d (bnd m (\<lambda>r. ret (f r))) = bnd (with_defer d m) (\<lambda>r. ret (f r))"
  by (rule ext) (simp add: with_defer_def bnd_def split: prod.splits sum.splits)

lemmas result_defs = err_only_def ref_err_def with_defer_result split_beta

text \<open>The methods \<open>ms\<close> are the ones emitted for the requests from number \<open>k\<close> on.\<close>

primrec emits :: "'k env \<Rightarrow> config \<Rightarrow> ref \<Rightarrow> interface \<Rightarrow> nat \<Rightarrow> 'k gmethod list \<Rightarrow> bool" where
  "emits E c i v k [] \<longleftrightarrow> True"
| "emits E c i v k (m # ms) \<longleftrightarrow>
     (\<forall>args. map gov_kind args = request_kinds (i_Requests v ! k) \<longrightarrow> m args = Some (call_method E c i v k args)) \<and>
     emits E c i v (k + 1) ms"

lemma emits_nth:
  "emits E c i v k ms \<Longrightarrow> n < length ms \<Longrightarrow> map gov_kind args = request_kinds (i_Requests v ! (k + n)) \<Longrightarrow>
   (ms ! n) args = Some (call_method E c i v (k + n) args)"
proof (induction ms arbitrary: k n)
  case (Cons m ms)
  show ?case
  proof (cases n)
    case (Suc j)
    then show ?thesis using Cons.IH [of "k + 1" j] Cons.prems by simp
  qed (use Cons.prems in simp)
qed simp

definition emits_all :: "'k env \<Rightarrow> config \<Rightarrow> ref \<Rightarrow> interface \<Rightarrow> 'k gmethod list \<Rightarrow> bool" where
  "emits_all E c i v ms \<longleftrightarrow> length ms = length (i_Requests v) \<and> emits E c i v 0 ms"

lemma emits_allD:
  assumes "emits_all E c i v ms"
  shows "length ms = length (i_Requests v)"
    and "n < length ms \<Longrightarrow> map gov_kind args = request_kinds (i_Requests v ! n) \<Longrightarrow> (ms ! n) args = Some (call_method E c i v n args)"
  using assms emits_nth [of E c i v 0 ms n args] by (simp_all add: emits_all_def)

end
