(* ===== verification/Valid_Core.thy ===== *)
theory Valid_Core
  imports Scanner_Methods
begin

text \<open>
  The interfaces of \<open>Bind_Core\<close>: the requests, dispatchers, descriptor queries and absorbers that the scanner emits
  for their descriptions are those of the checked-in bindings.
\<close>

section \<open>wl_display\<close>

lemmas wl_display_sel = arg_cong [where f = i_Requests, OF wl_display_def, unfolded mk_interface_sel]
  arg_cong [where f = i_Events, OF wl_display_def, unfolded mk_interface_sel] arg_cong [where f = i_Name, OF wl_display_def, unfolded mk_interface_sel]

lemma Display_Sync_emitted:
  assumes "scanning wayland_protocol ''wl'' c"
  shows "call_method E c i wl_display 0 [] = ref_err (Display_Sync E i)"
  by (subst call_eval) (simp_all add: wl_display_sel request_eval scanningD [OF assms] local_interface [OF assms] result_defs Display_Sync_def del: ret_run)

lemma Display_GetRegistry_emitted:
  assumes "scanning wayland_protocol ''wl'' c"
  shows "call_method E c i wl_display 1 [] = ref_err (Display_GetRegistry E i)"
  by (subst call_eval) (simp_all add: wl_display_sel request_eval scanningD [OF assms] local_interface [OF assms] result_defs Display_GetRegistry_def del: ret_run)

definition Display_requests :: "'k env \<Rightarrow> ref \<Rightarrow> 'k gmethod list" where
  "Display_requests E i =
     [on_end (ref_err (Display_Sync E i)),
      on_end (ref_err (Display_GetRegistry E i))]"

lemma Display_requests_emitted:
  assumes "scanning wayland_protocol ''wl'' c"
  shows "emits_all E c i wl_display (Display_requests E i)"
proof -
  note r = wl_display_sel
  note m = Display_Sync_emitted [OF assms]
    Display_GetRegistry_emitted [OF assms]
  show ?thesis
    by (auto simp: emits_all_def Display_requests_def r kinds_eval on_defs m [unfolded numeral_nat])
qed

lemma Display_methods_emitted:
  assumes "scanning wayland_protocol ''wl'' c"
  shows "emitted_methods E c wl_display = generated Display"
  unfolding generated_def iface.case
  by (rule emitted_methodsI) (simp_all add: wl_display_sel event_eval scanningD [OF assms] local_interface [OF assms] Display_Dispatch_def Display_HasFD_def display_eval del: ret_run)

section \<open>wl_registry\<close>

lemmas wl_registry_sel = arg_cong [where f = i_Requests, OF wl_registry_def, unfolded mk_interface_sel]
  arg_cong [where f = i_Events, OF wl_registry_def, unfolded mk_interface_sel] arg_cong [where f = i_Name, OF wl_registry_def, unfolded mk_interface_sel]

lemma Registry_Bind_emitted:
  assumes "scanning wayland_protocol ''wl'' c"
  shows "call_method E c i wl_registry 0 [GWord name, GString iface, GWord version, GObj new] = err_only (Registry_Bind E i name iface version new)"
  by (subst call_eval) (simp_all add: wl_registry_sel request_eval scanningD [OF assms] local_interface [OF assms] result_defs Registry_Bind_def del: ret_run)

definition Registry_requests :: "'k env \<Rightarrow> ref \<Rightarrow> 'k gmethod list" where
  "Registry_requests E i =
     [on_word (\<lambda>name. on_string (\<lambda>iface. on_word (\<lambda>version. on_obj (\<lambda>new. on_end (err_only (Registry_Bind E i name iface version new))))))]"

lemma Registry_requests_emitted:
  assumes "scanning wayland_protocol ''wl'' c"
  shows "emits_all E c i wl_registry (Registry_requests E i)"
proof -
  note r = wl_registry_sel
  note m = Registry_Bind_emitted [OF assms]
  show ?thesis
    by (auto simp: emits_all_def Registry_requests_def r kinds_eval on_defs m [unfolded numeral_nat])
qed

lemma Registry_methods_emitted:
  assumes "scanning wayland_protocol ''wl'' c"
  shows "emitted_methods E c wl_registry = generated Registry"
  unfolding generated_def iface.case
  by (rule emitted_methodsI) (simp_all add: wl_registry_sel event_eval scanningD [OF assms] local_interface [OF assms] Registry_Dispatch_def Registry_HasFD_def del: ret_run)

section \<open>wl_callback\<close>

lemmas wl_callback_sel = arg_cong [where f = i_Requests, OF wl_callback_def, unfolded mk_interface_sel]
  arg_cong [where f = i_Events, OF wl_callback_def, unfolded mk_interface_sel] arg_cong [where f = i_Name, OF wl_callback_def, unfolded mk_interface_sel]

definition Callback_requests :: "'k env \<Rightarrow> ref \<Rightarrow> 'k gmethod list" where
  "Callback_requests E i =
     []"

lemma Callback_requests_emitted: "emits_all E c i wl_callback (Callback_requests E i)"
  by (simp add: emits_all_def Callback_requests_def wl_callback_def mk_defs)

lemma Callback_methods_emitted:
  assumes "scanning wayland_protocol ''wl'' c"
  shows "emitted_methods E c wl_callback = generated Callback"
  unfolding generated_def iface.case
  by (rule emitted_methodsI) (simp_all add: wl_callback_sel event_eval scanningD [OF assms] local_interface [OF assms] Callback_Dispatch_def Callback_HasFD_def del: ret_run)

section \<open>wl_compositor\<close>

lemmas wl_compositor_sel = arg_cong [where f = i_Requests, OF wl_compositor_def, unfolded mk_interface_sel]
  arg_cong [where f = i_Events, OF wl_compositor_def, unfolded mk_interface_sel] arg_cong [where f = i_Name, OF wl_compositor_def, unfolded mk_interface_sel]

lemma Compositor_CreateSurface_emitted:
  assumes "scanning wayland_protocol ''wl'' c"
  shows "call_method E c i wl_compositor 0 [] = ref_err (Compositor_CreateSurface E i)"
  by (subst call_eval) (simp_all add: wl_compositor_sel request_eval scanningD [OF assms] local_interface [OF assms] result_defs Compositor_CreateSurface_def del: ret_run)

lemma Compositor_CreateRegion_emitted:
  assumes "scanning wayland_protocol ''wl'' c"
  shows "call_method E c i wl_compositor 1 [] = ref_err (Compositor_CreateRegion E i)"
  by (subst call_eval) (simp_all add: wl_compositor_sel request_eval scanningD [OF assms] local_interface [OF assms] result_defs Compositor_CreateRegion_def del: ret_run)

definition Compositor_requests :: "'k env \<Rightarrow> ref \<Rightarrow> 'k gmethod list" where
  "Compositor_requests E i =
     [on_end (ref_err (Compositor_CreateSurface E i)),
      on_end (ref_err (Compositor_CreateRegion E i))]"

lemma Compositor_requests_emitted:
  assumes "scanning wayland_protocol ''wl'' c"
  shows "emits_all E c i wl_compositor (Compositor_requests E i)"
proof -
  note r = wl_compositor_sel
  note m = Compositor_CreateSurface_emitted [OF assms]
    Compositor_CreateRegion_emitted [OF assms]
  show ?thesis
    by (auto simp: emits_all_def Compositor_requests_def r kinds_eval on_defs m [unfolded numeral_nat])
qed

lemma Compositor_methods_emitted: "emitted_methods E c wl_compositor = generated Compositor"
  by (simp add: generated_def emitted_no_methods wl_compositor_def mk_defs)

section \<open>wl_shm_pool\<close>

lemmas wl_shm_pool_sel = arg_cong [where f = i_Requests, OF wl_shm_pool_def, unfolded mk_interface_sel]
  arg_cong [where f = i_Events, OF wl_shm_pool_def, unfolded mk_interface_sel] arg_cong [where f = i_Name, OF wl_shm_pool_def, unfolded mk_interface_sel]

lemma ShmPool_CreateBuffer_emitted:
  assumes "scanning wayland_protocol ''wl'' c"
  shows "call_method E c i wl_shm_pool 0 [GWord offset, GWord width, GWord height, GWord stride, GWord format] = ref_err (ShmPool_CreateBuffer E i offset width height stride format)"
  by (subst call_eval) (simp_all add: wl_shm_pool_sel request_eval scanningD [OF assms] local_interface [OF assms] result_defs ShmPool_CreateBuffer_def del: ret_run)

lemma ShmPool_Destroy_emitted:
  assumes "scanning wayland_protocol ''wl'' c"
  shows "call_method E c i wl_shm_pool 1 [] = err_only (ShmPool_Destroy E i)"
  by (subst call_eval) (simp_all add: wl_shm_pool_sel request_eval scanningD [OF assms] local_interface [OF assms] result_defs ShmPool_Destroy_def del: ret_run)

lemma ShmPool_Resize_emitted:
  assumes "scanning wayland_protocol ''wl'' c"
  shows "call_method E c i wl_shm_pool 2 [GWord size0] = err_only (ShmPool_Resize E i size0)"
  by (subst call_eval) (simp_all add: wl_shm_pool_sel request_eval scanningD [OF assms] local_interface [OF assms] result_defs ShmPool_Resize_def del: ret_run)

definition ShmPool_requests :: "'k env \<Rightarrow> ref \<Rightarrow> 'k gmethod list" where
  "ShmPool_requests E i =
     [on_word (\<lambda>offset. on_word (\<lambda>width. on_word (\<lambda>height. on_word (\<lambda>stride. on_word (\<lambda>format. on_end (ref_err (ShmPool_CreateBuffer E i offset width height stride format))))))),
      on_end (err_only (ShmPool_Destroy E i)),
      on_word (\<lambda>size0. on_end (err_only (ShmPool_Resize E i size0)))]"

lemma ShmPool_requests_emitted:
  assumes "scanning wayland_protocol ''wl'' c"
  shows "emits_all E c i wl_shm_pool (ShmPool_requests E i)"
proof -
  note r = wl_shm_pool_sel
  note m = ShmPool_CreateBuffer_emitted [OF assms]
    ShmPool_Destroy_emitted [OF assms]
    ShmPool_Resize_emitted [OF assms]
  show ?thesis
    by (auto simp: emits_all_def ShmPool_requests_def r kinds_eval on_defs m [unfolded numeral_nat])
qed

lemma ShmPool_methods_emitted: "emitted_methods E c wl_shm_pool = generated ShmPool"
  by (simp add: generated_def emitted_no_methods wl_shm_pool_def mk_defs)

section \<open>wl_shm\<close>

lemmas wl_shm_sel = arg_cong [where f = i_Requests, OF wl_shm_def, unfolded mk_interface_sel]
  arg_cong [where f = i_Events, OF wl_shm_def, unfolded mk_interface_sel] arg_cong [where f = i_Name, OF wl_shm_def, unfolded mk_interface_sel]

lemma Shm_CreatePool_emitted:
  assumes "scanning wayland_protocol ''wl'' c"
  shows "call_method E c i wl_shm 0 [GFd fd, GWord size0] = ref_err (Shm_CreatePool E i fd size0)"
  by (subst call_eval) (simp_all add: wl_shm_sel request_eval scanningD [OF assms] local_interface [OF assms] result_defs Shm_CreatePool_def del: ret_run)

lemma Shm_Release_emitted:
  assumes "scanning wayland_protocol ''wl'' c"
  shows "call_method E c i wl_shm 1 [] = err_only (Shm_Release E i)"
  by (subst call_eval) (simp_all add: wl_shm_sel request_eval scanningD [OF assms] local_interface [OF assms] result_defs Shm_Release_def del: ret_run)

definition Shm_requests :: "'k env \<Rightarrow> ref \<Rightarrow> 'k gmethod list" where
  "Shm_requests E i =
     [on_fd (\<lambda>fd. on_word (\<lambda>size0. on_end (ref_err (Shm_CreatePool E i fd size0)))),
      on_end (err_only (Shm_Release E i))]"

lemma Shm_requests_emitted:
  assumes "scanning wayland_protocol ''wl'' c"
  shows "emits_all E c i wl_shm (Shm_requests E i)"
proof -
  note r = wl_shm_sel
  note m = Shm_CreatePool_emitted [OF assms]
    Shm_Release_emitted [OF assms]
  show ?thesis
    by (auto simp: emits_all_def Shm_requests_def r kinds_eval on_defs m [unfolded numeral_nat])
qed

lemma Shm_methods_emitted:
  assumes "scanning wayland_protocol ''wl'' c"
  shows "emitted_methods E c wl_shm = generated Shm"
  unfolding generated_def iface.case
  by (rule emitted_methodsI) (simp_all add: wl_shm_sel event_eval scanningD [OF assms] local_interface [OF assms] Shm_Dispatch_def Shm_HasFD_def del: ret_run)

section \<open>wl_buffer\<close>

lemmas wl_buffer_sel = arg_cong [where f = i_Requests, OF wl_buffer_def, unfolded mk_interface_sel]
  arg_cong [where f = i_Events, OF wl_buffer_def, unfolded mk_interface_sel] arg_cong [where f = i_Name, OF wl_buffer_def, unfolded mk_interface_sel]

lemma Buffer_Destroy_emitted:
  assumes "scanning wayland_protocol ''wl'' c"
  shows "call_method E c i wl_buffer 0 [] = err_only (Buffer_Destroy E i)"
  by (subst call_eval) (simp_all add: wl_buffer_sel request_eval scanningD [OF assms] local_interface [OF assms] result_defs Buffer_Destroy_def del: ret_run)

definition Buffer_requests :: "'k env \<Rightarrow> ref \<Rightarrow> 'k gmethod list" where
  "Buffer_requests E i =
     [on_end (err_only (Buffer_Destroy E i))]"

lemma Buffer_requests_emitted:
  assumes "scanning wayland_protocol ''wl'' c"
  shows "emits_all E c i wl_buffer (Buffer_requests E i)"
proof -
  note r = wl_buffer_sel
  note m = Buffer_Destroy_emitted [OF assms]
  show ?thesis
    by (auto simp: emits_all_def Buffer_requests_def r kinds_eval on_defs m [unfolded numeral_nat])
qed

lemma Buffer_methods_emitted:
  assumes "scanning wayland_protocol ''wl'' c"
  shows "emitted_methods E c wl_buffer = generated Buffer"
  unfolding generated_def iface.case
  by (rule emitted_methodsI) (simp_all add: wl_buffer_sel event_eval scanningD [OF assms] local_interface [OF assms] Buffer_Dispatch_def Buffer_HasFD_def del: ret_run)

end
