(* ===== verification/Valid_Data.thy ===== *)
theory Valid_Data
  imports Scanner_Methods
begin

text \<open>
  The interfaces of \<open>Bind_Data\<close>: the requests, dispatchers, descriptor queries and absorbers that the scanner emits
  for their descriptions are those of the checked-in bindings.
\<close>

section \<open>wl_data_offer\<close>

lemmas wl_data_offer_sel = arg_cong [where f = i_Requests, OF wl_data_offer_def, unfolded mk_interface_sel]
  arg_cong [where f = i_Events, OF wl_data_offer_def, unfolded mk_interface_sel] arg_cong [where f = i_Name, OF wl_data_offer_def, unfolded mk_interface_sel]

lemma DataOffer_Accept_emitted:
  assumes "scanning wayland_protocol ''wl'' c"
  shows "call_method E c i wl_data_offer 0 [GWord serial, GOptString mimeType] = err_only (DataOffer_Accept E i serial mimeType)"
  by (subst call_eval) (simp_all add: wl_data_offer_sel request_eval scanningD [OF assms] local_interface [OF assms] result_defs DataOffer_Accept_def del: ret_run)

lemma DataOffer_Receive_emitted:
  assumes "scanning wayland_protocol ''wl'' c"
  shows "call_method E c i wl_data_offer 1 [GString mimeType, GFd fd] = err_only (DataOffer_Receive E i mimeType fd)"
  by (subst call_eval) (simp_all add: wl_data_offer_sel request_eval scanningD [OF assms] local_interface [OF assms] result_defs DataOffer_Receive_def del: ret_run)

lemma DataOffer_Destroy_emitted:
  assumes "scanning wayland_protocol ''wl'' c"
  shows "call_method E c i wl_data_offer 2 [] = err_only (DataOffer_Destroy E i)"
  by (subst call_eval) (simp_all add: wl_data_offer_sel request_eval scanningD [OF assms] local_interface [OF assms] result_defs DataOffer_Destroy_def del: ret_run)

lemma DataOffer_Finish_emitted:
  assumes "scanning wayland_protocol ''wl'' c"
  shows "call_method E c i wl_data_offer 3 [] = err_only (DataOffer_Finish E i)"
  by (subst call_eval) (simp_all add: wl_data_offer_sel request_eval scanningD [OF assms] local_interface [OF assms] result_defs DataOffer_Finish_def del: ret_run)

lemma DataOffer_SetActions_emitted:
  assumes "scanning wayland_protocol ''wl'' c"
  shows "call_method E c i wl_data_offer 4 [GWord dndActions, GWord preferredAction] = err_only (DataOffer_SetActions E i dndActions preferredAction)"
  by (subst call_eval) (simp_all add: wl_data_offer_sel request_eval scanningD [OF assms] local_interface [OF assms] result_defs DataOffer_SetActions_def del: ret_run)

definition DataOffer_requests :: "'k env \<Rightarrow> ref \<Rightarrow> 'k gmethod list" where
  "DataOffer_requests E i =
     [on_word (\<lambda>serial. on_opt_string (\<lambda>mimeType. on_end (err_only (DataOffer_Accept E i serial mimeType)))),
      on_string (\<lambda>mimeType. on_fd (\<lambda>fd. on_end (err_only (DataOffer_Receive E i mimeType fd)))),
      on_end (err_only (DataOffer_Destroy E i)),
      on_end (err_only (DataOffer_Finish E i)),
      on_word (\<lambda>dndActions. on_word (\<lambda>preferredAction. on_end (err_only (DataOffer_SetActions E i dndActions preferredAction))))]"

lemma DataOffer_requests_emitted:
  assumes "scanning wayland_protocol ''wl'' c"
  shows "emits_all E c i wl_data_offer (DataOffer_requests E i)"
proof -
  note r = wl_data_offer_sel
  note m = DataOffer_Accept_emitted [OF assms]
    DataOffer_Receive_emitted [OF assms]
    DataOffer_Destroy_emitted [OF assms]
    DataOffer_Finish_emitted [OF assms]
    DataOffer_SetActions_emitted [OF assms]
  show ?thesis
    by (auto simp: emits_all_def DataOffer_requests_def r kinds_eval on_defs m [unfolded numeral_nat])
qed

lemma DataOffer_methods_emitted:
  assumes "scanning wayland_protocol ''wl'' c"
  shows "emitted_methods E c wl_data_offer = generated DataOffer"
  unfolding generated_def iface.case
  by (rule emitted_methodsI) (simp_all add: wl_data_offer_sel event_eval scanningD [OF assms] local_interface [OF assms] DataOffer_Dispatch_def DataOffer_HasFD_def del: ret_run)

section \<open>wl_data_source\<close>

lemmas wl_data_source_sel = arg_cong [where f = i_Requests, OF wl_data_source_def, unfolded mk_interface_sel]
  arg_cong [where f = i_Events, OF wl_data_source_def, unfolded mk_interface_sel] arg_cong [where f = i_Name, OF wl_data_source_def, unfolded mk_interface_sel]

lemma DataSource_Offer_emitted:
  assumes "scanning wayland_protocol ''wl'' c"
  shows "call_method E c i wl_data_source 0 [GString mimeType] = err_only (DataSource_Offer E i mimeType)"
  by (subst call_eval) (simp_all add: wl_data_source_sel request_eval scanningD [OF assms] local_interface [OF assms] result_defs DataSource_Offer_def del: ret_run)

lemma DataSource_Destroy_emitted:
  assumes "scanning wayland_protocol ''wl'' c"
  shows "call_method E c i wl_data_source 1 [] = err_only (DataSource_Destroy E i)"
  by (subst call_eval) (simp_all add: wl_data_source_sel request_eval scanningD [OF assms] local_interface [OF assms] result_defs DataSource_Destroy_def del: ret_run)

lemma DataSource_SetActions_emitted:
  assumes "scanning wayland_protocol ''wl'' c"
  shows "call_method E c i wl_data_source 2 [GWord dndActions] = err_only (DataSource_SetActions E i dndActions)"
  by (subst call_eval) (simp_all add: wl_data_source_sel request_eval scanningD [OF assms] local_interface [OF assms] result_defs DataSource_SetActions_def del: ret_run)

definition DataSource_requests :: "'k env \<Rightarrow> ref \<Rightarrow> 'k gmethod list" where
  "DataSource_requests E i =
     [on_string (\<lambda>mimeType. on_end (err_only (DataSource_Offer E i mimeType))),
      on_end (err_only (DataSource_Destroy E i)),
      on_word (\<lambda>dndActions. on_end (err_only (DataSource_SetActions E i dndActions)))]"

lemma DataSource_requests_emitted:
  assumes "scanning wayland_protocol ''wl'' c"
  shows "emits_all E c i wl_data_source (DataSource_requests E i)"
proof -
  note r = wl_data_source_sel
  note m = DataSource_Offer_emitted [OF assms]
    DataSource_Destroy_emitted [OF assms]
    DataSource_SetActions_emitted [OF assms]
  show ?thesis
    by (auto simp: emits_all_def DataSource_requests_def r kinds_eval on_defs m [unfolded numeral_nat])
qed

lemma DataSource_methods_emitted:
  assumes "scanning wayland_protocol ''wl'' c"
  shows "emitted_methods E c wl_data_source = generated DataSource"
  unfolding generated_def iface.case
  by (rule emitted_methodsI) (simp_all add: wl_data_source_sel event_eval scanningD [OF assms] local_interface [OF assms] DataSource_Dispatch_def DataSource_HasFD_def del: ret_run)

section \<open>wl_data_device\<close>

lemmas wl_data_device_sel = arg_cong [where f = i_Requests, OF wl_data_device_def, unfolded mk_interface_sel]
  arg_cong [where f = i_Events, OF wl_data_device_def, unfolded mk_interface_sel] arg_cong [where f = i_Name, OF wl_data_device_def, unfolded mk_interface_sel]

lemma DataDevice_StartDrag_emitted:
  assumes "scanning wayland_protocol ''wl'' c"
  shows "call_method E c i wl_data_device 0 [GObj source, GObj origin, GObj icon, GWord serial] = err_only (DataDevice_StartDrag E i source origin icon serial)"
  by (subst call_eval) (simp_all add: wl_data_device_sel request_eval scanningD [OF assms] local_interface [OF assms] result_defs DataDevice_StartDrag_def del: ret_run)

lemma DataDevice_SetSelection_emitted:
  assumes "scanning wayland_protocol ''wl'' c"
  shows "call_method E c i wl_data_device 1 [GObj source, GWord serial] = err_only (DataDevice_SetSelection E i source serial)"
  by (subst call_eval) (simp_all add: wl_data_device_sel request_eval scanningD [OF assms] local_interface [OF assms] result_defs DataDevice_SetSelection_def del: ret_run)

lemma DataDevice_Release_emitted:
  assumes "scanning wayland_protocol ''wl'' c"
  shows "call_method E c i wl_data_device 2 [] = err_only (DataDevice_Release E i)"
  by (subst call_eval) (simp_all add: wl_data_device_sel request_eval scanningD [OF assms] local_interface [OF assms] result_defs DataDevice_Release_def del: ret_run)

definition DataDevice_requests :: "'k env \<Rightarrow> ref \<Rightarrow> 'k gmethod list" where
  "DataDevice_requests E i =
     [on_obj (\<lambda>source. on_obj (\<lambda>origin. on_obj (\<lambda>icon. on_word (\<lambda>serial. on_end (err_only (DataDevice_StartDrag E i source origin icon serial)))))),
      on_obj (\<lambda>source. on_word (\<lambda>serial. on_end (err_only (DataDevice_SetSelection E i source serial)))),
      on_end (err_only (DataDevice_Release E i))]"

lemma DataDevice_requests_emitted:
  assumes "scanning wayland_protocol ''wl'' c"
  shows "emits_all E c i wl_data_device (DataDevice_requests E i)"
proof -
  note r = wl_data_device_sel
  note m = DataDevice_StartDrag_emitted [OF assms]
    DataDevice_SetSelection_emitted [OF assms]
    DataDevice_Release_emitted [OF assms]
  show ?thesis
    by (auto simp: emits_all_def DataDevice_requests_def r kinds_eval on_defs m [unfolded numeral_nat])
qed

lemma DataDevice_methods_emitted:
  assumes "scanning wayland_protocol ''wl'' c"
  shows "emitted_methods E c wl_data_device = generated DataDevice"
  unfolding generated_def iface.case
  by (rule emitted_methods_absorbI) (simp_all add: wl_data_device_sel event_eval scanningD [OF assms] local_interface [OF assms] DataDevice_Dispatch_def DataDevice_HasFD_def DataDevice_AbsorbNewIDs_def new_eval del: ret_run)

section \<open>wl_data_device_manager\<close>

lemmas wl_data_device_manager_sel = arg_cong [where f = i_Requests, OF wl_data_device_manager_def, unfolded mk_interface_sel]
  arg_cong [where f = i_Events, OF wl_data_device_manager_def, unfolded mk_interface_sel] arg_cong [where f = i_Name, OF wl_data_device_manager_def, unfolded mk_interface_sel]

lemma DataDeviceManager_CreateDataSource_emitted:
  assumes "scanning wayland_protocol ''wl'' c"
  shows "call_method E c i wl_data_device_manager 0 [] = ref_err (DataDeviceManager_CreateDataSource E i)"
  by (subst call_eval) (simp_all add: wl_data_device_manager_sel request_eval scanningD [OF assms] local_interface [OF assms] result_defs DataDeviceManager_CreateDataSource_def del: ret_run)

lemma DataDeviceManager_GetDataDevice_emitted:
  assumes "scanning wayland_protocol ''wl'' c"
  shows "call_method E c i wl_data_device_manager 1 [GObj seat] = ref_err (DataDeviceManager_GetDataDevice E i seat)"
  by (subst call_eval) (simp_all add: wl_data_device_manager_sel request_eval scanningD [OF assms] local_interface [OF assms] result_defs DataDeviceManager_GetDataDevice_def del: ret_run)

definition DataDeviceManager_requests :: "'k env \<Rightarrow> ref \<Rightarrow> 'k gmethod list" where
  "DataDeviceManager_requests E i =
     [on_end (ref_err (DataDeviceManager_CreateDataSource E i)),
      on_obj (\<lambda>seat. on_end (ref_err (DataDeviceManager_GetDataDevice E i seat)))]"

lemma DataDeviceManager_requests_emitted:
  assumes "scanning wayland_protocol ''wl'' c"
  shows "emits_all E c i wl_data_device_manager (DataDeviceManager_requests E i)"
proof -
  note r = wl_data_device_manager_sel
  note m = DataDeviceManager_CreateDataSource_emitted [OF assms]
    DataDeviceManager_GetDataDevice_emitted [OF assms]
  show ?thesis
    by (auto simp: emits_all_def DataDeviceManager_requests_def r kinds_eval on_defs m [unfolded numeral_nat])
qed

lemma DataDeviceManager_methods_emitted: "emitted_methods E c wl_data_device_manager = generated DataDeviceManager"
  by (simp add: generated_def emitted_no_methods wl_data_device_manager_def mk_defs)

section \<open>wl_shell\<close>

lemmas wl_shell_sel = arg_cong [where f = i_Requests, OF wl_shell_def, unfolded mk_interface_sel]
  arg_cong [where f = i_Events, OF wl_shell_def, unfolded mk_interface_sel] arg_cong [where f = i_Name, OF wl_shell_def, unfolded mk_interface_sel]

lemma Shell_GetShellSurface_emitted:
  assumes "scanning wayland_protocol ''wl'' c"
  shows "call_method E c i wl_shell 0 [GObj surface] = ref_err (Shell_GetShellSurface E i surface)"
  by (subst call_eval) (simp_all add: wl_shell_sel request_eval scanningD [OF assms] local_interface [OF assms] result_defs Shell_GetShellSurface_def del: ret_run)

definition Shell_requests :: "'k env \<Rightarrow> ref \<Rightarrow> 'k gmethod list" where
  "Shell_requests E i =
     [on_obj (\<lambda>surface. on_end (ref_err (Shell_GetShellSurface E i surface)))]"

lemma Shell_requests_emitted:
  assumes "scanning wayland_protocol ''wl'' c"
  shows "emits_all E c i wl_shell (Shell_requests E i)"
proof -
  note r = wl_shell_sel
  note m = Shell_GetShellSurface_emitted [OF assms]
  show ?thesis
    by (auto simp: emits_all_def Shell_requests_def r kinds_eval on_defs m [unfolded numeral_nat])
qed

lemma Shell_methods_emitted: "emitted_methods E c wl_shell = generated Shell"
  by (simp add: generated_def emitted_no_methods wl_shell_def mk_defs)

section \<open>wl_shell_surface\<close>

lemmas wl_shell_surface_sel = arg_cong [where f = i_Requests, OF wl_shell_surface_def, unfolded mk_interface_sel]
  arg_cong [where f = i_Events, OF wl_shell_surface_def, unfolded mk_interface_sel] arg_cong [where f = i_Name, OF wl_shell_surface_def, unfolded mk_interface_sel]

lemma ShellSurface_Pong_emitted:
  assumes "scanning wayland_protocol ''wl'' c"
  shows "call_method E c i wl_shell_surface 0 [GWord serial] = err_only (ShellSurface_Pong E i serial)"
  by (subst call_eval) (simp_all add: wl_shell_surface_sel request_eval scanningD [OF assms] local_interface [OF assms] result_defs ShellSurface_Pong_def del: ret_run)

lemma ShellSurface_Move_emitted:
  assumes "scanning wayland_protocol ''wl'' c"
  shows "call_method E c i wl_shell_surface 1 [GObj seat, GWord serial] = err_only (ShellSurface_Move E i seat serial)"
  by (subst call_eval) (simp_all add: wl_shell_surface_sel request_eval scanningD [OF assms] local_interface [OF assms] result_defs ShellSurface_Move_def del: ret_run)

lemma ShellSurface_Resize_emitted:
  assumes "scanning wayland_protocol ''wl'' c"
  shows "call_method E c i wl_shell_surface 2 [GObj seat, GWord serial, GWord edges] = err_only (ShellSurface_Resize E i seat serial edges)"
  by (subst call_eval) (simp_all add: wl_shell_surface_sel request_eval scanningD [OF assms] local_interface [OF assms] result_defs ShellSurface_Resize_def del: ret_run)

lemma ShellSurface_SetToplevel_emitted:
  assumes "scanning wayland_protocol ''wl'' c"
  shows "call_method E c i wl_shell_surface 3 [] = err_only (ShellSurface_SetToplevel E i)"
  by (subst call_eval) (simp_all add: wl_shell_surface_sel request_eval scanningD [OF assms] local_interface [OF assms] result_defs ShellSurface_SetToplevel_def del: ret_run)

lemma ShellSurface_SetTransient_emitted:
  assumes "scanning wayland_protocol ''wl'' c"
  shows "call_method E c i wl_shell_surface 4 [GObj parent, GWord x, GWord y, GWord flags0] = err_only (ShellSurface_SetTransient E i parent x y flags0)"
  by (subst call_eval) (simp_all add: wl_shell_surface_sel request_eval scanningD [OF assms] local_interface [OF assms] result_defs ShellSurface_SetTransient_def del: ret_run)

lemma ShellSurface_SetFullscreen_emitted:
  assumes "scanning wayland_protocol ''wl'' c"
  shows "call_method E c i wl_shell_surface 5 [GWord method, GWord framerate, GObj output] = err_only (ShellSurface_SetFullscreen E i method framerate output)"
  by (subst call_eval) (simp_all add: wl_shell_surface_sel request_eval scanningD [OF assms] local_interface [OF assms] result_defs ShellSurface_SetFullscreen_def del: ret_run)

lemma ShellSurface_SetPopup_emitted:
  assumes "scanning wayland_protocol ''wl'' c"
  shows "call_method E c i wl_shell_surface 6 [GObj seat, GWord serial, GObj parent, GWord x, GWord y, GWord flags0] = err_only (ShellSurface_SetPopup E i seat serial parent x y flags0)"
  by (subst call_eval) (simp_all add: wl_shell_surface_sel request_eval scanningD [OF assms] local_interface [OF assms] result_defs ShellSurface_SetPopup_def del: ret_run)

lemma ShellSurface_SetMaximized_emitted:
  assumes "scanning wayland_protocol ''wl'' c"
  shows "call_method E c i wl_shell_surface 7 [GObj output] = err_only (ShellSurface_SetMaximized E i output)"
  by (subst call_eval) (simp_all add: wl_shell_surface_sel request_eval scanningD [OF assms] local_interface [OF assms] result_defs ShellSurface_SetMaximized_def del: ret_run)

lemma ShellSurface_SetTitle_emitted:
  assumes "scanning wayland_protocol ''wl'' c"
  shows "call_method E c i wl_shell_surface 8 [GString title] = err_only (ShellSurface_SetTitle E i title)"
  by (subst call_eval) (simp_all add: wl_shell_surface_sel request_eval scanningD [OF assms] local_interface [OF assms] result_defs ShellSurface_SetTitle_def del: ret_run)

lemma ShellSurface_SetClass_emitted:
  assumes "scanning wayland_protocol ''wl'' c"
  shows "call_method E c i wl_shell_surface 9 [GString class] = err_only (ShellSurface_SetClass E i class)"
  by (subst call_eval) (simp_all add: wl_shell_surface_sel request_eval scanningD [OF assms] local_interface [OF assms] result_defs ShellSurface_SetClass_def del: ret_run)

definition ShellSurface_requests :: "'k env \<Rightarrow> ref \<Rightarrow> 'k gmethod list" where
  "ShellSurface_requests E i =
     [on_word (\<lambda>serial. on_end (err_only (ShellSurface_Pong E i serial))),
      on_obj (\<lambda>seat. on_word (\<lambda>serial. on_end (err_only (ShellSurface_Move E i seat serial)))),
      on_obj (\<lambda>seat. on_word (\<lambda>serial. on_word (\<lambda>edges. on_end (err_only (ShellSurface_Resize E i seat serial edges))))),
      on_end (err_only (ShellSurface_SetToplevel E i)),
      on_obj (\<lambda>parent. on_word (\<lambda>x. on_word (\<lambda>y. on_word (\<lambda>flags0. on_end (err_only (ShellSurface_SetTransient E i parent x y flags0)))))),
      on_word (\<lambda>method. on_word (\<lambda>framerate. on_obj (\<lambda>output. on_end (err_only (ShellSurface_SetFullscreen E i method framerate output))))),
      on_obj (\<lambda>seat. on_word (\<lambda>serial. on_obj (\<lambda>parent. on_word (\<lambda>x. on_word (\<lambda>y. on_word (\<lambda>flags0. on_end (err_only (ShellSurface_SetPopup E i seat serial parent x y flags0)))))))),
      on_obj (\<lambda>output. on_end (err_only (ShellSurface_SetMaximized E i output))),
      on_string (\<lambda>title. on_end (err_only (ShellSurface_SetTitle E i title))),
      on_string (\<lambda>class. on_end (err_only (ShellSurface_SetClass E i class)))]"

lemma ShellSurface_requests_emitted:
  assumes "scanning wayland_protocol ''wl'' c"
  shows "emits_all E c i wl_shell_surface (ShellSurface_requests E i)"
proof -
  note r = wl_shell_surface_sel
  note m = ShellSurface_Pong_emitted [OF assms]
    ShellSurface_Move_emitted [OF assms]
    ShellSurface_Resize_emitted [OF assms]
    ShellSurface_SetToplevel_emitted [OF assms]
    ShellSurface_SetTransient_emitted [OF assms]
    ShellSurface_SetFullscreen_emitted [OF assms]
    ShellSurface_SetPopup_emitted [OF assms]
    ShellSurface_SetMaximized_emitted [OF assms]
    ShellSurface_SetTitle_emitted [OF assms]
    ShellSurface_SetClass_emitted [OF assms]
  show ?thesis
    by (auto simp: emits_all_def ShellSurface_requests_def r kinds_eval on_defs m [unfolded numeral_nat])
qed

lemma ShellSurface_methods_emitted:
  assumes "scanning wayland_protocol ''wl'' c"
  shows "emitted_methods E c wl_shell_surface = generated ShellSurface"
  unfolding generated_def iface.case
  by (rule emitted_methodsI) (simp_all add: wl_shell_surface_sel event_eval scanningD [OF assms] local_interface [OF assms] ShellSurface_Dispatch_def ShellSurface_HasFD_def del: ret_run)

end
