(* ===== verification/Valid_Surface.thy ===== *)
theory Valid_Surface
  imports Scanner_Methods
begin

text \<open>
  The interfaces of \<open>Bind_Surface\<close>: the requests, dispatchers, descriptor queries and absorbers that the scanner emits
  for their descriptions are those of the checked-in bindings.
\<close>

section \<open>wl_surface\<close>

lemmas wl_surface_sel = arg_cong [where f = i_Requests, OF wl_surface_def, unfolded mk_interface_sel]
  arg_cong [where f = i_Events, OF wl_surface_def, unfolded mk_interface_sel] arg_cong [where f = i_Name, OF wl_surface_def, unfolded mk_interface_sel]

lemma Surface_Destroy_emitted:
  assumes "scanning wayland_protocol ''wl'' c"
  shows "call_method E c i wl_surface 0 [] = err_only (Surface_Destroy E i)"
  by (subst call_eval) (simp_all add: wl_surface_sel request_eval scanningD [OF assms] local_interface [OF assms] result_defs Surface_Destroy_def del: ret_run)

lemma Surface_Attach_emitted:
  assumes "scanning wayland_protocol ''wl'' c"
  shows "call_method E c i wl_surface 1 [GObj buffer, GWord x, GWord y] = err_only (Surface_Attach E i buffer x y)"
  by (subst call_eval) (simp_all add: wl_surface_sel request_eval scanningD [OF assms] local_interface [OF assms] result_defs Surface_Attach_def del: ret_run)

lemma Surface_Damage_emitted:
  assumes "scanning wayland_protocol ''wl'' c"
  shows "call_method E c i wl_surface 2 [GWord x, GWord y, GWord width, GWord height] = err_only (Surface_Damage E i x y width height)"
  by (subst call_eval) (simp_all add: wl_surface_sel request_eval scanningD [OF assms] local_interface [OF assms] result_defs Surface_Damage_def del: ret_run)

lemma Surface_Frame_emitted:
  assumes "scanning wayland_protocol ''wl'' c"
  shows "call_method E c i wl_surface 3 [] = ref_err (Surface_Frame E i)"
  by (subst call_eval) (simp_all add: wl_surface_sel request_eval scanningD [OF assms] local_interface [OF assms] result_defs Surface_Frame_def del: ret_run)

lemma Surface_SetOpaqueRegion_emitted:
  assumes "scanning wayland_protocol ''wl'' c"
  shows "call_method E c i wl_surface 4 [GObj region] = err_only (Surface_SetOpaqueRegion E i region)"
  by (subst call_eval) (simp_all add: wl_surface_sel request_eval scanningD [OF assms] local_interface [OF assms] result_defs Surface_SetOpaqueRegion_def del: ret_run)

lemma Surface_SetInputRegion_emitted:
  assumes "scanning wayland_protocol ''wl'' c"
  shows "call_method E c i wl_surface 5 [GObj region] = err_only (Surface_SetInputRegion E i region)"
  by (subst call_eval) (simp_all add: wl_surface_sel request_eval scanningD [OF assms] local_interface [OF assms] result_defs Surface_SetInputRegion_def del: ret_run)

lemma Surface_Commit_emitted:
  assumes "scanning wayland_protocol ''wl'' c"
  shows "call_method E c i wl_surface 6 [] = err_only (Surface_Commit E i)"
  by (subst call_eval) (simp_all add: wl_surface_sel request_eval scanningD [OF assms] local_interface [OF assms] result_defs Surface_Commit_def del: ret_run)

lemma Surface_SetBufferTransform_emitted:
  assumes "scanning wayland_protocol ''wl'' c"
  shows "call_method E c i wl_surface 7 [GWord transform] = err_only (Surface_SetBufferTransform E i transform)"
  by (subst call_eval) (simp_all add: wl_surface_sel request_eval scanningD [OF assms] local_interface [OF assms] result_defs Surface_SetBufferTransform_def del: ret_run)

lemma Surface_SetBufferScale_emitted:
  assumes "scanning wayland_protocol ''wl'' c"
  shows "call_method E c i wl_surface 8 [GWord scale] = err_only (Surface_SetBufferScale E i scale)"
  by (subst call_eval) (simp_all add: wl_surface_sel request_eval scanningD [OF assms] local_interface [OF assms] result_defs Surface_SetBufferScale_def del: ret_run)

lemma Surface_DamageBuffer_emitted:
  assumes "scanning wayland_protocol ''wl'' c"
  shows "call_method E c i wl_surface 9 [GWord x, GWord y, GWord width, GWord height] = err_only (Surface_DamageBuffer E i x y width height)"
  by (subst call_eval) (simp_all add: wl_surface_sel request_eval scanningD [OF assms] local_interface [OF assms] result_defs Surface_DamageBuffer_def del: ret_run)

lemma Surface_Offset_emitted:
  assumes "scanning wayland_protocol ''wl'' c"
  shows "call_method E c i wl_surface 10 [GWord x, GWord y] = err_only (Surface_Offset E i x y)"
  by (subst call_eval) (simp_all add: wl_surface_sel request_eval scanningD [OF assms] local_interface [OF assms] result_defs Surface_Offset_def del: ret_run)

definition Surface_requests :: "'k env \<Rightarrow> ref \<Rightarrow> 'k gmethod list" where
  "Surface_requests E i =
     [on_end (err_only (Surface_Destroy E i)),
      on_obj (\<lambda>buffer. on_word (\<lambda>x. on_word (\<lambda>y. on_end (err_only (Surface_Attach E i buffer x y))))),
      on_word (\<lambda>x. on_word (\<lambda>y. on_word (\<lambda>width. on_word (\<lambda>height. on_end (err_only (Surface_Damage E i x y width height)))))),
      on_end (ref_err (Surface_Frame E i)),
      on_obj (\<lambda>region. on_end (err_only (Surface_SetOpaqueRegion E i region))),
      on_obj (\<lambda>region. on_end (err_only (Surface_SetInputRegion E i region))),
      on_end (err_only (Surface_Commit E i)),
      on_word (\<lambda>transform. on_end (err_only (Surface_SetBufferTransform E i transform))),
      on_word (\<lambda>scale. on_end (err_only (Surface_SetBufferScale E i scale))),
      on_word (\<lambda>x. on_word (\<lambda>y. on_word (\<lambda>width. on_word (\<lambda>height. on_end (err_only (Surface_DamageBuffer E i x y width height)))))),
      on_word (\<lambda>x. on_word (\<lambda>y. on_end (err_only (Surface_Offset E i x y))))]"

lemma Surface_requests_emitted:
  assumes "scanning wayland_protocol ''wl'' c"
  shows "emits_all E c i wl_surface (Surface_requests E i)"
proof -
  note r = wl_surface_sel
  note m = Surface_Destroy_emitted [OF assms]
    Surface_Attach_emitted [OF assms]
    Surface_Damage_emitted [OF assms]
    Surface_Frame_emitted [OF assms]
    Surface_SetOpaqueRegion_emitted [OF assms]
    Surface_SetInputRegion_emitted [OF assms]
    Surface_Commit_emitted [OF assms]
    Surface_SetBufferTransform_emitted [OF assms]
    Surface_SetBufferScale_emitted [OF assms]
    Surface_DamageBuffer_emitted [OF assms]
    Surface_Offset_emitted [OF assms]
  show ?thesis
    by (auto simp: emits_all_def Surface_requests_def r kinds_eval on_defs m [unfolded numeral_nat])
qed

lemma Surface_methods_emitted:
  assumes "scanning wayland_protocol ''wl'' c"
  shows "emitted_methods E c wl_surface = generated Surface"
  unfolding generated_def iface.case
  by (rule emitted_methodsI) (simp_all add: wl_surface_sel event_eval scanningD [OF assms] local_interface [OF assms] Surface_Dispatch_def Surface_HasFD_def del: ret_run)

section \<open>wl_region\<close>

lemmas wl_region_sel = arg_cong [where f = i_Requests, OF wl_region_def, unfolded mk_interface_sel]
  arg_cong [where f = i_Events, OF wl_region_def, unfolded mk_interface_sel] arg_cong [where f = i_Name, OF wl_region_def, unfolded mk_interface_sel]

lemma Region_Destroy_emitted:
  assumes "scanning wayland_protocol ''wl'' c"
  shows "call_method E c i wl_region 0 [] = err_only (Region_Destroy E i)"
  by (subst call_eval) (simp_all add: wl_region_sel request_eval scanningD [OF assms] local_interface [OF assms] result_defs Region_Destroy_def del: ret_run)

lemma Region_Add_emitted:
  assumes "scanning wayland_protocol ''wl'' c"
  shows "call_method E c i wl_region 1 [GWord x, GWord y, GWord width, GWord height] = err_only (Region_Add E i x y width height)"
  by (subst call_eval) (simp_all add: wl_region_sel request_eval scanningD [OF assms] local_interface [OF assms] result_defs Region_Add_def del: ret_run)

lemma Region_Subtract_emitted:
  assumes "scanning wayland_protocol ''wl'' c"
  shows "call_method E c i wl_region 2 [GWord x, GWord y, GWord width, GWord height] = err_only (Region_Subtract E i x y width height)"
  by (subst call_eval) (simp_all add: wl_region_sel request_eval scanningD [OF assms] local_interface [OF assms] result_defs Region_Subtract_def del: ret_run)

definition Region_requests :: "'k env \<Rightarrow> ref \<Rightarrow> 'k gmethod list" where
  "Region_requests E i =
     [on_end (err_only (Region_Destroy E i)),
      on_word (\<lambda>x. on_word (\<lambda>y. on_word (\<lambda>width. on_word (\<lambda>height. on_end (err_only (Region_Add E i x y width height)))))),
      on_word (\<lambda>x. on_word (\<lambda>y. on_word (\<lambda>width. on_word (\<lambda>height. on_end (err_only (Region_Subtract E i x y width height))))))]"

lemma Region_requests_emitted:
  assumes "scanning wayland_protocol ''wl'' c"
  shows "emits_all E c i wl_region (Region_requests E i)"
proof -
  note r = wl_region_sel
  note m = Region_Destroy_emitted [OF assms]
    Region_Add_emitted [OF assms]
    Region_Subtract_emitted [OF assms]
  show ?thesis
    by (auto simp: emits_all_def Region_requests_def r kinds_eval on_defs m [unfolded numeral_nat])
qed

lemma Region_methods_emitted: "emitted_methods E c wl_region = generated Region"
  by (simp add: generated_def emitted_no_methods wl_region_def mk_defs)

section \<open>wl_subcompositor\<close>

lemmas wl_subcompositor_sel = arg_cong [where f = i_Requests, OF wl_subcompositor_def, unfolded mk_interface_sel]
  arg_cong [where f = i_Events, OF wl_subcompositor_def, unfolded mk_interface_sel] arg_cong [where f = i_Name, OF wl_subcompositor_def, unfolded mk_interface_sel]

lemma Subcompositor_Destroy_emitted:
  assumes "scanning wayland_protocol ''wl'' c"
  shows "call_method E c i wl_subcompositor 0 [] = err_only (Subcompositor_Destroy E i)"
  by (subst call_eval) (simp_all add: wl_subcompositor_sel request_eval scanningD [OF assms] local_interface [OF assms] result_defs Subcompositor_Destroy_def del: ret_run)

lemma Subcompositor_GetSubsurface_emitted:
  assumes "scanning wayland_protocol ''wl'' c"
  shows "call_method E c i wl_subcompositor 1 [GObj surface, GObj parent] = ref_err (Subcompositor_GetSubsurface E i surface parent)"
  by (subst call_eval) (simp_all add: wl_subcompositor_sel request_eval scanningD [OF assms] local_interface [OF assms] result_defs Subcompositor_GetSubsurface_def del: ret_run)

definition Subcompositor_requests :: "'k env \<Rightarrow> ref \<Rightarrow> 'k gmethod list" where
  "Subcompositor_requests E i =
     [on_end (err_only (Subcompositor_Destroy E i)),
      on_obj (\<lambda>surface. on_obj (\<lambda>parent. on_end (ref_err (Subcompositor_GetSubsurface E i surface parent))))]"

lemma Subcompositor_requests_emitted:
  assumes "scanning wayland_protocol ''wl'' c"
  shows "emits_all E c i wl_subcompositor (Subcompositor_requests E i)"
proof -
  note r = wl_subcompositor_sel
  note m = Subcompositor_Destroy_emitted [OF assms]
    Subcompositor_GetSubsurface_emitted [OF assms]
  show ?thesis
    by (auto simp: emits_all_def Subcompositor_requests_def r kinds_eval on_defs m [unfolded numeral_nat])
qed

lemma Subcompositor_methods_emitted: "emitted_methods E c wl_subcompositor = generated Subcompositor"
  by (simp add: generated_def emitted_no_methods wl_subcompositor_def mk_defs)

section \<open>wl_subsurface\<close>

lemmas wl_subsurface_sel = arg_cong [where f = i_Requests, OF wl_subsurface_def, unfolded mk_interface_sel]
  arg_cong [where f = i_Events, OF wl_subsurface_def, unfolded mk_interface_sel] arg_cong [where f = i_Name, OF wl_subsurface_def, unfolded mk_interface_sel]

lemma Subsurface_Destroy_emitted:
  assumes "scanning wayland_protocol ''wl'' c"
  shows "call_method E c i wl_subsurface 0 [] = err_only (Subsurface_Destroy E i)"
  by (subst call_eval) (simp_all add: wl_subsurface_sel request_eval scanningD [OF assms] local_interface [OF assms] result_defs Subsurface_Destroy_def del: ret_run)

lemma Subsurface_SetPosition_emitted:
  assumes "scanning wayland_protocol ''wl'' c"
  shows "call_method E c i wl_subsurface 1 [GWord x, GWord y] = err_only (Subsurface_SetPosition E i x y)"
  by (subst call_eval) (simp_all add: wl_subsurface_sel request_eval scanningD [OF assms] local_interface [OF assms] result_defs Subsurface_SetPosition_def del: ret_run)

lemma Subsurface_PlaceAbove_emitted:
  assumes "scanning wayland_protocol ''wl'' c"
  shows "call_method E c i wl_subsurface 2 [GObj sibling] = err_only (Subsurface_PlaceAbove E i sibling)"
  by (subst call_eval) (simp_all add: wl_subsurface_sel request_eval scanningD [OF assms] local_interface [OF assms] result_defs Subsurface_PlaceAbove_def del: ret_run)

lemma Subsurface_PlaceBelow_emitted:
  assumes "scanning wayland_protocol ''wl'' c"
  shows "call_method E c i wl_subsurface 3 [GObj sibling] = err_only (Subsurface_PlaceBelow E i sibling)"
  by (subst call_eval) (simp_all add: wl_subsurface_sel request_eval scanningD [OF assms] local_interface [OF assms] result_defs Subsurface_PlaceBelow_def del: ret_run)

lemma Subsurface_SetSync_emitted:
  assumes "scanning wayland_protocol ''wl'' c"
  shows "call_method E c i wl_subsurface 4 [] = err_only (Subsurface_SetSync E i)"
  by (subst call_eval) (simp_all add: wl_subsurface_sel request_eval scanningD [OF assms] local_interface [OF assms] result_defs Subsurface_SetSync_def del: ret_run)

lemma Subsurface_SetDesync_emitted:
  assumes "scanning wayland_protocol ''wl'' c"
  shows "call_method E c i wl_subsurface 5 [] = err_only (Subsurface_SetDesync E i)"
  by (subst call_eval) (simp_all add: wl_subsurface_sel request_eval scanningD [OF assms] local_interface [OF assms] result_defs Subsurface_SetDesync_def del: ret_run)

definition Subsurface_requests :: "'k env \<Rightarrow> ref \<Rightarrow> 'k gmethod list" where
  "Subsurface_requests E i =
     [on_end (err_only (Subsurface_Destroy E i)),
      on_word (\<lambda>x. on_word (\<lambda>y. on_end (err_only (Subsurface_SetPosition E i x y)))),
      on_obj (\<lambda>sibling. on_end (err_only (Subsurface_PlaceAbove E i sibling))),
      on_obj (\<lambda>sibling. on_end (err_only (Subsurface_PlaceBelow E i sibling))),
      on_end (err_only (Subsurface_SetSync E i)),
      on_end (err_only (Subsurface_SetDesync E i))]"

lemma Subsurface_requests_emitted:
  assumes "scanning wayland_protocol ''wl'' c"
  shows "emits_all E c i wl_subsurface (Subsurface_requests E i)"
proof -
  note r = wl_subsurface_sel
  note m = Subsurface_Destroy_emitted [OF assms]
    Subsurface_SetPosition_emitted [OF assms]
    Subsurface_PlaceAbove_emitted [OF assms]
    Subsurface_PlaceBelow_emitted [OF assms]
    Subsurface_SetSync_emitted [OF assms]
    Subsurface_SetDesync_emitted [OF assms]
  show ?thesis
    by (auto simp: emits_all_def Subsurface_requests_def r kinds_eval on_defs m [unfolded numeral_nat])
qed

lemma Subsurface_methods_emitted: "emitted_methods E c wl_subsurface = generated Subsurface"
  by (simp add: generated_def emitted_no_methods wl_subsurface_def mk_defs)

section \<open>wl_output\<close>

lemmas wl_output_sel = arg_cong [where f = i_Requests, OF wl_output_def, unfolded mk_interface_sel]
  arg_cong [where f = i_Events, OF wl_output_def, unfolded mk_interface_sel] arg_cong [where f = i_Name, OF wl_output_def, unfolded mk_interface_sel]

lemma Output_Release_emitted:
  assumes "scanning wayland_protocol ''wl'' c"
  shows "call_method E c i wl_output 0 [] = err_only (Output_Release E i)"
  by (subst call_eval) (simp_all add: wl_output_sel request_eval scanningD [OF assms] local_interface [OF assms] result_defs Output_Release_def del: ret_run)

definition Output_requests :: "'k env \<Rightarrow> ref \<Rightarrow> 'k gmethod list" where
  "Output_requests E i =
     [on_end (err_only (Output_Release E i))]"

lemma Output_requests_emitted:
  assumes "scanning wayland_protocol ''wl'' c"
  shows "emits_all E c i wl_output (Output_requests E i)"
proof -
  note r = wl_output_sel
  note m = Output_Release_emitted [OF assms]
  show ?thesis
    by (auto simp: emits_all_def Output_requests_def r kinds_eval on_defs m [unfolded numeral_nat])
qed

lemma Output_methods_emitted:
  assumes "scanning wayland_protocol ''wl'' c"
  shows "emitted_methods E c wl_output = generated Output"
  unfolding generated_def iface.case
  by (rule emitted_methodsI) (simp_all add: wl_output_sel event_eval scanningD [OF assms] local_interface [OF assms] Output_Dispatch_def Output_HasFD_def del: ret_run)

section \<open>wl_fixes\<close>

lemmas wl_fixes_sel = arg_cong [where f = i_Requests, OF wl_fixes_def, unfolded mk_interface_sel]
  arg_cong [where f = i_Events, OF wl_fixes_def, unfolded mk_interface_sel] arg_cong [where f = i_Name, OF wl_fixes_def, unfolded mk_interface_sel]

lemma Fixes_Destroy_emitted:
  assumes "scanning wayland_protocol ''wl'' c"
  shows "call_method E c i wl_fixes 0 [] = err_only (Fixes_Destroy E i)"
  by (subst call_eval) (simp_all add: wl_fixes_sel request_eval scanningD [OF assms] local_interface [OF assms] result_defs Fixes_Destroy_def del: ret_run)

lemma Fixes_DestroyRegistry_emitted:
  assumes "scanning wayland_protocol ''wl'' c"
  shows "call_method E c i wl_fixes 1 [GObj registry] = err_only (Fixes_DestroyRegistry E i registry)"
  by (subst call_eval) (simp_all add: wl_fixes_sel request_eval scanningD [OF assms] local_interface [OF assms] result_defs Fixes_DestroyRegistry_def del: ret_run)

definition Fixes_requests :: "'k env \<Rightarrow> ref \<Rightarrow> 'k gmethod list" where
  "Fixes_requests E i =
     [on_end (err_only (Fixes_Destroy E i)),
      on_obj (\<lambda>registry. on_end (err_only (Fixes_DestroyRegistry E i registry)))]"

lemma Fixes_requests_emitted:
  assumes "scanning wayland_protocol ''wl'' c"
  shows "emits_all E c i wl_fixes (Fixes_requests E i)"
proof -
  note r = wl_fixes_sel
  note m = Fixes_Destroy_emitted [OF assms]
    Fixes_DestroyRegistry_emitted [OF assms]
  show ?thesis
    by (auto simp: emits_all_def Fixes_requests_def r kinds_eval on_defs m [unfolded numeral_nat])
qed

lemma Fixes_methods_emitted: "emitted_methods E c wl_fixes = generated Fixes"
  by (simp add: generated_def emitted_no_methods wl_fixes_def mk_defs)

end
