(* ===== verification/Valid_Input.thy ===== *)
theory Valid_Input
  imports Scanner_Methods
begin

text \<open>
  The interfaces of \<open>Bind_Input\<close>: the requests, dispatchers, descriptor queries and absorbers that the scanner emits
  for their descriptions are those of the checked-in bindings.
\<close>

section \<open>wl_seat\<close>

lemmas wl_seat_sel = arg_cong [where f = i_Requests, OF wl_seat_def, unfolded mk_interface_sel]
  arg_cong [where f = i_Events, OF wl_seat_def, unfolded mk_interface_sel] arg_cong [where f = i_Name, OF wl_seat_def, unfolded mk_interface_sel]

lemma Seat_GetPointer_emitted:
  assumes "scanning wayland_protocol ''wl'' c"
  shows "call_method E c i wl_seat 0 [] = ref_err (Seat_GetPointer E i)"
  by (subst call_eval) (simp_all add: wl_seat_sel request_eval scanningD [OF assms] local_interface [OF assms] result_defs Seat_GetPointer_def del: ret_run)

lemma Seat_GetKeyboard_emitted:
  assumes "scanning wayland_protocol ''wl'' c"
  shows "call_method E c i wl_seat 1 [] = ref_err (Seat_GetKeyboard E i)"
  by (subst call_eval) (simp_all add: wl_seat_sel request_eval scanningD [OF assms] local_interface [OF assms] result_defs Seat_GetKeyboard_def del: ret_run)

lemma Seat_GetTouch_emitted:
  assumes "scanning wayland_protocol ''wl'' c"
  shows "call_method E c i wl_seat 2 [] = ref_err (Seat_GetTouch E i)"
  by (subst call_eval) (simp_all add: wl_seat_sel request_eval scanningD [OF assms] local_interface [OF assms] result_defs Seat_GetTouch_def del: ret_run)

lemma Seat_Release_emitted:
  assumes "scanning wayland_protocol ''wl'' c"
  shows "call_method E c i wl_seat 3 [] = err_only (Seat_Release E i)"
  by (subst call_eval) (simp_all add: wl_seat_sel request_eval scanningD [OF assms] local_interface [OF assms] result_defs Seat_Release_def del: ret_run)

definition Seat_requests :: "'k env \<Rightarrow> ref \<Rightarrow> 'k gmethod list" where
  "Seat_requests E i =
     [on_end (ref_err (Seat_GetPointer E i)),
      on_end (ref_err (Seat_GetKeyboard E i)),
      on_end (ref_err (Seat_GetTouch E i)),
      on_end (err_only (Seat_Release E i))]"

lemma Seat_requests_emitted:
  assumes "scanning wayland_protocol ''wl'' c"
  shows "emits_all E c i wl_seat (Seat_requests E i)"
proof -
  note r = wl_seat_sel
  note m = Seat_GetPointer_emitted [OF assms]
    Seat_GetKeyboard_emitted [OF assms]
    Seat_GetTouch_emitted [OF assms]
    Seat_Release_emitted [OF assms]
  show ?thesis
    by (auto simp: emits_all_def Seat_requests_def r kinds_eval on_defs m [unfolded numeral_nat])
qed

lemma Seat_methods_emitted:
  assumes "scanning wayland_protocol ''wl'' c"
  shows "emitted_methods E c wl_seat = generated Seat"
  unfolding generated_def iface.case
  by (rule emitted_methodsI) (simp_all add: wl_seat_sel event_eval scanningD [OF assms] local_interface [OF assms] Seat_Dispatch_def Seat_HasFD_def del: ret_run)

section \<open>wl_pointer\<close>

lemmas wl_pointer_sel = arg_cong [where f = i_Requests, OF wl_pointer_def, unfolded mk_interface_sel]
  arg_cong [where f = i_Events, OF wl_pointer_def, unfolded mk_interface_sel] arg_cong [where f = i_Name, OF wl_pointer_def, unfolded mk_interface_sel]

lemma Pointer_SetCursor_emitted:
  assumes "scanning wayland_protocol ''wl'' c"
  shows "call_method E c i wl_pointer 0 [GWord serial, GObj surface, GWord hotspotX, GWord hotspotY] = err_only (Pointer_SetCursor E i serial surface hotspotX hotspotY)"
  by (subst call_eval) (simp_all add: wl_pointer_sel request_eval scanningD [OF assms] local_interface [OF assms] result_defs Pointer_SetCursor_def del: ret_run)

lemma Pointer_Release_emitted:
  assumes "scanning wayland_protocol ''wl'' c"
  shows "call_method E c i wl_pointer 1 [] = err_only (Pointer_Release E i)"
  by (subst call_eval) (simp_all add: wl_pointer_sel request_eval scanningD [OF assms] local_interface [OF assms] result_defs Pointer_Release_def del: ret_run)

definition Pointer_requests :: "'k env \<Rightarrow> ref \<Rightarrow> 'k gmethod list" where
  "Pointer_requests E i =
     [on_word (\<lambda>serial. on_obj (\<lambda>surface. on_word (\<lambda>hotspotX. on_word (\<lambda>hotspotY. on_end (err_only (Pointer_SetCursor E i serial surface hotspotX hotspotY)))))),
      on_end (err_only (Pointer_Release E i))]"

lemma Pointer_requests_emitted:
  assumes "scanning wayland_protocol ''wl'' c"
  shows "emits_all E c i wl_pointer (Pointer_requests E i)"
proof -
  note r = wl_pointer_sel
  note m = Pointer_SetCursor_emitted [OF assms]
    Pointer_Release_emitted [OF assms]
  show ?thesis
    by (auto simp: emits_all_def Pointer_requests_def r kinds_eval on_defs m [unfolded numeral_nat])
qed

lemma Pointer_methods_emitted:
  assumes "scanning wayland_protocol ''wl'' c"
  shows "emitted_methods E c wl_pointer = generated Pointer"
  unfolding generated_def iface.case
  by (rule emitted_methodsI) (simp_all add: wl_pointer_sel event_eval scanningD [OF assms] local_interface [OF assms] Pointer_Dispatch_def Pointer_HasFD_def del: ret_run)

section \<open>wl_keyboard\<close>

lemmas wl_keyboard_sel = arg_cong [where f = i_Requests, OF wl_keyboard_def, unfolded mk_interface_sel]
  arg_cong [where f = i_Events, OF wl_keyboard_def, unfolded mk_interface_sel] arg_cong [where f = i_Name, OF wl_keyboard_def, unfolded mk_interface_sel]

lemma Keyboard_Release_emitted:
  assumes "scanning wayland_protocol ''wl'' c"
  shows "call_method E c i wl_keyboard 0 [] = err_only (Keyboard_Release E i)"
  by (subst call_eval) (simp_all add: wl_keyboard_sel request_eval scanningD [OF assms] local_interface [OF assms] result_defs Keyboard_Release_def del: ret_run)

definition Keyboard_requests :: "'k env \<Rightarrow> ref \<Rightarrow> 'k gmethod list" where
  "Keyboard_requests E i =
     [on_end (err_only (Keyboard_Release E i))]"

lemma Keyboard_requests_emitted:
  assumes "scanning wayland_protocol ''wl'' c"
  shows "emits_all E c i wl_keyboard (Keyboard_requests E i)"
proof -
  note r = wl_keyboard_sel
  note m = Keyboard_Release_emitted [OF assms]
  show ?thesis
    by (auto simp: emits_all_def Keyboard_requests_def r kinds_eval on_defs m [unfolded numeral_nat])
qed

lemma Keyboard_methods_emitted:
  assumes "scanning wayland_protocol ''wl'' c"
  shows "emitted_methods E c wl_keyboard = generated Keyboard"
  unfolding generated_def iface.case
  by (rule emitted_methodsI) (simp_all add: wl_keyboard_sel event_eval scanningD [OF assms] local_interface [OF assms] Keyboard_Dispatch_def Keyboard_HasFD_def del: ret_run)

section \<open>wl_touch\<close>

lemmas wl_touch_sel = arg_cong [where f = i_Requests, OF wl_touch_def, unfolded mk_interface_sel]
  arg_cong [where f = i_Events, OF wl_touch_def, unfolded mk_interface_sel] arg_cong [where f = i_Name, OF wl_touch_def, unfolded mk_interface_sel]

lemma Touch_Release_emitted:
  assumes "scanning wayland_protocol ''wl'' c"
  shows "call_method E c i wl_touch 0 [] = err_only (Touch_Release E i)"
  by (subst call_eval) (simp_all add: wl_touch_sel request_eval scanningD [OF assms] local_interface [OF assms] result_defs Touch_Release_def del: ret_run)

definition Touch_requests :: "'k env \<Rightarrow> ref \<Rightarrow> 'k gmethod list" where
  "Touch_requests E i =
     [on_end (err_only (Touch_Release E i))]"

lemma Touch_requests_emitted:
  assumes "scanning wayland_protocol ''wl'' c"
  shows "emits_all E c i wl_touch (Touch_requests E i)"
proof -
  note r = wl_touch_sel
  note m = Touch_Release_emitted [OF assms]
  show ?thesis
    by (auto simp: emits_all_def Touch_requests_def r kinds_eval on_defs m [unfolded numeral_nat])
qed

lemma Touch_methods_emitted:
  assumes "scanning wayland_protocol ''wl'' c"
  shows "emitted_methods E c wl_touch = generated Touch"
  unfolding generated_def iface.case
  by (rule emitted_methodsI) (simp_all add: wl_touch_sel event_eval scanningD [OF assms] local_interface [OF assms] Touch_Dispatch_def Touch_HasFD_def del: ret_run)

end
