(* ===== verification/Valid_Ext.thy ===== *)
theory Valid_Ext
  imports Scanner_Methods
begin

text \<open>
  The interfaces of \<open>Bind_Ext\<close>: the requests, dispatchers, descriptor queries and absorbers that the scanner emits
  for their descriptions are those of the checked-in bindings.
\<close>

section \<open>ext_idle_notifier_v1\<close>

lemmas ext_idle_notifier_v1_sel = arg_cong [where f = i_Requests, OF ext_idle_notifier_v1_def, unfolded mk_interface_sel]
  arg_cong [where f = i_Events, OF ext_idle_notifier_v1_def, unfolded mk_interface_sel] arg_cong [where f = i_Name, OF ext_idle_notifier_v1_def, unfolded mk_interface_sel]

lemma ExtIdleNotifierV1_Destroy_emitted:
  assumes "scanning ext_idle_notify_v1_protocol '''' c"
  shows "call_method E c i ext_idle_notifier_v1 0 [] = err_only (ExtIdleNotifierV1_Destroy E i)"
  by (subst call_eval) (simp_all add: ext_idle_notifier_v1_sel request_eval scanningD [OF assms] local_interface [OF assms] result_defs ExtIdleNotifierV1_Destroy_def del: ret_run)

lemma ExtIdleNotifierV1_GetIdleNotification_emitted:
  assumes "scanning ext_idle_notify_v1_protocol '''' c"
  shows "call_method E c i ext_idle_notifier_v1 1 [GWord timeout, GObj seat] = ref_err (ExtIdleNotifierV1_GetIdleNotification E i timeout seat)"
  by (subst call_eval) (simp_all add: ext_idle_notifier_v1_sel request_eval scanningD [OF assms] local_interface [OF assms] result_defs ExtIdleNotifierV1_GetIdleNotification_def del: ret_run)

lemma ExtIdleNotifierV1_GetInputIdleNotification_emitted:
  assumes "scanning ext_idle_notify_v1_protocol '''' c"
  shows "call_method E c i ext_idle_notifier_v1 2 [GWord timeout, GObj seat] = ref_err (ExtIdleNotifierV1_GetInputIdleNotification E i timeout seat)"
  by (subst call_eval) (simp_all add: ext_idle_notifier_v1_sel request_eval scanningD [OF assms] local_interface [OF assms] result_defs ExtIdleNotifierV1_GetInputIdleNotification_def del: ret_run)

definition ExtIdleNotifierV1_requests :: "'k env \<Rightarrow> ref \<Rightarrow> 'k gmethod list" where
  "ExtIdleNotifierV1_requests E i =
     [on_end (err_only (ExtIdleNotifierV1_Destroy E i)),
      on_word (\<lambda>timeout. on_obj (\<lambda>seat. on_end (ref_err (ExtIdleNotifierV1_GetIdleNotification E i timeout seat)))),
      on_word (\<lambda>timeout. on_obj (\<lambda>seat. on_end (ref_err (ExtIdleNotifierV1_GetInputIdleNotification E i timeout seat))))]"

lemma ExtIdleNotifierV1_requests_emitted:
  assumes "scanning ext_idle_notify_v1_protocol '''' c"
  shows "emits_all E c i ext_idle_notifier_v1 (ExtIdleNotifierV1_requests E i)"
proof -
  note r = ext_idle_notifier_v1_sel
  note m = ExtIdleNotifierV1_Destroy_emitted [OF assms]
    ExtIdleNotifierV1_GetIdleNotification_emitted [OF assms]
    ExtIdleNotifierV1_GetInputIdleNotification_emitted [OF assms]
  show ?thesis
    by (auto simp: emits_all_def ExtIdleNotifierV1_requests_def r kinds_eval on_defs m [unfolded numeral_nat])
qed

lemma ExtIdleNotifierV1_methods_emitted: "emitted_methods E c ext_idle_notifier_v1 = generated ExtIdleNotifierV1"
  by (simp add: generated_def emitted_no_methods ext_idle_notifier_v1_def mk_defs)

section \<open>ext_idle_notification_v1\<close>

lemmas ext_idle_notification_v1_sel = arg_cong [where f = i_Requests, OF ext_idle_notification_v1_def, unfolded mk_interface_sel]
  arg_cong [where f = i_Events, OF ext_idle_notification_v1_def, unfolded mk_interface_sel] arg_cong [where f = i_Name, OF ext_idle_notification_v1_def, unfolded mk_interface_sel]

lemma ExtIdleNotificationV1_Destroy_emitted:
  assumes "scanning ext_idle_notify_v1_protocol '''' c"
  shows "call_method E c i ext_idle_notification_v1 0 [] = err_only (ExtIdleNotificationV1_Destroy E i)"
  by (subst call_eval) (simp_all add: ext_idle_notification_v1_sel request_eval scanningD [OF assms] local_interface [OF assms] result_defs ExtIdleNotificationV1_Destroy_def del: ret_run)

definition ExtIdleNotificationV1_requests :: "'k env \<Rightarrow> ref \<Rightarrow> 'k gmethod list" where
  "ExtIdleNotificationV1_requests E i =
     [on_end (err_only (ExtIdleNotificationV1_Destroy E i))]"

lemma ExtIdleNotificationV1_requests_emitted:
  assumes "scanning ext_idle_notify_v1_protocol '''' c"
  shows "emits_all E c i ext_idle_notification_v1 (ExtIdleNotificationV1_requests E i)"
proof -
  note r = ext_idle_notification_v1_sel
  note m = ExtIdleNotificationV1_Destroy_emitted [OF assms]
  show ?thesis
    by (auto simp: emits_all_def ExtIdleNotificationV1_requests_def r kinds_eval on_defs m [unfolded numeral_nat])
qed

lemma ExtIdleNotificationV1_methods_emitted:
  assumes "scanning ext_idle_notify_v1_protocol '''' c"
  shows "emitted_methods E c ext_idle_notification_v1 = generated ExtIdleNotificationV1"
  unfolding generated_def iface.case
  by (rule emitted_methodsI) (simp_all add: ext_idle_notification_v1_sel event_eval scanningD [OF assms] local_interface [OF assms] ExtIdleNotificationV1_Dispatch_def ExtIdleNotificationV1_HasFD_def del: ret_run)

section \<open>ext_session_lock_manager_v1\<close>

lemmas ext_session_lock_manager_v1_sel = arg_cong [where f = i_Requests, OF ext_session_lock_manager_v1_def, unfolded mk_interface_sel]
  arg_cong [where f = i_Events, OF ext_session_lock_manager_v1_def, unfolded mk_interface_sel] arg_cong [where f = i_Name, OF ext_session_lock_manager_v1_def, unfolded mk_interface_sel]

lemma ExtSessionLockManagerV1_Destroy_emitted:
  assumes "scanning ext_session_lock_v1_protocol '''' c"
  shows "call_method E c i ext_session_lock_manager_v1 0 [] = err_only (ExtSessionLockManagerV1_Destroy E i)"
  by (subst call_eval) (simp_all add: ext_session_lock_manager_v1_sel request_eval scanningD [OF assms] local_interface [OF assms] result_defs ExtSessionLockManagerV1_Destroy_def del: ret_run)

lemma ExtSessionLockManagerV1_Lock_emitted:
  assumes "scanning ext_session_lock_v1_protocol '''' c"
  shows "call_method E c i ext_session_lock_manager_v1 1 [] = ref_err (ExtSessionLockManagerV1_Lock E i)"
  by (subst call_eval) (simp_all add: ext_session_lock_manager_v1_sel request_eval scanningD [OF assms] local_interface [OF assms] result_defs ExtSessionLockManagerV1_Lock_def del: ret_run)

definition ExtSessionLockManagerV1_requests :: "'k env \<Rightarrow> ref \<Rightarrow> 'k gmethod list" where
  "ExtSessionLockManagerV1_requests E i =
     [on_end (err_only (ExtSessionLockManagerV1_Destroy E i)),
      on_end (ref_err (ExtSessionLockManagerV1_Lock E i))]"

lemma ExtSessionLockManagerV1_requests_emitted:
  assumes "scanning ext_session_lock_v1_protocol '''' c"
  shows "emits_all E c i ext_session_lock_manager_v1 (ExtSessionLockManagerV1_requests E i)"
proof -
  note r = ext_session_lock_manager_v1_sel
  note m = ExtSessionLockManagerV1_Destroy_emitted [OF assms]
    ExtSessionLockManagerV1_Lock_emitted [OF assms]
  show ?thesis
    by (auto simp: emits_all_def ExtSessionLockManagerV1_requests_def r kinds_eval on_defs m [unfolded numeral_nat])
qed

lemma ExtSessionLockManagerV1_methods_emitted: "emitted_methods E c ext_session_lock_manager_v1 = generated ExtSessionLockManagerV1"
  by (simp add: generated_def emitted_no_methods ext_session_lock_manager_v1_def mk_defs)

section \<open>ext_session_lock_v1\<close>

lemmas ext_session_lock_v1_sel = arg_cong [where f = i_Requests, OF ext_session_lock_v1_def, unfolded mk_interface_sel]
  arg_cong [where f = i_Events, OF ext_session_lock_v1_def, unfolded mk_interface_sel] arg_cong [where f = i_Name, OF ext_session_lock_v1_def, unfolded mk_interface_sel]

lemma ExtSessionLockV1_Destroy_emitted:
  assumes "scanning ext_session_lock_v1_protocol '''' c"
  shows "call_method E c i ext_session_lock_v1 0 [] = err_only (ExtSessionLockV1_Destroy E i)"
  by (subst call_eval) (simp_all add: ext_session_lock_v1_sel request_eval scanningD [OF assms] local_interface [OF assms] result_defs ExtSessionLockV1_Destroy_def del: ret_run)

lemma ExtSessionLockV1_GetLockSurface_emitted:
  assumes "scanning ext_session_lock_v1_protocol '''' c"
  shows "call_method E c i ext_session_lock_v1 1 [GObj surface, GObj output] = ref_err (ExtSessionLockV1_GetLockSurface E i surface output)"
  by (subst call_eval) (simp_all add: ext_session_lock_v1_sel request_eval scanningD [OF assms] local_interface [OF assms] result_defs ExtSessionLockV1_GetLockSurface_def del: ret_run)

lemma ExtSessionLockV1_UnlockAndDestroy_emitted:
  assumes "scanning ext_session_lock_v1_protocol '''' c"
  shows "call_method E c i ext_session_lock_v1 2 [] = err_only (ExtSessionLockV1_UnlockAndDestroy E i)"
  by (subst call_eval) (simp_all add: ext_session_lock_v1_sel request_eval scanningD [OF assms] local_interface [OF assms] result_defs ExtSessionLockV1_UnlockAndDestroy_def del: ret_run)

definition ExtSessionLockV1_requests :: "'k env \<Rightarrow> ref \<Rightarrow> 'k gmethod list" where
  "ExtSessionLockV1_requests E i =
     [on_end (err_only (ExtSessionLockV1_Destroy E i)),
      on_obj (\<lambda>surface. on_obj (\<lambda>output. on_end (ref_err (ExtSessionLockV1_GetLockSurface E i surface output)))),
      on_end (err_only (ExtSessionLockV1_UnlockAndDestroy E i))]"

lemma ExtSessionLockV1_requests_emitted:
  assumes "scanning ext_session_lock_v1_protocol '''' c"
  shows "emits_all E c i ext_session_lock_v1 (ExtSessionLockV1_requests E i)"
proof -
  note r = ext_session_lock_v1_sel
  note m = ExtSessionLockV1_Destroy_emitted [OF assms]
    ExtSessionLockV1_GetLockSurface_emitted [OF assms]
    ExtSessionLockV1_UnlockAndDestroy_emitted [OF assms]
  show ?thesis
    by (auto simp: emits_all_def ExtSessionLockV1_requests_def r kinds_eval on_defs m [unfolded numeral_nat])
qed

lemma ExtSessionLockV1_methods_emitted:
  assumes "scanning ext_session_lock_v1_protocol '''' c"
  shows "emitted_methods E c ext_session_lock_v1 = generated ExtSessionLockV1"
  unfolding generated_def iface.case
  by (rule emitted_methodsI) (simp_all add: ext_session_lock_v1_sel event_eval scanningD [OF assms] local_interface [OF assms] ExtSessionLockV1_Dispatch_def ExtSessionLockV1_HasFD_def del: ret_run)

section \<open>ext_session_lock_surface_v1\<close>

lemmas ext_session_lock_surface_v1_sel = arg_cong [where f = i_Requests, OF ext_session_lock_surface_v1_def, unfolded mk_interface_sel]
  arg_cong [where f = i_Events, OF ext_session_lock_surface_v1_def, unfolded mk_interface_sel] arg_cong [where f = i_Name, OF ext_session_lock_surface_v1_def, unfolded mk_interface_sel]

lemma ExtSessionLockSurfaceV1_Destroy_emitted:
  assumes "scanning ext_session_lock_v1_protocol '''' c"
  shows "call_method E c i ext_session_lock_surface_v1 0 [] = err_only (ExtSessionLockSurfaceV1_Destroy E i)"
  by (subst call_eval) (simp_all add: ext_session_lock_surface_v1_sel request_eval scanningD [OF assms] local_interface [OF assms] result_defs ExtSessionLockSurfaceV1_Destroy_def del: ret_run)

lemma ExtSessionLockSurfaceV1_AckConfigure_emitted:
  assumes "scanning ext_session_lock_v1_protocol '''' c"
  shows "call_method E c i ext_session_lock_surface_v1 1 [GWord serial] = err_only (ExtSessionLockSurfaceV1_AckConfigure E i serial)"
  by (subst call_eval) (simp_all add: ext_session_lock_surface_v1_sel request_eval scanningD [OF assms] local_interface [OF assms] result_defs ExtSessionLockSurfaceV1_AckConfigure_def del: ret_run)

definition ExtSessionLockSurfaceV1_requests :: "'k env \<Rightarrow> ref \<Rightarrow> 'k gmethod list" where
  "ExtSessionLockSurfaceV1_requests E i =
     [on_end (err_only (ExtSessionLockSurfaceV1_Destroy E i)),
      on_word (\<lambda>serial. on_end (err_only (ExtSessionLockSurfaceV1_AckConfigure E i serial)))]"

lemma ExtSessionLockSurfaceV1_requests_emitted:
  assumes "scanning ext_session_lock_v1_protocol '''' c"
  shows "emits_all E c i ext_session_lock_surface_v1 (ExtSessionLockSurfaceV1_requests E i)"
proof -
  note r = ext_session_lock_surface_v1_sel
  note m = ExtSessionLockSurfaceV1_Destroy_emitted [OF assms]
    ExtSessionLockSurfaceV1_AckConfigure_emitted [OF assms]
  show ?thesis
    by (auto simp: emits_all_def ExtSessionLockSurfaceV1_requests_def r kinds_eval on_defs m [unfolded numeral_nat])
qed

lemma ExtSessionLockSurfaceV1_methods_emitted:
  assumes "scanning ext_session_lock_v1_protocol '''' c"
  shows "emitted_methods E c ext_session_lock_surface_v1 = generated ExtSessionLockSurfaceV1"
  unfolding generated_def iface.case
  by (rule emitted_methodsI) (simp_all add: ext_session_lock_surface_v1_sel event_eval scanningD [OF assms] local_interface [OF assms] ExtSessionLockSurfaceV1_Dispatch_def ExtSessionLockSurfaceV1_HasFD_def del: ret_run)

section \<open>wp_cursor_shape_manager_v1\<close>

lemmas wp_cursor_shape_manager_v1_sel = arg_cong [where f = i_Requests, OF wp_cursor_shape_manager_v1_def, unfolded mk_interface_sel]
  arg_cong [where f = i_Events, OF wp_cursor_shape_manager_v1_def, unfolded mk_interface_sel] arg_cong [where f = i_Name, OF wp_cursor_shape_manager_v1_def, unfolded mk_interface_sel]

lemma WpCursorShapeManagerV1_Destroy_emitted:
  assumes "scanning cursor_shape_v1_protocol '''' c"
  shows "call_method E c i wp_cursor_shape_manager_v1 0 [] = err_only (WpCursorShapeManagerV1_Destroy E i)"
  by (subst call_eval) (simp_all add: wp_cursor_shape_manager_v1_sel request_eval scanningD [OF assms] local_interface [OF assms] result_defs WpCursorShapeManagerV1_Destroy_def del: ret_run)

lemma WpCursorShapeManagerV1_GetPointer_emitted:
  assumes "scanning cursor_shape_v1_protocol '''' c"
  shows "call_method E c i wp_cursor_shape_manager_v1 1 [GObj pointer] = ref_err (WpCursorShapeManagerV1_GetPointer E i pointer)"
  by (subst call_eval) (simp_all add: wp_cursor_shape_manager_v1_sel request_eval scanningD [OF assms] local_interface [OF assms] result_defs WpCursorShapeManagerV1_GetPointer_def del: ret_run)

lemma WpCursorShapeManagerV1_GetTabletToolV2_emitted:
  assumes "scanning cursor_shape_v1_protocol '''' c"
  shows "call_method E c i wp_cursor_shape_manager_v1 2 [GObj tabletTool] = ref_err (WpCursorShapeManagerV1_GetTabletToolV2 E i tabletTool)"
  by (subst call_eval) (simp_all add: wp_cursor_shape_manager_v1_sel request_eval scanningD [OF assms] local_interface [OF assms] result_defs WpCursorShapeManagerV1_GetTabletToolV2_def del: ret_run)

definition WpCursorShapeManagerV1_requests :: "'k env \<Rightarrow> ref \<Rightarrow> 'k gmethod list" where
  "WpCursorShapeManagerV1_requests E i =
     [on_end (err_only (WpCursorShapeManagerV1_Destroy E i)),
      on_obj (\<lambda>pointer. on_end (ref_err (WpCursorShapeManagerV1_GetPointer E i pointer))),
      on_obj (\<lambda>tabletTool. on_end (ref_err (WpCursorShapeManagerV1_GetTabletToolV2 E i tabletTool)))]"

lemma WpCursorShapeManagerV1_requests_emitted:
  assumes "scanning cursor_shape_v1_protocol '''' c"
  shows "emits_all E c i wp_cursor_shape_manager_v1 (WpCursorShapeManagerV1_requests E i)"
proof -
  note r = wp_cursor_shape_manager_v1_sel
  note m = WpCursorShapeManagerV1_Destroy_emitted [OF assms]
    WpCursorShapeManagerV1_GetPointer_emitted [OF assms]
    WpCursorShapeManagerV1_GetTabletToolV2_emitted [OF assms]
  show ?thesis
    by (auto simp: emits_all_def WpCursorShapeManagerV1_requests_def r kinds_eval on_defs m [unfolded numeral_nat])
qed

lemma WpCursorShapeManagerV1_methods_emitted: "emitted_methods E c wp_cursor_shape_manager_v1 = generated WpCursorShapeManagerV1"
  by (simp add: generated_def emitted_no_methods wp_cursor_shape_manager_v1_def mk_defs)

section \<open>wp_cursor_shape_device_v1\<close>

lemmas wp_cursor_shape_device_v1_sel = arg_cong [where f = i_Requests, OF wp_cursor_shape_device_v1_def, unfolded mk_interface_sel]
  arg_cong [where f = i_Events, OF wp_cursor_shape_device_v1_def, unfolded mk_interface_sel] arg_cong [where f = i_Name, OF wp_cursor_shape_device_v1_def, unfolded mk_interface_sel]

lemma WpCursorShapeDeviceV1_Destroy_emitted:
  assumes "scanning cursor_shape_v1_protocol '''' c"
  shows "call_method E c i wp_cursor_shape_device_v1 0 [] = err_only (WpCursorShapeDeviceV1_Destroy E i)"
  by (subst call_eval) (simp_all add: wp_cursor_shape_device_v1_sel request_eval scanningD [OF assms] local_interface [OF assms] result_defs WpCursorShapeDeviceV1_Destroy_def del: ret_run)

lemma WpCursorShapeDeviceV1_SetShape_emitted:
  assumes "scanning cursor_shape_v1_protocol '''' c"
  shows "call_method E c i wp_cursor_shape_device_v1 1 [GWord serial, GWord shape] = err_only (WpCursorShapeDeviceV1_SetShape E i serial shape)"
  by (subst call_eval) (simp_all add: wp_cursor_shape_device_v1_sel request_eval scanningD [OF assms] local_interface [OF assms] result_defs WpCursorShapeDeviceV1_SetShape_def del: ret_run)

definition WpCursorShapeDeviceV1_requests :: "'k env \<Rightarrow> ref \<Rightarrow> 'k gmethod list" where
  "WpCursorShapeDeviceV1_requests E i =
     [on_end (err_only (WpCursorShapeDeviceV1_Destroy E i)),
      on_word (\<lambda>serial. on_word (\<lambda>shape. on_end (err_only (WpCursorShapeDeviceV1_SetShape E i serial shape))))]"

lemma WpCursorShapeDeviceV1_requests_emitted:
  assumes "scanning cursor_shape_v1_protocol '''' c"
  shows "emits_all E c i wp_cursor_shape_device_v1 (WpCursorShapeDeviceV1_requests E i)"
proof -
  note r = wp_cursor_shape_device_v1_sel
  note m = WpCursorShapeDeviceV1_Destroy_emitted [OF assms]
    WpCursorShapeDeviceV1_SetShape_emitted [OF assms]
  show ?thesis
    by (auto simp: emits_all_def WpCursorShapeDeviceV1_requests_def r kinds_eval on_defs m [unfolded numeral_nat])
qed

lemma WpCursorShapeDeviceV1_methods_emitted: "emitted_methods E c wp_cursor_shape_device_v1 = generated WpCursorShapeDeviceV1"
  by (simp add: generated_def emitted_no_methods wp_cursor_shape_device_v1_def mk_defs)

section \<open>zwp_text_input_v3\<close>

lemmas zwp_text_input_v3_sel = arg_cong [where f = i_Requests, OF zwp_text_input_v3_def, unfolded mk_interface_sel]
  arg_cong [where f = i_Events, OF zwp_text_input_v3_def, unfolded mk_interface_sel] arg_cong [where f = i_Name, OF zwp_text_input_v3_def, unfolded mk_interface_sel]

lemma ZwpTextInputV3_Destroy_emitted:
  assumes "scanning text_input_unstable_v3_protocol '''' c"
  shows "call_method E c i zwp_text_input_v3 0 [] = err_only (ZwpTextInputV3_Destroy E i)"
  by (subst call_eval) (simp_all add: zwp_text_input_v3_sel request_eval scanningD [OF assms] local_interface [OF assms] result_defs ZwpTextInputV3_Destroy_def del: ret_run)

lemma ZwpTextInputV3_Enable_emitted:
  assumes "scanning text_input_unstable_v3_protocol '''' c"
  shows "call_method E c i zwp_text_input_v3 1 [] = err_only (ZwpTextInputV3_Enable E i)"
  by (subst call_eval) (simp_all add: zwp_text_input_v3_sel request_eval scanningD [OF assms] local_interface [OF assms] result_defs ZwpTextInputV3_Enable_def del: ret_run)

lemma ZwpTextInputV3_Disable_emitted:
  assumes "scanning text_input_unstable_v3_protocol '''' c"
  shows "call_method E c i zwp_text_input_v3 2 [] = err_only (ZwpTextInputV3_Disable E i)"
  by (subst call_eval) (simp_all add: zwp_text_input_v3_sel request_eval scanningD [OF assms] local_interface [OF assms] result_defs ZwpTextInputV3_Disable_def del: ret_run)

lemma ZwpTextInputV3_SetSurroundingText_emitted:
  assumes "scanning text_input_unstable_v3_protocol '''' c"
  shows "call_method E c i zwp_text_input_v3 3 [GString text, GWord cursor, GWord anchor] = err_only (ZwpTextInputV3_SetSurroundingText E i text cursor anchor)"
  by (subst call_eval) (simp_all add: zwp_text_input_v3_sel request_eval scanningD [OF assms] local_interface [OF assms] result_defs ZwpTextInputV3_SetSurroundingText_def del: ret_run)

lemma ZwpTextInputV3_SetTextChangeCause_emitted:
  assumes "scanning text_input_unstable_v3_protocol '''' c"
  shows "call_method E c i zwp_text_input_v3 4 [GWord cause] = err_only (ZwpTextInputV3_SetTextChangeCause E i cause)"
  by (subst call_eval) (simp_all add: zwp_text_input_v3_sel request_eval scanningD [OF assms] local_interface [OF assms] result_defs ZwpTextInputV3_SetTextChangeCause_def del: ret_run)

lemma ZwpTextInputV3_SetContentType_emitted:
  assumes "scanning text_input_unstable_v3_protocol '''' c"
  shows "call_method E c i zwp_text_input_v3 5 [GWord hint, GWord purpose] = err_only (ZwpTextInputV3_SetContentType E i hint purpose)"
  by (subst call_eval) (simp_all add: zwp_text_input_v3_sel request_eval scanningD [OF assms] local_interface [OF assms] result_defs ZwpTextInputV3_SetContentType_def del: ret_run)

lemma ZwpTextInputV3_SetCursorRectangle_emitted:
  assumes "scanning text_input_unstable_v3_protocol '''' c"
  shows "call_method E c i zwp_text_input_v3 6 [GWord x, GWord y, GWord width, GWord height] = err_only (ZwpTextInputV3_SetCursorRectangle E i x y width height)"
  by (subst call_eval) (simp_all add: zwp_text_input_v3_sel request_eval scanningD [OF assms] local_interface [OF assms] result_defs ZwpTextInputV3_SetCursorRectangle_def del: ret_run)

lemma ZwpTextInputV3_Commit_emitted:
  assumes "scanning text_input_unstable_v3_protocol '''' c"
  shows "call_method E c i zwp_text_input_v3 7 [] = err_only (ZwpTextInputV3_Commit E i)"
  by (subst call_eval) (simp_all add: zwp_text_input_v3_sel request_eval scanningD [OF assms] local_interface [OF assms] result_defs ZwpTextInputV3_Commit_def del: ret_run)

definition ZwpTextInputV3_requests :: "'k env \<Rightarrow> ref \<Rightarrow> 'k gmethod list" where
  "ZwpTextInputV3_requests E i =
     [on_end (err_only (ZwpTextInputV3_Destroy E i)),
      on_end (err_only (ZwpTextInputV3_Enable E i)),
      on_end (err_only (ZwpTextInputV3_Disable E i)),
      on_string (\<lambda>text. on_word (\<lambda>cursor. on_word (\<lambda>anchor. on_end (err_only (ZwpTextInputV3_SetSurroundingText E i text cursor anchor))))),
      on_word (\<lambda>cause. on_end (err_only (ZwpTextInputV3_SetTextChangeCause E i cause))),
      on_word (\<lambda>hint. on_word (\<lambda>purpose. on_end (err_only (ZwpTextInputV3_SetContentType E i hint purpose)))),
      on_word (\<lambda>x. on_word (\<lambda>y. on_word (\<lambda>width. on_word (\<lambda>height. on_end (err_only (ZwpTextInputV3_SetCursorRectangle E i x y width height)))))),
      on_end (err_only (ZwpTextInputV3_Commit E i))]"

lemma ZwpTextInputV3_requests_emitted:
  assumes "scanning text_input_unstable_v3_protocol '''' c"
  shows "emits_all E c i zwp_text_input_v3 (ZwpTextInputV3_requests E i)"
proof -
  note r = zwp_text_input_v3_sel
  note m = ZwpTextInputV3_Destroy_emitted [OF assms]
    ZwpTextInputV3_Enable_emitted [OF assms]
    ZwpTextInputV3_Disable_emitted [OF assms]
    ZwpTextInputV3_SetSurroundingText_emitted [OF assms]
    ZwpTextInputV3_SetTextChangeCause_emitted [OF assms]
    ZwpTextInputV3_SetContentType_emitted [OF assms]
    ZwpTextInputV3_SetCursorRectangle_emitted [OF assms]
    ZwpTextInputV3_Commit_emitted [OF assms]
  show ?thesis
    by (auto simp: emits_all_def ZwpTextInputV3_requests_def r kinds_eval on_defs m [unfolded numeral_nat])
qed

lemma ZwpTextInputV3_methods_emitted:
  assumes "scanning text_input_unstable_v3_protocol '''' c"
  shows "emitted_methods E c zwp_text_input_v3 = generated ZwpTextInputV3"
  unfolding generated_def iface.case
  by (rule emitted_methodsI) (simp_all add: zwp_text_input_v3_sel event_eval scanningD [OF assms] local_interface [OF assms] ZwpTextInputV3_Dispatch_def ZwpTextInputV3_HasFD_def del: ret_run)

section \<open>zwp_text_input_manager_v3\<close>

lemmas zwp_text_input_manager_v3_sel = arg_cong [where f = i_Requests, OF zwp_text_input_manager_v3_def, unfolded mk_interface_sel]
  arg_cong [where f = i_Events, OF zwp_text_input_manager_v3_def, unfolded mk_interface_sel] arg_cong [where f = i_Name, OF zwp_text_input_manager_v3_def, unfolded mk_interface_sel]

lemma ZwpTextInputManagerV3_Destroy_emitted:
  assumes "scanning text_input_unstable_v3_protocol '''' c"
  shows "call_method E c i zwp_text_input_manager_v3 0 [] = err_only (ZwpTextInputManagerV3_Destroy E i)"
  by (subst call_eval) (simp_all add: zwp_text_input_manager_v3_sel request_eval scanningD [OF assms] local_interface [OF assms] result_defs ZwpTextInputManagerV3_Destroy_def del: ret_run)

lemma ZwpTextInputManagerV3_GetTextInput_emitted:
  assumes "scanning text_input_unstable_v3_protocol '''' c"
  shows "call_method E c i zwp_text_input_manager_v3 1 [GObj seat] = ref_err (ZwpTextInputManagerV3_GetTextInput E i seat)"
  by (subst call_eval) (simp_all add: zwp_text_input_manager_v3_sel request_eval scanningD [OF assms] local_interface [OF assms] result_defs ZwpTextInputManagerV3_GetTextInput_def del: ret_run)

definition ZwpTextInputManagerV3_requests :: "'k env \<Rightarrow> ref \<Rightarrow> 'k gmethod list" where
  "ZwpTextInputManagerV3_requests E i =
     [on_end (err_only (ZwpTextInputManagerV3_Destroy E i)),
      on_obj (\<lambda>seat. on_end (ref_err (ZwpTextInputManagerV3_GetTextInput E i seat)))]"

lemma ZwpTextInputManagerV3_requests_emitted:
  assumes "scanning text_input_unstable_v3_protocol '''' c"
  shows "emits_all E c i zwp_text_input_manager_v3 (ZwpTextInputManagerV3_requests E i)"
proof -
  note r = zwp_text_input_manager_v3_sel
  note m = ZwpTextInputManagerV3_Destroy_emitted [OF assms]
    ZwpTextInputManagerV3_GetTextInput_emitted [OF assms]
  show ?thesis
    by (auto simp: emits_all_def ZwpTextInputManagerV3_requests_def r kinds_eval on_defs m [unfolded numeral_nat])
qed

lemma ZwpTextInputManagerV3_methods_emitted: "emitted_methods E c zwp_text_input_manager_v3 = generated ZwpTextInputManagerV3"
  by (simp add: generated_def emitted_no_methods zwp_text_input_manager_v3_def mk_defs)

end
