(* ===== verification/Valid_Tablet.thy ===== *)
theory Valid_Tablet
  imports Scanner_Methods
begin

text \<open>
  The interfaces of \<open>Bind_Tablet\<close>: the requests, dispatchers, descriptor queries and absorbers that the scanner emits
  for their descriptions are those of the checked-in bindings.
\<close>

section \<open>zwp_tablet_manager_v2\<close>

lemmas zwp_tablet_manager_v2_sel = arg_cong [where f = i_Requests, OF zwp_tablet_manager_v2_def, unfolded mk_interface_sel]
  arg_cong [where f = i_Events, OF zwp_tablet_manager_v2_def, unfolded mk_interface_sel] arg_cong [where f = i_Name, OF zwp_tablet_manager_v2_def, unfolded mk_interface_sel]

lemma ZwpTabletManagerV2_GetTabletSeat_emitted:
  assumes "scanning tablet_v2_protocol '''' c"
  shows "call_method E c i zwp_tablet_manager_v2 0 [GObj seat] = ref_err (ZwpTabletManagerV2_GetTabletSeat E i seat)"
  by (subst call_eval) (simp_all add: zwp_tablet_manager_v2_sel request_eval scanningD [OF assms] local_interface [OF assms] result_defs ZwpTabletManagerV2_GetTabletSeat_def del: ret_run)

lemma ZwpTabletManagerV2_Destroy_emitted:
  assumes "scanning tablet_v2_protocol '''' c"
  shows "call_method E c i zwp_tablet_manager_v2 1 [] = err_only (ZwpTabletManagerV2_Destroy E i)"
  by (subst call_eval) (simp_all add: zwp_tablet_manager_v2_sel request_eval scanningD [OF assms] local_interface [OF assms] result_defs ZwpTabletManagerV2_Destroy_def del: ret_run)

definition ZwpTabletManagerV2_requests :: "'k env \<Rightarrow> ref \<Rightarrow> 'k gmethod list" where
  "ZwpTabletManagerV2_requests E i =
     [on_obj (\<lambda>seat. on_end (ref_err (ZwpTabletManagerV2_GetTabletSeat E i seat))),
      on_end (err_only (ZwpTabletManagerV2_Destroy E i))]"

lemma ZwpTabletManagerV2_requests_emitted:
  assumes "scanning tablet_v2_protocol '''' c"
  shows "emits_all E c i zwp_tablet_manager_v2 (ZwpTabletManagerV2_requests E i)"
proof -
  note r = zwp_tablet_manager_v2_sel
  note m = ZwpTabletManagerV2_GetTabletSeat_emitted [OF assms]
    ZwpTabletManagerV2_Destroy_emitted [OF assms]
  show ?thesis
    by (auto simp: emits_all_def ZwpTabletManagerV2_requests_def r kinds_eval on_defs m [unfolded numeral_nat])
qed

lemma ZwpTabletManagerV2_methods_emitted: "emitted_methods E c zwp_tablet_manager_v2 = generated ZwpTabletManagerV2"
  by (simp add: generated_def emitted_no_methods zwp_tablet_manager_v2_def mk_defs)

section \<open>zwp_tablet_seat_v2\<close>

lemmas zwp_tablet_seat_v2_sel = arg_cong [where f = i_Requests, OF zwp_tablet_seat_v2_def, unfolded mk_interface_sel]
  arg_cong [where f = i_Events, OF zwp_tablet_seat_v2_def, unfolded mk_interface_sel] arg_cong [where f = i_Name, OF zwp_tablet_seat_v2_def, unfolded mk_interface_sel]

lemma ZwpTabletSeatV2_Destroy_emitted:
  assumes "scanning tablet_v2_protocol '''' c"
  shows "call_method E c i zwp_tablet_seat_v2 0 [] = err_only (ZwpTabletSeatV2_Destroy E i)"
  by (subst call_eval) (simp_all add: zwp_tablet_seat_v2_sel request_eval scanningD [OF assms] local_interface [OF assms] result_defs ZwpTabletSeatV2_Destroy_def del: ret_run)

definition ZwpTabletSeatV2_requests :: "'k env \<Rightarrow> ref \<Rightarrow> 'k gmethod list" where
  "ZwpTabletSeatV2_requests E i =
     [on_end (err_only (ZwpTabletSeatV2_Destroy E i))]"

lemma ZwpTabletSeatV2_requests_emitted:
  assumes "scanning tablet_v2_protocol '''' c"
  shows "emits_all E c i zwp_tablet_seat_v2 (ZwpTabletSeatV2_requests E i)"
proof -
  note r = zwp_tablet_seat_v2_sel
  note m = ZwpTabletSeatV2_Destroy_emitted [OF assms]
  show ?thesis
    by (auto simp: emits_all_def ZwpTabletSeatV2_requests_def r kinds_eval on_defs m [unfolded numeral_nat])
qed

lemma ZwpTabletSeatV2_methods_emitted:
  assumes "scanning tablet_v2_protocol '''' c"
  shows "emitted_methods E c zwp_tablet_seat_v2 = generated ZwpTabletSeatV2"
  unfolding generated_def iface.case
  by (rule emitted_methods_absorbI) (simp_all add: zwp_tablet_seat_v2_sel event_eval scanningD [OF assms] local_interface [OF assms] ZwpTabletSeatV2_Dispatch_def ZwpTabletSeatV2_HasFD_def ZwpTabletSeatV2_AbsorbNewIDs_def new_eval del: ret_run)

section \<open>zwp_tablet_tool_v2\<close>

lemmas zwp_tablet_tool_v2_sel = arg_cong [where f = i_Requests, OF zwp_tablet_tool_v2_def, unfolded mk_interface_sel]
  arg_cong [where f = i_Events, OF zwp_tablet_tool_v2_def, unfolded mk_interface_sel] arg_cong [where f = i_Name, OF zwp_tablet_tool_v2_def, unfolded mk_interface_sel]

lemma ZwpTabletToolV2_SetCursor_emitted:
  assumes "scanning tablet_v2_protocol '''' c"
  shows "call_method E c i zwp_tablet_tool_v2 0 [GWord serial, GObj surface, GWord hotspotX, GWord hotspotY] = err_only (ZwpTabletToolV2_SetCursor E i serial surface hotspotX hotspotY)"
  by (subst call_eval) (simp_all add: zwp_tablet_tool_v2_sel request_eval scanningD [OF assms] local_interface [OF assms] result_defs ZwpTabletToolV2_SetCursor_def del: ret_run)

lemma ZwpTabletToolV2_Destroy_emitted:
  assumes "scanning tablet_v2_protocol '''' c"
  shows "call_method E c i zwp_tablet_tool_v2 1 [] = err_only (ZwpTabletToolV2_Destroy E i)"
  by (subst call_eval) (simp_all add: zwp_tablet_tool_v2_sel request_eval scanningD [OF assms] local_interface [OF assms] result_defs ZwpTabletToolV2_Destroy_def del: ret_run)

definition ZwpTabletToolV2_requests :: "'k env \<Rightarrow> ref \<Rightarrow> 'k gmethod list" where
  "ZwpTabletToolV2_requests E i =
     [on_word (\<lambda>serial. on_obj (\<lambda>surface. on_word (\<lambda>hotspotX. on_word (\<lambda>hotspotY. on_end (err_only (ZwpTabletToolV2_SetCursor E i serial surface hotspotX hotspotY)))))),
      on_end (err_only (ZwpTabletToolV2_Destroy E i))]"

lemma ZwpTabletToolV2_requests_emitted:
  assumes "scanning tablet_v2_protocol '''' c"
  shows "emits_all E c i zwp_tablet_tool_v2 (ZwpTabletToolV2_requests E i)"
proof -
  note r = zwp_tablet_tool_v2_sel
  note m = ZwpTabletToolV2_SetCursor_emitted [OF assms]
    ZwpTabletToolV2_Destroy_emitted [OF assms]
  show ?thesis
    by (auto simp: emits_all_def ZwpTabletToolV2_requests_def r kinds_eval on_defs m [unfolded numeral_nat])
qed

lemma ZwpTabletToolV2_methods_emitted:
  assumes "scanning tablet_v2_protocol '''' c"
  shows "emitted_methods E c zwp_tablet_tool_v2 = generated ZwpTabletToolV2"
  unfolding generated_def iface.case
  by (rule emitted_methodsI) (simp_all add: zwp_tablet_tool_v2_sel event_eval scanningD [OF assms] local_interface [OF assms] ZwpTabletToolV2_Dispatch_def ZwpTabletToolV2_HasFD_def del: ret_run)

section \<open>zwp_tablet_v2\<close>

lemmas zwp_tablet_v2_sel = arg_cong [where f = i_Requests, OF zwp_tablet_v2_def, unfolded mk_interface_sel]
  arg_cong [where f = i_Events, OF zwp_tablet_v2_def, unfolded mk_interface_sel] arg_cong [where f = i_Name, OF zwp_tablet_v2_def, unfolded mk_interface_sel]

lemma ZwpTabletV2_Destroy_emitted:
  assumes "scanning tablet_v2_protocol '''' c"
  shows "call_method E c i zwp_tablet_v2 0 [] = err_only (ZwpTabletV2_Destroy E i)"
  by (subst call_eval) (simp_all add: zwp_tablet_v2_sel request_eval scanningD [OF assms] local_interface [OF assms] result_defs ZwpTabletV2_Destroy_def del: ret_run)

definition ZwpTabletV2_requests :: "'k env \<Rightarrow> ref \<Rightarrow> 'k gmethod list" where
  "ZwpTabletV2_requests E i =
     [on_end (err_only (ZwpTabletV2_Destroy E i))]"

lemma ZwpTabletV2_requests_emitted:
  assumes "scanning tablet_v2_protocol '''' c"
  shows "emits_all E c i zwp_tablet_v2 (ZwpTabletV2_requests E i)"
proof -
  note r = zwp_tablet_v2_sel
  note m = ZwpTabletV2_Destroy_emitted [OF assms]
  show ?thesis
    by (auto simp: emits_all_def ZwpTabletV2_requests_def r kinds_eval on_defs m [unfolded numeral_nat])
qed

lemma ZwpTabletV2_methods_emitted:
  assumes "scanning tablet_v2_protocol '''' c"
  shows "emitted_methods E c zwp_tablet_v2 = generated ZwpTabletV2"
  unfolding generated_def iface.case
  by (rule emitted_methodsI) (simp_all add: zwp_tablet_v2_sel event_eval scanningD [OF assms] local_interface [OF assms] ZwpTabletV2_Dispatch_def ZwpTabletV2_HasFD_def del: ret_run)

section \<open>zwp_tablet_pad_ring_v2\<close>

lemmas zwp_tablet_pad_ring_v2_sel = arg_cong [where f = i_Requests, OF zwp_tablet_pad_ring_v2_def, unfolded mk_interface_sel]
  arg_cong [where f = i_Events, OF zwp_tablet_pad_ring_v2_def, unfolded mk_interface_sel] arg_cong [where f = i_Name, OF zwp_tablet_pad_ring_v2_def, unfolded mk_interface_sel]

lemma ZwpTabletPadRingV2_SetFeedback_emitted:
  assumes "scanning tablet_v2_protocol '''' c"
  shows "call_method E c i zwp_tablet_pad_ring_v2 0 [GString description, GWord serial] = err_only (ZwpTabletPadRingV2_SetFeedback E i description serial)"
  by (subst call_eval) (simp_all add: zwp_tablet_pad_ring_v2_sel request_eval scanningD [OF assms] local_interface [OF assms] result_defs ZwpTabletPadRingV2_SetFeedback_def del: ret_run)

lemma ZwpTabletPadRingV2_Destroy_emitted:
  assumes "scanning tablet_v2_protocol '''' c"
  shows "call_method E c i zwp_tablet_pad_ring_v2 1 [] = err_only (ZwpTabletPadRingV2_Destroy E i)"
  by (subst call_eval) (simp_all add: zwp_tablet_pad_ring_v2_sel request_eval scanningD [OF assms] local_interface [OF assms] result_defs ZwpTabletPadRingV2_Destroy_def del: ret_run)

definition ZwpTabletPadRingV2_requests :: "'k env \<Rightarrow> ref \<Rightarrow> 'k gmethod list" where
  "ZwpTabletPadRingV2_requests E i =
     [on_string (\<lambda>description. on_word (\<lambda>serial. on_end (err_only (ZwpTabletPadRingV2_SetFeedback E i description serial)))),
      on_end (err_only (ZwpTabletPadRingV2_Destroy E i))]"

lemma ZwpTabletPadRingV2_requests_emitted:
  assumes "scanning tablet_v2_protocol '''' c"
  shows "emits_all E c i zwp_tablet_pad_ring_v2 (ZwpTabletPadRingV2_requests E i)"
proof -
  note r = zwp_tablet_pad_ring_v2_sel
  note m = ZwpTabletPadRingV2_SetFeedback_emitted [OF assms]
    ZwpTabletPadRingV2_Destroy_emitted [OF assms]
  show ?thesis
    by (auto simp: emits_all_def ZwpTabletPadRingV2_requests_def r kinds_eval on_defs m [unfolded numeral_nat])
qed

lemma ZwpTabletPadRingV2_methods_emitted:
  assumes "scanning tablet_v2_protocol '''' c"
  shows "emitted_methods E c zwp_tablet_pad_ring_v2 = generated ZwpTabletPadRingV2"
  unfolding generated_def iface.case
  by (rule emitted_methodsI) (simp_all add: zwp_tablet_pad_ring_v2_sel event_eval scanningD [OF assms] local_interface [OF assms] ZwpTabletPadRingV2_Dispatch_def ZwpTabletPadRingV2_HasFD_def del: ret_run)

section \<open>zwp_tablet_pad_strip_v2\<close>

lemmas zwp_tablet_pad_strip_v2_sel = arg_cong [where f = i_Requests, OF zwp_tablet_pad_strip_v2_def, unfolded mk_interface_sel]
  arg_cong [where f = i_Events, OF zwp_tablet_pad_strip_v2_def, unfolded mk_interface_sel] arg_cong [where f = i_Name, OF zwp_tablet_pad_strip_v2_def, unfolded mk_interface_sel]

lemma ZwpTabletPadStripV2_SetFeedback_emitted:
  assumes "scanning tablet_v2_protocol '''' c"
  shows "call_method E c i zwp_tablet_pad_strip_v2 0 [GString description, GWord serial] = err_only (ZwpTabletPadStripV2_SetFeedback E i description serial)"
  by (subst call_eval) (simp_all add: zwp_tablet_pad_strip_v2_sel request_eval scanningD [OF assms] local_interface [OF assms] result_defs ZwpTabletPadStripV2_SetFeedback_def del: ret_run)

lemma ZwpTabletPadStripV2_Destroy_emitted:
  assumes "scanning tablet_v2_protocol '''' c"
  shows "call_method E c i zwp_tablet_pad_strip_v2 1 [] = err_only (ZwpTabletPadStripV2_Destroy E i)"
  by (subst call_eval) (simp_all add: zwp_tablet_pad_strip_v2_sel request_eval scanningD [OF assms] local_interface [OF assms] result_defs ZwpTabletPadStripV2_Destroy_def del: ret_run)

definition ZwpTabletPadStripV2_requests :: "'k env \<Rightarrow> ref \<Rightarrow> 'k gmethod list" where
  "ZwpTabletPadStripV2_requests E i =
     [on_string (\<lambda>description. on_word (\<lambda>serial. on_end (err_only (ZwpTabletPadStripV2_SetFeedback E i description serial)))),
      on_end (err_only (ZwpTabletPadStripV2_Destroy E i))]"

lemma ZwpTabletPadStripV2_requests_emitted:
  assumes "scanning tablet_v2_protocol '''' c"
  shows "emits_all E c i zwp_tablet_pad_strip_v2 (ZwpTabletPadStripV2_requests E i)"
proof -
  note r = zwp_tablet_pad_strip_v2_sel
  note m = ZwpTabletPadStripV2_SetFeedback_emitted [OF assms]
    ZwpTabletPadStripV2_Destroy_emitted [OF assms]
  show ?thesis
    by (auto simp: emits_all_def ZwpTabletPadStripV2_requests_def r kinds_eval on_defs m [unfolded numeral_nat])
qed

lemma ZwpTabletPadStripV2_methods_emitted:
  assumes "scanning tablet_v2_protocol '''' c"
  shows "emitted_methods E c zwp_tablet_pad_strip_v2 = generated ZwpTabletPadStripV2"
  unfolding generated_def iface.case
  by (rule emitted_methodsI) (simp_all add: zwp_tablet_pad_strip_v2_sel event_eval scanningD [OF assms] local_interface [OF assms] ZwpTabletPadStripV2_Dispatch_def ZwpTabletPadStripV2_HasFD_def del: ret_run)

section \<open>zwp_tablet_pad_group_v2\<close>

lemmas zwp_tablet_pad_group_v2_sel = arg_cong [where f = i_Requests, OF zwp_tablet_pad_group_v2_def, unfolded mk_interface_sel]
  arg_cong [where f = i_Events, OF zwp_tablet_pad_group_v2_def, unfolded mk_interface_sel] arg_cong [where f = i_Name, OF zwp_tablet_pad_group_v2_def, unfolded mk_interface_sel]

lemma ZwpTabletPadGroupV2_Destroy_emitted:
  assumes "scanning tablet_v2_protocol '''' c"
  shows "call_method E c i zwp_tablet_pad_group_v2 0 [] = err_only (ZwpTabletPadGroupV2_Destroy E i)"
  by (subst call_eval) (simp_all add: zwp_tablet_pad_group_v2_sel request_eval scanningD [OF assms] local_interface [OF assms] result_defs ZwpTabletPadGroupV2_Destroy_def del: ret_run)

definition ZwpTabletPadGroupV2_requests :: "'k env \<Rightarrow> ref \<Rightarrow> 'k gmethod list" where
  "ZwpTabletPadGroupV2_requests E i =
     [on_end (err_only (ZwpTabletPadGroupV2_Destroy E i))]"

lemma ZwpTabletPadGroupV2_requests_emitted:
  assumes "scanning tablet_v2_protocol '''' c"
  shows "emits_all E c i zwp_tablet_pad_group_v2 (ZwpTabletPadGroupV2_requests E i)"
proof -
  note r = zwp_tablet_pad_group_v2_sel
  note m = ZwpTabletPadGroupV2_Destroy_emitted [OF assms]
  show ?thesis
    by (auto simp: emits_all_def ZwpTabletPadGroupV2_requests_def r kinds_eval on_defs m [unfolded numeral_nat])
qed

lemma ZwpTabletPadGroupV2_methods_emitted:
  assumes "scanning tablet_v2_protocol '''' c"
  shows "emitted_methods E c zwp_tablet_pad_group_v2 = generated ZwpTabletPadGroupV2"
  unfolding generated_def iface.case
  by (rule emitted_methods_absorbI) (simp_all add: zwp_tablet_pad_group_v2_sel event_eval scanningD [OF assms] local_interface [OF assms] ZwpTabletPadGroupV2_Dispatch_def ZwpTabletPadGroupV2_HasFD_def ZwpTabletPadGroupV2_AbsorbNewIDs_def new_eval del: ret_run)

section \<open>zwp_tablet_pad_v2\<close>

lemmas zwp_tablet_pad_v2_sel = arg_cong [where f = i_Requests, OF zwp_tablet_pad_v2_def, unfolded mk_interface_sel]
  arg_cong [where f = i_Events, OF zwp_tablet_pad_v2_def, unfolded mk_interface_sel] arg_cong [where f = i_Name, OF zwp_tablet_pad_v2_def, unfolded mk_interface_sel]

lemma ZwpTabletPadV2_SetFeedback_emitted:
  assumes "scanning tablet_v2_protocol '''' c"
  shows "call_method E c i zwp_tablet_pad_v2 0 [GWord button, GString description, GWord serial] = err_only (ZwpTabletPadV2_SetFeedback E i button description serial)"
  by (subst call_eval) (simp_all add: zwp_tablet_pad_v2_sel request_eval scanningD [OF assms] local_interface [OF assms] result_defs ZwpTabletPadV2_SetFeedback_def del: ret_run)

lemma ZwpTabletPadV2_Destroy_emitted:
  assumes "scanning tablet_v2_protocol '''' c"
  shows "call_method E c i zwp_tablet_pad_v2 1 [] = err_only (ZwpTabletPadV2_Destroy E i)"
  by (subst call_eval) (simp_all add: zwp_tablet_pad_v2_sel request_eval scanningD [OF assms] local_interface [OF assms] result_defs ZwpTabletPadV2_Destroy_def del: ret_run)

definition ZwpTabletPadV2_requests :: "'k env \<Rightarrow> ref \<Rightarrow> 'k gmethod list" where
  "ZwpTabletPadV2_requests E i =
     [on_word (\<lambda>button. on_string (\<lambda>description. on_word (\<lambda>serial. on_end (err_only (ZwpTabletPadV2_SetFeedback E i button description serial))))),
      on_end (err_only (ZwpTabletPadV2_Destroy E i))]"

lemma ZwpTabletPadV2_requests_emitted:
  assumes "scanning tablet_v2_protocol '''' c"
  shows "emits_all E c i zwp_tablet_pad_v2 (ZwpTabletPadV2_requests E i)"
proof -
  note r = zwp_tablet_pad_v2_sel
  note m = ZwpTabletPadV2_SetFeedback_emitted [OF assms]
    ZwpTabletPadV2_Destroy_emitted [OF assms]
  show ?thesis
    by (auto simp: emits_all_def ZwpTabletPadV2_requests_def r kinds_eval on_defs m [unfolded numeral_nat])
qed

lemma ZwpTabletPadV2_methods_emitted:
  assumes "scanning tablet_v2_protocol '''' c"
  shows "emitted_methods E c zwp_tablet_pad_v2 = generated ZwpTabletPadV2"
  unfolding generated_def iface.case
  by (rule emitted_methods_absorbI) (simp_all add: zwp_tablet_pad_v2_sel event_eval scanningD [OF assms] local_interface [OF assms] ZwpTabletPadV2_Dispatch_def ZwpTabletPadV2_HasFD_def ZwpTabletPadV2_AbsorbNewIDs_def new_eval del: ret_run)

end
