(* ===== verification/Scanner_Decls.thy ===== *)
theory Scanner_Decls
  imports Scanner_Names Scanner_File Enums Event_Structs
begin

text \<open>
  The declarations that the scanner emits for an interface beside its methods on the wire: the name constant, the handler fields of
  the proxy struct, the event structs and setters, the enums, and the local \<open>Destroy\<close>. They are what the text of
  \<open>Scanner_File\<close> and \<open>writeEvent\<close> declares. Under the hypothesis on strcase they can be evaluated, name by name,
  in the configuration \<open>std_config\<close>, which knows the protocol's name and those of its interfaces only.
\<close>

section \<open>Emitted declarations\<close>

text \<open>The Go type that a field is declared with.\<close>

definition go_type_of :: "string \<Rightarrow> gotype option" where
  "go_type_of s =
     (case map_of [(''uint32'', TUint), (''int32'', TInt), (''float64'', TFixed), (''string'', TString), (''*string'', TOptString),
         (''[]byte'', TArray), (''int'', TFd), (''Proxy'', TProxy)] s of
        Some t \<Rightarrow> Some t
      | None \<Rightarrow> if s \<noteq> [] \<and> hd s = CHR ''*'' then map_option TPtr (go_type (tl s)) else None)"

definition emitted_fields :: "config \<Rightarrow> message \<Rightarrow> (string \<times> gotype option) list" where
  "emitted_fields c e = concat (map (\<lambda>a. map (\<lambda>t. (toCamel c (a_Name a), go_type_of t)) (field_type c a)) (m_Args e))"

text \<open>A constant's value and the cases of the \<open>switch\<close> in \<open>Name\<close> and \<open>Value\<close>.\<close>

definition const_value :: "entry \<Rightarrow> int" where
  "const_value x = the (literal_val (en_Value x))"

record enum_decl =
  ed_name :: string
  ed_consts :: "(string \<times> int) list"
  ed_Names :: cases
  ed_Values :: cases

definition emitted_enum :: "config \<Rightarrow> string \<Rightarrow> enum \<Rightarrow> enum_decl" where
  "emitted_enum c n e =
     \<lparr>ed_name = n @ toCamel c (e_Name e),
      ed_consts = map (\<lambda>x. (n @ toCamel c (e_Name e) @ toCamel c (en_Name x), const_value x)) (e_Entries e),
      ed_Names = map (\<lambda>x. (const_value x, en_Name x)) (e_Entries e),
      ed_Values = map (\<lambda>x. (const_value x, en_Value x)) (e_Entries e)\<rparr>"

record decls =
  dc_name :: string
  dc_handlers :: "(string \<times> string) list"
  dc_events :: "(string \<times> (string \<times> gotype option) list) list"
  dc_setters :: "(string \<times> string) list"
  dc_enums :: "enum_decl list"
  dc_destroy :: bool

text \<open>A setter is the name of its method and of the field it assigns.\<close>

definition emitted_decls :: "config \<Rightarrow> interface \<Rightarrow> decls" where
  "emitted_decls c v =
     (let n = toCamel c (i_Name v) in
      \<lparr>dc_name = i_Name v,
       dc_handlers = map (\<lambda>e. (toLowerCamel c (m_Name e) @ ''Handler'', n @ toCamel c (m_Name e) @ ''Event'')) (i_Events v),
       dc_events = map (\<lambda>e. (n @ toCamel c (m_Name e) @ ''Event'', emitted_fields c e)) (i_Events v),
       dc_setters = map (\<lambda>e. (''Set'' @ toCamel c (m_Name e) @ ''Handler'', toLowerCamel c (m_Name e) @ ''Handler'')) (i_Events v),
       dc_enums = map (emitted_enum c n) (i_Enums v),
       dc_destroy = (\<not> hasDestructor v)\<rparr>)"

section \<open>Evaluating them\<close>

definition std_config :: "string \<Rightarrow> string list \<Rightarrow> string \<Rightarrow> config" where
  "std_config p ns pre =
     \<lparr>protocol = \<lparr>p_Name = p, p_Copyright = [], p_Interfaces = map (\<lambda>n. mk_interface n [] [] []) ns\<rparr>,
      cf_prefix = pre, cf_suffix = [], ToCamel = camel_from True, ToLowerCamel = camel_from False, Synopsis = (\<lambda>s. s)\<rparr>"

text \<open>The names that an interface makes the scanner convert.\<close>

definition snake_name :: "string \<Rightarrow> string \<Rightarrow> bool" where
  "snake_name pre s \<longleftrightarrow> snake s \<and> snake (TrimPrefix s pre) \<and> snake (TrimPrefix s ''wl_'')"

definition snake_interface :: "string \<Rightarrow> interface \<Rightarrow> bool" where
  "snake_interface pre v \<longleftrightarrow> snake_name pre (i_Name v) \<and>
     list_all (\<lambda>e. snake_name pre (m_Name e) \<and> list_all (\<lambda>a. snake_name pre (a_Name a) \<and> snake_name pre (a_Interface a) \<and>
       \<not> HasPrefix (a_Interface a) ''xdg_'') (m_Args e)) (i_Events v) \<and>
     list_all (\<lambda>e. snake_name pre (e_Name e) \<and> list_all (\<lambda>x. snake_name pre (en_Name x)) (e_Entries e)) (i_Enums v)"

lemma TrimSuffix_Nil [simp]: "TrimSuffix s [] = s"
  by (simp add: TrimSuffix_def)

lemma std_names:
  assumes "scanning p pre c" "snake_name pre s"
  shows "toCamel c s = toCamel (std_config q ns pre) s" "toLowerCamel c s = toLowerCamel (std_config q ns pre) s"
    "toCamelPrefix c s ''wl_'' = toCamelPrefix (std_config q ns pre) s ''wl_''"
  using assms(2) scanningD [OF assms(1)]
  by (simp_all add: toCamel_def toLowerCamel_def toCamelPrefix_def std_config_def snake_name_def)

lemma std_emitted_decls:
  assumes c: "scanning p pre c" and p: "p_Name p = q" "map i_Name (p_Interfaces p) = ns" and v: "snake_interface pre v"
  shows "emitted_decls c v = emitted_decls (std_config q ns pre) v"
proof -
  note n = std_names [OF c, where q = q and ns = ns]
  let ?d = "std_config q ns pre"
  have l: "isLocalInterface c s = isLocalInterface ?d s" "p_Name (protocol c) = p_Name (protocol ?d)" for s
    using scanningD(3) [OF c] p by (auto simp: local_interface [OF c] isLocalInterface_def list_ex_iff std_config_def mk_interface_def)
  have f: "emitted_fields c e = emitted_fields ?d e" if "e \<in> set (i_Events v)" for e
  proof -
    have "field_type c a = field_type ?d a" "toCamel c (a_Name a) = toCamel ?d (a_Name a)" if a: "a \<in> set (m_Args e)" for a
      using v \<open>e \<in> set (i_Events v)\<close> a n l
      by (auto simp: snake_interface_def list_all_iff field_type_def arg_iface_def)
    then show ?thesis by (auto simp: emitted_fields_def intro!: arg_cong [where f = concat])
  qed
  have m: "toCamel c (m_Name e) = toCamel ?d (m_Name e)" "toLowerCamel c (m_Name e) = toLowerCamel ?d (m_Name e)"
    if "e \<in> set (i_Events v)" for e
    using v that n by (auto simp: snake_interface_def list_all_iff)
  have e: "emitted_enum c x en = emitted_enum ?d x en" if "en \<in> set (i_Enums v)" for x en
    using v that n by (auto simp: snake_interface_def list_all_iff emitted_enum_def)
  have "toCamel c (i_Name v) = toCamel ?d (i_Name v)" using v n by (simp add: snake_interface_def)
  then show ?thesis by (simp add: emitted_decls_def Let_def m f e)
qed

section \<open>What the declarations do\<close>

text \<open>A setter assigns its field; \<open>Name\<close>, \<open>Value\<close> and \<open>String\<close> are switches; the local \<open>Destroy\<close> marks the proxy and returns nil.\<close>

definition emitted_setters :: "decls \<Rightarrow> (string \<times> (ref \<Rightarrow> hid option \<Rightarrow> ('k world, unit) go)) list" where
  "emitted_setters d = map (\<lambda>(m, h). (m, \<lambda>i f. SetHandler i h f)) (dc_setters d)"

definition emitted_enums :: "decls \<Rightarrow> (string \<times> (u32 \<Rightarrow> string) \<times> (u32 \<Rightarrow> string) \<times> (u32 \<Rightarrow> string)) list" where
  "emitted_enums d = map (\<lambda>e. (ed_name e, switch (ed_Names e), switch (ed_Values e),
     \<lambda>x. switch (ed_Names e) x @ ''='' @ switch (ed_Values e) x)) (dc_enums d)"

definition emitted_destroy :: "decls \<Rightarrow> (ref \<Rightarrow> ('k world, gerr option) go) option" where
  "emitted_destroy d = (if dc_destroy d then Some (\<lambda>i. andthen (MarkZombie i) (ret None)) else None)"

text \<open>The declarations of a checked-in struct in the same form.\<close>

definition struct_decl :: "fields \<Rightarrow> (string \<times> gotype option) list" where
  "struct_decl fs = map (\<lambda>(f, t). (f, Some t)) fs"

end
