(* ===== verification/Binding_Decls.thy ===== *)
theory Binding_Decls
  imports Bindings Scanner_Decls
begin

text \<open>
  What the checked-in files declare for each proxy type, as tables: the record of its declarations, and the functions that are
  its setters, its enums' methods, its local \<open>Destroy\<close> and its constructor.
\<close>

section \<open>Declarations\<close>

definition Display_decls :: decls where
  "Display_decls =
     \<lparr>dc_name = DisplayInterfaceName, dc_handlers = Display_struct,
      dc_events =
        [(''DisplayErrorEvent'', struct_decl DisplayErrorEvent),
         (''DisplayDeleteIdEvent'', struct_decl DisplayDeleteIdEvent)],
      dc_setters =
        [(''SetErrorHandler'', ''errorHandler''), (''SetDeleteIdHandler'', ''deleteIdHandler'')],
      dc_enums =
        [\<lparr>ed_name = ''DisplayError'', ed_consts = DisplayError_consts, ed_Names = DisplayError_Names, ed_Values = DisplayError_Values\<rparr>],
      dc_destroy = True\<rparr>"

definition Registry_decls :: decls where
  "Registry_decls =
     \<lparr>dc_name = RegistryInterfaceName, dc_handlers = Registry_struct,
      dc_events =
        [(''RegistryGlobalEvent'', struct_decl RegistryGlobalEvent),
         (''RegistryGlobalRemoveEvent'', struct_decl RegistryGlobalRemoveEvent)],
      dc_setters =
        [(''SetGlobalHandler'', ''globalHandler''), (''SetGlobalRemoveHandler'', ''globalRemoveHandler'')],
      dc_enums =
        [],
      dc_destroy = True\<rparr>"

definition Callback_decls :: decls where
  "Callback_decls =
     \<lparr>dc_name = CallbackInterfaceName, dc_handlers = Callback_struct,
      dc_events =
        [(''CallbackDoneEvent'', struct_decl CallbackDoneEvent)],
      dc_setters =
        [(''SetDoneHandler'', ''doneHandler'')],
      dc_enums =
        [],
      dc_destroy = True\<rparr>"

definition Compositor_decls :: decls where
  "Compositor_decls =
     \<lparr>dc_name = CompositorInterfaceName, dc_handlers = Compositor_struct,
      dc_events =
        [],
      dc_setters =
        [],
      dc_enums =
        [],
      dc_destroy = True\<rparr>"

definition ShmPool_decls :: decls where
  "ShmPool_decls =
     \<lparr>dc_name = ShmPoolInterfaceName, dc_handlers = ShmPool_struct,
      dc_events =
        [],
      dc_setters =
        [],
      dc_enums =
        [],
      dc_destroy = False\<rparr>"

definition Shm_decls :: decls where
  "Shm_decls =
     \<lparr>dc_name = ShmInterfaceName, dc_handlers = Shm_struct,
      dc_events =
        [(''ShmFormatEvent'', struct_decl ShmFormatEvent)],
      dc_setters =
        [(''SetFormatHandler'', ''formatHandler'')],
      dc_enums =
        [\<lparr>ed_name = ''ShmError'', ed_consts = ShmError_consts, ed_Names = ShmError_Names, ed_Values = ShmError_Values\<rparr>,
         \<lparr>ed_name = ''ShmFormat'', ed_consts = ShmFormat_consts, ed_Names = ShmFormat_Names, ed_Values = ShmFormat_Values\<rparr>],
      dc_destroy = False\<rparr>"

definition Buffer_decls :: decls where
  "Buffer_decls =
     \<lparr>dc_name = BufferInterfaceName, dc_handlers = Buffer_struct,
      dc_events =
        [(''BufferReleaseEvent'', struct_decl BufferReleaseEvent)],
      dc_setters =
        [(''SetReleaseHandler'', ''releaseHandler'')],
      dc_enums =
        [],
      dc_destroy = False\<rparr>"

definition DataOffer_decls :: decls where
  "DataOffer_decls =
     \<lparr>dc_name = DataOfferInterfaceName, dc_handlers = DataOffer_struct,
      dc_events =
        [(''DataOfferOfferEvent'', struct_decl DataOfferOfferEvent),
         (''DataOfferSourceActionsEvent'', struct_decl DataOfferSourceActionsEvent),
         (''DataOfferActionEvent'', struct_decl DataOfferActionEvent)],
      dc_setters =
        [(''SetOfferHandler'', ''offerHandler''), (''SetSourceActionsHandler'', ''sourceActionsHandler''),
         (''SetActionHandler'', ''actionHandler'')],
      dc_enums =
        [\<lparr>ed_name = ''DataOfferError'', ed_consts = DataOfferError_consts, ed_Names = DataOfferError_Names, ed_Values = DataOfferError_Values\<rparr>],
      dc_destroy = False\<rparr>"

definition DataSource_decls :: decls where
  "DataSource_decls =
     \<lparr>dc_name = DataSourceInterfaceName, dc_handlers = DataSource_struct,
      dc_events =
        [(''DataSourceTargetEvent'', struct_decl DataSourceTargetEvent),
         (''DataSourceSendEvent'', struct_decl DataSourceSendEvent),
         (''DataSourceCancelledEvent'', struct_decl DataSourceCancelledEvent),
         (''DataSourceDndDropPerformedEvent'', struct_decl DataSourceDndDropPerformedEvent),
         (''DataSourceDndFinishedEvent'', struct_decl DataSourceDndFinishedEvent),
         (''DataSourceActionEvent'', struct_decl DataSourceActionEvent)],
      dc_setters =
        [(''SetTargetHandler'', ''targetHandler''), (''SetSendHandler'', ''sendHandler''),
         (''SetCancelledHandler'', ''cancelledHandler''), (''SetDndDropPerformedHandler'', ''dndDropPerformedHandler''),
         (''SetDndFinishedHandler'', ''dndFinishedHandler''), (''SetActionHandler'', ''actionHandler'')],
      dc_enums =
        [\<lparr>ed_name = ''DataSourceError'', ed_consts = DataSourceError_consts, ed_Names = DataSourceError_Names, ed_Values = DataSourceError_Values\<rparr>],
      dc_destroy = False\<rparr>"

definition DataDevice_decls :: decls where
  "DataDevice_decls =
     \<lparr>dc_name = DataDeviceInterfaceName, dc_handlers = DataDevice_struct,
      dc_events =
        [(''DataDeviceDataOfferEvent'', struct_decl DataDeviceDataOfferEvent),
         (''DataDeviceEnterEvent'', struct_decl DataDeviceEnterEvent),
         (''DataDeviceLeaveEvent'', struct_decl DataDeviceLeaveEvent),
         (''DataDeviceMotionEvent'', struct_decl DataDeviceMotionEvent),
         (''DataDeviceDropEvent'', struct_decl DataDeviceDropEvent),
         (''DataDeviceSelectionEvent'', struct_decl DataDeviceSelectionEvent)],
      dc_setters =
        [(''SetDataOfferHandler'', ''dataOfferHandler''), (''SetEnterHandler'', ''enterHandler''),
         (''SetLeaveHandler'', ''leaveHandler''), (''SetMotionHandler'', ''motionHandler''),
         (''SetDropHandler'', ''dropHandler''), (''SetSelectionHandler'', ''selectionHandler'')],
      dc_enums =
        [\<lparr>ed_name = ''DataDeviceError'', ed_consts = DataDeviceError_consts, ed_Names = DataDeviceError_Names, ed_Values = DataDeviceError_Values\<rparr>],
      dc_destroy = False\<rparr>"

definition DataDeviceManager_decls :: decls where
  "DataDeviceManager_decls =
     \<lparr>dc_name = DataDeviceManagerInterfaceName, dc_handlers = DataDeviceManager_struct,
      dc_events =
        [],
      dc_setters =
        [],
      dc_enums =
        [\<lparr>ed_name = ''DataDeviceManagerDndAction'', ed_consts = DataDeviceManagerDndAction_consts, ed_Names = DataDeviceManagerDndAction_Names, ed_Values = DataDeviceManagerDndAction_Values\<rparr>],
      dc_destroy = True\<rparr>"

definition Shell_decls :: decls where
  "Shell_decls =
     \<lparr>dc_name = ShellInterfaceName, dc_handlers = Shell_struct,
      dc_events =
        [],
      dc_setters =
        [],
      dc_enums =
        [\<lparr>ed_name = ''ShellError'', ed_consts = ShellError_consts, ed_Names = ShellError_Names, ed_Values = ShellError_Values\<rparr>],
      dc_destroy = True\<rparr>"

definition ShellSurface_decls :: decls where
  "ShellSurface_decls =
     \<lparr>dc_name = ShellSurfaceInterfaceName, dc_handlers = ShellSurface_struct,
      dc_events =
        [(''ShellSurfacePingEvent'', struct_decl ShellSurfacePingEvent),
         (''ShellSurfaceConfigureEvent'', struct_decl ShellSurfaceConfigureEvent),
         (''ShellSurfacePopupDoneEvent'', struct_decl ShellSurfacePopupDoneEvent)],
      dc_setters =
        [(''SetPingHandler'', ''pingHandler''), (''SetConfigureHandler'', ''configureHandler''),
         (''SetPopupDoneHandler'', ''popupDoneHandler'')],
      dc_enums =
        [\<lparr>ed_name = ''ShellSurfaceResize'', ed_consts = ShellSurfaceResize_consts, ed_Names = ShellSurfaceResize_Names, ed_Values = ShellSurfaceResize_Values\<rparr>,
         \<lparr>ed_name = ''ShellSurfaceTransient'', ed_consts = ShellSurfaceTransient_consts, ed_Names = ShellSurfaceTransient_Names, ed_Values = ShellSurfaceTransient_Values\<rparr>,
         \<lparr>ed_name = ''ShellSurfaceFullscreenMethod'', ed_consts = ShellSurfaceFullscreenMethod_consts, ed_Names = ShellSurfaceFullscreenMethod_Names, ed_Values = ShellSurfaceFullscreenMethod_Values\<rparr>],
      dc_destroy = True\<rparr>"

definition Surface_decls :: decls where
  "Surface_decls =
     \<lparr>dc_name = SurfaceInterfaceName, dc_handlers = Surface_struct,
      dc_events =
        [(''SurfaceEnterEvent'', struct_decl SurfaceEnterEvent), (''SurfaceLeaveEvent'', struct_decl SurfaceLeaveEvent),
         (''SurfacePreferredBufferScaleEvent'', struct_decl SurfacePreferredBufferScaleEvent),
         (''SurfacePreferredBufferTransformEvent'', struct_decl SurfacePreferredBufferTransformEvent)],
      dc_setters =
        [(''SetEnterHandler'', ''enterHandler''), (''SetLeaveHandler'', ''leaveHandler''),
         (''SetPreferredBufferScaleHandler'', ''preferredBufferScaleHandler''),
         (''SetPreferredBufferTransformHandler'', ''preferredBufferTransformHandler'')],
      dc_enums =
        [\<lparr>ed_name = ''SurfaceError'', ed_consts = SurfaceError_consts, ed_Names = SurfaceError_Names, ed_Values = SurfaceError_Values\<rparr>],
      dc_destroy = False\<rparr>"

definition Seat_decls :: decls where
  "Seat_decls =
     \<lparr>dc_name = SeatInterfaceName, dc_handlers = Seat_struct,
      dc_events =
        [(''SeatCapabilitiesEvent'', struct_decl SeatCapabilitiesEvent), (''SeatNameEvent'', struct_decl SeatNameEvent)],
      dc_setters =
        [(''SetCapabilitiesHandler'', ''capabilitiesHandler''), (''SetNameHandler'', ''nameHandler'')],
      dc_enums =
        [\<lparr>ed_name = ''SeatCapability'', ed_consts = SeatCapability_consts, ed_Names = SeatCapability_Names, ed_Values = SeatCapability_Values\<rparr>,
         \<lparr>ed_name = ''SeatError'', ed_consts = SeatError_consts, ed_Names = SeatError_Names, ed_Values = SeatError_Values\<rparr>],
      dc_destroy = False\<rparr>"

definition Pointer_decls :: decls where
  "Pointer_decls =
     \<lparr>dc_name = PointerInterfaceName, dc_handlers = Pointer_struct,
      dc_events =
        [(''PointerEnterEvent'', struct_decl PointerEnterEvent), (''PointerLeaveEvent'', struct_decl PointerLeaveEvent),
         (''PointerMotionEvent'', struct_decl PointerMotionEvent), (''PointerButtonEvent'', struct_decl PointerButtonEvent),
         (''PointerAxisEvent'', struct_decl PointerAxisEvent), (''PointerFrameEvent'', struct_decl PointerFrameEvent),
         (''PointerAxisSourceEvent'', struct_decl PointerAxisSourceEvent),
         (''PointerAxisStopEvent'', struct_decl PointerAxisStopEvent),
         (''PointerAxisDiscreteEvent'', struct_decl PointerAxisDiscreteEvent),
         (''PointerAxisValue120Event'', struct_decl PointerAxisValue120Event),
         (''PointerAxisRelativeDirectionEvent'', struct_decl PointerAxisRelativeDirectionEvent)],
      dc_setters =
        [(''SetEnterHandler'', ''enterHandler''), (''SetLeaveHandler'', ''leaveHandler''),
         (''SetMotionHandler'', ''motionHandler''), (''SetButtonHandler'', ''buttonHandler''),
         (''SetAxisHandler'', ''axisHandler''), (''SetFrameHandler'', ''frameHandler''),
         (''SetAxisSourceHandler'', ''axisSourceHandler''), (''SetAxisStopHandler'', ''axisStopHandler''),
         (''SetAxisDiscreteHandler'', ''axisDiscreteHandler''), (''SetAxisValue120Handler'', ''axisValue120Handler''),
         (''SetAxisRelativeDirectionHandler'', ''axisRelativeDirectionHandler'')],
      dc_enums =
        [\<lparr>ed_name = ''PointerError'', ed_consts = PointerError_consts, ed_Names = PointerError_Names, ed_Values = PointerError_Values\<rparr>,
         \<lparr>ed_name = ''PointerButtonState'', ed_consts = PointerButtonState_consts, ed_Names = PointerButtonState_Names, ed_Values = PointerButtonState_Values\<rparr>,
         \<lparr>ed_name = ''PointerAxis'', ed_consts = PointerAxis_consts, ed_Names = PointerAxis_Names, ed_Values = PointerAxis_Values\<rparr>,
         \<lparr>ed_name = ''PointerAxisSource'', ed_consts = PointerAxisSource_consts, ed_Names = PointerAxisSource_Names, ed_Values = PointerAxisSource_Values\<rparr>,
         \<lparr>ed_name = ''PointerAxisRelativeDirection'', ed_consts = PointerAxisRelativeDirection_consts, ed_Names = PointerAxisRelativeDirection_Names, ed_Values = PointerAxisRelativeDirection_Values\<rparr>],
      dc_destroy = False\<rparr>"

definition Keyboard_decls :: decls where
  "Keyboard_decls =
     \<lparr>dc_name = KeyboardInterfaceName, dc_handlers = Keyboard_struct,
      dc_events =
        [(''KeyboardKeymapEvent'', struct_decl KeyboardKeymapEvent),
         (''KeyboardEnterEvent'', struct_decl KeyboardEnterEvent), (''KeyboardLeaveEvent'', struct_decl KeyboardLeaveEvent),
         (''KeyboardKeyEvent'', struct_decl KeyboardKeyEvent),
         (''KeyboardModifiersEvent'', struct_decl KeyboardModifiersEvent),
         (''KeyboardRepeatInfoEvent'', struct_decl KeyboardRepeatInfoEvent)],
      dc_setters =
        [(''SetKeymapHandler'', ''keymapHandler''), (''SetEnterHandler'', ''enterHandler''),
         (''SetLeaveHandler'', ''leaveHandler''), (''SetKeyHandler'', ''keyHandler''),
         (''SetModifiersHandler'', ''modifiersHandler''), (''SetRepeatInfoHandler'', ''repeatInfoHandler'')],
      dc_enums =
        [\<lparr>ed_name = ''KeyboardKeymapFormat'', ed_consts = KeyboardKeymapFormat_consts, ed_Names = KeyboardKeymapFormat_Names, ed_Values = KeyboardKeymapFormat_Values\<rparr>,
         \<lparr>ed_name = ''KeyboardKeyState'', ed_consts = KeyboardKeyState_consts, ed_Names = KeyboardKeyState_Names, ed_Values = KeyboardKeyState_Values\<rparr>],
      dc_destroy = False\<rparr>"

definition Touch_decls :: decls where
  "Touch_decls =
     \<lparr>dc_name = TouchInterfaceName, dc_handlers = Touch_struct,
      dc_events =
        [(''TouchDownEvent'', struct_decl TouchDownEvent), (''TouchUpEvent'', struct_decl TouchUpEvent),
         (''TouchMotionEvent'', struct_decl TouchMotionEvent), (''TouchFrameEvent'', struct_decl TouchFrameEvent),
         (''TouchCancelEvent'', struct_decl TouchCancelEvent), (''TouchShapeEvent'', struct_decl TouchShapeEvent),
         (''TouchOrientationEvent'', struct_decl TouchOrientationEvent)],
      dc_setters =
        [(''SetDownHandler'', ''downHandler''), (''SetUpHandler'', ''upHandler''),
         (''SetMotionHandler'', ''motionHandler''), (''SetFrameHandler'', ''frameHandler''),
         (''SetCancelHandler'', ''cancelHandler''), (''SetShapeHandler'', ''shapeHandler''),
         (''SetOrientationHandler'', ''orientationHandler'')],
      dc_enums =
        [],
      dc_destroy = False\<rparr>"

definition Output_decls :: decls where
  "Output_decls =
     \<lparr>dc_name = OutputInterfaceName, dc_handlers = Output_struct,
      dc_events =
        [(''OutputGeometryEvent'', struct_decl OutputGeometryEvent), (''OutputModeEvent'', struct_decl OutputModeEvent),
         (''OutputDoneEvent'', struct_decl OutputDoneEvent), (''OutputScaleEvent'', struct_decl OutputScaleEvent),
         (''OutputNameEvent'', struct_decl OutputNameEvent),
         (''OutputDescriptionEvent'', struct_decl OutputDescriptionEvent)],
      dc_setters =
        [(''SetGeometryHandler'', ''geometryHandler''), (''SetModeHandler'', ''modeHandler''),
         (''SetDoneHandler'', ''doneHandler''), (''SetScaleHandler'', ''scaleHandler''),
         (''SetNameHandler'', ''nameHandler''), (''SetDescriptionHandler'', ''descriptionHandler'')],
      dc_enums =
        [\<lparr>ed_name = ''OutputSubpixel'', ed_consts = OutputSubpixel_consts, ed_Names = OutputSubpixel_Names, ed_Values = OutputSubpixel_Values\<rparr>,
         \<lparr>ed_name = ''OutputTransform'', ed_consts = OutputTransform_consts, ed_Names = OutputTransform_Names, ed_Values = OutputTransform_Values\<rparr>,
         \<lparr>ed_name = ''OutputMode'', ed_consts = OutputMode_consts, ed_Names = OutputMode_Names, ed_Values = OutputMode_Values\<rparr>],
      dc_destroy = False\<rparr>"

definition Region_decls :: decls where
  "Region_decls =
     \<lparr>dc_name = RegionInterfaceName, dc_handlers = Region_struct,
      dc_events =
        [],
      dc_setters =
        [],
      dc_enums =
        [],
      dc_destroy = False\<rparr>"

definition Subcompositor_decls :: decls where
  "Subcompositor_decls =
     \<lparr>dc_name = SubcompositorInterfaceName, dc_handlers = Subcompositor_struct,
      dc_events =
        [],
      dc_setters =
        [],
      dc_enums =
        [\<lparr>ed_name = ''SubcompositorError'', ed_consts = SubcompositorError_consts, ed_Names = SubcompositorError_Names, ed_Values = SubcompositorError_Values\<rparr>],
      dc_destroy = False\<rparr>"

definition Subsurface_decls :: decls where
  "Subsurface_decls =
     \<lparr>dc_name = SubsurfaceInterfaceName, dc_handlers = Subsurface_struct,
      dc_events =
        [],
      dc_setters =
        [],
      dc_enums =
        [\<lparr>ed_name = ''SubsurfaceError'', ed_consts = SubsurfaceError_consts, ed_Names = SubsurfaceError_Names, ed_Values = SubsurfaceError_Values\<rparr>],
      dc_destroy = False\<rparr>"

definition Fixes_decls :: decls where
  "Fixes_decls =
     \<lparr>dc_name = FixesInterfaceName, dc_handlers = Fixes_struct,
      dc_events =
        [],
      dc_setters =
        [],
      dc_enums =
        [],
      dc_destroy = False\<rparr>"

definition WpCursorShapeManagerV1_decls :: decls where
  "WpCursorShapeManagerV1_decls =
     \<lparr>dc_name = WpCursorShapeManagerV1InterfaceName, dc_handlers = WpCursorShapeManagerV1_struct,
      dc_events =
        [],
      dc_setters =
        [],
      dc_enums =
        [],
      dc_destroy = False\<rparr>"

definition WpCursorShapeDeviceV1_decls :: decls where
  "WpCursorShapeDeviceV1_decls =
     \<lparr>dc_name = WpCursorShapeDeviceV1InterfaceName, dc_handlers = WpCursorShapeDeviceV1_struct,
      dc_events =
        [],
      dc_setters =
        [],
      dc_enums =
        [\<lparr>ed_name = ''WpCursorShapeDeviceV1Shape'', ed_consts = WpCursorShapeDeviceV1Shape_consts, ed_Names = WpCursorShapeDeviceV1Shape_Names, ed_Values = WpCursorShapeDeviceV1Shape_Values\<rparr>,
         \<lparr>ed_name = ''WpCursorShapeDeviceV1Error'', ed_consts = WpCursorShapeDeviceV1Error_consts, ed_Names = WpCursorShapeDeviceV1Error_Names, ed_Values = WpCursorShapeDeviceV1Error_Values\<rparr>],
      dc_destroy = False\<rparr>"

definition ExtIdleNotifierV1_decls :: decls where
  "ExtIdleNotifierV1_decls =
     \<lparr>dc_name = ExtIdleNotifierV1InterfaceName, dc_handlers = ExtIdleNotifierV1_struct,
      dc_events =
        [],
      dc_setters =
        [],
      dc_enums =
        [],
      dc_destroy = False\<rparr>"

definition ExtIdleNotificationV1_decls :: decls where
  "ExtIdleNotificationV1_decls =
     \<lparr>dc_name = ExtIdleNotificationV1InterfaceName, dc_handlers = ExtIdleNotificationV1_struct,
      dc_events =
        [(''ExtIdleNotificationV1IdledEvent'', struct_decl ExtIdleNotificationV1IdledEvent),
         (''ExtIdleNotificationV1ResumedEvent'', struct_decl ExtIdleNotificationV1ResumedEvent)],
      dc_setters =
        [(''SetIdledHandler'', ''idledHandler''), (''SetResumedHandler'', ''resumedHandler'')],
      dc_enums =
        [],
      dc_destroy = False\<rparr>"

definition ExtSessionLockManagerV1_decls :: decls where
  "ExtSessionLockManagerV1_decls =
     \<lparr>dc_name = ExtSessionLockManagerV1InterfaceName, dc_handlers = ExtSessionLockManagerV1_struct,
      dc_events =
        [],
      dc_setters =
        [],
      dc_enums =
        [],
      dc_destroy = False\<rparr>"

definition ExtSessionLockV1_decls :: decls where
  "ExtSessionLockV1_decls =
     \<lparr>dc_name = ExtSessionLockV1InterfaceName, dc_handlers = ExtSessionLockV1_struct,
      dc_events =
        [(''ExtSessionLockV1LockedEvent'', struct_decl ExtSessionLockV1LockedEvent),
         (''ExtSessionLockV1FinishedEvent'', struct_decl ExtSessionLockV1FinishedEvent)],
      dc_setters =
        [(''SetLockedHandler'', ''lockedHandler''), (''SetFinishedHandler'', ''finishedHandler'')],
      dc_enums =
        [\<lparr>ed_name = ''ExtSessionLockV1Error'', ed_consts = ExtSessionLockV1Error_consts, ed_Names = ExtSessionLockV1Error_Names, ed_Values = ExtSessionLockV1Error_Values\<rparr>],
      dc_destroy = False\<rparr>"

definition ExtSessionLockSurfaceV1_decls :: decls where
  "ExtSessionLockSurfaceV1_decls =
     \<lparr>dc_name = ExtSessionLockSurfaceV1InterfaceName, dc_handlers = ExtSessionLockSurfaceV1_struct,
      dc_events =
        [(''ExtSessionLockSurfaceV1ConfigureEvent'', struct_decl ExtSessionLockSurfaceV1ConfigureEvent)],
      dc_setters =
        [(''SetConfigureHandler'', ''configureHandler'')],
      dc_enums =
        [\<lparr>ed_name = ''ExtSessionLockSurfaceV1Error'', ed_consts = ExtSessionLockSurfaceV1Error_consts, ed_Names = ExtSessionLockSurfaceV1Error_Names, ed_Values = ExtSessionLockSurfaceV1Error_Values\<rparr>],
      dc_destroy = False\<rparr>"

definition ZwpTabletManagerV2_decls :: decls where
  "ZwpTabletManagerV2_decls =
     \<lparr>dc_name = ZwpTabletManagerV2InterfaceName, dc_handlers = ZwpTabletManagerV2_struct,
      dc_events =
        [],
      dc_setters =
        [],
      dc_enums =
        [],
      dc_destroy = False\<rparr>"

definition ZwpTabletSeatV2_decls :: decls where
  "ZwpTabletSeatV2_decls =
     \<lparr>dc_name = ZwpTabletSeatV2InterfaceName, dc_handlers = ZwpTabletSeatV2_struct,
      dc_events =
        [(''ZwpTabletSeatV2TabletAddedEvent'', struct_decl ZwpTabletSeatV2TabletAddedEvent),
         (''ZwpTabletSeatV2ToolAddedEvent'', struct_decl ZwpTabletSeatV2ToolAddedEvent),
         (''ZwpTabletSeatV2PadAddedEvent'', struct_decl ZwpTabletSeatV2PadAddedEvent)],
      dc_setters =
        [(''SetTabletAddedHandler'', ''tabletAddedHandler''), (''SetToolAddedHandler'', ''toolAddedHandler''),
         (''SetPadAddedHandler'', ''padAddedHandler'')],
      dc_enums =
        [],
      dc_destroy = False\<rparr>"

definition ZwpTabletToolV2_decls :: decls where
  "ZwpTabletToolV2_decls =
     \<lparr>dc_name = ZwpTabletToolV2InterfaceName, dc_handlers = ZwpTabletToolV2_struct,
      dc_events =
        [(''ZwpTabletToolV2TypeEvent'', struct_decl ZwpTabletToolV2TypeEvent),
         (''ZwpTabletToolV2HardwareSerialEvent'', struct_decl ZwpTabletToolV2HardwareSerialEvent),
         (''ZwpTabletToolV2HardwareIdWacomEvent'', struct_decl ZwpTabletToolV2HardwareIdWacomEvent),
         (''ZwpTabletToolV2CapabilityEvent'', struct_decl ZwpTabletToolV2CapabilityEvent),
         (''ZwpTabletToolV2DoneEvent'', struct_decl ZwpTabletToolV2DoneEvent),
         (''ZwpTabletToolV2RemovedEvent'', struct_decl ZwpTabletToolV2RemovedEvent),
         (''ZwpTabletToolV2ProximityInEvent'', struct_decl ZwpTabletToolV2ProximityInEvent),
         (''ZwpTabletToolV2ProximityOutEvent'', struct_decl ZwpTabletToolV2ProximityOutEvent),
         (''ZwpTabletToolV2DownEvent'', struct_decl ZwpTabletToolV2DownEvent),
         (''ZwpTabletToolV2UpEvent'', struct_decl ZwpTabletToolV2UpEvent),
         (''ZwpTabletToolV2MotionEvent'', struct_decl ZwpTabletToolV2MotionEvent),
         (''ZwpTabletToolV2PressureEvent'', struct_decl ZwpTabletToolV2PressureEvent),
         (''ZwpTabletToolV2DistanceEvent'', struct_decl ZwpTabletToolV2DistanceEvent),
         (''ZwpTabletToolV2TiltEvent'', struct_decl ZwpTabletToolV2TiltEvent),
         (''ZwpTabletToolV2RotationEvent'', struct_decl ZwpTabletToolV2RotationEvent),
         (''ZwpTabletToolV2SliderEvent'', struct_decl ZwpTabletToolV2SliderEvent),
         (''ZwpTabletToolV2WheelEvent'', struct_decl ZwpTabletToolV2WheelEvent),
         (''ZwpTabletToolV2ButtonEvent'', struct_decl ZwpTabletToolV2ButtonEvent),
         (''ZwpTabletToolV2FrameEvent'', struct_decl ZwpTabletToolV2FrameEvent)],
      dc_setters =
        [(''SetTypeHandler'', ''typeHandler''), (''SetHardwareSerialHandler'', ''hardwareSerialHandler''),
         (''SetHardwareIdWacomHandler'', ''hardwareIdWacomHandler''), (''SetCapabilityHandler'', ''capabilityHandler''),
         (''SetDoneHandler'', ''doneHandler''), (''SetRemovedHandler'', ''removedHandler''),
         (''SetProximityInHandler'', ''proximityInHandler''), (''SetProximityOutHandler'', ''proximityOutHandler''),
         (''SetDownHandler'', ''downHandler''), (''SetUpHandler'', ''upHandler''),
         (''SetMotionHandler'', ''motionHandler''), (''SetPressureHandler'', ''pressureHandler''),
         (''SetDistanceHandler'', ''distanceHandler''), (''SetTiltHandler'', ''tiltHandler''),
         (''SetRotationHandler'', ''rotationHandler''), (''SetSliderHandler'', ''sliderHandler''),
         (''SetWheelHandler'', ''wheelHandler''), (''SetButtonHandler'', ''buttonHandler''),
         (''SetFrameHandler'', ''frameHandler'')],
      dc_enums =
        [\<lparr>ed_name = ''ZwpTabletToolV2Type'', ed_consts = ZwpTabletToolV2Type_consts, ed_Names = ZwpTabletToolV2Type_Names, ed_Values = ZwpTabletToolV2Type_Values\<rparr>,
         \<lparr>ed_name = ''ZwpTabletToolV2Capability'', ed_consts = ZwpTabletToolV2Capability_consts, ed_Names = ZwpTabletToolV2Capability_Names, ed_Values = ZwpTabletToolV2Capability_Values\<rparr>,
         \<lparr>ed_name = ''ZwpTabletToolV2ButtonState'', ed_consts = ZwpTabletToolV2ButtonState_consts, ed_Names = ZwpTabletToolV2ButtonState_Names, ed_Values = ZwpTabletToolV2ButtonState_Values\<rparr>,
         \<lparr>ed_name = ''ZwpTabletToolV2Error'', ed_consts = ZwpTabletToolV2Error_consts, ed_Names = ZwpTabletToolV2Error_Names, ed_Values = ZwpTabletToolV2Error_Values\<rparr>],
      dc_destroy = False\<rparr>"

definition ZwpTabletV2_decls :: decls where
  "ZwpTabletV2_decls =
     \<lparr>dc_name = ZwpTabletV2InterfaceName, dc_handlers = ZwpTabletV2_struct,
      dc_events =
        [(''ZwpTabletV2NameEvent'', struct_decl ZwpTabletV2NameEvent),
         (''ZwpTabletV2IdEvent'', struct_decl ZwpTabletV2IdEvent),
         (''ZwpTabletV2PathEvent'', struct_decl ZwpTabletV2PathEvent),
         (''ZwpTabletV2DoneEvent'', struct_decl ZwpTabletV2DoneEvent),
         (''ZwpTabletV2RemovedEvent'', struct_decl ZwpTabletV2RemovedEvent)],
      dc_setters =
        [(''SetNameHandler'', ''nameHandler''), (''SetIdHandler'', ''idHandler''), (''SetPathHandler'', ''pathHandler''),
         (''SetDoneHandler'', ''doneHandler''), (''SetRemovedHandler'', ''removedHandler'')],
      dc_enums =
        [],
      dc_destroy = False\<rparr>"

definition ZwpTabletPadRingV2_decls :: decls where
  "ZwpTabletPadRingV2_decls =
     \<lparr>dc_name = ZwpTabletPadRingV2InterfaceName, dc_handlers = ZwpTabletPadRingV2_struct,
      dc_events =
        [(''ZwpTabletPadRingV2SourceEvent'', struct_decl ZwpTabletPadRingV2SourceEvent),
         (''ZwpTabletPadRingV2AngleEvent'', struct_decl ZwpTabletPadRingV2AngleEvent),
         (''ZwpTabletPadRingV2StopEvent'', struct_decl ZwpTabletPadRingV2StopEvent),
         (''ZwpTabletPadRingV2FrameEvent'', struct_decl ZwpTabletPadRingV2FrameEvent)],
      dc_setters =
        [(''SetSourceHandler'', ''sourceHandler''), (''SetAngleHandler'', ''angleHandler''),
         (''SetStopHandler'', ''stopHandler''), (''SetFrameHandler'', ''frameHandler'')],
      dc_enums =
        [\<lparr>ed_name = ''ZwpTabletPadRingV2Source'', ed_consts = ZwpTabletPadRingV2Source_consts, ed_Names = ZwpTabletPadRingV2Source_Names, ed_Values = ZwpTabletPadRingV2Source_Values\<rparr>],
      dc_destroy = False\<rparr>"

definition ZwpTabletPadStripV2_decls :: decls where
  "ZwpTabletPadStripV2_decls =
     \<lparr>dc_name = ZwpTabletPadStripV2InterfaceName, dc_handlers = ZwpTabletPadStripV2_struct,
      dc_events =
        [(''ZwpTabletPadStripV2SourceEvent'', struct_decl ZwpTabletPadStripV2SourceEvent),
         (''ZwpTabletPadStripV2PositionEvent'', struct_decl ZwpTabletPadStripV2PositionEvent),
         (''ZwpTabletPadStripV2StopEvent'', struct_decl ZwpTabletPadStripV2StopEvent),
         (''ZwpTabletPadStripV2FrameEvent'', struct_decl ZwpTabletPadStripV2FrameEvent)],
      dc_setters =
        [(''SetSourceHandler'', ''sourceHandler''), (''SetPositionHandler'', ''positionHandler''),
         (''SetStopHandler'', ''stopHandler''), (''SetFrameHandler'', ''frameHandler'')],
      dc_enums =
        [\<lparr>ed_name = ''ZwpTabletPadStripV2Source'', ed_consts = ZwpTabletPadStripV2Source_consts, ed_Names = ZwpTabletPadStripV2Source_Names, ed_Values = ZwpTabletPadStripV2Source_Values\<rparr>],
      dc_destroy = False\<rparr>"

definition ZwpTabletPadGroupV2_decls :: decls where
  "ZwpTabletPadGroupV2_decls =
     \<lparr>dc_name = ZwpTabletPadGroupV2InterfaceName, dc_handlers = ZwpTabletPadGroupV2_struct,
      dc_events =
        [(''ZwpTabletPadGroupV2ButtonsEvent'', struct_decl ZwpTabletPadGroupV2ButtonsEvent),
         (''ZwpTabletPadGroupV2RingEvent'', struct_decl ZwpTabletPadGroupV2RingEvent),
         (''ZwpTabletPadGroupV2StripEvent'', struct_decl ZwpTabletPadGroupV2StripEvent),
         (''ZwpTabletPadGroupV2ModesEvent'', struct_decl ZwpTabletPadGroupV2ModesEvent),
         (''ZwpTabletPadGroupV2DoneEvent'', struct_decl ZwpTabletPadGroupV2DoneEvent),
         (''ZwpTabletPadGroupV2ModeSwitchEvent'', struct_decl ZwpTabletPadGroupV2ModeSwitchEvent)],
      dc_setters =
        [(''SetButtonsHandler'', ''buttonsHandler''), (''SetRingHandler'', ''ringHandler''),
         (''SetStripHandler'', ''stripHandler''), (''SetModesHandler'', ''modesHandler''),
         (''SetDoneHandler'', ''doneHandler''), (''SetModeSwitchHandler'', ''modeSwitchHandler'')],
      dc_enums =
        [],
      dc_destroy = False\<rparr>"

definition ZwpTabletPadV2_decls :: decls where
  "ZwpTabletPadV2_decls =
     \<lparr>dc_name = ZwpTabletPadV2InterfaceName, dc_handlers = ZwpTabletPadV2_struct,
      dc_events =
        [(''ZwpTabletPadV2GroupEvent'', struct_decl ZwpTabletPadV2GroupEvent),
         (''ZwpTabletPadV2PathEvent'', struct_decl ZwpTabletPadV2PathEvent),
         (''ZwpTabletPadV2ButtonsEvent'', struct_decl ZwpTabletPadV2ButtonsEvent),
         (''ZwpTabletPadV2DoneEvent'', struct_decl ZwpTabletPadV2DoneEvent),
         (''ZwpTabletPadV2ButtonEvent'', struct_decl ZwpTabletPadV2ButtonEvent),
         (''ZwpTabletPadV2EnterEvent'', struct_decl ZwpTabletPadV2EnterEvent),
         (''ZwpTabletPadV2LeaveEvent'', struct_decl ZwpTabletPadV2LeaveEvent),
         (''ZwpTabletPadV2RemovedEvent'', struct_decl ZwpTabletPadV2RemovedEvent)],
      dc_setters =
        [(''SetGroupHandler'', ''groupHandler''), (''SetPathHandler'', ''pathHandler''),
         (''SetButtonsHandler'', ''buttonsHandler''), (''SetDoneHandler'', ''doneHandler''),
         (''SetButtonHandler'', ''buttonHandler''), (''SetEnterHandler'', ''enterHandler''),
         (''SetLeaveHandler'', ''leaveHandler''), (''SetRemovedHandler'', ''removedHandler'')],
      dc_enums =
        [\<lparr>ed_name = ''ZwpTabletPadV2ButtonState'', ed_consts = ZwpTabletPadV2ButtonState_consts, ed_Names = ZwpTabletPadV2ButtonState_Names, ed_Values = ZwpTabletPadV2ButtonState_Values\<rparr>],
      dc_destroy = False\<rparr>"

definition ZwpTextInputV3_decls :: decls where
  "ZwpTextInputV3_decls =
     \<lparr>dc_name = ZwpTextInputV3InterfaceName, dc_handlers = ZwpTextInputV3_struct,
      dc_events =
        [(''ZwpTextInputV3EnterEvent'', struct_decl ZwpTextInputV3EnterEvent),
         (''ZwpTextInputV3LeaveEvent'', struct_decl ZwpTextInputV3LeaveEvent),
         (''ZwpTextInputV3PreeditStringEvent'', struct_decl ZwpTextInputV3PreeditStringEvent),
         (''ZwpTextInputV3CommitStringEvent'', struct_decl ZwpTextInputV3CommitStringEvent),
         (''ZwpTextInputV3DeleteSurroundingTextEvent'', struct_decl ZwpTextInputV3DeleteSurroundingTextEvent),
         (''ZwpTextInputV3DoneEvent'', struct_decl ZwpTextInputV3DoneEvent)],
      dc_setters =
        [(''SetEnterHandler'', ''enterHandler''), (''SetLeaveHandler'', ''leaveHandler''),
         (''SetPreeditStringHandler'', ''preeditStringHandler''), (''SetCommitStringHandler'', ''commitStringHandler''),
         (''SetDeleteSurroundingTextHandler'', ''deleteSurroundingTextHandler''), (''SetDoneHandler'', ''doneHandler'')],
      dc_enums =
        [\<lparr>ed_name = ''ZwpTextInputV3ChangeCause'', ed_consts = ZwpTextInputV3ChangeCause_consts, ed_Names = ZwpTextInputV3ChangeCause_Names, ed_Values = ZwpTextInputV3ChangeCause_Values\<rparr>,
         \<lparr>ed_name = ''ZwpTextInputV3ContentHint'', ed_consts = ZwpTextInputV3ContentHint_consts, ed_Names = ZwpTextInputV3ContentHint_Names, ed_Values = ZwpTextInputV3ContentHint_Values\<rparr>,
         \<lparr>ed_name = ''ZwpTextInputV3ContentPurpose'', ed_consts = ZwpTextInputV3ContentPurpose_consts, ed_Names = ZwpTextInputV3ContentPurpose_Names, ed_Values = ZwpTextInputV3ContentPurpose_Values\<rparr>],
      dc_destroy = False\<rparr>"

definition ZwpTextInputManagerV3_decls :: decls where
  "ZwpTextInputManagerV3_decls =
     \<lparr>dc_name = ZwpTextInputManagerV3InterfaceName, dc_handlers = ZwpTextInputManagerV3_struct,
      dc_events =
        [],
      dc_setters =
        [],
      dc_enums =
        [],
      dc_destroy = False\<rparr>"

definition declared :: "iface \<Rightarrow> decls option" where
  "declared t = (case t of
      Display \<Rightarrow> Some Display_decls
    | Registry \<Rightarrow> Some Registry_decls
    | Callback \<Rightarrow> Some Callback_decls
    | Compositor \<Rightarrow> Some Compositor_decls
    | ShmPool \<Rightarrow> Some ShmPool_decls
    | Shm \<Rightarrow> Some Shm_decls
    | Buffer \<Rightarrow> Some Buffer_decls
    | DataOffer \<Rightarrow> Some DataOffer_decls
    | DataSource \<Rightarrow> Some DataSource_decls
    | DataDevice \<Rightarrow> Some DataDevice_decls
    | DataDeviceManager \<Rightarrow> Some DataDeviceManager_decls
    | Shell \<Rightarrow> Some Shell_decls
    | ShellSurface \<Rightarrow> Some ShellSurface_decls
    | Surface \<Rightarrow> Some Surface_decls
    | Seat \<Rightarrow> Some Seat_decls
    | Pointer \<Rightarrow> Some Pointer_decls
    | Keyboard \<Rightarrow> Some Keyboard_decls
    | Touch \<Rightarrow> Some Touch_decls
    | Output \<Rightarrow> Some Output_decls
    | Region \<Rightarrow> Some Region_decls
    | Subcompositor \<Rightarrow> Some Subcompositor_decls
    | Subsurface \<Rightarrow> Some Subsurface_decls
    | Fixes \<Rightarrow> Some Fixes_decls
    | WpCursorShapeManagerV1 \<Rightarrow> Some WpCursorShapeManagerV1_decls
    | WpCursorShapeDeviceV1 \<Rightarrow> Some WpCursorShapeDeviceV1_decls
    | ExtIdleNotifierV1 \<Rightarrow> Some ExtIdleNotifierV1_decls
    | ExtIdleNotificationV1 \<Rightarrow> Some ExtIdleNotificationV1_decls
    | ExtSessionLockManagerV1 \<Rightarrow> Some ExtSessionLockManagerV1_decls
    | ExtSessionLockV1 \<Rightarrow> Some ExtSessionLockV1_decls
    | ExtSessionLockSurfaceV1 \<Rightarrow> Some ExtSessionLockSurfaceV1_decls
    | ZwpTabletManagerV2 \<Rightarrow> Some ZwpTabletManagerV2_decls
    | ZwpTabletSeatV2 \<Rightarrow> Some ZwpTabletSeatV2_decls
    | ZwpTabletToolV2 \<Rightarrow> Some ZwpTabletToolV2_decls
    | ZwpTabletV2 \<Rightarrow> Some ZwpTabletV2_decls
    | ZwpTabletPadRingV2 \<Rightarrow> Some ZwpTabletPadRingV2_decls
    | ZwpTabletPadStripV2 \<Rightarrow> Some ZwpTabletPadStripV2_decls
    | ZwpTabletPadGroupV2 \<Rightarrow> Some ZwpTabletPadGroupV2_decls
    | ZwpTabletPadV2 \<Rightarrow> Some ZwpTabletPadV2_decls
    | ZwpTextInputV3 \<Rightarrow> Some ZwpTextInputV3_decls
    | ZwpTextInputManagerV3 \<Rightarrow> Some ZwpTextInputManagerV3_decls
    | _ \<Rightarrow> None)"

section \<open>Functions\<close>

definition setters :: "iface \<Rightarrow> (string \<times> (ref \<Rightarrow> hid option \<Rightarrow> ('k world, unit) go)) list" where
  "setters t = (case t of
      Display \<Rightarrow>
        [(''SetErrorHandler'', Display_SetErrorHandler), (''SetDeleteIdHandler'', Display_SetDeleteIdHandler)]
    | Registry \<Rightarrow>
        [(''SetGlobalHandler'', Registry_SetGlobalHandler), (''SetGlobalRemoveHandler'', Registry_SetGlobalRemoveHandler)]
    | Callback \<Rightarrow>
        [(''SetDoneHandler'', Callback_SetDoneHandler)]
    | Shm \<Rightarrow>
        [(''SetFormatHandler'', Shm_SetFormatHandler)]
    | Buffer \<Rightarrow>
        [(''SetReleaseHandler'', Buffer_SetReleaseHandler)]
    | DataOffer \<Rightarrow>
        [(''SetOfferHandler'', DataOffer_SetOfferHandler), (''SetSourceActionsHandler'', DataOffer_SetSourceActionsHandler),
         (''SetActionHandler'', DataOffer_SetActionHandler)]
    | DataSource \<Rightarrow>
        [(''SetTargetHandler'', DataSource_SetTargetHandler), (''SetSendHandler'', DataSource_SetSendHandler),
         (''SetCancelledHandler'', DataSource_SetCancelledHandler),
         (''SetDndDropPerformedHandler'', DataSource_SetDndDropPerformedHandler),
         (''SetDndFinishedHandler'', DataSource_SetDndFinishedHandler), (''SetActionHandler'', DataSource_SetActionHandler)]
    | DataDevice \<Rightarrow>
        [(''SetDataOfferHandler'', DataDevice_SetDataOfferHandler), (''SetEnterHandler'', DataDevice_SetEnterHandler),
         (''SetLeaveHandler'', DataDevice_SetLeaveHandler), (''SetMotionHandler'', DataDevice_SetMotionHandler),
         (''SetDropHandler'', DataDevice_SetDropHandler), (''SetSelectionHandler'', DataDevice_SetSelectionHandler)]
    | ShellSurface \<Rightarrow>
        [(''SetPingHandler'', ShellSurface_SetPingHandler), (''SetConfigureHandler'', ShellSurface_SetConfigureHandler),
         (''SetPopupDoneHandler'', ShellSurface_SetPopupDoneHandler)]
    | Surface \<Rightarrow>
        [(''SetEnterHandler'', Surface_SetEnterHandler), (''SetLeaveHandler'', Surface_SetLeaveHandler),
         (''SetPreferredBufferScaleHandler'', Surface_SetPreferredBufferScaleHandler),
         (''SetPreferredBufferTransformHandler'', Surface_SetPreferredBufferTransformHandler)]
    | Seat \<Rightarrow>
        [(''SetCapabilitiesHandler'', Seat_SetCapabilitiesHandler), (''SetNameHandler'', Seat_SetNameHandler)]
    | Pointer \<Rightarrow>
        [(''SetEnterHandler'', Pointer_SetEnterHandler), (''SetLeaveHandler'', Pointer_SetLeaveHandler),
         (''SetMotionHandler'', Pointer_SetMotionHandler), (''SetButtonHandler'', Pointer_SetButtonHandler),
         (''SetAxisHandler'', Pointer_SetAxisHandler), (''SetFrameHandler'', Pointer_SetFrameHandler),
         (''SetAxisSourceHandler'', Pointer_SetAxisSourceHandler), (''SetAxisStopHandler'', Pointer_SetAxisStopHandler),
         (''SetAxisDiscreteHandler'', Pointer_SetAxisDiscreteHandler),
         (''SetAxisValue120Handler'', Pointer_SetAxisValue120Handler),
         (''SetAxisRelativeDirectionHandler'', Pointer_SetAxisRelativeDirectionHandler)]
    | Keyboard \<Rightarrow>
        [(''SetKeymapHandler'', Keyboard_SetKeymapHandler), (''SetEnterHandler'', Keyboard_SetEnterHandler),
         (''SetLeaveHandler'', Keyboard_SetLeaveHandler), (''SetKeyHandler'', Keyboard_SetKeyHandler),
         (''SetModifiersHandler'', Keyboard_SetModifiersHandler), (''SetRepeatInfoHandler'', Keyboard_SetRepeatInfoHandler)]
    | Touch \<Rightarrow>
        [(''SetDownHandler'', Touch_SetDownHandler), (''SetUpHandler'', Touch_SetUpHandler),
         (''SetMotionHandler'', Touch_SetMotionHandler), (''SetFrameHandler'', Touch_SetFrameHandler),
         (''SetCancelHandler'', Touch_SetCancelHandler), (''SetShapeHandler'', Touch_SetShapeHandler),
         (''SetOrientationHandler'', Touch_SetOrientationHandler)]
    | Output \<Rightarrow>
        [(''SetGeometryHandler'', Output_SetGeometryHandler), (''SetModeHandler'', Output_SetModeHandler),
         (''SetDoneHandler'', Output_SetDoneHandler), (''SetScaleHandler'', Output_SetScaleHandler),
         (''SetNameHandler'', Output_SetNameHandler), (''SetDescriptionHandler'', Output_SetDescriptionHandler)]
    | ExtIdleNotificationV1 \<Rightarrow>
        [(''SetIdledHandler'', ExtIdleNotificationV1_SetIdledHandler),
         (''SetResumedHandler'', ExtIdleNotificationV1_SetResumedHandler)]
    | ExtSessionLockV1 \<Rightarrow>
        [(''SetLockedHandler'', ExtSessionLockV1_SetLockedHandler),
         (''SetFinishedHandler'', ExtSessionLockV1_SetFinishedHandler)]
    | ExtSessionLockSurfaceV1 \<Rightarrow>
        [(''SetConfigureHandler'', ExtSessionLockSurfaceV1_SetConfigureHandler)]
    | ZwpTabletSeatV2 \<Rightarrow>
        [(''SetTabletAddedHandler'', ZwpTabletSeatV2_SetTabletAddedHandler),
         (''SetToolAddedHandler'', ZwpTabletSeatV2_SetToolAddedHandler),
         (''SetPadAddedHandler'', ZwpTabletSeatV2_SetPadAddedHandler)]
    | ZwpTabletToolV2 \<Rightarrow>
        [(''SetTypeHandler'', ZwpTabletToolV2_SetTypeHandler),
         (''SetHardwareSerialHandler'', ZwpTabletToolV2_SetHardwareSerialHandler),
         (''SetHardwareIdWacomHandler'', ZwpTabletToolV2_SetHardwareIdWacomHandler),
         (''SetCapabilityHandler'', ZwpTabletToolV2_SetCapabilityHandler),
         (''SetDoneHandler'', ZwpTabletToolV2_SetDoneHandler), (''SetRemovedHandler'', ZwpTabletToolV2_SetRemovedHandler),
         (''SetProximityInHandler'', ZwpTabletToolV2_SetProximityInHandler),
         (''SetProximityOutHandler'', ZwpTabletToolV2_SetProximityOutHandler),
         (''SetDownHandler'', ZwpTabletToolV2_SetDownHandler), (''SetUpHandler'', ZwpTabletToolV2_SetUpHandler),
         (''SetMotionHandler'', ZwpTabletToolV2_SetMotionHandler),
         (''SetPressureHandler'', ZwpTabletToolV2_SetPressureHandler),
         (''SetDistanceHandler'', ZwpTabletToolV2_SetDistanceHandler), (''SetTiltHandler'', ZwpTabletToolV2_SetTiltHandler),
         (''SetRotationHandler'', ZwpTabletToolV2_SetRotationHandler),
         (''SetSliderHandler'', ZwpTabletToolV2_SetSliderHandler), (''SetWheelHandler'', ZwpTabletToolV2_SetWheelHandler),
         (''SetButtonHandler'', ZwpTabletToolV2_SetButtonHandler), (''SetFrameHandler'', ZwpTabletToolV2_SetFrameHandler)]
    | ZwpTabletV2 \<Rightarrow>
        [(''SetNameHandler'', ZwpTabletV2_SetNameHandler), (''SetIdHandler'', ZwpTabletV2_SetIdHandler),
         (''SetPathHandler'', ZwpTabletV2_SetPathHandler), (''SetDoneHandler'', ZwpTabletV2_SetDoneHandler),
         (''SetRemovedHandler'', ZwpTabletV2_SetRemovedHandler)]
    | ZwpTabletPadRingV2 \<Rightarrow>
        [(''SetSourceHandler'', ZwpTabletPadRingV2_SetSourceHandler),
         (''SetAngleHandler'', ZwpTabletPadRingV2_SetAngleHandler), (''SetStopHandler'', ZwpTabletPadRingV2_SetStopHandler),
         (''SetFrameHandler'', ZwpTabletPadRingV2_SetFrameHandler)]
    | ZwpTabletPadStripV2 \<Rightarrow>
        [(''SetSourceHandler'', ZwpTabletPadStripV2_SetSourceHandler),
         (''SetPositionHandler'', ZwpTabletPadStripV2_SetPositionHandler),
         (''SetStopHandler'', ZwpTabletPadStripV2_SetStopHandler),
         (''SetFrameHandler'', ZwpTabletPadStripV2_SetFrameHandler)]
    | ZwpTabletPadGroupV2 \<Rightarrow>
        [(''SetButtonsHandler'', ZwpTabletPadGroupV2_SetButtonsHandler),
         (''SetRingHandler'', ZwpTabletPadGroupV2_SetRingHandler),
         (''SetStripHandler'', ZwpTabletPadGroupV2_SetStripHandler),
         (''SetModesHandler'', ZwpTabletPadGroupV2_SetModesHandler),
         (''SetDoneHandler'', ZwpTabletPadGroupV2_SetDoneHandler),
         (''SetModeSwitchHandler'', ZwpTabletPadGroupV2_SetModeSwitchHandler)]
    | ZwpTabletPadV2 \<Rightarrow>
        [(''SetGroupHandler'', ZwpTabletPadV2_SetGroupHandler), (''SetPathHandler'', ZwpTabletPadV2_SetPathHandler),
         (''SetButtonsHandler'', ZwpTabletPadV2_SetButtonsHandler), (''SetDoneHandler'', ZwpTabletPadV2_SetDoneHandler),
         (''SetButtonHandler'', ZwpTabletPadV2_SetButtonHandler), (''SetEnterHandler'', ZwpTabletPadV2_SetEnterHandler),
         (''SetLeaveHandler'', ZwpTabletPadV2_SetLeaveHandler), (''SetRemovedHandler'', ZwpTabletPadV2_SetRemovedHandler)]
    | ZwpTextInputV3 \<Rightarrow>
        [(''SetEnterHandler'', ZwpTextInputV3_SetEnterHandler), (''SetLeaveHandler'', ZwpTextInputV3_SetLeaveHandler),
         (''SetPreeditStringHandler'', ZwpTextInputV3_SetPreeditStringHandler),
         (''SetCommitStringHandler'', ZwpTextInputV3_SetCommitStringHandler),
         (''SetDeleteSurroundingTextHandler'', ZwpTextInputV3_SetDeleteSurroundingTextHandler),
         (''SetDoneHandler'', ZwpTextInputV3_SetDoneHandler)]
    | _ \<Rightarrow> [])"

definition enum_types :: "iface \<Rightarrow> (string \<times> (u32 \<Rightarrow> string) \<times> (u32 \<Rightarrow> string) \<times> (u32 \<Rightarrow> string)) list" where
  "enum_types t = (case t of
      Display \<Rightarrow>
        [(''DisplayError'', DisplayError_Name, DisplayError_Value, DisplayError_String)]
    | Shm \<Rightarrow>
        [(''ShmError'', ShmError_Name, ShmError_Value, ShmError_String),
         (''ShmFormat'', ShmFormat_Name, ShmFormat_Value, ShmFormat_String)]
    | DataOffer \<Rightarrow>
        [(''DataOfferError'', DataOfferError_Name, DataOfferError_Value, DataOfferError_String)]
    | DataSource \<Rightarrow>
        [(''DataSourceError'', DataSourceError_Name, DataSourceError_Value, DataSourceError_String)]
    | DataDevice \<Rightarrow>
        [(''DataDeviceError'', DataDeviceError_Name, DataDeviceError_Value, DataDeviceError_String)]
    | DataDeviceManager \<Rightarrow>
        [
         (''DataDeviceManagerDndAction'', DataDeviceManagerDndAction_Name, DataDeviceManagerDndAction_Value, DataDeviceManagerDndAction_String)]
    | Shell \<Rightarrow>
        [(''ShellError'', ShellError_Name, ShellError_Value, ShellError_String)]
    | ShellSurface \<Rightarrow>
        [(''ShellSurfaceResize'', ShellSurfaceResize_Name, ShellSurfaceResize_Value, ShellSurfaceResize_String),
         (''ShellSurfaceTransient'', ShellSurfaceTransient_Name, ShellSurfaceTransient_Value, ShellSurfaceTransient_String),
         (''ShellSurfaceFullscreenMethod'', ShellSurfaceFullscreenMethod_Name, ShellSurfaceFullscreenMethod_Value, ShellSurfaceFullscreenMethod_String)]
    | Surface \<Rightarrow>
        [(''SurfaceError'', SurfaceError_Name, SurfaceError_Value, SurfaceError_String)]
    | Seat \<Rightarrow>
        [(''SeatCapability'', SeatCapability_Name, SeatCapability_Value, SeatCapability_String),
         (''SeatError'', SeatError_Name, SeatError_Value, SeatError_String)]
    | Pointer \<Rightarrow>
        [(''PointerError'', PointerError_Name, PointerError_Value, PointerError_String),
         (''PointerButtonState'', PointerButtonState_Name, PointerButtonState_Value, PointerButtonState_String),
         (''PointerAxis'', PointerAxis_Name, PointerAxis_Value, PointerAxis_String),
         (''PointerAxisSource'', PointerAxisSource_Name, PointerAxisSource_Value, PointerAxisSource_String),
         (''PointerAxisRelativeDirection'', PointerAxisRelativeDirection_Name, PointerAxisRelativeDirection_Value, PointerAxisRelativeDirection_String)]
    | Keyboard \<Rightarrow>
        [(''KeyboardKeymapFormat'', KeyboardKeymapFormat_Name, KeyboardKeymapFormat_Value, KeyboardKeymapFormat_String),
         (''KeyboardKeyState'', KeyboardKeyState_Name, KeyboardKeyState_Value, KeyboardKeyState_String)]
    | Output \<Rightarrow>
        [(''OutputSubpixel'', OutputSubpixel_Name, OutputSubpixel_Value, OutputSubpixel_String),
         (''OutputTransform'', OutputTransform_Name, OutputTransform_Value, OutputTransform_String),
         (''OutputMode'', OutputMode_Name, OutputMode_Value, OutputMode_String)]
    | Subcompositor \<Rightarrow>
        [(''SubcompositorError'', SubcompositorError_Name, SubcompositorError_Value, SubcompositorError_String)]
    | Subsurface \<Rightarrow>
        [(''SubsurfaceError'', SubsurfaceError_Name, SubsurfaceError_Value, SubsurfaceError_String)]
    | WpCursorShapeDeviceV1 \<Rightarrow>
        [
         (''WpCursorShapeDeviceV1Shape'', WpCursorShapeDeviceV1Shape_Name, WpCursorShapeDeviceV1Shape_Value, WpCursorShapeDeviceV1Shape_String),
         (''WpCursorShapeDeviceV1Error'', WpCursorShapeDeviceV1Error_Name, WpCursorShapeDeviceV1Error_Value, WpCursorShapeDeviceV1Error_String)]
    | ExtSessionLockV1 \<Rightarrow>
        [(''ExtSessionLockV1Error'', ExtSessionLockV1Error_Name, ExtSessionLockV1Error_Value, ExtSessionLockV1Error_String)]
    | ExtSessionLockSurfaceV1 \<Rightarrow>
        [
         (''ExtSessionLockSurfaceV1Error'', ExtSessionLockSurfaceV1Error_Name, ExtSessionLockSurfaceV1Error_Value, ExtSessionLockSurfaceV1Error_String)]
    | ZwpTabletToolV2 \<Rightarrow>
        [(''ZwpTabletToolV2Type'', ZwpTabletToolV2Type_Name, ZwpTabletToolV2Type_Value, ZwpTabletToolV2Type_String),
         (''ZwpTabletToolV2Capability'', ZwpTabletToolV2Capability_Name, ZwpTabletToolV2Capability_Value, ZwpTabletToolV2Capability_String),
         (''ZwpTabletToolV2ButtonState'', ZwpTabletToolV2ButtonState_Name, ZwpTabletToolV2ButtonState_Value, ZwpTabletToolV2ButtonState_String),
         (''ZwpTabletToolV2Error'', ZwpTabletToolV2Error_Name, ZwpTabletToolV2Error_Value, ZwpTabletToolV2Error_String)]
    | ZwpTabletPadRingV2 \<Rightarrow>
        [
         (''ZwpTabletPadRingV2Source'', ZwpTabletPadRingV2Source_Name, ZwpTabletPadRingV2Source_Value, ZwpTabletPadRingV2Source_String)]
    | ZwpTabletPadStripV2 \<Rightarrow>
        [
         (''ZwpTabletPadStripV2Source'', ZwpTabletPadStripV2Source_Name, ZwpTabletPadStripV2Source_Value, ZwpTabletPadStripV2Source_String)]
    | ZwpTabletPadV2 \<Rightarrow>
        [
         (''ZwpTabletPadV2ButtonState'', ZwpTabletPadV2ButtonState_Name, ZwpTabletPadV2ButtonState_Value, ZwpTabletPadV2ButtonState_String)]
    | ZwpTextInputV3 \<Rightarrow>
        [
         (''ZwpTextInputV3ChangeCause'', ZwpTextInputV3ChangeCause_Name, ZwpTextInputV3ChangeCause_Value, ZwpTextInputV3ChangeCause_String),
         (''ZwpTextInputV3ContentHint'', ZwpTextInputV3ContentHint_Name, ZwpTextInputV3ContentHint_Value, ZwpTextInputV3ContentHint_String),
         (''ZwpTextInputV3ContentPurpose'', ZwpTextInputV3ContentPurpose_Name, ZwpTextInputV3ContentPurpose_Value, ZwpTextInputV3ContentPurpose_String)]
    | _ \<Rightarrow> [])"

definition local_Destroy :: "iface \<Rightarrow> (ref \<Rightarrow> ('k world, gerr option) go) option" where
  "local_Destroy t = (case t of
      Display \<Rightarrow>
        Some Display_Destroy
    | Registry \<Rightarrow>
        Some Registry_Destroy
    | Callback \<Rightarrow>
        Some Callback_Destroy
    | Compositor \<Rightarrow>
        Some Compositor_Destroy
    | DataDeviceManager \<Rightarrow>
        Some DataDeviceManager_Destroy
    | Shell \<Rightarrow>
        Some Shell_Destroy
    | ShellSurface \<Rightarrow>
        Some ShellSurface_Destroy
    | _ \<Rightarrow> None)"

definition constructor :: "iface \<Rightarrow> ('k world, ref) go option" where
  "constructor t = (case t of
      Display \<Rightarrow>
        Some NewDisplay
    | Registry \<Rightarrow>
        Some NewRegistry
    | Callback \<Rightarrow>
        Some NewCallback
    | Compositor \<Rightarrow>
        Some NewCompositor
    | ShmPool \<Rightarrow>
        Some NewShmPool
    | Shm \<Rightarrow>
        Some NewShm
    | Buffer \<Rightarrow>
        Some NewBuffer
    | DataOffer \<Rightarrow>
        Some NewDataOffer
    | DataSource \<Rightarrow>
        Some NewDataSource
    | DataDevice \<Rightarrow>
        Some NewDataDevice
    | DataDeviceManager \<Rightarrow>
        Some NewDataDeviceManager
    | Shell \<Rightarrow>
        Some NewShell
    | ShellSurface \<Rightarrow>
        Some NewShellSurface
    | Surface \<Rightarrow>
        Some NewSurface
    | Seat \<Rightarrow>
        Some NewSeat
    | Pointer \<Rightarrow>
        Some NewPointer
    | Keyboard \<Rightarrow>
        Some NewKeyboard
    | Touch \<Rightarrow>
        Some NewTouch
    | Output \<Rightarrow>
        Some NewOutput
    | Region \<Rightarrow>
        Some NewRegion
    | Subcompositor \<Rightarrow>
        Some NewSubcompositor
    | Subsurface \<Rightarrow>
        Some NewSubsurface
    | Fixes \<Rightarrow>
        Some NewFixes
    | WpCursorShapeManagerV1 \<Rightarrow>
        Some NewWpCursorShapeManagerV1
    | WpCursorShapeDeviceV1 \<Rightarrow>
        Some NewWpCursorShapeDeviceV1
    | ExtIdleNotifierV1 \<Rightarrow>
        Some NewExtIdleNotifierV1
    | ExtIdleNotificationV1 \<Rightarrow>
        Some NewExtIdleNotificationV1
    | ExtSessionLockManagerV1 \<Rightarrow>
        Some NewExtSessionLockManagerV1
    | ExtSessionLockV1 \<Rightarrow>
        Some NewExtSessionLockV1
    | ExtSessionLockSurfaceV1 \<Rightarrow>
        Some NewExtSessionLockSurfaceV1
    | ZwpTabletManagerV2 \<Rightarrow>
        Some NewZwpTabletManagerV2
    | ZwpTabletSeatV2 \<Rightarrow>
        Some NewZwpTabletSeatV2
    | ZwpTabletToolV2 \<Rightarrow>
        Some NewZwpTabletToolV2
    | ZwpTabletV2 \<Rightarrow>
        Some NewZwpTabletV2
    | ZwpTabletPadRingV2 \<Rightarrow>
        Some NewZwpTabletPadRingV2
    | ZwpTabletPadStripV2 \<Rightarrow>
        Some NewZwpTabletPadStripV2
    | ZwpTabletPadGroupV2 \<Rightarrow>
        Some NewZwpTabletPadGroupV2
    | ZwpTabletPadV2 \<Rightarrow>
        Some NewZwpTabletPadV2
    | ZwpTextInputV3 \<Rightarrow>
        Some NewZwpTextInputV3
    | ZwpTextInputManagerV3 \<Rightarrow>
        Some NewZwpTextInputManagerV3
    | _ \<Rightarrow> None)"

section \<open>The functions do what is declared\<close>

lemmas decls_defs =
  Display_decls_def Registry_decls_def Callback_decls_def Compositor_decls_def
  ShmPool_decls_def Shm_decls_def Buffer_decls_def DataOffer_decls_def
  DataSource_decls_def DataDevice_decls_def DataDeviceManager_decls_def Shell_decls_def
  ShellSurface_decls_def Surface_decls_def Seat_decls_def Pointer_decls_def
  Keyboard_decls_def Touch_decls_def Output_decls_def Region_decls_def
  Subcompositor_decls_def Subsurface_decls_def Fixes_decls_def WpCursorShapeManagerV1_decls_def
  WpCursorShapeDeviceV1_decls_def ExtIdleNotifierV1_decls_def ExtIdleNotificationV1_decls_def ExtSessionLockManagerV1_decls_def
  ExtSessionLockV1_decls_def ExtSessionLockSurfaceV1_decls_def ZwpTabletManagerV2_decls_def ZwpTabletSeatV2_decls_def
  ZwpTabletToolV2_decls_def ZwpTabletV2_decls_def ZwpTabletPadRingV2_decls_def ZwpTabletPadStripV2_decls_def
  ZwpTabletPadGroupV2_decls_def ZwpTabletPadV2_decls_def ZwpTextInputV3_decls_def ZwpTextInputManagerV3_decls_def

lemma setters_declared: "declared t = Some d \<Longrightarrow> setters t = emitted_setters d"
  by (cases t) (auto simp: declared_def setters_def emitted_setters_def decls_defs fun_eq_iff
    Display_SetErrorHandler_def Display_SetDeleteIdHandler_def Registry_SetGlobalHandler_def
    Registry_SetGlobalRemoveHandler_def Callback_SetDoneHandler_def Shm_SetFormatHandler_def
    Buffer_SetReleaseHandler_def DataOffer_SetOfferHandler_def DataOffer_SetSourceActionsHandler_def
    DataOffer_SetActionHandler_def DataSource_SetTargetHandler_def DataSource_SetSendHandler_def
    DataSource_SetCancelledHandler_def DataSource_SetDndDropPerformedHandler_def DataSource_SetDndFinishedHandler_def
    DataSource_SetActionHandler_def DataDevice_SetDataOfferHandler_def DataDevice_SetEnterHandler_def
    DataDevice_SetLeaveHandler_def DataDevice_SetMotionHandler_def DataDevice_SetDropHandler_def
    DataDevice_SetSelectionHandler_def ShellSurface_SetPingHandler_def ShellSurface_SetConfigureHandler_def
    ShellSurface_SetPopupDoneHandler_def Surface_SetEnterHandler_def Surface_SetLeaveHandler_def
    Surface_SetPreferredBufferScaleHandler_def Surface_SetPreferredBufferTransformHandler_def Seat_SetCapabilitiesHandler_def
    Seat_SetNameHandler_def Pointer_SetEnterHandler_def Pointer_SetLeaveHandler_def
    Pointer_SetMotionHandler_def Pointer_SetButtonHandler_def Pointer_SetAxisHandler_def
    Pointer_SetFrameHandler_def Pointer_SetAxisSourceHandler_def Pointer_SetAxisStopHandler_def
    Pointer_SetAxisDiscreteHandler_def Pointer_SetAxisValue120Handler_def Pointer_SetAxisRelativeDirectionHandler_def
    Keyboard_SetKeymapHandler_def Keyboard_SetEnterHandler_def Keyboard_SetLeaveHandler_def
    Keyboard_SetKeyHandler_def Keyboard_SetModifiersHandler_def Keyboard_SetRepeatInfoHandler_def
    Touch_SetDownHandler_def Touch_SetUpHandler_def Touch_SetMotionHandler_def
    Touch_SetFrameHandler_def Touch_SetCancelHandler_def Touch_SetShapeHandler_def
    Touch_SetOrientationHandler_def Output_SetGeometryHandler_def Output_SetModeHandler_def
    Output_SetDoneHandler_def Output_SetScaleHandler_def Output_SetNameHandler_def
    Output_SetDescriptionHandler_def ExtIdleNotificationV1_SetIdledHandler_def ExtIdleNotificationV1_SetResumedHandler_def
    ExtSessionLockV1_SetLockedHandler_def ExtSessionLockV1_SetFinishedHandler_def ExtSessionLockSurfaceV1_SetConfigureHandler_def
    ZwpTabletSeatV2_SetTabletAddedHandler_def ZwpTabletSeatV2_SetToolAddedHandler_def ZwpTabletSeatV2_SetPadAddedHandler_def
    ZwpTabletToolV2_SetTypeHandler_def ZwpTabletToolV2_SetHardwareSerialHandler_def ZwpTabletToolV2_SetHardwareIdWacomHandler_def
    ZwpTabletToolV2_SetCapabilityHandler_def ZwpTabletToolV2_SetDoneHandler_def ZwpTabletToolV2_SetRemovedHandler_def
    ZwpTabletToolV2_SetProximityInHandler_def ZwpTabletToolV2_SetProximityOutHandler_def ZwpTabletToolV2_SetDownHandler_def
    ZwpTabletToolV2_SetUpHandler_def ZwpTabletToolV2_SetMotionHandler_def ZwpTabletToolV2_SetPressureHandler_def
    ZwpTabletToolV2_SetDistanceHandler_def ZwpTabletToolV2_SetTiltHandler_def ZwpTabletToolV2_SetRotationHandler_def
    ZwpTabletToolV2_SetSliderHandler_def ZwpTabletToolV2_SetWheelHandler_def ZwpTabletToolV2_SetButtonHandler_def
    ZwpTabletToolV2_SetFrameHandler_def ZwpTabletV2_SetNameHandler_def ZwpTabletV2_SetIdHandler_def
    ZwpTabletV2_SetPathHandler_def ZwpTabletV2_SetDoneHandler_def ZwpTabletV2_SetRemovedHandler_def
    ZwpTabletPadRingV2_SetSourceHandler_def ZwpTabletPadRingV2_SetAngleHandler_def ZwpTabletPadRingV2_SetStopHandler_def
    ZwpTabletPadRingV2_SetFrameHandler_def ZwpTabletPadStripV2_SetSourceHandler_def ZwpTabletPadStripV2_SetPositionHandler_def
    ZwpTabletPadStripV2_SetStopHandler_def ZwpTabletPadStripV2_SetFrameHandler_def ZwpTabletPadGroupV2_SetButtonsHandler_def
    ZwpTabletPadGroupV2_SetRingHandler_def ZwpTabletPadGroupV2_SetStripHandler_def ZwpTabletPadGroupV2_SetModesHandler_def
    ZwpTabletPadGroupV2_SetDoneHandler_def ZwpTabletPadGroupV2_SetModeSwitchHandler_def ZwpTabletPadV2_SetGroupHandler_def
    ZwpTabletPadV2_SetPathHandler_def ZwpTabletPadV2_SetButtonsHandler_def ZwpTabletPadV2_SetDoneHandler_def
    ZwpTabletPadV2_SetButtonHandler_def ZwpTabletPadV2_SetEnterHandler_def ZwpTabletPadV2_SetLeaveHandler_def
    ZwpTabletPadV2_SetRemovedHandler_def ZwpTextInputV3_SetEnterHandler_def ZwpTextInputV3_SetLeaveHandler_def
    ZwpTextInputV3_SetPreeditStringHandler_def ZwpTextInputV3_SetCommitStringHandler_def ZwpTextInputV3_SetDeleteSurroundingTextHandler_def
    ZwpTextInputV3_SetDoneHandler_def)

lemma enums_declared: "declared t = Some d \<Longrightarrow> enum_types t = emitted_enums d"
  by (cases t) (auto simp: declared_def enum_types_def emitted_enums_def decls_defs fun_eq_iff
    DisplayError_Name_def DisplayError_Value_def DisplayError_String_def
    ShmError_Name_def ShmError_Value_def ShmError_String_def
    ShmFormat_Name_def ShmFormat_Value_def ShmFormat_String_def
    DataOfferError_Name_def DataOfferError_Value_def DataOfferError_String_def
    DataSourceError_Name_def DataSourceError_Value_def DataSourceError_String_def
    DataDeviceError_Name_def DataDeviceError_Value_def DataDeviceError_String_def
    DataDeviceManagerDndAction_Name_def DataDeviceManagerDndAction_Value_def DataDeviceManagerDndAction_String_def
    ShellError_Name_def ShellError_Value_def ShellError_String_def
    ShellSurfaceResize_Name_def ShellSurfaceResize_Value_def ShellSurfaceResize_String_def
    ShellSurfaceTransient_Name_def ShellSurfaceTransient_Value_def ShellSurfaceTransient_String_def
    ShellSurfaceFullscreenMethod_Name_def ShellSurfaceFullscreenMethod_Value_def ShellSurfaceFullscreenMethod_String_def
    SurfaceError_Name_def SurfaceError_Value_def SurfaceError_String_def
    SeatCapability_Name_def SeatCapability_Value_def SeatCapability_String_def
    SeatError_Name_def SeatError_Value_def SeatError_String_def
    PointerError_Name_def PointerError_Value_def PointerError_String_def
    PointerButtonState_Name_def PointerButtonState_Value_def PointerButtonState_String_def
    PointerAxis_Name_def PointerAxis_Value_def PointerAxis_String_def
    PointerAxisSource_Name_def PointerAxisSource_Value_def PointerAxisSource_String_def
    PointerAxisRelativeDirection_Name_def PointerAxisRelativeDirection_Value_def PointerAxisRelativeDirection_String_def
    KeyboardKeymapFormat_Name_def KeyboardKeymapFormat_Value_def KeyboardKeymapFormat_String_def
    KeyboardKeyState_Name_def KeyboardKeyState_Value_def KeyboardKeyState_String_def
    OutputSubpixel_Name_def OutputSubpixel_Value_def OutputSubpixel_String_def
    OutputTransform_Name_def OutputTransform_Value_def OutputTransform_String_def
    OutputMode_Name_def OutputMode_Value_def OutputMode_String_def
    SubcompositorError_Name_def SubcompositorError_Value_def SubcompositorError_String_def
    SubsurfaceError_Name_def SubsurfaceError_Value_def SubsurfaceError_String_def
    WpCursorShapeDeviceV1Shape_Name_def WpCursorShapeDeviceV1Shape_Value_def WpCursorShapeDeviceV1Shape_String_def
    WpCursorShapeDeviceV1Error_Name_def WpCursorShapeDeviceV1Error_Value_def WpCursorShapeDeviceV1Error_String_def
    ExtSessionLockV1Error_Name_def ExtSessionLockV1Error_Value_def ExtSessionLockV1Error_String_def
    ExtSessionLockSurfaceV1Error_Name_def ExtSessionLockSurfaceV1Error_Value_def ExtSessionLockSurfaceV1Error_String_def
    ZwpTabletToolV2Type_Name_def ZwpTabletToolV2Type_Value_def ZwpTabletToolV2Type_String_def
    ZwpTabletToolV2Capability_Name_def ZwpTabletToolV2Capability_Value_def ZwpTabletToolV2Capability_String_def
    ZwpTabletToolV2ButtonState_Name_def ZwpTabletToolV2ButtonState_Value_def ZwpTabletToolV2ButtonState_String_def
    ZwpTabletToolV2Error_Name_def ZwpTabletToolV2Error_Value_def ZwpTabletToolV2Error_String_def
    ZwpTabletPadRingV2Source_Name_def ZwpTabletPadRingV2Source_Value_def ZwpTabletPadRingV2Source_String_def
    ZwpTabletPadStripV2Source_Name_def ZwpTabletPadStripV2Source_Value_def ZwpTabletPadStripV2Source_String_def
    ZwpTabletPadV2ButtonState_Name_def ZwpTabletPadV2ButtonState_Value_def ZwpTabletPadV2ButtonState_String_def
    ZwpTextInputV3ChangeCause_Name_def ZwpTextInputV3ChangeCause_Value_def ZwpTextInputV3ChangeCause_String_def
    ZwpTextInputV3ContentHint_Name_def ZwpTextInputV3ContentHint_Value_def ZwpTextInputV3ContentHint_String_def
    ZwpTextInputV3ContentPurpose_Name_def ZwpTextInputV3ContentPurpose_Value_def ZwpTextInputV3ContentPurpose_String_def)

lemma Destroy_declared: "declared t = Some d \<Longrightarrow> local_Destroy t = emitted_destroy d"
  by (cases t) (auto simp: declared_def local_Destroy_def emitted_destroy_def decls_defs fun_eq_iff
    Callback_Destroy_def Compositor_Destroy_def DataDeviceManager_Destroy_def Display_Destroy_def Registry_Destroy_def Shell_Destroy_def ShellSurface_Destroy_def)

lemma constructor_new: "declared t = Some d \<Longrightarrow> constructor t = Some (New t)"
  by (cases t) (auto simp: declared_def constructor_def
    NewDisplay_def NewRegistry_def NewCallback_def NewCompositor_def
    NewShmPool_def NewShm_def NewBuffer_def NewDataOffer_def
    NewDataSource_def NewDataDevice_def NewDataDeviceManager_def NewShell_def
    NewShellSurface_def NewSurface_def NewSeat_def NewPointer_def
    NewKeyboard_def NewTouch_def NewOutput_def NewRegion_def
    NewSubcompositor_def NewSubsurface_def NewFixes_def NewWpCursorShapeManagerV1_def
    NewWpCursorShapeDeviceV1_def NewExtIdleNotifierV1_def NewExtIdleNotificationV1_def NewExtSessionLockManagerV1_def
    NewExtSessionLockV1_def NewExtSessionLockSurfaceV1_def NewZwpTabletManagerV2_def NewZwpTabletSeatV2_def
    NewZwpTabletToolV2_def NewZwpTabletV2_def NewZwpTabletPadRingV2_def NewZwpTabletPadStripV2_def
    NewZwpTabletPadGroupV2_def NewZwpTabletPadV2_def NewZwpTextInputV3_def NewZwpTextInputManagerV3_def)

end
