(* ===== verification/Valid_Decls.thy ===== *)
theory Valid_Decls
  imports Binding_Decls
begin

text \<open>
  The declarations of the checked-in files are the ones the scanner emits, interface by interface: names, handler fields, event
  structs, setters, enums and local destructors.
\<close>

lemma Display_decls_emitted:
  assumes "scanning wayland_protocol ''wl'' c"
  shows "emitted_decls c wl_display = Display_decls"
  by (rule trans [OF std_emitted_decls [OF assms wayland_names]]; code_simp)

lemma Registry_decls_emitted:
  assumes "scanning wayland_protocol ''wl'' c"
  shows "emitted_decls c wl_registry = Registry_decls"
  by (rule trans [OF std_emitted_decls [OF assms wayland_names]]; code_simp)

lemma Callback_decls_emitted:
  assumes "scanning wayland_protocol ''wl'' c"
  shows "emitted_decls c wl_callback = Callback_decls"
  by (rule trans [OF std_emitted_decls [OF assms wayland_names]]; code_simp)

lemma Compositor_decls_emitted:
  assumes "scanning wayland_protocol ''wl'' c"
  shows "emitted_decls c wl_compositor = Compositor_decls"
  by (rule trans [OF std_emitted_decls [OF assms wayland_names]]; code_simp)

lemma ShmPool_decls_emitted:
  assumes "scanning wayland_protocol ''wl'' c"
  shows "emitted_decls c wl_shm_pool = ShmPool_decls"
  by (rule trans [OF std_emitted_decls [OF assms wayland_names]]; code_simp)

lemma Shm_decls_emitted:
  assumes "scanning wayland_protocol ''wl'' c"
  shows "emitted_decls c wl_shm = Shm_decls"
  by (rule trans [OF std_emitted_decls [OF assms wayland_names]]; code_simp)

lemma Buffer_decls_emitted:
  assumes "scanning wayland_protocol ''wl'' c"
  shows "emitted_decls c wl_buffer = Buffer_decls"
  by (rule trans [OF std_emitted_decls [OF assms wayland_names]]; code_simp)

lemma DataOffer_decls_emitted:
  assumes "scanning wayland_protocol ''wl'' c"
  shows "emitted_decls c wl_data_offer = DataOffer_decls"
  by (rule trans [OF std_emitted_decls [OF assms wayland_names]]; code_simp)

lemma DataSource_decls_emitted:
  assumes "scanning wayland_protocol ''wl'' c"
  shows "emitted_decls c wl_data_source = DataSource_decls"
  by (rule trans [OF std_emitted_decls [OF assms wayland_names]]; code_simp)

lemma DataDevice_decls_emitted:
  assumes "scanning wayland_protocol ''wl'' c"
  shows "emitted_decls c wl_data_device = DataDevice_decls"
  by (rule trans [OF std_emitted_decls [OF assms wayland_names]]; code_simp)

lemma DataDeviceManager_decls_emitted:
  assumes "scanning wayland_protocol ''wl'' c"
  shows "emitted_decls c wl_data_device_manager = DataDeviceManager_decls"
  by (rule trans [OF std_emitted_decls [OF assms wayland_names]]; code_simp)

lemma Shell_decls_emitted:
  assumes "scanning wayland_protocol ''wl'' c"
  shows "emitted_decls c wl_shell = Shell_decls"
  by (rule trans [OF std_emitted_decls [OF assms wayland_names]]; code_simp)

lemma ShellSurface_decls_emitted:
  assumes "scanning wayland_protocol ''wl'' c"
  shows "emitted_decls c wl_shell_surface = ShellSurface_decls"
  by (rule trans [OF std_emitted_decls [OF assms wayland_names]]; code_simp)

lemma Surface_decls_emitted:
  assumes "scanning wayland_protocol ''wl'' c"
  shows "emitted_decls c wl_surface = Surface_decls"
  by (rule trans [OF std_emitted_decls [OF assms wayland_names]]; code_simp)

lemma Seat_decls_emitted:
  assumes "scanning wayland_protocol ''wl'' c"
  shows "emitted_decls c wl_seat = Seat_decls"
  by (rule trans [OF std_emitted_decls [OF assms wayland_names]]; code_simp)

lemma Pointer_decls_emitted:
  assumes "scanning wayland_protocol ''wl'' c"
  shows "emitted_decls c wl_pointer = Pointer_decls"
  by (rule trans [OF std_emitted_decls [OF assms wayland_names]]; code_simp)

lemma Keyboard_decls_emitted:
  assumes "scanning wayland_protocol ''wl'' c"
  shows "emitted_decls c wl_keyboard = Keyboard_decls"
  by (rule trans [OF std_emitted_decls [OF assms wayland_names]]; code_simp)

lemma Touch_decls_emitted:
  assumes "scanning wayland_protocol ''wl'' c"
  shows "emitted_decls c wl_touch = Touch_decls"
  by (rule trans [OF std_emitted_decls [OF assms wayland_names]]; code_simp)

lemma Output_decls_emitted:
  assumes "scanning wayland_protocol ''wl'' c"
  shows "emitted_decls c wl_output = Output_decls"
  by (rule trans [OF std_emitted_decls [OF assms wayland_names]]; code_simp)

lemma Region_decls_emitted:
  assumes "scanning wayland_protocol ''wl'' c"
  shows "emitted_decls c wl_region = Region_decls"
  by (rule trans [OF std_emitted_decls [OF assms wayland_names]]; code_simp)

lemma Subcompositor_decls_emitted:
  assumes "scanning wayland_protocol ''wl'' c"
  shows "emitted_decls c wl_subcompositor = Subcompositor_decls"
  by (rule trans [OF std_emitted_decls [OF assms wayland_names]]; code_simp)

lemma Subsurface_decls_emitted:
  assumes "scanning wayland_protocol ''wl'' c"
  shows "emitted_decls c wl_subsurface = Subsurface_decls"
  by (rule trans [OF std_emitted_decls [OF assms wayland_names]]; code_simp)

lemma Fixes_decls_emitted:
  assumes "scanning wayland_protocol ''wl'' c"
  shows "emitted_decls c wl_fixes = Fixes_decls"
  by (rule trans [OF std_emitted_decls [OF assms wayland_names]]; code_simp)

lemma WpCursorShapeManagerV1_decls_emitted:
  assumes "scanning cursor_shape_v1_protocol '''' c"
  shows "emitted_decls c wp_cursor_shape_manager_v1 = WpCursorShapeManagerV1_decls"
  by (rule trans [OF std_emitted_decls [OF assms cursor_shape_v1_names]]; code_simp)

lemma WpCursorShapeDeviceV1_decls_emitted:
  assumes "scanning cursor_shape_v1_protocol '''' c"
  shows "emitted_decls c wp_cursor_shape_device_v1 = WpCursorShapeDeviceV1_decls"
  by (rule trans [OF std_emitted_decls [OF assms cursor_shape_v1_names]]; code_simp)

lemma ExtIdleNotifierV1_decls_emitted:
  assumes "scanning ext_idle_notify_v1_protocol '''' c"
  shows "emitted_decls c ext_idle_notifier_v1 = ExtIdleNotifierV1_decls"
  by (rule trans [OF std_emitted_decls [OF assms ext_idle_notify_v1_names]]; code_simp)

lemma ExtIdleNotificationV1_decls_emitted:
  assumes "scanning ext_idle_notify_v1_protocol '''' c"
  shows "emitted_decls c ext_idle_notification_v1 = ExtIdleNotificationV1_decls"
  by (rule trans [OF std_emitted_decls [OF assms ext_idle_notify_v1_names]]; code_simp)

lemma ExtSessionLockManagerV1_decls_emitted:
  assumes "scanning ext_session_lock_v1_protocol '''' c"
  shows "emitted_decls c ext_session_lock_manager_v1 = ExtSessionLockManagerV1_decls"
  by (rule trans [OF std_emitted_decls [OF assms ext_session_lock_v1_names]]; code_simp)

lemma ExtSessionLockV1_decls_emitted:
  assumes "scanning ext_session_lock_v1_protocol '''' c"
  shows "emitted_decls c ext_session_lock_v1 = ExtSessionLockV1_decls"
  by (rule trans [OF std_emitted_decls [OF assms ext_session_lock_v1_names]]; code_simp)

lemma ExtSessionLockSurfaceV1_decls_emitted:
  assumes "scanning ext_session_lock_v1_protocol '''' c"
  shows "emitted_decls c ext_session_lock_surface_v1 = ExtSessionLockSurfaceV1_decls"
  by (rule trans [OF std_emitted_decls [OF assms ext_session_lock_v1_names]]; code_simp)

lemma ZwpTabletManagerV2_decls_emitted:
  assumes "scanning tablet_v2_protocol '''' c"
  shows "emitted_decls c zwp_tablet_manager_v2 = ZwpTabletManagerV2_decls"
  by (rule trans [OF std_emitted_decls [OF assms tablet_v2_names]]; code_simp)

lemma ZwpTabletSeatV2_decls_emitted:
  assumes "scanning tablet_v2_protocol '''' c"
  shows "emitted_decls c zwp_tablet_seat_v2 = ZwpTabletSeatV2_decls"
  by (rule trans [OF std_emitted_decls [OF assms tablet_v2_names]]; code_simp)

lemma ZwpTabletToolV2_decls_emitted:
  assumes "scanning tablet_v2_protocol '''' c"
  shows "emitted_decls c zwp_tablet_tool_v2 = ZwpTabletToolV2_decls"
  by (rule trans [OF std_emitted_decls [OF assms tablet_v2_names]]; code_simp)

lemma ZwpTabletV2_decls_emitted:
  assumes "scanning tablet_v2_protocol '''' c"
  shows "emitted_decls c zwp_tablet_v2 = ZwpTabletV2_decls"
  by (rule trans [OF std_emitted_decls [OF assms tablet_v2_names]]; code_simp)

lemma ZwpTabletPadRingV2_decls_emitted:
  assumes "scanning tablet_v2_protocol '''' c"
  shows "emitted_decls c zwp_tablet_pad_ring_v2 = ZwpTabletPadRingV2_decls"
  by (rule trans [OF std_emitted_decls [OF assms tablet_v2_names]]; code_simp)

lemma ZwpTabletPadStripV2_decls_emitted:
  assumes "scanning tablet_v2_protocol '''' c"
  shows "emitted_decls c zwp_tablet_pad_strip_v2 = ZwpTabletPadStripV2_decls"
  by (rule trans [OF std_emitted_decls [OF assms tablet_v2_names]]; code_simp)

lemma ZwpTabletPadGroupV2_decls_emitted:
  assumes "scanning tablet_v2_protocol '''' c"
  shows "emitted_decls c zwp_tablet_pad_group_v2 = ZwpTabletPadGroupV2_decls"
  by (rule trans [OF std_emitted_decls [OF assms tablet_v2_names]]; code_simp)

lemma ZwpTabletPadV2_decls_emitted:
  assumes "scanning tablet_v2_protocol '''' c"
  shows "emitted_decls c zwp_tablet_pad_v2 = ZwpTabletPadV2_decls"
  by (rule trans [OF std_emitted_decls [OF assms tablet_v2_names]]; code_simp)

lemma ZwpTextInputV3_decls_emitted:
  assumes "scanning text_input_unstable_v3_protocol '''' c"
  shows "emitted_decls c zwp_text_input_v3 = ZwpTextInputV3_decls"
  by (rule trans [OF std_emitted_decls [OF assms text_input_unstable_v3_names]]; code_simp)

lemma ZwpTextInputManagerV3_decls_emitted:
  assumes "scanning text_input_unstable_v3_protocol '''' c"
  shows "emitted_decls c zwp_text_input_manager_v3 = ZwpTextInputManagerV3_decls"
  by (rule trans [OF std_emitted_decls [OF assms text_input_unstable_v3_names]]; code_simp)

end
