(* ===== verification/Scanner_Bindings.thy ===== *)
theory Scanner_Bindings
  imports Valid_Core Valid_Data Valid_Surface Valid_Input Valid_Ext Valid_Tablet Valid_Decls
begin

text \<open>
  The checked-in bindings against the scanner, protocol by protocol: each interface's Go type has the methods that the
  scanner emits for it. The generate directives of the packages give the protocols and their prefixes.
\<close>

section \<open>The bindings\<close>

definition checked_in :: "(protocol \<times> string) list" where
  "checked_in =
     [(wayland_protocol, ''wl''),
      (cursor_shape_v1_protocol, ''''),
      (ext_idle_notify_v1_protocol, ''''),
      (ext_session_lock_v1_protocol, ''''),
      (tablet_v2_protocol, ''''),
      (text_input_unstable_v3_protocol, '''')]"

text \<open>The request methods of each type, in the order of its requests.\<close>

definition bindings :: "'k env \<Rightarrow> ref \<Rightarrow> iface \<Rightarrow> 'k gmethod list" where
  "bindings E i t = (case t of
      Display \<Rightarrow> Display_requests E i
    | Registry \<Rightarrow> Registry_requests E i
    | Callback \<Rightarrow> Callback_requests E i
    | Compositor \<Rightarrow> Compositor_requests E i
    | ShmPool \<Rightarrow> ShmPool_requests E i
    | Shm \<Rightarrow> Shm_requests E i
    | Buffer \<Rightarrow> Buffer_requests E i
    | DataOffer \<Rightarrow> DataOffer_requests E i
    | DataSource \<Rightarrow> DataSource_requests E i
    | DataDevice \<Rightarrow> DataDevice_requests E i
    | DataDeviceManager \<Rightarrow> DataDeviceManager_requests E i
    | Shell \<Rightarrow> Shell_requests E i
    | ShellSurface \<Rightarrow> ShellSurface_requests E i
    | Surface \<Rightarrow> Surface_requests E i
    | Seat \<Rightarrow> Seat_requests E i
    | Pointer \<Rightarrow> Pointer_requests E i
    | Keyboard \<Rightarrow> Keyboard_requests E i
    | Touch \<Rightarrow> Touch_requests E i
    | Output \<Rightarrow> Output_requests E i
    | Region \<Rightarrow> Region_requests E i
    | Subcompositor \<Rightarrow> Subcompositor_requests E i
    | Subsurface \<Rightarrow> Subsurface_requests E i
    | Fixes \<Rightarrow> Fixes_requests E i
    | WpCursorShapeManagerV1 \<Rightarrow> WpCursorShapeManagerV1_requests E i
    | WpCursorShapeDeviceV1 \<Rightarrow> WpCursorShapeDeviceV1_requests E i
    | ExtIdleNotifierV1 \<Rightarrow> ExtIdleNotifierV1_requests E i
    | ExtIdleNotificationV1 \<Rightarrow> ExtIdleNotificationV1_requests E i
    | ExtSessionLockManagerV1 \<Rightarrow> ExtSessionLockManagerV1_requests E i
    | ExtSessionLockV1 \<Rightarrow> ExtSessionLockV1_requests E i
    | ExtSessionLockSurfaceV1 \<Rightarrow> ExtSessionLockSurfaceV1_requests E i
    | ZwpTabletManagerV2 \<Rightarrow> ZwpTabletManagerV2_requests E i
    | ZwpTabletSeatV2 \<Rightarrow> ZwpTabletSeatV2_requests E i
    | ZwpTabletToolV2 \<Rightarrow> ZwpTabletToolV2_requests E i
    | ZwpTabletV2 \<Rightarrow> ZwpTabletV2_requests E i
    | ZwpTabletPadRingV2 \<Rightarrow> ZwpTabletPadRingV2_requests E i
    | ZwpTabletPadStripV2 \<Rightarrow> ZwpTabletPadStripV2_requests E i
    | ZwpTabletPadGroupV2 \<Rightarrow> ZwpTabletPadGroupV2_requests E i
    | ZwpTabletPadV2 \<Rightarrow> ZwpTabletPadV2_requests E i
    | ZwpTextInputV3 \<Rightarrow> ZwpTextInputV3_requests E i
    | ZwpTextInputManagerV3 \<Rightarrow> ZwpTextInputManagerV3_requests E i
    | _ \<Rightarrow> [])"

definition emitted_for :: "'k env \<Rightarrow> config \<Rightarrow> ref \<Rightarrow> interface \<Rightarrow> iface \<Rightarrow> bool" where
  "emitted_for E c i v t \<longleftrightarrow>
     go_type (toCamel c (i_Name v)) = Some t \<and> emitted_methods E c v = generated t \<and> emits_all E c i v (bindings E i t) \<and>
     declared t = Some (emitted_decls c v)"

lemmas name_eval = toCamel_def TrimPrefix_def HasPrefix_def TrimSuffix_def HasSuffix_def

section \<open>Protocol by protocol\<close>

lemma wayland_emitted:
  assumes "scanning wayland_protocol ''wl'' c"
  shows "emitted_for E c i wl_display Display"
    "emitted_for E c i wl_registry Registry"
    "emitted_for E c i wl_callback Callback"
    "emitted_for E c i wl_compositor Compositor"
    "emitted_for E c i wl_shm_pool ShmPool"
    "emitted_for E c i wl_shm Shm"
    "emitted_for E c i wl_buffer Buffer"
    "emitted_for E c i wl_data_offer DataOffer"
    "emitted_for E c i wl_data_source DataSource"
    "emitted_for E c i wl_data_device DataDevice"
    "emitted_for E c i wl_data_device_manager DataDeviceManager"
    "emitted_for E c i wl_shell Shell"
    "emitted_for E c i wl_shell_surface ShellSurface"
    "emitted_for E c i wl_surface Surface"
    "emitted_for E c i wl_seat Seat"
    "emitted_for E c i wl_pointer Pointer"
    "emitted_for E c i wl_keyboard Keyboard"
    "emitted_for E c i wl_touch Touch"
    "emitted_for E c i wl_output Output"
    "emitted_for E c i wl_region Region"
    "emitted_for E c i wl_subcompositor Subcompositor"
    "emitted_for E c i wl_subsurface Subsurface"
    "emitted_for E c i wl_fixes Fixes"
  unfolding emitted_for_def bindings_def declared_def iface.case
  by (simp_all only: simp_thms Display_methods_emitted [OF assms] Display_requests_emitted [OF assms] Display_decls_emitted [OF assms]
    Registry_methods_emitted [OF assms] Registry_requests_emitted [OF assms] Registry_decls_emitted [OF assms]
    Callback_methods_emitted [OF assms] Callback_requests_emitted Callback_decls_emitted [OF assms]
    Compositor_methods_emitted Compositor_requests_emitted [OF assms] Compositor_decls_emitted [OF assms]
    ShmPool_methods_emitted ShmPool_requests_emitted [OF assms] ShmPool_decls_emitted [OF assms]
    Shm_methods_emitted [OF assms] Shm_requests_emitted [OF assms] Shm_decls_emitted [OF assms]
    Buffer_methods_emitted [OF assms] Buffer_requests_emitted [OF assms] Buffer_decls_emitted [OF assms]
    DataOffer_methods_emitted [OF assms] DataOffer_requests_emitted [OF assms] DataOffer_decls_emitted [OF assms]
    DataSource_methods_emitted [OF assms] DataSource_requests_emitted [OF assms] DataSource_decls_emitted [OF assms]
    DataDevice_methods_emitted [OF assms] DataDevice_requests_emitted [OF assms] DataDevice_decls_emitted [OF assms]
    DataDeviceManager_methods_emitted DataDeviceManager_requests_emitted [OF assms] DataDeviceManager_decls_emitted [OF assms]
    Shell_methods_emitted Shell_requests_emitted [OF assms] Shell_decls_emitted [OF assms]
    ShellSurface_methods_emitted [OF assms] ShellSurface_requests_emitted [OF assms] ShellSurface_decls_emitted [OF assms]
    Surface_methods_emitted [OF assms] Surface_requests_emitted [OF assms] Surface_decls_emitted [OF assms]
    Seat_methods_emitted [OF assms] Seat_requests_emitted [OF assms] Seat_decls_emitted [OF assms]
    Pointer_methods_emitted [OF assms] Pointer_requests_emitted [OF assms] Pointer_decls_emitted [OF assms]
    Keyboard_methods_emitted [OF assms] Keyboard_requests_emitted [OF assms] Keyboard_decls_emitted [OF assms]
    Touch_methods_emitted [OF assms] Touch_requests_emitted [OF assms] Touch_decls_emitted [OF assms]
    Output_methods_emitted [OF assms] Output_requests_emitted [OF assms] Output_decls_emitted [OF assms]
    Region_methods_emitted Region_requests_emitted [OF assms] Region_decls_emitted [OF assms]
    Subcompositor_methods_emitted Subcompositor_requests_emitted [OF assms] Subcompositor_decls_emitted [OF assms]
    Subsurface_methods_emitted Subsurface_requests_emitted [OF assms] Subsurface_decls_emitted [OF assms]
    Fixes_methods_emitted Fixes_requests_emitted [OF assms] Fixes_decls_emitted [OF assms],
    simp_all add: wl_display_sel(3) wl_registry_sel(3) wl_callback_sel(3) wl_compositor_sel(3) wl_shm_pool_sel(3) wl_shm_sel(3) wl_buffer_sel(3) wl_data_offer_sel(3) wl_data_source_sel(3) wl_data_device_sel(3) wl_data_device_manager_sel(3) wl_shell_sel(3) wl_shell_surface_sel(3) wl_surface_sel(3) wl_seat_sel(3) wl_pointer_sel(3) wl_keyboard_sel(3) wl_touch_sel(3) wl_output_sel(3) wl_region_sel(3) wl_subcompositor_sel(3) wl_subsurface_sel(3) wl_fixes_sel(3) name_eval scanningD [OF assms])

lemma cursor_shape_v1_emitted:
  assumes "scanning cursor_shape_v1_protocol '''' c"
  shows "emitted_for E c i wp_cursor_shape_manager_v1 WpCursorShapeManagerV1"
    "emitted_for E c i wp_cursor_shape_device_v1 WpCursorShapeDeviceV1"
  unfolding emitted_for_def bindings_def declared_def iface.case
  by (simp_all only: simp_thms WpCursorShapeManagerV1_methods_emitted WpCursorShapeManagerV1_requests_emitted [OF assms] WpCursorShapeManagerV1_decls_emitted [OF assms]
    WpCursorShapeDeviceV1_methods_emitted WpCursorShapeDeviceV1_requests_emitted [OF assms] WpCursorShapeDeviceV1_decls_emitted [OF assms],
    simp_all add: wp_cursor_shape_manager_v1_sel(3) wp_cursor_shape_device_v1_sel(3) name_eval scanningD [OF assms])

lemma ext_idle_notify_v1_emitted:
  assumes "scanning ext_idle_notify_v1_protocol '''' c"
  shows "emitted_for E c i ext_idle_notifier_v1 ExtIdleNotifierV1"
    "emitted_for E c i ext_idle_notification_v1 ExtIdleNotificationV1"
  unfolding emitted_for_def bindings_def declared_def iface.case
  by (simp_all only: simp_thms ExtIdleNotifierV1_methods_emitted ExtIdleNotifierV1_requests_emitted [OF assms] ExtIdleNotifierV1_decls_emitted [OF assms]
    ExtIdleNotificationV1_methods_emitted [OF assms] ExtIdleNotificationV1_requests_emitted [OF assms] ExtIdleNotificationV1_decls_emitted [OF assms],
    simp_all add: ext_idle_notifier_v1_sel(3) ext_idle_notification_v1_sel(3) name_eval scanningD [OF assms])

lemma ext_session_lock_v1_emitted:
  assumes "scanning ext_session_lock_v1_protocol '''' c"
  shows "emitted_for E c i ext_session_lock_manager_v1 ExtSessionLockManagerV1"
    "emitted_for E c i ext_session_lock_v1 ExtSessionLockV1"
    "emitted_for E c i ext_session_lock_surface_v1 ExtSessionLockSurfaceV1"
  unfolding emitted_for_def bindings_def declared_def iface.case
  by (simp_all only: simp_thms ExtSessionLockManagerV1_methods_emitted ExtSessionLockManagerV1_requests_emitted [OF assms] ExtSessionLockManagerV1_decls_emitted [OF assms]
    ExtSessionLockV1_methods_emitted [OF assms] ExtSessionLockV1_requests_emitted [OF assms] ExtSessionLockV1_decls_emitted [OF assms]
    ExtSessionLockSurfaceV1_methods_emitted [OF assms] ExtSessionLockSurfaceV1_requests_emitted [OF assms] ExtSessionLockSurfaceV1_decls_emitted [OF assms],
    simp_all add: ext_session_lock_manager_v1_sel(3) ext_session_lock_v1_sel(3) ext_session_lock_surface_v1_sel(3) name_eval scanningD [OF assms])

lemma tablet_v2_emitted:
  assumes "scanning tablet_v2_protocol '''' c"
  shows "emitted_for E c i zwp_tablet_manager_v2 ZwpTabletManagerV2"
    "emitted_for E c i zwp_tablet_seat_v2 ZwpTabletSeatV2"
    "emitted_for E c i zwp_tablet_tool_v2 ZwpTabletToolV2"
    "emitted_for E c i zwp_tablet_v2 ZwpTabletV2"
    "emitted_for E c i zwp_tablet_pad_ring_v2 ZwpTabletPadRingV2"
    "emitted_for E c i zwp_tablet_pad_strip_v2 ZwpTabletPadStripV2"
    "emitted_for E c i zwp_tablet_pad_group_v2 ZwpTabletPadGroupV2"
    "emitted_for E c i zwp_tablet_pad_v2 ZwpTabletPadV2"
  unfolding emitted_for_def bindings_def declared_def iface.case
  by (simp_all only: simp_thms ZwpTabletManagerV2_methods_emitted ZwpTabletManagerV2_requests_emitted [OF assms] ZwpTabletManagerV2_decls_emitted [OF assms]
    ZwpTabletSeatV2_methods_emitted [OF assms] ZwpTabletSeatV2_requests_emitted [OF assms] ZwpTabletSeatV2_decls_emitted [OF assms]
    ZwpTabletToolV2_methods_emitted [OF assms] ZwpTabletToolV2_requests_emitted [OF assms] ZwpTabletToolV2_decls_emitted [OF assms]
    ZwpTabletV2_methods_emitted [OF assms] ZwpTabletV2_requests_emitted [OF assms] ZwpTabletV2_decls_emitted [OF assms]
    ZwpTabletPadRingV2_methods_emitted [OF assms] ZwpTabletPadRingV2_requests_emitted [OF assms] ZwpTabletPadRingV2_decls_emitted [OF assms]
    ZwpTabletPadStripV2_methods_emitted [OF assms] ZwpTabletPadStripV2_requests_emitted [OF assms] ZwpTabletPadStripV2_decls_emitted [OF assms]
    ZwpTabletPadGroupV2_methods_emitted [OF assms] ZwpTabletPadGroupV2_requests_emitted [OF assms] ZwpTabletPadGroupV2_decls_emitted [OF assms]
    ZwpTabletPadV2_methods_emitted [OF assms] ZwpTabletPadV2_requests_emitted [OF assms] ZwpTabletPadV2_decls_emitted [OF assms],
    simp_all add: zwp_tablet_manager_v2_sel(3) zwp_tablet_seat_v2_sel(3) zwp_tablet_tool_v2_sel(3) zwp_tablet_v2_sel(3) zwp_tablet_pad_ring_v2_sel(3) zwp_tablet_pad_strip_v2_sel(3) zwp_tablet_pad_group_v2_sel(3) zwp_tablet_pad_v2_sel(3) name_eval scanningD [OF assms])

lemma text_input_unstable_v3_emitted:
  assumes "scanning text_input_unstable_v3_protocol '''' c"
  shows "emitted_for E c i zwp_text_input_v3 ZwpTextInputV3"
    "emitted_for E c i zwp_text_input_manager_v3 ZwpTextInputManagerV3"
  unfolding emitted_for_def bindings_def declared_def iface.case
  by (simp_all only: simp_thms ZwpTextInputV3_methods_emitted [OF assms] ZwpTextInputV3_requests_emitted [OF assms] ZwpTextInputV3_decls_emitted [OF assms]
    ZwpTextInputManagerV3_methods_emitted ZwpTextInputManagerV3_requests_emitted [OF assms] ZwpTextInputManagerV3_decls_emitted [OF assms],
    simp_all add: zwp_text_input_v3_sel(3) zwp_text_input_manager_v3_sel(3) name_eval scanningD [OF assms])

lemma checked_in_emitted:
  assumes "(p, pre) \<in> set checked_in" "v \<in> set (p_Interfaces p)" "scanning p pre c"
  shows "\<exists>t. emitted_for E c i v t"
proof -
  consider "p = wayland_protocol" "pre = ''wl''"
    | "p = cursor_shape_v1_protocol" "pre = ''''"
    | "p = ext_idle_notify_v1_protocol" "pre = ''''"
    | "p = ext_session_lock_v1_protocol" "pre = ''''"
    | "p = tablet_v2_protocol" "pre = ''''"
    | "p = text_input_unstable_v3_protocol" "pre = ''''"
    using assms(1) by (auto simp: checked_in_def)
  then show ?thesis
  proof cases
    case 1
    then show ?thesis using assms(2,3) wayland_emitted [of c E i] by (auto simp: wayland_protocol_def)
  next
    case 2
    then show ?thesis using assms(2,3) cursor_shape_v1_emitted [of c E i] by (auto simp: cursor_shape_v1_protocol_def)
  next
    case 3
    then show ?thesis using assms(2,3) ext_idle_notify_v1_emitted [of c E i] by (auto simp: ext_idle_notify_v1_protocol_def)
  next
    case 4
    then show ?thesis using assms(2,3) ext_session_lock_v1_emitted [of c E i] by (auto simp: ext_session_lock_v1_protocol_def)
  next
    case 5
    then show ?thesis using assms(2,3) tablet_v2_emitted [of c E i] by (auto simp: tablet_v2_protocol_def)
  next
    case 6
    then show ?thesis using assms(2,3) text_input_unstable_v3_emitted [of c E i] by (auto simp: text_input_unstable_v3_protocol_def)
  qed
qed

end
