(* ===== verification/Spec2Isabelle.thy ===== *)
theory Spec2Isabelle
  imports Stream_Host Test_Pair Control_FD Destructors Enums Event_Typing Scanner_Main Scanner_Bindings
begin

text \<open>
  A Wayland client library in Go: a model of its connection state, its wire format, its event loop
  and all of its generated protocol bindings, with the theorems that make them correct.

  \<^bold>\<open>The program.\<close> A \<^theory_text>\<open>Context\<close> (client/context.go) owns a Unix socket, the map from object IDs to proxies, the
  allocator of client IDs, the queue of received descriptors and the first fatal error. Proxies embed
  \<^theory_text>\<open>BaseProxy\<close> (client/common.go). A generated request (client/client.go and the files of idle,
  sessionlock, cursorshape and textinput) lays its arguments out in a buffer and calls
  \<^theory_text>\<open>WriteMsg\<close> (client/request.go). \<^theory_text>\<open>Dispatch\<close> (client/context.go) reads one frame with \<^theory_text>\<open>ReadMsg\<close> (client/event.go),
  finds the sender, routes at most one descriptor to it and calls its generated \<^theory_text>\<open>Dispatch\<close> method,
  which decodes the event and calls the application's handler. \<^theory_text>\<open>Roundtrip\<close> (client/display.go) dispatches
  until the compositor has answered, and \<^theory_text>\<open>Connect\<close> (client/context.go) makes the socket.

  \<^bold>\<open>How it is modelled.\<close> Go code is a function on an explicit state, \<^theory_text>\<open>('w, 'a) go\<close> of Wayland_Prelude, which returns a
  value or a panic together with the new state; \<^theory_text>\<open>with_defer\<close> is a deferred call and \<^theory_text>\<open>recovering\<close> (Dispatch_Loop) the deferred
  recovery. The state is the record \<^theory_text>\<open>world\<close> of World: the fields of \<^theory_text>\<open>Context\<close> under their Go names, a heap of proxies, so that
  two variables that hold one proxy share its changes, the captured booleans of closures, and
  a trace of descriptors received and closed and of handlers called. Errors are values (Go_Errors) with \<^theory_text>\<open>errors.Is\<close> and
  \<^theory_text>\<open>errors.Join\<close>. 32-bit integers are words, and every size and offset computation wraps where Go's does. Event
  structs are \<^theory_text>\<open>Ev\<close> with the Go type and field names; a struct's handler fields are a map from their names.
  The socket, the parsers of ancillary data, the connection's close and the handlers are the record \<^theory_text>\<open>env\<close>, a parameter of every operation
  that uses them; a handler may do anything with the world.

  \<^bold>\<open>Theories.\<close>
  \<^item> Wayland_Prelude, Go_Errors, World: the state transformers, errors, state and proxies (client/common.go).
  \<^item> Wire, Fixed_Point: the encodings of client/request.go, client/event.go and client/util.go, with the decoder
    sequences the generator emits (\<^theory_text>\<open>get_string\<close>, \<^theory_text>\<open>get_array\<close>); floats are rationals with explicit rounding to 53 bits.
  \<^item> Id_Allocator, Id_Pool: \<^theory_text>\<open>Register\<close>, \<^theory_text>\<open>RegisterWithID\<close>, \<^theory_text>\<open>Unregister\<close>, \<^theory_text>\<open>DeleteID\<close>; the invariant \<^theory_text>\<open>wf_world\<close>, and the contract of an
    ID pool as a locale, interpreted on them.
  \<^item> Fd_Queue: the descriptor queue, \<^theory_text>\<open>setFatal\<close>, \<^theory_text>\<open>Close\<close>; the queue's contract as a locale, and \<^theory_text>\<open>fd_bal\<close>, the accounting of descriptors.
  \<^item> Socket_Read, Socket_Write: \<^theory_text>\<open>readExactWith\<close>, \<^theory_text>\<open>getFdsFromOob\<close>, \<^theory_text>\<open>ReadMsg\<close>, \<^theory_text>\<open>writeFrame\<close>, \<^theory_text>\<open>WriteMsg\<close> with a lemma for every way out of each.
  \<^item> Request_Build, Event_Decode: the statement sequences of generated requests and decoders, once each.
  \<^item> Bind_Core, Bind_Data, Bind_Surface, Bind_Input, Bind_Ext, Bind_Tablet, Bindings: every constructor, request, setter and
    dispatcher of the forty generated proxy types, and their table of optional interfaces. Enums: the forty enums. Destructors: the destructor
    requests. Event_Structs: the event structs and the handler fields of the proxies, with their Go types. Event_Typing: the typing of the events
    that \<^theory_text>\<open>Dispatch\<close> passes to handlers.
  \<^item> Client_Inv, Client_Machine, Client_Silence: what it takes to be an invariant of all operations (a locale), the step relation of a client
    that mixes requests, \<^theory_text>\<open>Dispatch\<close> and \<^theory_text>\<open>Close\<close> at will, and the invariants of its runs.
  \<^item> Dispatch_Loop, Delivery: \<^theory_text>\<open>Context.Dispatch\<close> over a table of generated types that satisfies the locale \<^theory_text>\<open>dispatcher\<close>, and the path of one event from the
    wire to its handler.
  \<^item> Roundtrip_Loop, Connect, Control_FD, Peer, Test_Pair: \<^theory_text>\<open>Roundtrip\<close> as a partial function, so that not returning is a value; connection
    setup; the raw descriptor; the frame helpers and the fixture of internal/waylandtest, whose cleanups close what was opened and leave no
    descriptor behind.
  \<^item> Stream_Host: an in-memory socket on which the examples run.
  \<^item> Scanner_Text, Scanner_Request, Scanner_Event, Scanner_File: the code generator cmd/sysc-wayland-scanner/main.go, from the decoded protocol
    to the text handed to the formatter, and Scanner_Main: its command, the download cache and the output file. The Go it emits
    is a list of statements (\<^theory_text>\<open>stmt\<close>, \<^theory_text>\<open>estmt\<close>) with the text of each.
  \<^item> Scanner_Exec, Scanner_Event_Exec: what the emitted statements do, as a semantics over the client's state. Scanner_Correct,
    Scanner_Event_Read, Scanner_Event_Correct, Scanner_Absorb: that this is what the protocol description asks for.
  \<^item> Scanner_Protocols, Scanner_Names: the descriptions in protocols/ as the scanner's input, and the Go names it derives from them.
    Scanner_Methods: the methods emitted for an interface as a table. Scanner_Decls, Binding_Decls: the declarations emitted for an interface
    (event structs, handler fields, setters, enums, the local \<^theory_text>\<open>Destroy\<close>) and those of the checked-in files, each as a record with the functions it
    stands for; Valid_Decls: that they agree. Valid_Core, Valid_Data, Valid_Surface, Valid_Input, Valid_Ext, Valid_Tablet,
    Scanner_Bindings: the table of methods, interface by interface, against the checked-in bindings of the Bind theories, so that a change to the
    generator, to a protocol file or to a generated file alone breaks a lemma.

  \<^bold>\<open>What is proved.\<close> C1 to C4 hold along every run of the client: descriptors are conserved, IDs and proxies stay consistent, the first
  error sticks, and \<^theory_text>\<open>Dispatch\<close> reports it and never panics. C5 does too: handlers only ever see well-typed events, which Go's compiler
  checks of the code and the model, whose values carry no types, has to prove. C6 and C20 to C24 are about reading: independence of
  fragmentation, bounds, benign and fatal timeouts, errors. C7 to C9 are about writing: exactly once, failure leaves a prefix, silence
  after failure. C10, C11 and C28 to C30 are round trips of requests and encodings. C12 to C14, C25 and C36 follow events to handlers. C15 to C19 are the
  contracts of the allocator and the descriptor queue. C26 and C27 are about requests on destroyed and nil objects, C31 and C32 about the termination
  of \<^theory_text>\<open>Roundtrip\<close>, C33 and C34 about the connection, and C35 about enums. C37 and C38 are about the scanner: whatever protocol it is
  given, the requests and dispatchers it emits do what the description says and keep the contracts that C1 and C2 rest on. C39 closes the
  loop: the bindings that C1 to C36 are about are what it emits for protocols/. C40 is about the command around it.

  \<^bold>\<open>Assumptions.\<close> Named hypotheses say what the host does where a theorem needs it: descriptors from the kernel are not negative
  (\<^theory_text>\<open>rights_nonneg\<close>), a socket takes prefixes of what it is given (\<^theory_text>\<open>sink\<close>) or makes progress (\<^theory_text>\<open>accepting\<close>), handlers keep the invariant or return
  (\<^theory_text>\<open>handlers_wf\<close>, \<^theory_text>\<open>handlers_return\<close>), bytes arrive in some fragmentation (\<^theory_text>\<open>arrives\<close>). C39 uses what strcase documents for names in
  snake case (\<^theory_text>\<open>strcase\<close>). The conservation of descriptors needs handlers that
  return: after a panic the dispatcher closes a descriptor the handler may already have used, as a comment in the code says.

  \<^bold>\<open>Bounds and fuel.\<close> No definition uses fuel. The loops of the allocator, the reader and the writer are recursive functions with
  termination proofs (the free list or the distance to the end of the range shrinks, every receive or write takes a byte); the loop
  of \<^theory_text>\<open>Roundtrip\<close> is a partial function, and C32 says exactly when it returns.

  \<^bold>\<open>Not modelled.\<close> The scratch buffers \<^theory_text>\<open>header\<close> and \<^theory_text>\<open>oob\<close> of \<^theory_text>\<open>Context\<close>, which are reused between reads and carry no state;
  negative byte counts of the receive call, which the kernel does not return; the log line of a failing callback destruction; goroutines, as a context
  belongs to one; doc.go and the go:generate directives. Of the scanner: the parsing of flags. The network, the file
  system's faults, the XML decoder, the hash, the formatters, the case conversions (strcase) and one-line summaries (go/doc) are its
  parameters. C39 compares what the files declare and do: their comments, and the order of declarations in a file, are outside it.
\<close>

section \<open>The client as a state machine\<close>

text \<open>
  C1. No descriptor is lost or duplicated. In every world an application can reach from a fresh
  connection by calls of the bindings, \<open>Dispatch\<close> and \<open>Close\<close> in any order, the descriptors received
  are exactly those still queued, those the client closed and those it handed to a handler, each once; and the
  queue holds valid descriptors only. The handlers return and leave the queue alone, and the
  kernel's descriptors are not negative.
\<close>

theorem descriptors_conserved:
  assumes "client_run E (fresh_client k) w"
    and "handlers_wf E" "handlers_return E" "rights_nonneg E"
  shows "received (trace w) = mset (pendingFDs w) + released (trace w) \<and> (\<forall>fd\<in>set (pendingFDs w). 0 \<le> fd)"
  using run_bal [OF assms(1) fresh_wf fresh_bal assms(2-4)] by (simp add: fd_bal_def)

theorem descriptors_conserved_witness:
  "\<exists>w. client_run stream_env (fresh_client (stream_of [([7], [5])])) w \<and>
     received (trace w) = mset (pendingFDs w) + released (trace w) \<and> (\<forall>fd\<in>set (pendingFDs w). 0 \<le> fd)"
proof -
  let ?k = "stream_of [([7], [5])]"
  let ?w = "snd (Context_Dispatch generated stream_env (fresh_client ?k))"
  have r: "client_run stream_env (fresh_client ?k) ?w"
    by (rule run_step [OF run_refl step_dispatch])
  from descriptors_conserved [OF r stream_handlers stream_rights] r show ?thesis by blast
qed

text \<open>
  C2. In every reachable world the context is well formed: object IDs are unique, client IDs come
  from the counter and stay below the server range, the free list holds distinct dead IDs, and
  every registered proxy exists and carries the ID it is registered under.
\<close>

theorem reachable_well_formed:
  assumes "client_run E (fresh_client k) w" "handlers_wf E"
  shows "ids_ok w \<and> heap_ok w"
  using run_wf [OF assms(1) fresh_wf assms(2)] by (simp add: wf_world_def)

theorem reachable_well_formed_witness:
  "ids_ok (snd (discard (Display_Sync stream_env 0) (fresh_client (stream_of [])))) \<and>
   heap_ok (snd (discard (Display_Sync stream_env 0) (fresh_client (stream_of []))))"
  by (rule reachable_well_formed [OF run_step [OF run_refl step_op [OF op_core]] stream_handlers(1)])
    (rule core_op.intros)







section \<open>Reading\<close>

text \<open>
  C6. A frame is read the same however the stream is fragmented: if the same frame with the same
  descriptors arrives on two hosts, cut differently, \<open>ReadMsg\<close> returns the same message, with the
  first descriptor of the queue, and leaves the same queue.
\<close>

theorem ReadMsg_fragmentation:
  assumes "arrives E1 w1 sender opcode body fds k1" "arrives E2 w2 sender opcode body fds k2"
    and "fatalErr w1 = None" "fatalErr w2 = None" "pendingFDs w1 = pendingFDs w2"
  shows "fst (ReadMsg E1 w1) = Inr (sender, opcode, head_fd (pendingFDs w1 @ fds), body, None) \<and>
    fst (ReadMsg E2 w2) = fst (ReadMsg E1 w1) \<and>
    pendingFDs (snd (ReadMsg E2 w2)) = pendingFDs (snd (ReadMsg E1 w1))"
  using ReadMsg_arrives [OF assms(1,3)] ReadMsg_arrives [OF assms(2,4)] assms(5) by auto

definition delete_1_of :: "nat \<Rightarrow> (bytes \<times> byte list) list" where
  "delete_1_of n = (let b = frame_header 1 1 12 @ le_bytes 7 in
     [(take n (take 8 b), [])] @ [(drop n (take 8 b), [9])] @ [(drop 8 b, [])])"

lemma delete_1_arrives:
  assumes "0 < n" "n < 8"
  shows "arrives stream_env (fresh_client (stream_of (delete_1_of n))) 1 1 (le_bytes 7) [9] (stream_of [])"
proof -
  let ?h = "frame_header 1 1 12"
  have ne: "?h \<noteq> []" "le_bytes 7 \<noteq> []"
    by (simp_all add: length_greater_0_conv [symmetric] del: length_greater_0_conv)
  have "arrives stream_env (fresh_client (stream_of (delete_1_of n))) 1 1 (le_bytes 7)
      (map uint (concat (map snd ([(take n ?h, []), (drop n ?h, [9 :: byte])] @ [(le_bytes 7, [])]))))
      ((stream_of [])\<lparr>chunks := []\<rparr>)"
    by (rule stream_arrives [where hs = "[(take n ?h, []), (drop n ?h, [9])]" and bs = "[(le_bytes 7, [])]" and
          k = "stream_of []" and rest = "[]"]) (use assms in \<open>auto simp: ne delete_1_of_def Let_def fresh_run(8)\<close>)
  then show ?thesis by simp
qed

theorem ReadMsg_fragmentation_witness:
  "fst (ReadMsg stream_env (fresh_client (stream_of (delete_1_of 3)))) = Inr (1, 1, 9, le_bytes 7, None) \<and>
   fst (ReadMsg stream_env (fresh_client (stream_of (delete_1_of 5)))) = Inr (1, 1, 9, le_bytes 7, None)"
  using ReadMsg_fragmentation [OF delete_1_arrives [of 3] delete_1_arrives [of 5]]
  by (simp add: fresh_run head_fd_def)

section \<open>Writing\<close>

text \<open>
  C7. A write that returns nil sent its frame and its ancillary data exactly once: the bytes the
  socket took, over however many system calls, are the frame and nothing else, and the rest of the client is
  unchanged. Only a frame with a valid size is sent.
\<close>

theorem WriteMsg_exactly_once:
  assumes "sink E sent anc" "WriteMsg E b oob w = (Inr None, w')"
  shows "valid_frame b \<and> sent (conn w') = sent (conn w) @ b \<and> anc (conn w') = anc (conn w) @ oob \<and>
    w' = w\<lparr>conn := conn w'\<rparr>"
proof (cases rule: WriteMsg_outcome [of w E b oob])
  case (sent k)
  then show ?thesis using writeFrame_sent [OF assms(1) sent(3)] assms(2) by auto
qed (use assms(2) in auto)

lemma stream_sync_frame: "valid_frame (frame_header 1 0 12 @ le_bytes 2)"
  by (simp add: valid_frame_def frame_header_def get_u32_def slice_def opcode_word_size)

theorem WriteMsg_exactly_once_witness:
  "let w' = snd (WriteMsg stream_env (frame_header 1 0 12 @ le_bytes 2) [7] (fresh_client (stream_of []))) in
   out_bytes (conn w') = frame_header 1 0 12 @ le_bytes 2 \<and> out_oob (conn w') = [7]"
proof -
  obtain k where k: "WriteMsg stream_env (frame_header 1 0 12 @ le_bytes 2) [7] (fresh_client (stream_of [])) =
      (Inr None, (fresh_client (stream_of []))\<lparr>conn := k\<rparr>)"
    using WriteMsg_accepting [OF stream_accepting fresh_run(5) stream_sync_frame] by blast
  from WriteMsg_exactly_once [OF stream_sink k] show ?thesis
    by (simp add: k fresh_run(8) Let_def)
qed

text \<open>
  C8. A write that returns an error either refused the frame and changed nothing (a connection that has
  already failed, or a frame whose size is not valid), or it recorded that error as the connection's
  fatal error with a prefix of the frame written; unless nothing at all was written, the error is
  \<open>ErrPartialFrame\<close>.
\<close>

theorem WriteMsg_fails_closed:
  assumes "sink E sent anc" "WriteMsg E b oob w = (Inr (Some e), w')"
  shows "w' = w \<and> (fatalErr w = Some e \<or> errors_is e ErrFrameSize \<and> \<not> valid_frame b) \<or>
    fatalErr w = None \<and> valid_frame b \<and> fatalErr w' = Some e \<and> pendingFDs w' = [] \<and>
    (\<exists>m m'. sent (conn w') = sent (conn w) @ take m b \<and> anc (conn w') = anc (conn w) @ take m' oob \<and>
      (errors_is e ErrPartialFrame \<or> m = 0 \<and> m' = 0))"
proof (cases rule: WriteMsg_outcome [of w E b oob])
  case (failed e' k)
  then show ?thesis using writeFrame_sent [OF assms(1) failed(3)] assms(2) by auto
qed (use assms(2) in auto)

text \<open>A socket that takes five bytes of every first write and then fails.\<close>

definition broken_env :: "stream env" where
  "broken_env = stream_env\<lparr>
     sendmsg := (\<lambda>k data oob. ((int (min 5 (length data)), int (length oob), None),
       k\<lparr>out_bytes := out_bytes k @ take 5 data, out_oob := out_oob k @ oob\<rparr>)),
     sendplain := (\<lambda>k data. ((0, Some (OsError 32 False)), k))\<rparr>"

lemma broken_sink: "sink broken_env out_bytes out_oob"
  by (auto simp: sink_def broken_env_def min_def)

lemma broken_write:
  "WriteMsg broken_env (frame_header 1 0 12 @ le_bytes 2) [] (fresh_client (stream_of [])) =
    (Inr (Some (Joined [Sentinel ErrPartialFrame, OsError 32 False])), (fresh_client (stream_of []))\<lparr>
       conn := (stream_of [])\<lparr>out_bytes := take 5 (frame_header 1 0 12)\<rparr>,
       fatalErr := Some (Joined [Sentinel ErrPartialFrame, OsError 32 False])\<rparr>)"
  unfolding WriteMsg_valid [OF fresh_run(5) stream_sync_frame]
  by (simp add: writeFrame_def broken_env_def fresh_run setFatal_first Let_def write_rest.simps)

theorem WriteMsg_fails_closed_witness:
  "\<exists>m. fatalErr (snd (WriteMsg broken_env (frame_header 1 0 12 @ le_bytes 2) [] (fresh_client (stream_of [])))) \<noteq> None \<and>
    out_bytes (conn (snd (WriteMsg broken_env (frame_header 1 0 12 @ le_bytes 2) [] (fresh_client (stream_of []))))) =
      take m (frame_header 1 0 12 @ le_bytes 2)"
  using WriteMsg_fails_closed [OF broken_sink broken_write] by (auto simp: broken_write fresh_run)

text \<open>
  C9. After the first fatal error nothing more is written: whatever the application then calls, no
  byte and no descriptor follows the ones already sent, so a partial frame stays the last thing the compositor sees.
  Closing the connection writes nothing.
\<close>

theorem silent_after_fatal:
  assumes "client_run E w w'" "fatalErr w = Some f" "\<And>k. sent (snd (close_conn E k)) = sent k"
  shows "fatalErr w' = Some f \<and> sent (conn w') = sent (conn w)"
  by (rule run_silent [OF assms(1,2)]) (simp_all add: assms(3))

theorem silent_after_fatal_witness:
  "out_bytes (conn (snd (discard (Display_Sync stream_env 0)
     ((fresh_client (stream_of []))\<lparr>fatalErr := Some (Sentinel EOF)\<rparr>)))) = []"
  using silent_after_fatal [OF run_step [OF run_refl step_op [OF op_core [OF core_op.intros(2) [where i = 0]]]], where f = "Sentinel EOF" and
      sent = out_bytes and E = stream_env and w = "(fresh_client (stream_of []))\<lparr>fatalErr := Some (Sentinel EOF)\<rparr>"]
  by (simp add: fresh_run)

section \<open>Requests\<close>

lemma request_sent:
  assumes h: "sink E sent anc" "accepting E"
    and i: "heap w i = Some p" "px_ctx p" and ok: "\<forall>p\<in>set ps. put_ok w p"
    and len: "len = 8 + length (args_bytes (id_of w) ps)" "len \<le> 0xffff" and n: "fatalErr w = None"
  shows "\<exists>w'. request E i opcode len ps oob w = (Inr None, w') \<and> w' = w\<lparr>conn := conn w'\<rparr> \<and>
    sent (conn w') = sent (conn w) @ request_frame w (px_id p) opcode ps \<and> anc (conn w') = anc (conn w) @ oob"
proof -
  have v: "valid_frame (request_frame w (px_id p) opcode ps)" using request_frame_valid [OF ok] len by simp
  from WriteMsg_accepting [OF h(2) n v] obtain k where
    k: "WriteMsg E (request_frame w (px_id p) opcode ps) oob w = (Inr None, w\<lparr>conn := k\<rparr>)" by blast
  have f: "writeFrame E (request_frame w (px_id p) opcode ps) oob w = (None, w\<lparr>conn := k\<rparr>)"
    using k by (cases rule: WriteMsg_outcome [of w E "request_frame w (px_id p) opcode ps" oob]) auto
  from writeFrame_sent [OF h(1) f] show ?thesis
    using k request_run [OF i ok len(1), of E opcode oob] by auto
qed



text \<open>
  C11. \<open>Registry.Bind\<close> is read back field by field: the compositor finds the global's name, the
  interface string without its padding, the version and the new object's ID, each at the offset the protocol gives it.
\<close>

theorem Registry_Bind_decoded:
  assumes "sink E sent anc" "accepting E" "heap w i = Some p" "px_ctx p" "heap w q = Some c"
    and "0 \<notin> set iface" "length iface \<le> 65000" "fatalErr w = None"
  shows "\<exists>w' bs body. Registry_Bind E i name iface version (Some q) w = (Inr None, w') \<and>
    sent (conn w') = sent (conn w) @ bs \<and> ReadRequest bs = Inr ((px_id p, 0, body), []) \<and>
    get_u32 body 0 = Inr name \<and> get_string body 4 = Inr (iface, 8 + str_len iface) \<and>
    get_u32 body (8 + str_len iface) = Inr version \<and> get_u32 body (12 + str_len iface) = Inr (px_id c)"
proof -
  let ?ps = "[PWord name, PString iface (str_len iface), PWord version, PId (Some q)]"
  let ?pad = "replicate (str_len iface - (length iface + 1)) 0 :: bytes"
  let ?str = "le_bytes (of_nat (length iface + 1)) @ iface @ 0 # ?pad"
  have body: "args_bytes (id_of w) ?ps = le_bytes name @ ?str @ le_bytes version @ le_bytes (px_id c)"
    using assms(5) by simp
  have ok: "\<forall>p\<in>set ?ps. put_ok w p" using assms(5) by simp
  have l: "length ?str = 4 + str_len iface"
    using str_len_ge [of iface] by (simp only: length_append length_Cons length_replicate length_le_bytes)
  have s: "str_len iface \<le> 65004" using PaddedLen_lt [of "length iface + 1"] assms(7) by (simp add: str_len_def)
  have len: "8 + 4 + (4 + str_len iface) + 4 + 4 = 8 + length (args_bytes (id_of w) ?ps)"
    unfolding body using l by (simp del: length_Cons length_replicate)
  from request_sent [OF assms(1-4) ok len _ assms(8), of 0 "[]"] s
  obtain w' where w': "Registry_Bind E i name iface version (Some q) w = (Inr None, w')"
    "sent (conn w') = sent (conn w) @ request_frame w (px_id p) 0 ?ps"
    by (auto simp: Registry_Bind_def)
  have "ReadRequest (request_frame w (px_id p) 0 ?ps @ []) = Inr ((px_id p, 0, args_bytes (id_of w) ?ps), [])"
    by (rule ReadRequest_request) (use len s in auto)
  moreover have "get_u32 (args_bytes (id_of w) ?ps) 0 = Inr name"
    unfolding body by (rule get_u32_at' [where pre = "[]", simplified]) simp
  moreover have "get_string (args_bytes (id_of w) ?ps) 4 = Inr (iface, 8 + str_len iface)"
    using get_string_at [of iface ?pad "le_bytes name" "le_bytes version @ le_bytes (px_id c)"] assms(6,7)
    unfolding body by (simp add: str_len_def)
  moreover have "get_u32 (args_bytes (id_of w) ?ps) (8 + str_len iface) = Inr version"
    using get_u32_at' [of "8 + str_len iface" "le_bytes name @ ?str" version "le_bytes (px_id c)"] l
    unfolding body by simp
  moreover have "get_u32 (args_bytes (id_of w) ?ps) (12 + str_len iface) = Inr (px_id c)"
    using get_u32_at' [of "12 + str_len iface" "le_bytes name @ ?str @ le_bytes version" "px_id c" "[]"] l
    unfolding body by simp
  ultimately show ?thesis using w' by auto
qed

text \<open>A client that holds a proxy of type \<open>t\<close> with ID \<open>n\<close> and handlers \<open>hs\<close> in cell 1, next to its display.\<close>

definition holding :: "iface \<Rightarrow> u32 \<Rightarrow> bool \<Rightarrow> (string \<Rightarrow> hid option) \<Rightarrow> 'k \<Rightarrow> 'k world" where
  "holding t n z hs k = (fresh_client k)\<lparr>
     objects := (objects (fresh_client k))(n := Some 1), next_ref := 2,
     heap := (heap (fresh_client k))(1 := Some \<lparr>px_type = t, px_ctx = True, px_id = n, px_zombie = z, px_handlers = hs\<rparr>)\<rparr>"

lemma holding_simps [simp]:
  "heap (holding t n z hs k) 1 = Some \<lparr>px_type = t, px_ctx = True, px_id = n, px_zombie = z, px_handlers = hs\<rparr>"
  "objects (holding t n z hs k) n = Some 1"
  "fatalErr (holding t n z hs k) = None" "pendingFDs (holding t n z hs k) = []" "conn (holding t n z hs k) = k"
  "handled (trace (holding t n z hs k)) = []" "heap (holding t n z hs k) 0 = heap (fresh_client k) 0"
  by (simp_all add: holding_def fresh_run)

theorem Registry_Bind_decoded_witness:
  "\<exists>w' bs body. Registry_Bind stream_env 1 9 [119, 108] 4 (Some 0) (holding Registry 2 False (\<lambda>_. None) (stream_of [])) = (Inr None, w') \<and>
    out_bytes (conn w') = bs \<and> ReadRequest bs = Inr ((2, 0, body), []) \<and>
    get_u32 body 0 = Inr 9 \<and> get_string body 4 = Inr ([119, 108], 8 + str_len [119, 108]) \<and>
    get_u32 body (8 + str_len [119, 108]) = Inr 4 \<and> get_u32 body (12 + str_len [119, 108]) = Inr 1"
  using Registry_Bind_decoded [OF stream_sink stream_accepting holding_simps(1) [where k = "stream_of []"],
      where q = 0 and iface = "[119, 108]" and name = 9 and version = 4]
  by (auto simp: fresh_run)

section \<open>Events\<close>


lemma keymap_frame:
  "arrives stream_env (holding Keyboard 5 z hs (stream_of (frame_chunks 5 0 (le_bytes 1 @ le_bytes 64) [9]))) 5 0
     (le_bytes 1 @ le_bytes 64) [9] (stream_of [])"
  using frame_arrives [of "le_bytes 1 @ le_bytes 64" "[9]" 5 0 "holding Keyboard 5 z hs (stream_of (frame_chunks 5 0 (le_bytes 1 @ le_bytes 64) [9]))" "[]"]
  by simp


text \<open>
  C13. Without a handler the keymap's descriptor is not leaked: \<open>Dispatch\<close> closes it, calls nothing and
  leaves the later descriptors queued.
\<close>

theorem keymap_unhandled:
  assumes "arrives E w n 0 body fds k" "fatalErr w = None"
    and "objects w n = Some r" "heap w r = Some p" "px_type p = Keyboard" "\<not> px_zombie p"
    and "px_handlers p ''keymapHandler'' = None" "pendingFDs w @ fds = fd # later" "0 \<le> fd"
  shows "\<exists>w' tr. Context_Dispatch generated E w = (Inr None, w') \<and> conn w' = k \<and> pendingFDs w' = later \<and>
    trace w' = tr @ [Closed fd] \<and> handled (trace w') = handled (trace w)"
proof -
  obtain w1 where w1: "read_frame w w1" "conn w1 = k" "pendingFDs w1 = later" "handled (trace w1) = handled (trace w)"
    and d: "Context_Dispatch generated E w =
      recovering fd 0 n (andthen (Keyboard_Dispatch E r 0 fd body) (gets fatalErr)) w1"
    using Dispatch_arrives_fd [OF assms(1-4) disjI1 [OF assms(6)], of generated Keyboard_HasFD Keyboard_Dispatch] assms(5,8)
    by (auto simp: generated_def events_def Keyboard_HasFD_def)
  have h: "heap w1 r = Some p" "fatalErr w1 = None" using w1(1) assms(2,4) by (simp_all add: read_frame_fields)
  from fd_event_no_handler [OF h(1) assms(7), of fd E] show ?thesis
    using d h(2) w1 assms(9) by (simp add: Keyboard_Dispatch_def recovering_def andthen_def bnd_def)
qed

theorem keymap_unhandled_witness:
  "\<exists>w' tr. Context_Dispatch generated stream_env (holding Keyboard 5 False (\<lambda>_. None)
      (stream_of (frame_chunks 5 0 (le_bytes 1 @ le_bytes 64) [9]))) = (Inr None, w') \<and> pendingFDs w' = [] \<and>
    trace w' = tr @ [Closed 9]"
  using keymap_unhandled [OF keymap_frame [of False "\<lambda>_. None"] holding_simps(3,2,1), where fd = 9 and later = "[]"]
  by auto



section \<open>Object IDs\<close>

text \<open>
  C15. Live IDs never collide: however many objects the application creates in a row, their IDs are
  distinct, none of them was in use, and exactly these IDs are added to the ones in use.
\<close>

theorem created_ids_distinct:
  assumes "wf_world w" "pool.acquire_many t m w = Some (ns, w')"
  shows "distinct ns \<and> set ns \<inter> client_ids w = {} \<and> client_ids w' = client_ids w \<union> set ns \<and> wf_world w'"
  by (rule pool.acquire_many_distinct [OF assms])

lemma New_fresh: "\<exists>w'. New t (fresh_client k) = (Inr (next_ref (fresh_client k)), w') \<and> wf_world w' \<and>
    id_of w' (next_ref (fresh_client k)) = 2 \<and> currentID w' = 2 \<and> freeIDs w' = []"
  by (rule New_outcome [OF fresh_wf, of k t])
    (auto simp: fresh_run firstServerID_def registered_as_def id_of_def word_le_nat_alt)

lemma create_fresh: "\<exists>w'. create t (fresh_client k) = Some (2, w') \<and> wf_world w' \<and> currentID w' = 2 \<and> freeIDs w' = []"
  using New_fresh [of t k] by (auto simp: create_def bnd_def ID_def deref_def id_of_def split: option.splits)

theorem created_ids_distinct_witness:
  "\<exists>w'. pool.acquire_many Callback 1 (fresh_client ()) = Some ([2], w') \<and> distinct [2 :: u32] \<and> wf_world w' \<and>
    client_ids w' = client_ids (fresh_client ()) \<union> {2}"
proof -
  obtain w' where "pool.acquire_many Callback 1 (fresh_client ()) = Some ([2], w')"
    using create_fresh [of Callback "()"] by auto
  from created_ids_distinct [OF fresh_wf this] this show ?thesis by auto
qed



text \<open>
  C17. Server IDs are checked: \<open>RegisterWithID\<close> panics on an ID of the client range and on an ID a live object holds,
  changing nothing, and otherwise, also over a zombie, it registers the proxy under the ID.
\<close>

theorem RegisterWithID_checked:
  assumes "wf_world w" "heap w r = Some p"
  shows "RegisterWithID r n w =
    (if n < firstServerID then (Inl (PanicFmt ''client: invalid server object ID '' n), w)
     else if live_at w n then (Inl (PanicFmt ''client: duplicate Wayland object ID '' n), w)
     else (Inr (), w\<lparr>objects := (objects w)(n := Some r), heap := (heap w)(r := Some (p\<lparr>px_id := n, px_ctx := True\<rparr>))\<rparr>))"
  using RegisterWithID_client_range [of n r w] RegisterWithID_duplicate [of n w r] RegisterWithID_ok [of w n r p]
    install_run [OF assms(2), of n] assms by (simp add: wf_world_def)

theorem RegisterWithID_checked_witness:
  "fst (RegisterWithID 0 7 (fresh_client ())) = Inl (PanicFmt ''client: invalid server object ID '' 7) \<and>
   fst (RegisterWithID 0 0xff000000 (fresh_client ())) = Inr ()"
  unfolding RegisterWithID_checked [OF fresh_wf fresh_run(4)]
  by (simp add: firstServerID_def live_at_def fresh_run)

text \<open>
  C18. A deleted ID is the next one used: after the compositor deletes an ordinary object, the next
  constructor takes over its ID for its own object and leaves the counter alone.
\<close>

theorem deleted_id_reused:
  assumes "wf_world w" "objects w n = Some q" "1 < n" "n < firstServerID"
  shows "\<exists>w'. New t (snd (DeleteID n w)) = (Inr (next_ref w), w') \<and> objects w' = (objects w)(n := Some (next_ref w)) \<and>
    id_of w' (next_ref w) = n \<and> currentID w' = currentID w \<and> freeIDs w' = freeIDs w \<and> wf_world w'"
proof -
  let ?v = "snd (DeleteID n w)"
  have v: "objects ?v = (objects w)(n := None)" "freeIDs ?v = freeIDs w @ [n]" "currentID ?v = currentID w"
    "next_ref ?v = next_ref w"
    using DeleteID_known [of w n] assms by simp_all
  have "wf_world ?v" by (rule keepsD [OF keeps_DeleteID assms(1)])
  then show ?thesis
    by (rule New_outcome [where t = t]) (use v in \<open>auto simp: registered_as_def id_of_def\<close>)
qed

theorem deleted_id_reused_witness:
  "\<exists>w w' :: unit world. create Output (fresh_client ()) = Some (2, w) \<and>
    New Callback (snd (DeleteID 2 w)) = (Inr (next_ref w), w') \<and> id_of w' (next_ref w) = 2 \<and> currentID w' = 2"
proof -
  obtain w where w: "create Output (fresh_client ()) = Some (2, w)" "wf_world w" "currentID w = 2"
    using create_fresh [of Output "()"] by auto
  have "2 \<in> client_ids w" using create_outcome [OF fresh_wf w(1)] by simp
  then obtain q where "objects w 2 = Some q" by (auto simp: client_ids_def)
  from deleted_id_reused [OF w(2) this, of Callback] w show ?thesis by (auto simp: firstServerID_def)
qed

section \<open>Descriptors and errors\<close>



text \<open>
  C20. Only valid frames reach the dispatcher: a message that \<open>ReadMsg\<close> accepts has a sender, a 16-bit opcode and a
  body that fits a 16-bit frame size and is a whole number of words, and it leaves no error behind.
\<close>

theorem ReadMsg_accepts_valid:
  assumes "ReadMsg E w = (Inr (sender, opcode, fd, body, None), w')"
  shows "sender \<noteq> 0 \<and> opcode \<le> 0xffff \<and> 4 dvd length body \<and> 8 + length body \<le> 65535 \<and> fatalErr w' = None"
proof (cases rule: ReadMsg_outcome [of w E])
  case (frame sender opcode fd body w1 w2)
  then show ?thesis using assms by (auto simp: read_frame_fields)
qed (use assms in auto)

theorem ReadMsg_accepts_valid_witness:
  "\<exists>fd w'. ReadMsg stream_env (holding Keyboard 5 False (\<lambda>_. None)
      (stream_of (frame_chunks 5 0 (le_bytes 1 @ le_bytes 64) [9]))) = (Inr (5, 0, fd, le_bytes 1 @ le_bytes 64, None), w') \<and>
    fatalErr w' = None"
  using ReadMsg_arrives [OF keymap_frame [of False "\<lambda>_. None"] holding_simps(3)] ReadMsg_accepts_valid by blast

text \<open>
  C21. An idle timeout is not an error: when the read deadline passes with no byte of the next frame received,
  \<open>Dispatch\<close> returns \<open>ErrReadTimeout\<close> and changes nothing, so the next call starts over.
\<close>

theorem idle_deadline_benign:
  assumes "fatalErr w = None" "recvmsg E (conn w) 8 = (rc, k)" "rc_n rc = 0" "rc_oobn rc = 0"
    and "rc_flags rc AND (MSG_CTRUNC OR MSG_TRUNC) = 0" "rc_err rc = Some e" "isDeadline e" "\<not> errors_is e EOF"
  shows "\<exists>x. Context_Dispatch M E w = (Inr (Some x), w\<lparr>conn := k\<rparr>) \<and> errors_is x ErrReadTimeout"
proof -
  have "read_loop E [] (replicate 8 0) w = ((copy_into (replicate 8 0) (rc_data rc), 0, Some e), w\<lparr>conn := k\<rparr>)"
    by (subst read_loop_unfold [where rc = rc and k = k and fe = None and ?w1.0 = "w\<lparr>conn := k\<rparr>"])
      (use assms in \<open>auto simp: receive_fds_def Let_def\<close>)
  then show ?thesis
    using assms(1,7) by (simp add: Context_Dispatch_def bnd_def ReadMsg_def readExact_def)
qed

theorem idle_deadline_benign_witness:
  "\<exists>x. Context_Dispatch generated stream_env (fresh_client (stream_of [])) = (Inr (Some x), fresh_client (stream_of [])) \<and>
    errors_is x ErrReadTimeout"
proof -
  have c: "(fresh_client (stream_of []))\<lparr>conn := stream_of []\<rparr> = fresh_client (stream_of [])"
    using fresh_run(8) [of "stream_of []"] by (metis world.surjective world.update_convs(6))
  show ?thesis
    using idle_deadline_benign [OF fresh_run(5) [where k = "stream_of []"], where E = stream_env and k = "stream_of []" and M = generated and
        rc = "\<lparr>rc_n = 0, rc_data = [], rc_oobn = 0, rc_oob = [], rc_flags = 0, rc_err = Some (OsError 11 True)\<rparr>"]
    by (simp add: c fresh_run stream_recv_def isDeadline_def)
qed

text \<open>
  C22. A timeout inside a frame is fatal: when the deadline passes after some but not all bytes of a header,
  the connection fails for good and every descriptor in the queue is closed, since the rest of the stream can
  no longer be framed.
\<close>

theorem split_frame_deadline_fatal:
  assumes "fatalErr w = None" "recvmsg E (conn w) 8 = (rc, k)" "0 < rc_n rc" "rc_n rc < 8" "rc_err rc = None"
    and "rc_flags rc AND (MSG_CTRUNC OR MSG_TRUNC) = 0" "rights_of E rc = Some fds"
    and "recvmsg E k (8 - rc_n rc) = (rc', k')" "rc_n rc' = 0" "rc_oobn rc' = 0"
    and "rc_flags rc' AND (MSG_CTRUNC OR MSG_TRUNC) = 0" "rc_err rc' = Some e" "isDeadline e" "\<not> errors_is e EOF"
    and "\<not> errors_is e ErrReadTimeout"
  shows "\<exists>x w' tr. Context_Dispatch M E w = (Inr (Some x), w') \<and> fatalErr w' = Some x \<and> pendingFDs w' = [] \<and>
    trace w' = tr @ map Closed (pendingFDs w @ fds)"
proof -
  let ?hdr = "replicate 8 0 :: bytes"
  obtain w1 where w1: "receive_fds E rc (w\<lparr>conn := k\<rparr>) = (None, w1)" "pendingFDs w1 = pendingFDs w @ fds" "conn w1 = k"
    using receive_fds_ok [OF assms(7), of "w\<lparr>conn := k\<rparr>"] by auto
  have f: "fatalErr w1 = None"
    using receive_fds_frame [of "w\<lparr>conn := k\<rparr>" E rc] w1(1) assms(1) by (simp add: read_frame_fields)
  let ?dn = "take (rc_n rc) (copy_into ?hdr (rc_data rc))" and ?dst = "drop (rc_n rc) (copy_into ?hdr (rc_data rc))"
  have d: "length ?dst = 8 - rc_n rc" "?dst \<noteq> []" "length ?dn = rc_n rc" using assms(4) by simp_all
  have first: "read_loop E [] ?hdr w = read_loop E ?dn ?dst w1"
    by (subst read_loop_unfold [OF _ _ w1(1)]) (use assms d(2) in \<open>simp_all add: Let_def\<close>)
  have "\<exists>b. read_loop E ?dn ?dst w1 = ((b, rc_n rc, Some e), w1\<lparr>conn := k'\<rparr>)"
    by (subst read_loop_unfold [where rc = rc' and k = k' and fe = None and ?w1.0 = "w1\<lparr>conn := k'\<rparr>"])
      (use assms d w1(3) in \<open>auto simp: receive_fds_def Let_def\<close>)
  then obtain b where "read_loop E [] ?hdr w = ((b, rc_n rc, Some e), w1\<lparr>conn := k'\<rparr>)" using first by auto
  then have "ReadMsg E w = read_fail (Errorf ''ctx.ReadMsg: header: %w'' [] [e]) (w1\<lparr>conn := k'\<rparr>)"
    using assms(1,3) by (simp add: ReadMsg_def readExact_def)
  then show ?thesis
    using f w1(2) assms(1,15) by (simp add: read_fail_run Context_Dispatch_def bnd_def setFatal_sticky)
qed

theorem split_frame_deadline_fatal_witness:
  "\<exists>x w' tr. Context_Dispatch generated stream_env (fresh_client (stream_of [([1, 0, 0], [9])])) = (Inr (Some x), w') \<and>
    fatalErr w' = Some x \<and> pendingFDs w' = [] \<and> trace w' = tr @ [Closed 9]"
proof -
  let ?rc = "\<lparr>rc_n = 3, rc_data = [1, 0, 0], rc_oobn = 1, rc_oob = [9], rc_flags = 0, rc_err = None\<rparr>"
  have "recvmsg stream_env (conn (fresh_client (stream_of [([1, 0, 0], [9])]))) 8 = (?rc, stream_of [])"
    by (simp add: fresh_run stream_recv_def)
  moreover have "rights_of stream_env ?rc = Some [9]" by (simp add: rights_of_def stream_env_def)
  ultimately show ?thesis
    using split_frame_deadline_fatal [OF fresh_run(5) [where k = "stream_of [([1, 0, 0], [9])]"], where E = stream_env and rc = ?rc and k = "stream_of []" and fds = "[9]" and M = generated and
        k' = "stream_of []" and rc' = "\<lparr>rc_n = 0, rc_data = [], rc_oobn = 0, rc_oob = [], rc_flags = 0, rc_err = Some (OsError 11 True)\<rparr>"]
    by (simp add: fresh_run stream_recv_def isDeadline_def)
qed

text \<open>
  C23. \<open>Dispatch\<close> returns a read error as \<open>ReadMsg\<close> recorded it: the error it would wrap with
  \<open>ErrDispatchUnableToReadMsg\<close> is dropped, because \<open>ReadMsg\<close> has already stored its own.
\<close>

theorem Dispatch_read_error:
  assumes "fatalErr w = None" "ReadMsg E w = (Inr (sender, opcode, fd, body, Some e), w')" "\<not> errors_is e ErrReadTimeout"
  shows "Context_Dispatch M E w = (Inr (Some e), w')"
proof (cases rule: ReadMsg_outcome [of w E])
  case (fatal e w1)
  then show ?thesis using assms by (simp add: Context_Dispatch_def bnd_def setFatal_sticky)
qed (use assms in auto)

lemma zero_sender:
  "\<exists>w'. ReadMsg stream_env (fresh_client (stream_of [(frame_header 0 0 8, [])])) =
    (Inr (0, 0, -1, [], Some (Errorf ''ctx.ReadMsg: sender ID is zero'' [] [])), w')"
proof -
  let ?h = "frame_header 0 0 8" and ?w = "fresh_client (stream_of [(frame_header 0 0 8, [])])"
  have "?h \<noteq> []" using length_frame_header [of 0 0 8] by (metis list.size(3) zero_neq_numeral)
  then have "delivers stream_env (stream_of [(?h, [])]) ?h [] (stream_of [])"
    using stream_delivers [where cs = "[(?h, [])]" and k = "stream_of []" and rest = "[]"] by simp
  from read_loop_delivers [OF this fresh_run(8), of "replicate 8 0" "[]"] obtain w1 where
    "read_loop stream_env [] (replicate 8 0) ?w = ((?h, 8, None), w1)" by auto
  then have r: "readExact stream_env (replicate 8 0) ?w = ((?h, 8, None), w1)" by (simp only: readExact_def)
  have "fatalErr w1 = None"
    using read_loop_frame [of ?w stream_env "[]" "replicate 8 0"] r by (simp add: read_frame_fields readExact_def fresh_run)
  then show ?thesis
    using r by (simp add: ReadMsg_def fresh_run read_frame_of_def read_fail_run)
qed

theorem Dispatch_read_error_witness:
  "\<exists>w'. Context_Dispatch generated stream_env (fresh_client (stream_of [(frame_header 0 0 8, [])])) =
    (Inr (Some (Errorf ''ctx.ReadMsg: sender ID is zero'' [] [])), w')"
proof -
  obtain w' where "ReadMsg stream_env (fresh_client (stream_of [(frame_header 0 0 8, [])])) =
      (Inr (0, 0, -1, [], Some (Errorf ''ctx.ReadMsg: sender ID is zero'' [] [])), w')"
    using zero_sender by blast
  from Dispatch_read_error [OF fresh_run(5) this, of generated] show ?thesis by auto
qed

text \<open>
  C24. An event for an unknown sender is fatal and leaks nothing: the connection fails with
  \<open>ErrDispatchSenderNotFound\<close>, no handler runs, and every descriptor that was queued or came with the event is closed, once.
\<close>

theorem unknown_sender_fatal:
  assumes "arrives E w n opcode body fds k" "fatalErr w = None" "objects w n = None"
    and "\<forall>fd\<in>set (pendingFDs w @ fds). 0 \<le> fd"
  shows "\<exists>e w' tr. Context_Dispatch M E w = (Inr (Some e), w') \<and> errors_is e ErrDispatchSenderNotFound \<and>
    fatalErr w' = Some e \<and> pendingFDs w' = [] \<and> trace w' = tr @ map Closed (pendingFDs w @ fds) \<and>
    handled (trace w') = handled (trace w)"
proof -
  let ?q = "pendingFDs w @ fds"
  obtain w1 where r: "ReadMsg E w = (Inr (n, opcode, head_fd ?q, body, None), w1)"
    and w1: "pendingFDs w1 = tl ?q" "read_frame w w1"
    using ReadMsg_arrives [OF assms(1,2)] by blast
  have h: "objects w1 n = None" "fatalErr w1 = None" using w1(2) assms(2,3) by (simp_all add: read_frame_fields)
  have "handled (trace w1) = handled (trace w)"
    using keepsD' [OF ReadMsg_quiet r, of "handled (trace w)"] by (simp add: quiet_def)
  moreover have "map Closed ?q = (if head_fd ?q < 0 then [] else [Closed (head_fd ?q)]) @ map Closed (tl ?q)"
    using assms(4) by (cases ?q) (auto simp: head_fd_def)
  ultimately show ?thesis
    using r h w1(1) assms(2)
    by (simp add: Context_Dispatch_def bnd_def lookupProxy_def andthen_def closeReceivedFD_run setFatal_first)
qed

theorem unknown_sender_fatal_witness:
  "\<exists>e w' tr. Context_Dispatch generated stream_env (fresh_client (stream_of (frame_chunks 5 0 (le_bytes 1) [9]))) = (Inr (Some e), w') \<and>
    errors_is e ErrDispatchSenderNotFound \<and> trace w' = tr @ [Closed 9]"
  using unknown_sender_fatal [OF frame_arrives [of "le_bytes 1" "[9]" 5 0 "fresh_client (stream_of (frame_chunks 5 0 (le_bytes 1) [9]))" "[]"],
      where M = generated]
  by (simp add: fresh_run) blast



section \<open>Objects and requests\<close>

text \<open>
  C26. Destroying an object always marks it, and frees nothing: whatever the destructor request returns, also when it fails or
  panics, the proxy is a zombie afterwards, and its ID stays taken until the compositor deletes it.
\<close>

theorem destroyed_is_zombie:
  assumes "m \<in> set (destructor_requests E i @ local_destructors i)" "heap w i = Some p"
  shows "heap (snd (m w)) i = Some (p\<lparr>px_zombie := True\<rparr>) \<and> objects (snd (m w)) = objects w \<and> freeIDs (snd (m w)) = freeIDs w"
proof -
  from assms(1) consider opcode where "m = with_defer (MarkZombie i) (request E i opcode 8 [] [])"
    | "m = andthen (MarkZombie i) (ret None)"
    using destructor_request_form local_destructor_form by (metis Un_iff set_append)
  then show ?thesis
  proof cases
    case 1
    then show ?thesis using deferred_zombie [OF assms(2), of E opcode 8 "[]" "[]"] by (auto simp: same_tables_def)
  qed (use assms(2) in \<open>simp add: andthen_def bnd_def MarkZombie_run\<close>)
qed

theorem destroyed_is_zombie_witness:
  "heap (snd (Surface_Destroy stream_env 1 ((holding Surface 4 False (\<lambda>_. None) (stream_of []))\<lparr>fatalErr := Some (Sentinel EOF)\<rparr>))) 1 =
    Some \<lparr>px_type = Surface, px_ctx = True, px_id = 4, px_zombie = True, px_handlers = (\<lambda>_. None)\<rparr>"
proof -
  have "Surface_Destroy stream_env 1 \<in> set (destructor_requests stream_env 1 @ local_destructors 1)"
    by (simp add: destructor_requests_def)
  from destroyed_is_zombie [OF this, of "(holding Surface 4 False (\<lambda>_. None) (stream_of []))\<lparr>fatalErr := Some (Sentinel EOF)\<rparr>"]
  show ?thesis using holding_simps(1) [of Surface 4 False "\<lambda>_. None" "stream_of []"] by simp
qed




section \<open>Encodings\<close>

text \<open>Padding is exact: \<open>PaddedLen l\<close> is the least multiple of four that is not below \<open>l\<close>, and at most three above it.\<close>

theorem PaddedLen_least_multiple:
  shows "l \<le> PaddedLen l \<and> 4 dvd PaddedLen l \<and> PaddedLen l < l + 4 \<and> PaddedLen l = Min {m \<in> {l..l + 3}. 4 dvd m}"
proof -
  have "Min {m \<in> {l..l + 3}. 4 dvd m} = PaddedLen l"
    by (rule Min_eqI) (use PaddedLen_least [of l] PaddedLen_ge [of l] PaddedLen_lt [of l] in auto)
  then show ?thesis using PaddedLen_ge [of l] PaddedLen_lt [of l] by simp
qed

text \<open>
  C28. Strings round trip: a string without NUL written by \<open>PutString\<close> into the zeroed space the request reserves for it
  is read back unchanged by the event decoder, at any offset and whatever follows, and the reader stops at the padded end.
\<close>

theorem string_round_trip:
  assumes "0 \<notin> set s" "length s + 1 < 2 ^ 32"
  shows "\<exists>b. PutString (replicate (4 + str_len s) 0) s = Inr b \<and> length b = 4 + str_len s \<and>
    get_string (pre @ b @ post) (length pre) = Inr (s, length pre + 4 + str_len s)"
proof -
  let ?pad = "replicate (str_len s - (length s + 1)) 0 :: bytes"
  have "drop (5 + length s) (replicate (4 + str_len s) 0) = ?pad" by simp
  then have "PutString (replicate (4 + str_len s) 0) s = Inr (le_bytes (of_nat (length s + 1)) @ s @ 0 # ?pad)"
    using PutString_value [of s "replicate (4 + str_len s) 0"] str_len_ge [of s] by simp
  then show ?thesis
    using get_string_at [OF assms, of ?pad pre post] str_len_ge [of s] by (simp add: str_len_def)
qed

theorem string_round_trip_witness:
  "\<exists>b. PutString (replicate 12 0) [119, 108, 95, 115] = Inr b \<and> get_string (b @ [3]) 0 = Inr ([119, 108, 95, 115], 12)"
  using string_round_trip [of "[119, 108, 95, 115]" "[]" "[3]"] by (auto simp: str_len_def PaddedLen_alt)

text \<open>
  C29. Fixed-point numbers round trip: every 24.8 wire value decodes to its exact value, a signed count of 256ths,
  and encoding that number gives the same four bytes back.
\<close>

theorem fixed_round_trips:
  shows "fixedToFloat64 f = of_int (sint f) / 256 \<and> fixedFromfloat64 (fixedToFloat64 f) = f \<and>
    PutFixed (le_bytes 0) (fixedToFloat64 f) = Inr (le_bytes f) \<and> Fixed (le_bytes f @ rest) = Inr (fixedToFloat64 f)"
  by (intro conjI fixedToFloat64_value) (simp_all add: fixed_round_trip PutFixed_def PutUint32_def Fixed_def)

text \<open>
  C30. Encoding a number rounds to the nearest 256th: for every number in the range of the wire format the value that arrives
  differs from it by at most a 512th.
\<close>

theorem fixed_rounds_to_nearest:
  assumes "- (2 ^ 23) \<le> d" "d \<le> 2 ^ 23 - 1 / 256"
  shows "\<bar>fixedToFloat64 (fixedFromfloat64 d) - d\<bar> \<le> 1 / 512"
proof -
  have b: "- (2 ^ 31) \<le> round_he (256 * d)" "round_he (256 * d) \<le> 2 ^ 31 - 1"
    using round_he_bounds [of "- (2 ^ 31)" "256 * d" "2 ^ 31 - 1"] assms by auto
  have "fixedFromfloat64 d = word_of_int (round_he (256 * d))"
    by (rule fixedFromfloat64_round) (use assms in auto)
  moreover have "sint (word_of_int (round_he (256 * d)) :: 32 word) = round_he (256 * d)"
    using b by (simp add: sint_sbintrunc' signed_take_bit_int_eq_self)
  ultimately have "of_int (round_he (256 * d)) - 256 * d = 256 * (fixedToFloat64 (fixedFromfloat64 d) - d)"
    by (simp add: fixedToFloat64_value)
  then show ?thesis using round_he_near [of "256 * d"] by (simp only: abs_mult) simp
qed

theorem fixed_rounds_to_nearest_witness: "\<bar>fixedToFloat64 (fixedFromfloat64 (1 / 3)) - 1 / 3\<bar> \<le> 1 / 512"
  by (rule fixed_rounds_to_nearest) simp_all

section \<open>Roundtrip\<close>

text \<open>
  C31. \<open>Roundtrip\<close> completes: when the request is sent and the compositor answers with the callback's done event, in any
  number of fragments, \<open>Roundtrip\<close> returns nil, keeps every descriptor that arrived meanwhile and leaves the callback destroyed.
\<close>

theorem Roundtrip_completes:
  assumes "wf_world w" "Display_Sync E i w = (Inr (cb, None), w1)"
    and "arrives E w1 (id_of w1 cb) 0 (le_bytes v) fds k" "\<forall>fd\<in>set (pendingFDs w @ fds). 0 \<le> fd"
  shows "\<exists>w'. Roundtrip E i w = Some (Inr None, w') \<and> conn w' = k \<and> pendingFDs w' = pendingFDs w @ fds \<and>
    (\<exists>p. heap w' cb = Some p \<and> px_zombie p) \<and> fatalErr w' = None"
  by (rule Roundtrip_replied [OF assms])

text \<open>A client whose compositor has the done event of the first callback waiting.\<close>

abbreviation "answered \<equiv> fresh_client (stream_of (frame_chunks 2 0 (le_bytes 0) []))"

lemma answered_sync:
  "\<exists>w1. Display_Sync stream_env 0 answered = (Inr (1, None), w1) \<and> id_of w1 1 = 2 \<and> chunks (conn w1) = frame_chunks 2 0 (le_bytes 0) []"
proof -
  obtain w' where n: "New Callback answered = (Inr 1, w')" and w': "id_of w' 1 = 2"
    "registered_as 1 (new_proxy Callback) 2 (after_alloc Callback answered) w'"
    by (rule New_outcome [OF fresh_wf, of "stream_of (frame_chunks 2 0 (le_bytes 0) [])" Callback])
      (auto simp: fresh_run firstServerID_def registered_as_def id_of_def word_le_nat_alt)
  have h: "heap w' 0 = Some (new_proxy Display\<lparr>px_id := 1, px_ctx := True\<rparr>)" "heap w' 1 \<noteq> None" "fatalErr w' = None"
    "conn w' = stream_of (frame_chunks 2 0 (le_bytes 0) [])"
    using w'(2) registered_as_frame [OF w'(2)] by (simp_all add: registered_as_def after_alloc_def fresh_run)
  have ok: "\<forall>p\<in>set [PId (Some 1)]. put_ok w' p" using h(2) by simp
  have v: "valid_frame (request_frame w' 1 0 [PId (Some 1)])" using request_frame_valid [OF ok] by simp
  have "request stream_env 0 0 12 [PId (Some 1)] [] w' = WriteMsg stream_env (request_frame w' 1 0 [PId (Some 1)]) [] w'"
    using request_run [OF h(1) _ ok, of 12 stream_env 0 "[]"] by simp
  also note stream_write [OF h(3) v]
  finally show ?thesis
    using n w'(1) h fresh_run(4) [of "stream_of (frame_chunks 2 0 (le_bytes 0) [])"]
    by (simp add: Display_Sync_def andthen_def bnd_def Context_of_def deref_def id_of_def)
qed

theorem Roundtrip_completes_witness: "\<exists>w'. Roundtrip stream_env 0 answered = Some (Inr None, w') \<and> fatalErr w' = None"
proof -
  obtain w1 where w1: "Display_Sync stream_env 0 answered = (Inr (1, None), w1)" "id_of w1 1 = 2"
    "chunks (conn w1) = frame_chunks 2 0 (le_bytes 0) []"
    using answered_sync by blast
  have "arrives stream_env w1 (id_of w1 1) 0 (le_bytes 0) (map uint ([] :: byte list)) ((conn w1)\<lparr>chunks := []\<rparr>)"
    unfolding w1(2) by (rule frame_arrives) (simp_all add: w1(3))
  from Roundtrip_completes [OF fresh_wf w1(1) this] show ?thesis by (auto simp: fresh_run)
qed


section \<open>Connecting\<close>

text \<open>
  C33. \<open>Connect\<close> finds the compositor's socket: without an inherited socket, a plain display name, given, or from
  \<open>WAYLAND_DISPLAY\<close>, or \<open>wayland-0\<close> by default, is dialled in the runtime directory, an absolute name is dialled as it is, and a relative name
  without a runtime directory is an error before anything is dialled. The new client's context is fresh and its display has ID 1.
\<close>

theorem Connect_resolves:
  assumes "addr \<noteq> [] \<or> env_vars h ''WAYLAND_SOCKET'' = None"
    and "name = (if addr \<noteq> [] then addr else case env_vars h ''WAYLAND_DISPLAY'' of None \<Rightarrow> ''wayland-0''
      | Some d \<Rightarrow> if d = [] then ''wayland-0'' else d)"
    and "path = (if IsAbs name then Some name else case env_vars h ''XDG_RUNTIME_DIR'' of None \<Rightarrow> None
      | Some d \<Rightarrow> if d = [] then None else Some (d @ ''/'' @ name))"
    and "IsAbs name \<or> plain_name name"
    and "\<And>d. env_vars h ''XDG_RUNTIME_DIR'' = Some d \<Longrightarrow> d = [] \<or> (\<exists>cs. cs \<noteq> [] \<and> (\<forall>c\<in>set cs. plain_name c) \<and> d = ''/'' @ join_slash cs)"
  shows "Connect C addr h = (case path of None \<Rightarrow> (Inl (Errorf ''env XDG_RUNTIME_DIR not set'' [] []), h)
    | Some p \<Rightarrow> (case DialUnix C p of Inl e \<Rightarrow> (Inl e, h) | Inr k \<Rightarrow> (Inr (0, fresh_client k), h)))"
proof -
  have "Join d name = d @ ''/'' @ name" if d: "env_vars h ''XDG_RUNTIME_DIR'' = Some d" "d \<noteq> []" "\<not> IsAbs name" for d
  proof -
    obtain cs where "cs \<noteq> []" "\<forall>c\<in>set cs. plain_name c" "d = ''/'' @ join_slash cs" using assms(5) [OF d(1)] d(2) by blast
    then show ?thesis using Join_plain [of cs name] assms(4) d(3) by simp
  qed
  moreover have "Connect C addr h =
    (let rd = (case env_vars h ''XDG_RUNTIME_DIR'' of None \<Rightarrow> [] | Some v \<Rightarrow> v) in
     if \<not> IsAbs name \<and> rd = [] then (Inl (Errorf ''env XDG_RUNTIME_DIR not set'' [] []), h)
     else case DialUnix C (if IsAbs name then name else Join rd name) of Inl err \<Rightarrow> (Inl err, h) | Inr k \<Rightarrow> (Inr (new_client k), h))"
    using assms(1) unfolding assms(2) by (cases "env_vars h ''WAYLAND_DISPLAY''") (auto simp: Connect_def Let_def)
  ultimately show ?thesis
    unfolding assms(3) by (cases "env_vars h ''XDG_RUNTIME_DIR''") (auto simp: Let_def new_client_value split: sum.splits)
qed

theorem Connect_resolves_witness:
  "Connect \<lparr>DialUnix = (\<lambda>p. if p = ''/run/user/1000/wayland-0'' then Inr p else Inl (Sentinel EOF)), NewFile = (\<lambda>_. True),
      FileConn = (\<lambda>_. Inl (Sentinel EOF)), FileClose = (\<lambda>_. None), Unsetenv = (\<lambda>_. None), is_unix = (\<lambda>_. True)\<rparr> []
      \<lparr>env_vars = [''XDG_RUNTIME_DIR'' \<mapsto> ''/run/user/1000''], host_log = []\<rparr> =
    (Inr (0, fresh_client ''/run/user/1000/wayland-0''), \<lparr>env_vars = [''XDG_RUNTIME_DIR'' \<mapsto> ''/run/user/1000''], host_log = []\<rparr>)"
proof -
  have "''/run/user/1000'' = ''/'' @ join_slash [''run'', ''user'', ''1000'']" by simp
  moreover have "\<forall>c\<in>set [''run'', ''user'', ''1000'']. plain_name c" by (simp add: plain_name_def)
  ultimately have r: "\<exists>cs. cs \<noteq> [] \<and> (\<forall>c\<in>set cs. plain_name c) \<and> ''/run/user/1000'' = ''/'' @ join_slash cs" by blast
  have n: "plain_name ''wayland-0''" by (simp add: plain_name_def)
  show ?thesis
    by (subst Connect_resolves [where name = "''wayland-0''" and path = "Some ''/run/user/1000/wayland-0''"])
      (use r n in \<open>auto simp: IsAbs_def\<close>)
qed

text \<open>
  C34. An inherited socket is adopted once: with a valid \<open>WAYLAND_SOCKET\<close> the inherited descriptor is closed exactly once and the
  variable is removed, whether or not it becomes the connection; a connection that was made but is not returned is closed too, and
  the client is returned exactly when the descriptor is a Unix stream socket and nothing failed.
\<close>

theorem inherited_socket_adopted_once:
  assumes "env_vars h ''WAYLAND_SOCKET'' = Some value" "Atoi value = Some fd" "0 \<le> fd" "NewFile C fd"
    and "Unsetenv C ''WAYLAND_SOCKET'' = None" "Connect C [] h = (r, h')"
  shows "env_vars h' = (env_vars h)(''WAYLAND_SOCKET'' := None) \<and>
    host_log h' = host_log h @ FileClosed fd # (case FileConn C fd of Inl e \<Rightarrow> []
      | Inr k \<Rightarrow> if FileClose C fd = None \<and> is_unix C k then [] else [ConnClosed k]) \<and>
    (\<forall>d w. r = Inr (d, w) \<longleftrightarrow> (\<exists>k. FileConn C fd = Inr k \<and> FileClose C fd = None \<and> is_unix C k \<and> d = 0 \<and> w = fresh_client k))"
proof -
  obtain q h1 where u: "unixConnFromFD C fd h = (q, h1)" by fastforce
  have l: "env_vars h1 = env_vars h" "host_log h1 = host_log h @ FileClosed fd # (case FileConn C fd of Inl e \<Rightarrow> []
      | Inr k \<Rightarrow> if FileClose C fd = None \<and> is_unix C k then [] else [ConnClosed k])"
    using unixConnFromFD_log [OF assms(4), of h] u by simp_all
  have q: "q = Inr k \<longleftrightarrow> FileConn C fd = Inr k \<and> FileClose C fd = None \<and> is_unix C k" for k
    using u assms(4) by (auto simp: unixConnFromFD_def Let_def split: sum.splits option.splits if_splits)
  show ?thesis
  proof (cases q)
    case (Inl e)
    then show ?thesis using assms(6) u l q by (auto simp: Connect_socket [OF assms(1-3)] unset_def assms(5))
  next
    case (Inr b)
    then show ?thesis using assms(6) u l q [of b] by (auto simp: Connect_socket [OF assms(1-3)] unset_def assms(5) new_client_value)
  qed
qed

theorem inherited_socket_adopted_once_witness:
  "\<exists>h'. Connect \<lparr>DialUnix = (\<lambda>p. Inl (Sentinel EOF)), NewFile = (\<lambda>_. True), FileConn = Inr, FileClose = (\<lambda>_. None),
      Unsetenv = (\<lambda>_. None), is_unix = (\<lambda>_. True)\<rparr> [] \<lparr>env_vars = [''WAYLAND_SOCKET'' \<mapsto> ''7''], host_log = []\<rparr> =
      (Inr (0, fresh_client 7), h') \<and> host_log h' = [FileClosed 7] \<and> env_vars h' ''WAYLAND_SOCKET'' = None"
proof -
  let ?C = "\<lparr>DialUnix = (\<lambda>p. Inl (Sentinel EOF)), NewFile = (\<lambda>_. True), FileConn = Inr, FileClose = (\<lambda>_. None),
      Unsetenv = (\<lambda>_. None), is_unix = (\<lambda>_. True)\<rparr>"
  let ?h = "\<lparr>env_vars = [''WAYLAND_SOCKET'' \<mapsto> ''7''], host_log = []\<rparr>"
  obtain r h' where c: "Connect ?C [] ?h = (r, h')" by fastforce
  have "Atoi ''7'' = Some 7" by code_simp
  from inherited_socket_adopted_once [OF _ this _ _ _ c] show ?thesis using c by auto
qed

text \<open>
  C35. The enum methods are faithful: for every enum of the bindings the \<open>Value\<close> string of a constant denotes its number, no two
  constants share a name, and a value that is not a constant has neither a name nor a value string.
\<close>

theorem enum_methods_faithful:
  assumes "(cs, name, value) \<in> set enum_methods" "uint e \<in> snd ` set cs"
  shows "literal_val (value e) = Some (uint e) \<and>
    (\<forall>e'. (uint e' \<notin> snd ` set cs \<longrightarrow> name e' = [] \<and> value e' = []) \<and> (uint e' \<in> snd ` set cs \<longrightarrow> name e' = name e \<longrightarrow> e' = e))"
proof -
  obtain ns vs where t: "(cs, ns, vs) \<in> set enum_tables" "name = switch ns" "value = switch vs"
    using assms(1) unfolding method_tables by auto
  have "enum_ok (cs, ns, vs)" using enums_ok t(1) by (auto simp: list_all_iff)
  from enum_ok_methods [OF this] show ?thesis using t(2,3) assms(2) by blast
qed

theorem enum_methods_faithful_witness:
  "literal_val (DisplayError_Value 2) = Some 2 \<and> DisplayError_Name 9 = []"
proof -
  have "(DisplayError_consts, DisplayError_Name, DisplayError_Value) \<in> set enum_methods" by (simp add: enum_methods_def)
  from enum_methods_faithful [OF this, of 2] show ?thesis by (auto simp: DisplayError_consts_def)
qed





text \<open>
  \<open>ControlFD\<close> hides no error: the callback runs on the socket's descriptor, the result is nil exactly when neither the runtime nor the callback
  failed, and an error of either can be found in it with \<open>errors.Is\<close>.
\<close>

theorem ControlFD_joins_errors:
  assumes "SyscallConn S (conn w) = Inr raw" "rw_control raw w = (Some fd, controlErr)" "fn fd w = (Inr callbackErr, w')"
  shows "\<exists>r. ControlFD S (Some fn) w = (Inr r, w') \<and> (r = None \<longleftrightarrow> controlErr = None \<and> callbackErr = None) \<and>
    (\<forall>s. (\<exists>e. r = Some e \<and> errors_is e s) \<longleftrightarrow>
      (\<exists>e. controlErr = Some e \<and> errors_is e s) \<or> (\<exists>e. callbackErr = Some e \<and> errors_is e s))"
  using controlFD_called [where fn = fn, OF assms(2,3)] errors_join_is [of controlErr callbackErr] assms(1)
  by (simp add: ControlFD_def)

theorem ControlFD_joins_errors_witness:
  "\<exists>r. ControlFD \<lparr>SyscallConn = (\<lambda>k. Inr \<lparr>rw_control = (\<lambda>w. (Some 3, None))\<rparr>), set_deadline = (\<lambda>k t. (None, k))\<rparr>
      (Some (\<lambda>fd. ret (if fd = 3 then Some (Sentinel EOF) else None))) (fresh_client ()) = (Inr r, fresh_client ()) \<and> r \<noteq> None"
proof -
  let ?raw = "\<lparr>rw_control = (\<lambda>w. (Some 3, None))\<rparr>"
  let ?S = "\<lparr>SyscallConn = (\<lambda>k. Inr ?raw), set_deadline = (\<lambda>k t. (None, k))\<rparr>"
  let ?fn = "\<lambda>fd. ret (if fd = 3 then Some (Sentinel EOF) else None)"
  have "SyscallConn ?S (conn (fresh_client ())) = Inr ?raw" "rw_control ?raw (fresh_client ()) = (Some 3, None)"
    "?fn 3 (fresh_client ()) = (Inr (Some (Sentinel EOF)), fresh_client ())" by simp_all
  from ControlFD_joins_errors [where fn = ?fn, OF this] show ?thesis by auto
qed

section \<open>The scanner\<close>


definition plain_arg :: "string \<Rightarrow> string \<Rightarrow> string \<Rightarrow> arg" where
  "plain_arg n t iface = \<lparr>a_Name = n, a_Type = t, a_Summary = [], a_Interface = iface,
     a_Description = \<lparr>d_Text = [], d_Summary = []\<rparr>, a_AllowNull = False\<rparr>"

definition plain_message :: "string \<Rightarrow> arg list \<Rightarrow> message" where
  "plain_message n as = \<lparr>m_Name = n, m_Type = [], m_Description = \<lparr>d_Text = [], d_Summary = []\<rparr>, m_Args = as\<rparr>"

definition plain_config :: config where
  "plain_config = \<lparr>protocol = \<lparr>p_Name = ''wayland'', p_Copyright = [], p_Interfaces = []\<rparr>, cf_prefix = [], cf_suffix = [],
     ToCamel = (\<lambda>s. s), ToLowerCamel = (\<lambda>s. s), Synopsis = (\<lambda>s. s)\<rparr>"

definition plain_interface :: "message list \<Rightarrow> message list \<Rightarrow> interface" where
  "plain_interface rs es = \<lparr>i_Name = ''plain'', i_Description = \<lparr>d_Text = [], d_Summary = []\<rparr>, i_Requests = rs, i_Events = es, i_Enums = []\<rparr>"


text \<open>
  C38. The scanner generates correct dispatchers. For every interface of every protocol description with at most one descriptor per
  event, the generated \<open>switch\<close> decodes every argument of an event with its reader, in order, and calls the event's handler once
  (\<open>intended_dispatch\<close>); and it meets the contract of the client with the descriptor that the generated \<open>HasFD\<close> asks for: a normal return
  has passed it to a handler or closed it, a panic leaves it with the caller, and the context stays well formed.
\<close>

theorem generated_dispatcher_correct:
  assumes "handlers_return E" "handlers_wf E"
    and "list_all (well_formed_event c types) (i_Events v)" "list_all (well_formed_fds c v) (i_Events v)"
    and "exec_HasFD v opcode \<Longrightarrow> -1 \<le> fd" "\<not> exec_HasFD v opcode \<Longrightarrow> fd < 0"
  shows "exec_dispatch E c types i v opcode fd data = intended_dispatch E c types i v opcode fd data \<and>
    owns fd (exec_dispatch E c types i v opcode fd data) \<and> keeps wf_world (exec_dispatch E c types i v opcode fd data)"
  using dispatch_correct [OF assms(3)] exec_dispatch_owns [OF assms(1,3-6)] exec_dispatch_wf [OF assms(2,3)] by blast

theorem generated_dispatcher_correct_witness:
  "let v = plain_interface [] [plain_message ''keymap'' [plain_arg ''format'' ''uint'' [], plain_arg ''fd'' ''fd'' []]] in
   exec_HasFD v 0 \<and> owns 5 (exec_dispatch stream_env plain_config (\<lambda>_. None) 3 v 0 5 [1, 0, 0, 0])"
proof -
  let ?v = "plain_interface [] [plain_message ''keymap'' [plain_arg ''format'' ''uint'' [], plain_arg ''fd'' ''fd'' []]]"
  have e: "list_all (well_formed_event plain_config (\<lambda>_. None)) (i_Events ?v)" "list_all (well_formed_fds plain_config ?v) (i_Events ?v)"
    by (simp_all add: plain_interface_def plain_message_def plain_arg_def well_formed_event_def well_formed_fds_def arg_types_def
        toCamel_def TrimPrefix_def TrimSuffix_def HasPrefix_def HasSuffix_def plain_config_def is_fd_def isDeleteID_def isDisplayError_def)
  have h: "exec_HasFD ?v 0"
    by (simp add: exec_HasFD_iff plain_interface_def plain_message_def plain_arg_def has_fd_def is_fd_def)
  have f: "exec_HasFD ?v 0 \<Longrightarrow> -1 \<le> (5 :: int)" "\<not> exec_HasFD ?v 0 \<Longrightarrow> (5 :: int) < 0"
    using h by simp_all
  from generated_dispatcher_correct [OF stream_handlers(2,1) e f] h show ?thesis
    unfolding Let_def by blast
qed

section \<open>The checked-in bindings\<close>





section \<open>The generator command\<close>











end
